(* ===== verification/Py_Prelude.thy ===== *)
theory Py_Prelude
  imports
    Complex_Main
    "HOL-Library.AList"
    "HOL-Library.Char_ord"
    "HOL-Library.List_Lexorder"
    "HOL-Library.Sublist"
begin

text \<open>
  The part of Python the repository is written in, shared by every component:
  dynamically typed values (what \<^verbatim>\<open>json\<close> yields and what \<^verbatim>\<open>dict[str, Any]\<close> holds),
  insertion-ordered dictionaries, text, rounding, and the exceptions that conversions raise.

  Conventions of the whole development.
  \<^item> Text is a list of characters. The program exchanges ASCII text, so encoding to bytes is
    the identity and case mapping is the ASCII one.
  \<^item> A float is an exact rational: every finite double is one. Rounding of single operations,
    infinities and NaN are outside the model; a conversion that would yield one of the latter
    gives the error value \<open>NonFinite\<close>, which no handler of the program catches.
  \<^item> A dictionary is an association list in insertion order; assignment is \<open>AList.update\<close>,
    which replaces in place or appends, as Python does, and \<open>pop\<close> is \<open>AList.delete\<close>.
  \<^item> An exception is a value on the left of a sum.
\<close>

section \<open>Collections of facts\<close>

named_theorems py_eval \<open>unfolding rules for Python primitives on concrete data\<close>
named_theorems result_simps \<open>facts about the error sum\<close>

section \<open>Exceptions\<close>

datatype pyerr = TypeError | ValueError | AttributeError | KeyError | IndexError | NonFinite

type_synonym 'a pyres = "pyerr + 'a"

definition rbind :: "'e + 'a \<Rightarrow> ('a \<Rightarrow> 'e + 'b) \<Rightarrow> 'e + 'b" where
  "rbind m f = (case m of Inl e \<Rightarrow> Inl e | Inr x \<Rightarrow> f x)"

lemma rbind_Inl [simp, result_simps]: "rbind (Inl e) f = Inl e"
  by (simp add: rbind_def)

lemma rbind_Inr [simp, result_simps]: "rbind (Inr x) f = f x"
  by (simp add: rbind_def)

lemma rbind_eq_Inr [result_simps]: "rbind m f = Inr y \<longleftrightarrow> (\<exists>x. m = Inr x \<and> f x = Inr y)"
  by (cases m) simp_all

lemma rbind_eq_Inl [result_simps]:
  "rbind m f = Inl e \<longleftrightarrow> m = Inl e \<or> (\<exists>x. m = Inr x \<and> f x = Inl e)"
  by (cases m) simp_all

text \<open>A loop whose body may raise: the first exception ends it.\<close>

fun rmap :: "('a \<Rightarrow> 'e + 'b) \<Rightarrow> 'a list \<Rightarrow> 'e + 'b list" where
  "rmap f [] = Inr []"
| "rmap f (x # xs) = rbind (f x) (\<lambda>y. rbind (rmap f xs) (\<lambda>ys. Inr (y # ys)))"

fun rfold :: "('a \<Rightarrow> 's \<Rightarrow> 'e + 's) \<Rightarrow> 'a list \<Rightarrow> 's \<Rightarrow> 'e + 's" where
  "rfold f [] s = Inr s"
| "rfold f (x # xs) s = rbind (f x s) (rfold f xs)"

lemma rmap_Inr_length: "rmap f xs = Inr ys \<Longrightarrow> length ys = length xs"
  by (induction xs arbitrary: ys) (auto simp: result_simps)

lemma rmap_total: "(\<And>x. x \<in> set xs \<Longrightarrow> f x = Inr (g x)) \<Longrightarrow> rmap f xs = Inr (map g xs)"
  by (induction xs) auto

lemma rmap_set: "rmap f xs = Inr ys \<Longrightarrow> set ys = {y. \<exists>x \<in> set xs. f x = Inr y}"
  by (induction xs arbitrary: ys) (auto simp: result_simps)

lemma rmap_each: "rmap f xs = Inr ys \<Longrightarrow> x \<in> set xs \<Longrightarrow> \<exists>y. f x = Inr y"
  by (induction xs arbitrary: ys) (auto simp: result_simps)

lemma rfold_invariant:
  assumes "rfold f xs s = Inr t" and "P s"
    and "\<And>x s t. x \<in> set xs \<Longrightarrow> P s \<Longrightarrow> f x s = Inr t \<Longrightarrow> P t"
  shows "P t"
  using assms
proof (induction xs arbitrary: s)
  case Nil
  then show ?case by simp
next
  case (Cons x xs)
  from Cons.prems(1) obtain u where u: "f x s = Inr u" "rfold f xs u = Inr t"
    by (auto simp: result_simps)
  have "P u" using Cons.prems(2,3) u(1) by auto
  then show ?case using Cons.IH [OF u(2)] Cons.prems(3) by auto
qed

lemma rfold_skip:
  "(\<And>s. f b s = Inr s) \<Longrightarrow> rfold f (as @ b # bs) s = rfold f (as @ bs) s"
  by (induction as arbitrary: s) (auto simp: rbind_def split: sum.splits)

lemma rfold_append: "rfold f (as @ bs) s = rbind (rfold f as s) (rfold f bs)"
  by (induction as arbitrary: s) (auto simp: rbind_def split: sum.splits)

section \<open>Values\<close>

datatype pyval =
    PNone
  | PBool bool
  | PInt int
  | PFloat rat
  | PStr string
  | PList "pyval list"
  | PDict "(string \<times> pyval) list"

type_synonym pydict = "(string \<times> pyval) list"

text \<open>Truth value testing, and \<^verbatim>\<open>a or b\<close>.\<close>

fun truthy :: "pyval \<Rightarrow> bool" where
  "truthy PNone = False"
| "truthy (PBool b) = b"
| "truthy (PInt i) = (i \<noteq> 0)"
| "truthy (PFloat r) = (r \<noteq> 0)"
| "truthy (PStr s) = (s \<noteq> [])"
| "truthy (PList xs) = (xs \<noteq> [])"
| "truthy (PDict d) = (d \<noteq> [])"

definition py_or :: "pyval \<Rightarrow> pyval \<Rightarrow> pyval" where
  "py_or a b = (if truthy a then a else b)"

lemma py_or_simps [simp, py_eval]:
  "py_or PNone b = b" "py_or (PBool True) b = PBool True" "py_or (PBool False) b = b"
  "py_or (PStr []) b = b" "py_or (PStr (c # cs)) b = PStr (c # cs)"
  "py_or (PList []) b = b" "py_or (PList (x # xs)) b = PList (x # xs)"
  "py_or (PDict []) b = b" "py_or (PDict (kv # d)) b = PDict (kv # d)"
  by (simp_all add: py_or_def)

lemma py_or_Str_empty [simp]: "py_or (PStr s) (PStr []) = PStr s"
  by (cases s) simp_all

lemma py_or_Int_zero [simp]: "py_or (PInt i) (PInt 0) = PInt i"
  by (simp add: py_or_def)

lemma py_or_Int: "i \<noteq> 0 \<Longrightarrow> py_or (PInt i) b = PInt i"
  by (simp add: py_or_def)

lemma py_or_Float_zero [simp]: "py_or (PFloat r) (PFloat 0) = PFloat r"
  by (simp add: py_or_def)

fun is_dict :: "pyval \<Rightarrow> bool" where
  "is_dict (PDict d) = True"
| "is_dict _ = False"

section \<open>Dictionaries\<close>

definition dget :: "('k \<times> 'v) list \<Rightarrow> 'k \<Rightarrow> 'v \<Rightarrow> 'v" where
  "dget d k dflt = (case map_of d k of None \<Rightarrow> dflt | Some v \<Rightarrow> v)"

definition dhas :: "('k \<times> 'v) list \<Rightarrow> 'k \<Rightarrow> bool" where
  "dhas d k = (map_of d k \<noteq> None)"

definition dkeys :: "('k \<times> 'v) list \<Rightarrow> 'k list" where
  "dkeys d = map fst d"

text \<open>\<^verbatim>\<open>d.setdefault(k, v)\<close> as a statement.\<close>

definition dsetdefault :: "'k \<Rightarrow> 'v \<Rightarrow> ('k \<times> 'v) list \<Rightarrow> ('k \<times> 'v) list" where
  "dsetdefault k v d = (if dhas d k then d else d @ [(k, v)])"

definition wf_dict :: "('k \<times> 'v) list \<Rightarrow> bool" where
  "wf_dict d = distinct (map fst d)"

lemma dget_Nil [simp]: "dget [] k v = v"
  by (simp add: dget_def)

lemma dget_Cons [simp]: "dget ((k', v') # d) k v = (if k = k' then v' else dget d k v)"
  by (simp add: dget_def)

lemma dget_update: "dget (AList.update k v d) k' dflt = (if k' = k then v else dget d k' dflt)"
  by (simp add: dget_def update_conv')

lemma dget_Some: "map_of d k = Some v \<Longrightarrow> dget d k dflt = v"
  by (simp add: dget_def)

lemma dhas_iff: "dhas d k \<longleftrightarrow> k \<in> set (dkeys d)"
  by (auto simp: dhas_def dkeys_def map_of_eq_None_iff)

lemma dhas_update [simp]: "dhas (AList.update k v d) k' \<longleftrightarrow> k' = k \<or> dhas d k'"
  by (auto simp: dhas_def update_conv')

lemma dkeys_update: "set (dkeys (AList.update k v d)) = insert k (set (dkeys d))"
  unfolding dkeys_def set_map dom_map_of_conv_image_fst [symmetric]
  by (simp add: update_conv')

lemma map_of_dpop: "map_of (AList.delete k d) = (map_of d)(k := None)"
  by (rule delete_conv')

lemma update_new: "k \<notin> set (map fst d) \<Longrightarrow> AList.update k v d = d @ [(k, v)]"
  by (induction d) auto

lemma wf_dict_update [intro, simp]: "wf_dict d \<Longrightarrow> wf_dict (AList.update k v d)"
  by (simp add: wf_dict_def distinct_update)

lemma wf_dict_delete [intro, simp]: "wf_dict d \<Longrightarrow> wf_dict (AList.delete k d)"
  by (simp add: wf_dict_def distinct_delete)

lemma wf_dict_Nil [simp]: "wf_dict []"
  by (simp add: wf_dict_def)

lemma wf_dict_map_of: "wf_dict d \<Longrightarrow> (k, v) \<in> set d \<longleftrightarrow> map_of d k = Some v"
  by (simp add: wf_dict_def map_of_eq_Some_iff)

lemma wf_dict_filter [intro, simp]: "wf_dict d \<Longrightarrow> wf_dict (filter P d)"
  unfolding wf_dict_def by (rule distinct_map_filter)

end
