(* ===== verification/Py_Text.thy ===== *)
theory Py_Text
  imports Py_Prelude
begin

text \<open>
  Python text and numbers: the string methods the sources call, decimal rendering and parsing
  of integers, rounding half to even, and the conversions \<^verbatim>\<open>str\<close>, \<^verbatim>\<open>int\<close> and \<^verbatim>\<open>float\<close> of
  dynamically typed values.
\<close>

section \<open>Characters\<close>

definition is_space :: "char \<Rightarrow> bool" where
  "is_space c = (let n = of_char c :: nat in (9 \<le> n \<and> n \<le> 13) \<or> (28 \<le> n \<and> n \<le> 32))"

definition is_digit :: "char \<Rightarrow> bool" where
  "is_digit c = (let n = of_char c :: nat in 48 \<le> n \<and> n \<le> 57)"

definition is_lower_hex :: "char \<Rightarrow> bool" where
  "is_lower_hex c = (let n = of_char c :: nat in (48 \<le> n \<and> n \<le> 57) \<or> (97 \<le> n \<and> n \<le> 102))"

definition is_alnum :: "char \<Rightarrow> bool" where
  "is_alnum c = (let n = of_char c :: nat in
     (48 \<le> n \<and> n \<le> 57) \<or> (65 \<le> n \<and> n \<le> 90) \<or> (97 \<le> n \<and> n \<le> 122))"

definition lower_char :: "char \<Rightarrow> char" where
  "lower_char c = (let n = of_char c :: nat in if 65 \<le> n \<and> n \<le> 90 then char_of (n + 32) else c)"

definition upper_char :: "char \<Rightarrow> char" where
  "upper_char c = (let n = of_char c :: nat in if 97 \<le> n \<and> n \<le> 122 then char_of (n - 32) else c)"

abbreviation newline :: string where "newline \<equiv> [CHR 0x0A]"

section \<open>String methods\<close>

definition lstrip :: "string \<Rightarrow> string" where
  "lstrip s = dropWhile is_space s"

definition rstrip :: "string \<Rightarrow> string" where
  "rstrip s = rev (dropWhile is_space (rev s))"

definition strip :: "string \<Rightarrow> string" where
  "strip s = rstrip (lstrip s)"

definition lower :: "string \<Rightarrow> string" where
  "lower s = map lower_char s"

definition upper :: "string \<Rightarrow> string" where
  "upper s = map upper_char s"

definition startswith :: "string \<Rightarrow> string \<Rightarrow> bool" where
  "startswith s p = prefix p s"

definition endswith :: "string \<Rightarrow> string \<Rightarrow> bool" where
  "endswith s p = suffix p s"

text \<open>\<^verbatim>\<open>s[-n:]\<close> for a positive \<open>n\<close>.\<close>

definition last_chars :: "nat \<Rightarrow> string \<Rightarrow> string" where
  "last_chars n s = drop (length s - n) s"

text \<open>\<^verbatim>\<open>needle in hay\<close>.\<close>

fun contains_str :: "string \<Rightarrow> string \<Rightarrow> bool" where
  "contains_str needle [] = (needle = [])"
| "contains_str needle (c # cs) = (prefix needle (c # cs) \<or> contains_str needle cs)"

text \<open>\<^verbatim>\<open>sep.join(parts)\<close>.\<close>

fun join :: "string \<Rightarrow> string list \<Rightarrow> string" where
  "join sep [] = []"
| "join sep [x] = x"
| "join sep (x # y # ys) = x @ sep @ join sep (y # ys)"

text \<open>\<^verbatim>\<open>s.split(c)\<close> for a one-character separator: never empty, keeps empty fields.\<close>

fun split_on :: "char \<Rightarrow> string \<Rightarrow> string list" where
  "split_on c [] = [[]]"
| "split_on c (x # xs) =
     (if x = c then [] # split_on c xs
      else (case split_on c xs of [] \<Rightarrow> [[x]] | p # ps \<Rightarrow> (x # p) # ps))"

text \<open>\<^verbatim>\<open>s.split()\<close>: the maximal runs of characters that are not white space.\<close>

function split_ws :: "string \<Rightarrow> string list" where
  "split_ws s =
     (case dropWhile is_space s of
        [] \<Rightarrow> []
      | c # cs \<Rightarrow> takeWhile (\<lambda>x. \<not> is_space x) (c # cs)
                 # split_ws (dropWhile (\<lambda>x. \<not> is_space x) (c # cs)))"
  by pat_completeness auto
termination
proof (relation "measure length", simp)
  fix s x21 x22
  assume a: "dropWhile is_space s = x21 # x22"
  then have "\<not> is_space x21" by (metis hd_dropWhile list.distinct(1) list.sel(1))
  then have "length (dropWhile (\<lambda>x. \<not> is_space x) (x21 # x22)) \<le> length x22"
    by (simp add: length_dropWhile_le)
  also have "\<dots> < length s"
    using a by (metis length_dropWhile_le length_Cons less_eq_Suc_le)
  finally show "(dropWhile (\<lambda>x. \<not> is_space x) (x21 # x22), s) \<in> measure length" by simp
qed

declare split_ws.simps [simp del]

text \<open>\<^verbatim>\<open>s.splitlines()\<close>: a carriage return and a line feed together are one break, and a
  break at the end opens no further line.\<close>

definition is_linebreak :: "char \<Rightarrow> bool" where
  "is_linebreak c = (let n = of_char c :: nat in (10 \<le> n \<and> n \<le> 13) \<or> (28 \<le> n \<and> n \<le> 30))"

fun splitlines :: "string \<Rightarrow> string list" where
  "splitlines [] = []"
| "splitlines (c # cs) =
     (if c = CHR 0x0D \<and> cs \<noteq> [] \<and> hd cs = CHR 0x0A then [] # splitlines (tl cs)
      else if is_linebreak c then [] # splitlines cs
      else (case splitlines cs of [] \<Rightarrow> [[c]] | l # ls \<Rightarrow> (c # l) # ls))"

section \<open>Decimal integers\<close>

fun show_nat :: "nat \<Rightarrow> string" where
  "show_nat n = (if n < 10 then [char_of (48 + n)] else show_nat (n div 10) @ [char_of (48 + n mod 10)])"

declare show_nat.simps [simp del]

definition show_int :: "int \<Rightarrow> string" where
  "show_int i = (if i < 0 then CHR ''-'' # show_nat (nat (- i)) else show_nat (nat i))"

definition digits_val :: "string \<Rightarrow> nat" where
  "digits_val s = foldl (\<lambda>a c. 10 * a + (of_char c - 48)) 0 s"

text \<open>The digit groups \<^verbatim>\<open>int\<close> accepts: digits with single underscores between them.\<close>

fun digit_group :: "string \<Rightarrow> bool" where
  "digit_group [] = False"
| "digit_group [c] = is_digit c"
| "digit_group (c # d # cs) =
     (is_digit c \<and> (if d = CHR ''_'' then digit_group cs else digit_group (d # cs)))"

definition drop_underscores :: "string \<Rightarrow> string" where
  "drop_underscores s = filter (\<lambda>c. c \<noteq> CHR ''_'') s"

definition split_sign :: "string \<Rightarrow> int \<times> string" where
  "split_sign s =
     (case s of [] \<Rightarrow> (1, [])
      | c # cs \<Rightarrow> if c = CHR ''-'' then (-1, cs) else if c = CHR ''+'' then (1, cs) else (1, s))"

definition int_of_str :: "string \<Rightarrow> int pyres" where
  "int_of_str s =
     (case split_sign (strip s) of (sg, body) \<Rightarrow>
        if digit_group body then Inr (sg * int (digits_val (drop_underscores body)))
        else Inl ValueError)"

text \<open>\<^verbatim>\<open>re.findall(r"\d+", s)\<close>.\<close>

fun digit_runs :: "string \<Rightarrow> string \<Rightarrow> string list" where
  "digit_runs cur [] = (if cur = [] then [] else [cur])"
| "digit_runs cur (c # cs) =
     (if is_digit c then digit_runs (cur @ [c]) cs
      else (if cur = [] then [] else [cur]) @ digit_runs [] cs)"

section \<open>Rounding\<close>

text \<open>\<^verbatim>\<open>round(x)\<close>: to the nearest integer, ties to the even one; and \<^verbatim>\<open>round(x, n)\<close>.\<close>

definition py_round :: "rat \<Rightarrow> int" where
  "py_round x = (let f = \<lfloor>x\<rfloor>; d = x - of_int f in
     if d < 1 / 2 then f else if 1 / 2 < d then f + 1 else if even f then f else f + 1)"

definition py_round_to :: "nat \<Rightarrow> rat \<Rightarrow> rat" where
  "py_round_to n x = of_int (py_round (x * 10 ^ n)) / 10 ^ n"

text \<open>\<^verbatim>\<open>int(x)\<close> of a float truncates towards zero.\<close>

definition py_trunc :: "rat \<Rightarrow> int" where
  "py_trunc x = (if 0 \<le> x then \<lfloor>x\<rfloor> else \<lceil>x\<rceil>)"

section \<open>Conversions of dynamic values\<close>

text \<open>The decimal text of a float: positional, at least one and at most sixteen decimals.
  Exponent notation is not modelled.\<close>

definition rstrip_char :: "char \<Rightarrow> string \<Rightarrow> string" where
  "rstrip_char c s = rev (dropWhile (\<lambda>x. x = c) (rev s))"

definition zfill :: "nat \<Rightarrow> string \<Rightarrow> string" where
  "zfill n s = replicate (n - length s) (CHR ''0'') @ s"

definition show_float :: "rat \<Rightarrow> string" where
  "show_float r =
     (let m = nat (py_round (\<bar>r\<bar> * 10 ^ 16));
          frac = rstrip_char (CHR ''0'') (zfill 16 (show_nat (m mod 10 ^ 16)))
      in (if r < 0 then ''-'' else []) @ show_nat (m div 10 ^ 16) @ ''.'' @
         (if frac = [] then ''0'' else frac))"

text \<open>\<^verbatim>\<open>f"{x:.0f}"\<close>.\<close>

definition fmt_0f :: "rat \<Rightarrow> string" where
  "fmt_0f r = (if r < 0 \<and> py_round r = 0 then ''-0'' else show_int (py_round r))"

definition hex_digit :: "nat \<Rightarrow> char" where
  "hex_digit n = (if n < 10 then char_of (48 + n) else char_of (87 + n))"

text \<open>\<^verbatim>\<open>f"{n:x}"\<close>.\<close>

fun nat_hex :: "nat \<Rightarrow> string" where
  "nat_hex n = (if n < 16 then [hex_digit n] else nat_hex (n div 16) @ [hex_digit (n mod 16)])"

declare nat_hex.simps [simp del]

definition repr_char :: "char \<Rightarrow> char \<Rightarrow> string" where
  "repr_char q c =
     (let n = of_char c :: nat in
      if c = q \<or> n = 92 then [CHR 0x5C, c]
      else if n = 10 then [CHR 0x5C, CHR ''n'']
      else if n = 13 then [CHR 0x5C, CHR ''r'']
      else if n = 9 then [CHR 0x5C, CHR ''t'']
      else if n < 32 \<or> (127 \<le> n \<and> n \<le> 160) \<or> n = 173
        then [CHR 0x5C, CHR ''x'', hex_digit (n div 16), hex_digit (n mod 16)]
      else [c])"

definition repr_str :: "string \<Rightarrow> string" where
  "repr_str s =
     (let q = (if CHR 0x27 \<in> set s \<and> CHR 0x22 \<notin> set s then CHR 0x22 else CHR 0x27)
      in [q] @ concat (map (repr_char q) s) @ [q])"

fun py_repr :: "pyval \<Rightarrow> string" where
  "py_repr PNone = ''None''"
| "py_repr (PBool b) = (if b then ''True'' else ''False'')"
| "py_repr (PInt i) = show_int i"
| "py_repr (PFloat r) = show_float r"
| "py_repr (PStr s) = repr_str s"
| "py_repr (PList xs) = ''['' @ join '', '' (map py_repr xs) @ '']''"
| "py_repr (PDict d) = ''{'' @ join '', '' (map (\<lambda>(k, v). repr_str k @ '': '' @ py_repr v) d) @ ''}''"

fun py_str :: "pyval \<Rightarrow> string" where
  "py_str (PStr s) = s"
| "py_str v = py_repr v"

text \<open>\<^verbatim>\<open>float(text)\<close>: sign, digit groups around an optional point, optional exponent.\<close>

definition decimal_parts :: "string \<Rightarrow> (string \<times> string) option" where
  "decimal_parts s =
     (case split_on (CHR ''.'') s of
        [a] \<Rightarrow> if digit_group a then Some (a, []) else None
      | [a, b] \<Rightarrow> if (a = [] \<or> digit_group a) \<and> (b = [] \<or> digit_group b) \<and> (a \<noteq> [] \<or> b \<noteq> [])
                  then Some (a, b) else None
      | _ \<Rightarrow> None)"

definition decimal_val :: "string \<times> string \<Rightarrow> rat" where
  "decimal_val ab = (case ab of (a, b) \<Rightarrow>
     (let f = drop_underscores b in
      of_nat (digits_val (drop_underscores a @ f)) / 10 ^ length f))"

definition non_finite_text :: "string \<Rightarrow> bool" where
  "non_finite_text s = (lower s \<in> {''inf'', ''infinity'', ''nan''})"

definition float_of_str :: "string \<Rightarrow> rat pyres" where
  "float_of_str s =
     (case split_sign (strip s) of (sg, body) \<Rightarrow>
        if non_finite_text body then Inl NonFinite
        else (case split_on (CHR ''e'') (lower body) of
                [m] \<Rightarrow> (case decimal_parts m of None \<Rightarrow> Inl ValueError
                        | Some ab \<Rightarrow> Inr (of_int sg * decimal_val ab))
              | [m, x] \<Rightarrow> (case (decimal_parts m, split_sign x) of
                    (Some ab, (xs, xb)) \<Rightarrow>
                      if digit_group xb
                      then Inr (of_int sg * decimal_val ab *
                                (let k = digits_val (drop_underscores xb)
                                 in if xs < 0 then 1 / 10 ^ k else 10 ^ k))
                      else Inl ValueError
                  | _ \<Rightarrow> Inl ValueError)
              | _ \<Rightarrow> Inl ValueError))"

fun py_int :: "pyval \<Rightarrow> int pyres" where
  "py_int PNone = Inl TypeError"
| "py_int (PBool b) = Inr (if b then 1 else 0)"
| "py_int (PInt i) = Inr i"
| "py_int (PFloat r) = Inr (py_trunc r)"
| "py_int (PStr s) = int_of_str s"
| "py_int (PList xs) = Inl TypeError"
| "py_int (PDict d) = Inl TypeError"

fun py_float :: "pyval \<Rightarrow> rat pyres" where
  "py_float PNone = Inl TypeError"
| "py_float (PBool b) = Inr (if b then 1 else 0)"
| "py_float (PInt i) = Inr (of_int i)"
| "py_float (PFloat r) = Inr r"
| "py_float (PStr s) = float_of_str s"
| "py_float (PList xs) = Inl TypeError"
| "py_float (PDict d) = Inl TypeError"

text \<open>\<^verbatim>\<open>try: f(x) except (TypeError, ValueError): dflt\<close>.\<close>

definition guarded :: "'a pyres \<Rightarrow> 'a \<Rightarrow> 'a pyres" where
  "guarded m dflt = (case m of Inl TypeError \<Rightarrow> Inr dflt | Inl ValueError \<Rightarrow> Inr dflt | _ \<Rightarrow> m)"

text \<open>\<^verbatim>\<open>v.get(k, dflt)\<close> and iteration, where nothing checks the type of \<^verbatim>\<open>v\<close> first.\<close>

fun attr_get :: "pyval \<Rightarrow> string \<Rightarrow> pyval \<Rightarrow> pyval pyres" where
  "attr_get (PDict d) k dflt = Inr (dget d k dflt)"
| "attr_get _ k dflt = Inl AttributeError"

fun py_iter :: "pyval \<Rightarrow> pyval list pyres" where
  "py_iter (PList xs) = Inr xs"
| "py_iter (PDict d) = Inr (map (\<lambda>kv. PStr (fst kv)) d)"
| "py_iter (PStr s) = Inr (map (\<lambda>c. PStr [c]) s)"
| "py_iter _ = Inl TypeError"

text \<open>\<^verbatim>\<open>str(d.get(k, "") or "")\<close>, the idiom of every decoder, and its variant without \<^verbatim>\<open>or\<close>.\<close>

definition str_or_empty :: "pydict \<Rightarrow> string \<Rightarrow> string" where
  "str_or_empty d k = py_str (py_or (dget d k (PStr [])) (PStr []))"

definition str_field :: "pydict \<Rightarrow> string \<Rightarrow> string" where
  "str_field d k = py_str (dget d k (PStr []))"

section \<open>Facts about text\<close>

lemma dropWhile_idem: "dropWhile P (dropWhile P xs) = dropWhile P xs"
  by (induction xs) auto

lemma lstrip_hd: "lstrip s \<noteq> [] \<Longrightarrow> \<not> is_space (hd (lstrip s))"
  unfolding lstrip_def by (rule hd_dropWhile)

lemma rstrip_last: "rstrip s \<noteq> [] \<Longrightarrow> \<not> is_space (last (rstrip s))"
  unfolding rstrip_def using hd_dropWhile [of is_space "rev s"] by (simp add: last_rev)

lemma rstrip_prefix: "prefix (rstrip s) s"
proof -
  have "suffix (dropWhile is_space (rev s)) (rev s)" by (rule suffix_dropWhile)
  then show ?thesis unfolding rstrip_def suffix_to_prefix by simp
qed

lemma strip_unchanged:
  assumes "s \<noteq> [] \<Longrightarrow> \<not> is_space (hd s) \<and> \<not> is_space (last s)"
  shows "strip s = s"
proof (cases s)
  case Nil
  then show ?thesis by (simp add: strip_def lstrip_def rstrip_def)
next
  case (Cons c cs)
  with assms have "lstrip s = s" by (simp add: lstrip_def)
  moreover have "dropWhile is_space (rev s) = rev s"
    using assms Cons hd_rev [of s] by (subst dropWhile_eq_self_iff) (metis list.distinct(1))
  ultimately show ?thesis by (simp add: strip_def rstrip_def)
qed

lemma strip_stripped: "strip s \<noteq> [] \<Longrightarrow> \<not> is_space (hd (strip s)) \<and> \<not> is_space (last (strip s))"
proof -
  assume ne: "strip s \<noteq> []"
  have p: "prefix (strip s) (lstrip s)" unfolding strip_def by (rule rstrip_prefix)
  then have "hd (strip s) = hd (lstrip s)" using ne by (auto simp: prefix_def)
  moreover have "lstrip s \<noteq> []" using p ne by auto
  ultimately show ?thesis
    using lstrip_hd [of s] rstrip_last [of "lstrip s"] ne by (simp add: strip_def)
qed

lemma strip_idem [simp]: "strip (strip s) = strip s"
  using strip_stripped by (rule strip_unchanged) auto

lemma set_strip: "set (strip s) \<subseteq> set s"
proof -
  have "set (rstrip t) \<subseteq> set t" for t
    using rstrip_prefix set_mono_prefix by blast
  then show ?thesis
    unfolding strip_def lstrip_def by (meson order_trans set_dropWhileD subsetI)
qed

lemma strip_no_space: "(\<And>c. c \<in> set s \<Longrightarrow> \<not> is_space c) \<Longrightarrow> strip s = s"
  by (rule strip_unchanged) auto

lemma lower_idem [simp]: "lower (lower s) = lower s"
  by (auto simp: lower_def lower_char_def Let_def)

lemma contains_str_iff: "contains_str p s \<longleftrightarrow> sublist p s"
  by (induction s) (auto simp: sublist_Cons_right)

lemma split_on_ne [simp]: "split_on c s \<noteq> []"
  by (induction s) (auto split: list.splits)

lemma join_split_on: "join [c] (split_on c s) = s"
proof (induction s)
  case Nil
  then show ?case by simp
next
  case (Cons x xs)
  obtain p ps where sp: "split_on c xs = p # ps" by (cases "split_on c xs") auto
  show ?case using Cons sp by (cases ps) auto
qed

lemma split_on_no_sep: "p \<in> set (split_on c s) \<Longrightarrow> c \<notin> set p"
  by (induction s arbitrary: p) (auto split: list.splits if_splits)

lemma split_on_append:
  assumes "c \<notin> set a"
  shows "split_on c (a @ c # b) = a # split_on c b"
  using assms by (induction a) auto

lemma split_on_single: "c \<notin> set a \<Longrightarrow> split_on c a = [a]"
  by (induction a) auto

text \<open>A separator that the first fields do not contain makes concatenation injective.\<close>

lemma sep_inject:
  assumes "c \<notin> set a" and "c \<notin> set a'" and "a @ c # b = a' @ c # b'"
  shows "a = a' \<and> b = b'"
  using assms
proof (induction a arbitrary: a')
  case Nil
  then show ?case by (cases a') auto
next
  case (Cons x a)
  then show ?case by (cases a') auto
qed

lemma sep_inject_last:
  assumes "c \<notin> set b" and "c \<notin> set b'" and "a @ c # b = a' @ c # b'"
  shows "a = a' \<and> b = b'"
proof -
  have "rev b @ c # rev a = rev b' @ c # rev a'"
    using arg_cong [OF assms(3), of rev] by simp
  then have "rev b = rev b' \<and> rev a = rev a'"
    using assms(1,2) by (intro sep_inject) auto
  then show ?thesis by simp
qed

section \<open>Facts about decimal numbers\<close>

lemma of_char_digit: "n < 10 \<Longrightarrow> (of_char (char_of (48 + n) :: char) :: nat) = 48 + n"
  by simp

lemma show_nat_digits: "c \<in> set (show_nat n) \<Longrightarrow> is_digit c"
proof (induction n arbitrary: c rule: show_nat.induct)
  case (1 n)
  show ?case
  proof (cases "n < 10")
    case True
    then show ?thesis using "1.prems"
      by (simp add: show_nat.simps [of n] is_digit_def Let_def)
  next
    case False
    then show ?thesis using 1
      by (auto simp: show_nat.simps [of n] is_digit_def Let_def)
  qed
qed

lemma show_nat_ne [simp]: "show_nat n \<noteq> []"
  by (simp add: show_nat.simps [of n])

lemma digits_val_show_nat: "digits_val (show_nat n) = n"
proof (induction n rule: show_nat.induct)
  case (1 n)
  show ?case
  proof (cases "n < 10")
    case True
    then show ?thesis by (simp add: show_nat.simps [of n] digits_val_def)
  next
    case False
    with 1 have "digits_val (show_nat (n div 10)) = n div 10" by simp
    with False show ?thesis by (simp add: show_nat.simps [of n] digits_val_def)
  qed
qed

lemma digit_not_underscore: "is_digit c \<Longrightarrow> c \<noteq> CHR ''_''"
  by (auto simp: is_digit_def)

lemma digit_group_digits: "s \<noteq> [] \<Longrightarrow> \<forall>c \<in> set s. is_digit c \<Longrightarrow> digit_group s"
  by (induction s rule: digit_group.induct) (simp_all add: digit_not_underscore)

lemma digit_not_space: "is_digit c \<Longrightarrow> \<not> is_space c"
  by (auto simp: is_digit_def is_space_def Let_def)

lemma digit_not_newline: "is_digit c \<Longrightarrow> c \<noteq> CHR 0x0A"
  by (auto simp: is_digit_def)

lemma drop_underscores_digits:
  "(\<And>c. c \<in> set s \<Longrightarrow> is_digit c) \<Longrightarrow> drop_underscores s = s"
  by (auto simp: drop_underscores_def filter_id_conv dest: digit_not_underscore)

lemma show_int_chars: "c \<in> set (show_int i) \<Longrightarrow> is_digit c \<or> c = CHR ''-''"
  by (auto simp: show_int_def dest: show_nat_digits split: if_splits)

lemma show_int_no_space: "c \<in> set (show_int i) \<Longrightarrow> \<not> is_space c"
  by (drule show_int_chars) (auto dest: digit_not_space simp: is_space_def)

lemma show_int_no_newline: "CHR 0x0A \<notin> set (show_int i)"
  using show_int_no_space [of "CHR 0x0A" i] by (auto simp: is_space_def)

lemma int_of_str_show_int: "int_of_str (show_int i) = Inr i"
proof -
  have dg: "digit_group (show_nat n)" for n
    by (rule digit_group_digits) (auto dest: show_nat_digits)
  have du: "drop_underscores (show_nat n) = show_nat n" for n
    by (rule drop_underscores_digits) (rule show_nat_digits)
  have sg: "split_sign (show_nat n) = (1, show_nat n)" for n
  proof -
    obtain c cs where cc: "show_nat n = c # cs" by (cases "show_nat n") auto
    then have "is_digit c" using show_nat_digits [of c n] by simp
    then show ?thesis using cc by (auto simp: split_sign_def is_digit_def)
  qed
  have "strip (show_int i) = show_int i"
    by (rule strip_no_space) (rule show_int_no_space)
  then show ?thesis
    by (cases "i < 0")
      (simp_all add: int_of_str_def show_int_def dg du digits_val_show_nat sg split_sign_def [of "_ # _"])
qed

lemma show_int_inject: "show_int i = show_int j \<longleftrightarrow> i = j"
proof
  assume "show_int i = show_int j"
  then have "int_of_str (show_int i) = int_of_str (show_int j)" by (rule arg_cong)
  then show "i = j" unfolding int_of_str_show_int by simp
qed simp

section \<open>Facts about rounding\<close>

lemma py_round_of_int [simp]: "py_round (of_int i) = i"
  by (simp add: py_round_def)

lemma py_round_0 [simp]: "py_round 0 = 0"
  using py_round_of_int [of 0] by simp

lemma py_round_close: "\<bar>of_int (py_round x) - x\<bar> \<le> 1 / 2"
proof -
  have "of_int \<lfloor>x\<rfloor> \<le> x" "x < of_int \<lfloor>x\<rfloor> + 1" by linarith+
  then show ?thesis by (auto simp: py_round_def Let_def abs_le_iff)
qed

lemma py_round_mono: "x \<le> y \<Longrightarrow> py_round x \<le> py_round y"
proof -
  assume le: "x \<le> y"
  have fl: "\<lfloor>x\<rfloor> \<le> \<lfloor>y\<rfloor>" using le by (rule floor_mono)
  have lo: "\<lfloor>y\<rfloor> \<le> py_round y" and hi: "py_round x \<le> \<lfloor>x\<rfloor> + 1"
    by (auto simp: py_round_def Let_def)
  show ?thesis
  proof (cases "\<lfloor>x\<rfloor> = \<lfloor>y\<rfloor>")
    case True
    then show ?thesis using le by (auto simp: py_round_def Let_def)
  next
    case False
    then show ?thesis using fl lo hi by linarith
  qed
qed

lemma py_round_nonneg: "0 \<le> x \<Longrightarrow> 0 \<le> py_round x"
  using py_round_mono [of 0 x] by simp

lemma py_round_le_int: "x \<le> of_int n \<Longrightarrow> py_round x \<le> n"
  using py_round_mono [of x "of_int n"] by simp

lemma guarded_Inr [simp]: "guarded (Inr x) d = Inr x"
  by (simp add: guarded_def)

lemma str_or_empty_Str: "map_of d k = Some (PStr s) \<Longrightarrow> str_or_empty d k = s"
  by (simp add: str_or_empty_def dget_def)

lemma str_field_Str: "map_of d k = Some (PStr s) \<Longrightarrow> str_field d k = s"
  by (simp add: str_field_def dget_def)

end
