(* ===== verification/Py_Shell.thy ===== *)
theory Py_Shell
  imports Py_Text
begin

text \<open>
  Commands the validator sends to a rig are one line of text for a shell; every argument goes through
  \<^verbatim>\<open>shlex.quote\<close>. Its model, and a shell's reading of a command line: words separated by blanks, with
  single and double quotes. A character that means anything else to a shell outside quotes, or that
  double quotes do not protect, makes the reader give up.
\<close>

definition shell_safe :: "char \<Rightarrow> bool" where
  "shell_safe c = (is_alnum c \<or> c \<in> set ''_@%+=:,./-'')"

definition shell_escape :: "string \<Rightarrow> string" where
  "shell_escape s = concat (map (\<lambda>c. if c = CHR 0x27 then [CHR 0x27, CHR 0x22, CHR 0x27, CHR 0x22, CHR 0x27] else [c]) s)"

definition shlex_quote :: "string \<Rightarrow> string" where
  "shlex_quote s =
     (if s = [] then [CHR 0x27, CHR 0x27]
      else if list_all shell_safe s then s
      else [CHR 0x27] @ shell_escape s @ [CHR 0x27])"

fun word_of :: "string option \<Rightarrow> string" where
  "word_of None = []"
| "word_of (Some a) = a"

fun sh_unq :: "string option \<Rightarrow> string \<Rightarrow> string list option"
  and sh_sq :: "string \<Rightarrow> string \<Rightarrow> string list option"
  and sh_dq :: "string \<Rightarrow> string \<Rightarrow> string list option" where
  "sh_unq w [] = Some (case w of None \<Rightarrow> [] | Some a \<Rightarrow> [a])"
| "sh_unq w (c # cs) =
     (if c = CHR '' ''
      then (case w of None \<Rightarrow> sh_unq None cs | Some a \<Rightarrow> map_option (Cons a) (sh_unq None cs))
      else if c = CHR 0x27 then sh_sq (word_of w) cs
      else if c = CHR 0x22 then sh_dq (word_of w) cs
      else if shell_safe c then sh_unq (Some (word_of w @ [c])) cs
      else None)"
| "sh_sq a [] = None"
| "sh_sq a (c # cs) = (if c = CHR 0x27 then sh_unq (Some a) cs else sh_sq (a @ [c]) cs)"
| "sh_dq a [] = None"
| "sh_dq a (c # cs) =
     (if c = CHR 0x22 then sh_unq (Some a) cs
      else if c \<in> {CHR ''$'', CHR 0x60, CHR 0x5C} then None
      else sh_dq (a @ [c]) cs)"

definition sh_words :: "string \<Rightarrow> string list option" where
  "sh_words s = sh_unq None s"

lemma shell_safe_plain: "shell_safe c \<Longrightarrow> c \<noteq> CHR '' '' \<and> c \<noteq> CHR 0x27 \<and> c \<noteq> CHR 0x22"
  by (auto simp: shell_safe_def is_alnum_def)

lemma sh_unq_safe:
  "list_all shell_safe s \<Longrightarrow> s \<noteq> [] \<Longrightarrow> sh_unq w (s @ rest) = sh_unq (Some (word_of w @ s)) rest"
proof (induction s arbitrary: w)
  case (Cons c s)
  have c: "sh_unq w (c # s @ rest) = sh_unq (Some (word_of w @ [c])) (s @ rest)"
    using Cons.prems shell_safe_plain [of c] by simp
  show ?case
  proof (cases s)
    case Nil
    then show ?thesis using c by simp
  next
    case (Cons d t)
    then show ?thesis using c Cons.IH [of "Some (word_of w @ [c])"] Cons.prems by simp
  qed
qed simp

lemma sh_sq_escape:
  "sh_sq a (shell_escape s @ CHR 0x27 # rest) = sh_unq (Some (a @ s)) rest"
  by (induction s arbitrary: a) (auto simp: shell_escape_def)

text \<open>A quoted argument is read as exactly itself, whatever follows.\<close>

lemma sh_quote: "sh_unq None (shlex_quote s @ rest) = sh_unq (Some s) rest"
  using sh_unq_safe [of s None rest] sh_sq_escape [of "[]" s rest]
  by (auto simp: shlex_quote_def)

lemma sh_join: "sh_words (join '' '' (map shlex_quote xs)) = Some xs"
proof (induction xs rule: induct_list012)
  case 1
  show ?case by (simp add: sh_words_def)
next
  case (2 x)
  show ?case using sh_quote [of x "[]"] by (simp add: sh_words_def)
next
  case (3 x y zs)
  then show ?case
    by (simp add: sh_words_def sh_quote)
qed

end
