(* ===== verification/Interfaces.thy ===== *)
theory Interfaces
  imports Py_Text
begin

text \<open>
  The contracts several components share, as locales: a wire codec (what a \<^verbatim>\<open>payload\<close> writes a
  \<^verbatim>\<open>from_payload\<close> reads back), a state machine with an invariant, a selection by least key.
  Each is interpreted on the model's own operations in the theory that declares them.
\<close>

section \<open>Wire codecs\<close>

locale codec =
  fixes enc :: "'a \<Rightarrow> pydict"
    and dec :: "pydict \<Rightarrow> 'a pyres"
    and wf :: "'a \<Rightarrow> bool"
  assumes dec_enc: "wf x \<Longrightarrow> dec (enc x) = Inr x"
begin

lemma enc_inj: "wf x \<Longrightarrow> wf y \<Longrightarrow> enc x = enc y \<Longrightarrow> x = y"
  using dec_enc by (metis sum.inject(2))

lemma enc_inj_on: "inj_on enc {x. wf x}"
  by (rule inj_onI) (auto intro: enc_inj)

lemma dec_list: "\<forall>x \<in> set xs. wf x \<Longrightarrow> rmap (\<lambda>x. dec (enc x)) xs = Inr xs"
  by (induction xs) (auto simp: dec_enc)

lemma dec_never_raises: "wf x \<Longrightarrow> dec (enc x) \<noteq> Inl e"
  by (simp add: dec_enc)

end

section \<open>State machines\<close>

definition run_events :: "('s \<Rightarrow> 'e \<Rightarrow> 's) \<Rightarrow> 's \<Rightarrow> 'e list \<Rightarrow> 's" where
  "run_events step = foldl step"

lemma run_events_Nil [simp]: "run_events step s [] = s"
  by (simp add: run_events_def)

lemma run_events_Cons [simp]: "run_events step s (e # es) = run_events step (step s e) es"
  by (simp add: run_events_def)

lemma run_events_append: "run_events step s (es @ fs) = run_events step (run_events step s es) fs"
  by (simp add: run_events_def)

locale machine =
  fixes step :: "'s \<Rightarrow> 'e \<Rightarrow> 's"
    and inv :: "'s \<Rightarrow> bool"
  assumes step_inv: "inv s \<Longrightarrow> inv (step s e)"
begin

lemma run_inv: "inv s \<Longrightarrow> inv (run_events step s es)"
  by (induction es arbitrary: s) (auto intro: step_inv)

lemma prefix_inv: "inv s \<Longrightarrow> prefix es fs \<Longrightarrow> inv (run_events step s es)"
  by (rule run_inv)

end

text \<open>A machine in which a measured quantity never falls.\<close>

locale monotone_machine = machine +
  fixes value_of :: "'s \<Rightarrow> 'v :: order"
  assumes step_mono: "inv s \<Longrightarrow> value_of s \<le> value_of (step s e)"
begin

lemma run_mono: "inv s \<Longrightarrow> value_of s \<le> value_of (run_events step s es)"
proof (induction es arbitrary: s)
  case Nil
  then show ?case by simp
next
  case (Cons e es)
  have "value_of s \<le> value_of (step s e)" using Cons.prems by (rule step_mono)
  also have "\<dots> \<le> value_of (run_events step (step s e) es)"
    using Cons.prems by (intro Cons.IH step_inv)
  finally show ?case by simp
qed

end

text \<open>A machine whose steps are the steps of a more abstract one, seen through \<open>view\<close> for the state and
  \<open>seen\<close> for the events.\<close>

locale refines =
  fixes step :: "'s \<Rightarrow> 'e \<Rightarrow> 's"
    and view :: "'s \<Rightarrow> 'a"
    and seen :: "'e \<Rightarrow> 'b"
    and abstract_step :: "'a \<Rightarrow> 'b \<Rightarrow> 'a"
  assumes step_view: "view (step s e) = abstract_step (view s) (seen e)"
begin

lemma run_view: "view (run_events step s es) = run_events abstract_step (view s) (map seen es)"
  by (induction es arbitrary: s) (simp_all add: step_view)

end

section \<open>Selection by least key\<close>

text \<open>Python's \<^verbatim>\<open>min(xs, key=f)\<close>: the first element of least key.\<close>

fun min_by :: "('a \<Rightarrow> 'k :: linorder) \<Rightarrow> 'a \<Rightarrow> 'a list \<Rightarrow> 'a" where
  "min_by f best [] = best"
| "min_by f best (x # xs) = min_by f (if f x < f best then x else best) xs"

lemma min_by_in: "min_by f b xs \<in> set (b # xs)"
  by (induction xs arbitrary: b) auto

lemma min_by_le: "y \<in> set (b # xs) \<Longrightarrow> f (min_by f b xs) \<le> f y"
proof (induction xs arbitrary: b y)
  case Nil
  then show ?case by simp
next
  case (Cons x xs)
  let ?b = "if f x < f b then x else b"
  have *: "f (min_by f ?b xs) \<le> f z" if "z \<in> set (?b # xs)" for z
    using that by (rule Cons.IH)
  have "f (min_by f ?b xs) \<le> f ?b" by (rule *) simp
  then have "f (min_by f ?b xs) \<le> f b" "f (min_by f ?b xs) \<le> f x"
    by (auto split: if_splits)
  then show ?case using Cons.prems * by auto
qed

lemma min_by_first:
  "\<exists>ys zs. b # xs = ys @ min_by f b xs # zs \<and> (\<forall>y \<in> set ys. f (min_by f b xs) < f y)"
proof (induction xs arbitrary: b)
  case Nil
  then show ?case by (intro exI [of _ "[]"]) simp
next
  case (Cons x xs)
  define c where "c = (if f x < f b then x else b)"
  define m where "m = min_by f c xs"
  have mb: "min_by f b (x # xs) = m" by (simp add: m_def c_def)
  obtain ys zs where 1: "c # xs = ys @ m # zs" and 2: "\<forall>y \<in> set ys. f m < f y"
    using Cons.IH [of c] unfolding m_def by blast
  have mc: "f m \<le> f c" unfolding m_def by (rule min_by_le) simp
  show ?case unfolding mb
  proof (cases "f x < f b")
    case True
    then have "b # x # xs = (b # ys) @ m # zs" using 1 by (simp add: c_def)
    moreover have "\<forall>y \<in> set (b # ys). f m < f y" using 2 mc True by (auto simp: c_def)
    ultimately show "\<exists>ys zs. b # x # xs = ys @ m # zs \<and> (\<forall>y \<in> set ys. f m < f y)" by blast
  next
    case False
    show "\<exists>ys zs. b # x # xs = ys @ m # zs \<and> (\<forall>y \<in> set ys. f m < f y)"
    proof (cases ys)
      case Nil
      then show ?thesis using 1 False by (intro exI [of _ "[]"] exI [of _ "x # xs"]) (auto simp: c_def)
    next
      case (Cons y ys')
      then have "b # x # xs = (b # x # ys') @ m # zs" using 1 False by (simp add: c_def)
      moreover have "f m < f b" using 1 2 Cons False by (auto simp: c_def)
      then have "\<forall>y \<in> set (b # x # ys'). f m < f y" using 2 Cons False by auto
      ultimately show ?thesis by blast
    qed
  qed
qed

end
