(* ===== verification/Protocol_Failures.thy ===== *)
theory Protocol_Failures
  imports Interfaces
begin

text \<open>
  Failure classes, verdicts and the choice of the failure a pass is reported under
  (\<^verbatim>\<open>protocol/failures.py\<close>). The classes are ordered as they are declared: transport problems
  before crashes, crashes before verdicts on the machine.
\<close>

datatype FailureClass =
    SSH_TRANSPORT
  | AGENT_CRASH
  | CHALLENGE_REJECT
  | SPEC_MISMATCH
  | UNAUTHORISED_WORK
  | NESTED_CONTAINER
  | DUPLICATE_UUID
  | VERSION_STALE

definition failure_order :: "FailureClass list" where
  "failure_order =
     [SSH_TRANSPORT, AGENT_CRASH, CHALLENGE_REJECT, SPEC_MISMATCH, UNAUTHORISED_WORK,
      NESTED_CONTAINER, DUPLICATE_UUID, VERSION_STALE]"

fun failure_value :: "FailureClass \<Rightarrow> string" where
  "failure_value SSH_TRANSPORT = ''SSH_TRANSPORT''"
| "failure_value AGENT_CRASH = ''AGENT_CRASH''"
| "failure_value CHALLENGE_REJECT = ''CHALLENGE_REJECT''"
| "failure_value SPEC_MISMATCH = ''SPEC_MISMATCH''"
| "failure_value UNAUTHORISED_WORK = ''UNAUTHORISED_WORK''"
| "failure_value NESTED_CONTAINER = ''NESTED_CONTAINER''"
| "failure_value DUPLICATE_UUID = ''DUPLICATE_UUID''"
| "failure_value VERSION_STALE = ''VERSION_STALE''"

fun MEANINGS :: "FailureClass \<Rightarrow> string" where
  "MEANINGS SSH_TRANSPORT = ''could not reach the agent''"
| "MEANINGS AGENT_CRASH = ''agent died during the check''"
| "MEANINGS CHALLENGE_REJECT = ''wrong answer, or too slow''"
| "MEANINGS SPEC_MISMATCH = ''hardware is not what was declared''"
| "MEANINGS UNAUTHORISED_WORK = ''something on the card that is not ours''"
| "MEANINGS NESTED_CONTAINER = ''agent is not on a real host''"
| "MEANINGS DUPLICATE_UUID = ''this card is enrolled elsewhere''"
| "MEANINGS VERSION_STALE = ''agent behind the minimum''"

text \<open>\<^verbatim>\<open>order.index(kind)\<close>.\<close>

fun index_of :: "'a list \<Rightarrow> 'a \<Rightarrow> nat" where
  "index_of [] x = 0"
| "index_of (y # ys) x = (if x = y then 0 else Suc (index_of ys x))"

definition failure_index :: "FailureClass \<Rightarrow> nat" where
  "failure_index k = index_of failure_order k"

lemma failure_index_inject: "failure_index a = failure_index b \<longleftrightarrow> a = b"
  by (cases a; cases b) (simp_all add: failure_index_def failure_order_def)

instantiation FailureClass :: linorder
begin

definition less_eq_FailureClass :: "FailureClass \<Rightarrow> FailureClass \<Rightarrow> bool" where
  "less_eq_FailureClass a b = (failure_index a \<le> failure_index b)"

definition less_FailureClass :: "FailureClass \<Rightarrow> FailureClass \<Rightarrow> bool" where
  "less_FailureClass a b = (failure_index a < failure_index b)"

instance
  by standard
    (auto simp: less_eq_FailureClass_def less_FailureClass_def failure_index_inject
      dest: antisym [THEN failure_index_inject [THEN iffD1]])

end

record Failure =
  f_kind :: FailureClass
  f_detail :: string
  f_seed :: string
  f_evidence :: pydict

definition Failure_payload :: "Failure \<Rightarrow> pydict" where
  "Failure_payload f =
     [(''class'', PStr (failure_value (f_kind f))),
      (''meaning'', PStr (MEANINGS (f_kind f))),
      (''detail'', PStr (f_detail f)),
      (''seed'', PStr (f_seed f)),
      (''evidence'', PDict (f_evidence f))]"

definition mk_failure :: "FailureClass \<Rightarrow> string \<Rightarrow> string \<Rightarrow> pydict \<Rightarrow> Failure" where
  "mk_failure k d s e = \<lparr>f_kind = k, f_detail = d, f_seed = s, f_evidence = e\<rparr>"

lemma mk_failure_simps [simp]:
  "f_kind (mk_failure k d s e) = k" "f_detail (mk_failure k d s e) = d"
  "f_seed (mk_failure k d s e) = s" "f_evidence (mk_failure k d s e) = e"
  by (simp_all add: mk_failure_def)

record Verdict =
  v_check :: string
  v_failure :: "Failure option"
  v_evidence :: pydict
  v_elapsed_ms :: rat

definition mk_verdict :: "string \<Rightarrow> Failure option \<Rightarrow> pydict \<Rightarrow> rat \<Rightarrow> Verdict" where
  "mk_verdict c f e ms = \<lparr>v_check = c, v_failure = f, v_evidence = e, v_elapsed_ms = ms\<rparr>"

lemma mk_verdict_simps [simp]:
  "v_check (mk_verdict c f e ms) = c" "v_failure (mk_verdict c f e ms) = f"
  "v_evidence (mk_verdict c f e ms) = e" "v_elapsed_ms (mk_verdict c f e ms) = ms"
  by (simp_all add: mk_verdict_def)

definition passed :: "Verdict \<Rightarrow> bool" where
  "passed v = (v_failure v = None)"

lemma passed_mk [simp]: "passed (mk_verdict c f e ms) \<longleftrightarrow> f = None"
  by (simp add: passed_def)

definition Verdict_payload :: "Verdict \<Rightarrow> pydict" where
  "Verdict_payload v =
     [(''check'', PStr (v_check v)),
      (''passed'', PBool (passed v)),
      (''elapsed_ms'', PFloat (py_round_to 3 (v_elapsed_ms v))),
      (''evidence'', PDict (v_evidence v))] @
     (case v_failure v of None \<Rightarrow> [] | Some f \<Rightarrow> [(''failure'', PDict (Failure_payload f))])"

definition failures_of :: "Verdict list \<Rightarrow> Failure list" where
  "failures_of vs = List.map_filter v_failure vs"

definition worst :: "Verdict list \<Rightarrow> Failure option" where
  "worst vs = (case failures_of vs of [] \<Rightarrow> None | f # fs \<Rightarrow> Some (min_by f_kind f fs))"

section \<open>Correctness\<close>

lemma failures_of_Nil [simp]: "failures_of [] = []"
  by (simp add: failures_of_def List.map_filter_simps)

lemma failures_of_Cons:
  "failures_of (v # vs) = (case v_failure v of None \<Rightarrow> failures_of vs | Some f \<Rightarrow> f # failures_of vs)"
  by (cases "v_failure v") (simp_all add: failures_of_def List.map_filter_simps)

lemma failures_of_append: "failures_of (us @ vs) = failures_of us @ failures_of vs"
  by (induction us) (auto simp: failures_of_Cons split: option.splits)

lemma set_failures_of: "f \<in> set (failures_of vs) \<longleftrightarrow> (\<exists>v \<in> set vs. v_failure v = Some f)"
  by (induction vs) (auto simp: failures_of_Cons split: option.splits)

lemma failures_of_empty: "failures_of vs = [] \<longleftrightarrow> (\<forall>v \<in> set vs. passed v)"
  by (induction vs) (auto simp: failures_of_Cons passed_def split: option.splits)

text \<open>The contract a reporter of verdicts relies on: none is chosen exactly when all passed, and
  the chosen one is among the given and of least class.\<close>

locale worst_choice =
  fixes pick :: "Verdict list \<Rightarrow> Failure option"
  assumes pick_None: "pick vs = None \<longleftrightarrow> (\<forall>v \<in> set vs. passed v)"
    and pick_mem: "pick vs = Some f \<Longrightarrow> f \<in> set (failures_of vs)"
    and pick_least: "pick vs = Some f \<Longrightarrow> g \<in> set (failures_of vs) \<Longrightarrow> f_kind f \<le> f_kind g"
begin

lemma pick_fails: "v \<in> set vs \<Longrightarrow> \<not> passed v \<Longrightarrow> \<exists>f. pick vs = Some f"
  using pick_None [of vs] by auto

lemma pick_kind_unique: "set vs = set ws \<Longrightarrow> pick vs = Some f \<Longrightarrow> pick ws = Some g \<Longrightarrow> f_kind f = f_kind g"
  by (metis pick_least pick_mem set_failures_of order.antisym)

end

lemma worst_SomeD:
  assumes "worst vs = Some f"
  obtains g fs where "failures_of vs = g # fs" "f = min_by f_kind g fs"
  using assms by (auto simp: worst_def split: list.splits)

interpretation worst: worst_choice worst
proof
  show "worst vs = None \<longleftrightarrow> (\<forall>v \<in> set vs. passed v)" for vs
    by (auto simp: worst_def simp flip: failures_of_empty split: list.splits)
  show "f \<in> set (failures_of vs)" if "worst vs = Some f" for vs f
    using that by (elim worst_SomeD) (metis min_by_in)
  show "f_kind f \<le> f_kind g" if "worst vs = Some f" "g \<in> set (failures_of vs)" for vs f g
    using that by (elim worst_SomeD) (metis min_by_le)
qed

section \<open>Properties\<close>

text \<open>The failure reported for a rig is none exactly when every verdict passed; otherwise it is the
  first failure, in the order of the verdicts, whose class is not below any other's: every failure
  before it has a strictly later class, and none has an earlier one.\<close>

theorem worst_is_first_of_least_class:
  "(worst vs = None \<longleftrightarrow> (\<forall>v \<in> set vs. passed v)) \<and>
   (worst vs = Some f \<longrightarrow> (\<exists>ys zs. failures_of vs = ys @ f # zs \<and> (\<forall>g \<in> set ys. f_kind f < f_kind g)
      \<and> (\<forall>g \<in> set (failures_of vs). f_kind f \<le> f_kind g)))"
proof (intro conjI impI)
  show "worst vs = None \<longleftrightarrow> (\<forall>v \<in> set vs. passed v)" by (rule worst.pick_None)
  assume w: "worst vs = Some f"
  then obtain g fs where fs: "failures_of vs = g # fs" "f = min_by f_kind g fs" by (rule worst_SomeD)
  then obtain ys zs where "failures_of vs = ys @ f # zs" "\<forall>y \<in> set ys. f_kind f < f_kind y"
    using min_by_first [of g fs f_kind] by auto
  then show "\<exists>ys zs. failures_of vs = ys @ f # zs \<and> (\<forall>g \<in> set ys. f_kind f < f_kind g)
      \<and> (\<forall>g \<in> set (failures_of vs). f_kind f \<le> f_kind g)"
    using worst.pick_least [OF w] by blast
qed

theorem worst_is_first_of_least_class_witness:
  "f_kind (the (worst [mk_verdict ''a'' (Some (mk_failure DUPLICATE_UUID ''d'' [] [])) [] 0,
      mk_verdict ''b'' None [] 0, mk_verdict ''c'' (Some (mk_failure AGENT_CRASH ''e'' [] [])) [] 0])) \<le> AGENT_CRASH"
proof -
  let ?vs = "[mk_verdict ''a'' (Some (mk_failure DUPLICATE_UUID ''d'' [] [])) [] 0,
      mk_verdict ''b'' None [] 0, mk_verdict ''c'' (Some (mk_failure AGENT_CRASH ''e'' [] [])) [] 0]"
  have n: "worst ?vs \<noteq> None"
    using worst_is_first_of_least_class [of ?vs undefined] by auto
  then obtain f where f: "worst ?vs = Some f" by auto
  have "mk_failure AGENT_CRASH ''e'' [] [] \<in> set (failures_of ?vs)" by (simp add: failures_of_Cons)
  then show ?thesis using worst_is_first_of_least_class [of ?vs f] f by fastforce
qed

end
