(* ===== verification/Protocol_Session.thy ===== *)
theory Protocol_Session
  imports Interfaces
begin

text \<open>
  The session protocol (\<^verbatim>\<open>protocol/session.py\<close>): the byte strings that are signed, the patterns
  that guard nonces, keys and digests, and the messages with their wire forms.
\<close>

definition NONCE_TTL_SECONDS :: rat where "NONCE_TTL_SECONDS = 600"
definition SIGNATURE_WINDOW_SECONDS :: rat where "SIGNATURE_WINDOW_SECONDS = 120"
definition RELEASE_SKEW_SECONDS :: rat where "RELEASE_SKEW_SECONDS = 600"

section \<open>Signed byte strings\<close>

definition signing_bytes :: "string \<Rightarrow> string \<Rightarrow> string \<Rightarrow> string \<Rightarrow> string" where
  "signing_bytes mthd path timestamp body = join newline [upper mthd, path, timestamp, body]"

definition grant_blob :: "string \<Rightarrow> string \<Rightarrow> string" where
  "grant_blob public_key nonce = public_key @ newline @ nonce"

definition release_message :: "string \<Rightarrow> int \<Rightarrow> string" where
  "release_message digest timestamp = digest @ newline @ show_int timestamp"

section \<open>Patterns\<close>

text \<open>What the regular expression anchor \<^verbatim>\<open>$\<close> accepts at the end of a match: the end of the
  text, or a single line feed that ends it.\<close>

definition at_dollar :: "string \<Rightarrow> bool" where
  "at_dollar rest = (rest = [] \<or> rest = newline)"

definition NONCE_PATTERN :: "string \<Rightarrow> bool" where
  "NONCE_PATTERN s = (64 \<le> length s \<and> list_all is_lower_hex (take 64 s) \<and> at_dollar (drop 64 s))"

definition DIGEST_PATTERN :: "string \<Rightarrow> bool" where
  "DIGEST_PATTERN s = (prefix ''sha256:'' s \<and> NONCE_PATTERN (drop 7 s))"

definition KEY_TYPES :: "string list" where
  "KEY_TYPES = [''ssh-ed25519'', ''ecdsa-sha2-nistp256'', ''ecdsa-sha2-nistp384'', ''ssh-rsa'']"

definition is_base64 :: "char \<Rightarrow> bool" where
  "is_base64 c = (is_alnum c \<or> c = CHR ''+'' \<or> c = CHR ''/'')"

text \<open>The key body: base64 characters, then padding; the rest of the text is returned.\<close>

definition key_body_rest :: "string \<Rightarrow> string option" where
  "key_body_rest s =
     (if takeWhile is_base64 s = [] then None
      else Some (dropWhile (\<lambda>c. c = CHR ''='') (dropWhile is_base64 s)))"

definition comment_ok :: "string \<Rightarrow> bool" where
  "comment_ok rest =
     (at_dollar rest \<or>
      (case rest of [] \<Rightarrow> True
       | c # cs \<Rightarrow> c = CHR '' '' \<and>
           at_dollar (dropWhile (\<lambda>x. x \<noteq> CHR 0x0A \<and> x \<noteq> CHR 0x0D) cs)))"

definition PUBLIC_KEY_PATTERN :: "string \<Rightarrow> bool" where
  "PUBLIC_KEY_PATTERN s =
     list_ex (\<lambda>t. prefix (t @ '' '') s \<and>
       (case key_body_rest (drop (length t + 1) s) of None \<Rightarrow> False | Some r \<Rightarrow> comment_ok r)) KEY_TYPES"

definition well_formed_nonce :: "string \<Rightarrow> bool" where
  "well_formed_nonce nonce = NONCE_PATTERN nonce"

definition well_formed_public_key :: "string \<Rightarrow> bool" where
  "well_formed_public_key public_key =
     (let text = strip public_key in CHR 0x0A \<notin> set text \<and> PUBLIC_KEY_PATTERN text)"

definition well_formed_digest :: "string \<Rightarrow> bool" where
  "well_formed_digest digest = DIGEST_PATTERN digest"

section \<open>Field decoders\<close>

text \<open>\<^verbatim>\<open>int(payload.get(key, dflt) or dflt)\<close> with \<^verbatim>\<open>TypeError\<close> and \<^verbatim>\<open>ValueError\<close> answered by the
  default, the local function \<^verbatim>\<open>number\<close> of the decoders.\<close>

definition int_or :: "pydict \<Rightarrow> string \<Rightarrow> int \<Rightarrow> int" where
  "int_or d k dflt =
     (case py_int (py_or (dget d k (PInt dflt)) (PInt dflt)) of Inr i \<Rightarrow> i | Inl _ \<Rightarrow> dflt)"

definition float_or :: "pydict \<Rightarrow> string \<Rightarrow> rat pyres" where
  "float_or d k = guarded (py_float (py_or (dget d k (PFloat 0)) (PFloat 0))) 0"

definition dict_field :: "pydict \<Rightarrow> string \<Rightarrow> pydict" where
  "dict_field d k = (case dget d k PNone of PDict e \<Rightarrow> e | _ \<Rightarrow> [])"

lemma int_or_Int: "map_of d k = Some (PInt i) \<Longrightarrow> i \<noteq> 0 \<or> dflt = 0 \<Longrightarrow> int_or d k dflt = i"
  by (auto simp: int_or_def dget_def py_or_def)

lemma int_or_zero: "map_of d k = Some (PInt 0) \<Longrightarrow> int_or d k dflt = dflt"
  by (simp add: int_or_def dget_def py_or_def)

lemma float_or_Float: "map_of d k = Some (PFloat r) \<Longrightarrow> float_or d k = Inr r"
  by (simp add: float_or_def dget_def)

lemma dict_field_Dict: "map_of d k = Some (PDict e) \<Longrightarrow> dict_field d k = e"
  by (simp add: dict_field_def dget_def)

lemmas field_simps_py =
  str_or_empty_Str str_field_Str int_or_Int float_or_Float dict_field_Dict

section \<open>Messages\<close>

record SessionOpen =
  so_public_key :: string
  so_nonce :: string
  so_signature :: string

definition SessionOpen_payload :: "SessionOpen \<Rightarrow> pydict" where
  "SessionOpen_payload r =
     [(''public_key'', PStr (so_public_key r)), (''nonce'', PStr (so_nonce r)),
      (''signature'', PStr (so_signature r))]"

definition SessionOpen_from_payload :: "pydict \<Rightarrow> SessionOpen" where
  "SessionOpen_from_payload d =
     \<lparr>so_public_key = strip (str_field d ''public_key''),
      so_nonce = lower (strip (str_field d ''nonce'')),
      so_signature = strip (str_field d ''signature'')\<rparr>"

definition SessionOpen_problems :: "SessionOpen \<Rightarrow> string list" where
  "SessionOpen_problems r =
     (if \<not> well_formed_public_key (so_public_key r)
      then [''public_key must be a single OpenSSH public key line''] else []) @
     (if \<not> well_formed_nonce (so_nonce r)
      then [''nonce must be 32 bytes as 64 lowercase hex characters''] else []) @
     (if so_signature r = [] then [''signature is required''] else [])"

definition SessionOpen_blob :: "SessionOpen \<Rightarrow> string" where
  "SessionOpen_blob r = grant_blob (so_public_key r) (so_nonce r)"

record SessionGrant =
  sg_ssh_username :: string
  sg_ssh_port :: int
  sg_ssh_host_key :: string
  sg_python_path :: string
  sg_root_dir :: string
  sg_port_range :: string
  sg_validator :: string
  sg_expires_at :: string
  sg_gpu_attestation :: pydict
  sg_tdx_quote :: string
  sg_session_id :: string

definition SessionGrant_payload :: "SessionGrant \<Rightarrow> pydict" where
  "SessionGrant_payload g =
     [(''ssh_username'', PStr (sg_ssh_username g)), (''ssh_port'', PInt (sg_ssh_port g)),
      (''ssh_host_key'', PStr (sg_ssh_host_key g)), (''python_path'', PStr (sg_python_path g)),
      (''root_dir'', PStr (sg_root_dir g)), (''port_range'', PStr (sg_port_range g)),
      (''gpu_attestation'', PDict (sg_gpu_attestation g)), (''tdx_quote'', PStr (sg_tdx_quote g)),
      (''validator'', PStr (sg_validator g)), (''expires_at'', PStr (sg_expires_at g)),
      (''session_id'', PStr (sg_session_id g))]"

definition SessionGrant_from_payload :: "pydict \<Rightarrow> SessionGrant pyres" where
  "SessionGrant_from_payload d =
     rbind (py_int (py_or (dget d ''ssh_port'' (PInt 22)) (PInt 22))) (\<lambda>port. Inr
     \<lparr>sg_ssh_username = str_field d ''ssh_username'',
      sg_ssh_port = port,
      sg_ssh_host_key = str_field d ''ssh_host_key'',
      sg_python_path = py_str (py_or (dget d ''python_path'' (PStr ''python3'')) (PStr ''python3'')),
      sg_root_dir = py_str (py_or (dget d ''root_dir'' (PStr ''/tmp'')) (PStr ''/tmp'')),
      sg_port_range = str_field d ''port_range'',
      sg_validator = str_field d ''validator'',
      sg_expires_at = str_field d ''expires_at'',
      sg_gpu_attestation = dict_field d ''gpu_attestation'',
      sg_tdx_quote = str_or_empty d ''tdx_quote'',
      sg_session_id = str_or_empty d ''session_id''\<rparr>)"

record SessionClose =
  sc_public_key :: string
  sc_session_id :: string

definition SessionClose_payload :: "SessionClose \<Rightarrow> pydict" where
  "SessionClose_payload c =
     [(''public_key'', PStr (sc_public_key c)), (''session_id'', PStr (sc_session_id c))]"

definition SessionClose_from_payload :: "pydict \<Rightarrow> SessionClose" where
  "SessionClose_from_payload d =
     \<lparr>sc_public_key = strip (str_field d ''public_key''), sc_session_id = str_or_empty d ''session_id''\<rparr>"

record Release =
  rel_digest :: string
  rel_timestamp :: int
  rel_signature :: string
  rel_validator :: string

definition Release_payload :: "Release \<Rightarrow> pydict" where
  "Release_payload r =
     [(''digest'', PStr (rel_digest r)), (''timestamp'', PInt (rel_timestamp r)),
      (''signature'', PStr (rel_signature r)), (''validator'', PStr (rel_validator r))]"

definition Release_from_payload :: "pydict \<Rightarrow> Release" where
  "Release_from_payload d =
     \<lparr>rel_digest = str_field d ''digest'', rel_timestamp = int_or d ''timestamp'' 0,
      rel_signature = str_field d ''signature'', rel_validator = str_or_empty d ''validator''\<rparr>"

definition Release_message :: "Release \<Rightarrow> string" where
  "Release_message r = release_message (rel_digest r) (rel_timestamp r)"

record JobRecord =
  jr_job_id :: string
  jr_kind :: string
  jr_subnet :: string
  jr_pid :: int
  jr_gpu_uuid :: string
  jr_container :: string
  jr_started_at :: string

definition JobRecord_payload :: "JobRecord \<Rightarrow> pydict" where
  "JobRecord_payload j =
     [(''job_id'', PStr (jr_job_id j)), (''kind'', PStr (jr_kind j)),
      (''subnet'', PStr (jr_subnet j)), (''pid'', PInt (jr_pid j)),
      (''gpu_uuid'', PStr (jr_gpu_uuid j)), (''container'', PStr (jr_container j)),
      (''started_at'', PStr (jr_started_at j))]"

definition JobRecord_from_payload :: "pydict \<Rightarrow> JobRecord" where
  "JobRecord_from_payload d =
     \<lparr>jr_job_id = str_field d ''job_id'', jr_kind = str_field d ''kind'',
      jr_subnet = str_or_empty d ''subnet'', jr_pid = int_or d ''pid'' 0,
      jr_gpu_uuid = str_or_empty d ''gpu_uuid'', jr_container = str_or_empty d ''container'',
      jr_started_at = str_or_empty d ''started_at''\<rparr>"

section \<open>Round trips\<close>

interpretation job_record: codec JobRecord_payload "\<lambda>d. Inr (JobRecord_from_payload d)" "\<lambda>_. True"
  by unfold_locales (simp add: JobRecord_payload_def JobRecord_from_payload_def field_simps_py)

interpretation release: codec Release_payload "\<lambda>d. Inr (Release_from_payload d)" "\<lambda>_. True"
  by unfold_locales (simp add: Release_payload_def Release_from_payload_def field_simps_py)

interpretation session_close:
  codec SessionClose_payload "\<lambda>d. Inr (SessionClose_from_payload d)"
    "\<lambda>c. strip (sc_public_key c) = sc_public_key c"
  by unfold_locales (simp add: SessionClose_payload_def SessionClose_from_payload_def field_simps_py)

interpretation session_open:
  codec SessionOpen_payload "\<lambda>d. Inr (SessionOpen_from_payload d)"
    "\<lambda>r. strip (so_public_key r) = so_public_key r \<and> strip (so_nonce r) = so_nonce r \<and>
         lower (so_nonce r) = so_nonce r \<and> strip (so_signature r) = so_signature r"
  by unfold_locales (simp add: SessionOpen_payload_def SessionOpen_from_payload_def field_simps_py)

interpretation session_grant:
  codec SessionGrant_payload SessionGrant_from_payload
    "\<lambda>g. sg_ssh_port g \<noteq> 0 \<and> sg_python_path g \<noteq> [] \<and> sg_root_dir g \<noteq> []"
  by unfold_locales
    (simp add: SessionGrant_payload_def SessionGrant_from_payload_def field_simps_py py_or_def)

section \<open>What the patterns guarantee\<close>

lemma lower_hex_not_space: "is_lower_hex c \<Longrightarrow> \<not> is_space c"
  by (auto simp: is_lower_hex_def is_space_def Let_def)

lemma lower_hex_no_newline: "is_lower_hex c \<Longrightarrow> c \<noteq> CHR 0x0A"
  using lower_hex_not_space [of "CHR 0x0A"] by (auto simp: is_space_def)

lemma NONCE_PATTERN_cases:
  "NONCE_PATTERN s \<longleftrightarrow>
     (\<exists>h. length h = 64 \<and> list_all is_lower_hex h \<and> (s = h \<or> s = h @ newline))"
proof
  assume p: "NONCE_PATTERN s"
  then have "s = take 64 s \<or> s = take 64 s @ newline"
    unfolding NONCE_PATTERN_def at_dollar_def by (metis append_Nil2 append_take_drop_id)
  then show "\<exists>h. length h = 64 \<and> list_all is_lower_hex h \<and> (s = h \<or> s = h @ newline)"
    using p by (intro exI [of _ "take 64 s"]) (auto simp: NONCE_PATTERN_def)
next
  assume "\<exists>h. length h = 64 \<and> list_all is_lower_hex h \<and> (s = h \<or> s = h @ newline)"
  then show "NONCE_PATTERN s" by (auto simp: NONCE_PATTERN_def at_dollar_def)
qed

lemma stripped_nonce_exact:
  assumes "strip s = s" and "NONCE_PATTERN s"
  shows "length s = 64 \<and> list_all is_lower_hex s"
proof -
  obtain h where h: "length h = 64" "list_all is_lower_hex h" "s = h \<or> s = h @ newline"
    using assms(2) by (auto simp: NONCE_PATTERN_cases)
  have "s \<noteq> h @ newline"
  proof
    assume "s = h @ newline"
    then have "is_space (last s)" and "s \<noteq> []" by (auto simp: is_space_def)
    with strip_stripped [of s] assms(1) show False by auto
  qed
  with h show ?thesis by auto
qed

lemma lower_char_cases: "lower_char c = c \<or> (\<not> is_space (lower_char c) \<and> \<not> is_space c)"
proof (cases "65 \<le> (of_char c :: nat) \<and> (of_char c :: nat) \<le> 90")
  case True
  then have "(of_char (char_of ((of_char c :: nat) + 32) :: char) :: nat) = of_char c + 32"
    by simp
  with True show ?thesis by (simp add: lower_char_def is_space_def Let_def)
next
  case False
  then show ?thesis by (auto simp: lower_char_def Let_def)
qed

lemma is_space_lower: "is_space (lower_char c) = is_space c"
  using lower_char_cases [of c] by auto

lemma strip_lower: "strip (lower s) = lower (strip s)"
  by (simp add: strip_def lstrip_def rstrip_def lower_def dropWhile_map rev_map comp_def
      is_space_lower)

section \<open>Properties\<close>

text \<open>C34: What is signed is unambiguous. Two requests with the same signing bytes have the same method
  (up to case), path, timestamp and body, when method, path and timestamp hold no line feed; and two
  releases with the same signed message have the same digest and the same timestamp, whatever the
  digest text.\<close>

theorem signed_text_unambiguous:
  assumes "CHR 0x0A \<notin> set (upper m)" "CHR 0x0A \<notin> set p" "CHR 0x0A \<notin> set t"
    and "CHR 0x0A \<notin> set (upper m')" "CHR 0x0A \<notin> set p'" "CHR 0x0A \<notin> set t'"
  shows "(signing_bytes m p t b = signing_bytes m' p' t' b' \<longleftrightarrow> upper m = upper m' \<and> p = p' \<and> t = t' \<and> b = b')
    \<and> (release_message d s = release_message d' s' \<longleftrightarrow> d = d' \<and> s = s')"
proof
  show "signing_bytes m p t b = signing_bytes m' p' t' b' \<longleftrightarrow> upper m = upper m' \<and> p = p' \<and> t = t' \<and> b = b'"
  proof
    assume eq: "signing_bytes m p t b = signing_bytes m' p' t' b'"
    have 1: "upper m = upper m' \<and> p @ CHR 0x0A # t @ CHR 0x0A # b = p' @ CHR 0x0A # t' @ CHR 0x0A # b'"
      using eq assms(1,4) by (intro sep_inject) (simp_all add: signing_bytes_def)
    then have 2: "p = p' \<and> t @ CHR 0x0A # b = t' @ CHR 0x0A # b'"
      using assms(2,5) by (intro sep_inject) blast+
    then have "t = t' \<and> b = b'" using assms(3,6) by (intro sep_inject) blast+
    with 1 2 show "upper m = upper m' \<and> p = p' \<and> t = t' \<and> b = b'" by simp
  qed (simp add: signing_bytes_def)
  show "release_message d s = release_message d' s' \<longleftrightarrow> d = d' \<and> s = s'"
  proof
    assume "release_message d s = release_message d' s'"
    then have "d = d' \<and> show_int s = show_int s'"
      using show_int_no_newline by (intro sep_inject_last) (auto simp: release_message_def)
    then show "d = d' \<and> s = s'" by (simp add: show_int_inject)
  qed simp
qed

theorem signed_text_unambiguous_witness:
  "signing_bytes ''POST'' ''/jobs'' ''12.000'' ''{}'' \<noteq> signing_bytes ''POST'' ''/job'' ''s12.000'' ''{}''"
  using signed_text_unambiguous [of "''POST''" "''/jobs''" "''12.000''" "''POST''" "''/job''" "''s12.000''" "''{}''" "''{}''"
      "[]" 0 "[]" 0]
  by (simp add: upper_def upper_char_def)

text \<open>The patterns for nonces and digests accept one text too many: because \<^verbatim>\<open>$\<close> matches before a
  final line feed, 64 hexadecimal characters followed by a line feed are a well-formed nonce, and a
  digest followed by a line feed is a well-formed digest; and these are the only additional texts.\<close>

theorem patterns_accept_trailing_newline:
  "(well_formed_nonce s \<longleftrightarrow> (\<exists>h. length h = 64 \<and> list_all is_lower_hex h \<and> (s = h \<or> s = h @ newline)))
   \<and> (well_formed_digest s \<longleftrightarrow>
        (\<exists>h. length h = 64 \<and> list_all is_lower_hex h \<and> (s = ''sha256:'' @ h \<or> s = ''sha256:'' @ h @ newline)))"
proof
  show "well_formed_nonce s \<longleftrightarrow> (\<exists>h. length h = 64 \<and> list_all is_lower_hex h \<and> (s = h \<or> s = h @ newline))"
    by (simp add: well_formed_nonce_def NONCE_PATTERN_cases)
  have "DIGEST_PATTERN s \<longleftrightarrow> (\<exists>r. s = ''sha256:'' @ r \<and> NONCE_PATTERN r)"
    by (auto simp: DIGEST_PATTERN_def prefix_def)
  then show "well_formed_digest s \<longleftrightarrow>
      (\<exists>h. length h = 64 \<and> list_all is_lower_hex h \<and> (s = ''sha256:'' @ h \<or> s = ''sha256:'' @ h @ newline))"
    by (auto simp: well_formed_digest_def NONCE_PATTERN_cases)
qed

end
