(* ===== verification/Protocol_Messages.thy ===== *)
theory Protocol_Messages
  imports Protocol_Session
begin

text \<open>
  The messages between the agent and the pool server (\<^verbatim>\<open>protocol/messages.py\<close>). The clock is an
  argument (\<open>now\<close>) wherever the source calls \<^verbatim>\<open>time.time\<close>.
\<close>

definition PROTOCOL :: int where "PROTOCOL = 1"
definition PING_SECONDS :: int where "PING_SECONDS = 20"

datatype ServerMessage = WELCOME | COMMAND | PONG | ERROR

fun server_message_value :: "ServerMessage \<Rightarrow> string" where
  "server_message_value WELCOME = ''welcome''"
| "server_message_value COMMAND = ''command''"
| "server_message_value PONG = ''pong''"
| "server_message_value ERROR = ''error''"

datatype AgentMessage = HELLO | PING | STATE | RESULT | EVENT

fun agent_message_value :: "AgentMessage \<Rightarrow> string" where
  "agent_message_value HELLO = ''hello''"
| "agent_message_value PING = ''ping''"
| "agent_message_value STATE = ''state''"
| "agent_message_value RESULT = ''result''"
| "agent_message_value EVENT = ''event''"

datatype CommandKind =
    SPEC | UTILISATION | CHALLENGE | ATTESTATION | JOB_PLACED | LOG_STREAM | PREFETCH | DRAIN
  | CLAIM_PROMPT

fun command_kind_value :: "CommandKind \<Rightarrow> string" where
  "command_kind_value SPEC = ''SpecRequest''"
| "command_kind_value UTILISATION = ''UtilisationRequest''"
| "command_kind_value CHALLENGE = ''ChallengeRequest''"
| "command_kind_value ATTESTATION = ''AttestationRequest''"
| "command_kind_value JOB_PLACED = ''JobPlaced''"
| "command_kind_value LOG_STREAM = ''LogStreamRequest''"
| "command_kind_value PREFETCH = ''PrefetchRequest''"
| "command_kind_value DRAIN = ''DrainRequest''"
| "command_kind_value CLAIM_PROMPT = ''ClaimPrompt''"

definition command_kinds :: "CommandKind list" where
  "command_kinds =
     [SPEC, UTILISATION, CHALLENGE, ATTESTATION, JOB_PLACED, LOG_STREAM, PREFETCH, DRAIN, CLAIM_PROMPT]"

definition stamp :: "rat \<Rightarrow> rat" where
  "stamp now = py_round_to 3 now"

section \<open>Control messages\<close>

record Hello =
  hello_agent :: string
  hello_timestamp :: string
  hello_signature :: string

definition Hello_payload :: "Hello \<Rightarrow> pydict" where
  "Hello_payload h =
     [(''type'', PStr (agent_message_value HELLO)), (''agent'', PStr (hello_agent h)),
      (''timestamp'', PStr (hello_timestamp h)), (''signature'', PStr (hello_signature h)),
      (''protocol'', PInt PROTOCOL)]"

record Welcome =
  wel_rig_id :: string
  wel_ping_seconds :: int
  wel_protocol :: int

definition Welcome_from_payload :: "pydict \<Rightarrow> Welcome" where
  "Welcome_from_payload d =
     \<lparr>wel_rig_id = str_field d ''rig_id'', wel_ping_seconds = int_or d ''ping_seconds'' PING_SECONDS,
      wel_protocol = int_or d ''protocol'' PROTOCOL\<rparr>"

record Command =
  cmd_id :: int
  cmd_kind :: string
  cmd_payload :: pydict
  cmd_expires_at :: string

definition Command_from_payload :: "pydict \<Rightarrow> Command" where
  "Command_from_payload d =
     \<lparr>cmd_id = int_or d ''id'' 0, cmd_kind = str_field d ''kind'',
      cmd_payload = dict_field d ''payload'', cmd_expires_at = str_or_empty d ''expires_at''\<rparr>"

definition Command_known :: "Command \<Rightarrow> bool" where
  "Command_known c = (cmd_kind c \<in> command_kind_value ` set command_kinds)"

record Result =
  res_id :: int
  res_ok :: bool
  res_result :: pydict

definition Result_payload :: "rat \<Rightarrow> Result \<Rightarrow> pydict" where
  "Result_payload now r =
     [(''type'', PStr (agent_message_value RESULT)), (''id'', PInt (res_id r)),
      (''ok'', PBool (res_ok r)), (''result'', PDict (res_result r)), (''sent_at'', PFloat (stamp now))]"

record State =
  st_utilisation :: pydict
  st_containers :: "pyval list"
  st_queue_depth :: int
  st_agent_version :: string
  st_draining :: bool
  st_jobs :: "string list"

definition State_payload :: "rat \<Rightarrow> State \<Rightarrow> pydict" where
  "State_payload now s =
     [(''type'', PStr (agent_message_value STATE)), (''utilisation'', PDict (st_utilisation s)),
      (''containers'', PList (st_containers s)), (''queue_depth'', PInt (st_queue_depth s)),
      (''agent_version'', PStr (st_agent_version s)), (''draining'', PBool (st_draining s)),
      (''jobs'', PList (map PStr (st_jobs s))), (''sent_at'', PFloat (stamp now))]"

record Event =
  ev_kind :: string
  ev_detail :: pydict

definition Event_payload :: "rat \<Rightarrow> Event \<Rightarrow> pydict" where
  "Event_payload now e =
     [(''type'', PStr (agent_message_value EVENT)), (''kind'', PStr (take 40 (ev_kind e))),
      (''detail'', PDict (ev_detail e)), (''sent_at'', PFloat (stamp now))]"

definition ping :: "rat \<Rightarrow> pydict" where
  "ping now = [(''type'', PStr (agent_message_value PING)), (''sent_at'', PFloat (stamp now))]"

section \<open>Command bodies\<close>

record ChallengeRequest =
  cr_seed :: int
  cr_cipher :: int
  cr_n :: int
  cr_rounds :: int
  cr_benchmark_n :: int
  cr_iterations :: int

definition ChallengeRequest_payload :: "ChallengeRequest \<Rightarrow> pydict" where
  "ChallengeRequest_payload r =
     [(''seed'', PInt (cr_seed r)), (''cipher'', PInt (cr_cipher r)), (''n'', PInt (cr_n r)),
      (''rounds'', PInt (cr_rounds r)), (''benchmark_n'', PInt (cr_benchmark_n r)),
      (''iterations'', PInt (cr_iterations r))]"

definition ChallengeRequest_from_payload :: "pydict \<Rightarrow> ChallengeRequest" where
  "ChallengeRequest_from_payload d =
     \<lparr>cr_seed = int_or d ''seed'' 0, cr_cipher = int_or d ''cipher'' 0, cr_n = int_or d ''n'' 256,
      cr_rounds = int_or d ''rounds'' 2, cr_benchmark_n = int_or d ''benchmark_n'' 2048,
      cr_iterations = int_or d ''iterations'' 32\<rparr>"

record ChallengeAnswer =
  ca_digest :: string
  ca_elapsed_ms :: rat
  ca_gops :: rat
  ca_gbps :: rat
  ca_benchmark_ms :: rat
  ca_build :: string
  ca_version :: int
  ca_error :: string

definition ChallengeAnswer_payload :: "ChallengeAnswer \<Rightarrow> pydict" where
  "ChallengeAnswer_payload a =
     [(''digest'', PStr (ca_digest a)), (''elapsed_ms'', PFloat (py_round_to 3 (ca_elapsed_ms a))),
      (''gops'', PFloat (py_round_to 3 (ca_gops a))), (''gbps'', PFloat (py_round_to 3 (ca_gbps a))),
      (''benchmark_ms'', PFloat (py_round_to 3 (ca_benchmark_ms a))), (''build'', PStr (ca_build a)),
      (''version'', PInt (ca_version a)), (''error'', PStr (ca_error a))]"

definition ChallengeAnswer_from_payload :: "pydict \<Rightarrow> ChallengeAnswer pyres" where
  "ChallengeAnswer_from_payload d =
     rbind (float_or d ''elapsed_ms'') (\<lambda>elapsed.
     rbind (float_or d ''gops'') (\<lambda>gops.
     rbind (float_or d ''gbps'') (\<lambda>gbps.
     rbind (float_or d ''benchmark_ms'') (\<lambda>bench. Inr
     \<lparr>ca_digest = str_or_empty d ''digest'', ca_elapsed_ms = elapsed, ca_gops = gops, ca_gbps = gbps,
      ca_benchmark_ms = bench, ca_build = str_or_empty d ''build'', ca_version = int_or d ''version'' 0,
      ca_error = str_or_empty d ''error''\<rparr>))))"

record LogStreamRequest =
  ls_container :: string
  ls_tail :: int
  ls_seconds :: int

definition LogStreamRequest_from_payload :: "pydict \<Rightarrow> LogStreamRequest" where
  "LogStreamRequest_from_payload d =
     \<lparr>ls_container = py_str (py_or (py_or (dget d ''container'' (PStr [])) (dget d ''name'' (PStr [])))
        (PStr [])),
      ls_tail = max 1 (min (int_or d ''tail'' 200) 500),
      ls_seconds = max 1 (min (int_or d ''seconds'' 30) 300)\<rparr>"

record PrefetchRequest =
  pf_image :: string
  pf_digest :: string

definition PrefetchRequest_from_payload :: "pydict \<Rightarrow> PrefetchRequest" where
  "PrefetchRequest_from_payload d =
     \<lparr>pf_image = str_or_empty d ''image'', pf_digest = str_or_empty d ''digest''\<rparr>"

definition PrefetchRequest_reference :: "PrefetchRequest \<Rightarrow> string" where
  "PrefetchRequest_reference r =
     (if pf_digest r \<noteq> [] \<and> \<not> contains_str ''@'' (pf_image r)
      then hd (split_on (CHR '':'') (pf_image r)) @ ''@'' @ pf_digest r
      else pf_image r)"

record DrainRequest =
  dr_drain :: bool
  dr_reason :: string

definition DrainRequest_from_payload :: "pydict \<Rightarrow> DrainRequest" where
  "DrainRequest_from_payload d =
     \<lparr>dr_drain = truthy (dget d ''drain'' (PBool True)), dr_reason = str_or_empty d ''reason''\<rparr>"

record ClaimPrompt =
  cp_hotkey :: string
  cp_expires_at :: string

definition ClaimPrompt_from_payload :: "pydict \<Rightarrow> ClaimPrompt" where
  "ClaimPrompt_from_payload d =
     \<lparr>cp_hotkey = str_or_empty d ''hotkey'', cp_expires_at = str_or_empty d ''expires_at''\<rparr>"

definition AttestationRequest_from_payload :: "pydict \<Rightarrow> string" where
  "AttestationRequest_from_payload d = lower (strip (str_or_empty d ''nonce''))"

section \<open>Facts\<close>

lemma py_round_to_idem: "py_round_to n (py_round_to n x) = py_round_to n x"
  by (simp add: py_round_to_def)

interpretation challenge_request:
  codec ChallengeRequest_payload "\<lambda>d. Inr (ChallengeRequest_from_payload d)"
    "\<lambda>r. cr_n r \<noteq> 0 \<and> cr_rounds r \<noteq> 0 \<and> cr_benchmark_n r \<noteq> 0 \<and> cr_iterations r \<noteq> 0"
  by unfold_locales
    (simp add: ChallengeRequest_payload_def ChallengeRequest_from_payload_def field_simps_py)

interpretation challenge_answer:
  codec ChallengeAnswer_payload ChallengeAnswer_from_payload
    "\<lambda>a. py_round_to 3 (ca_elapsed_ms a) = ca_elapsed_ms a \<and> py_round_to 3 (ca_gops a) = ca_gops a \<and>
         py_round_to 3 (ca_gbps a) = ca_gbps a \<and> py_round_to 3 (ca_benchmark_ms a) = ca_benchmark_ms a"
  by unfold_locales
    (simp add: ChallengeAnswer_payload_def ChallengeAnswer_from_payload_def field_simps_py)

lemma LogStreamRequest_bounds:
  "1 \<le> ls_tail (LogStreamRequest_from_payload d) \<and> ls_tail (LogStreamRequest_from_payload d) \<le> 500 \<and>
   1 \<le> ls_seconds (LogStreamRequest_from_payload d) \<and> ls_seconds (LogStreamRequest_from_payload d) \<le> 300"
  by (simp add: LogStreamRequest_from_payload_def)

lemma command_kind_inject: "command_kind_value a = command_kind_value b \<longleftrightarrow> a = b"
  by (cases a; cases b) simp_all

lemma Command_known_iff: "Command_known c \<longleftrightarrow> (\<exists>k. cmd_kind c = command_kind_value k)"
proof -
  have "k \<in> set command_kinds" for k by (cases k) (simp_all add: command_kinds_def)
  then show ?thesis by (auto simp: Command_known_def)
qed

end
