(* ===== verification/Protocol_Attestation.thy ===== *)
theory Protocol_Attestation
  imports Protocol_Session
begin

text \<open>
  Attestation reports (\<^verbatim>\<open>protocol/attestation.py\<close>). Hashing is not under the repository: the
  digest function is the argument \<open>sha256\<close>, from text to a list of byte values.
\<close>

definition HOST_KEY_PREFIX :: string where "HOST_KEY_PREFIX = ''SSH_HOST_KEY:''"
definition REPORT_DATA_BYTES :: nat where "REPORT_DATA_BYTES = 64"

text \<open>\<^verbatim>\<open>bytes.fromhex\<close>: pairs of hexadecimal digits, with white space allowed between pairs.\<close>

definition hex_val :: "char \<Rightarrow> nat option" where
  "hex_val c = (let n = of_char c :: nat in
     if 48 \<le> n \<and> n \<le> 57 then Some (n - 48)
     else if 97 \<le> n \<and> n \<le> 102 then Some (n - 87)
     else if 65 \<le> n \<and> n \<le> 70 then Some (n - 55) else None)"

definition hex_space :: "char \<Rightarrow> bool" where
  "hex_space c = (let n = of_char c :: nat in (9 \<le> n \<and> n \<le> 13) \<or> n = 32)"

fun fromhex :: "string \<Rightarrow> nat list option" where
  "fromhex [] = Some []"
| "fromhex [c] = (if hex_space c then Some [] else None)"
| "fromhex (c # d # cs) =
     (if hex_space c then fromhex (d # cs)
      else (case (hex_val c, hex_val d, fromhex cs) of
              (Some a, Some b, Some bs) \<Rightarrow> Some ((16 * a + b) # bs)
            | _ \<Rightarrow> None))"

definition report_data :: "(string \<Rightarrow> nat list) \<Rightarrow> string \<Rightarrow> string \<Rightarrow> nat list" where
  "report_data sha256 host_key nonce_hex =
     (let identity = sha256 (HOST_KEY_PREFIX @ strip host_key);
          freshness = (case fromhex nonce_hex of None \<Rightarrow> [] | Some bs \<Rightarrow> bs)
      in identity @ (if length freshness \<noteq> 32 then replicate 32 0 else freshness))"

definition report_data_matches ::
  "(string \<Rightarrow> nat list) \<Rightarrow> nat list \<Rightarrow> string \<Rightarrow> string \<Rightarrow> bool" where
  "report_data_matches sha256 data host_key nonce_hex =
     (REPORT_DATA_BYTES \<le> length data \<and>
      take REPORT_DATA_BYTES data = report_data sha256 host_key nonce_hex)"

record GpuEvidence =
  ge_uuid :: string
  ge_model :: string
  ge_memory_mb :: int
  ge_index :: int
  ge_serial :: string
  ge_pci_bus_id :: string
  ge_mig_mode :: string
  ge_virtualization :: string
  ge_driver :: string
  ge_cuda :: string

definition GpuEvidence_payload :: "GpuEvidence \<Rightarrow> pydict" where
  "GpuEvidence_payload g =
     [(''uuid'', PStr (ge_uuid g)), (''model'', PStr (ge_model g)),
      (''memory_mb'', PInt (ge_memory_mb g)), (''index'', PInt (ge_index g)),
      (''serial'', PStr (ge_serial g)), (''pci_bus_id'', PStr (ge_pci_bus_id g)),
      (''mig_mode'', PStr (ge_mig_mode g)), (''virtualization'', PStr (ge_virtualization g)),
      (''driver'', PStr (ge_driver g)), (''cuda'', PStr (ge_cuda g))]"

definition GpuEvidence_from_payload :: "pydict \<Rightarrow> GpuEvidence" where
  "GpuEvidence_from_payload d =
     \<lparr>ge_uuid = str_field d ''uuid'', ge_model = str_field d ''model'',
      ge_memory_mb = int_or d ''memory_mb'' 0, ge_index = int_or d ''index'' 0,
      ge_serial = str_or_empty d ''serial'', ge_pci_bus_id = str_or_empty d ''pci_bus_id'',
      ge_mig_mode = str_or_empty d ''mig_mode'', ge_virtualization = str_or_empty d ''virtualization'',
      ge_driver = str_or_empty d ''driver'', ge_cuda = str_or_empty d ''cuda''\<rparr>"

record Attestation =
  at_nonce :: string
  at_agent_version :: string
  at_hostname :: string
  at_gpus :: "GpuEvidence list"
  at_driver :: string
  at_cuda :: string
  at_machine_id :: string
  at_boot_id :: string
  at_host_key :: string
  at_report_data_hex :: string
  at_tdx_quote :: string
  at_gpu_evidence :: pydict
  at_generated_at :: rat

definition Attestation_payload :: "Attestation \<Rightarrow> pydict" where
  "Attestation_payload a =
     [(''nonce'', PStr (at_nonce a)), (''agent_version'', PStr (at_agent_version a)),
      (''hostname'', PStr (at_hostname a)),
      (''gpus'', PList (map (\<lambda>g. PDict (GpuEvidence_payload g)) (at_gpus a))),
      (''driver'', PStr (at_driver a)), (''cuda'', PStr (at_cuda a)),
      (''machine_id'', PStr (at_machine_id a)), (''boot_id'', PStr (at_boot_id a)),
      (''host_key'', PStr (at_host_key a)), (''report_data'', PStr (at_report_data_hex a)),
      (''tdx_quote'', PStr (at_tdx_quote a)), (''gpu_evidence'', PDict (at_gpu_evidence a)),
      (''generated_at'', PFloat (at_generated_at a))]"

fun dicts_of :: "pyval list \<Rightarrow> pydict list" where
  "dicts_of [] = []"
| "dicts_of (PDict d # vs) = d # dicts_of vs"
| "dicts_of (_ # vs) = dicts_of vs"

definition Attestation_from_payload :: "pydict \<Rightarrow> Attestation pyres" where
  "Attestation_from_payload d =
     rbind (float_or d ''generated_at'') (\<lambda>generated_at. Inr
     \<lparr>at_nonce = str_field d ''nonce'', at_agent_version = str_field d ''agent_version'',
      at_hostname = str_field d ''hostname'',
      at_gpus = (case dget d ''gpus'' PNone of
                   PList xs \<Rightarrow> map GpuEvidence_from_payload (dicts_of xs) | _ \<Rightarrow> []),
      at_driver = str_or_empty d ''driver'', at_cuda = str_or_empty d ''cuda'',
      at_machine_id = str_or_empty d ''machine_id'', at_boot_id = str_or_empty d ''boot_id'',
      at_host_key = str_or_empty d ''host_key'', at_report_data_hex = str_or_empty d ''report_data'',
      at_tdx_quote = str_or_empty d ''tdx_quote'', at_gpu_evidence = dict_field d ''gpu_evidence'',
      at_generated_at = generated_at\<rparr>)"

definition bound_to :: "Attestation \<Rightarrow> string \<Rightarrow> bool" where
  "bound_to a nonce = (nonce \<noteq> [] \<and> at_nonce a = nonce)"

section \<open>Round trips\<close>

interpretation gpu_evidence:
  codec GpuEvidence_payload "\<lambda>d. Inr (GpuEvidence_from_payload d)" "\<lambda>_. True"
  by unfold_locales (simp add: GpuEvidence_payload_def GpuEvidence_from_payload_def field_simps_py)

lemma dicts_of_map [simp]: "dicts_of (map (\<lambda>x. PDict (f x)) xs) = map f xs"
  by (induction xs) simp_all

lemma GpuEvidence_inverse: "GpuEvidence_from_payload (GpuEvidence_payload g) = g"
  using gpu_evidence.dec_enc [of g] by simp

interpretation attestation: codec Attestation_payload Attestation_from_payload "\<lambda>_. True"
  by unfold_locales
    (simp add: Attestation_payload_def Attestation_from_payload_def field_simps_py
      GpuEvidence_inverse comp_def)

section \<open>Binding\<close>

lemma hex_val_lower: "is_lower_hex c \<Longrightarrow> \<exists>a. hex_val c = Some a"
  by (auto simp: hex_val_def is_lower_hex_def Let_def)

lemma lower_hex_not_hex_space: "is_lower_hex c \<Longrightarrow> \<not> hex_space c"
  by (auto simp: hex_space_def is_lower_hex_def Let_def)

lemma fromhex_lower_hex: "list_all is_lower_hex h \<Longrightarrow> even (length h) \<Longrightarrow>
  \<exists>bs. fromhex h = Some bs \<and> length bs = length h div 2"
proof (induction h rule: fromhex.induct)
  case (3 c d cs)
  have sp: "\<not> hex_space c"
    using 3 by (auto dest: lower_hex_not_hex_space)
  obtain a b where ab: "hex_val c = Some a" "hex_val d = Some b"
    using 3 hex_val_lower [of c] hex_val_lower [of d] by auto
  obtain bs where "fromhex cs = Some bs" "length bs = length cs div 2"
    using 3 sp by auto
  then show ?case using sp ab by simp
qed auto

lemma hex_val_inject:
  assumes "is_lower_hex c" and "is_lower_hex d" and "hex_val c = hex_val d"
  shows "c = d"
proof -
  define n m where "n = (of_char c :: nat)" and "m = (of_char d :: nat)"
  have "n = m"
    using assms unfolding hex_val_def is_lower_hex_def Let_def n_def [symmetric] m_def [symmetric]
    by (auto split: if_splits)
  then show ?thesis by (simp only: n_def m_def of_char_eq_iff)
qed

lemma hex_val_less: "hex_val c = Some a \<Longrightarrow> a < 16"
  by (auto simp: hex_val_def Let_def split: if_splits)

lemma fromhex_bytes: "fromhex h = Some bs \<Longrightarrow> \<forall>b \<in> set bs. b < 256"
proof (induction h arbitrary: bs rule: fromhex.induct)
  case (3 c d cs)
  show ?case
  proof (cases "hex_space c")
    case True
    then show ?thesis using 3 by simp
  next
    case False
    then obtain a b bs' where v: "hex_val c = Some a" "hex_val d = Some b" "fromhex cs = Some bs'" "bs = (16 * a + b) # bs'"
      using 3(3) by (auto split: option.splits)
    have "a < 16" "b < 16" using v(1,2) by (simp_all only: hex_val_less)
    then show ?thesis using 3(2) [OF False v(3)] v(4) by simp
  qed
qed (auto split: if_splits)

lemma fromhex_inject:
  "list_all is_lower_hex g \<Longrightarrow> list_all is_lower_hex h \<Longrightarrow> length g = length h \<Longrightarrow>
   even (length g) \<Longrightarrow> fromhex g = fromhex h \<Longrightarrow> g = h"
proof (induction g arbitrary: h rule: fromhex.induct)
  case (3 c d cs)
  obtain c' d' cs' where h: "h = c' # d' # cs'"
    using 3(5) by (cases h rule: fromhex.cases) auto
  have sp: "\<not> hex_space c" "\<not> hex_space c'"
    using 3(3,4) h by (auto dest: lower_hex_not_hex_space)
  obtain bs where bs: "fromhex cs = Some bs"
    using fromhex_lower_hex [of cs] 3(3,6) by auto
  obtain bs' where bs': "fromhex cs' = Some bs'"
    using fromhex_lower_hex [of cs'] 3(4,5,6) h by auto
  obtain a b a' b' where v: "hex_val c = Some a" "hex_val d = Some b"
    "hex_val c' = Some a'" "hex_val d' = Some b'"
    using 3(3,4) h hex_val_lower [of c] hex_val_lower [of d] hex_val_lower [of c'] hex_val_lower [of d']
    by auto
  have eq: "16 * a + b = 16 * a' + b'" "bs = bs'"
    using 3(7) sp v bs bs' h by simp_all
  have "b < 16" "b' < 16" using v by (simp_all only: hex_val_less)
  then have "a = a'" using arg_cong [OF eq(1), of "\<lambda>x. x div 16"] by simp
  moreover from this eq(1) have "b = b'" by simp
  ultimately have "a = a'" "b = b'" by simp_all
  then have "hex_val c = hex_val c'" "hex_val d = hex_val d'" using v by simp_all
  then have "c = c'" "d = d'"
    using 3(3,4) h hex_val_inject [of c c'] hex_val_inject [of d d'] by simp_all
  moreover have "cs = cs'" using 3(2) [OF sp(1), of cs'] 3(3-6) h bs bs' eq by simp
  ultimately show ?case using h by simp
qed auto

section \<open>Properties\<close>

text \<open>Report data binds the session: when two pairs of a host key and a well-formed nonce give the
  same report data, the nonces are equal and so are the digests of the two prefixed host keys. The
  digest function is only assumed to return 32 bytes.\<close>

theorem report_data_binds:
  assumes "\<forall>s. length (sha256 s) = 32"
    and "length n = 64" "list_all is_lower_hex n" "length n' = 64" "list_all is_lower_hex n'"
    and "report_data sha256 k n = report_data sha256 k' n'"
  shows "n = n' \<and> sha256 (HOST_KEY_PREFIX @ strip k) = sha256 (HOST_KEY_PREFIX @ strip k')"
proof -
  obtain bs where bs: "fromhex n = Some bs" "length bs = 32" using fromhex_lower_hex [of n] assms(2,3) by auto
  obtain bs' where bs': "fromhex n' = Some bs'" "length bs' = 32" using fromhex_lower_hex [of n'] assms(4,5) by auto
  have "sha256 (HOST_KEY_PREFIX @ strip k) @ bs = sha256 (HOST_KEY_PREFIX @ strip k') @ bs'"
    using assms(6) bs bs' by (simp add: report_data_def)
  then have "sha256 (HOST_KEY_PREFIX @ strip k) = sha256 (HOST_KEY_PREFIX @ strip k')" "bs = bs'"
    using assms(1) by (simp_all add: append_eq_append_conv)
  then show ?thesis using fromhex_inject [of n n'] bs bs' assms(2-5) by simp
qed

theorem report_data_binds_witness:
  "report_data (\<lambda>s. replicate 32 1) ''k'' (replicate 64 CHR ''a'') \<noteq>
   report_data (\<lambda>s. replicate 32 1) ''k'' (replicate 64 CHR ''b'')"
proof
  assume eq: "report_data (\<lambda>s. replicate 32 1) ''k'' (replicate 64 CHR ''a'') =
   report_data (\<lambda>s. replicate 32 1) ''k'' (replicate 64 CHR ''b'')"
  have h: "list_all is_lower_hex (replicate 64 CHR ''a'')" "list_all is_lower_hex (replicate 64 CHR ''b'')"
    by (simp_all add: list_all_iff is_lower_hex_def)
  from report_data_binds [OF _ _ h(1) _ h(2) eq] have "replicate 64 CHR ''a'' = replicate 64 CHR ''b''" by simp
  then have "hd (replicate 64 CHR ''a'') = hd (replicate 64 CHR ''b'')" by (rule arg_cong)
  then show False by (simp add: hd_replicate)
qed

text \<open>The validator reads the grant and the attestation exactly as the agent wrote them: decoding an
  encoded grant gives the grant back, when it names an ssh port, an interpreter and a directory, and
  decoding an encoded attestation gives the attestation back, GPUs and all.\<close>

theorem grant_roundtrip:
  assumes "sg_ssh_port g \<noteq> 0" "sg_python_path g \<noteq> []" "sg_root_dir g \<noteq> []"
  shows "SessionGrant_from_payload (SessionGrant_payload g) = Inr g
    \<and> Attestation_from_payload (Attestation_payload a) = Inr a"
  using session_grant.dec_enc [of g] attestation.dec_enc [of a] assms by simp

theorem grant_roundtrip_witness:
  "SessionGrant_from_payload (SessionGrant_payload
      \<lparr>sg_ssh_username = ''root'', sg_ssh_port = 22, sg_ssh_host_key = ''k'', sg_python_path = ''python3'',
       sg_root_dir = ''/tmp'', sg_port_range = [], sg_validator = ''5V'', sg_expires_at = [], sg_gpu_attestation = [],
       sg_tdx_quote = [], sg_session_id = ''ab''\<rparr>)
    = Inr \<lparr>sg_ssh_username = ''root'', sg_ssh_port = 22, sg_ssh_host_key = ''k'', sg_python_path = ''python3'',
       sg_root_dir = ''/tmp'', sg_port_range = [], sg_validator = ''5V'', sg_expires_at = [], sg_gpu_attestation = [],
       sg_tdx_quote = [], sg_session_id = ''ab''\<rparr>"
  using grant_roundtrip [of "\<lparr>sg_ssh_username = ''root'', sg_ssh_port = 22, sg_ssh_host_key = ''k'',
       sg_python_path = ''python3'', sg_root_dir = ''/tmp'', sg_port_range = [], sg_validator = ''5V'', sg_expires_at = [],
       sg_gpu_attestation = [], sg_tdx_quote = [], sg_session_id = ''ab''\<rparr>"] by simp

end
