(* ===== verification/Data_Tiers.thy ===== *)
theory Data_Tiers
  imports Protocol_Failures
begin

text \<open>
  Memory tiers, kinds of work and what each kind asks of a machine (\<^verbatim>\<open>validator/data/tiers.py\<close>).
\<close>

datatype Tier = Entry | Standard | Professional | Flagship

fun tier_value :: "Tier \<Rightarrow> string" where
  "tier_value Entry = ''entry''"
| "tier_value Standard = ''standard''"
| "tier_value Professional = ''professional''"
| "tier_value Flagship = ''flagship''"

definition TIER_ORDER :: "Tier list" where
  "TIER_ORDER = [Entry, Standard, Professional, Flagship]"

text \<open>\<^verbatim>\<open>Tier(text)\<close>, with \<^verbatim>\<open>ValueError\<close> as \<open>None\<close>.\<close>

definition tier_of_value :: "string \<Rightarrow> Tier option" where
  "tier_of_value s = find (\<lambda>t. tier_value t = s) TIER_ORDER"

fun TIER_MEMORY_GB :: "Tier \<Rightarrow> int \<times> int option" where
  "TIER_MEMORY_GB Entry = (8, Some 16)"
| "TIER_MEMORY_GB Standard = (20, Some 24)"
| "TIER_MEMORY_GB Professional = (32, Some 48)"
| "TIER_MEMORY_GB Flagship = (80, None)"

fun FEE_MULTIPLIER :: "Tier \<Rightarrow> int" where
  "FEE_MULTIPLIER Entry = 1"
| "FEE_MULTIPLIER Standard = 2"
| "FEE_MULTIPLIER Professional = 3"
| "FEE_MULTIPLIER Flagship = 4"

definition tier_for_memory_gb :: "rat \<Rightarrow> Tier option" where
  "tier_for_memory_gb nominal_gb =
     (if 80 \<le> nominal_gb then Some Flagship
      else if 32 \<le> nominal_gb then Some Professional
      else if 20 \<le> nominal_gb then Some Standard
      else if 8 \<le> nominal_gb then Some Entry
      else None)"

definition tier_index :: "Tier \<Rightarrow> nat" where
  "tier_index t = index_of TIER_ORDER t"

lemma tier_index_simps [simp]:
  "tier_index Entry = 0" "tier_index Standard = 1" "tier_index Professional = 2" "tier_index Flagship = 3"
  by (simp_all add: tier_index_def TIER_ORDER_def eval_nat_numeral)

lemma tier_index_inject: "tier_index a = tier_index b \<longleftrightarrow> a = b"
  by (cases a; cases b) simp_all

instantiation Tier :: linorder
begin

definition less_eq_Tier :: "Tier \<Rightarrow> Tier \<Rightarrow> bool" where
  "less_eq_Tier a b = (tier_index a \<le> tier_index b)"

definition less_Tier :: "Tier \<Rightarrow> Tier \<Rightarrow> bool" where
  "less_Tier a b = (tier_index a < tier_index b)"

instance
  by standard
    (auto simp: less_eq_Tier_def less_Tier_def tier_index_inject
      dest: antisym [THEN tier_index_inject [THEN iffD1]])

end

definition tier_at_least :: "Tier \<Rightarrow> Tier \<Rightarrow> bool" where
  "tier_at_least tier flr = (index_of TIER_ORDER tier \<ge> index_of TIER_ORDER flr)"

lemma tier_at_least_iff: "tier_at_least t f \<longleftrightarrow> f \<le> t"
  by (simp add: tier_at_least_def less_eq_Tier_def tier_index_def)

datatype WorkKind = Rental | Inference | Shaping | Mining

fun work_kind_value :: "WorkKind \<Rightarrow> string" where
  "work_kind_value Rental = ''rental''"
| "work_kind_value Inference = ''inference''"
| "work_kind_value Shaping = ''shaping''"
| "work_kind_value Mining = ''mining''"

definition PRIORITY :: "WorkKind list" where
  "PRIORITY = [Rental, Inference, Shaping, Mining]"

record Minimums =
  m_tier :: Tier
  m_vram_gb :: int
  m_ram_ratio :: rat
  m_disk_gb :: int
  m_cpu_cores :: int
  m_isolation :: bool
  m_quotas :: bool
  m_public_ipv4 :: bool
  m_port_range :: bool
  m_bandwidth_mbps :: int

fun MINIMUMS :: "WorkKind \<Rightarrow> Minimums" where
  "MINIMUMS Inference =
     \<lparr>m_tier = Entry, m_vram_gb = 8, m_ram_ratio = 1, m_disk_gb = 180, m_cpu_cores = 4,
      m_isolation = False, m_quotas = False, m_public_ipv4 = False, m_port_range = False,
      m_bandwidth_mbps = 0\<rparr>"
| "MINIMUMS Shaping =
     \<lparr>m_tier = Standard, m_vram_gb = 24, m_ram_ratio = 3 / 2, m_disk_gb = 500, m_cpu_cores = 8,
      m_isolation = False, m_quotas = False, m_public_ipv4 = False, m_port_range = False,
      m_bandwidth_mbps = 200\<rparr>"
| "MINIMUMS Rental =
     \<lparr>m_tier = Standard, m_vram_gb = 24, m_ram_ratio = 2, m_disk_gb = 1000, m_cpu_cores = 8,
      m_isolation = True, m_quotas = True, m_public_ipv4 = True, m_port_range = True,
      m_bandwidth_mbps = 200\<rparr>"
| "MINIMUMS Mining =
     \<lparr>m_tier = Entry, m_vram_gb = 8, m_ram_ratio = 1, m_disk_gb = 180, m_cpu_cores = 4,
      m_isolation = False, m_quotas = False, m_public_ipv4 = False, m_port_range = False,
      m_bandwidth_mbps = 0\<rparr>"

definition MIN_KERNEL :: "int \<times> int" where "MIN_KERNEL = (5, 19)"
definition MIN_DISK_GB :: int where "MIN_DISK_GB = 180"
definition SUPPORTED_OS :: "(string \<times> string) list" where
  "SUPPORTED_OS = [(''ubuntu'', ''22.04''), (''ubuntu'', ''24.04'')]"
definition SUPPORTED_ARCH :: string where "SUPPORTED_ARCH = ''x86_64''"

record Profile =
  p_gpu_model :: string
  p_gpu_count :: int
  p_vram_gb :: rat
  p_tier :: "Tier option"
  p_ram_gb :: rat
  p_disk_gb :: rat
  p_disk_ssd :: bool
  p_cpu_cores :: int
  p_isolation_ok :: bool
  p_quotas_ok :: bool
  p_public_ipv4 :: bool
  p_port_range_ok :: bool
  p_bandwidth_mbps :: rat
  p_kernel :: "int \<times> int"
  p_arch :: string
  p_os_id :: string
  p_os_version :: string
  p_driver_version :: string
  p_extra :: pydict

definition total_vram_gb :: "Profile \<Rightarrow> rat" where
  "total_vram_gb p = p_vram_gb p * of_int (max (p_gpu_count p) 0)"

text \<open>Tuples compare lexicographically.\<close>

definition pair_less :: "int \<times> int \<Rightarrow> int \<times> int \<Rightarrow> bool" where
  "pair_less a b = (fst a < fst b \<or> (fst a = fst b \<and> snd a < snd b))"

definition host_reasons :: "Profile \<Rightarrow> string list" where
  "host_reasons p =
     (if (lower (p_os_id p), p_os_version p) \<notin> set SUPPORTED_OS
      then [''operating system '' @ p_os_id p @ '' '' @ p_os_version p @ '' is not Ubuntu 22.04 or 24.04'']
      else []) @
     (if pair_less (p_kernel p) MIN_KERNEL
      then [''kernel '' @ show_int (fst (p_kernel p)) @ ''.'' @ show_int (snd (p_kernel p)) @
            '' is below 5.19''] else []) @
     (if p_arch p \<noteq> SUPPORTED_ARCH then [''architecture '' @ p_arch p @ '' is not x86_64''] else []) @
     (if p_disk_gb p < of_int MIN_DISK_GB
      then [''disk '' @ fmt_0f (p_disk_gb p) @ '' GB is below '' @ show_int MIN_DISK_GB @ '' GB'']
      else []) @
     (if \<not> p_disk_ssd p then [''disk is not solid state''] else []) @
     (if \<not> p_public_ipv4 p then [''no public IPv4 address without carrier grade translation''] else []) @
     (if p_tier p = None
      then [p_gpu_model p @ '' with '' @ fmt_0f (p_vram_gb p) @ '' GB is below the entry tier'']
      else [])"

text \<open>\<^verbatim>\<open>f"{x:g}"\<close> for \<open>1 \<le> x < 10\<close>, the range of the ratios in \<open>MINIMUMS\<close>: six significant
  digits, trailing zeros dropped.\<close>

definition fmt_g :: "rat \<Rightarrow> string" where
  "fmt_g r =
     (let m = nat (py_round (r * 10 ^ 5));
          frac = rstrip_char (CHR ''0'') (zfill 5 (show_nat (m mod 10 ^ 5)))
      in show_nat (m div 10 ^ 5) @ (if frac = [] then [] else ''.'' @ frac))"

definition work_reasons :: "Profile \<Rightarrow> WorkKind \<Rightarrow> string list" where
  "work_reasons p kind =
     (let need = MINIMUMS kind in
     (if (case p_tier p of None \<Rightarrow> True | Some t \<Rightarrow> \<not> tier_at_least t (m_tier need))
      then [tier_value (m_tier need) @ '' tier or above required''] else []) @
     (if p_vram_gb p < of_int (m_vram_gb need)
      then [show_int (m_vram_gb need) @ '' GB of video memory per card required''] else []) @
     (if p_ram_gb p < m_ram_ratio need * total_vram_gb p
      then [''system memory must be at least '' @ fmt_g (m_ram_ratio need) @ ''x total video memory'']
      else []) @
     (if p_disk_gb p < of_int (m_disk_gb need)
      then [show_int (m_disk_gb need) @ '' GB of solid state disk required''] else []) @
     (if p_cpu_cores p < m_cpu_cores need
      then [show_int (m_cpu_cores need) @ '' CPU cores required''] else []) @
     (if m_isolation need \<and> \<not> p_isolation_ok p then [''container isolation not active''] else []) @
     (if m_quotas need \<and> \<not> p_quotas_ok p
      then [''storage driver cannot enforce per container quotas''] else []) @
     (if m_public_ipv4 need \<and> \<not> p_public_ipv4 p then [''public routable address required''] else []) @
     (if m_port_range need \<and> \<not> p_port_range_ok p then [''reserved port range required''] else []) @
     (if m_bandwidth_mbps need \<noteq> 0 \<and> p_bandwidth_mbps p < of_int (m_bandwidth_mbps need)
      then [''sustained bandwidth of '' @ show_int (m_bandwidth_mbps need) @ '' Mbps required''] else []))"

definition eligibility :: "Profile \<Rightarrow> bool \<Rightarrow> (WorkKind \<times> string list) list" where
  "eligibility p rental_opted_out =
     map (\<lambda>kind. (kind, work_reasons p kind @
       (if kind = Rental \<and> rental_opted_out then [''rental declined by the owner''] else []))) PRIORITY"

definition eligible_kinds :: "Profile \<Rightarrow> bool \<Rightarrow> WorkKind list" where
  "eligible_kinds p rental_opted_out = map fst (filter (\<lambda>(kind, reasons). reasons = []) (eligibility p rental_opted_out))"

definition ljust :: "nat \<Rightarrow> string \<Rightarrow> string" where
  "ljust n s = s @ replicate (n - length s) (CHR '' '')"

definition render :: "Profile \<Rightarrow> bool \<Rightarrow> string list" where
  "render p rental_opted_out =
     concat (map (\<lambda>(kind, reasons).
       (ljust 10 (work_kind_value kind) @ '' '' @ (if reasons = [] then ''eligible'' else ''not eligible''))
       # map (\<lambda>reason. ''           '' @ reason) reasons) (eligibility p rental_opted_out))"

section \<open>Correctness\<close>

lemma tier_of_value_value [simp]: "tier_of_value (tier_value t) = Some t"
  by (cases t) (simp_all add: tier_of_value_def TIER_ORDER_def)

lemma tier_of_value_Some: "tier_of_value s = Some t \<longleftrightarrow> s = tier_value t"
proof
  assume "tier_of_value s = Some t"
  then show "s = tier_value t" by (auto simp: tier_of_value_def find_Some_iff)
qed simp

lemma in_PRIORITY [simp]: "k \<in> set PRIORITY"
  by (cases k) (simp_all add: PRIORITY_def)

lemma work_kind_value_inject: "work_kind_value a = work_kind_value b \<longleftrightarrow> a = b"
  by (cases a; cases b) simp_all

text \<open>What a machine must have for a kind of work, as a predicate.\<close>

definition meets :: "Profile \<Rightarrow> WorkKind \<Rightarrow> bool" where
  "meets p kind \<longleftrightarrow>
     (\<exists>t. p_tier p = Some t \<and> m_tier (MINIMUMS kind) \<le> t) \<and>
     of_int (m_vram_gb (MINIMUMS kind)) \<le> p_vram_gb p \<and>
     m_ram_ratio (MINIMUMS kind) * total_vram_gb p \<le> p_ram_gb p \<and>
     of_int (m_disk_gb (MINIMUMS kind)) \<le> p_disk_gb p \<and>
     m_cpu_cores (MINIMUMS kind) \<le> p_cpu_cores p \<and>
     (m_isolation (MINIMUMS kind) \<longrightarrow> p_isolation_ok p) \<and>
     (m_quotas (MINIMUMS kind) \<longrightarrow> p_quotas_ok p) \<and>
     (m_public_ipv4 (MINIMUMS kind) \<longrightarrow> p_public_ipv4 p) \<and>
     (m_port_range (MINIMUMS kind) \<longrightarrow> p_port_range_ok p) \<and>
     (m_bandwidth_mbps (MINIMUMS kind) \<noteq> 0 \<longrightarrow>
        of_int (m_bandwidth_mbps (MINIMUMS kind)) \<le> p_bandwidth_mbps p)"

lemma work_reasons_empty: "work_reasons p kind = [] \<longleftrightarrow> meets p kind"
  unfolding work_reasons_def meets_def Let_def tier_at_least_iff
  by (auto split: option.splits simp: not_less)

lemma eligible_kinds_iff:
  "kind \<in> set (eligible_kinds p out) \<longleftrightarrow> meets p kind \<and> \<not> (kind = Rental \<and> out)"
  by (auto simp: eligible_kinds_def eligibility_def work_reasons_empty image_iff split: if_splits)

lemma eligible_kinds_sorted: "subseq (eligible_kinds p out) PRIORITY"
proof -
  have *: "map fst (filter P (map (\<lambda>k. (k, g k)) ks)) = filter (\<lambda>k. P (k, g k)) ks"
    for P g and ks :: "WorkKind list"
    by (induction ks) auto
  show ?thesis unfolding eligible_kinds_def eligibility_def * by simp
qed

text \<open>Work asked of rentals implies what shaping, inference and mining ask, for a machine whose
  memory figure is not negative.\<close>

lemma meets_mono:
  assumes "meets p Rental"
  shows "meets p k"
proof -
  obtain t where t: "p_tier p = Some t" "Standard \<le> t" and v: "24 \<le> p_vram_gb p"
    and r: "2 * total_vram_gb p \<le> p_ram_gb p"
    using assms by (auto simp: meets_def)
  have nn: "0 \<le> total_vram_gb p" using v by (simp add: total_vram_gb_def)
  have "Entry \<le> t" using t(2) by (simp add: less_eq_Tier_def)
  then show ?thesis
    using assms t v r nn by (cases k) (auto simp: meets_def)
qed

section \<open>Properties\<close>

text \<open>The kinds of work a machine is listed for are exactly those whose minimums it meets, rental
  left out when its owner declined it, in order of priority; and a machine that meets the minimums of
  rental meets those of every other kind.\<close>

theorem eligibility_exact:
  "(kind \<in> set (eligible_kinds p out) \<longleftrightarrow> meets p kind \<and> \<not> (kind = Rental \<and> out))
   \<and> subseq (eligible_kinds p out) PRIORITY \<and> (meets p Rental \<longrightarrow> meets p kind)"
  using eligible_kinds_iff eligible_kinds_sorted meets_mono by auto

text \<open>A machine of eight 80 GB cards that meets everything.\<close>

definition demo_profile :: Profile where
  "demo_profile =
     \<lparr>p_gpu_model = ''NVIDIA H100 80GB HBM3'', p_gpu_count = 8, p_vram_gb = 80, p_tier = Some Flagship,
      p_ram_gb = 2000, p_disk_gb = 8000, p_disk_ssd = True, p_cpu_cores = 128, p_isolation_ok = True,
      p_quotas_ok = True, p_public_ipv4 = True, p_port_range_ok = True, p_bandwidth_mbps = 10000,
      p_kernel = (6, 8), p_arch = ''x86_64'', p_os_id = ''ubuntu'', p_os_version = ''24.04'',
      p_driver_version = ''570.00'', p_extra = []\<rparr>"

theorem eligibility_exact_witness:
  "Rental \<in> set (eligible_kinds demo_profile False) \<and> Rental \<notin> set (eligible_kinds demo_profile True)
   \<and> meets demo_profile Mining"
proof -
  have "meets demo_profile Rental"
    by (simp add: meets_def demo_profile_def total_vram_gb_def less_eq_Tier_def)
  then show ?thesis
    using eligibility_exact [of Rental demo_profile False] eligibility_exact [of Rental demo_profile True]
      eligibility_exact [of Mining demo_profile False] by simp
qed

end
