(* ===== verification/Data_Gpu_Table.thy ===== *)
theory Data_Gpu_Table
  imports Data_Tiers
begin

text \<open>
  The accepted cards and the memory windows they are recognised by
  (\<^verbatim>\<open>validator/data/gpu_table.py\<close>).
\<close>

definition VRAM_FLOOR_RATIO :: rat where "VRAM_FLOOR_RATIO = 9 / 10"
definition VRAM_CEIL_RATIO :: rat where "VRAM_CEIL_RATIO = 105 / 100"
definition MIB :: rat where "MIB = 1024"

definition GPU_VRAM_MB :: "(string \<times> int list) list" where
  "GPU_VRAM_MB =
     [(''NVIDIA B300 SXM6 AC'', [294912]),
      (''NVIDIA B200'', [196608]),
      (''NVIDIA H200'', [144384]),
      (''NVIDIA H200 NVL'', [144384]),
      (''NVIDIA H100 80GB HBM3'', [81920]),
      (''NVIDIA H100 NVL'', [96256]),
      (''NVIDIA H100 PCIe'', [81920]),
      (''NVIDIA H800 80GB HBM3'', [81920]),
      (''NVIDIA H800 NVL'', [96256]),
      (''NVIDIA H800 PCIe'', [81920]),
      (''NVIDIA A100 80GB PCIe'', [81920]),
      (''NVIDIA A100-SXM4-80GB'', [81920]),
      (''NVIDIA A100-SXM4-40GB'', [40960]),
      (''NVIDIA A100-PCIE-40GB'', [40960]),
      (''NVIDIA A800 80GB PCIe'', [81920]),
      (''NVIDIA RTX PRO 6000 Blackwell Server Edition'', [98304]),
      (''NVIDIA RTX PRO 6000 Blackwell Workstation Edition'', [98304]),
      (''NVIDIA RTX PRO 6000D Blackwell Workstation Edition'', [86016]),
      (''NVIDIA RTX 6000D'', [86016]),
      (''NVIDIA RTX PRO 5000 Blackwell'', [49152, 73728]),
      (''NVIDIA RTX PRO 4500 Blackwell'', [32768]),
      (''NVIDIA RTX PRO 4500 Blackwell Server Edition'', [32768]),
      (''NVIDIA RTX PRO 4000 Blackwell'', [24576]),
      (''NVIDIA RTX PRO 2000 Blackwell'', [16384]),
      (''NVIDIA GeForce RTX 5090'', [32768]),
      (''NVIDIA GeForce RTX 5080'', [16384]),
      (''NVIDIA GeForce RTX 5070 Ti'', [16384]),
      (''NVIDIA GeForce RTX 5070'', [12288]),
      (''NVIDIA GeForce RTX 5060 Ti'', [8192, 16384]),
      (''NVIDIA GeForce RTX 5060'', [8192]),
      (''NVIDIA GeForce RTX 4090'', [24576]),
      (''NVIDIA GeForce RTX 4090 D'', [24576]),
      (''NVIDIA GeForce RTX 4080 SUPER'', [16384]),
      (''NVIDIA GeForce RTX 4080'', [16384]),
      (''NVIDIA GeForce RTX 4070 Ti SUPER'', [16384]),
      (''NVIDIA GeForce RTX 4070 Ti'', [12288]),
      (''NVIDIA GeForce RTX 4070 SUPER'', [12288]),
      (''NVIDIA GeForce RTX 4070'', [12288]),
      (''NVIDIA GeForce RTX 4060 Ti'', [8192, 16384]),
      (''NVIDIA GeForce RTX 4060'', [8192]),
      (''NVIDIA RTX 6000 Ada Generation'', [49152]),
      (''NVIDIA RTX 5880 Ada Generation'', [49152]),
      (''NVIDIA RTX 5000 Ada Generation'', [32768]),
      (''NVIDIA RTX 4500 Ada Generation'', [24576]),
      (''NVIDIA RTX 4000 Ada Generation'', [20480]),
      (''NVIDIA L40S'', [49152]),
      (''NVIDIA L40'', [49152]),
      (''NVIDIA L4'', [24576]),
      (''NVIDIA A10 Tensor Core GPU'', [24576]),
      (''NVIDIA A40'', [49152]),
      (''NVIDIA RTX A6000'', [49152]),
      (''NVIDIA RTX A5000'', [24576]),
      (''NVIDIA RTX A4500'', [20480]),
      (''NVIDIA RTX A4000'', [16384]),
      (''NVIDIA RTX A2000'', [6144, 12288]),
      (''NVIDIA T4 Tensor Core GPU'', [16384]),
      (''NVIDIA Tesla V100 Tensor Core GPU'', [16384, 32768]),
      (''NVIDIA Quadro RTX 8000'', [49152]),
      (''NVIDIA Quadro RTX 6000'', [24576]),
      (''NVIDIA Quadro RTX 5000'', [16384]),
      (''NVIDIA TITAN V'', [12288]),
      (''NVIDIA TITAN RTX'', [24576]),
      (''NVIDIA GeForce RTX 3090 Ti'', [24576]),
      (''NVIDIA GeForce RTX 3090'', [24576]),
      (''NVIDIA GeForce RTX 3080 Ti'', [12288]),
      (''NVIDIA GeForce RTX 3080'', [10240, 12288]),
      (''NVIDIA GeForce RTX 3070 Ti'', [8192]),
      (''NVIDIA GeForce RTX 3070'', [8192]),
      (''NVIDIA GeForce RTX 3060 Ti'', [8192]),
      (''NVIDIA GeForce RTX 3060'', [8192, 12288]),
      (''NVIDIA GeForce RTX 3050'', [6144, 8192]),
      (''NVIDIA GeForce RTX 2080 Ti'', [11264]),
      (''NVIDIA GeForce RTX 2080 SUPER'', [8192]),
      (''NVIDIA GeForce RTX 2070 SUPER'', [8192]),
      (''NVIDIA GeForce RTX 2060 SUPER'', [8192]),
      (''NVIDIA GeForce RTX 2060'', [6144, 12288]),
      (''NVIDIA GeForce GTX 1660 Ti'', [6144]),
      (''NVIDIA GeForce GTX 1660 SUPER'', [6144]),
      (''NVIDIA GeForce GTX 1660'', [6144]),
      (''NVIDIA GeForce GTX 1080 Ti'', [11264]),
      (''NVIDIA GeForce GTX 1080'', [8192]),
      (''NVIDIA GeForce GTX 1070 Ti'', [8192]),
      (''NVIDIA GeForce GTX 1070'', [8192]),
      (''NVIDIA GeForce GTX 1060'', [3072, 6144]),
      (''NVIDIA Tesla P100'', [12288, 16384]),
      (''NVIDIA Tesla P40'', [24576]),
      (''NVIDIA Tesla M40'', [12288, 24576]),
      (''NVIDIA Quadro P4000'', [8192]),
      (''NVIDIA TITAN Xp'', [12288])]"

definition NORMALIZATION :: "(string \<times> string) list" where
  "NORMALIZATION =
     [(''Tesla V100-SXM2-16GB'', ''NVIDIA Tesla V100 Tensor Core GPU''),
      (''Tesla V100-SXM2-32GB'', ''NVIDIA Tesla V100 Tensor Core GPU''),
      (''Tesla V100-PCIE-16GB'', ''NVIDIA Tesla V100 Tensor Core GPU''),
      (''Tesla V100-PCIE-32GB'', ''NVIDIA Tesla V100 Tensor Core GPU''),
      (''Tesla H100 80GB HBM3'', ''NVIDIA H100 80GB HBM3''),
      (''Tesla T4'', ''NVIDIA T4 Tensor Core GPU''),
      (''NVIDIA T4'', ''NVIDIA T4 Tensor Core GPU''),
      (''NVIDIA A10'', ''NVIDIA A10 Tensor Core GPU''),
      (''NVIDIA A10G'', ''NVIDIA A10 Tensor Core GPU''),
      (''Tesla P100-PCIE-16GB'', ''NVIDIA Tesla P100''),
      (''Tesla P100-PCIE-12GB'', ''NVIDIA Tesla P100''),
      (''Tesla P40'', ''NVIDIA Tesla P40''),
      (''Tesla M40'', ''NVIDIA Tesla M40''),
      (''Tesla M40 24GB'', ''NVIDIA Tesla M40''),
      (''NVIDIA RTX PRO 6000 Blackwell'', ''NVIDIA RTX PRO 6000 Blackwell Workstation Edition'')]"

record Window =
  w_nominal_mb :: int
  w_floor_mb :: int
  w_ceil_mb :: int

definition window_contains :: "Window \<Rightarrow> rat \<Rightarrow> bool" where
  "window_contains w total_mb = (of_int (w_floor_mb w) \<le> total_mb \<and> total_mb \<le> of_int (w_ceil_mb w))"

record Match =
  mt_canonical :: string
  mt_window :: Window
  mt_tier :: "Tier option"

definition nominal_gb :: "Match \<Rightarrow> rat" where
  "nominal_gb m = of_int (w_nominal_mb (mt_window m)) / MIB"

definition normalize :: "string \<Rightarrow> string" where
  "normalize name = (let clean = strip name in dget NORMALIZATION clean clean)"

definition window_for :: "int \<Rightarrow> Window" where
  "window_for nominal_mb =
     \<lparr>w_nominal_mb = nominal_mb,
      w_floor_mb = py_round (of_int nominal_mb * VRAM_FLOOR_RATIO),
      w_ceil_mb = py_round (of_int nominal_mb * VRAM_CEIL_RATIO)\<rparr>"

definition windows_for :: "string \<Rightarrow> Window list option" where
  "windows_for name = map_option (map window_for) (map_of GPU_VRAM_MB (normalize name))"

definition is_known :: "string \<Rightarrow> bool" where
  "is_known name = dhas GPU_VRAM_MB (normalize name)"

definition gpu_match :: "string \<Rightarrow> rat \<Rightarrow> Match option" where
  "gpu_match name total_mb =
     (let canonical = normalize name in
      case windows_for canonical of
        None \<Rightarrow> None
      | Some ws \<Rightarrow> map_option
          (\<lambda>w. \<lparr>mt_canonical = canonical, mt_window = w,
                mt_tier = tier_for_memory_gb (of_int (w_nominal_mb w) / MIB)\<rparr>)
          (find (\<lambda>w. window_contains w total_mb) ws))"

definition mismatch_reason :: "string \<Rightarrow> rat \<Rightarrow> string" where
  "mismatch_reason name total_mb =
     (let canonical = normalize name in
      case windows_for canonical of
        None \<Rightarrow> (if canonical = [] then ''unnamed GPU'' else canonical) @ '' is not on the accepted list''
      | Some ws \<Rightarrow> canonical @ '' reports '' @ fmt_0f total_mb @ '' MB, outside every accepted window ('' @
          join '', '' (map (\<lambda>w. show_int (w_floor_mb w) @ ''-'' @ show_int (w_ceil_mb w) @ '' MB'') ws) @ '')'')"

definition probe_memory_mb :: "string \<Rightarrow> int option" where
  "probe_memory_mb name =
     (case map_of GPU_VRAM_MB (normalize name) of
        None \<Rightarrow> None
      | Some [] \<Rightarrow> None
      | Some (s # ss) \<Rightarrow> Some (py_round (of_int (min_by id s ss) * VRAM_FLOOR_RATIO)))"

section \<open>Correctness\<close>

lemma is_known_iff: "is_known name \<longleftrightarrow> windows_for name \<noteq> None"
  by (simp add: is_known_def dhas_def windows_for_def)

lemma gpu_match_Some:
  assumes "gpu_match name mb = Some m"
  shows "mt_canonical m = normalize name \<and> window_contains (mt_window m) mb \<and>
    mt_tier m = tier_for_memory_gb (nominal_gb m)"
  using assms
  by (auto simp: gpu_match_def nominal_gb_def Let_def find_Some_iff split: option.splits)

text \<open>The nominal size lies in its own window.\<close>

lemma window_for_nominal:
  assumes "0 \<le> n"
  shows "window_contains (window_for n) (of_int n)"
proof -
  have "py_round (of_int n * VRAM_FLOOR_RATIO) \<le> n"
    using assms by (intro py_round_le_int) (simp add: VRAM_FLOOR_RATIO_def)
  moreover have "py_round (of_int n) \<le> py_round (of_int n * VRAM_CEIL_RATIO)"
    using assms by (intro py_round_mono) (simp add: VRAM_CEIL_RATIO_def)
  ultimately show ?thesis by (simp add: window_contains_def window_for_def)
qed

text \<open>Every canonical name is stripped and is not renamed again, so \<open>normalize\<close> is idempotent.\<close>

definition clean_text :: "string \<Rightarrow> bool" where
  "clean_text s = (s = [] \<or> \<not> is_space (hd s) \<and> \<not> is_space (last s))"

lemma clean_text_strip: "clean_text s \<Longrightarrow> strip s = s"
  by (rule strip_unchanged) (auto simp: clean_text_def)

lemma normalization_targets:
  "list_all (\<lambda>(k, v). clean_text v \<and> \<not> dhas NORMALIZATION v) NORMALIZATION"
  by code_simp

lemma normalize_idem: "normalize (normalize name) = normalize name"
proof (cases "map_of NORMALIZATION (strip name)")
  case None
  then show ?thesis by (simp add: normalize_def dget_def)
next
  case (Some v)
  then have "(strip name, v) \<in> set NORMALIZATION" by (rule map_of_SomeD)
  then have "clean_text v" "map_of NORMALIZATION v = None"
    using normalization_targets by (auto simp: list_all_iff dhas_def)
  then show ?thesis using Some clean_text_strip [of v] by (simp add: normalize_def dget_def)
qed

text \<open>The sizes listed for one card give windows that do not overlap, so a reading selects at
  most one of them.\<close>

fun disjoint_windows :: "Window list \<Rightarrow> bool" where
  "disjoint_windows [] = True"
| "disjoint_windows (w # ws) =
     (list_all (\<lambda>v. w_ceil_mb w < w_floor_mb v \<or> w_ceil_mb v < w_floor_mb w) ws \<and> disjoint_windows ws)"

lemma table_windows_disjoint:
  "list_all (\<lambda>(k, sizes). disjoint_windows (map window_for sizes)) GPU_VRAM_MB"
  by code_simp

lemma table_sizes: "list_all (\<lambda>(k, sizes). sizes \<noteq> [] \<and> list_all (\<lambda>s. 3072 \<le> s) sizes) GPU_VRAM_MB"
  by code_simp

lemma disjoint_windows_unique:
  "disjoint_windows ws \<Longrightarrow> v \<in> set ws \<Longrightarrow> w \<in> set ws \<Longrightarrow>
   window_contains v mb \<Longrightarrow> window_contains w mb \<Longrightarrow> v = w"
proof (induction ws)
  case (Cons u ws)
  have no: False if "x \<in> set ws" "window_contains u mb" "window_contains x mb" for x
  proof -
    have "w_ceil_mb u < w_floor_mb x \<or> w_ceil_mb x < w_floor_mb u"
      using Cons.prems(1) that(1) by (auto simp: list_all_iff)
    moreover have "(of_int (w_floor_mb x) :: rat) \<le> of_int (w_ceil_mb u)"
      "(of_int (w_floor_mb u) :: rat) \<le> of_int (w_ceil_mb x)"
      using that(2,3) by (auto simp: window_contains_def)
    ultimately show False by simp
  qed
  show ?case using Cons no by auto
qed simp

section \<open>Properties\<close>

text \<open>Recognising a card by its name and the memory it reports does not depend on the order in
  which the table lists the sizes: a reading inside one of the accepted windows of the card is matched
  to that window and no other, the match carries the normalised name, and a reading outside every
  window, or a card that is not listed, is not matched.\<close>

theorem gpu_match_exact:
  "gpu_match name mb = Some m \<longleftrightarrow>
     (\<exists>ws w. windows_for (normalize name) = Some ws \<and> w \<in> set ws \<and> window_contains w mb \<and>
        m = \<lparr>mt_canonical = normalize name, mt_window = w,
             mt_tier = tier_for_memory_gb (of_int (w_nominal_mb w) / MIB)\<rparr>)"
proof (cases "windows_for (normalize name)")
  case None
  then show ?thesis by (simp add: gpu_match_def Let_def)
next
  case (Some ws)
  then have dis: "disjoint_windows ws"
    using table_windows_disjoint by (auto simp: windows_for_def list_all_iff dest!: map_of_SomeD)
  have "find (\<lambda>w. window_contains w mb) ws = Some w \<longleftrightarrow> w \<in> set ws \<and> window_contains w mb" for w
  proof
    assume "w \<in> set ws \<and> window_contains w mb"
    moreover from this obtain v where "find (\<lambda>w. window_contains w mb) ws = Some v"
      by (cases "find (\<lambda>w. window_contains w mb) ws") (auto simp: find_None_iff)
    moreover from this have "v \<in> set ws \<and> window_contains v mb" by (auto simp: find_Some_iff)
    ultimately show "find (\<lambda>w. window_contains w mb) ws = Some w"
      using disjoint_windows_unique [OF dis] by blast
  qed (auto simp: find_Some_iff)
  then show ?thesis using Some by (auto simp: gpu_match_def Let_def)
qed

end
