(* ===== verification/Scoring_Formula.thy ===== *)
theory Scoring_Formula
  imports Interfaces
begin

text \<open>
  The score of a machine and the split of the pool by score (\<^verbatim>\<open>validator/scoring/formula.py\<close>).
\<close>

definition POOL_SHARE :: rat where "POOL_SHARE = 60 / 100"
definition ISOLATION_MULTIPLIER :: rat where "ISOLATION_MULTIPLIER = 80 / 100"
definition UPTIME_RAMP_DAYS :: rat where "UPTIME_RAMP_DAYS = 14"
definition OPT_OUT_MULTIPLIER :: rat where "OPT_OUT_MULTIPLIER = 85 / 100"

record ScoreInputs =
  si_verified :: bool
  si_demand_weight :: rat
  si_gpu_count :: int
  si_fleet_gpu_count :: int
  si_isolation_ok :: bool
  si_uptime_days :: rat
  si_driver_ok :: bool
  si_driver_cutoff_passed :: bool
  si_in_rental :: bool
  si_rental_opted_out :: bool

record ScoreBreakdown =
  sb_base :: rat
  sb_demand_weight :: rat
  sb_capacity_share :: rat
  sb_isolation :: rat
  sb_uptime :: rat
  sb_driver :: rat
  sb_opt_out :: rat

definition breakdown_score :: "ScoreBreakdown \<Rightarrow> rat" where
  "breakdown_score b =
     sb_base b * sb_demand_weight b * sb_capacity_share b * sb_isolation b * sb_uptime b *
     sb_driver b * sb_opt_out b"

definition ScoreBreakdown_payload :: "ScoreBreakdown \<Rightarrow> pydict" where
  "ScoreBreakdown_payload b =
     [(''base'', PFloat (sb_base b)), (''w_d'', PFloat (sb_demand_weight b)),
      (''s_c'', PFloat (sb_capacity_share b)), (''m_iso'', PFloat (sb_isolation b)),
      (''m_up'', PFloat (sb_uptime b)), (''m_drv'', PFloat (sb_driver b)),
      (''m_opt'', PFloat (sb_opt_out b)), (''score'', PFloat (breakdown_score b))]"

definition uptime_multiplier :: "rat \<Rightarrow> rat" where
  "uptime_multiplier uptime_days = min 1 (max 0 uptime_days / UPTIME_RAMP_DAYS)"

definition driver_multiplier :: "bool \<Rightarrow> bool \<Rightarrow> bool \<Rightarrow> rat" where
  "driver_multiplier drv_ok cutoff_passed in_rental =
     (if drv_ok \<or> in_rental then 1 else if cutoff_passed then 0 else 1)"

definition breakdown :: "ScoreInputs \<Rightarrow> ScoreBreakdown" where
  "breakdown i =
     \<lparr>sb_base = (if si_verified i then 1 else 0),
      sb_demand_weight = max 0 (si_demand_weight i),
      sb_capacity_share =
        (if 0 < si_fleet_gpu_count i \<and> 0 < si_gpu_count i
         then of_int (si_gpu_count i) / of_int (si_fleet_gpu_count i) else 0),
      sb_isolation = (if si_isolation_ok i then 1 else ISOLATION_MULTIPLIER),
      sb_uptime = uptime_multiplier (si_uptime_days i),
      sb_driver = driver_multiplier (si_driver_ok i) (si_driver_cutoff_passed i) (si_in_rental i),
      sb_opt_out = (if si_rental_opted_out i then OPT_OUT_MULTIPLIER else 1)\<rparr>"

definition score :: "ScoreInputs \<Rightarrow> rat" where
  "score i = breakdown_score (breakdown i)"

text \<open>\<^verbatim>\<open>sum(value for value in scores.values() if value > 0.0)\<close>.\<close>

definition positive_total :: "('k \<times> rat) list \<Rightarrow> rat" where
  "positive_total scores = sum_list (filter (\<lambda>v. 0 < v) (map snd scores))"

definition emissions :: "(string \<times> rat) list \<Rightarrow> rat \<Rightarrow> (string \<times> rat) list" where
  "emissions scores compute_emission =
     (let pool = POOL_SHARE * max 0 compute_emission; total = positive_total scores in
      if total \<le> 0 then map (\<lambda>(k, v). (k, 0)) scores
      else map (\<lambda>(k, v). (k, if 0 < v then pool * v / total else 0)) scores)"

section \<open>The multipliers\<close>

lemma uptime_multiplier_bounds: "0 \<le> uptime_multiplier d \<and> uptime_multiplier d \<le> 1"
  by (simp add: uptime_multiplier_def UPTIME_RAMP_DAYS_def)

lemma uptime_multiplier_mono: "d \<le> e \<Longrightarrow> uptime_multiplier d \<le> uptime_multiplier e"
  unfolding uptime_multiplier_def UPTIME_RAMP_DAYS_def
  by (intro min.mono divide_right_mono max.mono) auto

lemma uptime_multiplier_full: "UPTIME_RAMP_DAYS \<le> d \<Longrightarrow> uptime_multiplier d = 1"
  by (simp add: uptime_multiplier_def UPTIME_RAMP_DAYS_def)

lemma driver_multiplier_cases: "driver_multiplier a b c \<in> {0, 1}"
  by (simp add: driver_multiplier_def)

lemma driver_multiplier_zero: "driver_multiplier a b c = 0 \<longleftrightarrow> \<not> a \<and> b \<and> \<not> c"
  by (simp add: driver_multiplier_def)

lemmas multiplier_defs =
  ISOLATION_MULTIPLIER_def OPT_OUT_MULTIPLIER_def driver_multiplier_def

section \<open>The score\<close>

text \<open>The score as the product that the documentation states.\<close>

lemma score_eq:
  "score i =
     (if si_verified i then 1 else 0) * max 0 (si_demand_weight i) *
     (if 0 < si_fleet_gpu_count i \<and> 0 < si_gpu_count i
      then of_int (si_gpu_count i) / of_int (si_fleet_gpu_count i) else 0) *
     (if si_isolation_ok i then 1 else ISOLATION_MULTIPLIER) *
     uptime_multiplier (si_uptime_days i) *
     driver_multiplier (si_driver_ok i) (si_driver_cutoff_passed i) (si_in_rental i) *
     (if si_rental_opted_out i then OPT_OUT_MULTIPLIER else 1)"
  by (simp add: score_def breakdown_score_def breakdown_def)

lemma score_nonneg: "0 \<le> score i"
  unfolding score_eq using uptime_multiplier_bounds [of "si_uptime_days i"]
  by (auto simp: multiplier_defs intro!: mult_nonneg_nonneg)

lemma score_unverified: "\<not> si_verified i \<Longrightarrow> score i = 0"
  by (simp add: score_eq)

text \<open>Everything but demand and share is a factor of at most one.\<close>

lemma score_upper:
  assumes "0 \<le> si_gpu_count i" "0 < si_fleet_gpu_count i"
  shows "score i \<le> max 0 (si_demand_weight i) * (of_int (si_gpu_count i) / of_int (si_fleet_gpu_count i))"
proof -
  let ?d = "max 0 (si_demand_weight i)"
  let ?c = "of_int (si_gpu_count i) / of_int (si_fleet_gpu_count i) :: rat"
  define m where "m = (if si_verified i then 1 else 0) *
     (if si_isolation_ok i then 1 else ISOLATION_MULTIPLIER) * uptime_multiplier (si_uptime_days i) *
     driver_multiplier (si_driver_ok i) (si_driver_cutoff_passed i) (si_in_rental i) *
     (if si_rental_opted_out i then OPT_OUT_MULTIPLIER else 1)"
  have up: "0 \<le> uptime_multiplier (si_uptime_days i)" "uptime_multiplier (si_uptime_days i) \<le> 1"
    using uptime_multiplier_bounds by auto
  have "m \<le> 1"
    using up unfolding m_def multiplier_defs by auto
  moreover have "0 \<le> ?d * ?c" using assms by (intro mult_nonneg_nonneg divide_nonneg_nonneg) auto
  ultimately have "?d * ?c * m \<le> ?d * ?c" by (rule mult_left_le)
  moreover have "score i = ?d * ?c * m"
    using assms by (auto simp: score_eq m_def)
  ultimately show ?thesis by simp
qed

text \<open>The score is linear in the cards: splitting a machine's cards over several enrolments with
  the same terms changes nothing.\<close>

lemma score_additive:
  assumes "0 \<le> a" "0 \<le> b"
  shows "score (i\<lparr>si_gpu_count := a + b\<rparr>) = score (i\<lparr>si_gpu_count := a\<rparr>) + score (i\<lparr>si_gpu_count := b\<rparr>)"
proof -
  define r where "r = max 0 (si_demand_weight i) *
     ((if si_verified i then 1 else 0) * (if si_isolation_ok i then 1 else ISOLATION_MULTIPLIER) *
      uptime_multiplier (si_uptime_days i) *
      driver_multiplier (si_driver_ok i) (si_driver_cutoff_passed i) (si_in_rental i) *
      (if si_rental_opted_out i then OPT_OUT_MULTIPLIER else 1))"
  have "score (i\<lparr>si_gpu_count := n\<rparr>) =
      (if 0 < si_fleet_gpu_count i then of_int n / of_int (si_fleet_gpu_count i) else 0) * r"
    if "0 \<le> n" for n
    using that by (cases "n = 0") (auto simp: score_eq r_def algebra_simps)
  then show ?thesis using assms by (auto simp: add_divide_distrib algebra_simps)
qed

section \<open>Emissions\<close>

lemma positive_total_Cons:
  "positive_total ((k, v) # xs) = max 0 v + positive_total xs"
  by (auto simp: positive_total_def)

lemma positive_total_Nil [simp]: "positive_total [] = 0"
  by (simp add: positive_total_def)

lemma positive_total_nonneg: "0 \<le> positive_total xs"
  by (induction xs) (auto simp: positive_total_Cons)

lemma positive_total_zero: "positive_total xs = 0 \<longleftrightarrow> (\<forall>(k, v) \<in> set xs. v \<le> 0)"
proof (induction xs)
  case (Cons x xs)
  obtain k v where x: "x = (k, v)" by (cases x)
  show ?case using Cons positive_total_nonneg [of xs]
    by (auto simp: x positive_total_Cons add_nonneg_eq_0_iff max_def)
qed simp

lemma positive_total_pos: "0 < positive_total xs \<longleftrightarrow> (\<exists>x \<in> set xs. 0 < snd x)"
proof (induction xs)
  case (Cons x xs)
  obtain k v where x: "x = (k, v)" by (cases x)
  show ?case using Cons positive_total_nonneg [of xs]
    by (cases "0 < v") (auto simp: x positive_total_Cons max_def add_pos_nonneg)
qed simp

lemma sum_scaled:
  "sum_list (map snd (map (\<lambda>(k, v). (k, if 0 < v then c * v / t else 0)) xs)) = c * positive_total xs / t"
  by (induction xs) (auto simp: positive_total_Cons algebra_simps add_divide_distrib)

lemma emissions_keys: "map fst (emissions scores e) = map fst scores"
  by (auto simp: emissions_def Let_def case_prod_beta)

lemma emissions_sum:
  "sum_list (map snd (emissions scores e)) =
     (if \<exists>x \<in> set scores. 0 < snd x then POOL_SHARE * max 0 e else 0)"
proof (cases "0 < positive_total scores")
  case False
  then have "sum_list (map snd (emissions scores e)) = 0"
    by (simp add: emissions_def Let_def case_prod_beta comp_def not_less)
  then show ?thesis using False by (simp add: positive_total_pos)
next
  case True
  then have "sum_list (map snd (emissions scores e)) = POOL_SHARE * max 0 e"
    using sum_scaled [of "POOL_SHARE * max 0 e" "positive_total scores" scores]
    by (simp add: emissions_def Let_def)
  then show ?thesis using True by (simp add: positive_total_pos)
qed

lemma emissions_nonneg: "(k, x) \<in> set (emissions scores e) \<Longrightarrow> 0 \<le> x"
  by (auto simp: emissions_def Let_def POOL_SHARE_def split: if_splits)

text \<open>Two machines with positive scores are paid in the ratio of their scores.\<close>

lemma emissions_proportional:
  assumes "i < length scores" "j < length scores"
    and "0 < snd (scores ! i)" "0 < snd (scores ! j)"
  shows "snd (emissions scores e ! i) * snd (scores ! j) = snd (emissions scores e ! j) * snd (scores ! i)"
proof -
  have "0 < positive_total scores"
    using assms(1,3) nth_mem [OF assms(1)] unfolding positive_total_pos by blast
  then show ?thesis using assms
    by (simp add: emissions_def Let_def case_prod_beta)
qed

section \<open>Properties\<close>

text \<open>The score is linear in the cards, so splitting the cards of a machine over several
  enrolments on the same terms neither gains nor loses; it is never negative, an unverified machine
  scores nothing, and apart from demand and share every factor only takes away.\<close>

theorem score_linear_and_bounded:
  assumes "0 \<le> a" "0 \<le> b" "0 < si_fleet_gpu_count i"
  shows "score (i\<lparr>si_gpu_count := a + b\<rparr>) = score (i\<lparr>si_gpu_count := a\<rparr>) + score (i\<lparr>si_gpu_count := b\<rparr>)
    \<and> 0 \<le> score i \<and> (\<not> si_verified i \<longrightarrow> score i = 0)
    \<and> score (i\<lparr>si_gpu_count := a\<rparr>) \<le> max 0 (si_demand_weight i) * (of_int a / of_int (si_fleet_gpu_count i))"
  using score_additive [OF assms(1,2)] score_nonneg score_unverified
    score_upper [of "i\<lparr>si_gpu_count := a\<rparr>"] assms by auto

definition demo_inputs :: ScoreInputs where
  "demo_inputs =
     \<lparr>si_verified = True, si_demand_weight = 1 / 2, si_gpu_count = 8, si_fleet_gpu_count = 16,
      si_isolation_ok = False, si_uptime_days = 7, si_driver_ok = True, si_driver_cutoff_passed = False,
      si_in_rental = False, si_rental_opted_out = False\<rparr>"

theorem score_linear_and_bounded_witness:
  "score (demo_inputs\<lparr>si_gpu_count := 3 + 5\<rparr>) =
     score (demo_inputs\<lparr>si_gpu_count := 3\<rparr>) + score (demo_inputs\<lparr>si_gpu_count := 5\<rparr>)
   \<and> score demo_inputs = 1 / 10"
proof -
  have "score demo_inputs = 1 / 10" by code_simp
  then show ?thesis
    using score_linear_and_bounded [of 3 5 demo_inputs] by (simp add: demo_inputs_def)
qed

text \<open>The split pays out exactly the compute pool (60 per cent of the emission) as soon as one
  machine has a positive score, and nothing otherwise; nobody is paid a negative amount, and two
  machines with positive scores are paid in the ratio of their scores.\<close>

theorem emissions_exact:
  assumes "i < length scores" "j < length scores" "0 < snd (scores ! i)" "0 < snd (scores ! j)"
  shows "sum_list (map snd (emissions scores e)) = POOL_SHARE * max 0 e
    \<and> map fst (emissions scores e) = map fst scores
    \<and> (\<forall>(k, x) \<in> set (emissions scores e). 0 \<le> x)
    \<and> snd (emissions scores e ! i) * snd (scores ! j) = snd (emissions scores e ! j) * snd (scores ! i)"
proof -
  have "\<exists>x \<in> set scores. 0 < snd x" using assms(1,3) nth_mem by blast
  then show ?thesis
    using emissions_sum [of scores e] emissions_keys [of scores e] emissions_nonneg
      emissions_proportional [OF assms] by auto
qed

theorem emissions_exact_witness:
  "sum_list (map snd (emissions [(''a'', 1), (''b'', 3), (''c'', 0)] 100)) = 60
   \<and> snd (emissions [(''a'', 1), (''b'', 3), (''c'', 0)] 100 ! 0) * 3
     = snd (emissions [(''a'', 1), (''b'', 3), (''c'', 0)] 100 ! 1)"
  using emissions_exact [of 0 "[(''a'', 1), (''b'', 3), (''c'', 0)]" 1 100] by (simp add: POOL_SHARE_def)

end
