(* ===== verification/Scoring_Reliability.thy ===== *)
theory Scoring_Reliability
  imports Scoring_Formula Protocol_Session
begin

text \<open>
  The uptime ledger (\<^verbatim>\<open>validator/scoring/reliability.py\<close>). The clock is the argument \<open>now\<close>; the
  file behind \<^verbatim>\<open>self.path\<close> is the document it holds, as for the demand weights.
\<close>

definition DAY_SECONDS :: rat where "DAY_SECONDS = 86400"
definition MAX_GAP_SECONDS :: rat where "MAX_GAP_SECONDS = 120"

record RigReliability =
  rr_uptime_seconds :: rat
  rr_completed_jobs :: int
  rr_failed_jobs :: int
  rr_first_seen :: rat
  rr_last_seen :: rat
  rr_last_online :: bool

definition new_rig :: "rat \<Rightarrow> RigReliability" where
  "new_rig first_seen =
     \<lparr>rr_uptime_seconds = 0, rr_completed_jobs = 0, rr_failed_jobs = 0, rr_first_seen = first_seen,
      rr_last_seen = 0, rr_last_online = False\<rparr>"

definition rr_uptime_days :: "RigReliability \<Rightarrow> rat" where
  "rr_uptime_days r = rr_uptime_seconds r / DAY_SECONDS"

definition rr_multiplier :: "RigReliability \<Rightarrow> rat" where
  "rr_multiplier r = min 1 (rr_uptime_days r / UPTIME_RAMP_DAYS)"

definition success_rate :: "RigReliability \<Rightarrow> rat" where
  "success_rate r =
     (let total = rr_completed_jobs r + rr_failed_jobs r
      in if total \<noteq> 0 then of_int (rr_completed_jobs r) / of_int total else 1)"

definition RigReliability_payload :: "RigReliability \<Rightarrow> pydict" where
  "RigReliability_payload r =
     [(''uptime_seconds'', PFloat (py_round_to 1 (rr_uptime_seconds r))),
      (''uptime_days'', PFloat (py_round_to 3 (rr_uptime_days r))),
      (''multiplier'', PFloat (py_round_to 4 (rr_multiplier r))),
      (''completed_jobs'', PInt (rr_completed_jobs r)),
      (''failed_jobs'', PInt (rr_failed_jobs r)),
      (''success_rate'', PFloat (py_round_to 4 (success_rate r))),
      (''first_seen'', PFloat (rr_first_seen r)),
      (''last_seen'', PFloat (rr_last_seen r)),
      (''last_online'', PBool (rr_last_online r))]"

type_synonym ledger = "(string \<times> RigReliability) list"

definition rig_of_body :: "rat \<Rightarrow> pyval \<Rightarrow> RigReliability pyres" where
  "rig_of_body now body =
     rbind (attr_get body ''uptime_seconds'' (PFloat 0)) (\<lambda>u. rbind (py_float u) (\<lambda>uptime.
     rbind (attr_get body ''completed_jobs'' (PInt 0)) (\<lambda>c. rbind (py_int c) (\<lambda>completed.
     rbind (attr_get body ''failed_jobs'' (PInt 0)) (\<lambda>f. rbind (py_int f) (\<lambda>failed.
     rbind (attr_get body ''first_seen'' (PFloat now)) (\<lambda>fs. rbind (py_float fs) (\<lambda>first.
     rbind (attr_get body ''last_seen'' (PFloat 0)) (\<lambda>l. rbind (py_float l) (\<lambda>last.
     rbind (attr_get body ''last_online'' (PBool False)) (\<lambda>online.
     Inr \<lparr>rr_uptime_seconds = uptime, rr_completed_jobs = completed, rr_failed_jobs = failed,
          rr_first_seen = first, rr_last_seen = last, rr_last_online = truthy online\<rparr>)))))))))))"

definition ledger_load :: "rat \<Rightarrow> pyval option \<Rightarrow> ledger \<Rightarrow> ledger pyres" where
  "ledger_load now doc L =
     (case doc of None \<Rightarrow> Inr L
      | Some data \<Rightarrow> rbind (attr_get data ''rigs'' PNone) (\<lambda>rigs.
          case py_or rigs (PDict []) of
            PDict d \<Rightarrow> rfold (\<lambda>(rig_id, body) L.
              rbind (rig_of_body now body) (\<lambda>r. Inr (AList.update rig_id r L))) d L
          | _ \<Rightarrow> Inl AttributeError))"

definition ledger_save :: "ledger \<Rightarrow> pyval" where
  "ledger_save L = PDict [(''rigs'', PDict (map (\<lambda>(k, r). (k, PDict (RigReliability_payload r))) L))]"

definition observe_rig :: "bool \<Rightarrow> rat \<Rightarrow> RigReliability \<Rightarrow> RigReliability" where
  "observe_rig online moment r =
     (let gap = moment - rr_last_seen r;
          r' = (if rr_last_seen r \<noteq> 0 \<and> rr_last_online r \<and> online \<and> 0 < gap \<and> gap \<le> MAX_GAP_SECONDS
                then r\<lparr>rr_uptime_seconds := rr_uptime_seconds r + gap\<rparr> else r)
      in r'\<lparr>rr_last_seen := moment, rr_last_online := online\<rparr>)"

definition observe :: "string \<Rightarrow> bool \<Rightarrow> rat \<Rightarrow> ledger \<Rightarrow> ledger" where
  "observe rig_id online moment L =
     AList.update rig_id (observe_rig online moment (dget L rig_id (new_rig moment))) L"

definition record_job :: "rat \<Rightarrow> string \<Rightarrow> bool \<Rightarrow> ledger \<Rightarrow> ledger" where
  "record_job now rig_id completed L =
     (let r = dget L rig_id (new_rig now) in
      AList.update rig_id
        (if completed then r\<lparr>rr_completed_jobs := rr_completed_jobs r + 1\<rparr>
         else r\<lparr>rr_failed_jobs := rr_failed_jobs r + 1\<rparr>) L)"

definition ledger_uptime_days :: "ledger \<Rightarrow> string \<Rightarrow> rat" where
  "ledger_uptime_days L rig_id = (case map_of L rig_id of Some r \<Rightarrow> rr_uptime_days r | None \<Rightarrow> 0)"

definition forget :: "string \<Rightarrow> ledger \<Rightarrow> ledger" where
  "forget rig_id L = AList.delete rig_id L"

definition apply_server_uptime :: "rat \<Rightarrow> (string \<times> rat) list \<Rightarrow> ledger \<Rightarrow> ledger" where
  "apply_server_uptime now uptime L =
     fold (\<lambda>(rig_id, seconds) L.
       let r = dget L rig_id (new_rig now) in
       AList.update rig_id (r\<lparr>rr_uptime_seconds := max (rr_uptime_seconds r) seconds\<rparr>) L) uptime L"

section \<open>Operations as events\<close>

datatype ledger_event =
    Observe string bool rat
  | RecordJob rat string bool
  | ServerUptime rat "(string \<times> rat) list"
  | Forget string

fun ledger_step :: "ledger \<Rightarrow> ledger_event \<Rightarrow> ledger" where
  "ledger_step L (Observe rig online now) = observe rig online now L"
| "ledger_step L (RecordJob now rig ok) = record_job now rig ok L"
| "ledger_step L (ServerUptime now u) = apply_server_uptime now u L"
| "ledger_step L (Forget rig) = forget rig L"

text \<open>The ledger's invariant: keys are unique, counters and uptime are not negative.\<close>

definition rig_ok :: "RigReliability \<Rightarrow> bool" where
  "rig_ok r \<longleftrightarrow> 0 \<le> rr_uptime_seconds r \<and> 0 \<le> rr_completed_jobs r \<and> 0 \<le> rr_failed_jobs r"

definition ledger_inv :: "ledger \<Rightarrow> bool" where
  "ledger_inv L \<longleftrightarrow> wf_dict L \<and> (\<forall>r \<in> ran (map_of L). rig_ok r)"

lemma rig_ok_new [simp]: "rig_ok (new_rig t)"
  by (simp add: rig_ok_def new_rig_def)

lemma rig_ok_observe: "rig_ok r \<Longrightarrow> rig_ok (observe_rig online now r)"
  by (auto simp: rig_ok_def observe_rig_def Let_def)

lemma ledger_inv_dget: "ledger_inv L \<Longrightarrow> rig_ok (dget L k (new_rig t))"
  by (auto simp: ledger_inv_def dget_def ran_def split: option.splits)

lemma ledger_inv_update: "ledger_inv L \<Longrightarrow> rig_ok r \<Longrightarrow> ledger_inv (AList.update k r L)"
  unfolding ledger_inv_def by (auto simp: update_conv' ran_def)

lemma ledger_inv_observe: "ledger_inv L \<Longrightarrow> ledger_inv (observe rig online now L)"
  unfolding observe_def by (intro ledger_inv_update rig_ok_observe ledger_inv_dget)

lemma ledger_inv_record_job:
  assumes "ledger_inv L"
  shows "ledger_inv (record_job now rig ok L)"
  using ledger_inv_dget [OF assms, of rig now] assms unfolding record_job_def Let_def
  by (intro ledger_inv_update) (auto simp: rig_ok_def)

lemma ledger_inv_server:
  "ledger_inv L \<Longrightarrow> ledger_inv (apply_server_uptime now u L)"
proof (induction u arbitrary: L)
  case (Cons x u)
  obtain k v where x: "x = (k, v)" by (cases x)
  have "ledger_inv (AList.update k
      ((dget L k (new_rig now))\<lparr>rr_uptime_seconds := max (rr_uptime_seconds (dget L k (new_rig now))) v\<rparr>) L)"
    using ledger_inv_dget [OF Cons.prems, of k now]
    by (intro ledger_inv_update Cons.prems) (auto simp: rig_ok_def)
  then show ?case using Cons.IH by (simp add: x apply_server_uptime_def Let_def)
qed (simp add: apply_server_uptime_def)

lemma ledger_inv_forget: "ledger_inv L \<Longrightarrow> ledger_inv (forget rig L)"
  by (auto simp: ledger_inv_def forget_def map_of_dpop ran_def split: if_splits)

interpretation ledger: machine ledger_step ledger_inv
proof
  show "ledger_inv (ledger_step L e)" if "ledger_inv L" for L e
    using that by (cases e)
      (simp_all add: ledger_inv_observe ledger_inv_record_job ledger_inv_server ledger_inv_forget)
qed

section \<open>Uptime is never credited twice\<close>

definition uptime_of :: "string \<Rightarrow> ledger \<Rightarrow> rat" where
  "uptime_of rig L = (case map_of L rig of None \<Rightarrow> 0 | Some r \<Rightarrow> rr_uptime_seconds r)"

lemma uptime_of_observe:
  "uptime_of rig (observe rig' online now L) =
     (if rig = rig' then rr_uptime_seconds (observe_rig online now (dget L rig (new_rig now)))
      else uptime_of rig L)"
  by (simp add: uptime_of_def observe_def update_conv')

lemma uptime_of_dget: "uptime_of rig L = rr_uptime_seconds (dget L rig (new_rig t))"
  by (simp add: uptime_of_def dget_def new_rig_def split: option.splits)

lemma observe_rig_step:
  "rr_uptime_seconds r \<le> rr_uptime_seconds (observe_rig online now r) \<and>
   rr_uptime_seconds (observe_rig online now r) \<le> rr_uptime_seconds r + MAX_GAP_SECONDS"
  by (simp add: observe_rig_def Let_def MAX_GAP_SECONDS_def)

fun observe_step :: "ledger \<Rightarrow> string \<times> bool \<times> rat \<Rightarrow> ledger" where
  "observe_step L (rig, online, now) = observe rig online now L"

interpretation observations: monotone_machine observe_step ledger_inv "uptime_of rig" for rig
proof
  show "ledger_inv (observe_step L e)" if "ledger_inv L" for L e
    using that by (cases e) (simp add: ledger_inv_observe)
  show "uptime_of rig L \<le> uptime_of rig (observe_step L e)" if "ledger_inv L" for L e
  proof (cases e)
    case (fields rig' online now)
    show ?thesis
      using observe_rig_step [of "dget L rig (new_rig now)" online now]
      by (auto simp: fields uptime_of_observe uptime_of_dget [of rig L now])
  qed
qed

text \<open>Seen through one rig: the observations of it, in order.\<close>

definition rig_run :: "RigReliability \<Rightarrow> (bool \<times> rat) list \<Rightarrow> RigReliability" where
  "rig_run r obs = foldl (\<lambda>r (online, now). observe_rig online now r) r obs"

lemma rig_run_Nil [simp]: "rig_run r [] = r"
  by (simp add: rig_run_def)

lemma rig_run_Cons [simp]: "rig_run r ((online, now) # obs) = rig_run (observe_rig online now r) obs"
  by (simp add: rig_run_def)

lemma rig_run_wall_clock:
  assumes "sorted (t0 # map snd obs)"
    and "rr_uptime_seconds r \<le> t0 - rr_first_seen r" "rr_last_seen r = t0"
  shows "rr_uptime_seconds (rig_run r obs) \<le> last (t0 # map snd obs) - rr_first_seen r"
  using assms
proof (induction obs arbitrary: r t0)
  case (Cons ob obs)
  obtain online t where ob: "ob = (online, t)" by (cases ob)
  have le: "t0 \<le> t" "sorted (t # map snd obs)" using Cons.prems(1) ob by auto
  have "rr_uptime_seconds (observe_rig online t r) \<le> t - rr_first_seen (observe_rig online t r)"
    and "rr_last_seen (observe_rig online t r) = t"
    and "rr_first_seen (observe_rig online t r) = rr_first_seen r"
    using Cons.prems(2,3) le(1) by (auto simp: observe_rig_def Let_def)
  then show ?case using Cons.IH [OF le(2), of "observe_rig online t r"] ob by simp
qed simp

text \<open>An observation that finds the rig offline credits nothing, nor does the next one.\<close>

lemma offline_credits_nothing:
  "rr_uptime_seconds (observe_rig online t' (observe_rig False t r)) = rr_uptime_seconds r"
  by (simp add: observe_rig_def Let_def)

lemma rr_multiplier_eq: "0 \<le> rr_uptime_seconds r \<Longrightarrow> rr_multiplier r = uptime_multiplier (rr_uptime_days r)"
  by (simp add: rr_multiplier_def uptime_multiplier_def rr_uptime_days_def DAY_SECONDS_def)

lemma success_rate_bounds: "rig_ok r \<Longrightarrow> 0 \<le> success_rate r \<and> success_rate r \<le> 1"
  by (auto simp: success_rate_def rig_ok_def Let_def divide_le_eq)

section \<open>What is written is read back\<close>

lemma rig_of_payload:
  "rig_of_body now (PDict (RigReliability_payload r)) =
     Inr (r\<lparr>rr_uptime_seconds := py_round_to 1 (rr_uptime_seconds r)\<rparr>)"
  by (simp add: rig_of_body_def RigReliability_payload_def)

lemma ledger_load_save:
  assumes "wf_dict L"
  shows "ledger_load now (Some (ledger_save L)) [] =
    Inr (map (\<lambda>(k, r). (k, r\<lparr>rr_uptime_seconds := py_round_to 1 (rr_uptime_seconds r)\<rparr>)) L)"
proof -
  let ?f = "\<lambda>(rig_id, body) L. rbind (rig_of_body now body) (\<lambda>r. Inr (AList.update rig_id r L))"
  let ?enc = "map (\<lambda>(k, r). (k, PDict (RigReliability_payload r)))"
  let ?rnd = "map (\<lambda>(k, r). (k, r\<lparr>rr_uptime_seconds := py_round_to 1 (rr_uptime_seconds r)\<rparr>))"
  have app: "k \<notin> set (map fst M) \<Longrightarrow> AList.update k v M = M @ [(k, v)]" for k and v :: RigReliability and M
    by (induction M) auto
  have *: "rfold ?f (?enc L) M = Inr (M @ ?rnd L)" if "distinct (map fst (M @ L))" for M
    using that
  proof (induction L arbitrary: M)
    case (Cons x L)
    obtain k r where x: "x = (k, r)" by (cases x)
    have "k \<notin> set (map fst M)" using Cons.prems x by auto
    then show ?case
      using Cons.IH [of "M @ [(k, r\<lparr>rr_uptime_seconds := py_round_to 1 (rr_uptime_seconds r)\<rparr>)]"] Cons.prems
      by (simp add: x rig_of_payload app del: One_nat_def)
  qed simp
  show ?thesis using * [of "[]"] assms
    by (cases L) (auto simp: ledger_load_def ledger_save_def py_or_def wf_dict_def)
qed

section \<open>Properties\<close>

text \<open>A machine is never credited with more uptime than has passed: over observations in the
  order of the clock, however many of them and whatever they say, the uptime is at most the time from
  the first sighting to the last observation; an observation that finds the machine offline credits
  nothing and stops the next one from crediting the gap.\<close>

theorem uptime_within_wall_clock:
  assumes "sorted (t0 # map snd obs)"
  shows "rr_uptime_seconds (rig_run (new_rig t0) ((online, t0) # obs)) \<le> last (t0 # map snd obs) - t0
    \<and> rr_uptime_seconds (observe_rig online' t'' (observe_rig False t' r)) = rr_uptime_seconds r"
proof -
  let ?r = "observe_rig online t0 (new_rig t0)"
  have "rr_uptime_seconds ?r = 0" "rr_first_seen ?r = t0" "rr_last_seen ?r = t0"
    by (simp_all add: observe_rig_def new_rig_def Let_def)
  then show ?thesis
    using rig_run_wall_clock [OF assms, of ?r] offline_credits_nothing by simp
qed

theorem uptime_within_wall_clock_witness:
  "rr_uptime_seconds (rig_run (new_rig 100) [(True, 100), (True, 160), (False, 200), (True, 230), (True, 290)]) = 120
   \<and> rr_uptime_seconds (rig_run (new_rig 100) [(True, 100), (True, 160), (False, 200), (True, 230), (True, 290)]) \<le> 290 - 100"
proof
  show "rr_uptime_seconds (rig_run (new_rig 100) [(True, 100), (True, 160), (False, 200), (True, 230), (True, 290)]) = 120"
    by code_simp
  show "rr_uptime_seconds (rig_run (new_rig 100) [(True, 100), (True, 160), (False, 200), (True, 230), (True, 290)]) \<le> 290 - 100"
    using uptime_within_wall_clock [of 100 "[(True, 160), (False, 200), (True, 230), (True, 290)]" True] by simp
qed

end
