(* ===== verification/Scoring_Demand.thy ===== *)
theory Scoring_Demand
  imports Data_Tiers
begin

text \<open>
  Demand weights: an exponential moving average of revenue per GPU type
  (\<^verbatim>\<open>validator/scoring/demand_weight.py\<close>). The file behind \<^verbatim>\<open>self.path\<close> is the document it holds:
  \<open>save\<close> yields the document written, \<open>load\<close> takes the document read (\<open>None\<close> when there is no
  file or it does not parse).
\<close>

definition ALPHA :: rat where "ALPHA = 1 / 100"
definition MIN_WEIGHT :: rat where "MIN_WEIGHT = 1 / 100"

definition STATIC_PRIOR :: "(string \<times> rat) list" where
  "STATIC_PRIOR =
     [(tier_value Flagship, 1), (tier_value Professional, 6 / 10), (tier_value Standard, 35 / 100),
      (tier_value Entry, 15 / 100)]"

record DemandWeights =
  dw_alpha :: rat
  dw_values :: "(string \<times> rat) list"
  dw_updated_at :: "(string \<times> rat) list"

definition floats_of :: "pyval \<Rightarrow> (string \<times> rat) list pyres" where
  "floats_of v =
     (case py_or v (PDict []) of
        PDict d \<Rightarrow> rmap (\<lambda>(k, x). rbind (py_float x) (\<lambda>f. Inr (k, f))) d
      | _ \<Rightarrow> Inl AttributeError)"

definition demand_load :: "pyval option \<Rightarrow> DemandWeights \<Rightarrow> DemandWeights pyres" where
  "demand_load doc w =
     (case doc of None \<Rightarrow> Inr w
      | Some data \<Rightarrow>
          rbind (attr_get data ''values'' PNone) (\<lambda>v.
          rbind (floats_of v) (\<lambda>values.
          rbind (attr_get data ''updated_at'' PNone) (\<lambda>u.
          rbind (floats_of u) (\<lambda>updated.
          Inr (w\<lparr>dw_values := values, dw_updated_at := updated\<rparr>))))))"

definition demand_save :: "DemandWeights \<Rightarrow> pyval" where
  "demand_save w =
     PDict [(''values'', PDict (map (\<lambda>(k, v). (k, PFloat v)) (dw_values w))),
            (''updated_at'', PDict (map (\<lambda>(k, v). (k, PFloat v)) (dw_updated_at w)))]"

definition weight :: "DemandWeights \<Rightarrow> string \<Rightarrow> Tier option \<Rightarrow> rat" where
  "weight w key tier =
     (case map_of (dw_values w) key of
        Some v \<Rightarrow> max MIN_WEIGHT v
      | None \<Rightarrow> (case tier of
          Some t \<Rightarrow> dget STATIC_PRIOR (tier_value t) MIN_WEIGHT
        | None \<Rightarrow> dget STATIC_PRIOR key MIN_WEIGHT))"

definition demand_update ::
  "rat \<Rightarrow> string \<Rightarrow> rat \<Rightarrow> Tier option \<Rightarrow> DemandWeights \<Rightarrow> DemandWeights" where
  "demand_update now key revenue_per_gpu_hour tier w =
     (let previous = weight w key tier;
          sample = max 0 revenue_per_gpu_hour;
          value = previous + dw_alpha w * (sample - previous)
      in w\<lparr>dw_values := AList.update key (max MIN_WEIGHT value) (dw_values w),
           dw_updated_at := AList.update key now (dw_updated_at w)\<rparr>)"

definition update_many ::
  "rat \<Rightarrow> (string \<times> rat) list \<Rightarrow> (string \<times> Tier) list \<Rightarrow> DemandWeights \<Rightarrow> DemandWeights" where
  "update_many now revenue tiers w =
     fold (\<lambda>(key, sample). demand_update now key sample (map_of tiers key)) revenue w"

definition snapshot :: "DemandWeights \<Rightarrow> (string \<times> rat) list" where
  "snapshot w = fold (\<lambda>(k, v). AList.update k (max MIN_WEIGHT v)) (dw_values w) STATIC_PRIOR"

section \<open>Correctness\<close>

lemma STATIC_PRIOR_ge: "MIN_WEIGHT \<le> dget STATIC_PRIOR k MIN_WEIGHT"
  by (simp add: STATIC_PRIOR_def MIN_WEIGHT_def)

lemma weight_ge_min: "MIN_WEIGHT \<le> weight w key tier"
  by (auto simp: weight_def STATIC_PRIOR_ge split: option.splits)

lemma weight_pos: "0 < weight w key tier"
  using weight_ge_min [of w key tier] by (simp add: MIN_WEIGHT_def)

lemma weight_update:
  "weight (demand_update now key rv tier w) key' tier' =
     (if key' = key
      then max MIN_WEIGHT (weight w key tier + dw_alpha w * (max 0 rv - weight w key tier))
      else weight w key' tier')"
  by (simp add: weight_def demand_update_def Let_def update_conv')

lemma demand_update_alpha [simp]: "dw_alpha (demand_update now key rv tier w) = dw_alpha w"
  by (simp add: demand_update_def Let_def)

text \<open>A convex step: the new weight lies between the old one and the sample, floor aside.\<close>

lemma convex_step:
  fixes a p s :: rat
  assumes "0 \<le> a" "a \<le> 1"
  shows "min p s \<le> p + a * (s - p) \<and> p + a * (s - p) \<le> max p s"
proof -
  have eq: "p + a * (s - p) = (1 - a) * p + a * s" by (simp add: algebra_simps)
  have "(1 - a) * min p s + a * min p s \<le> (1 - a) * p + a * s"
    using assms by (intro add_mono mult_left_mono) auto
  moreover have "(1 - a) * p + a * s \<le> (1 - a) * max p s + a * max p s"
    using assms by (intro add_mono mult_left_mono) auto
  ultimately show ?thesis unfolding eq by (simp add: algebra_simps)
qed

lemma weight_update_between:
  assumes "0 \<le> dw_alpha w" "dw_alpha w \<le> 1"
  shows "min (weight w key tier) (max 0 rv) \<le> weight (demand_update now key rv tier w) key tier' \<and>
    weight (demand_update now key rv tier w) key tier' \<le> max (weight w key tier) (max 0 rv)"
  using convex_step [OF assms, of "weight w key tier" "max 0 rv"] weight_ge_min [of w key tier]
  by (simp add: weight_update) (meson le_max_iff_disj order_trans)

text \<open>A constant revenue above the floor: the distance to it shrinks by the factor \<open>1 - alpha\<close> at
  every step.\<close>

lemma weight_converges:
  assumes a: "0 \<le> dw_alpha w" "dw_alpha w \<le> 1" and s: "MIN_WEIGHT \<le> s"
  shows "weight ((demand_update now key s tier ^^ n) w) key tier - s
         = (1 - dw_alpha w) ^ n * (weight w key tier - s)
       \<and> dw_alpha ((demand_update now key s tier ^^ n) w) = dw_alpha w"
proof (induction n)
  case (Suc n)
  let ?w = "(demand_update now key s tier ^^ n) w"
  let ?p = "weight ?w key tier"
  have al: "dw_alpha ?w = dw_alpha w" using Suc by simp
  have "MIN_WEIGHT \<le> ?p" by (rule weight_ge_min)
  then have "MIN_WEIGHT \<le> ?p + dw_alpha w * (s - ?p)"
    using convex_step [OF a, of ?p s] s by auto
  moreover have "max 0 s = s" using s by (simp add: MIN_WEIGHT_def)
  ultimately have "weight ((demand_update now key s tier ^^ Suc n) w) key tier = ?p + dw_alpha w * (s - ?p)"
    by (simp add: weight_update al)
  then have "weight ((demand_update now key s tier ^^ Suc n) w) key tier - s
      = (1 - dw_alpha w) * (?p - s)" by (simp add: algebra_simps)
  then show ?case using Suc by simp
qed simp

lemma floats_of_PFloat: "floats_of (PDict (map (\<lambda>(k, v). (k, PFloat v)) d)) = Inr d"
proof -
  have "rmap (\<lambda>(k, x). rbind (py_float x) (\<lambda>f. Inr (k, f))) (map (\<lambda>(k, v). (k, PFloat v)) d) = Inr d"
    by (induction d) auto
  then show ?thesis by (cases d) (auto simp: floats_of_def py_or_def)
qed

lemma demand_load_save:
  "demand_load (Some (demand_save w)) v = Inr (v\<lparr>dw_values := dw_values w, dw_updated_at := dw_updated_at w\<rparr>)"
  unfolding demand_load_def demand_save_def by (simp add: floats_of_PFloat)

section \<open>Properties\<close>

text \<open>Under a constant revenue at or above the floor, the demand weight of a GPU type converges to
  that revenue: after \<open>n\<close> updates the distance is the first distance times \<open>(1 - alpha) ^ n\<close>. One update
  never overshoots, whatever the revenue.\<close>

theorem demand_weight_converges:
  assumes "0 \<le> dw_alpha w" "dw_alpha w \<le> 1" "MIN_WEIGHT \<le> s"
  shows "weight ((demand_update now key s tier ^^ n) w) key tier - s
         = (1 - dw_alpha w) ^ n * (weight w key tier - s)
    \<and> min (weight w key tier) (max 0 rv) \<le> weight (demand_update now key rv tier w) key tier'
    \<and> weight (demand_update now key rv tier w) key tier' \<le> max (weight w key tier) (max 0 rv)"
  using weight_converges [OF assms] weight_update_between [OF assms(1,2)] by auto

theorem demand_weight_converges_witness:
  "weight ((demand_update 0 ''NVIDIA L4'' 2 None ^^ 2) \<lparr>dw_alpha = 1 / 2, dw_values = [(''NVIDIA L4'', 1)], dw_updated_at = []\<rparr>)
     ''NVIDIA L4'' None = 7 / 4"
proof -
  let ?w = "\<lparr>dw_alpha = 1 / 2, dw_values = [(''NVIDIA L4'', 1)], dw_updated_at = []\<rparr>"
  have start: "weight ?w ''NVIDIA L4'' None = 1" by code_simp
  have "weight ((demand_update 0 ''NVIDIA L4'' 2 None ^^ 2) ?w) ''NVIDIA L4'' None - 2 = (1 - 1 / 2) ^ 2 * (1 - 2)"
    using demand_weight_converges [where w = ?w and s = 2 and now = 0 and key = "''NVIDIA L4''"
        and tier = None and n = 2, unfolded start] by (simp add: MIN_WEIGHT_def)
  then show ?thesis by (simp add: power2_eq_square algebra_simps)
qed

end
