(* ===== verification/Scoring_Weights.thy ===== *)
theory Scoring_Weights
  imports Scoring_Reliability Scoring_Demand Data_Gpu_Table
begin

text \<open>
  From scores to the weight vector on chain (\<^verbatim>\<open>validator/scoring/weights.py\<close>). The chain client is
  not under the repository: what it answers (\<open>uid_of\<close>, the version key, the receipt) is an
  argument, and so is the parser of ISO timestamps (\<open>parse_iso\<close>, seconds since the epoch).
\<close>

definition U16_MAX :: int where "U16_MAX = 65535"
definition HELD_SHARE :: rat where "HELD_SHARE = 40 / 100"
definition VERIFIED_STATES :: "string list" where "VERIFIED_STATES = [''probation'', ''active'']"

record WeightVector =
  wv_uids :: "int list"
  wv_weights :: "int list"
  wv_floored :: "int list"
  wv_reserve_uid :: "int option"

definition opt_int :: "int option \<Rightarrow> pyval" where
  "opt_int x = (case x of None \<Rightarrow> PNone | Some i \<Rightarrow> PInt i)"

definition WeightVector_payload :: "WeightVector \<Rightarrow> pydict" where
  "WeightVector_payload v =
     [(''uids'', PList (map PInt (wv_uids v))), (''weights'', PList (map PInt (wv_weights v))),
      (''floored'', PList (map PInt (wv_floored v))), (''reserve_uid'', opt_int (wv_reserve_uid v))]"

definition normalise :: "(int \<times> rat) list \<Rightarrow> (int \<times> rat) list" where
  "normalise scores =
     (let positive = filter (\<lambda>(uid, value). 0 < value) scores;
          total = sum_list (map snd positive)
      in if total \<le> 0 then [] else map (\<lambda>(uid, value). (uid, value / total)) positive)"

definition with_reserve :: "(int \<times> rat) list \<Rightarrow> int option \<Rightarrow> rat \<Rightarrow> (int \<times> rat) list" where
  "with_reserve shares reserve_uid held_share =
     (case reserve_uid of
        None \<Rightarrow> shares
      | Some r \<Rightarrow>
          if held_share \<le> 0 then shares
          else (let held = min (max held_share 0) 1;
                    scaled = map (\<lambda>(uid, value). (uid, value * (1 - held)))
                               (filter (\<lambda>(uid, value). uid \<noteq> r) shares)
                in AList.update r (dget scaled r 0 + held) scaled))"

definition max_list :: "rat \<Rightarrow> rat list \<Rightarrow> rat" where
  "max_list x xs = foldl max x xs"

definition to_u16 :: "(int \<times> rat) list \<Rightarrow> (int \<times> int) list" where
  "to_u16 shares =
     (case map snd shares of
        [] \<Rightarrow> []
      | v # vs \<Rightarrow>
          (let top = max_list v vs in
           if top \<le> 0 then []
           else map (\<lambda>(uid, value). (uid, max 1 (py_round (value / top * of_int U16_MAX))))
                  (filter (\<lambda>(uid, value). 0 < value) shares)))"

text \<open>The loop over \<^verbatim>\<open>missing\<close>: it stops at the first uid the donor can no longer pay for.\<close>

fun floor_loop :: "int \<Rightarrow> int list \<Rightarrow> (int \<times> int) list \<Rightarrow> (int \<times> int) list \<times> int list" where
  "floor_loop donor [] u16 = (u16, [])"
| "floor_loop donor (uid # missing) u16 =
     (let d = dget u16 donor 0 in
      if d \<le> 1 then (u16, [])
      else (case floor_loop donor missing (AList.update uid 1 (AList.update donor (d - 1) u16)) of
              (u, floored) \<Rightarrow> (u, uid # floored)))"

definition missing_uids :: "(int \<times> int) list \<Rightarrow> int list \<Rightarrow> int option \<Rightarrow> int list" where
  "missing_uids u16 active donor =
     sort (filter (\<lambda>uid. \<not> dhas u16 uid \<and> Some uid \<noteq> donor) (remdups active))"

definition eligibility_floor ::
  "(int \<times> int) list \<Rightarrow> int list \<Rightarrow> int option \<Rightarrow> (int \<times> int) list \<times> int list" where
  "eligibility_floor u16 active donor_uid =
     (let missing = missing_uids u16 active donor_uid in
      case donor_uid of
        None \<Rightarrow> (u16, [])
      | Some donor \<Rightarrow>
          if missing = [] \<or> \<not> dhas u16 donor then (u16, []) else floor_loop donor missing u16)"

definition build :: "(int \<times> rat) list \<Rightarrow> int list \<Rightarrow> int option \<Rightarrow> rat \<Rightarrow> WeightVector" where
  "build scores active_uids reserve_uid held_share =
     (case eligibility_floor (to_u16 (with_reserve (normalise scores) reserve_uid held_share))
        active_uids reserve_uid of (u16, floored) \<Rightarrow>
      (let ordered = sort_key fst u16 in
       \<lparr>wv_uids = map fst ordered, wv_weights = map snd ordered, wv_floored = floored,
        wv_reserve_uid = reserve_uid\<rparr>))"

section \<open>Driver versions\<close>

text \<open>The first three numbers of a text.\<close>

definition parse_version :: "string \<Rightarrow> int list" where
  "parse_version text = map (\<lambda>p. int (digits_val p)) (take 3 (digit_runs [] text))"

definition driver_ok :: "string \<Rightarrow> string \<Rightarrow> bool" where
  "driver_ok driver minimum =
     (let flr = parse_version minimum; current = parse_version driver in
      if flr = [] \<or> current = [] then True else flr \<le> current)"

definition version_key :: "string \<Rightarrow> int pyres" where
  "version_key version =
     rbind (rmap int_of_str (take 3 (split_on (CHR ''.'') version))) (\<lambda>ps.
       case ps @ [0, 0, 0] of
         major # minor # patch # _ \<Rightarrow> Inr (major * 10000 + minor * 100 + patch)
       | _ \<Rightarrow> Inl ValueError)"

section \<open>Scores from the roster\<close>

definition uptime_days_of ::
  "(string \<Rightarrow> rat option) \<Rightarrow> pydict \<Rightarrow> ledger option \<Rightarrow> rat \<Rightarrow> rat" where
  "uptime_days_of parse_iso rig ledger now =
     (let rig_id = str_or_empty rig ''id'';
          days = (case ledger of Some L \<Rightarrow> ledger_uptime_days L rig_id | None \<Rightarrow> 0);
          since = str_or_empty rig ''uptime_since''
      in if since = [] then days
         else (case parse_iso since of None \<Rightarrow> days | Some moment \<Rightarrow> max days ((now - moment) / 86400)))"

fun is_rental_job :: "pyval \<Rightarrow> bool" where
  "is_rental_job (PDict job) = (str_field job ''kind'' = ''rental'')"
| "is_rental_job _ = False"

definition in_rental :: "pydict \<Rightarrow> bool pyres" where
  "in_rental rig = rbind (py_iter (py_or (dget rig ''jobs'' PNone) (PList [])))
     (\<lambda>jobs. Inr (list_ex is_rental_job jobs))"

fun accepted_card :: "pyval \<Rightarrow> bool" where
  "accepted_card (PDict cd) = truthy (dget cd ''accepted'' (PBool True))"
| "accepted_card _ = False"

fun dict_of :: "pyval \<Rightarrow> pydict" where
  "dict_of (PDict d) = d"
| "dict_of _ = []"

text \<open>The first loop: the cards of a rig that counts, or \<open>None\<close> where the loop continues.\<close>

definition verified_cards :: "pydict \<Rightarrow> pydict list option pyres" where
  "verified_cards rig =
     (if str_field rig ''state'' \<notin> set VERIFIED_STATES then Inr None
      else rbind (attr_get (py_or (dget rig ''last_pass'' PNone) (PDict [])) ''passed'' (PBool False))
        (\<lambda>ok. if \<not> truthy ok then Inr None
         else rbind (py_iter (py_or (dget rig ''gpus'' PNone) (PList [])))
           (\<lambda>gpus. let cards = map dict_of (filter accepted_card gpus)
                   in Inr (if cards = [] then None else Some cards))))"

definition card_weight :: "DemandWeights option \<Rightarrow> pydict \<Rightarrow> rat" where
  "card_weight demand cd =
     (case demand of
        None \<Rightarrow> 1
      | Some w \<Rightarrow> weight w (normalize (str_or_empty cd ''model'')) (tier_of_value (str_or_empty cd ''tier'')))"

definition rig_inputs ::
  "(string \<Rightarrow> rat option) \<Rightarrow> DemandWeights option \<Rightarrow> ledger option \<Rightarrow> string \<Rightarrow> bool \<Rightarrow> rat \<Rightarrow> int \<Rightarrow>
   pydict \<Rightarrow> pydict list \<Rightarrow> ScoreInputs pyres" where
  "rig_inputs parse_iso demand ledger min_driver cutoff now fleet rig cards =
     (let weights = map (card_weight demand) cards;
          spec = py_or (dget rig ''spec'' PNone) (PDict [])
      in rbind (attr_get spec ''driver'' (PStr [])) (\<lambda>drv.
         rbind (in_rental rig) (\<lambda>rented. Inr
         \<lparr>si_verified = True,
          si_demand_weight = (if weights = [] then 0 else sum_list weights / of_nat (length weights)),
          si_gpu_count = int (length cards),
          si_fleet_gpu_count = fleet,
          si_isolation_ok = truthy (dget rig ''isolation_verified'' (PBool False)),
          si_uptime_days = uptime_days_of parse_iso rig ledger now,
          si_driver_ok = driver_ok (py_str (py_or drv (PStr []))) min_driver,
          si_driver_cutoff_passed = cutoff,
          si_in_rental = rented,
          si_rental_opted_out = truthy (dget rig ''rental_opt_out'' (PBool False))\<rparr>)))"

definition add_rig_score ::
  "(pydict \<Rightarrow> pydict list \<Rightarrow> ScoreInputs pyres) \<Rightarrow> pydict \<times> pydict list \<Rightarrow> (string \<times> rat) list \<Rightarrow>
   (string \<times> rat) list pyres" where
  "add_rig_score inputs rc totals =
     (case rc of (rig, cards) \<Rightarrow>
        let hotkey = str_or_empty rig ''hotkey'' in
        if hotkey = [] then Inr totals
        else rbind (inputs rig cards) (\<lambda>i.
          Inr (AList.update hotkey (dget totals hotkey 0 + score i) totals)))"

definition verified_rigs :: "pydict list \<Rightarrow> (pydict \<times> pydict list) list pyres" where
  "verified_rigs roster =
     rfold (\<lambda>rig acc. rbind (verified_cards rig) (\<lambda>c. Inr (case c of None \<Rightarrow> acc | Some cards \<Rightarrow> acc @ [(rig, cards)])))
       roster []"

definition fleet_size :: "(pydict \<times> pydict list) list \<Rightarrow> int" where
  "fleet_size verified = sum_list (map (\<lambda>(rig, cards). int (length cards)) verified)"

definition local_scores ::
  "(string \<Rightarrow> rat option) \<Rightarrow> DemandWeights option \<Rightarrow> ledger option \<Rightarrow> string \<Rightarrow> bool \<Rightarrow> rat \<Rightarrow>
   pydict list \<Rightarrow> (string \<times> rat) list pyres" where
  "local_scores parse_iso demand ledger min_driver cutoff now roster =
     rbind (verified_rigs roster) (\<lambda>verified.
       rfold (add_rig_score (rig_inputs parse_iso demand ledger min_driver cutoff now (fleet_size verified))) verified [])"

definition compute_scores ::
  "(string \<Rightarrow> rat option) \<Rightarrow> pydict option \<Rightarrow> pydict list \<Rightarrow> DemandWeights option \<Rightarrow> ledger option \<Rightarrow>
   string \<Rightarrow> bool \<Rightarrow> rat \<Rightarrow> ((string \<times> rat) list \<times> string) pyres" where
  "compute_scores parse_iso server_scores roster demand ledger min_driver cutoff now =
     (let fallback = rbind (local_scores parse_iso demand ledger min_driver cutoff now roster)
                       (\<lambda>s. Inr (s, ''local'')) in
      case server_scores of
        None \<Rightarrow> fallback
      | Some d \<Rightarrow>
          if truthy (dget d ''epoch'' PNone)
          then rbind (floats_of (dget d ''weights'' PNone)) (\<lambda>ws.
                 let weights = filter (\<lambda>(k, v). 0 < v) ws in
                 if weights \<noteq> [] then Inr (weights, ''server'') else fallback)
          else fallback)"

section \<open>The chain\<close>

definition uids_for :: "(string \<Rightarrow> int option) \<Rightarrow> string list \<Rightarrow> (string \<times> int) list" where
  "uids_for uid_of hotkeys =
     fold (\<lambda>h out. case uid_of h of None \<Rightarrow> out | Some u \<Rightarrow> AList.update h u out) hotkeys []"

definition vector ::
  "(string \<Rightarrow> int option) \<Rightarrow> (string \<times> rat) list \<Rightarrow> string list \<Rightarrow> int option \<Rightarrow> rat \<Rightarrow>
   WeightVector \<times> (string \<times> int) list" where
  "vector uid_of scores active reserve_uid held_share =
     (let uids = uids_for uid_of (sort (remdups (map fst scores @ active)));
          by_uid = fold (\<lambda>(h, w) d. case map_of uids h of None \<Rightarrow> d | Some u \<Rightarrow> AList.update u w d) scores [];
          active_uids = List.map_filter (map_of uids) active
      in (build by_uid active_uids reserve_uid held_share, uids))"

record Extrinsic =
  x_function :: string
  x_netuid :: int
  x_dests :: "int list"
  x_weights :: "int list"
  x_version_key :: int
  x_mecid :: "int option"

definition submit ::
  "(string \<Rightarrow> int option) \<Rightarrow> int \<Rightarrow> (Extrinsic \<Rightarrow> string) \<Rightarrow> int \<Rightarrow> int option \<Rightarrow>
   (string \<times> rat) list \<Rightarrow> string list \<Rightarrow> int option \<Rightarrow> rat \<Rightarrow> bool \<Rightarrow> pydict \<times> Extrinsic option" where
  "submit uid_of chain_version receipt netuid mechanism_id scores active reserve_uid held_share dry_run =
     (case vector uid_of scores active reserve_uid held_share of (v, uids) \<Rightarrow>
      (let outcome =
         [(''submitted'', PBool False), (''dry_run'', PBool dry_run), (''netuid'', PInt netuid),
          (''mechanism_id'', opt_int mechanism_id), (''known_hotkeys'', PInt (int (length uids))),
          (''unknown_hotkeys'', PList (map PStr (sort (filter (\<lambda>h. \<not> dhas uids h) (remdups (map fst scores)))))),
          (''held_share_routed'', PBool (reserve_uid \<noteq> None \<and> 0 < held_share))] @ WeightVector_payload v in
       if wv_uids v = []
       then (AList.update ''reason'' (PStr ''no registered hotkeys with a positive share'') outcome, None)
       else (let outcome = AList.update ''version_key'' (PInt chain_version) outcome in
         if dry_run then (outcome, None)
         else (let call = \<lparr>x_function = (if mechanism_id = None then ''set_weights'' else ''set_mechanism_weights''),
                           x_netuid = netuid, x_dests = wv_uids v, x_weights = wv_weights v,
                           x_version_key = chain_version, x_mecid = mechanism_id\<rparr>
               in (AList.update ''hash'' (PStr (receipt call))
                    (AList.update ''call'' (PStr (x_function call))
                      (AList.update ''submitted'' (PBool True) outcome)), Some call)))))"

section \<open>Shares\<close>

lemma sum_filter_pos: "sum_list (map snd (filter (\<lambda>(u, v). 0 < v) xs)) = positive_total xs"
  by (induction xs) (auto simp: positive_total_Cons)

lemma normalise_eq:
  "normalise xs = (if positive_total xs \<le> 0 then []
     else map (\<lambda>(u, v). (u, v / positive_total xs)) (filter (\<lambda>(u, v). 0 < v) xs))"
  by (simp add: normalise_def Let_def sum_filter_pos)

lemma normalise_sum:
  "0 < positive_total xs \<Longrightarrow> sum_list (map snd (normalise xs)) = 1"
proof -
  assume pos: "0 < positive_total xs"
  have "sum_list (map snd (map (\<lambda>(u, v). (u, v / c)) ys)) = sum_list (map snd ys) / c"
    for c :: rat and ys :: "(int \<times> rat) list"
    by (induction ys) (auto simp: add_divide_distrib)
  then show ?thesis using pos by (simp add: normalise_eq sum_filter_pos)
qed

lemma normalise_pos: "(u, v) \<in> set (normalise xs) \<Longrightarrow> 0 < v"
  by (auto simp: normalise_eq split: if_splits)

lemma normalise_keys: "map fst (normalise xs) = (if positive_total xs \<le> 0 then [] else map fst (filter (\<lambda>(u, v). 0 < v) xs))"
  by (simp add: normalise_eq case_prod_beta comp_def)

lemma normalise_wf: "wf_dict xs \<Longrightarrow> wf_dict (normalise xs)"
  unfolding wf_dict_def normalise_keys by (simp add: distinct_map_filter)

lemma with_reserve_eq:
  assumes "0 < h"
  shows "with_reserve shares (Some r) h =
    map (\<lambda>(u, v). (u, v * (1 - min h 1))) (filter (\<lambda>(u, v). u \<noteq> r) shares) @ [(r, min h 1)]"
proof -
  let ?s = "map (\<lambda>(u, v). (u, v * (1 - min h 1))) (filter (\<lambda>(u, v). u \<noteq> r) shares)"
  have no: "r \<notin> set (map fst ?s)" by auto
  then have "map_of ?s r = None" by (simp only: map_of_eq_None_iff set_map) simp
  then have "dget ?s r 0 = 0" by (simp add: dget_def)
  with no show ?thesis using assms
    by (simp add: with_reserve_def Let_def update_new max_def)
qed

lemma with_reserve_sum:
  assumes "0 < h"
  shows "sum_list (map snd (with_reserve shares (Some r) h)) =
    (1 - min h 1) * sum_list (map snd (filter (\<lambda>(u, v). u \<noteq> r) shares)) + min h 1"
proof -
  have "sum_list (map snd (map (\<lambda>(u, v). (u, v * c)) ys)) = c * sum_list (map snd ys)"
    for c :: rat and ys :: "(int \<times> rat) list"
    by (induction ys) (auto simp: algebra_simps)
  then show ?thesis by (simp add: with_reserve_eq [OF assms])
qed

lemma with_reserve_share: "0 < h \<Longrightarrow> map_of (with_reserve shares (Some r) h) r = Some (min h 1)"
proof -
  assume "0 < h"
  have "map_of (map (\<lambda>(u, v). (u, v * c)) (filter (\<lambda>(u, v). u \<noteq> r) shares)) r = None" for c :: rat
    by (auto simp: map_of_eq_None_iff)
  then show ?thesis by (simp add: with_reserve_eq [OF \<open>0 < h\<close>] map_add_def)
qed

lemma with_reserve_wf: "wf_dict shares \<Longrightarrow> wf_dict (with_reserve shares r h)"
  unfolding with_reserve_def Let_def
  by (auto simp: wf_dict_def case_prod_beta comp_def distinct_map_filter split: option.splits
      intro!: distinct_update)

section \<open>Quantisation\<close>

lemma max_list_Max: "max_list x xs = Max (set (x # xs))"
proof -
  have "(\<lambda>y s :: rat. max s y) = max" by (auto simp: max.commute fun_eq_iff)
  then show ?thesis unfolding max_list_def foldl_conv_fold Max.set_eq_fold by simp
qed

lemma max_list_ge: "y \<in> set (x # xs) \<Longrightarrow> y \<le> max_list x xs"
  unfolding max_list_Max by (intro Max_ge) auto

lemma max_list_in: "max_list x xs \<in> set (x # xs)"
  unfolding max_list_Max by (intro Max_in) auto

text \<open>The largest share of a vector.\<close>

definition top_share :: "(int \<times> rat) list \<Rightarrow> rat" where
  "top_share shares = (case map snd shares of [] \<Rightarrow> 0 | v # vs \<Rightarrow> max_list v vs)"

definition quantise :: "rat \<Rightarrow> rat \<Rightarrow> int" where
  "quantise tp value = max 1 (py_round (value / tp * of_int U16_MAX))"

lemma to_u16_eq:
  "to_u16 shares = (if top_share shares \<le> 0 then []
     else map (\<lambda>(u, v). (u, quantise (top_share shares) v)) (filter (\<lambda>(u, v). 0 < v) shares))"
  by (simp add: to_u16_def top_share_def quantise_def Let_def split: list.splits)

lemma top_share_ge: "(u, v) \<in> set shares \<Longrightarrow> v \<le> top_share shares"
proof -
  assume m: "(u, v) \<in> set shares"
  then obtain x xs where l: "map snd shares = x # xs" by (cases shares) auto
  have "v \<in> set (map snd shares)" using m by force
  then show ?thesis unfolding top_share_def l by (auto intro: max_list_ge)
qed

lemma top_share_in: "shares \<noteq> [] \<Longrightarrow> \<exists>u. (u, top_share shares) \<in> set shares"
proof -
  assume "shares \<noteq> []"
  then obtain x xs where l: "map snd shares = x # xs" by (cases shares) auto
  then have "top_share shares \<in> set (map snd shares)"
    using max_list_in [of x xs] by (simp add: top_share_def)
  then show ?thesis by force
qed

lemma quantise_range:
  assumes "0 < tp" "v \<le> tp"
  shows "1 \<le> quantise tp v \<and> quantise tp v \<le> U16_MAX"
proof -
  have "v / tp \<le> 1" using assms by (simp add: divide_le_eq)
  then have "v / tp * of_int U16_MAX \<le> 1 * of_int U16_MAX"
    by (rule mult_right_mono) (simp add: U16_MAX_def)
  then have "v / tp * of_int U16_MAX \<le> of_int U16_MAX" by simp
  then have "py_round (v / tp * of_int U16_MAX) \<le> U16_MAX" by (rule py_round_le_int)
  then show ?thesis by (simp add: quantise_def U16_MAX_def)
qed

lemma quantise_mono: "0 < tp \<Longrightarrow> v \<le> w \<Longrightarrow> quantise tp v \<le> quantise tp w"
  unfolding quantise_def
  by (intro max.mono order_refl py_round_mono mult_right_mono divide_right_mono) (auto simp: U16_MAX_def)

lemma quantise_top: "0 < tp \<Longrightarrow> quantise tp tp = U16_MAX"
proof -
  assume "0 < tp"
  then have "tp / tp * of_int U16_MAX = of_int U16_MAX" by simp
  then show ?thesis unfolding quantise_def by (simp only: py_round_of_int) (simp add: U16_MAX_def)
qed

lemma quantise_error:
  assumes "0 < tp" "0 < v"
  shows "\<bar>of_int (quantise tp v) - v / tp * of_int U16_MAX\<bar> \<le> 1"
proof -
  let ?x = "v / tp * of_int U16_MAX"
  have c: "\<bar>of_int (py_round ?x) - ?x\<bar> \<le> 1 / 2" by (rule py_round_close)
  have p: "0 < ?x" using assms by (simp add: U16_MAX_def)
  show ?thesis
  proof (cases "1 \<le> py_round ?x")
    case True
    then show ?thesis using c by (simp add: quantise_def max_def)
  next
    case False
    then have "of_int (py_round ?x) \<le> (0 :: rat)" by simp
    then have "?x \<le> 1" using c by linarith
    then show ?thesis using False p by (simp add: quantise_def)
  qed
qed

lemma to_u16_range: "(u, w) \<in> set (to_u16 shares) \<Longrightarrow> 1 \<le> w \<and> w \<le> U16_MAX"
  by (auto simp: to_u16_eq split: if_splits dest: top_share_ge intro!: quantise_range [THEN conjunct1]
      quantise_range [THEN conjunct2])

lemma to_u16_keys: "map fst (to_u16 shares) = (if top_share shares \<le> 0 then [] else map fst (filter (\<lambda>(u, v). 0 < v) shares))"
  by (simp add: to_u16_eq case_prod_beta comp_def)

lemma to_u16_wf: "wf_dict shares \<Longrightarrow> wf_dict (to_u16 shares)"
  unfolding wf_dict_def to_u16_keys by (simp add: distinct_map_filter)

section \<open>The eligibility floor\<close>

lemma sum_update_old:
  "map_of d k = Some w \<Longrightarrow> sum_list (map snd (AList.update k v d)) = sum_list (map snd d) - w + (v :: int)"
  by (induction d) (auto split: if_splits)

lemma sum_update_new:
  "map_of d k = None \<Longrightarrow> sum_list (map snd (AList.update k v d)) = sum_list (map snd d) + (v :: int)"
  by (induction d) (auto split: if_splits)

text \<open>The state of the loop: the donor is in the map and the missing uids are not.\<close>

definition floor_pre :: "int \<Rightarrow> int list \<Rightarrow> (int \<times> int) list \<Rightarrow> bool" where
  "floor_pre donor missing u16 \<longleftrightarrow>
     dhas u16 donor \<and> donor \<notin> set missing \<and> distinct missing \<and> (\<forall>u \<in> set missing. \<not> dhas u16 u)"

lemma floor_pre_step:
  "floor_pre donor (uid # missing) u16 \<Longrightarrow>
   floor_pre donor missing (AList.update uid 1 (AList.update donor x u16))"
  by (auto simp: floor_pre_def)

lemma floor_pre_donor: "floor_pre donor m u16 \<Longrightarrow> map_of u16 donor = Some (dget u16 donor 0)"
  by (auto simp: floor_pre_def dhas_def dget_def)

lemma floor_loop_step:
  "1 < dget u16 donor 0 \<Longrightarrow>
   floor_loop donor (uid # missing) u16 =
     (let r = floor_loop donor missing (AList.update uid 1 (AList.update donor (dget u16 donor 0 - 1) u16))
      in (fst r, uid # snd r))"
  by (simp add: Let_def case_prod_beta)

lemma floor_loop_stop: "dget u16 donor 0 \<le> 1 \<Longrightarrow> floor_loop donor missing u16 = (u16, [])"
  by (cases missing) simp_all

lemmas floor_loop_facts = floor_loop_step floor_loop_stop

lemma floor_loop_sum:
  "floor_pre donor missing u16 \<Longrightarrow>
   sum_list (map snd (fst (floor_loop donor missing u16))) = sum_list (map snd u16)"
proof (induction missing arbitrary: u16)
  case (Cons uid missing)
  show ?case
  proof (cases "dget u16 donor 0 \<le> 1")
    case True
    then show ?thesis by (simp only: floor_loop_stop fst_conv)
  next
    case False
    let ?u1 = "AList.update donor (dget u16 donor 0 - 1) u16"
    have "map_of ?u1 uid = None"
      using Cons.prems by (auto simp: floor_pre_def dhas_def update_conv')
    then have "sum_list (map snd (AList.update uid 1 ?u1)) = sum_list (map snd u16)"
      by (simp add: sum_update_new sum_update_old [OF floor_pre_donor [OF Cons.prems]])
    then show ?thesis
      using False Cons.IH [OF floor_pre_step [OF Cons.prems]]
      by (simp add: floor_loop_step Let_def del: floor_loop.simps)
  qed
qed simp

lemma floor_loop_floored:
  "floor_pre donor missing u16 \<Longrightarrow> snd (floor_loop donor missing u16) = take (nat (dget u16 donor 0 - 1)) missing"
proof (induction missing arbitrary: u16)
  case (Cons uid missing)
  show ?case
  proof (cases "dget u16 donor 0 \<le> 1")
    case True
    then show ?thesis by (simp add: floor_loop_stop del: floor_loop.simps)
  next
    case False
    let ?d = "dget u16 donor 0"
    have "dget (AList.update uid 1 (AList.update donor (?d - 1) u16)) donor 0 = ?d - 1"
      using Cons.prems by (auto simp: dget_update floor_pre_def)
    moreover have "nat (?d - 1) = Suc (nat (?d - 1 - 1))" using False by simp
    ultimately show ?thesis
      using False Cons.IH [OF floor_pre_step [OF Cons.prems, of "?d - 1"]]
      by (simp add: floor_loop_step Let_def del: floor_loop.simps)
  qed
qed simp

lemma floor_loop_map_of:
  "floor_pre donor missing u16 \<Longrightarrow>
   map_of (fst (floor_loop donor missing u16)) =
     (\<lambda>u. if u = donor then Some (dget u16 donor 0 - int (length (snd (floor_loop donor missing u16))))
          else if u \<in> set (snd (floor_loop donor missing u16)) then Some 1 else map_of u16 u)"
proof (induction missing arbitrary: u16)
  case Nil
  then show ?case by (auto simp: fun_eq_iff floor_pre_donor)
next
  case (Cons uid missing)
  show ?case
  proof (cases "dget u16 donor 0 \<le> 1")
    case True
    then show ?thesis using Cons.prems
      by (auto simp: fun_eq_iff floor_pre_donor floor_loop_stop simp del: floor_loop.simps)
  next
    case False
    let ?u = "AList.update uid 1 (AList.update donor (dget u16 donor 0 - 1) u16)"
    have ne: "uid \<noteq> donor" using Cons.prems by (auto simp: floor_pre_def)
    then have "dget ?u donor 0 = dget u16 donor 0 - 1" by (simp add: dget_update)
    then show ?thesis
      using False ne Cons.IH [OF floor_pre_step [OF Cons.prems, of "dget u16 donor 0 - 1"]]
      by (auto simp: fun_eq_iff floor_loop_step Let_def update_conv' simp del: floor_loop.simps)
  qed
qed

lemma floor_loop_wf: "wf_dict u16 \<Longrightarrow> wf_dict (fst (floor_loop donor missing u16))"
  by (induction missing arbitrary: u16) (auto simp: Let_def case_prod_beta)

lemma floor_pre_missing: "dhas u16 donor \<Longrightarrow> floor_pre donor (missing_uids u16 active (Some donor)) u16"
  by (auto simp: floor_pre_def missing_uids_def)

text \<open>The contract of the floor, for whoever assembles a vector: total weight, positivity and the
  16-bit bound are kept, keys stay unique, and what is added is added at weight one.\<close>

locale weight_redistribution =
  fixes redistribute :: "(int \<times> int) list \<Rightarrow> int list \<Rightarrow> int option \<Rightarrow> (int \<times> int) list \<times> int list"
  assumes total: "sum_list (map snd (fst (redistribute u16 active donor))) = sum_list (map snd u16)"
    and wf: "wf_dict u16 \<Longrightarrow> wf_dict (fst (redistribute u16 active donor))"
    and range: "wf_dict u16 \<Longrightarrow> (\<And>u w. (u, w) \<in> set u16 \<Longrightarrow> 1 \<le> w \<and> w \<le> U16_MAX) \<Longrightarrow>
      (u, w) \<in> set (fst (redistribute u16 active donor)) \<Longrightarrow> 1 \<le> w \<and> w \<le> U16_MAX"
    and keys: "set (dkeys (fst (redistribute u16 active donor))) =
      set (dkeys u16) \<union> set (snd (redistribute u16 active donor))"
    and floored: "set (snd (redistribute u16 active donor)) \<subseteq> set active - set (dkeys u16)"
begin

text \<open>A vector quantised from shares and then redistributed.\<close>

lemma vector_range:
  assumes "wf_dict shares" "(u, w) \<in> set (fst (redistribute (to_u16 shares) active donor))"
  shows "1 \<le> w \<and> w \<le> U16_MAX"
  using range [OF to_u16_wf [OF assms(1)] to_u16_range assms(2)] by simp

lemma keeps_weighted: "u \<in> set (dkeys u16) \<Longrightarrow> u \<in> set (dkeys (fst (redistribute u16 active donor)))"
  by (simp add: keys)

end

lemma eligibility_floor_cases:
  obtains "eligibility_floor u16 active donor = (u16, [])"
  | d where "donor = Some d" "dhas u16 d"
      "eligibility_floor u16 active donor = floor_loop d (missing_uids u16 active (Some d)) u16"
proof (cases donor)
  case None
  then show ?thesis using that(1) by (simp add: eligibility_floor_def)
next
  case (Some d)
  show ?thesis
  proof (cases "missing_uids u16 active (Some d) = [] \<or> \<not> dhas u16 d")
    case True
    then show ?thesis using that(1) Some by (simp add: eligibility_floor_def)
  next
    case False
    then show ?thesis using that(2) Some by (simp add: eligibility_floor_def)
  qed
qed

lemma floor_loop_range:
  assumes "floor_pre d m u16" "wf_dict u16" "\<And>u w. (u, w) \<in> set u16 \<Longrightarrow> 1 \<le> w \<and> w \<le> U16_MAX"
    and "(u, w) \<in> set (fst (floor_loop d m u16))"
  shows "1 \<le> w \<and> w \<le> U16_MAX"
proof -
  let ?f = "snd (floor_loop d m u16)"
  have uw: "map_of (fst (floor_loop d m u16)) u = Some w"
    using wf_dict_map_of [OF floor_loop_wf [OF assms(2)]] assms(4) by (rule iffD1)
  have dd: "1 \<le> dget u16 d 0" "dget u16 d 0 \<le> U16_MAX"
    using assms(3) [OF map_of_SomeD [OF floor_pre_donor [OF assms(1)]]] by auto
  have len: "int (length ?f) \<le> dget u16 d 0 - 1"
    using dd by (simp add: floor_loop_floored [OF assms(1)])
  show ?thesis
    using uw dd len assms(3) [OF map_of_SomeD, of u w]
    by (auto simp: floor_loop_map_of [OF assms(1)] U16_MAX_def split: if_splits)
qed

lemma floor_loop_keys:
  assumes "floor_pre d m u16"
  shows "set (dkeys (fst (floor_loop d m u16))) = set (dkeys u16) \<union> set (snd (floor_loop d m u16))"
proof -
  have "u \<in> set (dkeys (fst (floor_loop d m u16))) \<longleftrightarrow>
      u \<in> set (dkeys u16) \<union> set (snd (floor_loop d m u16))" for u
    using assms floor_loop_map_of [OF assms] unfolding Un_iff dhas_iff [symmetric] dhas_def
    by (auto simp: floor_pre_def dhas_def)
  then show ?thesis by blast
qed

interpretation floor: weight_redistribution eligibility_floor
proof
  fix u16 :: "(int \<times> int) list" and active donor u w
  show "sum_list (map snd (fst (eligibility_floor u16 active donor))) = sum_list (map snd u16)"
    by (rule eligibility_floor_cases [of u16 active donor])
      (simp_all add: floor_loop_sum floor_pre_missing)
  show "wf_dict (fst (eligibility_floor u16 active donor))" if "wf_dict u16"
    using that by (cases rule: eligibility_floor_cases [of u16 active donor]) (simp_all add: floor_loop_wf)
  show "1 \<le> w \<and> w \<le> U16_MAX" if "wf_dict u16" "\<And>u w. (u, w) \<in> set u16 \<Longrightarrow> 1 \<le> w \<and> w \<le> U16_MAX"
    "(u, w) \<in> set (fst (eligibility_floor u16 active donor))"
  proof (cases rule: eligibility_floor_cases [of u16 active donor])
    case 1
    then show ?thesis using that(2,3) by simp
  next
    case (2 d)
    show ?thesis
      by (rule floor_loop_range [OF floor_pre_missing [OF 2(2)] that(1,2)]) (use that(3) 2(3) in auto)
  qed
  show "set (dkeys (fst (eligibility_floor u16 active donor))) =
      set (dkeys u16) \<union> set (snd (eligibility_floor u16 active donor))"
    by (cases rule: eligibility_floor_cases [of u16 active donor])
      (simp_all add: floor_loop_keys floor_pre_missing)
  show "set (snd (eligibility_floor u16 active donor)) \<subseteq> set active - set (dkeys u16)"
  proof (cases rule: eligibility_floor_cases [of u16 active donor])
    case (2 d)
    have "set (snd (eligibility_floor u16 active donor)) \<subseteq> set (missing_uids u16 active (Some d))"
      using 2 by (auto simp: floor_loop_floored [OF floor_pre_missing] dest: in_set_takeD)
    then show ?thesis by (auto simp: missing_uids_def dhas_iff)
  qed simp
qed

section \<open>The vector\<close>

lemma build_unfold:
  "build scores active reserve held =
     (let r = eligibility_floor (to_u16 (with_reserve (normalise scores) reserve held)) active reserve
      in \<lparr>wv_uids = map fst (sort_key fst (fst r)), wv_weights = map snd (sort_key fst (fst r)),
          wv_floored = snd r, wv_reserve_uid = reserve\<rparr>)"
  by (simp add: build_def Let_def case_prod_beta)

lemma sort_key_fst_strict: "wf_dict d \<Longrightarrow> sorted_wrt (<) (map fst (sort_key fst (d :: (int \<times> int) list)))"
proof -
  assume "wf_dict d"
  then have "distinct (map fst (sort_key fst d))"
    unfolding wf_dict_def distinct_map by (simp add: inj_on_def)
  then show ?thesis by (simp add: strict_sorted_iff)
qed

text \<open>C2: The assembled weight vector is what the chain accepts: one weight per uid, uids strictly
  increasing, every weight between 1 and 65535, and every uid floored in is an active one.\<close>

theorem build_well_formed:
  assumes "wf_dict scores"
  shows "length (wv_weights (build scores active reserve held)) = length (wv_uids (build scores active reserve held)) \<and>
    sorted_wrt (<) (wv_uids (build scores active reserve held)) \<and>
    (\<forall>w \<in> set (wv_weights (build scores active reserve held)). 1 \<le> w \<and> w \<le> 65535) \<and>
    set (wv_floored (build scores active reserve held)) \<subseteq> set active \<inter> set (wv_uids (build scores active reserve held))"
proof -
  let ?sh = "with_reserve (normalise scores) reserve held"
  let ?r = "eligibility_floor (to_u16 ?sh) active reserve"
  have wf: "wf_dict ?sh" using assms by (intro with_reserve_wf normalise_wf)
  have "1 \<le> w \<and> w \<le> U16_MAX" if "(u, w) \<in> set (fst ?r)" for u w
    using floor.vector_range [OF wf that] .
  moreover have "set (snd ?r) \<subseteq> set active \<inter> set (dkeys (fst ?r))"
    using floor.floored [of "to_u16 ?sh" active reserve] floor.keys [of "to_u16 ?sh" active reserve] by blast
  moreover have "wf_dict (fst ?r)" using wf by (intro floor.wf to_u16_wf)
  ultimately show ?thesis
    by (auto simp: build_unfold Let_def sort_key_fst_strict U16_MAX_def dkeys_def)
qed

theorem build_well_formed_witness:
  "wf_dict [(3 :: int, 1 :: rat), (7, 2)] \<and>
   sorted_wrt (<) (wv_uids (build [(3, 1), (7, 2)] [9, 7] (Some 0) HELD_SHARE))"
proof -
  have h: "wf_dict [(3 :: int, 1 :: rat), (7, 2)]" by (simp add: wf_dict_def)
  show ?thesis using h build_well_formed [OF h, of "[9, 7]" "Some 0" HELD_SHARE] by blast
qed

text \<open>The held share goes to the reserve and the rest by score: with a reserve that is not
  itself scored, the reserve's share is exactly forty percent, every scored uid gets sixty percent
  of its proportional share, and the shares add up to one.\<close>

theorem reserve_gets_held_share:
  assumes pos: "0 < positive_total scores" and free: "r \<notin> fst ` set scores"
  shows "map_of (with_reserve (normalise scores) (Some r) HELD_SHARE) r = Some (40 / 100) \<and>
    with_reserve (normalise scores) (Some r) HELD_SHARE =
      map (\<lambda>(u, v). (u, 60 / 100 * (v / positive_total scores))) (filter (\<lambda>(u, v). 0 < v) scores)
      @ [(r, 40 / 100)] \<and>
    sum_list (map snd (with_reserve (normalise scores) (Some r) HELD_SHARE)) = 1"
proof -
  have h: "0 < HELD_SHARE" "min HELD_SHARE 1 = 40 / 100" by (simp_all add: HELD_SHARE_def)
  have "filter (\<lambda>(u, v). u \<noteq> r) (normalise scores) = normalise scores"
    using free pos by (intro filter_True) (force simp: normalise_eq)
  then show ?thesis
    using with_reserve_share [OF h(1), of "normalise scores" r]
      with_reserve_eq [OF h(1), of "normalise scores" r]
      with_reserve_sum [OF h(1), of "normalise scores" r] normalise_sum [OF pos] pos
    by (simp add: h normalise_eq comp_def case_prod_beta algebra_simps)
qed

theorem reserve_gets_held_share_witness:
  "0 < positive_total [(3 :: int, 1), (7, 2)] \<and> (0 :: int) \<notin> fst ` set [(3 :: int, 1 :: rat), (7, 2)] \<and>
   sum_list (map snd (with_reserve (normalise [(3, 1), (7, 2)]) (Some 0) HELD_SHARE)) = 1"
proof -
  have h: "0 < positive_total [(3 :: int, 1), (7, 2)]" "(0 :: int) \<notin> fst ` set [(3 :: int, 1 :: rat), (7, 2)]"
    by (simp_all add: positive_total_def)
  show ?thesis using h reserve_gets_held_share [OF h] by blast
qed

text \<open>When the reserve is itself a scored uid, its own share is dropped and not added to the
  held share: the vector then sums to one minus sixty percent of that share.\<close>

theorem reserve_own_share_dropped:
  assumes "wf_dict scores" and "map_of (normalise scores) r = Some s"
  shows "map_of (with_reserve (normalise scores) (Some r) HELD_SHARE) r = Some (40 / 100) \<and>
    sum_list (map snd (with_reserve (normalise scores) (Some r) HELD_SHARE)) = 1 - 60 / 100 * s"
proof -
  have h: "0 < HELD_SHARE" "min HELD_SHARE 1 = 40 / 100" by (simp_all add: HELD_SHARE_def)
  have part: "sum_list (map snd (filter (\<lambda>(u, v). u \<noteq> r) xs)) = sum_list (map snd xs) - x"
    if "wf_dict xs" "map_of xs r = Some x" for xs :: "(int \<times> rat) list" and x
    using that
  proof (induction xs)
    case (Cons y ys)
    obtain u v where y: "y = (u, v)" by (cases y)
    have "filter (\<lambda>(u, v). u \<noteq> r) ys = ys" if "u = r"
      using that Cons.prems(1) y by (intro filter_True) (force simp: wf_dict_def)
    then show ?case using Cons y by (auto simp: wf_dict_def split: if_splits)
  qed simp
  have ne: "normalise scores \<noteq> []" using assms(2) by auto
  then have "0 < positive_total scores" by (auto simp: normalise_eq not_le split: if_splits)
  then have "sum_list (map snd (normalise scores)) = 1" by (rule normalise_sum)
  then show ?thesis
    using part [OF normalise_wf [OF assms(1)] assms(2)] with_reserve_share [OF h(1), of "normalise scores" r]
      with_reserve_sum [OF h(1), of "normalise scores" r]
    by (simp add: h algebra_simps)
qed

theorem reserve_own_share_dropped_witness:
  "wf_dict [(0 :: int, 1 :: rat), (7, 1)] \<and> map_of (normalise [(0, 1), (7, 1)]) 0 = Some (1 / 2) \<and>
   sum_list (map snd (with_reserve (normalise [(0, 1), (7, 1)]) (Some 0) HELD_SHARE)) = 1 - 60 / 100 * (1 / 2)"
proof -
  have h: "wf_dict [(0 :: int, 1 :: rat), (7, 1)]" "map_of (normalise [(0, 1), (7, 1)]) 0 = Some (1 / 2)"
    by (simp_all add: wf_dict_def normalise_def)
  show ?thesis using h reserve_own_share_dropped [OF h] by blast
qed

text \<open>The eligibility floor moves weight and never creates it: the total is unchanged, the donor
  keeps at least one, the uids brought in are, in order, as many of the missing active ones as the
  donor can pay for, each at weight one, and every other weight is untouched.\<close>

theorem eligibility_floor_conserves:
  fixes active :: "int list"
  assumes "wf_dict u16" and "map_of u16 donor = Some d" and "1 \<le> d"
  defines "n \<equiv> min (nat (d - 1)) (length (missing_uids u16 active (Some donor)))"
  shows "sum_list (map snd (fst (eligibility_floor u16 active (Some donor)))) = sum_list (map snd u16) \<and>
    snd (eligibility_floor u16 active (Some donor)) = take n (missing_uids u16 active (Some donor)) \<and>
    map_of (fst (eligibility_floor u16 active (Some donor))) =
      (\<lambda>u. if u = donor then Some (d - int n)
           else if u \<in> set (take n (missing_uids u16 active (Some donor))) then Some 1 else map_of u16 u) \<and>
    1 \<le> d - int n"
proof -
  let ?m = "missing_uids u16 active (Some donor)"
  have has: "dhas u16 donor" and dg: "dget u16 donor 0 = d"
    using assms(2) by (simp_all add: dhas_def dget_def)
  note pre = floor_pre_missing [OF has, of active]
  have fl: "eligibility_floor u16 active (Some donor) = floor_loop donor ?m u16"
    using has by (cases "?m = []") (simp_all add: eligibility_floor_def)
  have tk: "take (nat (d - 1)) ?m = take n ?m" unfolding n_def by (simp add: min_def)
  have ln: "length (take n ?m) = n" unfolding n_def by simp
  have sn: "snd (floor_loop donor ?m u16) = take n ?m"
    unfolding floor_loop_floored [OF pre] dg tk by (rule refl)
  have "n \<le> nat (d - 1)" unfolding n_def by simp
  then have "1 \<le> d - int n" using assms(3) by linarith
  then show ?thesis
    unfolding fl floor_loop_sum [OF pre] floor_loop_map_of [OF pre] sn dg ln by blast
qed

theorem eligibility_floor_conserves_witness:
  "wf_dict [(0 :: int, 3), (7 :: int, 5 :: int)] \<and>
   sum_list (map snd (fst (eligibility_floor [(0, 3), (7, 5)] [9, 8, 4] (Some 0)))) = 8"
proof -
  have h: "wf_dict [(0 :: int, 3), (7 :: int, 5 :: int)]" "map_of [(0 :: int, 3), (7, 5)] 0 = Some (3 :: int)"
    "(1 :: int) \<le> 3"
    by (simp_all add: wf_dict_def)
  show ?thesis using h(1) eligibility_floor_conserves [OF h, of "[9, 8, 4]"] by simp
qed

section \<open>Scores from the roster\<close>

lemma verified_rigs_skip:
  assumes "verified_cards rig = Inr None"
  shows "verified_rigs (xs @ rig # ys) = verified_rigs (xs @ ys)"
  unfolding verified_rigs_def by (rule rfold_skip) (simp add: assms)

text \<open>A rig that is not in a verified state, or whose last pass did not pass, has no influence on
  anyone's score: removing it from the roster leaves the scores, and so every other rig's capacity
  share, as they are.\<close>

theorem unverified_rig_no_influence:
  assumes "str_field rig ''state'' \<notin> set VERIFIED_STATES \<or>
    attr_get (py_or (dget rig ''last_pass'' PNone) (PDict [])) ''passed'' (PBool False) = Inr (PBool False)"
  shows "local_scores parse_iso demand ledger min_driver cutoff now (xs @ rig # ys) =
    local_scores parse_iso demand ledger min_driver cutoff now (xs @ ys)"
proof -
  have "verified_cards rig = Inr None" using assms by (auto simp: verified_cards_def)
  then show ?thesis unfolding local_scores_def by (simp add: verified_rigs_skip)
qed

theorem unverified_rig_no_influence_witness:
  "str_field [(''state'', PStr ''removed'')] ''state'' \<notin> set VERIFIED_STATES \<and>
   local_scores (\<lambda>_. None) None None [] False 0 ([] @ [(''state'', PStr ''removed'')] # []) =
     local_scores (\<lambda>_. None) None None [] False 0 ([] @ [])"
proof -
  have h: "str_field [(''state'', PStr ''removed'')] ''state'' \<notin> set VERIFIED_STATES"
    by (simp add: str_field_def VERIFIED_STATES_def)
  show ?thesis
    using h unverified_rig_no_influence [OF disjI1 [OF h], of "\<lambda>_. None" None None "[]" False 0 "[]" "[]"]
    by blast
qed

lemma local_scores_nonneg:
  assumes "local_scores parse_iso demand ledger min_driver cutoff now roster = Inr totals"
    and "map_of totals k = Some x"
  shows "0 \<le> x"
proof -
  let ?P = "\<lambda>t :: (string \<times> rat) list. \<forall>k x. map_of t k = Some x \<longrightarrow> 0 \<le> x"
  obtain verified where v: "rfold (add_rig_score (rig_inputs parse_iso demand ledger min_driver cutoff now
      (fleet_size verified))) verified [] = Inr totals"
    using assms(1) by (auto simp: local_scores_def result_simps)
  have "?P totals"
  proof (rule rfold_invariant [OF v])
    show "?P []" by simp
    show "?P u" if "?P t" "add_rig_score (rig_inputs parse_iso demand ledger min_driver cutoff now
        (fleet_size verified)) rc t = Inr u" for rc t u
      using that score_nonneg
      by (auto simp: add_rig_score_def Let_def result_simps update_conv' dget_def add_nonneg_nonneg
          split: prod.splits if_splits option.splits)
  qed
  then show ?thesis using assms(2) by blast
qed

text \<open>An extrinsic leaves the validator exactly when the vector is not empty and it is not a dry
  run; it then carries that vector and the mechanism's call.\<close>

theorem submit_extrinsic:
  "snd (submit uid_of chain_version receipt netuid mech scores active reserve held dry_run) =
     (let v = fst (vector uid_of scores active reserve held) in
      if dry_run \<or> wv_uids v = [] then None
      else Some \<lparr>x_function = (if mech = None then ''set_weights'' else ''set_mechanism_weights''),
                 x_netuid = netuid, x_dests = wv_uids v, x_weights = wv_weights v,
                 x_version_key = chain_version, x_mecid = mech\<rparr>) \<and>
   (map_of (fst (submit uid_of chain_version receipt netuid mech scores active reserve held dry_run)) ''submitted''
      = Some (PBool (snd (submit uid_of chain_version receipt netuid mech scores active reserve held dry_run) \<noteq> None)))"
  by (auto simp: submit_def Let_def case_prod_beta update_conv')

end
