(* ===== verification/Agent_Access.thy ===== *)
theory Agent_Access
  imports Protocol_Session
begin

text \<open>
  Nonces and keys on the agent (\<^verbatim>\<open>agent/access/nonce.py\<close>, \<^verbatim>\<open>agent/access/ssh_keys.py\<close>). Every method
  holds a lock for its whole effect, so each is one step. The key file is its text, \<open>None\<close> when it
  does not exist; a write to a file that is not writable raises \<^verbatim>\<open>OSError\<close>.
\<close>

section \<open>The nonce book\<close>

record NonceBook =
  nb_ttl :: rat
  nb_seen :: "(string \<times> rat) list"

definition nonce_well_formed :: "string \<Rightarrow> bool" where
  "nonce_well_formed nonce = NONCE_PATTERN nonce"

definition nonce_expire :: "rat \<Rightarrow> NonceBook \<Rightarrow> NonceBook \<times> nat" where
  "nonce_expire moment b =
     (b\<lparr>nb_seen := filter (\<lambda>(nonce, until). \<not> until \<le> moment) (nb_seen b)\<rparr>,
      length (filter (\<lambda>(nonce, until). until \<le> moment) (nb_seen b)))"

definition nonce_accept :: "string \<Rightarrow> rat \<Rightarrow> NonceBook \<Rightarrow> NonceBook \<times> bool" where
  "nonce_accept nonce moment b =
     (if \<not> nonce_well_formed nonce then (b, False)
      else (let b1 = fst (nonce_expire moment b) in
            if dhas (nb_seen b1) nonce then (b1, False)
            else (b1\<lparr>nb_seen := AList.update nonce (moment + nb_ttl b1) (nb_seen b1)\<rparr>, True)))"

definition nonce_len :: "NonceBook \<Rightarrow> nat" where
  "nonce_len b = length (nb_seen b)"

datatype nonce_event = Accept string rat | Expire rat

fun nonce_step :: "NonceBook \<Rightarrow> nonce_event \<Rightarrow> NonceBook" where
  "nonce_step b (Accept nonce now) = fst (nonce_accept nonce now b)"
| "nonce_step b (Expire now) = fst (nonce_expire now b)"

fun event_time :: "nonce_event \<Rightarrow> rat" where
  "event_time (Accept nonce now) = now"
| "event_time (Expire now) = now"

text \<open>The book holds well-formed nonces, each once.\<close>

definition nonce_inv :: "NonceBook \<Rightarrow> bool" where
  "nonce_inv b \<longleftrightarrow> wf_dict (nb_seen b) \<and> (\<forall>(n, u) \<in> set (nb_seen b). nonce_well_formed n)"

lemma nb_ttl_step [simp]: "nb_ttl (nonce_step b e) = nb_ttl b"
  by (cases e) (auto simp: nonce_accept_def nonce_expire_def Let_def)

lemma nonce_inv_expire: "nonce_inv b \<Longrightarrow> nonce_inv (fst (nonce_expire now b))"
  by (auto simp: nonce_inv_def nonce_expire_def)

lemma set_update_subset: "set (AList.update k v d) \<subseteq> insert (k, v) (set d)"
  by (induction d) auto

lemma nonce_inv_accept: "nonce_inv b \<Longrightarrow> nonce_inv (fst (nonce_accept nonce now b))"
  using nonce_inv_expire [of b now] set_update_subset
  by (fastforce simp: nonce_accept_def Let_def nonce_inv_def)

interpretation nonces: machine nonce_step nonce_inv
proof
  show "nonce_inv (nonce_step b e)" if "nonce_inv b" for b e
    using that by (cases e) (simp_all add: nonce_inv_accept nonce_inv_expire)
qed

text \<open>An entry stays until its time has passed.\<close>

lemma map_of_filter_keep:
  "map_of d k = Some v \<Longrightarrow> P (k, v) \<Longrightarrow> distinct (map fst d) \<Longrightarrow> map_of (filter P d) k = Some v"
  by (induction d) (auto split: if_splits dest: map_of_SomeD)

lemma nonce_step_keeps:
  assumes "nonce_inv b" "map_of (nb_seen b) n = Some u" "event_time e < u"
  shows "map_of (nb_seen (nonce_step b e)) n = Some u"
proof -
  have ex: "map_of (nb_seen (fst (nonce_expire now b))) n = Some u" if "now < u" for now
    unfolding nonce_expire_def using that assms(1,2)
    by (auto simp: nonce_inv_def wf_dict_def intro!: map_of_filter_keep)
  show ?thesis
  proof (cases e)
    case (Accept m now)
    show ?thesis
      using ex [of now] assms(2,3) Accept
      by (auto simp: nonce_accept_def Let_def update_conv' dhas_def)
  next
    case (Expire now)
    then show ?thesis using ex assms(3) by simp
  qed
qed

lemma nonce_run_keeps:
  assumes "nonce_inv b" "map_of (nb_seen b) n = Some u" "\<forall>e \<in> set es. event_time e < u"
  shows "map_of (nb_seen (run_events nonce_step b es)) n = Some u"
  using assms
proof (induction es arbitrary: b)
  case (Cons e es)
  then show ?case using nonce_step_keeps [of b n u e] nonces.step_inv [of b e] by simp
qed simp

lemma nonce_accept_True:
  assumes "snd (nonce_accept n t b)"
  shows "nonce_well_formed n \<and> map_of (nb_seen (fst (nonce_accept n t b))) n = Some (t + nb_ttl b)"
  using assms by (auto simp: nonce_accept_def nonce_expire_def Let_def update_conv' split: if_splits)

lemma nonce_accept_seen:
  assumes "nonce_inv b" "map_of (nb_seen b) n = Some u" "t < u"
  shows "\<not> snd (nonce_accept n t b)"
  using nonce_step_keeps [OF assms(1,2), of "Expire t"] assms(3)
  by (auto simp: nonce_accept_def Let_def dhas_def)

section \<open>Authorized keys\<close>

definition MARKER :: string where "MARKER = ''mt-session:''"

text \<open>The agent's pattern has no comment field.\<close>

definition PUBLIC_KEY :: "string \<Rightarrow> bool" where
  "PUBLIC_KEY s =
     list_ex (\<lambda>t. prefix (t @ '' '') s \<and>
       (case key_body_rest (drop (length t + 1) s) of None \<Rightarrow> False | Some r \<Rightarrow> at_dollar r)) KEY_TYPES"

definition canonical :: "string \<Rightarrow> string option" where
  "canonical public_key =
     (case split_ws (strip public_key) of
        p0 # p1 # _ \<Rightarrow>
          if p0 \<notin> set KEY_TYPES then None
          else (let candidate = p0 @ '' '' @ p1 in if PUBLIC_KEY candidate then Some candidate else None)
      | _ \<Rightarrow> None)"

record key_file =
  kf_text :: "string option"
  kf_writable :: bool

definition keys_read :: "key_file \<Rightarrow> string list" where
  "keys_read f = (case kf_text f of None \<Rightarrow> [] | Some t \<Rightarrow> splitlines t)"

definition keys_write :: "string list \<Rightarrow> key_file \<Rightarrow> key_file" where
  "keys_write ls f = f\<lparr>kf_text := Some (concat (map (\<lambda>l. l @ newline) ls))\<rparr>"

datatype key_error = BadKey | OSError

definition session_mark :: "string \<Rightarrow> string" where
  "session_mark session_id = MARKER @ session_id"

definition grant_line :: "string \<Rightarrow> string \<Rightarrow> string" where
  "grant_line key session_id = key @ '' '' @ session_mark session_id"

definition keys_grant :: "string \<Rightarrow> string \<Rightarrow> key_file \<Rightarrow> key_error + key_file \<times> string" where
  "keys_grant public_key session_id f =
     (case canonical public_key of
        None \<Rightarrow> Inl BadKey
      | Some key \<Rightarrow>
          (let line = grant_line key session_id;
               lines = filter (\<lambda>l. \<not> endswith l (session_mark session_id)) (keys_read f) @ [line]
           in if \<not> kf_writable f then Inl OSError else Inr (keys_write lines f, line)))"

definition keys_revoke :: "string \<Rightarrow> key_file \<Rightarrow> key_error + key_file \<times> bool" where
  "keys_revoke session_id f =
     (let lines = keys_read f;
          kept = filter (\<lambda>l. \<not> endswith l (session_mark session_id)) lines
      in if length kept = length lines then Inr (f, False)
         else if \<not> kf_writable f then Inl OSError else Inr (keys_write kept f, True))"

definition keys_revoke_all :: "key_file \<Rightarrow> key_error + key_file \<times> nat" where
  "keys_revoke_all f =
     (let lines = keys_read f;
          kept = filter (\<lambda>l. \<not> contains_str MARKER l) lines;
          removed = length lines - length kept
      in if removed = 0 then Inr (f, 0)
         else if \<not> kf_writable f then Inl OSError else Inr (keys_write kept f, removed))"

text \<open>The text after the last occurrence of a marker: \<^verbatim>\<open>line[line.rfind(m) + len(m):]\<close>.\<close>

fun after_last :: "string \<Rightarrow> string \<Rightarrow> string option" where
  "after_last m [] = (if m = [] then Some [] else None)"
| "after_last m (c # cs) =
     (case after_last m cs of
        Some r \<Rightarrow> Some r
      | None \<Rightarrow> if prefix m (c # cs) then Some (drop (length m) (c # cs)) else None)"

definition active_sessions :: "key_file \<Rightarrow> string list" where
  "active_sessions f = map strip (List.map_filter (after_last MARKER) (keys_read f))"

subsection \<open>Lines survive the file\<close>

definition one_line :: "string \<Rightarrow> bool" where
  "one_line l = list_all (\<lambda>c. \<not> is_linebreak c) l"

lemma splitlines_line: "one_line l \<Longrightarrow> splitlines (l @ newline @ rest) = l # splitlines rest"
proof (induction l)
  case Nil
  show ?case by (simp add: is_linebreak_def)
next
  case (Cons c l)
  have "c \<noteq> CHR 0x0D" using Cons.prems by (auto simp: one_line_def is_linebreak_def)
  then show ?case using Cons by (simp add: one_line_def)
qed

lemma splitlines_concat: "list_all one_line ls \<Longrightarrow> splitlines (concat (map (\<lambda>l. l @ newline) ls)) = ls"
  by (induction ls) (simp_all add: splitlines_line [simplified])

lemma splitlines_one_line: "l \<in> set (splitlines t) \<Longrightarrow> one_line l"
proof (induction t arbitrary: l rule: splitlines.induct)
  case (2 c cs)
  show ?case
  proof (cases "c = CHR 0x0D \<and> cs \<noteq> [] \<and> hd cs = CHR 0x0A")
    case True
    then show ?thesis using 2 by (auto simp: one_line_def)
  next
    case False
    then show ?thesis using 2
      by (auto simp: one_line_def split: if_splits list.splits)
  qed
qed simp

lemma keys_read_one_line: "list_all one_line (keys_read f)"
  by (auto simp: keys_read_def list_all_iff split: option.splits dest: splitlines_one_line)

lemma keys_read_write: "list_all one_line ls \<Longrightarrow> keys_read (keys_write ls f) = ls"
  by (simp add: keys_read_def keys_write_def splitlines_concat)


lemma linebreak_is_space: "is_linebreak c \<Longrightarrow> is_space c"
  by (auto simp: is_linebreak_def is_space_def Let_def)

lemma split_ws_no_space: "p \<in> set (split_ws s) \<Longrightarrow> c \<in> set p \<Longrightarrow> \<not> is_space c"
proof (induction s arbitrary: p rule: split_ws.induct)
  case (1 s)
  show ?case
  proof (cases "dropWhile is_space s")
    case Nil
    have "split_ws s = []" by (subst split_ws.simps) (simp only: Nil list.case)
    then show ?thesis using "1.prems" by simp
  next
    case (Cons a as)
    then show ?thesis using "1.prems" "1.IH" [OF Cons]
      by (auto simp: split_ws.simps [of s] dest: set_takeWhileD)
  qed
qed

lemma one_line_append [simp]: "one_line (a @ b) \<longleftrightarrow> one_line a \<and> one_line b"
  by (simp add: one_line_def)

lemma canonical_one_line: "canonical k = Some key \<Longrightarrow> one_line key"
proof -
  assume "canonical k = Some key"
  then obtain p0 p1 ps where sp: "split_ws (strip k) = p0 # p1 # ps" and key: "key = p0 @ '' '' @ p1"
    by (auto simp: canonical_def Let_def split: list.splits if_splits)
  have "one_line p" if "p \<in> {p0, p1}" for p
    using split_ws_no_space [of p "strip k"] that sp linebreak_is_space
    by (auto simp: one_line_def list_all_iff)
  then show ?thesis by (simp add: key one_line_def is_linebreak_def)
qed

lemma split_ws_word:
  assumes "w \<noteq> []" "\<And>c. c \<in> set w \<Longrightarrow> \<not> is_space c" "rest = [] \<or> is_space (hd rest)"
  shows "split_ws (w @ rest) = w # split_ws rest"
proof -
  obtain c cs where w: "w = c # cs" using assms(1) by (cases w) auto
  have c: "\<not> is_space c" and tw: "takeWhile (\<lambda>x. \<not> is_space x) (w @ rest) = w"
    and dw: "dropWhile (\<lambda>x. \<not> is_space x) (w @ rest) = rest"
    using assms w by (cases rest; auto simp: takeWhile_append dropWhile_append)+
  have "dropWhile is_space (w @ rest) = c # cs @ rest" using c w by simp
  then show ?thesis using tw dw w by (subst split_ws.simps) simp
qed

lemma split_ws_Nil: "split_ws [] = []"
  by (subst split_ws.simps) simp

lemma split_ws_ne: "p \<in> set (split_ws s) \<Longrightarrow> p \<noteq> []"
proof (induction s arbitrary: p rule: split_ws.induct)
  case (1 s)
  show ?case
  proof (cases "dropWhile is_space s")
    case Nil
    have "split_ws s = []" by (subst split_ws.simps) (simp only: Nil list.case)
    then show ?thesis using "1.prems" by simp
  next
    case (Cons a as)
    then have "\<not> is_space a" using hd_dropWhile [of is_space s] by auto
    then show ?thesis using "1.prems" "1.IH" [OF Cons] Cons
      by (auto simp: split_ws.simps [of s])
  qed
qed

lemma canonical_idem:
  assumes "canonical k = Some key"
  shows "canonical key = Some key"
proof -
  obtain p0 p1 ps where sp: "split_ws (strip k) = p0 # p1 # ps" and key: "key = p0 @ '' '' @ p1"
    and kt: "p0 \<in> set KEY_TYPES" "PUBLIC_KEY key"
    using assms by (auto simp: canonical_def Let_def split: list.splits if_splits)
  have ns: "\<not> is_space c" if "c \<in> set p0 \<union> set p1" for c
    using that split_ws_no_space [of p0 "strip k"] split_ws_no_space [of p1 "strip k"] sp by auto
  have ne: "p0 \<noteq> []" "p1 \<noteq> []" using split_ws_ne [of _ "strip k"] sp by auto
  have "strip key = key"
    using ns ne by (intro strip_unchanged) (auto simp: key)
  moreover have "split_ws key = [p0, p1]"
  proof -
    have "split_ws key = p0 # split_ws ('' '' @ p1)"
      unfolding key using ne ns by (intro split_ws_word) (auto simp: is_space_def)
    also have "split_ws ('' '' @ p1) = split_ws p1"
    proof -
      have "dropWhile is_space ('' '' @ p1) = dropWhile is_space p1" by (simp add: is_space_def)
      then show ?thesis by (simp only: split_ws.simps [of "'' '' @ p1"] split_ws.simps [of p1])
    qed
    also have "split_ws p1 = [p1]" using split_ws_word [of p1 "[]"] ne ns by (simp add: split_ws_Nil)
    finally show ?thesis .
  qed
  ultimately show ?thesis using kt key by (simp add: canonical_def)
qed

section \<open>The key store as its clients see it\<close>

text \<open>The lines of a session, and the session identifiers the agent uses (the first sixteen
  characters of a nonce). All have the same length, so no mark is a suffix of another.\<close>

definition lines_of :: "string \<Rightarrow> key_file \<Rightarrow> string list" where
  "lines_of session_id f = filter (\<lambda>l. endswith l (session_mark session_id)) (keys_read f)"

definition session_id_ok :: "string \<Rightarrow> bool" where
  "session_id_ok sid = (length sid = 16 \<and> list_all is_lower_hex sid)"

locale key_store =
  fixes grant :: "string \<Rightarrow> string \<Rightarrow> 'f \<Rightarrow> key_error + 'f \<times> string"
    and revoke :: "string \<Rightarrow> 'f \<Rightarrow> key_error + 'f \<times> bool"
    and lines :: "string \<Rightarrow> 'f \<Rightarrow> string list"
    and ok :: "string \<Rightarrow> bool"
  assumes grant_lines: "ok sid \<Longrightarrow> grant k sid f = Inr (g, line) \<Longrightarrow> lines sid g = [line]"
    and grant_other: "ok sid \<Longrightarrow> ok sid' \<Longrightarrow> sid' \<noteq> sid \<Longrightarrow> grant k sid f = Inr (g, line) \<Longrightarrow>
      lines sid' g = lines sid' f"
    and revoke_lines: "revoke sid f = Inr (g, r) \<Longrightarrow> lines sid g = [] \<and> (r \<longleftrightarrow> lines sid f \<noteq> [])"
    and revoke_other: "ok sid \<Longrightarrow> ok sid' \<Longrightarrow> sid' \<noteq> sid \<Longrightarrow> revoke sid f = Inr (g, r) \<Longrightarrow>
      lines sid' g = lines sid' f"
begin

lemma revoke_undoes_grant:
  assumes "ok sid" "grant k sid f = Inr (g, line)" "revoke sid g = Inr (h, r)"
  shows "r \<and> lines sid h = [] \<and> (\<forall>sid'. ok sid' \<and> sid' \<noteq> sid \<longrightarrow> lines sid' h = lines sid' f)"
  using grant_lines [OF assms(1,2)] revoke_lines [OF assms(3)]
    grant_other [OF assms(1) _ _ assms(2)] revoke_other [OF assms(1) _ _ assms(3)]
  by auto

lemma revoke_idem: "revoke sid f = Inr (g, r) \<Longrightarrow> revoke sid g = Inr (h, r') \<Longrightarrow> \<not> r'"
  using revoke_lines by blast

end

lemma suffix_same_length: "suffix a l \<Longrightarrow> suffix b l \<Longrightarrow> length a = length b \<Longrightarrow> a = b"
  by (auto simp: suffix_def)

lemma session_id_mark:
  assumes "session_id_ok sid" "session_id_ok sid'" "suffix (session_mark sid) l"
  shows "suffix (session_mark sid') l \<longleftrightarrow> sid' = sid"
  using assms suffix_same_length [of "session_mark sid" l "session_mark sid'"]
  by (auto simp: session_id_ok_def session_mark_def)

lemma session_id_one_line: "session_id_ok sid \<Longrightarrow> one_line sid"
  by (auto simp: session_id_ok_def one_line_def list_all_iff is_lower_hex_def is_linebreak_def Let_def)

lemma grant_line_one_line:
  assumes "canonical k = Some key" "one_line sid"
  shows "one_line (grant_line key sid)"
  using assms canonical_one_line
  by (simp add: grant_line_def session_mark_def MARKER_def) (simp add: one_line_def is_linebreak_def)

lemma keys_grant_read:
  assumes "one_line sid" "keys_grant k sid f = Inr (g, line)"
  shows "\<exists>key. canonical k = Some key \<and> line = grant_line key sid \<and> kf_writable g = kf_writable f \<and>
    keys_read g = filter (\<lambda>l. \<not> endswith l (session_mark sid)) (keys_read f) @ [line]"
proof -
  obtain key where key: "canonical k = Some key" "line = grant_line key sid"
    and g: "g = keys_write (filter (\<lambda>l. \<not> endswith l (session_mark sid)) (keys_read f) @ [line]) f"
    using assms(2) by (auto simp: keys_grant_def Let_def split: option.splits if_splits)
  have "keys_read g = filter (\<lambda>l. \<not> endswith l (session_mark sid)) (keys_read f) @ [line]"
    unfolding g using keys_read_one_line [of f] grant_line_one_line [OF key(1) assms(1)] key(2)
    by (intro keys_read_write) (auto simp: list_all_iff)
  then show ?thesis using key g by (auto simp: keys_write_def)
qed

lemma keys_revoke_read:
  assumes "keys_revoke sid f = Inr (g, r)"
  shows "keys_read g = filter (\<lambda>l. \<not> endswith l (session_mark sid)) (keys_read f)
    \<and> kf_writable g = kf_writable f \<and> (r \<longleftrightarrow> (\<exists>l \<in> set (keys_read f). endswith l (session_mark sid)))"
proof -
  let ?kept = "filter (\<lambda>l. \<not> endswith l (session_mark sid)) (keys_read f)"
  have same: "length ?kept = length (keys_read f) \<longleftrightarrow> ?kept = keys_read f"
    by (metis filter_id_conv length_filter_less not_less_iff_gr_or_eq)
  have rd: "keys_read (keys_write ?kept f) = ?kept"
    using keys_read_one_line [of f] by (intro keys_read_write) (auto simp: list_all_iff)
  show ?thesis
  proof (cases "length ?kept = length (keys_read f)")
    case True
    then show ?thesis using assms same by (auto simp: keys_revoke_def Let_def filter_id_conv)
  next
    case False
    then have "g = keys_write ?kept f" "r" "\<exists>l \<in> set (keys_read f). endswith l (session_mark sid)"
      using assms same by (auto simp: keys_revoke_def Let_def filter_id_conv split: if_splits)
    then show ?thesis using rd by (auto simp: keys_write_def)
  qed
qed

lemma endswith_grant_line [simp]: "endswith (grant_line key sid) (session_mark sid)"
  by (simp add: endswith_def grant_line_def suffix_def)

lemma lines_of_filter_other:
  assumes "session_id_ok sid" "session_id_ok sid'" "sid' \<noteq> sid"
  shows "filter (\<lambda>l. \<not> endswith l (session_mark sid) \<and> endswith l (session_mark sid')) ls =
    filter (\<lambda>l. endswith l (session_mark sid')) ls"
  using session_id_mark [OF assms(2,1)] assms(3)
  by (intro filter_cong) (auto simp: endswith_def)

interpretation keys: key_store keys_grant keys_revoke lines_of session_id_ok
proof
  fix sid sid' k f g line r
  assume ok: "session_id_ok sid"
  note ol = session_id_one_line [OF ok]
  show "lines_of sid g = [line]" if "keys_grant k sid f = Inr (g, line)"
    using keys_grant_read [OF ol that] by (auto simp: lines_of_def)
  show "lines_of sid' g = lines_of sid' f"
    if "session_id_ok sid'" "sid' \<noteq> sid" "keys_grant k sid f = Inr (g, line)"
  proof -
    have "\<not> endswith line (session_mark sid')"
      using keys_grant_read [OF ol that(3)] session_id_mark [OF ok that(1)] that(2)
      by (metis endswith_def endswith_grant_line)
    then show ?thesis
      using keys_grant_read [OF ol that(3)] lines_of_filter_other [OF ok that(1,2)]
      by (auto simp: lines_of_def)
  qed
  show "lines_of sid' g = lines_of sid' f"
    if "session_id_ok sid'" "sid' \<noteq> sid" "keys_revoke sid f = Inr (g, r)"
    using keys_revoke_read [OF that(3)] lines_of_filter_other [OF ok that(1,2)]
    by (auto simp: lines_of_def)
next
  fix sid f g r
  assume "keys_revoke sid f = Inr (g, r)"
  then show "lines_of sid g = [] \<and> (r \<longleftrightarrow> lines_of sid f \<noteq> [])"
    using keys_revoke_read by (fastforce simp: lines_of_def filter_empty_conv)
qed

lemma after_last_append: "after_last m b = Some r \<Longrightarrow> after_last m (a @ b) = Some r"
  by (induction a) auto

lemma after_last_None_iff: "m \<noteq> [] \<Longrightarrow> after_last m s = None \<longleftrightarrow> \<not> sublist m s"
  by (induction s) (auto simp: sublist_Cons_right split: option.splits)

lemma after_last_Some:
  "after_last m s = Some r \<Longrightarrow> m \<noteq> [] \<Longrightarrow> (\<exists>a. s = a @ m @ r) \<and> after_last m r = None"
proof (induction s)
  case (Cons c cs)
  show ?case
  proof (cases "after_last m cs")
    case None
    then have p: "prefix m (c # cs)" and r: "r = drop (length m) (c # cs)"
      using Cons.prems by (auto split: if_splits)
    have "suffix r cs" using r Cons.prems(2) by (cases m) (auto simp: suffix_drop)
    then have "\<not> sublist m r"
      using None Cons.prems(2) by (metis after_last_None_iff suffix_imp_sublist sublist_order.order_trans)
    moreover have "c # cs = [] @ m @ r" using p r by (auto simp: prefix_def)
    ultimately show ?thesis using Cons.prems(2) by (metis after_last_None_iff)
  next
    case (Some x)
    then have "(\<exists>a. cs = a @ m @ r) \<and> after_last m r = None" using Cons by auto
    then show ?thesis by (metis append_Cons)
  qed
qed simp

text \<open>The marker has no proper overlap with itself, so the mark at the end of a line decides.\<close>

lemma after_last_mark:
  assumes "after_last MARKER sid = None"
  shows "after_last MARKER (a @ session_mark sid) = Some sid"
proof -
  have "after_last MARKER (session_mark sid) = Some sid"
    using assms by (simp add: session_mark_def MARKER_def)
  then show ?thesis by (rule after_last_append)
qed

lemma lower_hex_no_marker: "list_all is_lower_hex s \<Longrightarrow> after_last MARKER s = None"
proof (induction s)
  case Nil
  show ?case by (simp add: MARKER_def)
next
  case (Cons c s)
  then have "c \<noteq> CHR ''m''" by (auto simp: is_lower_hex_def)
  then show ?case using Cons by (simp add: MARKER_def)
qed

lemma strip_sublist: "sublist (strip s) s"
proof -
  have "sublist (rstrip (lstrip s)) (lstrip s)" by (intro prefix_imp_sublist rstrip_prefix)
  moreover have "sublist (lstrip s) s" unfolding lstrip_def by (intro suffix_imp_sublist suffix_dropWhile)
  ultimately show ?thesis unfolding strip_def by (rule sublist_order.order_trans)
qed

lemma active_no_marker: "sid \<in> set (active_sessions f) \<Longrightarrow> after_last MARKER sid = None"
proof -
  have ne: "MARKER \<noteq> []" by (simp add: MARKER_def)
  assume "sid \<in> set (active_sessions f)"
  then obtain l r where "after_last MARKER l = Some r" "sid = strip r"
    by (auto simp: active_sessions_def List.map_filter_def)
  then show ?thesis
    using after_last_Some [of MARKER l r] ne strip_sublist
    by (metis after_last_None_iff sublist_order.order_trans)
qed

lemma session_id_facts:
  assumes "session_id_ok sid"
  shows "after_last MARKER sid = None" "strip sid = sid"
proof -
  show "after_last MARKER sid = None" using assms lower_hex_no_marker by (simp add: session_id_ok_def)
  show "strip sid = sid"
    using assms by (intro strip_no_space)
      (auto simp: session_id_ok_def list_all_iff is_lower_hex_def is_space_def Let_def)
qed

lemma lines_active:
  assumes "session_id_ok sid" "lines_of sid f \<noteq> []"
  shows "sid \<in> set (active_sessions f)"
proof -
  obtain l a where l: "l \<in> set (keys_read f)" "l = a @ session_mark sid"
    using assms(2) by (auto simp: lines_of_def filter_empty_conv endswith_def suffix_def)
  then have "after_last MARKER l = Some sid"
    using after_last_mark session_id_facts(1) [OF assms(1)] by simp
  then show ?thesis using l(1) session_id_facts(2) [OF assms(1)]
    by (force simp: active_sessions_def List.map_filter_def)
qed

lemma revoke_keeps_other:
  assumes "session_id_ok sid" "after_last MARKER x = None" "x \<noteq> sid" "keys_revoke x f = Inr (g, r)"
  shows "lines_of sid g = lines_of sid f"
proof -
  have "\<not> endswith l (session_mark x)" if "endswith l (session_mark sid)" for l
    using that after_last_mark [OF assms(2)] after_last_mark [OF session_id_facts(1) [OF assms(1)]] assms(3)
    by (auto simp: endswith_def suffix_def) (metis option.inject)
  then have "filter (\<lambda>l. \<not> endswith l (session_mark x) \<and> endswith l (session_mark sid)) ls =
    filter (\<lambda>l. endswith l (session_mark sid)) ls" for ls
    by (intro filter_cong) auto
  then show ?thesis using keys_revoke_read [OF assms(4)] by (simp add: lines_of_def)
qed

section \<open>Properties\<close>

text \<open>A nonce the agent accepted is refused until its time to live has passed, whatever other
  nonces are offered and however often the book is cleaned in between: one signed session request
  opens at most one session.\<close>

theorem nonce_single_use:
  assumes "nonce_inv b"
    and "snd (nonce_accept n t b)"
    and "\<forall>e \<in> set es. event_time e < t + nb_ttl b"
    and "t' < t + nb_ttl b"
  shows "\<not> snd (nonce_accept n t' (run_events nonce_step (fst (nonce_accept n t b)) es))"
proof -
  let ?b = "fst (nonce_accept n t b)"
  have inv: "nonce_inv ?b" using assms(1) by (rule nonce_inv_accept)
  have "map_of (nb_seen ?b) n = Some (t + nb_ttl b)" using nonce_accept_True [OF assms(2)] by simp
  then have "map_of (nb_seen (run_events nonce_step ?b es)) n = Some (t + nb_ttl b)"
    using inv assms(3) by (intro nonce_run_keeps)
  then show ?thesis using nonces.run_inv [OF inv] assms(4) by (intro nonce_accept_seen)
qed

theorem nonce_single_use_witness:
  "\<not> snd (nonce_accept (replicate 64 CHR ''a'') 500
      (run_events nonce_step (fst (nonce_accept (replicate 64 CHR ''a'') 0 \<lparr>nb_ttl = 600, nb_seen = []\<rparr>))
        [Accept (replicate 64 CHR ''b'') 100, Expire 300]))"
proof (rule nonce_single_use)
  show "nonce_inv \<lparr>nb_ttl = 600, nb_seen = []\<rparr>" by (simp add: nonce_inv_def)
  show "snd (nonce_accept (replicate 64 CHR ''a'') 0 \<lparr>nb_ttl = 600, nb_seen = []\<rparr>)"
    by code_simp
qed simp_all

text \<open>Revoking a session right after its key was installed removes the key, reports that it did,
  and leaves the lines of every other session and every unmarked line as they were before.\<close>

theorem revoke_exactly_the_session:
  assumes "session_id_ok sid"
    and "keys_grant k sid f = Inr (g, line)"
    and "keys_revoke sid g = Inr (h, r)"
  shows "r \<and> lines_of sid h = []
    \<and> (\<forall>sid'. session_id_ok sid' \<and> sid' \<noteq> sid \<longrightarrow> lines_of sid' h = lines_of sid' f)
    \<and> keys_read h = filter (\<lambda>l. \<not> endswith l (session_mark sid)) (keys_read f)"
proof -
  have "keys_read h = filter (\<lambda>l. \<not> endswith l (session_mark sid)) (keys_read f)"
    using keys_grant_read [OF session_id_one_line [OF assms(1)] assms(2)] keys_revoke_read [OF assms(3)]
    by auto
  then show ?thesis using keys.revoke_undoes_grant [OF assms] by simp
qed

theorem revoke_exactly_the_session_witness:
  "\<exists>g line h r.
     keys_grant ''ssh-ed25519 AAAA x'' ''0123456789abcdef'' \<lparr>kf_text = Some ''ssh-rsa BBBB me'', kf_writable = True\<rparr>
       = Inr (g, line)
     \<and> keys_revoke ''0123456789abcdef'' g = Inr (h, r) \<and> r \<and> keys_read h = [''ssh-rsa BBBB me'']"
proof -
  let ?f = "\<lparr>kf_text = Some ''ssh-rsa BBBB me'', kf_writable = True\<rparr>"
  let ?g = "\<lparr>kf_text = Some (''ssh-rsa BBBB me'' @ newline @ ''ssh-ed25519 AAAA mt-session:0123456789abcdef'' @ newline),
    kf_writable = True\<rparr>"
  have 1: "session_id_ok ''0123456789abcdef''" by code_simp
  have 2: "keys_grant ''ssh-ed25519 AAAA x'' ''0123456789abcdef'' ?f
    = Inr (?g, ''ssh-ed25519 AAAA mt-session:0123456789abcdef'')" by code_simp
  have 3: "keys_revoke ''0123456789abcdef'' ?g
    = Inr (\<lparr>kf_text = Some (''ssh-rsa BBBB me'' @ newline), kf_writable = True\<rparr>, True)" by code_simp
  have 4: "filter (\<lambda>l. \<not> endswith l (session_mark ''0123456789abcdef'')) (keys_read ?f) = [''ssh-rsa BBBB me'']"
    by code_simp
  show ?thesis using revoke_exactly_the_session [OF 1 2 3] 2 3 4 by auto
qed

end
