(* ===== verification/Identities.thy ===== *)
theory Identities
  imports Protocol_Attestation Protocol_Messages
begin

text \<open>
  The two signing identities: the validator's hotkey (\<^verbatim>\<open>validator/identity.py\<close>) and the agent's
  device key (\<^verbatim>\<open>agent/control/identity.py\<close>), with the text forms both use for signatures and
  timestamps. Key pairs are not under the repository: a key is its address or public bytes together
  with its signing function, from a message to the bytes of a signature.
\<close>

section \<open>Hexadecimal text and millisecond stamps\<close>

text \<open>\<^verbatim>\<open>bytes.hex()\<close>.\<close>

definition tohex :: "nat list \<Rightarrow> string" where
  "tohex bs = concat (map (\<lambda>b. [hex_digit (b div 16), hex_digit (b mod 16)]) bs)"

text \<open>\<^verbatim>\<open>f"{x:.3f}"\<close>.\<close>

definition fmt_3f :: "rat \<Rightarrow> string" where
  "fmt_3f x =
     (let m = nat \<bar>py_round (x * 1000)\<bar>
      in (if x < 0 then ''-'' else []) @ show_nat (m div 1000) @ ''.'' @ zfill 3 (show_nat (m mod 1000)))"

definition HEADER_AGENT :: string where "HEADER_AGENT = ''x-mt-agent''"
definition HEADER_HOTKEY :: string where "HEADER_HOTKEY = ''x-mt-hotkey''"
definition HEADER_TIMESTAMP :: string where "HEADER_TIMESTAMP = ''x-mt-timestamp''"
definition HEADER_SIGNATURE :: string where "HEADER_SIGNATURE = ''x-mt-signature''"

section \<open>The validator\<close>

record Identity =
  id_hotkey :: string
  id_sign :: "string \<Rightarrow> nat list"
  id_last_stamp :: rat

definition Identity_sign :: "Identity \<Rightarrow> string \<Rightarrow> string" where
  "Identity_sign i message = ''0x'' @ tohex (id_sign i message)"

definition Identity_stamp :: "rat \<Rightarrow> Identity \<Rightarrow> rat" where
  "Identity_stamp now i = max now (id_last_stamp i + 1 / 1000)"

definition Identity_timestamp :: "rat \<Rightarrow> Identity \<Rightarrow> Identity \<times> string" where
  "Identity_timestamp now i =
     (let stamp = Identity_stamp now i in (i\<lparr>id_last_stamp := stamp\<rparr>, fmt_3f stamp))"

definition Identity_headers ::
  "rat \<Rightarrow> string \<Rightarrow> string \<Rightarrow> string \<Rightarrow> Identity \<Rightarrow> Identity \<times> (string \<times> string) list" where
  "Identity_headers now mthd path body i =
     (let (i', timestamp) = Identity_timestamp now i
      in (i', [(HEADER_HOTKEY, id_hotkey i'), (HEADER_TIMESTAMP, timestamp),
               (HEADER_SIGNATURE, Identity_sign i' (signing_bytes mthd path timestamp body))]))"

definition Identity_verify :: "(string \<Rightarrow> nat list \<Rightarrow> bool pyres) \<Rightarrow> string \<Rightarrow> string \<Rightarrow> bool pyres" where
  "Identity_verify key_verify message signature =
     (let raw = (if startswith signature ''0x'' then drop 2 signature else signature)
      in case fromhex raw of
           None \<Rightarrow> Inr False
         | Some bs \<Rightarrow> guarded (key_verify message bs) False)"

datatype identity_error =
  SeedNotHex | SeedLength | NoSecretInFile | CannotReadFile | NotConfigured | Raised pyerr

definition seed_bytes :: "string \<Rightarrow> identity_error + nat list" where
  "seed_bytes text =
     (let clean = strip text;
          clean = (if startswith clean ''0x'' then drop 2 clean else clean)
      in case fromhex clean of
           None \<Rightarrow> Inl SeedNotHex
         | Some raw \<Rightarrow> if length raw \<noteq> 32 then Inl SeedLength else Inr raw)"

text \<open>Where the key pair comes from. The result says which constructor of the key library is
  called and with what; \<open>file\<close> is the parsed wallet file, \<open>None\<close> when it cannot be read.\<close>

datatype KeypairType = ED25519 | SR25519

datatype keypair_source =
    FromSeed "nat list"
  | FromMnemonic string
  | FromPrivate "nat list option" "nat list" KeypairType

definition strip_0x :: "string \<Rightarrow> string" where
  "strip_0x s = (if startswith s ''0x'' then drop 2 s else s)"

definition hex_or_raise :: "string \<Rightarrow> identity_error + nat list" where
  "hex_or_raise s = (case fromhex (strip_0x s) of None \<Rightarrow> Inl (Raised ValueError) | Some bs \<Rightarrow> Inr bs)"

definition wallet_crypto :: "pydict \<Rightarrow> identity_error + KeypairType" where
  "wallet_crypto data =
     (case py_int (py_or (dget data ''cryptoType'' (PInt 1)) (PInt 1)) of
        Inl e \<Rightarrow> Inl (Raised e)
      | Inr n \<Rightarrow> Inr (if n = 0 then ED25519 else SR25519))"

definition wallet_key :: "pydict \<Rightarrow> identity_error + keypair_source" where
  "wallet_key data =
     (let seed = str_or_empty data ''secretSeed''; phrase = str_or_empty data ''secretPhrase'' in
      if seed \<noteq> [] then rbind (seed_bytes seed) (\<lambda>b. Inr (FromSeed b))
      else if phrase \<noteq> [] then Inr (FromMnemonic (strip phrase))
      else (let private = str_or_empty data ''privateKey'' in
        if private \<noteq> []
        then rbind (hex_or_raise private) (\<lambda>raw.
               (let public = str_or_empty data ''publicKey'' in
                rbind (wallet_crypto data) (\<lambda>crypto.
                rbind (if public \<noteq> [] then rbind (hex_or_raise public) (\<lambda>b. Inr (Some b)) else Inr None)
                  (\<lambda>pub. Inr (FromPrivate pub raw crypto)))))
        else Inl NoSecretInFile))"

definition load_keypair ::
  "string \<Rightarrow> string \<Rightarrow> string \<Rightarrow> pyval option \<Rightarrow> identity_error + keypair_source" where
  "load_keypair hotkey_seed hotkey_mnemonic wallet_hotkey_file file =
     (if hotkey_seed \<noteq> [] then rbind (seed_bytes hotkey_seed) (\<lambda>b. Inr (FromSeed b))
      else if hotkey_mnemonic \<noteq> [] then Inr (FromMnemonic (strip hotkey_mnemonic))
      else if wallet_hotkey_file \<noteq> []
      then (case file of
              None \<Rightarrow> Inl CannotReadFile
            | Some (PDict data) \<Rightarrow> wallet_key data
            | Some _ \<Rightarrow> Inl (Raised AttributeError))
      else Inl NotConfigured)"

section \<open>The agent\<close>

record AgentKey =
  ak_private :: "nat list"
  ak_public :: "nat list"
  ak_sign :: "string \<Rightarrow> nat list"

definition AgentKey_sign :: "AgentKey \<Rightarrow> string \<Rightarrow> string" where
  "AgentKey_sign k message = tohex (ak_sign k message)"

definition AgentKey_headers ::
  "rat \<Rightarrow> string \<Rightarrow> string \<Rightarrow> string \<Rightarrow> AgentKey \<Rightarrow> (string \<times> string) list" where
  "AgentKey_headers now mthd path body k =
     (let timestamp = fmt_3f now
      in [(HEADER_AGENT, tohex (ak_public k)), (HEADER_TIMESTAMP, timestamp),
          (HEADER_SIGNATURE, AgentKey_sign k (signing_bytes mthd path timestamp body))])"

definition AgentKey_hello :: "rat \<Rightarrow> string \<Rightarrow> AgentKey \<Rightarrow> Hello" where
  "AgentKey_hello now path k =
     (let timestamp = fmt_3f now
      in \<lparr>hello_agent = tohex (ak_public k), hello_timestamp = timestamp,
          hello_signature = AgentKey_sign k (signing_bytes ''WS'' path timestamp [])\<rparr>)"

text \<open>\<^verbatim>\<open>load_or_create\<close>: the stored key when the file has text, otherwise a fresh one that is written
  back. \<open>key_of\<close> is the key library's constructor and \<open>fresh\<close> the bytes of \<^verbatim>\<open>os.urandom(32)\<close>.\<close>

definition AgentKey_of :: "(nat list \<Rightarrow> AgentKey) \<Rightarrow> nat list \<Rightarrow> AgentKey pyres" where
  "AgentKey_of key_of private_bytes =
     (if length private_bytes \<noteq> 32 then Inl ValueError else Inr (key_of private_bytes))"

definition load_or_create ::
  "(nat list \<Rightarrow> AgentKey) \<Rightarrow> nat list \<Rightarrow> string option \<Rightarrow> (AgentKey \<times> string option) pyres" where
  "load_or_create key_of fresh file =
     (let text = (case file of None \<Rightarrow> [] | Some t \<Rightarrow> strip t)
      in if text \<noteq> []
         then (case fromhex text of
                 None \<Rightarrow> Inl ValueError
               | Some raw \<Rightarrow> rbind (AgentKey_of key_of raw) (\<lambda>k. Inr (k, file)))
         else rbind (AgentKey_of key_of fresh) (\<lambda>k. Inr (k, Some (tohex (ak_private k)))))"

section \<open>Facts\<close>

lemma hex_digit_val: "n < 16 \<Longrightarrow> hex_val (hex_digit n) = Some n \<and> \<not> hex_space (hex_digit n)
    \<and> is_lower_hex (hex_digit n)"
  by (auto simp: hex_val_def hex_digit_def hex_space_def is_lower_hex_def Let_def)

lemma fromhex_tohex: "\<forall>b \<in> set bs. b < 256 \<Longrightarrow> fromhex (tohex bs) = Some bs"
proof (induction bs)
  case Nil
  show ?case by (simp add: tohex_def)
next
  case (Cons b bs)
  have h: "b div 16 < 16" "b mod 16 < 16" using Cons.prems by auto
  have "tohex (b # bs) = hex_digit (b div 16) # hex_digit (b mod 16) # tohex bs"
    by (simp add: tohex_def)
  then show ?case using Cons hex_digit_val [OF h(1)] hex_digit_val [OF h(2)] by simp
qed

lemma tohex_lower_hex: "\<forall>b \<in> set bs. b < 256 \<Longrightarrow> list_all is_lower_hex (tohex bs)"
  using hex_digit_val by (auto simp: tohex_def list_all_iff)

lemma tohex_empty_iff [simp]: "tohex bs = [] \<longleftrightarrow> bs = []"
  by (cases bs) (auto simp: tohex_def)

lemma digits_val_snoc: "digits_val (s @ [c]) = 10 * digits_val s + (of_char c - 48)"
  by (simp add: digits_val_def)

lemma digits_val_append: "digits_val (a @ b) = digits_val a * 10 ^ length b + digits_val b"
proof (induction b rule: rev_induct)
  case Nil
  show ?case by (simp add: digits_val_def)
next
  case (snoc c b)
  have "digits_val (a @ b @ [c]) = 10 * digits_val (a @ b) + (of_char c - 48)"
    using digits_val_snoc [of "a @ b" c] by simp
  then show ?case by (simp add: snoc digits_val_snoc algebra_simps)
qed

lemma digits_val_zeros: "digits_val (replicate n (CHR ''0'')) = 0"
  by (induction n) (simp_all add: digits_val_def)

lemma digits_val_zfill: "digits_val (zfill n s) = digits_val s"
  by (simp add: zfill_def digits_val_append digits_val_zeros)

lemma length_show_nat_less: "n < 10 ^ k \<Longrightarrow> 0 < k \<Longrightarrow> length (show_nat n) \<le> k"
proof (induction k arbitrary: n)
  case (Suc k)
  show ?case
  proof (cases "n < 10")
    case True
    then show ?thesis by (simp add: show_nat.simps [of n])
  next
    case False
    then have "0 < k" using Suc.prems by (cases k) auto
    moreover have "n div 10 < 10 ^ k" using Suc.prems by (simp add: less_mult_imp_div_less mult.commute)
    ultimately show ?thesis using Suc.IH [of "n div 10"] False by (simp add: show_nat.simps [of n])
  qed
qed simp

lemma zfill_digits: "(\<forall>c \<in> set s. is_digit c) \<Longrightarrow> c \<in> set (zfill n s) \<Longrightarrow> is_digit c"
  by (auto simp: zfill_def is_digit_def)

lemma digits_no_char:
  assumes "\<forall>c \<in> set s. is_digit c"
  shows "CHR ''.'' \<notin> set s" "CHR ''e'' \<notin> set s" "lower s = s"
proof -
  show "CHR ''.'' \<notin> set s" "CHR ''e'' \<notin> set s" using assms by (auto simp: is_digit_def)
  have "lower_char c = c" if "is_digit c" for c
    using that by (auto simp: lower_char_def is_digit_def Let_def)
  then show "lower s = s" using assms by (simp add: lower_def map_idI)
qed

text \<open>Reading back two digit groups around a point.\<close>

lemma float_of_decimal:
  assumes a: "a \<noteq> []" "\<forall>c \<in> set a. is_digit c" and b: "b \<noteq> []" "\<forall>c \<in> set b. is_digit c"
  shows "float_of_str (a @ ''.'' @ b) =
    Inr ((of_nat (digits_val a) * 10 ^ length b + of_nat (digits_val b)) / 10 ^ length b)"
proof -
  let ?t = "a @ CHR ''.'' # b"
  note na = digits_no_char [OF a(2)] and nb = digits_no_char [OF b(2)]
  have sp: "strip ?t = ?t"
    using a(2) b(2) by (intro strip_no_space) (auto simp: is_digit_def is_space_def Let_def)
  obtain c cs where ac: "a = c # cs" using a(1) by (cases a) auto
  then have c: "is_digit c" using a(2) by simp
  have sg: "split_sign ?t = (1, ?t)" using ac c by (auto simp: split_sign_def is_digit_def)
  have lo: "lower ?t = ?t" using na(3) nb(3) by (simp add: lower_def lower_char_def)
  have nf: "\<not> non_finite_text ?t"
  proof -
    have "hd ?t = c" using ac by simp
    moreover have "c \<noteq> CHR ''i''" "c \<noteq> CHR ''n''" using c by (auto simp: is_digit_def)
    ultimately show ?thesis unfolding non_finite_text_def lo using ac by auto
  qed
  have se: "split_on (CHR ''e'') ?t = [?t]" using na(2) nb(2) by (intro split_on_single) simp
  have sd: "split_on (CHR ''.'') ?t = [a, b]"
    using na(1) nb(1) by (simp add: split_on_append split_on_single)
  have "decimal_parts ?t = Some (a, b)"
    using a b digit_group_digits by (simp add: decimal_parts_def sd)
  moreover have "decimal_val (a, b) =
      (of_nat (digits_val a) * 10 ^ length b + of_nat (digits_val b)) / 10 ^ length b"
    using a(2) b(2) by (simp add: decimal_val_def Let_def drop_underscores_digits digits_val_append)
  ultimately show ?thesis by (simp add: float_of_str_def sp sg nf lo se)
qed

lemma fmt_3f_parse:
  assumes "0 \<le> x"
  shows "float_of_str (fmt_3f x) = Inr (py_round_to 3 x)"
proof -
  define m where "m = nat \<bar>py_round (x * 1000)\<bar>"
  let ?a = "show_nat (m div 1000)" and ?b = "zfill 3 (show_nat (m mod 1000))"
  have da: "\<forall>c \<in> set ?a. is_digit c" using show_nat_digits by blast
  have db: "\<forall>c \<in> set ?b. is_digit c" using zfill_digits show_nat_digits by blast
  have lb: "length ?b = 3"
    using length_show_nat_less [of "m mod 1000" 3] by (simp add: zfill_def)
  have f: "fmt_3f x = ?a @ ''.'' @ ?b" using assms by (simp add: fmt_3f_def m_def Let_def)
  have "?b \<noteq> []" using lb by auto
  then have "float_of_str (fmt_3f x) =
      Inr ((of_nat (m div 1000) * 10 ^ 3 + of_nat (m mod 1000)) / 10 ^ 3)"
    unfolding f using float_of_decimal [OF _ da _ db]
    by (simp add: lb digits_val_zfill digits_val_show_nat)
  also have "(of_nat (m div 1000) * 10 ^ 3 + of_nat (m mod 1000) :: rat) = of_nat m"
  proof -
    have "of_nat (m div 1000 * 1000 + m mod 1000) = (of_nat m :: rat)" by (simp only: div_mult_mod_eq)
    then show ?thesis unfolding of_nat_add of_nat_mult by simp
  qed
  also have "(of_nat m :: rat) = of_int (py_round (x * 1000))"
    using py_round_nonneg [of "x * 1000"] assms by (simp add: m_def)
  finally show ?thesis by (simp add: py_round_to_def)
qed

lemma fmt_3f_text: "c \<in> set (fmt_3f x) \<Longrightarrow> \<not> is_space c" "fmt_3f x \<noteq> []"
proof -
  show "fmt_3f x \<noteq> []" by (simp add: fmt_3f_def Let_def)
  assume "c \<in> set (fmt_3f x)"
  then have "is_digit c \<or> c = CHR ''-'' \<or> c = CHR ''.''"
    using zfill_digits [of "show_nat n" c 3 for n] show_nat_digits
    by (fastforce simp: fmt_3f_def Let_def split: if_splits)
  then show "\<not> is_space c" by (auto dest: digit_not_space simp: is_space_def)
qed

lemma py_round_to_close: "\<bar>py_round_to 3 x - x\<bar> \<le> 1 / 2000"
  using py_round_close [of "x * 1000"] by (simp add: py_round_to_def abs_le_iff field_simps)


section \<open>Properties\<close>

text \<open>The key the agent creates on its first start is the key it loads on every later start:
  what \<^verbatim>\<open>load_or_create\<close> writes when there is no key file it reads back unchanged, and the file is
  not written again. The key library's constructor keeps the private bytes it is given.\<close>

theorem agent_key_persists:
  assumes keeps: "\<forall>bs. ak_private (key_of bs) = bs"
    and fresh: "length fresh = 32" "\<forall>b \<in> set fresh. b < 256"
    and empty: "case file of None \<Rightarrow> True | Some t \<Rightarrow> strip t = []"
  shows "\<exists>text. load_or_create key_of fresh file = Inr (key_of fresh, Some text)
    \<and> (\<forall>fresh'. load_or_create key_of fresh' (Some text) = Inr (key_of fresh, Some text))"
proof (intro exI conjI allI)
  show "load_or_create key_of fresh file = Inr (key_of fresh, Some (tohex fresh))"
    using assms by (auto simp: load_or_create_def AgentKey_of_def split: option.splits)
  have "strip (tohex fresh) = tohex fresh"
    using tohex_lower_hex [OF fresh(2)]
    by (intro strip_no_space) (auto simp: list_all_iff is_lower_hex_def is_space_def Let_def)
  then show "load_or_create key_of fresh' (Some (tohex fresh)) = Inr (key_of fresh, Some (tohex fresh))"
    for fresh'
    using fresh fromhex_tohex [OF fresh(2)] by (auto simp: load_or_create_def AgentKey_of_def Let_def)
qed

theorem agent_key_persists_witness:
  "\<exists>text. load_or_create (\<lambda>bs. \<lparr>ak_private = bs, ak_public = [1], ak_sign = (\<lambda>m. [2])\<rparr>) (replicate 32 7) None
      = Inr (\<lparr>ak_private = replicate 32 7, ak_public = [1], ak_sign = (\<lambda>m. [2])\<rparr>, Some text)
    \<and> (\<forall>fresh'. load_or_create (\<lambda>bs. \<lparr>ak_private = bs, ak_public = [1], ak_sign = (\<lambda>m. [2])\<rparr>) fresh' (Some text)
      = Inr (\<lparr>ak_private = replicate 32 7, ak_public = [1], ak_sign = (\<lambda>m. [2])\<rparr>, Some text))"
  by (rule agent_key_persists) simp_all

text \<open>A wallet file whose \<^verbatim>\<open>cryptoType\<close> is the integer 0, the code of ED25519, is loaded as an
  SR25519 key: \<^verbatim>\<open>data.get("cryptoType", 1) or 1\<close> replaces the zero by one before the comparison.\<close>

theorem ed25519_wallet_loads_as_sr25519:
  assumes "dget data ''cryptoType'' (PInt 1) = PInt 0"
    and "wallet_key data = Inr (FromPrivate pub raw crypto)"
  shows "crypto = SR25519"
  using assms
  by (auto simp: wallet_key_def Let_def result_simps wallet_crypto_def py_or_def split: if_splits sum.splits)

theorem ed25519_wallet_loads_as_sr25519_witness:
  "\<exists>crypto. wallet_key [(''privateKey'', PStr ''0x0a''), (''cryptoType'', PInt 0)]
      = Inr (FromPrivate None [10] crypto) \<and> crypto = SR25519"
proof -
  have "wallet_key [(''privateKey'', PStr ''0x0a''), (''cryptoType'', PInt 0)]
      = Inr (FromPrivate None [10] SR25519)" by code_simp
  with ed25519_wallet_loads_as_sr25519 [OF _ this] show ?thesis by simp
qed

end
