(* ===== verification/Agent_Auth.thy ===== *)
theory Agent_Auth
  imports Identities
begin

text \<open>
  Request authentication on the agent (\<^verbatim>\<open>agent/api/auth.py\<close>): freshness of a stamp, verification of
  a hotkey's signature, the cached validator set and the check of a signed request. Signature
  verification belongs to the key library: \<open>kp_verify hotkey message bytes\<close> is its answer, \<open>None\<close>
  when it raises or cannot be imported.
\<close>

type_synonym keypair_verify = "string \<Rightarrow> string \<Rightarrow> nat list \<Rightarrow> bool option"

definition auth_fresh :: "string \<Rightarrow> rat \<Rightarrow> rat \<Rightarrow> bool" where
  "auth_fresh timestamp window moment =
     (case float_of_str timestamp of
        Inl _ \<Rightarrow> False
      | Inr stamped \<Rightarrow> \<bar>moment - stamped\<bar> \<le> window)"

definition verify_hotkey :: "keypair_verify \<Rightarrow> string \<Rightarrow> string \<Rightarrow> string \<Rightarrow> bool" where
  "verify_hotkey kp_verify hotkey message signature =
     (if hotkey = [] \<or> signature = [] then False
      else (let raw = strip signature;
                raw = (if lower (take 2 raw) = ''0x'' then drop 2 raw else raw)
            in case fromhex raw of
                 None \<Rightarrow> False
               | Some signature_bytes \<Rightarrow>
                   (case kp_verify hotkey message signature_bytes of None \<Rightarrow> False | Some b \<Rightarrow> b)))"

fun signer :: "keypair_verify \<Rightarrow> string list \<Rightarrow> string \<Rightarrow> string \<Rightarrow> string" where
  "signer kp_verify [] message signature = []"
| "signer kp_verify (hotkey # hotkeys) message signature =
     (if verify_hotkey kp_verify hotkey message signature then hotkey
      else signer kp_verify hotkeys message signature)"

section \<open>The validator set\<close>

text \<open>\<open>vs_file\<close> is what the cache file parses to: \<open>None\<close> when there is no path, no file, or no
  JSON in it.\<close>

record ValidatorSet =
  vs_hotkeys :: "string set"
  vs_updated_at :: rat
  vs_source :: string
  vs_file :: "pyval option"
  vs_path :: bool

definition vs_load :: "ValidatorSet \<Rightarrow> ValidatorSet pyres" where
  "vs_load v =
     (if \<not> vs_path v then Inr v
      else (case vs_file v of
        None \<Rightarrow> Inr v
      | Some saved \<Rightarrow>
          (case saved of
             PDict d \<Rightarrow>
               (case dget d ''validators'' PNone of
                  PList found \<Rightarrow>
                    if found = [] then Inr v
                    else rbind (py_float (py_or (dget d ''updated_at'' (PFloat 0)) (PFloat 0))) (\<lambda>stamped.
                      Inr (v\<lparr>vs_hotkeys := set (map py_str (filter truthy found)),
                             vs_updated_at := stamped, vs_source := ''cache''\<rparr>))
                | _ \<Rightarrow> Inr v)
           | _ \<Rightarrow> Inr v)))"

definition vs_new :: "bool \<Rightarrow> pyval option \<Rightarrow> ValidatorSet pyres" where
  "vs_new path file =
     vs_load \<lparr>vs_hotkeys = {}, vs_updated_at = 0, vs_source = ''empty'', vs_file = file, vs_path = path\<rparr>"

definition vs_clean :: "string list \<Rightarrow> string set" where
  "vs_clean hotkeys = set (map strip (filter (\<lambda>h. h \<noteq> [] \<and> strip h \<noteq> []) hotkeys))"

definition vs_saved :: "string set \<Rightarrow> rat \<Rightarrow> pyval" where
  "vs_saved hotkeys now =
     PDict [(''validators'', PList (map PStr (sorted_list_of_set hotkeys))), (''updated_at'', PFloat now)]"

definition vs_update :: "string list \<Rightarrow> rat \<Rightarrow> bool \<Rightarrow> ValidatorSet \<Rightarrow> ValidatorSet \<times> bool" where
  "vs_update hotkeys now writable v =
     (let cleaned = vs_clean hotkeys;
          changed = (cleaned \<noteq> vs_hotkeys v);
          v1 = v\<lparr>vs_hotkeys := cleaned, vs_updated_at := now, vs_source := ''server''\<rparr>
      in (if vs_path v1 \<and> writable then v1\<lparr>vs_file := Some (vs_saved cleaned now)\<rparr> else v1, changed))"

definition vs_contains :: "ValidatorSet \<Rightarrow> string \<Rightarrow> bool" where
  "vs_contains v hotkey = (hotkey \<in> vs_hotkeys v)"

definition vs_list :: "ValidatorSet \<Rightarrow> string list" where
  "vs_list v = sorted_list_of_set (vs_hotkeys v)"

section \<open>The check of a request\<close>

type_synonym auth_failure = "nat \<times> string"

definition header :: "(string \<times> string) list \<Rightarrow> string \<Rightarrow> string" where
  "header headers name = strip (dget headers name [])"

definition check_request ::
  "keypair_verify \<Rightarrow> ValidatorSet \<Rightarrow> string \<Rightarrow> string \<Rightarrow> (string \<times> string) list \<Rightarrow> string \<Rightarrow> rat \<Rightarrow> rat
    \<Rightarrow> auth_failure + string" where
  "check_request kp_verify validators mthd path headers body window now =
     (let hotkey = header headers HEADER_HOTKEY;
          timestamp = header headers HEADER_TIMESTAMP;
          signature = header headers HEADER_SIGNATURE
      in if hotkey = [] \<or> timestamp = [] \<or> signature = []
         then Inl (401, ''validator signature headers required'')
         else if \<not> vs_contains validators hotkey
         then Inl (403, ''not an active compute validator'')
         else if \<not> auth_fresh timestamp window now
         then Inl (401, ''timestamp outside the signature window'')
         else if \<not> verify_hotkey kp_verify hotkey (signing_bytes mthd path timestamp body) signature
         then Inl (401, ''signature does not verify'')
         else Inr hotkey)"

section \<open>Facts\<close>

lemma verify_hotkey_ne: "verify_hotkey kp_verify h message signature \<Longrightarrow> h \<noteq> []"
  by (auto simp: verify_hotkey_def)

lemma signer_sound:
  "signer kp_verify hotkeys message signature = h \<Longrightarrow> h \<noteq> [] \<Longrightarrow>
   h \<in> set hotkeys \<and> verify_hotkey kp_verify h message signature"
  by (induction hotkeys) (auto split: if_splits)

lemma signer_complete:
  "h \<in> set hotkeys \<Longrightarrow> verify_hotkey kp_verify h message signature \<Longrightarrow>
   signer kp_verify hotkeys message signature \<noteq> []"
  using verify_hotkey_ne by (induction hotkeys) auto

lemma verify_hotkey_hex:
  assumes "hotkey \<noteq> []" "bs \<noteq> []" "\<forall>b \<in> set bs. b < 256" "kp_verify hotkey message bs = Some True"
  shows "verify_hotkey kp_verify hotkey message (''0x'' @ tohex bs)"
proof -
  have "strip (''0x'' @ tohex bs) = ''0x'' @ tohex bs"
    using tohex_lower_hex [OF assms(3)]
    by (intro strip_no_space) (auto simp: list_all_iff is_lower_hex_def is_space_def Let_def)
  then show ?thesis
    using assms fromhex_tohex [OF assms(3)]
    by (simp add: verify_hotkey_def lower_def lower_char_def Let_def)
qed

lemma check_request_Inr:
  "check_request kp_verify validators mthd path headers body window now = Inr h \<longleftrightarrow>
     h = header headers HEADER_HOTKEY \<and> h \<noteq> []
     \<and> header headers HEADER_TIMESTAMP \<noteq> [] \<and> header headers HEADER_SIGNATURE \<noteq> []
     \<and> h \<in> vs_hotkeys validators
     \<and> (\<exists>t. float_of_str (header headers HEADER_TIMESTAMP) = Inr t \<and> \<bar>now - t\<bar> \<le> window)
     \<and> verify_hotkey kp_verify h
         (signing_bytes mthd path (header headers HEADER_TIMESTAMP) body) (header headers HEADER_SIGNATURE)"
  by (auto simp: check_request_def Let_def vs_contains_def auth_fresh_def split: sum.splits)

lemma finite_vs_clean [simp]: "finite (vs_clean hotkeys)"
  by (simp add: vs_clean_def)

lemma vs_load_saved:
  assumes "hotkeys \<noteq> {}" "finite hotkeys" "[] \<notin> hotkeys" "vs_path v" "vs_file v = Some (vs_saved hotkeys now)"
  shows "vs_load v = Inr (v\<lparr>vs_hotkeys := hotkeys, vs_updated_at := now, vs_source := ''cache''\<rparr>)"
proof -
  have "filter truthy (map PStr (sorted_list_of_set hotkeys)) = map PStr (sorted_list_of_set hotkeys)"
    using assms by (auto simp: filter_id_conv)
  moreover have "map PStr (sorted_list_of_set hotkeys) \<noteq> []" using assms by simp
  moreover have "set (map py_str (map PStr (sorted_list_of_set hotkeys))) = hotkeys"
    using assms by (auto simp: image_image)
  ultimately show ?thesis using assms(4,5) unfolding vs_load_def vs_saved_def
    by (simp del: filter_map)
qed

section \<open>Properties\<close>

text \<open>A request that passes the agent's check carries a hotkey of the validator set, a stamp
  within the window, and a signature that verifies for that hotkey over exactly this method, path,
  stamp and body; and every request with these three properties passes.\<close>

theorem check_request_iff:
  "check_request kp_verify validators mthd path headers body window now = Inr h \<longleftrightarrow>
     h = header headers HEADER_HOTKEY \<and> h \<noteq> []
     \<and> header headers HEADER_TIMESTAMP \<noteq> [] \<and> header headers HEADER_SIGNATURE \<noteq> []
     \<and> h \<in> vs_hotkeys validators
     \<and> (\<exists>t. float_of_str (header headers HEADER_TIMESTAMP) = Inr t \<and> \<bar>now - t\<bar> \<le> window)
     \<and> verify_hotkey kp_verify h
         (signing_bytes mthd path (header headers HEADER_TIMESTAMP) body) (header headers HEADER_SIGNATURE)"
  by (rule check_request_Inr)

text \<open>The validator set survives a restart: after an update whose file write succeeds, a new
  process that loads the file has the same hotkeys and the same update time, provided the list was
  not empty.\<close>

theorem validator_set_survives_restart:
  assumes "vs_path v" "vs_clean hotkeys \<noteq> {}"
  shows "\<exists>w. vs_new True (vs_file (fst (vs_update hotkeys now True v))) = Inr w
    \<and> vs_hotkeys w = vs_hotkeys (fst (vs_update hotkeys now True v))
    \<and> vs_updated_at w = now \<and> vs_source w = ''cache''"
proof -
  have "[] \<notin> vs_clean hotkeys" by (auto simp: vs_clean_def)
  then show ?thesis
    using assms by (simp add: vs_new_def vs_update_def Let_def vs_load_saved [OF assms(2)])
qed

theorem validator_set_survives_restart_witness:
  "\<exists>w. vs_new True (vs_file (fst (vs_update ['' 5Abc '', [], ''5Def''] 7 True
       \<lparr>vs_hotkeys = {}, vs_updated_at = 0, vs_source = ''empty'', vs_file = None, vs_path = True\<rparr>))) = Inr w
    \<and> vs_hotkeys w = {''5Abc'', ''5Def''}"
proof -
  let ?v = "\<lparr>vs_hotkeys = {}, vs_updated_at = 0, vs_source = ''empty'', vs_file = None, vs_path = True\<rparr>"
  have c: "vs_clean ['' 5Abc '', [], ''5Def''] = {''5Abc'', ''5Def''}" by code_simp
  have "\<exists>w. vs_new True (vs_file (fst (vs_update ['' 5Abc '', [], ''5Def''] 7 True ?v))) = Inr w
    \<and> vs_hotkeys w = vs_hotkeys (fst (vs_update ['' 5Abc '', [], ''5Def''] 7 True ?v))
    \<and> vs_updated_at w = 7 \<and> vs_source w = ''cache''"
    by (rule validator_set_survives_restart) (simp_all add: c)
  then show ?thesis by (auto simp: vs_update_def Let_def c)
qed

end
