(* ===== verification/Agent_Grants.thy ===== *)
theory Agent_Grants
  imports Agent_Access Agent_Auth
begin

text \<open>
  Sessions on the agent (\<^verbatim>\<open>agent/access/grants.py\<close>) with the attestation they return
  (\<^verbatim>\<open>agent/hardware/attestation.py\<close>). A session is registered in \<open>g_open\<close> and has a line in the key
  file; the two are kept by different locks, so \<^verbatim>\<open>open\<close> and \<^verbatim>\<open>sweep\<close>, which the agent runs on
  different threads, are given as their lock-protected stages and as the composition of them. What
  the hardware answers is the record \<open>Hardware\<close>; hashing is the argument \<open>sha256\<close>. The clock readings
  of one call are one reading \<open>now\<close>, and the text of an operating system error is left out of the
  message that quotes it.
\<close>

section \<open>State\<close>

record OpenSession =
  os_session_id :: string
  os_public_key :: string
  os_validator :: string
  os_nonce :: string
  os_opened_at :: rat
  os_expires_at :: rat

definition OpenSession_payload :: "OpenSession \<Rightarrow> pydict" where
  "OpenSession_payload s =
     [(''session_id'', PStr (os_session_id s)), (''validator'', PStr (os_validator s)),
      (''opened_at'', PFloat (py_round_to 3 (os_opened_at s))),
      (''expires_at'', PFloat (py_round_to 3 (os_expires_at s)))]"

record Grants =
  g_open :: "(string \<times> OpenSession) list"
  g_nonces :: NonceBook
  g_keys :: key_file
  g_events :: "(string \<times> pydict) list"
  g_ttl :: rat

record Settings =
  cfg_ssh_user :: string
  cfg_ssh_port :: int
  cfg_python_path :: string
  cfg_root_dir :: string
  cfg_port_range :: string

record Hardware =
  hw_version :: string
  hw_hostname :: string
  hw_gpus :: "pydict list"
  hw_driver :: string
  hw_cuda :: string
  hw_machine_id :: string
  hw_boot_id :: string
  hw_host_key_file :: "string option"
  hw_tdx_quote :: "nat list \<Rightarrow> string"
  hw_gpu_evidence :: "string \<Rightarrow> pydict"

datatype grant_error = GrantError nat string | KeyFileError

definition log_event :: "string \<Rightarrow> pydict \<Rightarrow> Grants \<Rightarrow> Grants" where
  "log_event kind fs g = g\<lparr>g_events := g_events g @ [(kind, fs)]\<rparr>"

section \<open>UTC time stamps\<close>

text \<open>\<^verbatim>\<open>datetime.fromtimestamp(moment, utc).isoformat()\<close> with \<^verbatim>\<open>Z\<close> for the offset: the proleptic
  Gregorian date of a day number, and microseconds only when there are any.\<close>

definition civil_from_days :: "int \<Rightarrow> int \<times> int \<times> int" where
  "civil_from_days days =
     (let z = days + 719468; era = z div 146097; doe = z mod 146097;
          yoe = (doe - doe div 1460 + doe div 36524 - doe div 146096) div 365;
          doy = doe - (365 * yoe + yoe div 4 - yoe div 100);
          mp = (5 * doy + 2) div 153;
          d = doy - (153 * mp + 2) div 5 + 1;
          m = (if mp < 10 then mp + 3 else mp - 9)
      in (yoe + era * 400 + (if m \<le> 2 then 1 else 0), m, d))"

definition pad :: "nat \<Rightarrow> int \<Rightarrow> string" where
  "pad n i = zfill n (show_int i)"

definition iso_utc :: "rat \<Rightarrow> string" where
  "iso_utc moment =
     (let micros = py_round (moment * 1000000); secs = micros div 1000000; us = micros mod 1000000;
          days = secs div 86400; sod = secs mod 86400
      in case civil_from_days days of (y, m, d) \<Rightarrow>
           pad 4 y @ ''-'' @ pad 2 m @ ''-'' @ pad 2 d @ ''T'' @ pad 2 (sod div 3600) @ '':'' @
           pad 2 (sod mod 3600 div 60) @ '':'' @ pad 2 (sod mod 60) @
           (if us = 0 then [] else ''.'' @ pad 6 us) @ ''Z'')"

section \<open>Attestation\<close>

definition host_key_line :: "string option \<Rightarrow> string" where
  "host_key_line file =
     (case file of
        None \<Rightarrow> []
      | Some text \<Rightarrow>
          (case splitlines text of
             [] \<Rightarrow> []
           | first # _ \<Rightarrow> (case canonical first of Some k \<Rightarrow> k | None \<Rightarrow> strip first)))"

definition attestation_build ::
  "(string \<Rightarrow> nat list) \<Rightarrow> Hardware \<Rightarrow> string \<Rightarrow> string \<Rightarrow> rat \<Rightarrow> Attestation option" where
  "attestation_build sha256 hw nonce0 host_key now =
     (let nonce = lower (strip nonce0) in
      if \<not> well_formed_nonce nonce then None
      else (let key_line = (if host_key \<noteq> [] then host_key else host_key_line (hw_host_key_file hw));
                data = report_data sha256 key_line nonce
            in Some
      \<lparr>at_nonce = nonce, at_agent_version = hw_version hw, at_hostname = hw_hostname hw,
       at_gpus = map GpuEvidence_from_payload (hw_gpus hw), at_driver = hw_driver hw,
       at_cuda = hw_cuda hw, at_machine_id = hw_machine_id hw, at_boot_id = hw_boot_id hw,
       at_host_key = key_line, at_report_data_hex = tohex data, at_tdx_quote = hw_tdx_quote hw data,
       at_gpu_evidence = hw_gpu_evidence hw nonce, at_generated_at = py_round_to 3 now\<rparr>))"

section \<open>Opening a session\<close>

text \<open>The checks: they use up the nonce and touch nothing else.\<close>

definition open_check ::
  "keypair_verify \<Rightarrow> SessionOpen \<Rightarrow> string list \<Rightarrow> rat \<Rightarrow> Grants \<Rightarrow> Grants \<times> (grant_error + string \<times> string)" where
  "open_check kp_verify request hotkeys now g =
     (if SessionOpen_problems request \<noteq> []
      then (g, Inl (GrantError 422 (join ''; '' (SessionOpen_problems request))))
      else case canonical (so_public_key request) of
        None \<Rightarrow> (g, Inl (GrantError 422 ''public_key is not an accepted OpenSSH key''))
      | Some key \<Rightarrow>
          (let validator = signer kp_verify hotkeys (SessionOpen_blob request) (so_signature request) in
           if validator = []
           then (g, Inl (GrantError 403 ''signature does not verify against any active validator hotkey''))
           else (let (nonces, accepted) = nonce_accept (so_nonce request) now (g_nonces g);
                     g1 = g\<lparr>g_nonces := nonces\<rparr>
                 in if \<not> accepted then (g1, Inl (GrantError 403 ''nonce already used or malformed''))
                    else (g1, Inr (key, validator)))))"

definition open_install :: "string \<Rightarrow> string \<Rightarrow> Grants \<Rightarrow> grant_error + Grants" where
  "open_install key session_id g =
     (case keys_grant key session_id (g_keys g) of
        Inl _ \<Rightarrow> Inl (GrantError 500 ''could not install the key'')
      | Inr (keys, line) \<Rightarrow> Inr (g\<lparr>g_keys := keys\<rparr>))"

definition open_register ::
  "SessionOpen \<Rightarrow> string \<Rightarrow> string \<Rightarrow> rat \<Rightarrow> bool \<Rightarrow> Grants \<Rightarrow> Grants" where
  "open_register request key validator now tdx g =
     (let session_id = take 16 (so_nonce request); expires = now + g_ttl g in
      log_event ''session.open''
        [(''session'', PStr session_id), (''validator'', PStr validator), (''nonce'', PStr session_id),
         (''expires_at'', PStr (iso_utc expires)), (''tdx'', PBool tdx)]
      (g\<lparr>g_open := AList.update session_id
          \<lparr>os_session_id = session_id, os_public_key = key, os_validator = validator,
           os_nonce = so_nonce request, os_opened_at = now, os_expires_at = expires\<rparr> (g_open g)\<rparr>))"

definition open_answer ::
  "Settings \<Rightarrow> SessionOpen \<Rightarrow> string \<Rightarrow> string \<Rightarrow> rat \<Rightarrow> Attestation \<Rightarrow> SessionGrant" where
  "open_answer cfg request validator host_key expires evidence =
     \<lparr>sg_ssh_username = cfg_ssh_user cfg, sg_ssh_port = cfg_ssh_port cfg, sg_ssh_host_key = host_key,
      sg_python_path = cfg_python_path cfg, sg_root_dir = cfg_root_dir cfg,
      sg_port_range = cfg_port_range cfg, sg_validator = validator, sg_expires_at = iso_utc expires,
      sg_gpu_attestation = Attestation_payload evidence, sg_tdx_quote = at_tdx_quote evidence,
      sg_session_id = take 16 (so_nonce request)\<rparr>"

definition grants_open ::
  "(string \<Rightarrow> nat list) \<Rightarrow> keypair_verify \<Rightarrow> Settings \<Rightarrow> Hardware \<Rightarrow> SessionOpen \<Rightarrow> string list \<Rightarrow> rat \<Rightarrow> Grants
    \<Rightarrow> Grants \<times> (grant_error + SessionGrant)" where
  "grants_open sha256 kp_verify cfg hw request hotkeys now g =
     (case open_check kp_verify request hotkeys now g of
        (g1, Inl e) \<Rightarrow> (g1, Inl e)
      | (g1, Inr (key, validator)) \<Rightarrow>
          (let session_id = take 16 (so_nonce request) in
           case open_install key session_id g1 of
             Inl e \<Rightarrow> (g1, Inl e)
           | Inr g2 \<Rightarrow>
               (let host_key = host_key_line (hw_host_key_file hw) in
                case attestation_build sha256 hw (so_nonce request) host_key now of
                  None \<Rightarrow>
                    (case keys_revoke session_id (g_keys g2) of
                       Inl _ \<Rightarrow> (g2, Inl KeyFileError)
                     | Inr (keys, _) \<Rightarrow> (g2\<lparr>g_keys := keys\<rparr>,
                         Inl (GrantError 422 ''nonce must be 32 bytes as 64 lowercase hex characters'')))
                | Some evidence \<Rightarrow>
                    (open_register request key validator now (at_tdx_quote evidence \<noteq> []) g2,
                     Inr (open_answer cfg request validator host_key (now + g_ttl g2) evidence)))))"

section \<open>Closing and sweeping\<close>

definition matching :: "SessionClose \<Rightarrow> Grants \<Rightarrow> string list" where
  "matching request g =
     (let key = (if sc_public_key request \<noteq> [] then canonical (sc_public_key request) else None);
          found = map fst (filter (\<lambda>(sid, session).
            (sc_session_id request \<noteq> [] \<and> sid = sc_session_id request) \<or>
            (key \<noteq> None \<and> key = Some (os_public_key session))) (g_open g))
      in if sc_session_id request \<noteq> [] \<and> sc_session_id request \<notin> set found
         then found @ [sc_session_id request] else found)"

definition close_one :: "string \<Rightarrow> string \<Rightarrow> Grants \<times> nat \<Rightarrow> grant_error + Grants \<times> nat" where
  "close_one validator session_id s =
     (case s of (g, revoked) \<Rightarrow>
        (case keys_revoke session_id (g_keys g) of
           Inl _ \<Rightarrow> Inl KeyFileError
         | Inr (keys, r) \<Rightarrow>
             Inr (log_event ''session.close'' [(''session'', PStr session_id), (''validator'', PStr validator)]
                    (g\<lparr>g_keys := keys, g_open := AList.delete session_id (g_open g)\<rparr>),
                  if r then revoked + 1 else revoked)))"

definition grants_close :: "SessionClose \<Rightarrow> string \<Rightarrow> Grants \<Rightarrow> grant_error + Grants \<times> nat" where
  "grants_close request validator g = rfold (close_one validator) (matching request g) (g, 0)"

text \<open>The sweep: forget what expired and remember what is known, withdraw the keys of what expired,
  then withdraw every marked key of an unknown session.\<close>

definition expired_sessions :: "rat \<Rightarrow> Grants \<Rightarrow> string list" where
  "expired_sessions moment g = map fst (filter (\<lambda>(sid, session). os_expires_at session \<le> moment) (g_open g))"

definition sweep_snapshot :: "rat \<Rightarrow> Grants \<Rightarrow> Grants \<times> string list \<times> string list" where
  "sweep_snapshot moment g =
     (let expired = expired_sessions moment g; kept = foldl (\<lambda>d sid. AList.delete sid d) (g_open g) expired
      in (g\<lparr>g_open := kept\<rparr>, expired, map fst kept))"

definition sweep_expired_one :: "string \<Rightarrow> Grants \<times> nat \<Rightarrow> grant_error + Grants \<times> nat" where
  "sweep_expired_one session_id s =
     (case s of (g, revoked) \<Rightarrow>
        (case keys_revoke session_id (g_keys g) of
           Inl _ \<Rightarrow> Inl KeyFileError
         | Inr (keys, r) \<Rightarrow>
             Inr (log_event ''session.expire'' [(''session'', PStr session_id)] (g\<lparr>g_keys := keys\<rparr>),
                  if r then revoked + 1 else revoked)))"

definition sweep_orphan_one :: "string list \<Rightarrow> string \<Rightarrow> Grants \<times> nat \<Rightarrow> grant_error + Grants \<times> nat" where
  "sweep_orphan_one known session_id s =
     (case s of (g, revoked) \<Rightarrow>
        if session_id \<in> set known then Inr (g, revoked)
        else (case keys_revoke session_id (g_keys g) of
           Inl _ \<Rightarrow> Inl KeyFileError
         | Inr (keys, r) \<Rightarrow>
             (let g1 = g\<lparr>g_keys := keys\<rparr> in
              if r then Inr (log_event ''session.orphan_revoked'' [(''session'', PStr session_id)] g1, revoked + 1)
              else Inr (g1, revoked))))"

definition sweep_orphans :: "string list \<Rightarrow> Grants \<times> nat \<Rightarrow> grant_error + Grants \<times> nat" where
  "sweep_orphans known s = rfold (sweep_orphan_one known) (active_sessions (g_keys (fst s))) s"

definition grants_sweep :: "rat \<Rightarrow> Grants \<Rightarrow> grant_error + Grants \<times> nat" where
  "grants_sweep moment g =
     (case sweep_snapshot moment g of (g1, expired, known) \<Rightarrow>
        rbind (rfold sweep_expired_one expired (g1, 0)) (\<lambda>s.
        rbind (sweep_orphans known s) (\<lambda>(g2, revoked).
          Inr (g2\<lparr>g_nonces := fst (nonce_expire moment (g_nonces g2))\<rparr>, revoked))))"

definition grants_revoke_all :: "Grants \<Rightarrow> grant_error + Grants \<times> nat" where
  "grants_revoke_all g =
     (let g1 = g\<lparr>g_open := []\<rparr> in
      case keys_revoke_all (g_keys g1) of
        Inl _ \<Rightarrow> Inl KeyFileError
      | Inr (keys, removed) \<Rightarrow>
          (let g2 = g1\<lparr>g_keys := keys\<rparr> in
           if removed \<noteq> 0
           then Inr (log_event ''session.revoke_all'' [(''removed'', PInt (int removed))] g2, removed)
           else Inr (g2, removed)))"

definition grants_active :: "Grants \<Rightarrow> pydict list" where
  "grants_active g = map (\<lambda>(sid, session). OpenSession_payload session) (g_open g)"

definition grants_len :: "Grants \<Rightarrow> nat" where
  "grants_len g = length (g_open g)"


section \<open>Facts\<close>

lemma log_event_simps [simp]:
  "g_open (log_event k fs g) = g_open g" "g_keys (log_event k fs g) = g_keys g"
  "g_nonces (log_event k fs g) = g_nonces g" "g_ttl (log_event k fs g) = g_ttl g"
  "g_events (log_event k fs g) = g_events g @ [(k, fs)]"
  by (simp_all add: log_event_def)

text \<open>Every registered session has an identifier the agent makes.\<close>

definition grants_inv :: "Grants \<Rightarrow> bool" where
  "grants_inv g \<longleftrightarrow> wf_dict (g_open g) \<and> nonce_inv (g_nonces g) \<and>
     (\<forall>(sid, session) \<in> set (g_open g). session_id_ok sid \<and> os_session_id session = sid)"

lemma nonce_session_id: "NONCE_PATTERN n \<Longrightarrow> session_id_ok (take 16 n)"
  using set_take_subset_set_take [of 16 64 n]
  by (auto simp: NONCE_PATTERN_def session_id_ok_def list_all_iff)

lemma attestation_total:
  assumes "well_formed_nonce n"
  shows "\<exists>e. attestation_build sha256 hw n hk now = Some e \<and> bound_to e (lower (strip n))
    \<and> at_report_data_hex e = tohex (report_data sha256 (at_host_key e) (lower (strip n)))
    \<and> (hk \<noteq> [] \<longrightarrow> at_host_key e = hk)"
proof -
  obtain h where h: "length h = 64" "list_all is_lower_hex h" "n = h \<or> n = h @ newline"
    using assms by (auto simp: well_formed_nonce_def NONCE_PATTERN_cases)
  have ns: "\<And>c. c \<in> set h \<Longrightarrow> \<not> is_space c" using h(2) lower_hex_not_space by (auto simp: list_all_iff)
  have sp: "strip n = h"
  proof -
    have "strip h = h" using ns by (rule strip_no_space)
    moreover have "strip (h @ newline) = h"
    proof -
      obtain c cs where hc: "h = c # cs" using h(1) by (cases h) auto
      have "lstrip (h @ newline) = h @ newline" using ns hc by (simp add: lstrip_def)
      moreover have "dropWhile is_space (rev h) = rev h"
        using ns h(1) by (subst dropWhile_eq_self_iff) (metis hd_in_set set_rev)
      ultimately show ?thesis by (simp add: strip_def rstrip_def is_space_def)
    qed
    ultimately show ?thesis using h(3) by auto
  qed
  have lh: "lower_char c = c" if "is_lower_hex c" for c
    using that by (auto simp: lower_char_def is_lower_hex_def Let_def)
  have "lower h = h" using h(2) lh by (auto simp: lower_def list_all_iff intro!: map_idI)
  then have "well_formed_nonce (lower (strip n))" "lower (strip n) \<noteq> []"
    using h(1,2) sp by (auto simp: well_formed_nonce_def NONCE_PATTERN_def at_dollar_def)
  then show ?thesis by (auto simp: attestation_build_def Let_def bound_to_def)
qed

lemma open_check_keeps:
  assumes "open_check kp_verify request hotkeys now g = (g1, r)"
  shows "g_keys g1 = g_keys g" "g_open g1 = g_open g" "g_ttl g1 = g_ttl g" "g_events g1 = g_events g"
    "nonce_inv (g_nonces g) \<Longrightarrow> nonce_inv (g_nonces g1)"
  using assms nonce_inv_accept [of "g_nonces g" "so_nonce request" now]
  by (auto simp: open_check_def Let_def split: if_splits option.splits prod.splits)

lemma open_check_Inr:
  assumes "open_check kp_verify request hotkeys now g = (g1, Inr (key, validator))"
  shows "SessionOpen_problems request = [] \<and> canonical (so_public_key request) = Some key
    \<and> validator \<in> set hotkeys
    \<and> verify_hotkey kp_verify validator (SessionOpen_blob request) (so_signature request)
    \<and> snd (nonce_accept (so_nonce request) now (g_nonces g))
    \<and> g_nonces g1 = fst (nonce_accept (so_nonce request) now (g_nonces g))"
  using assms signer_sound [of kp_verify hotkeys "SessionOpen_blob request" "so_signature request" validator]
  by (auto simp: open_check_def Let_def split: if_splits option.splits prod.splits)

lemma problems_nonce: "SessionOpen_problems request = [] \<Longrightarrow> well_formed_nonce (so_nonce request)"
  by (auto simp: SessionOpen_problems_def split: if_splits)

lemma open_install_Inr:
  assumes "session_id_ok sid" "open_install key sid g = Inr g2"
  shows "\<exists>line. keys_grant key sid (g_keys g) = Inr (g_keys g2, line) \<and> lines_of sid (g_keys g2) = [line]
    \<and> g_open g2 = g_open g \<and> g_nonces g2 = g_nonces g \<and> g_ttl g2 = g_ttl g"
  using assms keys.grant_lines [OF assms(1)]
  by (auto simp: open_install_def split: sum.splits prod.splits)


text \<open>The revocation loops. \<open>K\<close> reads off what one session has.\<close>

lemma rfold_clears:
  assumes "rfold step xs s = Inr t"
    and "\<And>x s t. x \<in> set xs \<Longrightarrow> step x s = Inr t \<Longrightarrow> K t = (if C x then [] else K s)"
  shows "K t = (if \<exists>x \<in> set xs. C x then [] else K s)"
  using assms
proof (induction xs arbitrary: s)
  case (Cons x xs)
  then obtain u where u: "step x s = Inr u" "rfold step xs u = Inr t" by (auto simp: result_simps)
  have "K u = (if C x then [] else K s)" using Cons.prems(2) [of x s u] u(1) by simp
  then show ?case using Cons.IH [OF u(2)] Cons.prems(2) by auto
qed simp

lemma rfold_keeps:
  assumes "rfold step xs s = Inr t" "\<And>x s t. step x s = Inr t \<Longrightarrow> P t = P s"
  shows "P t = P s"
  using rfold_invariant [OF assms(1), of "\<lambda>u. P u = P s"] assms(2) by simp

lemma revoke_lines_if:
  assumes "session_id_ok sid" "after_last MARKER x = None" "keys_revoke x f = Inr (g, r)"
  shows "lines_of sid g = (if x = sid then [] else lines_of sid f)"
  using keys.revoke_lines revoke_keeps_other assms by (cases "x = sid") auto

lemma expired_loop:
  assumes "rfold sweep_expired_one xs s = Inr t"
  shows "g_open (fst t) = g_open (fst s)" "g_nonces (fst t) = g_nonces (fst s)"
    "session_id_ok sid \<Longrightarrow> \<forall>x \<in> set xs. after_last MARKER x = None \<Longrightarrow>
      lines_of sid (g_keys (fst t)) = (if sid \<in> set xs then [] else lines_of sid (g_keys (fst s)))"
proof -
  have step: "g_open (fst u) = g_open (fst s) \<and> g_nonces (fst u) = g_nonces (fst s)"
    if "sweep_expired_one x s = Inr u" for x s u
    using that by (auto simp: sweep_expired_one_def split: prod.splits sum.splits)
  show "g_open (fst t) = g_open (fst s)" "g_nonces (fst t) = g_nonces (fst s)"
    using rfold_keeps [OF assms, of "\<lambda>u. g_open (fst u)"] rfold_keeps [OF assms, of "\<lambda>u. g_nonces (fst u)"]
      step by auto
  assume ok: "session_id_ok sid" "\<forall>x \<in> set xs. after_last MARKER x = None"
  have "lines_of sid (g_keys (fst u)) = (if x = sid then [] else lines_of sid (g_keys (fst s)))"
    if "x \<in> set xs" "sweep_expired_one x s = Inr u" for x s u
    using that revoke_lines_if [OF ok(1)] ok(2)
    by (auto simp: sweep_expired_one_def split: prod.splits sum.splits)
  from rfold_clears [OF assms, where K = "\<lambda>u. lines_of sid (g_keys (fst u))" and C = "\<lambda>x. x = sid", OF this]
  show "lines_of sid (g_keys (fst t)) = (if sid \<in> set xs then [] else lines_of sid (g_keys (fst s)))"
    by auto
qed

lemma orphan_loop:
  assumes "sweep_orphans known s = Inr t"
  shows "g_open (fst t) = g_open (fst s)" "g_nonces (fst t) = g_nonces (fst s)"
    "session_id_ok sid \<Longrightarrow>
      lines_of sid (g_keys (fst t)) = (if sid \<in> set known then lines_of sid (g_keys (fst s)) else [])"
proof -
  note run = assms [unfolded sweep_orphans_def]
  have step: "g_open (fst u) = g_open (fst s) \<and> g_nonces (fst u) = g_nonces (fst s)"
    if "sweep_orphan_one known x s = Inr u" for x s u
    using that by (auto simp: sweep_orphan_one_def Let_def split: prod.splits sum.splits if_splits)
  show "g_open (fst t) = g_open (fst s)" "g_nonces (fst t) = g_nonces (fst s)"
    using rfold_keeps [OF run, of "\<lambda>u. g_open (fst u)"] rfold_keeps [OF run, of "\<lambda>u. g_nonces (fst u)"]
      step by auto
  assume ok: "session_id_ok sid"
  have "lines_of sid (g_keys (fst u)) =
      (if x = sid \<and> sid \<notin> set known then [] else lines_of sid (g_keys (fst v)))"
    if "x \<in> set (active_sessions (g_keys (fst s)))" "sweep_orphan_one known x v = Inr u" for x v u
    using that revoke_lines_if [OF ok active_no_marker [OF that(1)]]
    by (auto simp: sweep_orphan_one_def Let_def split: prod.splits sum.splits if_splits)
  from rfold_clears [OF run, where K = "\<lambda>u. lines_of sid (g_keys (fst u))"
      and C = "\<lambda>x. x = sid \<and> sid \<notin> set known", OF this]
  show "lines_of sid (g_keys (fst t)) = (if sid \<in> set known then lines_of sid (g_keys (fst s)) else [])"
    using lines_active [OF ok, of "g_keys (fst s)"] by auto
qed

lemma foldl_delete: "foldl (\<lambda>d k. AList.delete k d) d ks = filter (\<lambda>(k, v). k \<notin> set ks) d"
  by (induction ks arbitrary: d) (auto simp: AList.delete_eq split_def conj_commute intro: filter_cong)

lemma snapshot_open:
  assumes "wf_dict (g_open g)"
  shows "g_open (fst (sweep_snapshot moment g)) = filter (\<lambda>(sid, session). moment < os_expires_at session) (g_open g)"
proof -
  have "k \<notin> set (expired_sessions moment g) \<longleftrightarrow> moment < os_expires_at v" if "(k, v) \<in> set (g_open g)" for k v
    using that assms by (force simp: expired_sessions_def wf_dict_def dest: eq_key_imp_eq_value)
  then show ?thesis
    by (auto simp: sweep_snapshot_def Let_def foldl_delete intro!: filter_cong)
qed

lemma snapshot_keeps: "g_keys (fst (sweep_snapshot moment g)) = g_keys g"
  "g_nonces (fst (sweep_snapshot moment g)) = g_nonces g"
  "fst (snd (sweep_snapshot moment g)) = expired_sessions moment g"
  "snd (snd (sweep_snapshot moment g)) = map fst (g_open (fst (sweep_snapshot moment g)))"
  by (simp_all add: sweep_snapshot_def Let_def)


lemma grants_sweep_Inr:
  assumes inv: "grants_inv g" and run: "grants_sweep moment g = Inr (g', n)"
  shows "g_open g' = filter (\<lambda>(sid, session). moment < os_expires_at session) (g_open g)"
    and "session_id_ok sid \<Longrightarrow> lines_of sid (g_keys g') =
      (if dhas (g_open g') sid then lines_of sid (g_keys g) else [])"
    and "g_nonces g' = fst (nonce_expire moment (g_nonces g))"
proof -
  obtain g1 expired known where snap: "sweep_snapshot moment g = (g1, expired, known)"
    by (cases "sweep_snapshot moment g") auto
  obtain s where s: "rfold sweep_expired_one expired (g1, 0) = Inr s"
    and "\<exists>t. sweep_orphans known s = Inr t \<and> g' = (fst t)\<lparr>g_nonces := fst (nonce_expire moment (g_nonces (fst t)))\<rparr>"
    using run by (auto simp: grants_sweep_def snap result_simps split: prod.splits)
  then obtain t where t: "sweep_orphans known s = Inr t"
    and g': "g' = (fst t)\<lparr>g_nonces := fst (nonce_expire moment (g_nonces (fst t)))\<rparr>" by blast
  have g1: "g_keys g1 = g_keys g" "g_nonces g1 = g_nonces g" "expired = expired_sessions moment g"
    "known = map fst (g_open g1)"
    using snapshot_keeps [of moment g] by (simp_all add: snap)
  have wf: "wf_dict (g_open g)" using inv by (simp add: grants_inv_def)
  have o1: "g_open g1 = filter (\<lambda>(sid, session). moment < os_expires_at session) (g_open g)"
    using snapshot_open [OF wf, of moment] by (simp add: snap)
  show o: "g_open g' = filter (\<lambda>(sid, session). moment < os_expires_at session) (g_open g)"
    using expired_loop(1) [OF s] orphan_loop(1) [OF t] o1 g' by simp
  show "g_nonces g' = fst (nonce_expire moment (g_nonces g))"
    using expired_loop(2) [OF s] orphan_loop(2) [OF t] g1 g' by simp
  have ids: "\<forall>x \<in> set expired. after_last MARKER x = None"
    using inv session_id_facts(1) by (auto simp: g1(3) expired_sessions_def grants_inv_def)
  show "lines_of sid (g_keys g') = (if dhas (g_open g') sid then lines_of sid (g_keys g) else [])"
    if ok: "session_id_ok sid"
  proof -
    have "sid \<notin> set expired" if "dhas (g_open g') sid"
      using that wf by (force simp: o g1(3) expired_sessions_def dhas_iff dkeys_def wf_dict_def
          dest: eq_key_imp_eq_value)
    moreover have "sid \<in> set known \<longleftrightarrow> dhas (g_open g') sid"
      by (simp add: g1(4) o o1 dhas_iff dkeys_def)
    ultimately show ?thesis
      using orphan_loop(3) [OF t ok] expired_loop(3) [OF s ok ids] g1(1) g' by simp
  qed
qed

lemma open_register_simps [simp]:
  "g_keys (open_register request key validator now tdx g) = g_keys g"
  "g_nonces (open_register request key validator now tdx g) = g_nonces g"
  "g_open (open_register request key validator now tdx g) =
     AList.update (take 16 (so_nonce request))
       \<lparr>os_session_id = take 16 (so_nonce request), os_public_key = key, os_validator = validator,
        os_nonce = so_nonce request, os_opened_at = now, os_expires_at = now + g_ttl g\<rparr> (g_open g)"
  by (simp_all add: open_register_def Let_def)

section \<open>Properties\<close>

text \<open>C13: What a successful \<^verbatim>\<open>/session/open\<close> gives: the request's blob is signed by one of the active
  hotkeys, which the grant names; the nonce was not used before; the key file has exactly one line
  for the new session, carrying the requested key, and the lines of the other sessions are as before;
  the session is registered until its time to live has passed; and the attestation in the answer is
  bound to the nonce and carries the report data of the host key and that nonce.\<close>

theorem open_session_grants:
  assumes "grants_inv g"
    and "grants_open sha256 kp_verify cfg hw request hotkeys now g = (g', Inr grant)"
  shows "\<exists>key e. canonical (so_public_key request) = Some key
    \<and> sg_validator grant \<in> set hotkeys
    \<and> verify_hotkey kp_verify (sg_validator grant) (SessionOpen_blob request) (so_signature request)
    \<and> snd (nonce_accept (so_nonce request) now (g_nonces g))
    \<and> sg_session_id grant = take 16 (so_nonce request)
    \<and> lines_of (sg_session_id grant) (g_keys g') = [grant_line key (sg_session_id grant)]
    \<and> (\<forall>sid. session_id_ok sid \<and> sid \<noteq> sg_session_id grant \<longrightarrow> lines_of sid (g_keys g') = lines_of sid (g_keys g))
    \<and> (\<exists>session. map_of (g_open g') (sg_session_id grant) = Some session
        \<and> os_public_key session = key \<and> os_expires_at session = now + g_ttl g)
    \<and> sg_gpu_attestation grant = Attestation_payload e \<and> bound_to e (lower (strip (so_nonce request)))
    \<and> at_report_data_hex e = tohex (report_data sha256 (at_host_key e) (lower (strip (so_nonce request))))
    \<and> grants_inv g'"
proof -
  let ?sid = "take 16 (so_nonce request)" and ?hk = "host_key_line (hw_host_key_file hw)"
  obtain g1 key validator where chk: "open_check kp_verify request hotkeys now g = (g1, Inr (key, validator))"
    using assms(2) by (auto simp: grants_open_def split: prod.splits sum.splits)
  note c = open_check_Inr [OF chk] and keep = open_check_keeps [OF chk]
  have nonce: "well_formed_nonce (so_nonce request)" using c problems_nonce by blast
  have ok: "session_id_ok ?sid" using nonce nonce_session_id by (simp add: well_formed_nonce_def)
  obtain e where e: "attestation_build sha256 hw (so_nonce request) ?hk now = Some e"
    "bound_to e (lower (strip (so_nonce request)))"
    "at_report_data_hex e = tohex (report_data sha256 (at_host_key e) (lower (strip (so_nonce request))))"
    using attestation_total [OF nonce] by blast
  obtain g2 where ins: "open_install key ?sid g1 = Inr g2"
    and g': "g' = open_register request key validator now (at_tdx_quote e \<noteq> []) g2"
    and grant: "grant = open_answer cfg request validator ?hk (now + g_ttl g2) e"
    using assms(2) by (auto simp: grants_open_def chk e(1) Let_def split: sum.splits)
  obtain line where line: "keys_grant key ?sid (g_keys g1) = Inr (g_keys g2, line)"
    "lines_of ?sid (g_keys g2) = [line]" "g_open g2 = g_open g1" "g_nonces g2 = g_nonces g1" "g_ttl g2 = g_ttl g1"
    using open_install_Inr [OF ok ins] by auto
  have "canonical key = Some key" using c canonical_idem by blast
  then have l: "line = grant_line key ?sid"
    using keys_grant_read [OF session_id_one_line [OF ok] line(1)] by auto
  have inv': "grants_inv g'"
    using assms(1) keep line(3,4) ok set_update_subset [of ?sid _ "g_open g"]
    by (fastforce simp: grants_inv_def g')
  have other: "\<forall>sid. session_id_ok sid \<and> sid \<noteq> ?sid \<longrightarrow> lines_of sid (g_keys g') = lines_of sid (g_keys g)"
    using keys.grant_other [OF ok _ _ line(1)] keep(1) by (simp add: g')
  have sg: "sg_validator grant = validator" "sg_session_id grant = ?sid"
    "sg_gpu_attestation grant = Attestation_payload e"
    by (simp_all add: grant open_answer_def)
  show ?thesis
    unfolding sg using c e(2,3) line(2,5) keep(3) l inv' other
    by (intro exI [of _ key] exI [of _ e]) (simp add: g' update_conv')
qed

definition demo_hw :: Hardware where
  "demo_hw = \<lparr>hw_version = ''0.2.0'', hw_hostname = ''rig'', hw_gpus = [], hw_driver = ''550'', hw_cuda = ''12'',
     hw_machine_id = ''m'', hw_boot_id = ''b'', hw_host_key_file = Some ''ssh-ed25519 HHHH rig'',
     hw_tdx_quote = (\<lambda>d. []), hw_gpu_evidence = (\<lambda>n. [])\<rparr>"

definition demo_cfg :: Settings where
  "demo_cfg = \<lparr>cfg_ssh_user = ''root'', cfg_ssh_port = 22, cfg_python_path = ''python3'', cfg_root_dir = ''/tmp'',
     cfg_port_range = []\<rparr>"

definition demo_grants :: Grants where
  "demo_grants = \<lparr>g_open = [], g_nonces = \<lparr>nb_ttl = 600, nb_seen = []\<rparr>,
     g_keys = \<lparr>kf_text = None, kf_writable = True\<rparr>, g_events = [], g_ttl = 600\<rparr>"

definition demo_request :: SessionOpen where
  "demo_request = \<lparr>so_public_key = ''ssh-ed25519 AAAA v'', so_nonce = replicate 64 CHR ''a'', so_signature = ''0x00''\<rparr>"

lemma demo_inv: "grants_inv demo_grants"
  by (simp add: grants_inv_def demo_grants_def nonce_inv_def)

theorem open_session_grants_witness:
  "\<exists>g' grant. grants_open (\<lambda>s. []) (\<lambda>h m b. Some (h = ''5V'')) demo_cfg demo_hw demo_request [''5V''] 100 demo_grants
      = (g', Inr grant)
    \<and> lines_of (sg_session_id grant) (g_keys g') = [grant_line ''ssh-ed25519 AAAA'' (sg_session_id grant)]"
proof -
  let ?run = "grants_open (\<lambda>s. []) (\<lambda>h m b. Some (h = ''5V'')) demo_cfg demo_hw demo_request [''5V''] 100 demo_grants"
  have "isl (snd ?run) = False" by code_simp
  then obtain g' grant where run: "?run = (g', Inr grant)"
    by (cases ?run) (auto simp: isl_def split: sum.splits intro: sum.exhaust)
  have "canonical (so_public_key demo_request) = Some ''ssh-ed25519 AAAA''" by code_simp
  with open_session_grants [OF demo_inv run] show ?thesis using run by auto
qed

text \<open>A refused \<^verbatim>\<open>/session/open\<close>, for whatever reason, leaves the key file, the registered sessions
  and the event log as they were: no error path leaves a key behind. Only the nonce book may change.\<close>

theorem open_refused_changes_nothing:
  assumes "grants_open sha256 kp_verify cfg hw request hotkeys now g = (g', Inl e)"
  shows "g_keys g' = g_keys g \<and> g_open g' = g_open g \<and> g_events g' = g_events g"
proof -
  obtain g1 r where chk: "open_check kp_verify request hotkeys now g = (g1, r)" by fastforce
  note keep = open_check_keeps [OF chk]
  show ?thesis
  proof (cases r)
    case (Inl x)
    then show ?thesis using assms keep by (simp add: grants_open_def chk)
  next
    case (Inr kv)
    obtain key validator where kv: "r = Inr (key, validator)" using Inr by (cases kv) auto
    then have nonce: "well_formed_nonce (so_nonce request)"
      using open_check_Inr chk problems_nonce by blast
    obtain ev where "attestation_build sha256 hw (so_nonce request) (host_key_line (hw_host_key_file hw)) now = Some ev"
      using attestation_total [OF nonce] by blast
    then show ?thesis
      using assms keep by (auto simp: grants_open_def chk kv Let_def split: sum.splits)
  qed
qed

theorem open_refused_changes_nothing_witness:
  "\<exists>g' e. grants_open (\<lambda>s. []) (\<lambda>h m b. Some False) demo_cfg demo_hw demo_request [''5V''] 100 demo_grants
      = (g', Inl e) \<and> g_keys g' = g_keys demo_grants"
proof -
  let ?run = "grants_open (\<lambda>s. []) (\<lambda>h m b. Some False) demo_cfg demo_hw demo_request [''5V''] 100 demo_grants"
  have "isl (snd ?run)" by code_simp
  then obtain g' e where run: "?run = (g', Inl e)" by (cases ?run) (auto simp: isl_def)
  then show ?thesis using open_refused_changes_nothing [OF run] by auto
qed

text \<open>C15: After a sweep that could write the key file, exactly the sessions whose time had not passed
  are registered; every session with a line in the key file is one of them, so an expired or unknown
  session has lost its access; and the lines of the sessions that stay are untouched.\<close>

theorem sweep_withdraws_expired:
  assumes "grants_inv g" and "grants_sweep moment g = Inr (g', n)"
  shows "g_open g' = filter (\<lambda>(sid, session). moment < os_expires_at session) (g_open g)
    \<and> (\<forall>sid. session_id_ok sid \<and> lines_of sid (g_keys g') \<noteq> [] \<longrightarrow>
         (\<exists>session. map_of (g_open g') sid = Some session \<and> moment < os_expires_at session))
    \<and> (\<forall>sid. session_id_ok sid \<and> dhas (g_open g') sid \<longrightarrow> lines_of sid (g_keys g') = lines_of sid (g_keys g))
    \<and> grants_inv g'"
proof -
  note sw = grants_sweep_Inr [OF assms]
  have inv: "grants_inv g'"
    using assms(1) nonce_inv_expire [of "g_nonces g" moment] by (auto simp: grants_inv_def sw(1,3))
  have "\<exists>session. map_of (g_open g') sid = Some session \<and> moment < os_expires_at session"
    if has: "session_id_ok sid" "lines_of sid (g_keys g') \<noteq> []" for sid
  proof -
    obtain session where m: "map_of (g_open g') sid = Some session"
      using has sw(2) [of sid] by (auto simp: dhas_def split: if_splits)
    then have "(sid, session) \<in> set (g_open g')" by (rule map_of_SomeD)
    then show ?thesis using m sw(1) by auto
  qed
  then show ?thesis using sw inv by auto
qed

theorem sweep_withdraws_expired_witness:
  "\<exists>g' n. grants_sweep 800 (demo_grants
        \<lparr>g_open := [(''aaaaaaaaaaaaaaaa'', \<lparr>os_session_id = ''aaaaaaaaaaaaaaaa'', os_public_key = [], os_validator = [],
            os_nonce = [], os_opened_at = 100, os_expires_at = 700\<rparr>)],
         g_keys := \<lparr>kf_text = Some ''ssh-rsa BB mt-session:aaaaaaaaaaaaaaaa'', kf_writable = True\<rparr>\<rparr>) = Inr (g', n)
    \<and> g_open g' = [] \<and> lines_of ''aaaaaaaaaaaaaaaa'' (g_keys g') = []"
proof -
  let ?s = "\<lparr>os_session_id = ''aaaaaaaaaaaaaaaa'', os_public_key = [], os_validator = [],
            os_nonce = [], os_opened_at = 100, os_expires_at = 700\<rparr>"
  let ?g = "demo_grants\<lparr>g_open := [(''aaaaaaaaaaaaaaaa'', ?s)],
         g_keys := \<lparr>kf_text = Some ''ssh-rsa BB mt-session:aaaaaaaaaaaaaaaa'', kf_writable = True\<rparr>\<rparr>"
  have ok: "session_id_ok ''aaaaaaaaaaaaaaaa''" by code_simp
  have inv: "grants_inv ?g" using ok by (simp add: grants_inv_def demo_grants_def nonce_inv_def wf_dict_def)
  have "isl (grants_sweep 800 ?g) = False" by code_simp
  then obtain g' n where run: "grants_sweep 800 ?g = Inr (g', n)"
    by (cases "grants_sweep 800 ?g") auto
  show ?thesis
    using sweep_withdraws_expired [OF inv run] run ok by (auto simp: demo_grants_def)
qed



end
