(* ===== verification/Agent_Store.thy ===== *)
theory Agent_Store
  imports Protocol_Messages "HOL-Library.Multiset"
begin

text \<open>
  What the agent keeps: the queue of messages to the pool (\<^verbatim>\<open>agent/control/queue.py\<close>), the book of
  jobs (\<^verbatim>\<open>agent/store/jobs.py\<close>) and the event file (\<^verbatim>\<open>agent/store/events.py\<close>). Every method holds a
  lock for its effect and is one step. The queue's \<^verbatim>\<open>get\<close> waits while the queue is empty: the answer
  \<open>None\<close> of the model. The JSON text of an event is the argument \<open>dumps\<close>, \<open>None\<close> when it raises.
\<close>

section \<open>The outbound queue\<close>

definition MAX_DEPTH :: nat where "MAX_DEPTH = 2000"

definition DROPPABLE :: "string list" where
  "DROPPABLE = [agent_message_value STATE, agent_message_value PING]"

definition PRECIOUS :: "string list" where
  "PRECIOUS = [agent_message_value RESULT, agent_message_value EVENT]"

definition type_in :: "string list \<Rightarrow> pydict \<Rightarrow> bool" where
  "type_in names message = (case dget message ''type'' PNone of PStr t \<Rightarrow> t \<in> set names | _ \<Rightarrow> False)"

record OutboundQueue =
  q_max_depth :: nat
  q_items :: "pydict list"
  q_dropped :: nat

fun remove_first :: "('a \<Rightarrow> bool) \<Rightarrow> 'a list \<Rightarrow> 'a list option" where
  "remove_first P [] = None"
| "remove_first P (x # xs) =
     (if P x then Some xs else (case remove_first P xs of None \<Rightarrow> None | Some ys \<Rightarrow> Some (x # ys)))"

definition drop_oldest_droppable :: "OutboundQueue \<Rightarrow> OutboundQueue \<times> bool" where
  "drop_oldest_droppable q =
     (case remove_first (type_in DROPPABLE) (q_items q) of
        None \<Rightarrow> (q, False)
      | Some items \<Rightarrow> (q\<lparr>q_items := items, q_dropped := q_dropped q + 1\<rparr>, True))"

definition q_insert :: "pydict \<Rightarrow> bool \<Rightarrow> OutboundQueue \<Rightarrow> OutboundQueue" where
  "q_insert message front q = q\<lparr>q_items := (if front then message # q_items q else q_items q @ [message])\<rparr>"

definition queue_put :: "rat \<Rightarrow> pydict \<Rightarrow> bool \<Rightarrow> OutboundQueue \<Rightarrow> OutboundQueue" where
  "queue_put now message0 front q =
     (let message = dsetdefault ''sent_at'' (PFloat (stamp now)) message0 in
      if q_max_depth q \<le> length (q_items q) \<and> \<not> type_in PRECIOUS message
      then (let (q1, freed) = drop_oldest_droppable q in
            if \<not> freed \<or> q_max_depth q1 \<le> length (q_items q1)
            then q1\<lparr>q_dropped := q_dropped q1 + 1\<rparr>
            else q_insert message front q1)
      else if q_max_depth q \<le> length (q_items q)
      then q_insert message front (fst (drop_oldest_droppable q))
      else q_insert message front q)"

definition requeue :: "pydict \<Rightarrow> OutboundQueue \<Rightarrow> OutboundQueue" where
  "requeue message q = q\<lparr>q_items := message # q_items q\<rparr>"

definition queue_get :: "OutboundQueue \<Rightarrow> (OutboundQueue \<times> pydict) option" where
  "queue_get q = (case q_items q of [] \<Rightarrow> None | m # ms \<Rightarrow> Some (q\<lparr>q_items := ms\<rparr>, m))"

definition queue_stamp :: "rat \<Rightarrow> pydict \<Rightarrow> OutboundQueue \<Rightarrow> pydict" where
  "queue_stamp now message q =
     AList.update ''forwarded_at'' (PFloat (stamp now))
       (AList.update ''queue_depth'' (PInt (int (length (q_items q)))) message)"

definition kind_count :: "pydict list \<Rightarrow> (string \<times> int) list" where
  "kind_count items =
     foldl (\<lambda>kinds item. let kind = py_str (dget item ''type'' (PStr ''?''))
                         in AList.update kind (dget kinds kind 0 + 1) kinds) [] items"

definition queue_snapshot :: "OutboundQueue \<Rightarrow> (string \<times> int) list" where
  "queue_snapshot q =
     foldl (\<lambda>d (k, n). AList.update k n d)
       [(''depth'', int (length (q_items q))), (''dropped'', int (q_dropped q))] (kind_count (q_items q))"

datatype queue_event = Put rat pydict bool | Requeue pydict | Get

text \<open>A run of the queue: its state and the messages handed out so far.\<close>

fun queue_step :: "OutboundQueue \<times> pydict list \<Rightarrow> queue_event \<Rightarrow> OutboundQueue \<times> pydict list" where
  "queue_step (q, out) (Put now message front) = (queue_put now message front q, out)"
| "queue_step (q, out) (Requeue message) = (requeue message q, out)"
| "queue_step (q, out) Get = (case queue_get q of None \<Rightarrow> (q, out) | Some (q1, m) \<Rightarrow> (q1, out @ [m]))"

text \<open>What was offered to the queue, as it is stored.\<close>

fun offered :: "queue_event \<Rightarrow> pydict list" where
  "offered (Put now message front) = [dsetdefault ''sent_at'' (PFloat (stamp now)) message]"
| "offered (Requeue message) = [message]"
| "offered Get = []"

lemma remove_first_Some:
  "remove_first P xs = Some ys \<Longrightarrow> \<exists>x. P x \<and> mset xs = add_mset x (mset ys) \<and> filter (\<lambda>x. \<not> P x) ys = filter (\<lambda>x. \<not> P x) xs"
  by (induction xs arbitrary: ys) (auto split: if_splits option.splits)

lemma remove_first_length: "remove_first P xs = Some ys \<Longrightarrow> length xs = Suc (length ys)"
  using remove_first_Some by (metis size_add_mset size_mset)

lemma precious_not_droppable: "type_in PRECIOUS m \<Longrightarrow> \<not> type_in DROPPABLE m"
  by (auto simp: type_in_def PRECIOUS_def DROPPABLE_def split: pyval.splits)

lemma drop_oldest_facts:
  assumes "drop_oldest_droppable q = (q1, freed)"
  shows "length (q_items q1) + q_dropped q1 = length (q_items q) + q_dropped q"
    and "filter (type_in PRECIOUS) (q_items q1) = filter (type_in PRECIOUS) (q_items q)"
    and "q_max_depth q1 = q_max_depth q" "length (q_items q1) \<le> length (q_items q)"
    and "freed \<Longrightarrow> length (q_items q) = Suc (length (q_items q1))"
proof -
  show "length (q_items q1) + q_dropped q1 = length (q_items q) + q_dropped q"
    "q_max_depth q1 = q_max_depth q" "length (q_items q1) \<le> length (q_items q)"
    "freed \<Longrightarrow> length (q_items q) = Suc (length (q_items q1))"
    using assms remove_first_length
    by (fastforce simp: drop_oldest_droppable_def split: option.splits)+
  have "filter (type_in PRECIOUS) ys = filter (type_in PRECIOUS) xs"
    if "remove_first (type_in DROPPABLE) xs = Some ys" for xs ys
  proof -
    have nd: "filter (\<lambda>x. \<not> type_in DROPPABLE x) ys = filter (\<lambda>x. \<not> type_in DROPPABLE x) xs"
      using remove_first_Some [OF that] by blast
    have "filter (type_in PRECIOUS) zs =
        filter (type_in PRECIOUS) (filter (\<lambda>x. \<not> type_in DROPPABLE x) zs)" for zs
      using precious_not_droppable by (auto intro!: filter_cong)
    with nd show ?thesis by metis
  qed
  then show "filter (type_in PRECIOUS) (q_items q1) = filter (type_in PRECIOUS) (q_items q)"
    using assms by (auto simp: drop_oldest_droppable_def split: option.splits)
qed

lemma put_facts:
  "length (q_items (queue_put now m front q)) + q_dropped (queue_put now m front q)
     = Suc (length (q_items q) + q_dropped q)"
  "mset (filter (type_in PRECIOUS) (q_items (queue_put now m front q))) =
     mset (filter (type_in PRECIOUS) (q_items q)) +
     mset (filter (type_in PRECIOUS) (offered (Put now m front)))"
  using drop_oldest_facts [of q "fst (drop_oldest_droppable q)" "snd (drop_oldest_droppable q)"]
  by (auto simp: queue_put_def Let_def q_insert_def simp del: mset_filter split: prod.splits)

text \<open>The queue as a machine: what was offered is queued, handed out or counted as dropped, and of
  the precious messages none is missing.\<close>

definition queue_balance :: "queue_event list \<Rightarrow> OutboundQueue \<times> pydict list \<Rightarrow> bool" where
  "queue_balance es s \<longleftrightarrow>
     length (q_items (fst s)) + q_dropped (fst s) + length (snd s) = length (concat (map offered es))
     \<and> mset (filter (type_in PRECIOUS) (q_items (fst s))) + mset (filter (type_in PRECIOUS) (snd s))
       = mset (filter (type_in PRECIOUS) (concat (map offered es)))"

lemma queue_balance_step: "queue_balance es s \<Longrightarrow> queue_balance (es @ [e]) (queue_step s e)"
  using put_facts
  by (cases s; cases e)
    (auto simp: queue_balance_def requeue_def queue_get_def split: option.splits list.splits)

lemma queue_balance_run: "queue_balance es s \<Longrightarrow> queue_balance (es @ fs) (run_events queue_step s fs)"
proof (induction fs arbitrary: es s)
  case (Cons f fs)
  then show ?case using Cons.IH [OF queue_balance_step] by simp
qed simp

lemma put_depth:
  "length (q_items (queue_put now m front q)) \<le>
     (if type_in PRECIOUS (dsetdefault ''sent_at'' (PFloat (stamp now)) m) \<and>
         remove_first (type_in DROPPABLE) (q_items q) = None
      then Suc (length (q_items q)) else max (q_max_depth q) (length (q_items q)))"
  using drop_oldest_facts [of q "fst (drop_oldest_droppable q)" "snd (drop_oldest_droppable q)"]
  by (auto simp: queue_put_def Let_def q_insert_def drop_oldest_droppable_def
      split: prod.splits option.splits)


section \<open>The book of jobs\<close>

type_synonym JobBook = "(string \<times> pydict) list"

definition jobs_entry :: "rat \<Rightarrow> JobRecord \<Rightarrow> string \<Rightarrow> pydict \<Rightarrow> pydict" where
  "jobs_entry now job source detail =
     (let entry = AList.update ''source'' (PStr source)
            (AList.update ''recorded_at'' (PFloat (py_round_to 3 now)) (JobRecord_payload job))
      in if detail \<noteq> [] then AList.update ''detail'' (PDict detail) entry else entry)"

definition jobs_record :: "rat \<Rightarrow> JobRecord \<Rightarrow> string \<Rightarrow> pydict \<Rightarrow> JobBook \<Rightarrow> JobBook \<times> pydict" where
  "jobs_record now job source detail b =
     (let entry = jobs_entry now job source detail in (AList.update (jr_job_id job) entry b, entry))"

definition jobs_forget :: "string \<Rightarrow> JobBook \<Rightarrow> JobBook \<times> bool" where
  "jobs_forget job_id b = (AList.delete job_id b, dhas b job_id)"

definition jobs_ids :: "JobBook \<Rightarrow> string list" where "jobs_ids b = dkeys b"
definition jobs_view :: "JobBook \<Rightarrow> pydict list" where "jobs_view b = map snd b"

section \<open>The event file\<close>

definition MAX_FILE_SIZE :: nat where "MAX_FILE_SIZE = 50 * 1024 * 1024"
definition KEEP_TAIL :: nat where "KEEP_TAIL = 25 * 1024 * 1024"

record EventStore =
  es_text :: string
  es_max_bytes :: nat
  es_keep_bytes :: nat
  es_writable :: bool

text \<open>\<^verbatim>\<open>data[-n:]\<close>: for \<open>n = 0\<close> Python takes the whole of it.\<close>

definition last_bytes :: "nat \<Rightarrow> 'a list \<Rightarrow> 'a list" where
  "last_bytes n data = (if n = 0 then data else drop (length data - n) data)"

fun find_char :: "char \<Rightarrow> string \<Rightarrow> nat option" where
  "find_char c [] = None"
| "find_char c (x # xs) = (if x = c then Some 0 else map_option Suc (find_char c xs))"

definition events_truncate :: "EventStore \<Rightarrow> EventStore" where
  "events_truncate s =
     (let tail = last_bytes (es_keep_bytes s) (es_text s)
      in s\<lparr>es_text := (case find_char (CHR 0x0A) tail of
            None \<Rightarrow> tail
          | Some pos \<Rightarrow> if pos < length tail - 1 then drop (pos + 1) tail else tail)\<rparr>)"

definition events_write ::
  "(pydict \<Rightarrow> string option) \<Rightarrow> rat \<Rightarrow> string \<Rightarrow> pydict \<Rightarrow> EventStore \<Rightarrow> EventStore" where
  "events_write dumps now kind fs s =
     (let rec = foldl (\<lambda>d (k, v). AList.update k v d)
            [(''ts'', PFloat (py_round_to 3 now)), (''kind'', PStr kind)] fs
      in case dumps rec of
           None \<Rightarrow> s
         | Some text \<Rightarrow>
             if \<not> es_writable s then s
             else (let s1 = s\<lparr>es_text := es_text s @ text @ newline\<rparr> in
                   if es_max_bytes s1 < length (es_text s1) then events_truncate s1 else s1))"

text \<open>Every line of the file is complete.\<close>

definition whole_lines :: "string \<Rightarrow> bool" where
  "whole_lines t = (t = [] \<or> last t = CHR 0x0A)"

lemma find_char_Some: "find_char c xs = Some n \<Longrightarrow> n < length xs \<and> xs ! n = c \<and> c \<notin> set (take n xs)"
  by (induction xs arbitrary: n) (auto split: if_splits)

lemma find_char_None: "find_char c xs = None \<longleftrightarrow> c \<notin> set xs"
  by (induction xs) auto

lemma last_bytes_suffix: "suffix (last_bytes n data) data"
  by (simp add: last_bytes_def suffix_drop)

lemma truncate_suffix: "suffix (es_text (events_truncate s)) (es_text s)"
proof -
  let ?t = "last_bytes (es_keep_bytes s) (es_text s)"
  have "suffix (es_text (events_truncate s)) ?t"
    by (simp add: events_truncate_def Let_def suffix_drop split: option.splits)
  then show ?thesis using last_bytes_suffix by (rule suffix_order.trans)
qed

lemma truncate_length:
  assumes "0 < es_keep_bytes s"
  shows "length (es_text (events_truncate s)) \<le> es_keep_bytes s"
  using assms by (auto simp: events_truncate_def Let_def last_bytes_def split: option.splits)

text \<open>The newest line survives the cut when it fits the part that is kept.\<close>

lemma truncate_keeps_newest:
  assumes "es_text s = old @ l @ newline" "whole_lines old" "CHR 0x0A \<notin> set l"
    and "Suc (length l) \<le> es_keep_bytes s"
  shows "suffix (l @ newline) (es_text (events_truncate s))"
proof -
  let ?k = "es_keep_bytes s"
  define t where "t = last_bytes ?k (es_text s)"
  define o' where "o' = drop (length old + Suc (length l) - ?k) old"
  have t: "t = o' @ l @ newline"
    using assms(1,4) by (simp add: t_def last_bytes_def o'_def)
  show ?thesis
  proof (cases "o' = []")
    case True
    have "find_char (CHR 0x0A) (l @ newline) = Some (length l)"
      using assms(3) by (induction l) auto
    then show ?thesis
      by (simp add: events_truncate_def Let_def t_def [symmetric] t True)
  next
    case False
    then have "last o' = CHR 0x0A"
      using assms(2) by (auto simp: o'_def whole_lines_def split: if_splits)
    then have nl: "CHR 0x0A \<in> set o'" using False last_in_set by metis
    then obtain pos where pos: "find_char (CHR 0x0A) o' = Some pos"
      using find_char_None by fastforce
    then have lt: "pos < length o'" using find_char_Some by blast
    have "find_char (CHR 0x0A) (o' @ ys) = Some pos" for ys
      using pos by (induction o' arbitrary: pos) (auto split: if_splits)
    then show ?thesis using lt
      by (simp add: events_truncate_def Let_def t_def [symmetric] t suffix_def)
  qed
qed

section \<open>Properties\<close>

text \<open>C25: The outbound queue loses no result and no event. Over any sequence of puts, requeues and
  gets from the empty queue, every message offered is still queued, was handed out, or is counted in
  \<^verbatim>\<open>dropped\<close>; and the results and events that are queued or were handed out are exactly, with
  multiplicity, those that were offered.\<close>

theorem queue_loses_nothing_precious:
  assumes "run_events queue_step (\<lparr>q_max_depth = depth, q_items = [], q_dropped = 0\<rparr>, []) es = (q, out)"
  shows "length (q_items q) + q_dropped q + length out = length (concat (map offered es))
    \<and> mset (filter (type_in PRECIOUS) (q_items q)) + mset (filter (type_in PRECIOUS) out)
      = mset (filter (type_in PRECIOUS) (concat (map offered es)))"
proof -
  have "queue_balance [] (\<lparr>q_max_depth = depth, q_items = [], q_dropped = 0\<rparr>, [])"
    by (simp add: queue_balance_def)
  from queue_balance_run [OF this, of es] show ?thesis by (simp add: assms queue_balance_def)
qed

theorem queue_loses_nothing_precious_witness:
  "\<exists>q out. run_events queue_step (\<lparr>q_max_depth = 1, q_items = [], q_dropped = 0\<rparr>, [])
      [Put 0 [(''type'', PStr ''state'')] False, Put 1 [(''type'', PStr ''result'')] False,
       Put 2 [(''type'', PStr ''event'')] False, Get] = (q, out)
    \<and> length (q_items q) + q_dropped q + length out = 3"
proof -
  obtain q out where r: "run_events queue_step (\<lparr>q_max_depth = 1, q_items = [], q_dropped = 0\<rparr>, [])
      [Put 0 [(''type'', PStr ''state'')] False, Put 1 [(''type'', PStr ''result'')] False,
       Put 2 [(''type'', PStr ''event'')] False, Get] = (q, out)" by fastforce
  from queue_loses_nothing_precious [OF r] show ?thesis using r by auto
qed

text \<open>The event file never grows beyond its limit and never loses the event being written: after a
  write of a record whose JSON text is one line that fits the part kept on truncation, the file is at
  most \<^verbatim>\<open>max_bytes\<close> long, ends with that record, and holds complete lines only.\<close>

theorem event_file_bounded:
  assumes "whole_lines (es_text s)" "es_writable s"
    and "0 < es_keep_bytes s" "es_keep_bytes s \<le> es_max_bytes s"
    and "\<forall>d t. dumps d = Some t \<longrightarrow> CHR 0x0A \<notin> set t \<and> Suc (length t) \<le> es_keep_bytes s"
    and "\<forall>d. dumps d \<noteq> None"
  shows "length (es_text (events_write dumps now kind fs s)) \<le> es_max_bytes s
    \<and> whole_lines (es_text (events_write dumps now kind fs s))
    \<and> (\<exists>d t. dumps d = Some t \<and> suffix (t @ newline) (es_text (events_write dumps now kind fs s)))"
proof -
  define d where "d = foldl (\<lambda>d (k, v). AList.update k v d)
    [(''ts'', PFloat (py_round_to 3 now)), (''kind'', PStr kind)] fs"
  obtain t where t: "dumps d = Some t" using assms(6) by auto
  define s1 where "s1 = s\<lparr>es_text := es_text s @ t @ newline\<rparr>"
  have w: "events_write dumps now kind fs s =
      (if es_max_bytes s < length (es_text s1) then events_truncate s1 else s1)"
    using assms(2) t by (simp add: events_write_def d_def s1_def Let_def)
  have suf: "suffix (t @ newline) (es_text (events_write dumps now kind fs s))"
  proof (cases "es_max_bytes s < length (es_text s1)")
    case True
    have "suffix (t @ newline) (es_text (events_truncate s1))"
      using assms(1,5) t by (intro truncate_keeps_newest [of s1 "es_text s"]) (simp_all add: s1_def)
    then show ?thesis using w True by simp
  next
    case False
    then show ?thesis using w by (simp add: s1_def suffix_def)
  qed
  moreover have "length (es_text (events_write dumps now kind fs s)) \<le> es_max_bytes s"
    using w truncate_length [of s1] assms(3,4) by (simp add: s1_def)
  moreover have "whole_lines (es_text (events_write dumps now kind fs s))"
    using suf by (auto simp: whole_lines_def suffix_def)
  ultimately show ?thesis using t by blast
qed

theorem event_file_bounded_witness:
  "length (es_text (events_write (\<lambda>d. Some ''{}'') 0 ''boot'' []
     \<lparr>es_text = ''{}'' @ newline @ ''{}'' @ newline, es_max_bytes = 8, es_keep_bytes = 5, es_writable = True\<rparr>)) \<le> 8"
  using event_file_bounded [of "\<lparr>es_text = ''{}'' @ newline @ ''{}'' @ newline, es_max_bytes = 8,
    es_keep_bytes = 5, es_writable = True\<rparr>" "\<lambda>d. Some ''{}''" 0 "''boot''" "[]"]
  by (simp add: whole_lines_def)

end
