(* ===== verification/Agent_Routes.thy ===== *)
theory Agent_Routes
  imports Agent_Grants Agent_Store
begin

text \<open>
  The agent's HTTP handlers that change state (\<^verbatim>\<open>agent/api/routes.py\<close>, \<^verbatim>\<open>agent/api/models.py\<close>): the
  signature check in front of every handler, the validation of the body, and the handlers of
  \<^verbatim>\<open>/session/open\<close>, \<^verbatim>\<open>/session/close\<close> and \<^verbatim>\<open>/jobs\<close>. The web framework is outside the repository: \<open>loads\<close>
  is \<^verbatim>\<open>json.loads\<close>, \<open>as_int\<close> is what the validation library makes of a value where an integer is
  declared and \<open>message\<close> the text of its first error. An answer is a status with a detail, or the
  payload of a success.
\<close>

section \<open>Bodies\<close>

type_synonym http_error = "nat \<times> string"
type_synonym json_loads = "string \<Rightarrow> pyval option"

definition parse_body ::
  "json_loads \<Rightarrow> (pydict \<Rightarrow> string) \<Rightarrow> (pydict \<Rightarrow> pydict option) \<Rightarrow> string \<Rightarrow> http_error + pydict" where
  "parse_body loads message validate body =
     (case loads (if body = [] then ''{}'' else body) of
        None \<Rightarrow> Inl (400, ''body must be JSON'')
      | Some (PDict d) \<Rightarrow> (case validate d of None \<Rightarrow> Inl (422, message d) | Some v \<Rightarrow> Inr v)
      | Some _ \<Rightarrow> Inl (422, ''body must be a JSON object''))"

text \<open>A declared text field: its default when it is missing (\<open>None\<close> when it is required), and
  the bounds on its length.\<close>

definition text_field :: "string option \<Rightarrow> nat \<Rightarrow> nat \<Rightarrow> string \<Rightarrow> pydict \<Rightarrow> string option" where
  "text_field dflt lo hi name d =
     (case map_of d name of
        None \<Rightarrow> dflt
      | Some (PStr s) \<Rightarrow> if lo \<le> length s \<and> length s \<le> hi then Some s else None
      | Some _ \<Rightarrow> None)"

definition SessionOpenBody :: "pydict \<Rightarrow> pydict option" where
  "SessionOpenBody d =
     (case (text_field None 1 4096 ''public_key'' d, text_field None 64 64 ''nonce'' d,
            text_field None 1 512 ''signature'' d) of
        (Some k, Some n, Some s) \<Rightarrow> Some [(''public_key'', PStr k), (''nonce'', PStr n), (''signature'', PStr s)]
      | _ \<Rightarrow> None)"

definition SessionCloseBody :: "pydict \<Rightarrow> pydict option" where
  "SessionCloseBody d =
     (case (text_field (Some []) 0 4096 ''public_key'' d, text_field (Some []) 0 64 ''session_id'' d) of
        (Some k, Some s) \<Rightarrow> Some [(''public_key'', PStr k), (''session_id'', PStr s)]
      | _ \<Rightarrow> None)"

definition pid_field :: "(pyval \<Rightarrow> int option) \<Rightarrow> pydict \<Rightarrow> int option" where
  "pid_field as_int d =
     (case map_of d ''pid'' of
        None \<Rightarrow> Some 0
      | Some v \<Rightarrow> (case as_int v of Some n \<Rightarrow> if 0 \<le> n then Some n else None | None \<Rightarrow> None))"

definition detail_field :: "pydict \<Rightarrow> pydict option" where
  "detail_field d = (case map_of d ''detail'' of None \<Rightarrow> Some [] | Some (PDict e) \<Rightarrow> Some e | Some _ \<Rightarrow> None)"

definition JobBody :: "(pyval \<Rightarrow> int option) \<Rightarrow> pydict \<Rightarrow> pydict option" where
  "JobBody as_int d =
     (case (text_field None 1 120 ''job_id'' d, text_field (Some []) 0 40 ''kind'' d,
            text_field (Some []) 0 40 ''subnet'' d, pid_field as_int d) of
        (Some j, Some k, Some s, Some p) \<Rightarrow>
          (case (text_field (Some []) 0 80 ''gpu_uuid'' d, text_field (Some []) 0 128 ''container'' d,
                 text_field (Some []) 0 64 ''started_at'' d, detail_field d) of
             (Some g, Some c, Some t, Some e) \<Rightarrow>
               Some [(''job_id'', PStr j), (''kind'', PStr k), (''subnet'', PStr s), (''pid'', PInt p),
                     (''gpu_uuid'', PStr g), (''container'', PStr c), (''started_at'', PStr t), (''detail'', PDict e)]
           | _ \<Rightarrow> None)
      | _ \<Rightarrow> None)"

section \<open>The runtime and its handlers\<close>

text \<open>The event store is shared with the grants: its records are \<open>g_events\<close>.\<close>

record Runtime =
  rt_validators :: ValidatorSet
  rt_window :: rat
  rt_settings :: Settings
  rt_hardware :: Hardware
  rt_grants :: Grants
  rt_jobs :: JobBook

record HttpRequest =
  rq_method :: string
  rq_path :: string
  rq_headers :: "(string \<times> string) list"
  rq_body :: string

definition require_validator :: "keypair_verify \<Rightarrow> HttpRequest \<Rightarrow> rat \<Rightarrow> Runtime \<Rightarrow> http_error + string" where
  "require_validator kp_verify rq now rt =
     check_request kp_verify (rt_validators rt) (rq_method rq) (rq_path rq) (rq_headers rq) (rq_body rq)
       (rt_window rt) now"

text \<open>\<open>late\<close>: the answer did not come within \<^verbatim>\<open>OPEN_TIMEOUT\<close>. The worker thread that runs
  \<^verbatim>\<open>Grants.open\<close> is not stopped by it, so its effects stay.\<close>

definition session_open ::
  "(string \<Rightarrow> nat list) \<Rightarrow> keypair_verify \<Rightarrow> json_loads \<Rightarrow> (pydict \<Rightarrow> string) \<Rightarrow> bool \<Rightarrow> HttpRequest \<Rightarrow> rat
    \<Rightarrow> Runtime \<Rightarrow> Runtime \<times> (http_error + pydict)" where
  "session_open sha256 kp_verify loads message late rq now rt =
     (case require_validator kp_verify rq now rt of
        Inl e \<Rightarrow> (rt, Inl e)
      | Inr validator \<Rightarrow>
          (case parse_body loads message SessionOpenBody (rq_body rq) of
             Inl e \<Rightarrow> (rt, Inl e)
           | Inr body \<Rightarrow>
               (let opening = SessionOpen_from_payload body;
                    hotkeys = validator # filter (\<lambda>k. k \<noteq> validator) (vs_list (rt_validators rt));
                    (g, result) = grants_open sha256 kp_verify (rt_settings rt) (rt_hardware rt) opening hotkeys now
                                    (rt_grants rt)
                in if late then (rt\<lparr>rt_grants := g\<rparr>, Inl (504, ''session open timed out at attestation''))
                   else (case result of
                     Inl (GrantError status detail) \<Rightarrow>
                       (rt\<lparr>rt_grants := log_event ''session.refused''
                           [(''validator'', PStr validator), (''status'', PInt (int status)), (''detail'', PStr detail)] g\<rparr>,
                        Inl (status, detail))
                   | Inl KeyFileError \<Rightarrow> (rt\<lparr>rt_grants := g\<rparr>, Inl (500, ''Internal Server Error''))
                   | Inr grant \<Rightarrow> (rt\<lparr>rt_grants := g\<rparr>, Inr (SessionGrant_payload grant))))))"

text \<open>When the key file cannot be written the request fails with status 500; the sessions closed
  before the failing one stay closed.\<close>

fun closed_so_far :: "string \<Rightarrow> string list \<Rightarrow> Grants \<Rightarrow> Grants" where
  "closed_so_far validator [] g = g"
| "closed_so_far validator (sid # sids) g =
     (case close_one validator sid (g, 0) of Inl _ \<Rightarrow> g | Inr (g', _) \<Rightarrow> closed_so_far validator sids g')"

definition session_close ::
  "keypair_verify \<Rightarrow> json_loads \<Rightarrow> (pydict \<Rightarrow> string) \<Rightarrow> HttpRequest \<Rightarrow> rat \<Rightarrow> Runtime
    \<Rightarrow> Runtime \<times> (http_error + pydict)" where
  "session_close kp_verify loads message rq now rt =
     (case require_validator kp_verify rq now rt of
        Inl e \<Rightarrow> (rt, Inl e)
      | Inr validator \<Rightarrow>
          (case parse_body loads message SessionCloseBody (rq_body rq) of
             Inl e \<Rightarrow> (rt, Inl e)
           | Inr body \<Rightarrow>
               (let closing = SessionClose_from_payload body in
                if sc_public_key closing = [] \<and> sc_session_id closing = []
                then (rt, Inl (422, ''public_key or session_id required''))
                else (case grants_close closing validator (rt_grants rt) of
                  Inl _ \<Rightarrow> (rt\<lparr>rt_grants := closed_so_far validator (matching closing (rt_grants rt)) (rt_grants rt)\<rparr>,
                            Inl (500, ''Internal Server Error''))
                | Inr (g, revoked) \<Rightarrow> (rt\<lparr>rt_grants := g\<rparr>, Inr [(''revoked'', PInt (int revoked))])))))"

definition post_jobs ::
  "keypair_verify \<Rightarrow> json_loads \<Rightarrow> (pydict \<Rightarrow> string) \<Rightarrow> (pyval \<Rightarrow> int option) \<Rightarrow> HttpRequest \<Rightarrow> rat \<Rightarrow> Runtime
    \<Rightarrow> Runtime \<times> (http_error + pydict)" where
  "post_jobs kp_verify loads message as_int rq now rt =
     (case require_validator kp_verify rq now rt of
        Inl e \<Rightarrow> (rt, Inl e)
      | Inr validator \<Rightarrow>
          (case parse_body loads message (JobBody as_int) (rq_body rq) of
             Inl e \<Rightarrow> (rt, Inl e)
           | Inr body \<Rightarrow>
               (let job = JobRecord_from_payload body;
                    (book, entry) = jobs_record now job validator (dict_field body ''detail'') (rt_jobs rt)
                in (rt\<lparr>rt_jobs := book,
                       rt_grants := log_event ''job.record''
                         [(''job'', PStr (jr_job_id job)), (''job_kind'', PStr (jr_kind job)), (''pid'', PInt (jr_pid job)),
                          (''validator'', PStr validator)] (rt_grants rt)\<rparr>,
                    Inr [(''recorded'', PStr (jr_job_id job)), (''jobs'', PInt (int (length book)))]))))"

section \<open>Facts\<close>

lemma require_validator_Inr:
  assumes "require_validator kp_verify rq now rt = Inr h"
  shows "h \<in> vs_hotkeys (rt_validators rt) \<and> h = header (rq_headers rq) HEADER_HOTKEY
    \<and> auth_fresh (header (rq_headers rq) HEADER_TIMESTAMP) (rt_window rt) now
    \<and> verify_hotkey kp_verify h
        (signing_bytes (rq_method rq) (rq_path rq) (header (rq_headers rq) HEADER_TIMESTAMP) (rq_body rq))
        (header (rq_headers rq) HEADER_SIGNATURE)"
  using assms by (auto simp: require_validator_def check_request_Inr auth_fresh_def)

lemma handlers_refuse:
  assumes "require_validator kp_verify rq now rt = Inl e"
  shows "session_open sha256 kp_verify loads message late rq now rt = (rt, Inl e)"
    "session_close kp_verify loads message rq now rt = (rt, Inl e)"
    "post_jobs kp_verify loads message as_int rq now rt = (rt, Inl e)"
  using assms by (simp_all add: session_open_def session_close_def post_jobs_def)

section \<open>Properties\<close>

text \<open>C3: Nothing changes on an agent without a signature: when opening a session, closing one or
  recording a job changes the runtime, the request carries a hotkey of the agent's validator set, a
  fresh stamp, and a signature that verifies for that hotkey over the method, path, stamp and body of
  this very request.\<close>

theorem state_changes_only_when_signed:
  assumes "fst (session_open sha256 kp_verify loads message late rq now rt) \<noteq> rt
    \<or> fst (session_close kp_verify loads message rq now rt) \<noteq> rt
    \<or> fst (post_jobs kp_verify loads message as_int rq now rt) \<noteq> rt"
  shows "\<exists>h \<in> vs_hotkeys (rt_validators rt). auth_fresh (header (rq_headers rq) HEADER_TIMESTAMP) (rt_window rt) now
    \<and> verify_hotkey kp_verify h
        (signing_bytes (rq_method rq) (rq_path rq) (header (rq_headers rq) HEADER_TIMESTAMP) (rq_body rq))
        (header (rq_headers rq) HEADER_SIGNATURE)"
proof (cases "require_validator kp_verify rq now rt")
  case (Inl e)
  then show ?thesis using assms by (simp add: handlers_refuse)
next
  case (Inr h)
  then show ?thesis using require_validator_Inr by blast
qed

definition demo_runtime :: Runtime where
  "demo_runtime =
     \<lparr>rt_validators = \<lparr>vs_hotkeys = {''5V''}, vs_updated_at = 0, vs_source = ''server'', vs_file = None, vs_path = False\<rparr>,
      rt_window = 30, rt_settings = demo_cfg, rt_hardware = demo_hw, rt_grants = demo_grants, rt_jobs = []\<rparr>"

definition demo_signed :: HttpRequest where
  "demo_signed =
     \<lparr>rq_method = ''POST'', rq_path = ''/jobs'',
      rq_headers = [(HEADER_HOTKEY, ''5V''), (HEADER_TIMESTAMP, ''100.000''), (HEADER_SIGNATURE, ''0x07'')],
      rq_body = ''{..}''\<rparr>"

lemma demo_require:
  assumes "kp_verify ''5V'' (signing_bytes ''POST'' ''/jobs'' ''100.000'' ''{..}'') [7] = Some True"
  shows "require_validator kp_verify demo_signed 110 demo_runtime = Inr ''5V''"
proof -
  have hs: "header (rq_headers demo_signed) HEADER_TIMESTAMP = ''100.000''"
    "header (rq_headers demo_signed) HEADER_SIGNATURE = ''0x07''"
    "header (rq_headers demo_signed) HEADER_HOTKEY = ''5V''" by code_simp+
  have "float_of_str ''100.000'' = Inr 100"
    using float_of_decimal [of "''100''" "''000''"] by (simp add: is_digit_def digits_val_def)
  moreover have "''0x07'' = ''0x'' @ tohex [7]" by code_simp
  ultimately show ?thesis
    using verify_hotkey_hex [of "''5V''" "[7]" kp_verify, OF _ _ _ assms]
    by (simp add: require_validator_def check_request_Inr hs) (simp add: demo_signed_def demo_runtime_def)
qed

theorem state_changes_only_when_signed_witness:
  "\<exists>h \<in> vs_hotkeys (rt_validators demo_runtime).
     verify_hotkey (\<lambda>h m b. Some (h = ''5V'' \<and> b = [7])) h (signing_bytes ''POST'' ''/jobs'' ''100.000'' ''{..}'') ''0x07''"
proof -
  let ?post = "post_jobs (\<lambda>h m b. Some (h = ''5V'' \<and> b = [7])) (\<lambda>s. Some (PDict [(''job_id'', PStr ''j1'')])) (\<lambda>d. [])
    (\<lambda>v. None) demo_signed 110 demo_runtime"
  have "rt_jobs (fst ?post) \<noteq> []"
    unfolding post_jobs_def demo_require [of "\<lambda>h m b. Some (h = ''5V'' \<and> b = [7])", simplified] by code_simp
  then have ne: "fst ?post \<noteq> demo_runtime" by (auto simp: demo_runtime_def)
  have hs: "header (rq_headers demo_signed) HEADER_TIMESTAMP = ''100.000''"
    "header (rq_headers demo_signed) HEADER_SIGNATURE = ''0x07''" by code_simp+
  from state_changes_only_when_signed [OF disjI2 [OF disjI2 [OF ne]]]
  show ?thesis by (auto simp: hs) (auto simp: demo_signed_def)
qed

text \<open>An open request that the agent answers with a timeout has the same effect as one it answers
  with a grant: the key is installed and the session registered, and stays until it expires or is
  swept, although the validator, which received no grant, sends no close request.\<close>

theorem open_timeout_keeps_session:
  assumes "session_open sha256 kp_verify loads message False rq now rt = (rt', Inr answer)"
  shows "session_open sha256 kp_verify loads message True rq now rt =
    (rt', Inl (504, ''session open timed out at attestation''))"
  using assms
  by (auto simp: session_open_def Let_def split: sum.splits prod.splits grant_error.splits)

theorem open_timeout_keeps_session_witness:
  "\<exists>rt'. session_open (\<lambda>s. []) (\<lambda>h m b. Some (h = ''5V''))
      (\<lambda>s. Some (PDict (SessionOpen_payload demo_request))) (\<lambda>d. []) True demo_signed 110 demo_runtime
      = (rt', Inl (504, ''session open timed out at attestation''))
    \<and> length (g_open (rt_grants rt')) = 1"
proof -
  let ?run = "\<lambda>late. session_open (\<lambda>s. []) (\<lambda>h m b. Some (h = ''5V''))
      (\<lambda>s. Some (PDict (SessionOpen_payload demo_request))) (\<lambda>d. []) late demo_signed 110 demo_runtime"
  have req: "require_validator (\<lambda>h m b. Some (h = ''5V'')) demo_signed 110 demo_runtime = Inr ''5V''"
    by (simp add: demo_require)
  have c: "\<not> isl (snd (?run False)) \<and> length (g_open (rt_grants (fst (?run False)))) = 1"
    unfolding session_open_def req by code_simp
  then obtain rt' answer where run: "?run False = (rt', Inr answer)"
    by (cases "?run False"; cases "snd (?run False)") auto
  have n: "length (g_open (rt_grants (fst (?run False)))) = 1" using c by blast
  show ?thesis using open_timeout_keeps_session [OF run] n run by simp
qed

end
