(* ===== verification/Session_Core.thy ===== *)
theory Session_Core
  imports Identities Protocol_Failures
begin

text \<open>
  The validator's side of a session (\<^verbatim>\<open>validator/session\<close>): results of remote commands and their
  classification, the pinned host key, the signed call to an agent and the bracket that opens and
  closes a session. The transport is outside the repository: what the agent answers to a call, what
  \<^verbatim>\<open>asyncssh.connect\<close> yields and what \<^verbatim>\<open>json.loads\<close> returns are arguments.
\<close>

section \<open>Command results\<close>

record CommandResult =
  res_command :: string
  res_exit_code :: int
  res_stdout :: string
  res_stderr :: string
  res_elapsed_ms :: rat
  res_error :: string

definition res_is_ok :: "CommandResult \<Rightarrow> bool" where
  "res_is_ok r = (res_exit_code r = 0 \<and> res_error r = [])"

definition transport_failed :: "CommandResult \<Rightarrow> bool" where
  "transport_failed r = (res_error r \<noteq> [] \<and> res_exit_code r < 0)"

text \<open>\<^verbatim>\<open>s[-chars:]\<close>.\<close>

definition tail_chars :: "nat \<Rightarrow> string \<Rightarrow> string" where
  "tail_chars n s = (if n = 0 then s else drop (length s - n) s)"

definition stderr_tail :: "nat \<Rightarrow> CommandResult \<Rightarrow> string" where
  "stderr_tail chars r = tail_chars chars (res_stderr r)"

definition TIMEOUT_EXIT :: int where "TIMEOUT_EXIT = 124"
definition TRANSPORT_EXIT :: int where "TRANSPORT_EXIT = -1"
definition SIGNAL_EXIT :: int where "SIGNAL_EXIT = 128"
definition STDERR_TAIL :: nat where "STDERR_TAIL = 2048"

text \<open>\<^verbatim>\<open>a or b\<close> on texts.\<close>

definition str_or :: "string \<Rightarrow> string \<Rightarrow> string" where
  "str_or a b = (if a \<noteq> [] then a else b)"

definition classify :: "CommandResult \<Rightarrow> string \<Rightarrow> Failure option" where
  "classify r seed =
     (if transport_failed r then Some (mk_failure SSH_TRANSPORT (res_error r) seed [])
      else if res_exit_code r = TIMEOUT_EXIT
      then Some (mk_failure AGENT_CRASH (str_or (res_error r) ''the check timed out'') seed
             [(''stderr'', PStr (stderr_tail STDERR_TAIL r))])
      else if res_exit_code r \<noteq> 0
      then Some (mk_failure AGENT_CRASH
             (take 600 (''exit '' @ show_int (res_exit_code r) @ '': '' @
                str_or (strip (stderr_tail STDERR_TAIL r)) (str_or (res_error r) ''no output'')))
             seed
             [(''exit_code'', PInt (res_exit_code r)), (''stderr'', PStr (stderr_tail STDERR_TAIL r))])
      else None)"

definition key_fields :: "string \<Rightarrow> string \<times> string" where
  "key_fields line = (case split_ws (strip line) of a # b # _ \<Rightarrow> (a, b) | _ \<Rightarrow> ([], []))"

text \<open>\<open>shown\<close> is the exported text of the key the server presented, \<open>None\<close> when there is none or it
  cannot be exported.\<close>

definition same_key :: "string option \<Rightarrow> string \<Rightarrow> bool" where
  "same_key shown granted =
     (case shown of
        None \<Rightarrow> False
      | Some s \<Rightarrow> snd (key_fields granted) \<noteq> [] \<and> key_fields (strip s) = key_fields granted)"

definition json_line :: "(string \<Rightarrow> pyval option) \<Rightarrow> string \<Rightarrow> pydict option" where
  "json_line loads line =
     (let text = strip line in
      if \<not> startswith text ''{'' \<or> \<not> endswith text ''}'' then None
      else (case loads text of Some (PDict d) \<Rightarrow> Some d | _ \<Rightarrow> None))"

fun first_json :: "(string \<Rightarrow> pyval option) \<Rightarrow> string list \<Rightarrow> pydict option" where
  "first_json loads [] = None"
| "first_json loads (l # ls) = (case json_line loads l of Some d \<Rightarrow> Some d | None \<Rightarrow> first_json loads ls)"

definition last_json_object :: "(string \<Rightarrow> pyval option) \<Rightarrow> string \<Rightarrow> pydict option" where
  "last_json_object loads stdout = first_json loads (rev (splitlines stdout))"

text \<open>The ways \<^verbatim>\<open>SshRunner.run\<close> ends, and the result it makes of each.\<close>

datatype ssh_outcome =
    TimedOut string string
  | TransportError string
  | Signalled string string "string option"
  | Exited int string string

fun ssh_run :: "string \<Rightarrow> rat \<Rightarrow> rat \<Rightarrow> ssh_outcome \<Rightarrow> CommandResult" where
  "ssh_run command timeout elapsed (TimedOut out err) =
     \<lparr>res_command = command, res_exit_code = TIMEOUT_EXIT, res_stdout = out, res_stderr = err,
      res_elapsed_ms = elapsed, res_error = ''timed out after '' @ fmt_0f timeout @ '' s''\<rparr>"
| "ssh_run command timeout elapsed (TransportError e) =
     \<lparr>res_command = command, res_exit_code = TRANSPORT_EXIT, res_stdout = [], res_stderr = [],
      res_elapsed_ms = elapsed, res_error = ''ssh transport: '' @ e\<rparr>"
| "ssh_run command timeout elapsed (Signalled out err sig) =
     \<lparr>res_command = command, res_exit_code = SIGNAL_EXIT, res_stdout = out,
      res_stderr = err @ newline @ ''killed by signal '' @ (case sig of None \<Rightarrow> ''unknown'' | Some s \<Rightarrow> s),
      res_elapsed_ms = elapsed, res_error = []\<rparr>"
| "ssh_run command timeout elapsed (Exited status out err) =
     \<lparr>res_command = command, res_exit_code = status, res_stdout = out, res_stderr = err,
      res_elapsed_ms = elapsed, res_error = []\<rparr>"

section \<open>Calls to an agent\<close>

record AgentError =
  ae_kind :: FailureClass
  ae_detail :: string
  ae_status :: int

definition agent_error :: "FailureClass \<Rightarrow> string \<Rightarrow> int \<Rightarrow> AgentError" where
  "agent_error k d s = \<lparr>ae_kind = k, ae_detail = d, ae_status = s\<rparr>"

definition AgentError_failure :: "AgentError \<Rightarrow> string \<Rightarrow> Failure" where
  "AgentError_failure e seed = mk_failure (ae_kind e) (ae_detail e) seed []"

definition connection_of :: "pydict \<Rightarrow> (string \<times> int \<times> int) pyres" where
  "connection_of rig =
     (case py_or (dget rig ''connection'' PNone) (PDict []) of
        PDict c \<Rightarrow> Inr (str_or_empty c ''address'', int_or c ''api_port'' 0, int_or c ''ssh_port'' 0)
      | _ \<Rightarrow> Inl AttributeError)"

definition base_url :: "string \<Rightarrow> int \<Rightarrow> AgentError + string" where
  "base_url address api_port =
     (if address = [] \<or> api_port = 0
      then Inl (agent_error SSH_TRANSPORT ''the rig has no address or api port on record'' 0)
      else Inr (''http://'' @ (if CHR '':'' \<in> set address then ''['' @ address @ '']'' else address) @
                '':'' @ show_int api_port))"

text \<open>The answer of the HTTP client: an error of its own, or a status with a body; the body's JSON
  form is \<open>None\<close> when it is not JSON.\<close>

datatype http_answer = HttpError string | HttpAnswer int string "pyval option"

definition answer_detail :: "string \<Rightarrow> pyval option \<Rightarrow> string" where
  "answer_detail text json =
     (let detail = take 300 text in
      case json of Some (PDict d) \<Rightarrow> py_str (dget d ''detail'' (PStr detail)) | _ \<Rightarrow> detail)"

fun call_answer :: "string \<Rightarrow> string \<Rightarrow> http_answer \<Rightarrow> AgentError + pydict" where
  "call_answer mthd path (HttpError e) = Inl (agent_error SSH_TRANSPORT (mthd @ '' '' @ path @ '': '' @ e) 0)"
| "call_answer mthd path (HttpAnswer status text json) =
     (if 400 \<le> status
      then Inl (agent_error (if 500 \<le> status then AGENT_CRASH else SSH_TRANSPORT)
             (mthd @ '' '' @ path @ '' refused with '' @ show_int status @ '': '' @ answer_detail text json) status)
      else if text = [] then Inr []
      else (case json of
              None \<Rightarrow> Inl (agent_error AGENT_CRASH (mthd @ '' '' @ path @ '': response is not JSON'') 0)
            | Some (PDict d) \<Rightarrow> Inr d
            | Some v \<Rightarrow> Inr [(''value'', v)]))"

section \<open>The session\<close>

record Session =
  s_rig_id :: string
  s_address :: string
  s_grant :: SessionGrant
  s_nonce :: string
  s_public_key :: string
  s_attestation :: Attestation
  s_bound :: bool
  s_report_data_ok :: "bool option"

definition session_python :: "Session \<Rightarrow> string" where
  "session_python s = str_or (sg_python_path (s_grant s)) ''python3''"

definition opt_bool :: "bool option \<Rightarrow> pyval" where
  "opt_bool b = (case b of None \<Rightarrow> PNone | Some x \<Rightarrow> PBool x)"

definition attestation_summary :: "Session \<Rightarrow> pydict" where
  "attestation_summary s =
     (let a = s_attestation s in
      [(''bound'', PBool (s_bound s)), (''report_data_ok'', opt_bool (s_report_data_ok s)),
       (''nonce_matches'', PBool (at_nonce a = s_nonce s)), (''agent_version'', PStr (at_agent_version a)),
       (''hostname'', PStr (at_hostname a)), (''gpus'', PInt (int (length (at_gpus a)))),
       (''driver'', PStr (at_driver a)), (''cuda'', PStr (at_cuda a)),
       (''machine_id'', PStr (at_machine_id a)), (''boot_id'', PStr (at_boot_id a)),
       (''tdx_quote'', PBool (at_tdx_quote a \<noteq> [] \<or> sg_tdx_quote (s_grant s) \<noteq> [])),
       (''session_id'', PStr (sg_session_id (s_grant s))), (''expires_at'', PStr (sg_expires_at (s_grant s)))])"

definition attestation_verdict :: "Session \<Rightarrow> string \<Rightarrow> Verdict" where
  "attestation_verdict s seed =
     mk_verdict ''attestation''
       (if \<not> s_bound s
        then Some (mk_failure SPEC_MISMATCH ''the attestation is not bound to the session nonce'' seed
               [(''attestation_nonce'', PStr (take 16 (at_nonce (s_attestation s)))),
                (''expected'', PStr (take 16 (s_nonce s)))])
        else if s_report_data_ok s = Some False
        then Some (mk_failure SPEC_MISMATCH
               ''the attestation report data does not match the host key and nonce'' seed [])
        else None)
       (attestation_summary s @
          [(''summary'', PStr (if s_bound s then ''bound to the session nonce'' else ''not bound''))]) 0"

definition report_ok :: "(string \<Rightarrow> nat list) \<Rightarrow> Attestation \<Rightarrow> string \<Rightarrow> string \<Rightarrow> bool option" where
  "report_ok sha256 a host_key nonce =
     (if at_report_data_hex a = [] then None
      else (case fromhex (at_report_data_hex a) of
              None \<Rightarrow> Some False
            | Some data \<Rightarrow> Some (report_data_matches sha256 data host_key nonce)))"

text \<open>What happens in the bracket, as the sequence of requests the agent sees. The close request is
  sent on every path after a grant was received, its own failure is suppressed.\<close>

definition SESSION_OPEN_PATH :: string where "SESSION_OPEN_PATH = ''/session/open''"
definition SESSION_CLOSE_PATH :: string where "SESSION_CLOSE_PATH = ''/session/close''"

datatype open_outcome =
    OpenCallFailed AgentError
  | BadGrant pyerr
  | NoSession AgentError
  | BodyRan Session

definition open_request :: "Identity \<Rightarrow> string \<Rightarrow> string \<Rightarrow> SessionOpen" where
  "open_request i public_key nonce =
     \<lparr>so_public_key = public_key, so_nonce = nonce, so_signature = Identity_sign i (grant_blob public_key nonce)\<rparr>"

definition make_session ::
  "(string \<Rightarrow> nat list) \<Rightarrow> (string \<Rightarrow> int \<Rightarrow> string \<Rightarrow> string \<Rightarrow> AgentError option) \<Rightarrow> string \<Rightarrow> string \<Rightarrow> int
    \<Rightarrow> string \<Rightarrow> string \<Rightarrow> SessionGrant \<Rightarrow> open_outcome" where
  "make_session sha256 connect rig_id address ssh_port public_key nonce grant =
     (if sg_ssh_username grant = [] then NoSession (agent_error SSH_TRANSPORT ''the grant names no ssh user'' 0)
      else if sg_ssh_host_key grant = [] then NoSession (agent_error SSH_TRANSPORT ''the grant carries no host key'' 0)
      else (case Attestation_from_payload (sg_gpu_attestation grant) of
        Inl e \<Rightarrow> BadGrant e
      | Inr attestation \<Rightarrow>
          (let port = (if sg_ssh_port grant \<noteq> 0 then sg_ssh_port grant else if ssh_port \<noteq> 0 then ssh_port else 22) in
           case connect address port (sg_ssh_username grant) (sg_ssh_host_key grant) of
             Some e \<Rightarrow> NoSession e
           | None \<Rightarrow> BodyRan
               \<lparr>s_rig_id = rig_id, s_address = address, s_grant = grant, s_nonce = nonce,
                s_public_key = public_key, s_attestation = attestation, s_bound = bound_to attestation nonce,
                s_report_data_ok = report_ok sha256 attestation (sg_ssh_host_key grant) nonce\<rparr>)))"

definition client_open ::
  "(string \<Rightarrow> nat list) \<Rightarrow> (string \<Rightarrow> pydict \<Rightarrow> AgentError + pydict)
    \<Rightarrow> (string \<Rightarrow> int \<Rightarrow> string \<Rightarrow> string \<Rightarrow> AgentError option) \<Rightarrow> Identity \<Rightarrow> string \<Rightarrow> string \<Rightarrow> int
    \<Rightarrow> string \<Rightarrow> string \<Rightarrow> open_outcome \<times> (string \<times> pydict) list" where
  "client_open sha256 post connect i rig_id address ssh_port public_key nonce =
     (let opening = SessionOpen_payload (open_request i public_key nonce);
          sent = [(SESSION_OPEN_PATH, opening)]
      in case post SESSION_OPEN_PATH opening of
           Inl e \<Rightarrow> (OpenCallFailed e, sent)
         | Inr answer \<Rightarrow>
             (case SessionGrant_from_payload answer of
                Inl e \<Rightarrow> (BadGrant e, sent)
              | Inr grant \<Rightarrow>
                  (make_session sha256 connect rig_id address ssh_port public_key nonce grant,
                   sent @ [(SESSION_CLOSE_PATH, SessionClose_payload
                     \<lparr>sc_public_key = public_key, sc_session_id = sg_session_id grant\<rparr>)])))"

section \<open>Facts\<close>

lemma classify_None: "classify r seed = None \<longleftrightarrow> res_exit_code r = 0"
  by (auto simp: classify_def transport_failed_def TIMEOUT_EXIT_def)

lemma classify_kind:
  "classify r seed = Some f \<Longrightarrow> f_kind f = (if transport_failed r then SSH_TRANSPORT else AGENT_CRASH)"
  by (auto simp: classify_def split: if_splits)

lemma classify_ssh_run:
  "classify (ssh_run command timeout elapsed out) seed = None \<longleftrightarrow> (\<exists>o' e. out = Exited 0 o' e)"
  by (cases out) (auto simp: classify_None TIMEOUT_EXIT_def TRANSPORT_EXIT_def SIGNAL_EXIT_def)

lemma report_data_hex_ok:
  assumes "at_report_data_hex a = tohex (report_data sha256 hk nonce)"
    and "\<forall>b \<in> set (report_data sha256 hk nonce). b < 256" and "length (report_data sha256 hk nonce) = 64"
  shows "report_ok sha256 a hk nonce = Some True"
proof -
  have "report_data sha256 hk nonce \<noteq> []" using assms(3) by auto
  then show ?thesis
    using assms fromhex_tohex [OF assms(2)]
    by (simp add: report_ok_def report_data_matches_def REPORT_DATA_BYTES_def)
qed

section \<open>Properties\<close>

text \<open>A remote command is classified as no failure exactly when it exited with status zero; a
  broken transport is never blamed on the agent, and every other ending (a timeout, a signal, a
  non-zero status) is an agent crash, never a transport fault.\<close>

theorem command_classification:
  "(classify (ssh_run command timeout elapsed outcome) seed = None \<longleftrightarrow> (\<exists>o' e. outcome = Exited 0 o' e))
   \<and> ((\<exists>e. outcome = TransportError e) \<longleftrightarrow>
        (\<exists>f. classify (ssh_run command timeout elapsed outcome) seed = Some f \<and> f_kind f = SSH_TRANSPORT))"
proof (intro conjI)
  show "classify (ssh_run command timeout elapsed outcome) seed = None \<longleftrightarrow> (\<exists>o' e. outcome = Exited 0 o' e)"
    by (rule classify_ssh_run)
  show "(\<exists>e. outcome = TransportError e) \<longleftrightarrow>
        (\<exists>f. classify (ssh_run command timeout elapsed outcome) seed = Some f \<and> f_kind f = SSH_TRANSPORT)"
    by (cases outcome) (auto simp: classify_def transport_failed_def TIMEOUT_EXIT_def TRANSPORT_EXIT_def
        SIGNAL_EXIT_def)
qed



end
