(* ===== verification/Verify_Digest.thy ===== *)
theory Verify_Digest
  imports Interfaces "HOL-Library.Word"
begin

text \<open>
  The challenge digest (\<^verbatim>\<open>validator/verify/challenge.py\<close>, \<^verbatim>\<open>validator/verify/payloads/challenge_runner.py\<close>
  and the C library \<^verbatim>\<open>challenge/src\<close>). Python's scalar functions work on unbounded integers and mask;
  numpy's arrays and the C code work on machine words. Arrays are lists; a matrix is its list of rows
  in numpy and a flat row-major list in C.
\<close>

unbundle bit_operations_syntax

section \<open>Python\<close>

definition MASK64 :: int where "MASK64 = 2 ^ 64 - 1"
definition GOLDEN :: int where "GOLDEN = 0x9E3779B97F4A7C15"
definition FNV_OFFSET :: int where "FNV_OFFSET = 0xCBF29CE484222325"
definition FNV_PRIME :: int where "FNV_PRIME = 0x100000001B3"

definition mix64 :: "int \<Rightarrow> int" where
  "mix64 z0 =
     (let z1 = ((z0 XOR drop_bit 30 z0) * 0xBF58476D1CE4E5B9) AND MASK64;
          z2 = ((z1 XOR drop_bit 27 z1) * 0x94D049BB133111EB) AND MASK64
      in z2 XOR drop_bit 31 z2)"

definition seed_state :: "int \<Rightarrow> int \<Rightarrow> int" where
  "seed_state seed cipher =
     (mix64 (seed XOR 0xA5A5A5A5A5A5A5A5) + mix64 ((cipher * GOLDEN) AND MASK64)) AND MASK64"

definition fnv_byte :: "int \<Rightarrow> int \<Rightarrow> nat \<Rightarrow> int" where
  "fnv_byte item value i = ((value XOR (drop_bit (8 * i) item AND 0xFF)) * FNV_PRIME) AND MASK64"

definition fnv_u32 :: "int \<Rightarrow> int \<Rightarrow> int" where
  "fnv_u32 value item = foldl (fnv_byte item) value [0..<4]"

definition fnv_u64 :: "int \<Rightarrow> int \<Rightarrow> int" where
  "fnv_u64 value item = foldl (fnv_byte item) value [0..<8]"

text \<open>The numpy part: the matrix, its repeated squaring, and the hashes of all rows at once, one
  column and one byte at a time.\<close>

definition np_element :: "64 word \<Rightarrow> nat \<Rightarrow> 32 word" where
  "np_element state index =
     (let z0 = state + of_nat index * 0x9E3779B97F4A7C15;
          z1 = (z0 XOR drop_bit 30 z0) * 0xBF58476D1CE4E5B9;
          z2 = (z1 XOR drop_bit 27 z1) * 0x94D049BB133111EB;
          z3 = z2 XOR drop_bit 31 z2
      in ucast (z3 AND 0xFFFFFFFF))"

definition reshape :: "nat \<Rightarrow> 'a list \<Rightarrow> 'a list list" where
  "reshape n xs = map (\<lambda>i. map (\<lambda>j. xs ! (i * n + j)) [0..<n]) [0..<n]"

definition np_matrix :: "64 word \<Rightarrow> nat \<Rightarrow> 32 word list list" where
  "np_matrix state n = reshape n (map (np_element state) [1..<n * n + 1])"

definition np_square :: "nat \<Rightarrow> 32 word list list \<Rightarrow> 32 word list list" where
  "np_square n m =
     map (\<lambda>i. map (\<lambda>j. ucast (sum_list (map (\<lambda>k. (ucast (m ! i ! k) :: 64 word) * ucast (m ! k ! j)) [0..<n])))
       [0..<n]) [0..<n]"

definition np_hash_byte :: "64 word list \<Rightarrow> nat \<Rightarrow> 64 word list \<Rightarrow> 64 word list" where
  "np_hash_byte values i rows =
     map (\<lambda>r. r * 0x100000001B3) (map2 (XOR) rows (map (\<lambda>v. drop_bit (8 * i) v AND 0xFF) values))"

definition np_hash_column :: "32 word list list \<Rightarrow> nat \<Rightarrow> 64 word list \<Rightarrow> 64 word list" where
  "np_hash_column m column rows =
     (let values = map (\<lambda>row. ucast (row ! column)) m
      in foldl (\<lambda>rows i. np_hash_byte values i rows) rows [0..<4])"

definition np_rows :: "nat \<Rightarrow> 32 word list list \<Rightarrow> 64 word list" where
  "np_rows n m = foldl (\<lambda>rows column. np_hash_column m column rows) (replicate n 0xCBF29CE484222325) [0..<n]"

definition reference_digest :: "int \<Rightarrow> int \<Rightarrow> nat \<Rightarrow> nat \<Rightarrow> int" where
  "reference_digest seed cipher n rounds =
     (let state = seed_state seed cipher;
          matrix = (np_square n ^^ rounds) (np_matrix (of_int state) n);
          digest = foldl (\<lambda>d r. fnv_u64 d (uint r)) FNV_OFFSET (np_rows n matrix);
          digest = fnv_u64 digest seed;
          digest = fnv_u64 digest cipher;
          digest = fnv_u32 digest (int n)
      in fnv_u32 digest (int rounds))"

section \<open>C\<close>

definition mt_mix64 :: "64 word \<Rightarrow> 64 word" where
  "mt_mix64 z0 =
     (let z1 = (z0 XOR drop_bit 30 z0) * 0xBF58476D1CE4E5B9;
          z2 = (z1 XOR drop_bit 27 z1) * 0x94D049BB133111EB
      in z2 XOR drop_bit 31 z2)"

definition mt_seed_state :: "64 word \<Rightarrow> 64 word \<Rightarrow> 64 word" where
  "mt_seed_state seed cipher =
     mt_mix64 (seed XOR 0xA5A5A5A5A5A5A5A5) + mt_mix64 (cipher * 0x9E3779B97F4A7C15)"

definition mt_element :: "64 word \<Rightarrow> 64 word \<Rightarrow> 32 word" where
  "mt_element state index = ucast (mt_mix64 (state + (index + 1) * 0x9E3779B97F4A7C15) AND 0xFFFFFFFF)"

definition mt_fnv_byte :: "64 word \<Rightarrow> 64 word \<Rightarrow> nat \<Rightarrow> 64 word" where
  "mt_fnv_byte value hash i = (hash XOR (drop_bit (8 * i) value AND 0xFF)) * 0x100000001B3"

definition mt_fnv_u32 :: "64 word \<Rightarrow> 32 word \<Rightarrow> 64 word" where
  "mt_fnv_u32 hash value =
     foldl (\<lambda>h i. (h XOR ucast (drop_bit (8 * i) value AND 0xFF)) * 0x100000001B3) hash [0..<4]"

definition mt_fnv_u64 :: "64 word \<Rightarrow> 64 word \<Rightarrow> 64 word" where
  "mt_fnv_u64 hash value = foldl (mt_fnv_byte value) hash [0..<8]"

definition mt_fold_digest :: "64 word list \<Rightarrow> nat \<Rightarrow> 64 word \<Rightarrow> 64 word \<Rightarrow> nat \<Rightarrow> 64 word" where
  "mt_fold_digest row_hashes n seed cipher rounds =
     (let digest = foldl (\<lambda>d i. mt_fnv_u64 d (row_hashes ! i)) 0xCBF29CE484222325 [0..<n];
          digest = mt_fnv_u64 digest seed;
          digest = mt_fnv_u64 digest cipher;
          digest = mt_fnv_u32 digest (of_nat n)
      in mt_fnv_u32 digest (of_nat rounds))"

text \<open>One round: the accumulator loop for every cell of the flat array.\<close>

definition mt_cell :: "nat \<Rightarrow> 32 word list \<Rightarrow> nat \<Rightarrow> nat \<Rightarrow> 32 word" where
  "mt_cell n a i j = foldl (\<lambda>acc k. acc + a ! (i * n + k) * a ! (k * n + j)) 0 [0..<n]"

definition mt_round :: "nat \<Rightarrow> 32 word list \<Rightarrow> 32 word list" where
  "mt_round n a = map (\<lambda>p. mt_cell n a (p div n) (p mod n)) [0..<n * n]"

definition mt_row_hash :: "nat \<Rightarrow> 32 word list \<Rightarrow> nat \<Rightarrow> 64 word" where
  "mt_row_hash n a i = foldl (\<lambda>h j. mt_fnv_u32 h (a ! (i * n + j))) 0xCBF29CE484222325 [0..<n]"

datatype mt_status = MT_OK "64 word" | MT_ERR_ARGS

definition mt_challenge_solve :: "64 word \<Rightarrow> 64 word \<Rightarrow> nat \<Rightarrow> nat \<Rightarrow> mt_status" where
  "mt_challenge_solve seed cipher n rounds =
     (if n < 8 \<or> 4096 < n \<or> rounds < 1 \<or> 16 < rounds then MT_ERR_ARGS
      else (let state = mt_seed_state seed cipher;
                a = (mt_round n ^^ rounds) (map (\<lambda>k. mt_element state (of_nat k)) [0..<n * n]);
                rows = map (mt_row_hash n a) [0..<n]
            in MT_OK (mt_fold_digest rows n seed cipher rounds)))"

section \<open>Masked integers are words\<close>

lemma and_MASK64: "x AND MASK64 = x mod 2 ^ 64"
  unfolding MASK64_def by (simp only: mask_eq_exp_minus_1 [symmetric] and_mask_mod_2p [symmetric]
      flip: take_bit_eq_mask take_bit_eq_mod) 

lemma uint_drop_bit: "uint (drop_bit k (w :: 64 word)) = drop_bit k (uint w)"
proof -
  have "uint w < 2 ^ 64" using uint_lt2p [of w] by simp
  then have "take_bit 64 (uint w) = uint w" by (intro take_bit_int_eq_self) auto
  then show ?thesis by (simp add: unsigned_drop_bit_eq)
qed

lemmas uint64 = uint_word_ariths unsigned_xor_eq unsigned_and_eq uint_drop_bit and_MASK64

lemma uint_mix64: "uint (mt_mix64 w) = mix64 (uint w)"
  by (simp add: mt_mix64_def mix64_def Let_def uint64)

lemma uint_seed_state: "uint (mt_seed_state s c) = seed_state (uint s) (uint c)"
  by (simp add: mt_seed_state_def seed_state_def GOLDEN_def uint64 uint_mix64)

lemma uint_fnv_byte: "uint (mt_fnv_byte v h i) = fnv_byte (uint v) (uint h) i"
  by (simp add: mt_fnv_byte_def fnv_byte_def FNV_PRIME_def uint64)

lemma foldl_uint:
  assumes "\<And>a x. f (uint a) x = uint (g a x)"
  shows "foldl f (uint a) xs = uint (foldl g a xs)"
  by (induction xs arbitrary: a) (simp_all add: assms)

lemma uint_fnv_u64: "uint (mt_fnv_u64 h v) = fnv_u64 (uint h) (uint v)"
  unfolding mt_fnv_u64_def fnv_u64_def
  by (rule foldl_uint [symmetric]) (simp add: uint_fnv_byte)

lemma uint_ucast_up: "uint (ucast (v :: 32 word) :: 64 word) = uint v"
proof -
  have "uint v < 2 ^ 32" using uint_lt2p [of v] by simp
  then have "take_bit 64 (uint v) = uint v" by (intro take_bit_int_eq_self) auto
  then show ?thesis by (simp add: unsigned_ucast_eq)
qed

lemma uint_fnv_u32: "uint (mt_fnv_u32 h (v :: 32 word)) = fnv_u32 (uint h) (uint v)"
proof -
  have "(ucast (drop_bit k v AND 0xFF) :: 64 word) = drop_bit k (ucast v) AND 0xFF" for k
    by (rule bit_eqI) (auto simp: bit_simps dest: bit_imp_le_length)
  then have "mt_fnv_u32 h v = foldl (mt_fnv_byte (ucast v)) h [0..<4]"
    by (simp add: mt_fnv_u32_def mt_fnv_byte_def [abs_def])
  moreover have "uint (ucast v :: 64 word) = uint v" by (rule uint_ucast_up)
  ultimately show ?thesis
    unfolding fnv_u32_def by (metis (mono_tags, lifting) foldl_uint uint_fnv_byte)
qed


section \<open>Squaring in wide words and truncating is squaring in narrow words\<close>

lemma of_int_mod64: "(of_int (x mod 2 ^ 64) :: 32 word) = of_int x"
proof -
  have "take_bit 32 (take_bit 64 x) = take_bit 32 x" by simp
  then show ?thesis by (simp add: word_of_int_eq_iff take_bit_eq_mod)
qed

lemma ucast_down_add: "(ucast ((a :: 64 word) + b) :: 32 word) = ucast a + ucast b"
proof -
  have "uint (a + b) = (uint a + uint b) mod 2 ^ 64" by (simp add: uint_word_ariths)
  then show ?thesis unfolding ucast_eq by (simp only: of_int_mod64 of_int_add)
qed

lemma ucast_down_mult: "(ucast ((a :: 64 word) * b) :: 32 word) = ucast a * ucast b"
proof -
  have "uint (a * b) = (uint a * uint b) mod 2 ^ 64" by (simp add: uint_word_ariths)
  then show ?thesis unfolding ucast_eq by (simp only: of_int_mod64 of_int_mult)
qed

lemma ucast_down_up: "(ucast (ucast (v :: 32 word) :: 64 word) :: 32 word) = v"
  by (rule bit_eqI) (auto simp: bit_simps dest: bit_imp_le_length)

lemma ucast_sum: "(ucast (sum_list (map f xs) :: 64 word) :: 32 word) = sum_list (map (\<lambda>x. ucast (f x)) xs)"
  by (induction xs) (simp_all add: ucast_down_add)

lemma foldl_plus: "foldl (\<lambda>acc k. acc + f k) z xs = z + sum_list (map f xs)" for z :: "'a :: comm_monoid_add"
  by (induction xs arbitrary: z) (simp_all add: ac_simps)

lemma reshape_nth: "i < n \<Longrightarrow> j < n \<Longrightarrow> reshape n xs ! i ! j = xs ! (i * n + j)"
  by (simp add: reshape_def)

lemma index_div_mod: "j < n \<Longrightarrow> (i * n + j) div n = i \<and> (i * n + j) mod n = j" for n :: nat
  by simp

lemma flat_index: "i < n \<Longrightarrow> j < n \<Longrightarrow> i * n + j < n * n" for n :: nat
proof -
  assume "i < n" "j < n"
  then have "i * n + j < (i + 1) * n" by simp
  also have "\<dots> \<le> n * n" using \<open>i < n\<close> by (intro mult_right_mono) auto
  finally show ?thesis .
qed

lemma np_square_reshape: "np_square n (reshape n a) = reshape n (mt_round n a)"
proof -
  have "ucast (sum_list (map (\<lambda>k. (ucast (reshape n a ! i ! k) :: 64 word) * ucast (reshape n a ! k ! j)) [0..<n]))
      = mt_round n a ! (i * n + j)" if "i < n" "j < n" for i j
  proof -
    have "sum_list (map (\<lambda>k. (ucast ((ucast (reshape n a ! i ! k) :: 64 word) * ucast (reshape n a ! k ! j)) :: 32 word)) [0..<n])
        = sum_list (map (\<lambda>k. a ! (i * n + k) * a ! (k * n + j)) [0..<n])"
      using that by (intro arg_cong [where f = sum_list] map_cong refl)
        (simp add: ucast_down_mult ucast_down_up reshape_nth)
    then show ?thesis
      using that flat_index [OF that] by (simp add: ucast_sum mt_round_def mt_cell_def foldl_plus)
  qed
  then show ?thesis unfolding np_square_def reshape_def [of n "mt_round n a"] by simp
qed

lemma np_rounds: "(np_square n ^^ r) (reshape n a) = reshape n ((mt_round n ^^ r) a)"
  by (induction r) (simp_all add: np_square_reshape)

lemma np_matrix_reshape:
  "np_matrix state n = reshape n (map (\<lambda>k. mt_element state (of_nat k)) [0..<n * n])"
proof -
  have "map (np_element state) [1..<n * n + 1] = map (\<lambda>k. mt_element state (of_nat k)) [0..<n * n]"
    by (rule nth_equalityI)
      (simp_all add: np_element_def mt_element_def mt_mix64_def Let_def algebra_simps del: upt_Suc)
  then show ?thesis by (simp add: np_matrix_def)
qed

section \<open>Hashing all rows at once is hashing each row\<close>

lemma map2_map: "map2 f (map g xs) (map h xs) = map (\<lambda>x. f (g x) (h x)) xs"
  by (induction xs) simp_all

lemma np_hash_byte_map:
  "np_hash_byte (map v xs) i (map h xs) = map (\<lambda>x. mt_fnv_byte (v x) (h x) i) xs"
  by (simp add: np_hash_byte_def mt_fnv_byte_def map2_map comp_def)

lemma np_hash_bytes_map:
  "foldl (\<lambda>rows i. np_hash_byte (map v xs) i rows) (map h xs) is =
   map (\<lambda>x. foldl (mt_fnv_byte (v x)) (h x) is) xs"
  by (induction "is" arbitrary: h) (simp_all add: np_hash_byte_map)

lemma mt_fnv_u32_bytes: "mt_fnv_u32 h v = foldl (mt_fnv_byte (ucast v)) h [0..<4]"
proof -
  have "(ucast (drop_bit k v AND 0xFF) :: 64 word) = drop_bit k (ucast v) AND 0xFF" for k
    by (rule bit_eqI) (auto simp: bit_simps dest: bit_imp_le_length)
  then show ?thesis by (simp add: mt_fnv_u32_def mt_fnv_byte_def [abs_def])
qed

lemma np_hash_column_map:
  assumes "c < n"
  shows "np_hash_column (reshape n a) c (map h [0..<n]) = map (\<lambda>i. mt_fnv_u32 (h i) (a ! (i * n + c))) [0..<n]"
  using assms by (simp add: np_hash_column_def reshape_def comp_def np_hash_bytes_map mt_fnv_u32_bytes)

lemma np_columns:
  assumes "set cs \<subseteq> {0..<n}"
  shows "foldl (\<lambda>rows c. np_hash_column (reshape n a) c rows) (map h [0..<n]) cs =
    map (\<lambda>i. foldl (\<lambda>x j. mt_fnv_u32 x (a ! (i * n + j))) (h i) cs) [0..<n]"
  using assms by (induction cs arbitrary: h) (simp_all add: np_hash_column_map)

lemma np_rows_reshape: "np_rows n (reshape n a) = map (mt_row_hash n a) [0..<n]"
proof -
  have "replicate n (0xCBF29CE484222325 :: 64 word) = map (\<lambda>i. 0xCBF29CE484222325) [0..<n]"
    by (simp add: map_replicate_const)
  then show ?thesis unfolding np_rows_def by (simp add: np_columns mt_row_hash_def [abs_def])
qed

lemma foldl_nth: "foldl (\<lambda>d i. f d (xs ! i)) z [0..<length xs] = foldl f z xs"
proof (induction xs rule: rev_induct)
  case (snoc x xs)
  have "foldl (\<lambda>d i. f d ((xs @ [x]) ! i)) z [0..<length xs] = foldl (\<lambda>d i. f d (xs ! i)) z [0..<length xs]"
    by (rule foldl_cong) (auto simp: nth_append)
  then show ?case using snoc by simp
qed simp

lemma uint_fold_digest:
  assumes "length rows = n" "n < 2 ^ 32" "r < 2 ^ 32"
  shows "uint (mt_fold_digest rows n s c r) =
    fnv_u32 (fnv_u32 (fnv_u64 (fnv_u64 (foldl (\<lambda>d x. fnv_u64 d (uint x)) FNV_OFFSET rows) (uint s)) (uint c)) (int n)) (int r)"
proof -
  have off: "FNV_OFFSET = uint (0xCBF29CE484222325 :: 64 word)" by (simp add: FNV_OFFSET_def)
  have w: "uint (of_nat k :: 32 word) = int k" if "k < 2 ^ 32" for k
    using that by (simp add: unsigned_of_nat take_bit_nat_eq_self uint_nat)
  have "foldl (\<lambda>d x. fnv_u64 d (uint x)) FNV_OFFSET rows = uint (foldl mt_fnv_u64 0xCBF29CE484222325 rows)"
    unfolding off by (rule foldl_uint) (simp add: uint_fnv_u64)
  then show ?thesis
    using assms foldl_nth [of mt_fnv_u64 rows]
    by (simp add: mt_fold_digest_def Let_def uint_fnv_u32 uint_fnv_u64 w)
qed

lemma digests_agree:
  assumes "0 \<le> seed" "seed < 2 ^ 64" "0 \<le> cipher" "cipher < 2 ^ 64"
    and "8 \<le> n" "n \<le> 4096" "1 \<le> rounds" "rounds \<le> 16"
  shows "mt_challenge_solve (of_int seed) (of_int cipher) n rounds
    = MT_OK (of_int (reference_digest seed cipher n rounds))
    \<and> 0 \<le> reference_digest seed cipher n rounds \<and> reference_digest seed cipher n rounds < 2 ^ 64"
proof -
  define s where "s = (of_int seed :: 64 word)"
  define c where "c = (of_int cipher :: 64 word)"
  have u: "uint s = seed" "uint c = cipher"
    using assms by (simp_all add: s_def c_def unsigned_of_int take_bit_int_eq_self)
  define a where "a = (mt_round n ^^ rounds) (map (\<lambda>k. mt_element (mt_seed_state s c) (of_nat k)) [0..<n * n])"
  have st: "of_int (seed_state seed cipher) = mt_seed_state s c"
    unfolding u [symmetric] uint_seed_state [symmetric] by simp
  have "reference_digest seed cipher n rounds = uint (mt_fold_digest (map (mt_row_hash n a) [0..<n]) n s c rounds)"
    using assms u
    by (subst uint_fold_digest)
      (simp_all add: reference_digest_def Let_def st np_matrix_reshape np_rounds np_rows_reshape a_def)
  moreover have "uint x < 2 ^ 64" for x :: "64 word" using uint_lt2p [of x] by simp
  ultimately show ?thesis
    using assms by (simp add: mt_challenge_solve_def Let_def a_def s_def c_def)
qed

section \<open>Properties\<close>

text \<open>C24: The digest the validator computes in Python, with masked integers, wide numpy products and
  all rows hashed at once, is the digest of the C library, with 32-bit cells and one row at a time,
  for every 64-bit seed and cipher and every size and round count the library accepts: which of the
  two the validator uses cannot change whether an answer is right.\<close>

theorem python_digest_is_library_digest:
  assumes "0 \<le> seed" "seed < 2 ^ 64" "0 \<le> cipher" "cipher < 2 ^ 64"
    and "8 \<le> n" "n \<le> 4096" "1 \<le> rounds" "rounds \<le> 16"
  shows "mt_challenge_solve (of_int seed) (of_int cipher) n rounds
    = MT_OK (of_int (reference_digest seed cipher n rounds))
    \<and> 0 \<le> reference_digest seed cipher n rounds \<and> reference_digest seed cipher n rounds < 2 ^ 64"
  using assms by (rule digests_agree)

theorem python_digest_is_library_digest_witness:
  "mt_challenge_solve 1 2 8 1 = MT_OK (of_int (reference_digest 1 2 8 1))"
  using python_digest_is_library_digest [of 1 2 8 1] by simp

end
