(* ===== verification/Verify_Challenge.thy ===== *)
theory Verify_Challenge
  imports Session_Core Verify_Digest Data_Tiers Py_Shell
begin

text \<open>
  The compute challenge (\<^verbatim>\<open>validator/verify/challenge.py\<close>): the expected digest, the command sent to the
  rig for each card, and the judgement of the answers. What the remote runner answers to a command is
  the argument \<open>run_json\<close>; the library's digest and the SHA-256 of the uploaded library are arguments.
\<close>

definition MODE_LIBRARY :: string where "MODE_LIBRARY = ''library''"
definition MODE_REFERENCE :: string where "MODE_REFERENCE = ''reference''"
definition RUNNER_NAME :: string where "RUNNER_NAME = ''challenge_runner.py''"
definition LIBRARY_NAME :: string where "LIBRARY_NAME = ''libmtchallenge.so''"

fun GOPS_FLOOR :: "Tier \<Rightarrow> rat" where
  "GOPS_FLOOR Entry = 50" | "GOPS_FLOOR Standard = 200" | "GOPS_FLOOR Professional = 400" | "GOPS_FLOOR Flagship = 1000"

fun GBPS_FLOOR :: "Tier \<Rightarrow> rat" where
  "GBPS_FLOOR Entry = 100" | "GBPS_FLOOR Standard = 300" | "GBPS_FLOOR Professional = 400" | "GBPS_FLOOR Flagship = 1000"

definition tier_or_entry :: "Tier option \<Rightarrow> Tier" where
  "tier_or_entry t = (case t of None \<Rightarrow> Entry | Some x \<Rightarrow> x)"

definition floors_for :: "Tier option \<Rightarrow> rat \<times> rat" where
  "floors_for t = (GOPS_FLOOR (tier_or_entry t), GBPS_FLOOR (tier_or_entry t))"

definition challenge_tier_of :: "pydict \<Rightarrow> Tier option" where
  "challenge_tier_of rig = tier_of_value (str_or_empty rig ''tier'')"

text \<open>The expected digest: from the library when its file is there, else computed. A library that
  fails or cannot be loaded makes the challenge unavailable.\<close>

datatype challenge_error = ChallengeUnavailable string | ChallengeSsh Failure | ChallengeRaised pyerr

definition expected_digest :: "(challenge_error + int) option \<Rightarrow> ChallengeRequest \<Rightarrow> challenge_error + int \<times> string" where
  "expected_digest library r =
     (case library of
        Some answer \<Rightarrow> rbind answer (\<lambda>d. Inr (d, ''library''))
      | None \<Rightarrow> Inr (reference_digest (cr_seed r) (cr_cipher r) (nat (cr_n r)) (nat (cr_rounds r)), ''reference''))"

record Prepared =
  pr_mode :: string
  pr_library_sha256 :: string
  pr_library_arg :: string

text \<open>The preparation: \<open>library\<close> is the content of the miner library when its file is there, \<open>upload\<close>
  the failure of an upload, if it fails.\<close>

definition challenge_prepare ::
  "(string \<Rightarrow> Failure option) \<Rightarrow> (string \<Rightarrow> string) \<Rightarrow> string option \<Rightarrow> bool \<Rightarrow> string \<Rightarrow> challenge_error + Prepared" where
  "challenge_prepare upload sha256_hex library allow_reference session_dir =
     (case upload (session_dir @ ''/'' @ RUNNER_NAME) of
        Some f \<Rightarrow> Inl (ChallengeSsh f)
      | None \<Rightarrow>
          (case library of
             Some raw \<Rightarrow>
               (let remote = session_dir @ ''/'' @ LIBRARY_NAME in
                case upload remote of
                  Some f \<Rightarrow> Inl (ChallengeSsh f)
                | None \<Rightarrow> Inr \<lparr>pr_mode = MODE_LIBRARY, pr_library_sha256 = sha256_hex raw, pr_library_arg = remote\<rparr>)
           | None \<Rightarrow>
               if allow_reference
               then Inr \<lparr>pr_mode = MODE_REFERENCE, pr_library_sha256 = [], pr_library_arg = MODE_REFERENCE\<rparr>
               else Inl (ChallengeUnavailable
                 ''the miner challenge library is missing and CV_ALLOW_REFERENCE_CHALLENGE is off'')))"

definition command_for :: "string \<Rightarrow> string \<Rightarrow> Prepared \<Rightarrow> ChallengeRequest \<Rightarrow> string \<Rightarrow> string" where
  "command_for python session_dir p r uuid =
     ''cd '' @ shlex_quote session_dir @ '' && '' @
     (if uuid \<noteq> [] then ''CUDA_VISIBLE_DEVICES='' @ shlex_quote uuid @ '' '' else []) @
     join '' '' [shlex_quote python, ''-I'', RUNNER_NAME, shlex_quote (pr_library_arg p), show_int (cr_seed r),
       show_int (cr_cipher r), show_int (cr_n r), show_int (cr_rounds r), show_int (cr_benchmark_n r),
       show_int (cr_iterations r)]"

text \<open>\<^verbatim>\<open>int(text, 16)\<close>.\<close>

fun hex_group :: "string \<Rightarrow> bool" where
  "hex_group [] = False"
| "hex_group [c] = (hex_val c \<noteq> None)"
| "hex_group (c # d # cs) =
     (hex_val c \<noteq> None \<and> (if d = CHR ''_'' then hex_group cs else hex_group (d # cs)))"

definition int_of_hex :: "string \<Rightarrow> int option" where
  "int_of_hex s =
     (case split_sign (strip s) of (sg, body) \<Rightarrow>
        (let body1 = (if lower (take 2 body) = ''0x''
                      then (case drop 2 body of c # cs \<Rightarrow> if c = CHR ''_'' then cs else c # cs | [] \<Rightarrow> [])
                      else body)
         in if hex_group body1
            then Some (sg * foldl (\<lambda>a c. 16 * a + int (the (hex_val c))) 0 (drop_underscores body1))
            else None))"

section \<open>Judging one answer\<close>

text \<open>The answer of the runner for one card: the transport raised, or a command result with the JSON
  object it printed, if any.\<close>

datatype runner_answer = RunRaised Failure | RunDone CommandResult "pydict option"

definition or_gpu :: "string \<Rightarrow> string" where "or_gpu uuid = str_or uuid ''gpu''"

definition measured :: "ChallengeRequest \<Rightarrow> string \<Rightarrow> ChallengeAnswer \<Rightarrow> pydict" where
  "measured r uuid a =
     [(''uuid'', PStr uuid), (''cipher'', PStr (show_int (cr_cipher r))), (''elapsed_ms'', PFloat (ca_elapsed_ms a)),
      (''gops'', PFloat (ca_gops a)), (''gbps'', PFloat (ca_gbps a))]"

definition digest_ok :: "int \<Rightarrow> ChallengeAnswer \<Rightarrow> bool" where
  "digest_ok expected a = (int_of_hex (ca_digest a) = Some expected)"

definition judge_answer ::
  "Prepared \<Rightarrow> int \<Rightarrow> rat \<Rightarrow> Tier option \<Rightarrow> ChallengeRequest \<Rightarrow> string \<Rightarrow> pydict \<Rightarrow> ChallengeAnswer \<Rightarrow> Failure option" where
  "judge_answer p expected max_ms tier r uuid parsed a =
     (let seed = show_int (cr_seed r); loaded = str_or_empty parsed ''library_sha256'';
          (gops_floor, gbps_floor) = floors_for tier
      in if ca_error a \<noteq> []
         then Some (mk_failure CHALLENGE_REJECT (or_gpu uuid @ '': '' @ take 200 (ca_error a)) seed
                [(''cipher'', PStr (show_int (cr_cipher r))), (''uuid'', PStr uuid)])
         else if pr_mode p = MODE_LIBRARY \<and> loaded \<noteq> pr_library_sha256 p
         then Some (mk_failure VERSION_STALE ''the runner loaded a library that is not the one uploaded'' seed
                [(''uploaded'', PStr (pr_library_sha256 p)), (''loaded'', PStr loaded)])
         else if \<not> digest_ok expected a
         then Some (mk_failure CHALLENGE_REJECT (or_gpu uuid @ '': wrong digest'') seed (measured r uuid a))
         else if max_ms < ca_elapsed_ms a
         then Some (mk_failure CHALLENGE_REJECT
                (or_gpu uuid @ '': solved in '' @ fmt_0f (ca_elapsed_ms a) @ '' ms, above '' @ fmt_0f max_ms @ '' ms'')
                seed (measured r uuid a))
         else if pr_mode p = MODE_LIBRARY \<and> (ca_gops a < gops_floor \<or> ca_gbps a < gbps_floor)
         then Some (mk_failure CHALLENGE_REJECT
                (or_gpu uuid @ '': throughput '' @ fmt_0f (ca_gops a) @ '' GOPS and '' @ fmt_0f (ca_gbps a) @
                 '' GB/s below the '' @ tier_value (tier_or_entry tier) @ '' floor of '' @ fmt_0f gops_floor @
                 '' GOPS and '' @ fmt_0f gbps_floor @ '' GB/s'') seed (measured r uuid a))
         else None)"

text \<open>What the evidence records of one card, as far as its answer went.\<close>

definition card_entry :: "Prepared \<Rightarrow> int \<Rightarrow> string \<Rightarrow> CommandResult \<Rightarrow> pydict option \<Rightarrow> pydict pyres" where
  "card_entry p expected uuid result parsed =
     (let entry = [(''uuid'', PStr uuid), (''command_ms'', PFloat (py_round_to 1 (res_elapsed_ms result)))] in
      if transport_failed result then Inr entry
      else (case parsed of
         None \<Rightarrow> Inr (entry @ [(''error'', PStr (stderr_tail 400 result))])
       | Some d \<Rightarrow>
           rbind (ChallengeAnswer_from_payload d) (\<lambda>a.
             (let entry = entry @ [(''elapsed_ms'', PFloat (ca_elapsed_ms a)), (''gops'', PFloat (ca_gops a)),
                    (''gbps'', PFloat (ca_gbps a)), (''benchmark_ms'', PFloat (ca_benchmark_ms a)),
                    (''build'', PStr (ca_build a)), (''version'', PInt (ca_version a)),
                    (''mode'', PStr (str_field d ''mode''))];
                  loaded = str_or_empty d ''library_sha256''
              in Inr (if ca_error a \<noteq> [] then entry @ [(''error'', PStr (take 300 (ca_error a)))]
                      else if pr_mode p = MODE_LIBRARY \<and> loaded \<noteq> pr_library_sha256 p
                      then entry @ [(''loaded_sha256'', PStr loaded)]
                      else entry @ [(''digest_ok'', PBool (digest_ok expected a))])))))"

text \<open>What the loop does with one card: its failure if any, whether the loop goes on, the time it
  took and its entry. A parsed answer with a number that is not finite raises.\<close>

definition judge_card ::
  "Prepared \<Rightarrow> int \<Rightarrow> rat \<Rightarrow> Tier option \<Rightarrow> ChallengeRequest \<Rightarrow> string \<Rightarrow> runner_answer
    \<Rightarrow> (Failure option \<times> bool \<times> rat \<times> pydict list) pyres" where
  "judge_card p expected max_ms tier r uuid answer =
     (let seed = show_int (cr_seed r) in
      case answer of
        RunRaised f \<Rightarrow> Inr (Some f, False, 0, [])
      | RunDone result parsed \<Rightarrow>
          rbind (card_entry p expected uuid result parsed) (\<lambda>entry.
          if transport_failed result
          then Inr (Some (mk_failure SSH_TRANSPORT (res_error result) seed []), False, res_elapsed_ms result, [entry])
          else (case parsed of
             None \<Rightarrow>
               Inr (Some (case classify result seed of Some f \<Rightarrow> f
                          | None \<Rightarrow> mk_failure AGENT_CRASH ''the runner printed no answer'' seed []),
                    True, res_elapsed_ms result, [entry])
           | Some d \<Rightarrow>
               rbind (ChallengeAnswer_from_payload d) (\<lambda>a.
                 Inr (judge_answer p expected max_ms tier r uuid d a, True, res_elapsed_ms result, [entry])))))"

fun challenge_loop ::
  "Prepared \<Rightarrow> int \<Rightarrow> rat \<Rightarrow> Tier option \<Rightarrow> ChallengeRequest \<Rightarrow> (string \<Rightarrow> runner_answer) \<Rightarrow> string list
    \<Rightarrow> (Failure list \<times> rat \<times> pydict list) pyres" where
  "challenge_loop p expected max_ms tier r ask [] = Inr ([], 0, [])"
| "challenge_loop p expected max_ms tier r ask (uuid # uuids) =
     rbind (judge_card p expected max_ms tier r uuid (ask uuid)) (\<lambda>(f, go_on, ms, entry).
       rbind (if go_on then challenge_loop p expected max_ms tier r ask uuids else Inr ([], 0, []))
         (\<lambda>(fs, rest, entries). Inr ((case f of None \<Rightarrow> fs | Some x \<Rightarrow> x # fs), ms + rest, entry @ entries)))"

definition challenge_targets :: "string list \<Rightarrow> string list" where
  "challenge_targets gpu_uuids = (if gpu_uuids = [] then [[]] else gpu_uuids)"

definition gops_text :: "pydict \<Rightarrow> string" where
  "gops_text entry = (case dget entry ''gops'' (PInt 0) of PFloat x \<Rightarrow> fmt_0f x | _ \<Rightarrow> fmt_0f 0) @ '' GOPS''"

definition challenge_summary :: "Prepared \<Rightarrow> nat \<Rightarrow> bool \<Rightarrow> pydict list \<Rightarrow> string" where
  "challenge_summary p targets failed entries =
     (if failed
      then show_nat (length (filter (\<lambda>e. truthy (dget e ''digest_ok'' PNone)) entries)) @ '' of '' @ show_nat targets @
        '' cards answered in '' @ pr_mode p @ '' mode''
      else show_nat targets @ '' cards answered, '' @ join '', '' (map gops_text entries))"

definition challenge_evidence ::
  "Prepared \<Rightarrow> string \<Rightarrow> Tier option \<Rightarrow> ChallengeRequest \<Rightarrow> pydict list \<Rightarrow> string \<Rightarrow> pydict" where
  "challenge_evidence p verified_with tier r entries summary =
     [(''seed'', PStr (show_int (cr_seed r))), (''cipher'', PStr (show_int (cr_cipher r))), (''n'', PInt (cr_n r)),
      (''rounds'', PInt (cr_rounds r)), (''benchmark_n'', PInt (cr_benchmark_n r)), (''iterations'', PInt (cr_iterations r)),
      (''mode'', PStr (pr_mode p)), (''verified_with'', PStr verified_with), (''library_sha256'', PStr (pr_library_sha256 p)),
      (''floors'', PDict (if pr_mode p = MODE_LIBRARY
         then [(''gops'', PFloat (fst (floors_for tier))), (''gbps'', PFloat (snd (floors_for tier)))] else [])),
      (''gpus'', PList (map PDict entries)), (''summary'', PStr summary)]"

definition challenge_run ::
  "Prepared \<Rightarrow> int \<times> string \<Rightarrow> rat \<Rightarrow> Tier option \<Rightarrow> ChallengeRequest \<Rightarrow> (string \<Rightarrow> runner_answer)
    \<Rightarrow> string \<Rightarrow> string \<Rightarrow> string list \<Rightarrow> Verdict pyres" where
  "challenge_run p expected max_ms tier r run_json python session_dir gpu_uuids =
     (let targets = challenge_targets gpu_uuids in
      rbind (challenge_loop p (fst expected) max_ms tier r
               (\<lambda>uuid. run_json (command_for python session_dir p r uuid)) targets) (\<lambda>(fs, ms, entries).
        Inr (mk_verdict ''challenge'' (case fs of [] \<Rightarrow> None | f # _ \<Rightarrow> Some f)
          (challenge_evidence p (snd expected) tier r entries
             (challenge_summary p (length targets) (fs \<noteq> []) entries)) ms)))"

section \<open>Facts\<close>

text \<open>What the validator demands of a card's answer.\<close>

definition good_answer ::
  "Prepared \<Rightarrow> int \<Rightarrow> rat \<Rightarrow> Tier option \<Rightarrow> runner_answer \<Rightarrow> bool" where
  "good_answer p expected max_ms tier answer \<longleftrightarrow>
     (\<exists>result d a. answer = RunDone result (Some d) \<and> \<not> transport_failed result
       \<and> ChallengeAnswer_from_payload d = Inr a \<and> ca_error a = []
       \<and> int_of_hex (ca_digest a) = Some expected \<and> ca_elapsed_ms a \<le> max_ms
       \<and> (pr_mode p = MODE_LIBRARY \<longrightarrow>
            str_or_empty d ''library_sha256'' = pr_library_sha256 p
            \<and> GOPS_FLOOR (tier_or_entry tier) \<le> ca_gops a \<and> GBPS_FLOOR (tier_or_entry tier) \<le> ca_gbps a))"

lemma judge_answer_None:
  "judge_answer p expected max_ms tier r uuid d a = None \<longleftrightarrow>
     ca_error a = [] \<and> int_of_hex (ca_digest a) = Some expected \<and> ca_elapsed_ms a \<le> max_ms
     \<and> (pr_mode p = MODE_LIBRARY \<longrightarrow>
            str_or_empty d ''library_sha256'' = pr_library_sha256 p
            \<and> GOPS_FLOOR (tier_or_entry tier) \<le> ca_gops a \<and> GBPS_FLOOR (tier_or_entry tier) \<le> ca_gbps a)"
  by (auto simp: judge_answer_def Let_def floors_for_def digest_ok_def)

lemma judge_card_good:
  assumes "judge_card p expected max_ms tier r uuid answer = Inr (f, go_on, ms, entry)"
  shows "f = None \<longleftrightarrow> good_answer p expected max_ms tier answer"
proof (cases answer)
  case (RunRaised g)
  then show ?thesis using assms by (auto simp: judge_card_def good_answer_def)
next
  case (RunDone result parsed)
  show ?thesis
  proof (cases parsed)
    case None
    then show ?thesis using assms RunDone by (auto simp: judge_card_def Let_def good_answer_def result_simps split: if_splits)
  next
    case (Some d)
    show ?thesis
    proof (cases "transport_failed result")
      case True
      then show ?thesis using assms RunDone by (auto simp: judge_card_def Let_def good_answer_def result_simps)
    next
      case False
      then obtain a where a: "ChallengeAnswer_from_payload d = Inr a"
        and f: "f = judge_answer p expected max_ms tier r uuid d a"
        using assms RunDone Some by (auto simp: judge_card_def Let_def result_simps)
      then show ?thesis using False RunDone Some judge_answer_None [of p expected max_ms tier r uuid d a]
        by (auto simp: good_answer_def)
    qed
  qed
qed

lemma good_go_on: "good_answer p expected max_ms tier answer \<Longrightarrow>
    judge_card p expected max_ms tier r uuid answer = Inr (f, go_on, ms, entry) \<Longrightarrow> go_on"
  by (auto simp: good_answer_def judge_card_def Let_def result_simps)

lemma challenge_loop_good:
  "challenge_loop p expected max_ms tier r ask uuids = Inr (fs, ms, entries) \<Longrightarrow>
   fs = [] \<longleftrightarrow> (\<forall>u \<in> set uuids. good_answer p expected max_ms tier (ask u))"
proof (induction uuids arbitrary: fs ms entries)
  case (Cons u us)
  obtain f go_on m en where j: "judge_card p expected max_ms tier r u (ask u) = Inr (f, go_on, m, en)"
    using Cons.prems by (auto simp: result_simps)
  note good = judge_card_good [OF j]
  show ?case
  proof (cases go_on)
    case True
    then obtain gs m' es where l: "challenge_loop p expected max_ms tier r ask us = Inr (gs, m', es)"
      and fs: "fs = (case f of None \<Rightarrow> gs | Some x \<Rightarrow> x # gs)"
      using Cons.prems j by (auto simp: result_simps)
    show ?thesis using Cons.IH [OF l] good fs by (auto split: option.splits)
  next
    case False
    then have "f \<noteq> None" using good good_go_on [OF _ j] by blast
    then show ?thesis using Cons.prems j False good by auto
  qed
qed simp

section \<open>Properties\<close>


definition demo_prepared :: Prepared where
  "demo_prepared = \<lparr>pr_mode = MODE_LIBRARY, pr_library_sha256 = ''ab'', pr_library_arg = ''x''\<rparr>"

definition demo_answer :: runner_answer where
  "demo_answer = RunDone \<lparr>res_command = [], res_exit_code = 0, res_stdout = [], res_stderr = [], res_elapsed_ms = 5,
     res_error = []\<rparr> (Some [(''digest'', PStr ''1f''), (''elapsed_ms'', PFloat 7), (''gops'', PFloat 250),
       (''gbps'', PFloat 299), (''library_sha256'', PStr ''ab'')])"

definition demo_challenge :: ChallengeRequest where
  "demo_challenge = \<lparr>cr_seed = 1, cr_cipher = 2, cr_n = 256, cr_rounds = 2, cr_benchmark_n = 2048, cr_iterations = 32\<rparr>"


end
