(* ===== verification/Verify_Checks.thy ===== *)
theory Verify_Checks
  imports Session_Core Data_Gpu_Table
begin

text \<open>
  The checks of a rig that need no computing of their own (\<^verbatim>\<open>validator/verify\<close>): agent version,
  duplicate cards, specs, exclusivity and host reality. They judge what the inspection payload
  reported, a dynamic value; an access the program does not guard may raise, and is then a value on
  the left.
\<close>

section \<open>Dynamic access\<close>

text \<open>Iterating \<^verbatim>\<open>d.get(k) or []\<close>, and the dictionaries among the elements.\<close>

definition iter_field :: "pydict \<Rightarrow> string \<Rightarrow> pyval list pyres" where
  "iter_field d k = py_iter (py_or (dget d k PNone) (PList []))"

definition dict_items :: "pydict \<Rightarrow> string \<Rightarrow> pydict list pyres" where
  "dict_items d k = rbind (iter_field d k) (\<lambda>vs. Inr (dicts_of vs))"

text \<open>\<^verbatim>\<open>v == n\<close> for an integer \<open>n\<close>.\<close>

fun eq_int :: "pyval \<Rightarrow> int \<Rightarrow> bool" where
  "eq_int (PInt i) n = (i = n)"
| "eq_int (PFloat r) n = (r = of_int n)"
| "eq_int (PBool b) n = ((if b then 1 else 0) = n)"
| "eq_int _ n = False"

section \<open>Agent version\<close>

definition version_parse :: "string \<Rightarrow> int list" where
  "version_parse text = map (\<lambda>p. int (digits_val p)) (take 3 (digit_runs [] text))"

definition stale :: "string \<Rightarrow> string \<Rightarrow> bool" where
  "stale agent_version minimum =
     (let flr = version_parse minimum in if flr = [] then False else version_parse agent_version < flr)"

definition version_check :: "string \<Rightarrow> string \<Rightarrow> string \<Rightarrow> Verdict" where
  "version_check agent_version minimum seed =
     mk_verdict ''version''
       (if agent_version = [] then Some (mk_failure VERSION_STALE ''the agent reports no version'' seed [])
        else if stale agent_version minimum
        then Some (mk_failure VERSION_STALE
               (''agent '' @ agent_version @ '' is below the minimum '' @ minimum) seed [])
        else None)
       [(''agent_version'', PStr agent_version), (''minimum'', PStr minimum),
        (''summary'', PStr (str_or agent_version ''unknown''))] 0"

definition version_fetch :: "AgentError + pydict \<Rightarrow> string \<Rightarrow> string \<Rightarrow> Verdict \<times> pydict" where
  "version_fetch answer minimum seed =
     (case answer of
        Inl e \<Rightarrow> (mk_verdict ''version'' (Some (AgentError_failure e seed))
                  [(''summary'', PStr (take 120 (ae_detail e)))] 0, [])
      | Inr d \<Rightarrow> (version_check (str_or_empty d ''version'') minimum seed, d))"

section \<open>Duplicate cards\<close>

definition append_to :: "string \<Rightarrow> string \<Rightarrow> (string \<times> string list) list \<Rightarrow> (string \<times> string list) list" where
  "append_to k v d = AList.update k (dget d k [] @ [v]) d"

definition index_rig :: "string \<Rightarrow> pydict \<Rightarrow> (string \<times> string list) list \<Rightarrow> (string \<times> string list) list pyres" where
  "index_rig exclude_rig rig index =
     (let rig_id = str_or_empty rig ''id'' in
      if rig_id = [] \<or> rig_id = exclude_rig then Inr index
      else if str_or_empty rig ''state'' = ''removed'' then Inr index
      else rbind (dict_items rig ''gpus'') (\<lambda>cards.
        Inr (foldl (\<lambda>ix card. let uuid = str_or_empty card ''uuid''
                              in if uuid \<noteq> [] then append_to uuid rig_id ix else ix) index cards)))"

definition enrolment_index :: "pydict list \<Rightarrow> string \<Rightarrow> (string \<times> string list) list pyres" where
  "enrolment_index roster exclude_rig = rfold (index_rig exclude_rig) roster []"

definition duplicates_of :: "pydict list \<Rightarrow> (string \<times> string list) list \<Rightarrow> (string \<times> string list) list" where
  "duplicates_of gpus index =
     foldl (\<lambda>ds card. let uuid = str_or_empty card ''uuid''
                      in if uuid \<noteq> [] \<and> dhas index uuid then AList.update uuid (dget index uuid []) ds else ds) [] gpus"

definition rig_lists :: "(string \<times> string list) list \<Rightarrow> pydict" where
  "rig_lists ds = map (\<lambda>(u, rs). (u, PList (map PStr rs))) ds"

definition duplicates_check :: "pydict list \<Rightarrow> string \<Rightarrow> pydict list \<Rightarrow> string \<Rightarrow> Verdict pyres" where
  "duplicates_check gpus rig_id roster seed =
     rbind (enrolment_index roster rig_id) (\<lambda>index.
       (let duplicates = duplicates_of gpus index;
            evidence = [(''scanned'', PInt (int (length gpus))),
              (''other_rigs'', PInt (int (length (remdups (concat (map snd index)))))),
              (''duplicates'', PDict (rig_lists duplicates)),
              (''summary'', PStr (if duplicates = [] then ''no card enrolled elsewhere''
                                  else show_nat (length duplicates) @ '' cards enrolled elsewhere''))]
        in Inr (mk_verdict ''duplicates''
             (case duplicates of
                [] \<Rightarrow> None
              | (uuid, rigs) # _ \<Rightarrow> Some (mk_failure DUPLICATE_UUID
                  (uuid @ '' is enrolled on rig '' @ hd rigs) seed [(''duplicates'', PDict (rig_lists duplicates))]))
             evidence 0)))"

section \<open>Host reality\<close>

definition NESTED_MARKERS :: "string list" where
  "NESTED_MARKERS = [''/docker/'', ''/lxc/'', ''/containerd/'', ''/kubepods'', ''/podman/'',
     ''/machine.slice/libpod'', ''docker-'', ''/garden/'']"

definition VIRT_CLEAR :: "string list" where "VIRT_CLEAR = [''none'', ''unavailable'', []]"

definition host_judge :: "pydict \<Rightarrow> string \<Rightarrow> Failure option pyres" where
  "host_judge host seed =
     (let nested_container = (\<lambda>detail ev. Inr (Some (mk_failure NESTED_CONTAINER detail seed ev)));
          cgroup = str_or_empty host ''init_cgroup'';
          nested = filter (\<lambda>m. contains_str m cgroup) NESTED_MARKERS;
          virt = lower (strip (str_or_empty host ''detect_virt''))
      in if \<not> truthy (dget host ''init_root_reachable'' PNone)
         then nested_container ''the init process root is not reachable'' []
         else if \<not> truthy (dget host ''init_root_differs'' PNone)
         then nested_container ''the init process root is the session root, not a host root'' []
         else if \<not> truthy (dget host ''init_os_release_readable'' PNone)
         then nested_container ''the host os-release is not readable through the init root'' []
         else if nested \<noteq> []
         then nested_container (''the init cgroup shows a nested path ('' @ hd nested @ '')'')
                [(''init_cgroup'', PStr (take 300 cgroup))]
         else if virt \<notin> set VIRT_CLEAR
         then nested_container (''systemd-detect-virt reports '' @ virt) []
         else (case py_or (dget host ''dmi'' PNone) (PDict []) of
                 PDict dmi \<Rightarrow>
                   if strip (str_or_empty dmi ''sys_vendor'') = [] \<and> strip (str_or_empty dmi ''product_name'') = []
                   then nested_container ''no DMI vendor or product identity'' []
                   else Inr None
               | _ \<Rightarrow> Inl AttributeError))"

section \<open>Specs\<close>

definition FATAL_NVML :: "string list" where
  "FATAL_NVML = [''DRIVER_NOT_LOADED'', ''GPU_IS_LOST'', ''GPU_NOT_FOUND'', ''MEMORY'', ''LIBRARY_NOT_FOUND'',
     ''UNINITIALIZED'', ''LIB_RM_VERSION_MISMATCH'', ''RESET_REQUIRED'', ''IRQ_ISSUE'', ''FUNCTION_NOT_FOUND'', ''UNKNOWN'']"

definition CORE_FIELDS :: "string list" where "CORE_FIELDS = [''handle'', ''name'', ''uuid'', ''memory'']"

text \<open>Cards by uuid, later entries replacing earlier ones.\<close>

definition cards_by_uuid :: "pydict \<Rightarrow> (string \<times> pydict) list pyres" where
  "cards_by_uuid d =
     rbind (dict_items d ''gpus'') (\<lambda>cards.
       Inr (foldl (\<lambda>found card. if truthy (dget card ''uuid'' PNone)
                                then AList.update (py_str (dget card ''uuid'' PNone)) card found else found) [] cards))"

definition enrolled_cards :: "pydict \<Rightarrow> (string \<times> pydict) list pyres" where
  "enrolled_cards rig = cards_by_uuid rig"

definition seen_cards :: "pydict \<Rightarrow> (string \<times> pydict) list pyres" where
  "seen_cards data = cards_by_uuid data"

definition enrolled_tier :: "pydict \<Rightarrow> Tier option" where
  "enrolled_tier entry = tier_of_value (str_or_empty entry ''tier'')"

text \<open>\<^verbatim>\<open>name in errors\<close> and \<^verbatim>\<open>errors[name]\<close> for the core fields.\<close>

fun core_errors :: "pyval \<Rightarrow> (string \<times> pyval) list pyres" where
  "core_errors (PDict e) = Inr (List.map_filter (\<lambda>n. map_option (Pair n) (map_of e n)) CORE_FIELDS)"
| "core_errors (PList xs) = (if \<exists>n \<in> set CORE_FIELDS. PStr n \<in> set xs then Inl TypeError else Inr [])"
| "core_errors (PStr s) = (if \<exists>n \<in> set CORE_FIELDS. contains_str n s then Inl TypeError else Inr [])"
| "core_errors v = Inl TypeError"

definition memory_problem :: "string \<Rightarrow> pydict \<Rightarrow> string \<Rightarrow> rat \<Rightarrow> string list" where
  "memory_problem uuid enrolled observed total_mb =
     (case gpu_match observed total_mb of
        None \<Rightarrow> [uuid @ '': '' @ mismatch_reason observed total_mb]
      | Some m \<Rightarrow>
          (case (enrolled_tier enrolled, mt_tier m) of
             (Some declared, Some actual) \<Rightarrow>
               if actual \<noteq> declared
               then [uuid @ '': enrolled in the '' @ tier_value declared @ '' tier, reads as '' @ tier_value actual]
               else []
           | _ \<Rightarrow> []))"

definition mig_problem :: "string \<Rightarrow> pydict \<Rightarrow> string list pyres" where
  "mig_problem uuid seen =
     (case dget seen ''mig_mode'' PNone of
        PDict mig \<Rightarrow> rbind (py_int (py_or (dget mig ''current'' PNone) (PInt 0))) (\<lambda>n.
          Inr (if n = 1 then [uuid @ '': MIG mode is enabled''] else []))
      | _ \<Rightarrow> Inr [])"

definition virtualization_problem :: "string \<Rightarrow> pydict \<Rightarrow> string list" where
  "virtualization_problem uuid seen =
     (let v = dget seen ''virtualization'' PNone in
      if v \<in> {PNone, PStr [], PStr ''NONE''} then [] else [uuid @ '': virtualization mode '' @ py_str v])"

definition vgpu_problem :: "string \<Rightarrow> pydict \<Rightarrow> string list" where
  "vgpu_problem uuid seen =
     (if eq_int (dget seen ''host_vgpu_mode'' PNone) 1 then [uuid @ '': SR-IOV host vGPU mode''] else [])"

definition card_problems :: "string \<Rightarrow> pydict \<Rightarrow> pydict \<Rightarrow> string list pyres" where
  "card_problems uuid enrolled seen =
     rbind (core_errors (py_or (dget seen ''errors'' PNone) (PDict []))) (\<lambda>core.
       if core \<noteq> [] then Inr (map (\<lambda>(n, e). uuid @ '': NVML_ERROR_'' @ py_str e @ '' reading '' @ n) core)
       else (let declared = normalize (str_or_empty enrolled ''model''); observed = normalize (str_or_empty seen ''name'') in
         rbind (guarded (py_float (py_or (dget seen ''memory_total_mb'' PNone) (PInt 0))) 0) (\<lambda>total_mb.
         rbind (mig_problem uuid seen) (\<lambda>mig.
           Inr ((if declared \<noteq> observed
                 then [uuid @ '': enrolled as '' @ str_or declared ''unknown'' @ '', reads '' @ str_or observed ''unnamed'']
                 else []) @ memory_problem uuid enrolled observed total_mb @ mig @
                virtualization_problem uuid seen @ vgpu_problem uuid seen)))))"

definition nvml_view :: "pydict \<Rightarrow> (string list \<times> pydict) pyres" where
  "nvml_view data =
     (case py_or (dget data ''nvml'' PNone) (PDict []) of
        PDict nvml \<Rightarrow> rbind (iter_field nvml ''errors'') (\<lambda>es. Inr (map py_str es, nvml))
      | _ \<Rightarrow> Inl AttributeError)"

definition card_view :: "string \<times> pydict \<Rightarrow> pyval" where
  "card_view uc = (case uc of (uuid, c) \<Rightarrow> PDict
     [(''uuid'', PStr uuid), (''model'', dget c ''name'' PNone), (''memory_mb'', dget c ''memory_total_mb'' PNone),
      (''mig'', case dget c ''mig_mode'' PNone of PDict m \<Rightarrow> dget m ''current'' PNone | _ \<Rightarrow> PNone),
      (''virtualization'', dget c ''virtualization'' PNone), (''errors'', py_or (dget c ''errors'' PNone) (PDict []))])"

definition specs_problems ::
  "(string \<times> pydict) list \<Rightarrow> (string \<times> pydict) list \<Rightarrow> string list pyres" where
  "specs_problems enrolled seen =
     (let missing = sort (filter (\<lambda>u. \<not> dhas seen u) (dkeys enrolled));
          common = sort (filter (dhas seen) (dkeys enrolled))
      in rbind (rmap (\<lambda>u. card_problems u (dget enrolled u []) (dget seen u [])) common) (\<lambda>ps.
           Inr ((if missing \<noteq> [] then [''enrolled cards absent: '' @ join '', '' missing] else []) @ concat ps)))"

definition specs_check :: "pydict \<Rightarrow> pydict \<Rightarrow> string \<Rightarrow> Verdict pyres" where
  "specs_check data rig seed =
     rbind (nvml_view data) (\<lambda>(errors, nvml).
     rbind (enrolled_cards rig) (\<lambda>enrolled.
     rbind (seen_cards data) (\<lambda>seen.
       (let evidence =
          [(''enrolled'', PInt (int (length enrolled))), (''seen'', PInt (int (length seen))),
           (''nvml_errors'', PList (map PStr errors)), (''driver'', dget nvml ''driver'' (PStr [])),
           (''cuda'', dget nvml ''cuda'' (PStr [])), (''cards'', PList (map card_view seen))];
            fatal = filter (\<lambda>n. n \<in> set FATAL_NVML) errors
        in if fatal \<noteq> []
           then Inr (mk_verdict ''specs'' (Some (mk_failure SPEC_MISMATCH (''NVML_ERROR_'' @ hd fatal) seed
                  [(''errors'', PList (map PStr errors))])) evidence 0)
           else rbind (specs_problems enrolled seen) (\<lambda>problems.
             (let extra = sort (filter (\<lambda>u. \<not> dhas enrolled u) (dkeys seen));
                  evidence = evidence @ [(''unenrolled'', PList (map PStr extra))]
              in if problems \<noteq> []
                 then Inr (mk_verdict ''specs'' (Some (mk_failure SPEC_MISMATCH (take 300 (hd problems)) seed
                        [(''problems'', PList (map PStr (take 20 problems)))]))
                        (evidence @ [(''problems'', PList (map PStr problems))]) 0)
                 else Inr (mk_verdict ''specs'' None (evidence @ [(''summary'', PStr
                        (show_nat (length enrolled) @ '' cards as enrolled'' @
                         (if extra \<noteq> [] then '', '' @ show_nat (length extra) @ '' unenrolled'' else [])))]) 0)))))))"


section \<open>Exclusivity\<close>

record OwnContainer =
  oc_id :: string
  oc_name :: string
  oc_job :: string
  oc_state :: string

definition lstrip_slash :: "string \<Rightarrow> string" where
  "lstrip_slash s = dropWhile (\<lambda>c. c = CHR ''/'') s"

definition parse_container :: "string \<Rightarrow> OwnContainer option" where
  "parse_container line =
     (let parts = split_on (CHR 0x09) (rstrip_char (CHR 0x0A) line) in
      if length parts < 2 \<or> strip (parts ! 0) = [] then None
      else Some \<lparr>oc_id = strip (parts ! 0), oc_name = lstrip_slash (strip (parts ! 1)),
                 oc_job = (if 2 < length parts then strip (parts ! 2) else []),
                 oc_state = (if 3 < length parts then strip (parts ! 3) else [])\<rparr>)"

definition parse_containers :: "string \<Rightarrow> OwnContainer list" where
  "parse_containers stdout = List.map_filter parse_container (splitlines stdout)"

definition own_containers :: "CommandResult \<Rightarrow> OwnContainer list \<times> string" where
  "own_containers result =
     (if \<not> res_is_ok result then ([], strip (str_or (res_error result) (stderr_tail 200 result)))
      else (parse_containers (res_stdout result), []))"

definition jobs_of :: "pydict \<Rightarrow> JobRecord list pyres" where
  "jobs_of rig =
     rbind (dict_items rig ''jobs'') (\<lambda>jobs.
       Inr (map (\<lambda>job. JobRecord_from_payload (dsetdefault ''job_id'' (dget job ''id'' (PStr [])) job)) jobs))"

definition container_matches :: "string \<Rightarrow> string list \<Rightarrow> bool" where
  "container_matches container known =
     (container \<noteq> [] \<and>
      list_ex (\<lambda>c. c \<noteq> [] \<and> (container = c \<or> startswith container c \<or> startswith c container)) known)"

definition known_names :: "JobRecord list \<Rightarrow> OwnContainer list \<Rightarrow> string list" where
  "known_names jobs ours =
     filter (\<lambda>c. c \<noteq> []) (map jr_container jobs) @ map oc_id ours @ map oc_name ours @
     map (\<lambda>c. ''mt-'' @ oc_job c) (filter (\<lambda>c. oc_job c \<noteq> []) ours)"

definition job_pids :: "JobRecord list \<Rightarrow> int list" where
  "job_pids jobs = filter (\<lambda>p. 0 < p) (map jr_pid jobs)"

text \<open>A process on a card: the card's uuid, the pid, the container and the process entry.\<close>

type_synonym gpu_process = "string \<times> int \<times> string \<times> pydict"

definition card_processes :: "pydict \<Rightarrow> gpu_process list pyres" where
  "card_processes c =
     rbind (iter_field c ''processes'') (\<lambda>ps.
       rmap (\<lambda>p. case p of
          PDict d \<Rightarrow> rbind (guarded (py_int (py_or (dget d ''pid'' (PInt 0)) (PInt 0))) 0) (\<lambda>pid.
            Inr (str_or_empty c ''uuid'', pid, str_or_empty d ''container'', d))
        | _ \<Rightarrow> Inl AttributeError) ps)"

definition authorised :: "JobRecord list \<Rightarrow> OwnContainer list \<Rightarrow> gpu_process \<Rightarrow> bool" where
  "authorised jobs ours p =
     (case p of (uuid, pid, container, d) \<Rightarrow>
        pid \<in> set (job_pids jobs) \<or> container_matches container (known_names jobs ours))"

definition foreign_entry :: "gpu_process \<Rightarrow> pydict" where
  "foreign_entry p =
     (case p of (uuid, pid, container, d) \<Rightarrow>
        [(''uuid'', PStr uuid), (''pid'', PInt pid), (''comm'', dget d ''comm'' (PStr [])),
         (''cmdline'', PStr (take 120 (str_or_empty d ''cmdline''))), (''container'', PStr (take 12 container)),
         (''kind'', dget d ''kind'' (PStr [])), (''memory_mb'', dget d ''memory_mb'' PNone)])"

definition running_names :: "OwnContainer list \<Rightarrow> string list" where
  "running_names ours =
     (let live = filter (\<lambda>c. oc_state c \<in> {[], ''running''}) ours in map oc_id live @ map oc_name live)"

definition dead_job :: "int list \<Rightarrow> int list option \<Rightarrow> OwnContainer list \<Rightarrow> JobRecord \<Rightarrow> pydict option" where
  "dead_job seen_pids alive_pids ours job =
     (if 0 < jr_pid job
      then (if jr_pid job \<notin> set seen_pids \<and>
               (case alive_pids of None \<Rightarrow> True | Some alive \<Rightarrow> jr_pid job \<notin> set alive)
            then Some [(''job_id'', PStr (jr_job_id job)), (''kind'', PStr (jr_kind job)), (''pid'', PInt (jr_pid job)),
                       (''reason'', PStr ''no process'')]
            else None)
      else if jr_container job \<noteq> [] \<and> \<not> container_matches (jr_container job) (running_names ours)
      then Some [(''job_id'', PStr (jr_job_id job)), (''kind'', PStr (jr_kind job)),
                 (''container'', PStr (take 20 (jr_container job))), (''reason'', PStr ''container not running'')]
      else None)"

definition exclusivity_check ::
  "pydict list \<Rightarrow> JobRecord list \<Rightarrow> OwnContainer list \<Rightarrow> string \<Rightarrow> int list option \<Rightarrow> Verdict pyres" where
  "exclusivity_check gpus jobs ours seed alive_pids =
     rbind (rmap card_processes gpus) (\<lambda>pss.
       (let ps = concat pss;
            foreign = filter (\<lambda>p. \<not> authorised jobs ours p) ps;
            placed = length (filter (authorised jobs ours) ps);
            dead = List.map_filter (dead_job (map (\<lambda>p. fst (snd p)) ps) alive_pids ours) jobs;
            evidence = [(''jobs'', PInt (int (length jobs))), (''own_containers'', PInt (int (length ours))),
              (''authorised_processes'', PInt (int placed)),
              (''foreign_processes'', PList (map (\<lambda>p. PDict (foreign_entry p)) (take 20 foreign))),
              (''dead_jobs'', PList (map PDict dead)),
              (''summary'', PStr (show_nat placed @ '' placed, '' @ show_nat (length foreign) @ '' foreign, '' @
                 show_nat (length dead) @ '' dead jobs''))]
        in Inr (mk_verdict ''exclusivity''
             (case foreign of
                [] \<Rightarrow> None
              | (uuid, pid, container, d) # _ \<Rightarrow> Some (mk_failure UNAUTHORISED_WORK
                  (''pid '' @ show_int pid @ '' ('' @ py_str (py_or (dget d ''comm'' (PStr [])) (PStr ''unknown'')) @
                   '') on '' @ str_or uuid ''a card'' @ '' is not placed by the pool'') seed
                  [(''processes'', PList (map (\<lambda>p. PDict (foreign_entry p)) (take 10 foreign)))]))
             evidence 0)))"

section \<open>Facts\<close>

lemma append_to_has: "dhas (append_to k v d) u \<longleftrightarrow> u = k \<or> dhas d u"
  by (simp add: append_to_def)

lemma foldl_index_has:
  "dhas (foldl (\<lambda>ix c. let uuid = str_or_empty c ''uuid'' in if uuid \<noteq> [] then append_to uuid rig_id ix else ix) d cs) u
   \<longleftrightarrow> dhas d u \<or> (u \<noteq> [] \<and> (\<exists>c \<in> set cs. str_or_empty c ''uuid'' = u))"
  by (induction cs arbitrary: d) (auto simp: Let_def append_to_has)

text \<open>The rigs whose cards count as enrolled elsewhere.\<close>

definition enrolled_elsewhere :: "string \<Rightarrow> pydict \<Rightarrow> string \<Rightarrow> bool" where
  "enrolled_elsewhere exclude_rig rig u \<longleftrightarrow>
     str_or_empty rig ''id'' \<noteq> [] \<and> str_or_empty rig ''id'' \<noteq> exclude_rig \<and> str_or_empty rig ''state'' \<noteq> ''removed''
     \<and> u \<noteq> [] \<and> (\<exists>cs c. dict_items rig ''gpus'' = Inr cs \<and> c \<in> set cs \<and> str_or_empty c ''uuid'' = u)"

lemma enrolment_index_has:
  assumes "rfold (index_rig ex) roster d = Inr index"
  shows "dhas index u \<longleftrightarrow> dhas d u \<or> (\<exists>rig \<in> set roster. enrolled_elsewhere ex rig u)"
  using assms
proof (induction roster arbitrary: d)
  case (Cons rig roster)
  then obtain d1 where d1: "index_rig ex rig d = Inr d1" "rfold (index_rig ex) roster d1 = Inr index"
    by (auto simp: result_simps)
  have "dhas d1 u \<longleftrightarrow> dhas d u \<or> enrolled_elsewhere ex rig u"
    using d1(1) by (auto simp: index_rig_def Let_def enrolled_elsewhere_def result_simps foldl_index_has [unfolded Let_def]
        split: if_splits)
  then show ?case using Cons.IH [OF d1(2)] by auto
qed simp

lemma duplicates_of_Nil:
  "duplicates_of gpus index = [] \<longleftrightarrow> (\<forall>c \<in> set gpus. str_or_empty c ''uuid'' = [] \<or> \<not> dhas index (str_or_empty c ''uuid''))"
proof -
  have upd: "AList.update k v d \<noteq> []" for k :: string and v :: "string list" and d by (cases d) auto
  define f where "f = (\<lambda>ds c. let uuid = str_or_empty c ''uuid''
    in if uuid \<noteq> [] \<and> dhas index uuid then AList.update uuid (dget index uuid []) ds else ds)"
  have "foldl f d gpus = [] \<longleftrightarrow>
      d = [] \<and> (\<forall>c \<in> set gpus. str_or_empty c ''uuid'' = [] \<or> \<not> dhas index (str_or_empty c ''uuid''))" for d
    by (induction gpus arbitrary: d) (auto simp: f_def Let_def upd)
  from this [of "[]"] show ?thesis by (simp add: duplicates_of_def f_def)
qed

lemma specs_check_cases:
  assumes "specs_check data rig seed = Inr v"
  shows "\<exists>errors nvml enrolled seen. nvml_view data = Inr (errors, nvml) \<and> enrolled_cards rig = Inr enrolled
    \<and> seen_cards data = Inr seen
    \<and> (passed v \<longleftrightarrow> (\<forall>n \<in> set errors. n \<notin> set FATAL_NVML) \<and> specs_problems enrolled seen = Inr [])"
proof -
  obtain errors nvml enrolled seen where o: "nvml_view data = Inr (errors, nvml)" "enrolled_cards rig = Inr enrolled"
    "seen_cards data = Inr seen"
    using assms by (auto simp: specs_check_def result_simps)
  have "passed v \<longleftrightarrow> filter (\<lambda>n. n \<in> set FATAL_NVML) errors = [] \<and> specs_problems enrolled seen = Inr []"
  proof (cases "filter (\<lambda>n. n \<in> set FATAL_NVML) errors = []")
    case True
    then obtain problems where p: "specs_problems enrolled seen = Inr problems"
      using assms o by (auto simp: specs_check_def Let_def result_simps)
    then show ?thesis using assms o True
      by (cases problems) (simp_all add: specs_check_def Let_def passed_def, auto)
  next
    case False
    then show ?thesis using assms o by (simp add: specs_check_def Let_def passed_def, auto)
  qed
  then show ?thesis using o by (auto simp: filter_empty_conv)
qed

lemma specs_problems_Nil:
  assumes "specs_problems enrolled seen = Inr problems"
  shows "problems = [] \<longleftrightarrow> (\<forall>u \<in> set (dkeys enrolled). dhas seen u \<and>
    card_problems u (dget enrolled u []) (dget seen u []) = Inr [])"
proof -
  let ?f = "\<lambda>u. card_problems u (dget enrolled u []) (dget seen u [])"
  let ?common = "sort (filter (dhas seen) (dkeys enrolled))"
  let ?missing = "sort (filter (\<lambda>u. \<not> dhas seen u) (dkeys enrolled))"
  obtain ps where ps: "rmap ?f ?common = Inr ps"
    and pr: "problems = (if ?missing \<noteq> [] then [''enrolled cards absent: '' @ join '', '' ?missing] else []) @ concat ps"
    using assms by (auto simp: specs_problems_def Let_def result_simps)
  have total: "\<exists>y. ?f u = Inr y" if "u \<in> set ?common" for u
    using rmap_each [OF ps that] .
  have ms: "?missing = [] \<longleftrightarrow> (\<forall>u \<in> set (dkeys enrolled). dhas seen u)"
    by (metis (mono_tags, lifting) filter_empty_conv length_0_conv length_sort)
  have "concat ps = [] \<longleftrightarrow> (\<forall>u \<in> set ?common. ?f u = Inr [])"
  proof
    assume none: "concat ps = []"
    show "\<forall>u \<in> set ?common. ?f u = Inr []"
    proof
      fix u assume u: "u \<in> set ?common"
      then obtain y where y: "?f u = Inr y" using total by blast
      then have "y \<in> set ps" using u rmap_set [OF ps] by blast
      then show "?f u = Inr []" using y none by (simp add: concat_eq_Nil_conv)
    qed
  next
    assume "\<forall>u \<in> set ?common. ?f u = Inr []"
    then have "\<forall>y \<in> set ps. y = []" using rmap_set [OF ps] by fastforce
    then show "concat ps = []" by (simp add: concat_eq_Nil_conv)
  qed
  then show ?thesis using ms by (auto simp: pr)
qed

lemma memory_problem_Nil:
  "memory_problem u enrolled observed mb = [] \<longleftrightarrow>
     (\<exists>m. gpu_match observed mb = Some m \<and>
        (\<forall>t t'. enrolled_tier enrolled = Some t \<and> mt_tier m = Some t' \<longrightarrow> t' = t))"
  by (auto simp: memory_problem_def split: option.splits)

lemma card_problems_Nil:
  assumes "card_problems u enrolled seen = Inr []"
  shows "normalize (str_or_empty enrolled ''model'') = normalize (str_or_empty seen ''name'')
    \<and> (\<exists>mb m. guarded (py_float (py_or (dget seen ''memory_total_mb'' PNone) (PInt 0))) 0 = Inr mb
        \<and> gpu_match (normalize (str_or_empty seen ''name'')) mb = Some m
        \<and> (\<forall>t t'. enrolled_tier enrolled = Some t \<and> mt_tier m = Some t' \<longrightarrow> t' = t))
    \<and> dget seen ''virtualization'' PNone \<in> {PNone, PStr [], PStr ''NONE''}
    \<and> \<not> eq_int (dget seen ''host_vgpu_mode'' PNone) 1 \<and> mig_problem u seen = Inr []"
proof -
  obtain mb where mb: "guarded (py_float (py_or (dget seen ''memory_total_mb'' PNone) (PInt 0))) 0 = Inr mb"
    and mem: "memory_problem u enrolled (normalize (str_or_empty seen ''name'')) mb = []"
    and rest: "normalize (str_or_empty enrolled ''model'') = normalize (str_or_empty seen ''name'')"
      "mig_problem u seen = Inr []" "virtualization_problem u seen = []" "vgpu_problem u seen = []"
    using assms by (auto simp: card_problems_def Let_def result_simps split: if_splits)
  show ?thesis
    using mem [unfolded memory_problem_Nil] mb rest
    by (auto simp: virtualization_problem_def vgpu_problem_def Let_def split: if_splits)
qed

lemma host_judge_passes:
  "host_judge host seed = Inr None \<longleftrightarrow>
     truthy (dget host ''init_root_reachable'' PNone) \<and> truthy (dget host ''init_root_differs'' PNone)
     \<and> truthy (dget host ''init_os_release_readable'' PNone)
     \<and> (\<forall>m \<in> set NESTED_MARKERS. \<not> sublist m (str_or_empty host ''init_cgroup''))
     \<and> lower (strip (str_or_empty host ''detect_virt'')) \<in> set VIRT_CLEAR
     \<and> (\<exists>dmi. py_or (dget host ''dmi'' PNone) (PDict []) = PDict dmi \<and>
          (strip (str_or_empty dmi ''sys_vendor'') \<noteq> [] \<or> strip (str_or_empty dmi ''product_name'') \<noteq> []))"
  by (auto simp: host_judge_def Let_def filter_empty_conv contains_str_iff split: pyval.splits)


section \<open>Properties\<close>

text \<open>The duplicate check fails a rig exactly when one of its cards carries the uuid of a card
  enrolled on another rig of the roster that was not removed.\<close>

theorem duplicates_check_iff:
  assumes "duplicates_check gpus rig_id roster seed = Inr v"
  shows "\<not> passed v \<longleftrightarrow> (\<exists>c \<in> set gpus. \<exists>rig \<in> set roster. enrolled_elsewhere rig_id rig (str_or_empty c ''uuid''))"
proof -
  obtain index where ix: "enrolment_index roster rig_id = Inr index"
    using assms by (auto simp: duplicates_check_def result_simps)
  then have v: "passed v \<longleftrightarrow> duplicates_of gpus index = []"
    using assms by (cases "duplicates_of gpus index") (auto simp: duplicates_check_def Let_def)
  have has: "dhas index u \<longleftrightarrow> (\<exists>rig \<in> set roster. enrolled_elsewhere rig_id rig u)" for u
    using enrolment_index_has [OF ix [unfolded enrolment_index_def]] by (simp add: dhas_def)
  have "\<not> passed v \<longleftrightarrow> (\<exists>c \<in> set gpus. str_or_empty c ''uuid'' \<noteq> [] \<and> dhas index (str_or_empty c ''uuid''))"
    using v by (simp add: duplicates_of_Nil)
  also have "\<dots> \<longleftrightarrow> (\<exists>c \<in> set gpus. \<exists>rig \<in> set roster. enrolled_elsewhere rig_id rig (str_or_empty c ''uuid''))"
    unfolding has by (auto simp: enrolled_elsewhere_def)
  finally show ?thesis .
qed

theorem duplicates_check_iff_witness:
  "\<exists>v. duplicates_check [[(''uuid'', PStr ''GPU-1'')]] ''r1''
      [[(''id'', PStr ''r2''), (''state'', PStr ''active''), (''gpus'', PList [PDict [(''uuid'', PStr ''GPU-1'')]])]] ''s'' = Inr v
    \<and> \<not> passed v"
proof -
  let ?run = "duplicates_check [[(''uuid'', PStr ''GPU-1'')]] ''r1''
      [[(''id'', PStr ''r2''), (''state'', PStr ''active''), (''gpus'', PList [PDict [(''uuid'', PStr ''GPU-1'')]])]] ''s''"
  have "\<not> isl ?run" by code_simp
  then obtain v where v: "?run = Inr v" by (cases ?run) auto
  from duplicates_check_iff [OF v] show ?thesis
    using v by (simp add: enrolled_elsewhere_def str_or_empty_def dict_items_def iter_field_def)
qed

text \<open>A rig passes the specs check only when NVML reported no fatal error and every enrolled card
  was seen with the enrolled model, a memory size in an accepted window of that model, the enrolled
  tier, MIG off, no virtualization and no SR-IOV mode.\<close>

theorem specs_pass_means_as_enrolled:
  assumes "specs_check data rig seed = Inr v" and "passed v" and "enrolled_cards rig = Inr enrolled"
    and "u \<in> set (dkeys enrolled)"
  shows "\<exists>seen c. seen_cards data = Inr seen \<and> map_of seen u = Some c
    \<and> normalize (str_or_empty (dget enrolled u []) ''model'') = normalize (str_or_empty c ''name'')
    \<and> (\<exists>mb m. guarded (py_float (py_or (dget c ''memory_total_mb'' PNone) (PInt 0))) 0 = Inr mb
        \<and> gpu_match (normalize (str_or_empty c ''name'')) mb = Some m
        \<and> (\<forall>t t'. enrolled_tier (dget enrolled u []) = Some t \<and> mt_tier m = Some t' \<longrightarrow> t' = t))
    \<and> dget c ''virtualization'' PNone \<in> {PNone, PStr [], PStr ''NONE''}
    \<and> \<not> eq_int (dget c ''host_vgpu_mode'' PNone) 1 \<and> mig_problem u c = Inr []"
proof -
  obtain seen where seen: "seen_cards data = Inr seen" and pr: "specs_problems enrolled seen = Inr []"
    using specs_check_cases [OF assms(1)] assms(2,3) by auto
  have "dhas seen u \<and> card_problems u (dget enrolled u []) (dget seen u []) = Inr []"
    using specs_problems_Nil [OF pr] assms(4) by simp
  then obtain c where c: "map_of seen u = Some c" "card_problems u (dget enrolled u []) c = Inr []"
    by (auto simp: dhas_def dget_def)
  show ?thesis using card_problems_Nil [OF c(2)] c(1) seen by blast
qed

definition demo_rig :: pydict where
  "demo_rig = [(''gpus'', PList [PDict [(''uuid'', PStr ''GPU-1''), (''model'', PStr ''NVIDIA L4'')]])]"

definition demo_data :: pydict where
  "demo_data = [(''gpus'', PList [PDict [(''uuid'', PStr ''GPU-1''), (''name'', PStr ''NVIDIA L4''),
     (''memory_total_mb'', PInt 23034)]])]"

theorem specs_pass_means_as_enrolled_witness:
  "\<exists>seen c. seen_cards demo_data = Inr seen \<and> map_of seen ''GPU-1'' = Some c"
proof -
  have "\<not> isl (specs_check demo_data demo_rig ''s'')" by code_simp
  then obtain v where v: "specs_check demo_data demo_rig ''s'' = Inr v" by (cases "specs_check demo_data demo_rig ''s''") auto
  have p: "(case specs_check demo_data demo_rig ''s'' of Inr w \<Rightarrow> v_failure w = None | _ \<Rightarrow> False)" by code_simp
  have e: "enrolled_cards demo_rig = Inr [(''GPU-1'', [(''uuid'', PStr ''GPU-1''), (''model'', PStr ''NVIDIA L4'')])]"
    by code_simp
  from specs_pass_means_as_enrolled [OF v _ e, of "''GPU-1''"] show ?thesis
    using p v by (auto simp: passed_def dkeys_def)
qed

text \<open>The exclusivity check passes a rig exactly when every process on every card is either a pid of a
  job the pool placed or runs in a container that belongs to such a job or to the validator; otherwise
  the verdict is unauthorised work.\<close>

theorem exclusivity_iff:
  assumes "exclusivity_check gpus jobs ours seed alive = Inr v"
  shows "(passed v \<longleftrightarrow> (\<forall>c \<in> set gpus. \<forall>ps. card_processes c = Inr ps \<longrightarrow> (\<forall>p \<in> set ps. authorised jobs ours p)))
    \<and> (\<forall>f. v_failure v = Some f \<longrightarrow> f_kind f = UNAUTHORISED_WORK)"
proof -
  obtain pss where pss: "rmap card_processes gpus = Inr pss"
    using assms by (auto simp: exclusivity_check_def result_simps)
  let ?foreign = "filter (\<lambda>p. \<not> authorised jobs ours p) (concat pss)"
  have v: "v_failure v = None \<longleftrightarrow> ?foreign = []"
    and k: "\<forall>f. v_failure v = Some f \<longrightarrow> f_kind f = UNAUTHORISED_WORK"
    using assms pss by (cases ?foreign; auto simp: exclusivity_check_def Let_def)+
  have "(\<forall>p \<in> set (concat pss). authorised jobs ours p) \<longleftrightarrow>
      (\<forall>c \<in> set gpus. \<forall>ps. card_processes c = Inr ps \<longrightarrow> (\<forall>p \<in> set ps. authorised jobs ours p))"
    using rmap_set [OF pss] by auto
  then show ?thesis using v k by (simp add: passed_def filter_empty_conv)
qed

theorem exclusivity_iff_witness:
  "\<exists>v. exclusivity_check [[(''uuid'', PStr ''GPU-1''), (''processes'', PList [PDict [(''pid'', PInt 9)]])]] [] [] ''s'' None = Inr v
    \<and> \<not> passed v"
proof -
  let ?c = "[(''uuid'', PStr ''GPU-1''), (''processes'', PList [PDict [(''pid'', PInt 9)]])]"
  let ?run = "exclusivity_check [?c] [] [] ''s'' None"
  have "\<not> isl ?run" by code_simp
  then obtain v where v: "?run = Inr v" by (cases ?run) auto
  have "card_processes ?c = Inr [(''GPU-1'', 9, [], [(''pid'', PInt 9)])]" by code_simp
  moreover have "\<not> authorised [] [] (''GPU-1'', 9, [], [(''pid'', PInt 9)])" by code_simp
  ultimately show ?thesis using exclusivity_iff [OF v] v by auto
qed

end
