(* ===== verification/Remote_Host.thy ===== *)
theory Remote_Host
  imports Session_Core Py_Shell
begin

text \<open>
  Work on a rig through a \<^verbatim>\<open>Runner\<close> (\<^verbatim>\<open>validator/session/runner.py\<close>). The rig is outside the repository:
  a \<open>rig\<close> is the answer it gives to a command after the commands it has seen, so what it holds (its
  containers, volumes and power limits) is whatever that history made it. Operations are computations
  that append the commands they send to \<open>w_sent\<close> and end with a value or an exception; the limits on
  the time of a command only decide which answer the rig gives. The records extending \<open>Host\<close> carry
  the files and objects an operation changes besides.
\<close>

section \<open>Computations\<close>

datatype exc = OsError | VolumeNameError | ValueErr string | Cancelled string | SshErr FailureClass string
  | RuntimeErr string | Unavailable string | ServerErr int string | NvmlErr int string | Raised pyerr

type_synonym ('s, 'a) act = "'s \<Rightarrow> 's \<times> (exc + 'a)"

definition ret :: "'a \<Rightarrow> ('s, 'a) act" where
  "ret x = (\<lambda>w. (w, Inr x))"

definition raise :: "exc \<Rightarrow> ('s, 'a) act" where
  "raise e = (\<lambda>w. (w, Inl e))"

definition bnd :: "('s, 'a) act \<Rightarrow> ('a \<Rightarrow> ('s, 'b) act) \<Rightarrow> ('s, 'b) act" where
  "bnd m f = (\<lambda>w. case m w of (w', Inl e) \<Rightarrow> (w', Inl e) | (w', Inr x) \<Rightarrow> f x w')"

definition gets :: "('s \<Rightarrow> 'a) \<Rightarrow> ('s, 'a) act" where
  "gets f = (\<lambda>w. (w, Inr (f w)))"

definition modify :: "('s \<Rightarrow> 's) \<Rightarrow> ('s, unit) act" where
  "modify f = (\<lambda>w. (f w, Inr ()))"

text \<open>\<^verbatim>\<open>try: m except: h\<close>, for every exception.\<close>

definition attempt :: "('s, 'a) act \<Rightarrow> (exc \<Rightarrow> ('s, 'a) act) \<Rightarrow> ('s, 'a) act" where
  "attempt m h = (\<lambda>w. case m w of (w', Inl e) \<Rightarrow> h e w' | (w', Inr x) \<Rightarrow> (w', Inr x))"

text \<open>\<^verbatim>\<open>for x in xs: f(x)\<close>, with the values returned collected.\<close>

fun each :: "('a \<Rightarrow> ('s, 'b) act) \<Rightarrow> 'a list \<Rightarrow> ('s, 'b list) act" where
  "each f [] = ret []"
| "each f (x # xs) = bnd (f x) (\<lambda>y. bnd (each f xs) (\<lambda>ys. ret (y # ys)))"

lemma act_simps [simp]:
  "ret x w = (w, Inr x)" "raise e w = (w, Inl e)" "gets g w = (w, Inr (g w))" "modify u w = (u w, Inr ())"
  by (simp_all add: ret_def raise_def gets_def modify_def)

lemma bnd_ret [simp]: "bnd (ret x) f = f x"
  by (simp add: bnd_def ret_def)

lemma bnd_assoc: "bnd (bnd m f) g = bnd m (\<lambda>x. bnd (f x) g)"
  by (auto simp: bnd_def fun_eq_iff split: prod.splits sum.splits)

lemma bnd_Inr: "bnd m f w = (w', Inr y) \<longleftrightarrow> (\<exists>w1 x. m w = (w1, Inr x) \<and> f x w1 = (w', Inr y))"
  by (auto simp: bnd_def split: prod.splits sum.splits)

lemma bnd_cases:
  assumes "bnd m f w = (w', r)"
  obtains (stop) e where "m w = (w', Inl e)" "r = Inl e" | (go) w1 x where "m w = (w1, Inr x)" "f x w1 = (w', r)"
  using assms by (cases "m w") (auto simp: bnd_def split: sum.splits)

section \<open>Commands\<close>

type_synonym cmd = "string \<times> string option"
type_synonym rig = "cmd list \<Rightarrow> cmd \<Rightarrow> CommandResult"

record Host =
  w_sent :: "cmd list"

definition run_in :: "rig \<Rightarrow> string \<Rightarrow> string option \<Rightarrow> ('z Host_scheme, CommandResult) act" where
  "run_in h c stdin = (\<lambda>w. (w\<lparr>w_sent := w_sent w @ [(c, stdin)]\<rparr>, Inr (h (w_sent w) (c, stdin))))"

definition run :: "rig \<Rightarrow> string \<Rightarrow> ('z Host_scheme, CommandResult) act" where
  "run h c = run_in h c None"

lemma run_eq [simp]:
  "run_in h c stdin w = (w\<lparr>w_sent := w_sent w @ [(c, stdin)]\<rparr>, Inr (h (w_sent w) (c, stdin)))"
  "run h c w = (w\<lparr>w_sent := w_sent w @ [(c, None)]\<rparr>, Inr (h (w_sent w) (c, None)))"
  by (simp_all add: run_in_def run_def)

text \<open>A part of the program that sends nothing and may raise.\<close>

definition lift :: "'a pyres \<Rightarrow> ('s, 'a) act" where
  "lift m = (case m of Inl e \<Rightarrow> raise (Raised e) | Inr x \<Rightarrow> ret x)"

section \<open>What a computation sends\<close>

text \<open>\<open>emits P m\<close>: the computation \<open>m\<close> only appends commands, and each of them satisfies \<open>P\<close>.\<close>

definition emits :: "(cmd \<Rightarrow> bool) \<Rightarrow> ('z Host_scheme, 'a) act \<Rightarrow> bool" where
  "emits P m \<longleftrightarrow> (\<forall>w. \<exists>cs. w_sent (fst (m w)) = w_sent w @ cs \<and> list_all P cs)"

named_theorems emits_rules

lemma emitsD: "emits P m \<Longrightarrow> m w = (w', r) \<Longrightarrow> \<exists>cs. w_sent w' = w_sent w @ cs \<and> list_all P cs"
  unfolding emits_def by (metis fst_conv)

lemma emits_ret [emits_rules]: "emits P (ret x)"
  by (simp add: emits_def)

lemma emits_raise [emits_rules]: "emits P (raise e)"
  by (simp add: emits_def)

lemma emits_gets [emits_rules]: "emits P (gets g)"
  by (simp add: emits_def)

lemma emits_modify [emits_rules]: "(\<And>w. w_sent (u w) = w_sent w) \<Longrightarrow> emits P (modify u)"
  by (simp add: emits_def)

lemma emits_run [emits_rules]: "P (c, None) \<Longrightarrow> emits P (run h c)"
  by (simp add: emits_def)

lemma emits_run_in [emits_rules]: "P (c, stdin) \<Longrightarrow> emits P (run_in h c stdin)"
  by (simp add: emits_def)

lemma emits_bnd [emits_rules]:
  assumes "emits P m" "\<And>x. emits P (f x)"
  shows "emits P (bnd m f)"
  unfolding emits_def
proof
  fix w
  obtain w1 r where m: "m w = (w1, r)" by fastforce
  then obtain cs where cs: "w_sent w1 = w_sent w @ cs" "list_all P cs" using assms(1) emitsD by blast
  show "\<exists>cs. w_sent (fst (bnd m f w)) = w_sent w @ cs \<and> list_all P cs"
  proof (cases r)
    case (Inl e)
    then show ?thesis using m cs by (auto simp: bnd_def)
  next
    case (Inr x)
    obtain ds where "w_sent (fst (f x w1)) = w_sent w1 @ ds" "list_all P ds"
      using assms(2) [of x] unfolding emits_def by blast
    then show ?thesis using m cs Inr by (auto simp: bnd_def)
  qed
qed

lemma emits_attempt [emits_rules]:
  assumes "emits P m" "\<And>e. emits P (g e)"
  shows "emits P (attempt m g)"
  unfolding emits_def
proof
  fix w
  obtain w1 r where m: "m w = (w1, r)" by fastforce
  then obtain cs where cs: "w_sent w1 = w_sent w @ cs" "list_all P cs" using assms(1) emitsD by blast
  show "\<exists>cs. w_sent (fst (attempt m g w)) = w_sent w @ cs \<and> list_all P cs"
  proof (cases r)
    case (Inr x)
    then show ?thesis using m cs by (auto simp: attempt_def)
  next
    case (Inl e)
    obtain ds where "w_sent (fst (g e w1)) = w_sent w1 @ ds" "list_all P ds"
      using assms(2) [of e] unfolding emits_def by blast
    then show ?thesis using m cs Inl by (auto simp: attempt_def)
  qed
qed

lemma emits_each [emits_rules]: "(\<And>x. x \<in> set xs \<Longrightarrow> emits P (f x)) \<Longrightarrow> emits P (each f xs)"
  by (induction xs) (auto intro!: emits_rules)

lemma emits_mono: "emits P m \<Longrightarrow> (\<And>c. P c \<Longrightarrow> Q c) \<Longrightarrow> emits Q m"
  unfolding emits_def by (meson list_all_iff)

lemma emits_if [emits_rules]: "(b \<Longrightarrow> emits P m) \<Longrightarrow> (\<not> b \<Longrightarrow> emits P n) \<Longrightarrow> emits P (if b then m else n)"
  by simp

lemma emits_lift [emits_rules]: "emits P (lift m)"
  by (cases m) (simp_all add: lift_def emits_def)

text \<open>A computation that only appends keeps what was sent.\<close>

lemma emits_sent_prefix: "emits P m \<Longrightarrow> m w = (w', r) \<Longrightarrow> prefix (w_sent w) (w_sent w')"
  using emitsD by (fastforce simp: prefix_def)

end
