(* ===== verification/Verify_Scrape.thy ===== *)
theory Verify_Scrape
  imports Verify_Checks Remote_Host
begin

text \<open>
  The scrape of a rig (\<^verbatim>\<open>validator/verify/scrape.py\<close>) and the host reality run
  (\<^verbatim>\<open>validator/verify/host_reality.py\<close>). The payload that runs on the rig gets fresh names for the fields it
  reports; the names also give the key its answer is encrypted with. The draw of the names, SHA-256,
  the Fernet cipher and JSON are parameters: \<open>decrypt key token\<close> stands for \<^verbatim>\<open>Fernet(...).decrypt\<close> under the
  base64 text of the digest \<open>key\<close>, and is \<open>None\<close> when it raises.
\<close>

section \<open>Fresh names\<close>

definition TOKEN_PREFIX :: string where "TOKEN_PREFIX = ''gAAAAA''"
definition SCAN_BYTES :: nat where "SCAN_BYTES = 256 * 1024"
definition MAX_CANDIDATES :: nat where "MAX_CANDIDATES = 20"

definition quote1 :: char where "quote1 = CHR 0x22"

definition upper_us :: "char \<Rightarrow> bool" where
  "upper_us c = (c = CHR ''_'' \<or> (65 \<le> (of_char c :: nat) \<and> of_char c \<le> (90 :: nat)))"

definition lower_us :: "char \<Rightarrow> bool" where
  "lower_us c = (c = CHR ''_'' \<or> (97 \<le> (of_char c :: nat) \<and> of_char c \<le> (122 :: nat)))"

text \<open>A line that matches \<^verbatim>\<open>FIELD_LINE\<close>: its left side and the field it names.\<close>

definition field_line :: "string \<Rightarrow> (string \<times> string) option" where
  "field_line l =
     (let body = drop 2 l; lhs = takeWhile upper_us body; rest = drop (length lhs) body;
          mid = '' = '' @ [quote1]; tail' = drop (length mid) rest; fld = takeWhile lower_us tail'
      in if prefix ''F_'' l \<and> lhs \<noteq> [] \<and> prefix mid rest \<and> fld \<noteq> [] \<and> drop (length fld) tail' = [quote1]
         then Some (''F_'' @ lhs, fld) else None)"

text \<open>The lines rewritten, and the fresh names with their fields in the order drawn.\<close>

fun obfuscate_lines :: "(nat \<Rightarrow> string) \<Rightarrow> nat \<Rightarrow> string list \<Rightarrow> string list \<times> (string \<times> string) list" where
  "obfuscate_lines draw n [] = ([], [])"
| "obfuscate_lines draw n (l # ls) =
     (case field_line l of
        None \<Rightarrow> (case obfuscate_lines draw n ls of (out, drawn) \<Rightarrow> (l # out, drawn))
      | Some (lhs, fld) \<Rightarrow>
          (let fresh = ''_'' @ draw n in
           case obfuscate_lines draw (Suc n) ls of (out, drawn) \<Rightarrow>
             ((lhs @ '' = '' @ [quote1] @ fresh @ [quote1]) # out, (fresh, fld) # drawn)))"

definition dict_comp :: "('k \<times> 'v) list \<Rightarrow> ('k \<times> 'v) list" where
  "dict_comp kvs = foldl (\<lambda>d (k, v). AList.update k v d) [] kvs"

record Obfuscated =
  ob_source :: string
  ob_names :: "(string \<times> string) list"
  ob_key :: "nat list"

definition obfuscate :: "(string \<Rightarrow> nat list) \<Rightarrow> (nat \<Rightarrow> string) \<Rightarrow> string \<Rightarrow> Obfuscated pyres" where
  "obfuscate sha256 draw original =
     (case obfuscate_lines draw 0 (split_on (CHR 0x0A) original) of (out, drawn) \<Rightarrow>
        if drawn = [] then Inl ValueError
        else Inr \<lparr>ob_source = join newline out, ob_names = dict_comp drawn, ob_key = sha256 (concat (map fst drawn))\<rparr>)"

section \<open>Reading the answer\<close>

definition scan_window :: "string \<Rightarrow> string list" where
  "scan_window stdout = map strip (rev (splitlines (tail_chars SCAN_BYTES stdout)))"

definition candidates :: "string \<Rightarrow> string list" where
  "candidates stdout = take MAX_CANDIDATES (filter (\<lambda>l. startswith l TOKEN_PREFIX) (scan_window stdout))"

fun first_error :: "(string \<Rightarrow> pyval option) \<Rightarrow> string list \<Rightarrow> string" where
  "first_error loads [] = []"
| "first_error loads (l # ls) =
     (if prefix (''{'' @ [quote1] @ ''error'' @ [quote1] @ '':'') l
      then (case loads l of
              Some (PDict d) \<Rightarrow> if dhas d ''error'' then py_str (dget d ''error'' (PStr [])) else first_error loads ls
            | _ \<Rightarrow> first_error loads ls)
      else first_error loads ls)"

definition error_line :: "(string \<Rightarrow> pyval option) \<Rightarrow> string \<Rightarrow> string" where
  "error_line loads stdout = first_error loads (scan_window stdout)"

fun decrypt_first :: "(nat list \<Rightarrow> string \<Rightarrow> string option) \<Rightarrow> (string \<Rightarrow> pyval option) \<Rightarrow> nat list \<Rightarrow> string list \<Rightarrow> pydict option" where
  "decrypt_first decrypt loads key [] = None"
| "decrypt_first decrypt loads key (t # ts) =
     (case decrypt key t of
        None \<Rightarrow> decrypt_first decrypt loads key ts
      | Some raw \<Rightarrow> (case loads raw of Some (PDict d) \<Rightarrow> Some d | _ \<Rightarrow> decrypt_first decrypt loads key ts))"

definition restore_card :: "(string \<times> string) list \<Rightarrow> pydict \<Rightarrow> pydict" where
  "restore_card names c = dict_comp (map (\<lambda>(k, v). (dget names k k, v)) c)"

definition restore :: "pydict \<Rightarrow> (string \<times> string) list \<Rightarrow> pydict pyres" where
  "restore data names =
     rbind (dict_items data ''gpus'') (\<lambda>cs. Inr (AList.update ''gpus'' (PList (map (\<lambda>c. PDict (restore_card names c)) cs)) data))"

section \<open>Addresses\<close>

text \<open>A dotted quad as \<^verbatim>\<open>ipaddress\<close> reads it: four decimal octets without leading zeros.\<close>

definition octet :: "string \<Rightarrow> nat option" where
  "octet s = (if s \<noteq> [] \<and> list_all is_digit s \<and> length s \<le> 3 \<and> (length s = 1 \<or> hd s \<noteq> CHR ''0'') \<and> digits_val s \<le> 255
              then Some (digits_val s) else None)"

definition ipv4 :: "string \<Rightarrow> nat option" where
  "ipv4 address =
     (case map octet (split_on (CHR ''.'') address) of
        [Some a, Some b, Some c, Some d] \<Rightarrow> Some (((a * 256 + b) * 256 + c) * 256 + d)
      | _ \<Rightarrow> None)"

definition PRIVATE_NETWORKS :: "(string \<times> nat) list" where
  "PRIVATE_NETWORKS =
     [(''10.0.0.0'', 8), (''172.16.0.0'', 12), (''192.168.0.0'', 16), (''100.64.0.0'', 10), (''127.0.0.0'', 8), (''169.254.0.0'', 16)]"

definition in_network :: "nat \<Rightarrow> string \<times> nat \<Rightarrow> bool" where
  "in_network ip net = (case ipv4 (fst net) of None \<Rightarrow> False | Some base \<Rightarrow> ip div 2 ^ (32 - snd net) = base div 2 ^ (32 - snd net))"

definition is_public :: "string \<Rightarrow> bool" where
  "is_public address = (case ipv4 address of None \<Rightarrow> False | Some ip \<Rightarrow> \<not> list_ex (in_network ip) PRIVATE_NETWORKS)"

section \<open>The specification of a rig\<close>

text \<open>\<^verbatim>\<open>v.get(k) or {}\<close>.\<close>

definition sub_dict :: "pyval \<Rightarrow> string \<Rightarrow> pyval pyres" where
  "sub_dict v k = rbind (attr_get v k PNone) (\<lambda>x. Inr (py_or x (PDict [])))"

definition str_attr :: "pyval \<Rightarrow> string \<Rightarrow> string pyres" where
  "str_attr v k = rbind (attr_get v k (PStr [])) (\<lambda>x. Inr (py_str (py_or x (PStr []))))"

definition int_attr :: "pyval \<Rightarrow> string \<Rightarrow> int pyres" where
  "int_attr v k = rbind (attr_get v k PNone) (\<lambda>x. py_int (py_or x (PInt 0)))"

definition ok_attr :: "pyval \<Rightarrow> string \<Rightarrow> string \<Rightarrow> bool pyres" where
  "ok_attr probes which key = rbind (sub_dict probes which) (\<lambda>p. rbind (attr_get p key (PBool False)) (\<lambda>x. Inr (truthy x)))"

definition spec_card :: "pyval \<Rightarrow> pyval list pyres" where
  "spec_card v =
     rbind (attr_get v ''uuid'' PNone) (\<lambda>u.
       if \<not> truthy u then Inr []
       else rbind (str_attr v ''name'') (\<lambda>model. rbind (int_attr v ''memory_total_mb'') (\<lambda>mb.
              Inr [PDict [(''model'', PStr model), (''memory_mb'', PInt mb), (''uuid'', PStr (py_str u))]])))"

definition spec_volume :: "pyval \<Rightarrow> pyval pyres" where
  "spec_volume disk =
     rbind (attr_get disk ''docker_root'' PNone) (\<lambda>a.
       if truthy a then Inr a else rbind (attr_get disk ''root'' PNone) (\<lambda>b. Inr (py_or b (PDict []))))"

definition spec_host :: "pyval \<Rightarrow> pydict pyres" where
  "spec_host host =
     rbind (sub_dict host ''disk'') (\<lambda>disk. rbind (spec_volume disk) (\<lambda>volume.
     rbind (sub_dict host ''cpu'') (\<lambda>cpu. rbind (int_attr cpu ''count'') (\<lambda>cores.
     rbind (sub_dict host ''memory'') (\<lambda>mem. rbind (int_attr mem ''total_mb'') (\<lambda>ram.
     rbind (rbind (attr_get volume ''total_gb'' PNone) (\<lambda>x. py_float (py_or x (PFloat 0)))) (\<lambda>gb.
     rbind (attr_get volume ''rotational'' PNone) (\<lambda>rotational.
     rbind (sub_dict host ''os'') (\<lambda>os. rbind (str_attr os ''id'') (\<lambda>os_id. rbind (str_attr os ''version'') (\<lambda>os_version.
     rbind (str_attr host ''kernel'') (\<lambda>kernel. rbind (str_attr host ''arch'') (\<lambda>arch.
       Inr [(''cpu_cores'', PInt cores), (''ram_mb'', PInt ram), (''disk_gb'', PFloat gb),
            (''disk_ssd'', PBool (rotational \<noteq> PBool True)), (''os'', PStr os_id), (''os_version'', PStr os_version),
            (''kernel'', PStr kernel), (''arch'', PStr arch)])))))))))))))"

definition build_spec :: "pydict \<Rightarrow> string \<Rightarrow> string \<Rightarrow> pydict pyres" where
  "build_spec data address port_range =
     rbind (sub_dict (PDict data) ''host'') (\<lambda>host. rbind (sub_dict (PDict data) ''nvml'') (\<lambda>nvml.
     rbind (sub_dict (PDict data) ''docker'') (\<lambda>docker. rbind (sub_dict (PDict data) ''probes'') (\<lambda>probes.
     rbind (rbind (iter_field data ''gpus'') (rmap spec_card)) (\<lambda>cards.
     rbind (spec_host host) (\<lambda>h.
     rbind (ok_attr probes ''sysbox'' ''ok'') (\<lambda>sysbox. rbind (ok_attr probes ''idmapped'' ''idmapped'') (\<lambda>idmapped.
     rbind (ok_attr probes ''storage_quota'' ''ok'') (\<lambda>quota.
     rbind (str_attr nvml ''driver'') (\<lambda>driver. rbind (str_attr nvml ''cuda'') (\<lambda>cuda.
     rbind (str_attr host ''hostname'') (\<lambda>hostname.
     rbind (rbind (attr_get docker ''runtimes'' PNone) (\<lambda>x. py_iter (py_or x (PList [])))) (\<lambda>runtimes.
       Inr ([(''gpus'', PList (concat cards))] @ h @
            [(''driver'', PStr driver), (''cuda'', PStr cuda),
             (''isolation'', PDict [(''sysbox'', PBool sysbox), (''idmapped'', PBool idmapped)]),
             (''storage_quota'', PBool quota), (''hostname'', PStr hostname), (''public_ipv4'', PBool (is_public address)),
             (''port_range'', PStr port_range), (''docker_runtimes'', PList runtimes)]))))))))))))))"

section \<open>Runs over a session\<close>

text \<open>What a pass depends on outside the validator: the rig, the uploads it refuses (after the commands it
  has seen), JSON, the payload texts and drawn values, and the libraries.\<close>

record CheckEnv =
  ck_rig :: rig
  ck_refuses :: "cmd list \<Rightarrow> string \<Rightarrow> string option"
  ck_loads :: "string \<Rightarrow> pyval option"
  ck_sha256 :: "string \<Rightarrow> nat list"
  ck_decrypt :: "nat list \<Rightarrow> string \<Rightarrow> string option"
  ck_payload :: string
  ck_draw :: "nat \<Rightarrow> string"

definition upload :: "CheckEnv \<Rightarrow> string \<Rightarrow> ('z Host_scheme, unit) act" where
  "upload env path =
     bnd (gets w_sent) (\<lambda>sent. case ck_refuses env sent path of
       None \<Rightarrow> ret () | Some detail \<Rightarrow> raise (SshErr SSH_TRANSPORT (''upload '' @ path @ '': '' @ detail)))"

definition run_json :: "CheckEnv \<Rightarrow> string \<Rightarrow> ('z Host_scheme, CommandResult \<times> pydict option) act" where
  "run_json env c = bnd (run (ck_rig env) c) (\<lambda>r. ret (r, last_json_object (ck_loads env) (res_stdout r)))"

text \<open>\<^verbatim>\<open>try: m except SshError as exc: f(exc)\<close>.\<close>

definition catch_ssh :: "('s, 'a) act \<Rightarrow> (FailureClass \<Rightarrow> string \<Rightarrow> ('s, 'a) act) \<Rightarrow> ('s, 'a) act" where
  "catch_ssh m f = attempt m (\<lambda>e. case e of SshErr k d \<Rightarrow> f k d | _ \<Rightarrow> raise e)"

definition ssh_failure :: "FailureClass \<Rightarrow> string \<Rightarrow> string \<Rightarrow> Failure" where
  "ssh_failure k d seed = mk_failure k d seed []"

definition host_evidence :: "pydict \<Rightarrow> pydict pyres" where
  "host_evidence parsed =
     rbind (sub_dict (PDict parsed) ''dmi'') (\<lambda>dmi.
     rbind (attr_get dmi ''sys_vendor'' (PStr [])) (\<lambda>vendor. rbind (attr_get dmi ''product_name'' (PStr [])) (\<lambda>product.
       Inr ([(''summary'', PStr (str_or (strip (py_str vendor @ '' '' @ py_str product)) ''host''))] @
            map (\<lambda>k. (k, dget parsed k PNone))
              [''detect_virt'', ''init_root_differs'', ''init_comm'', ''boot_id'', ''machine_id'', ''kernel'']))))"

definition HOST_PAYLOAD :: string where "HOST_PAYLOAD = ''host_reality.py''"

definition host_run :: "CheckEnv \<Rightarrow> string \<Rightarrow> string \<Rightarrow> string \<Rightarrow> ('z Host_scheme, Verdict \<times> pydict) act" where
  "host_run env python session_dir seed =
     (let remote = session_dir @ ''/'' @ HOST_PAYLOAD in
      bnd (catch_ssh (bnd (upload env remote) (\<lambda>_. bnd (run_json env (shlex_quote python @ '' -I '' @ shlex_quote remote)) (\<lambda>x. ret (Inr x))))
             (\<lambda>k d. ret (Inl (ssh_failure k d seed)))) (\<lambda>done.
        case done of
          Inl f \<Rightarrow> ret (mk_verdict ''host reality'' (Some f) [] 0, [])
        | Inr (r, None) \<Rightarrow>
            ret (mk_verdict ''host reality''
                   (Some (case classify r seed of
                      Some f \<Rightarrow> f | None \<Rightarrow> mk_failure AGENT_CRASH ''the host reality payload printed no result'' seed []))
                   [] (res_elapsed_ms r), [])
        | Inr (r, Some parsed) \<Rightarrow>
            bnd (lift (host_judge parsed seed)) (\<lambda>f. bnd (lift (host_evidence parsed)) (\<lambda>ev.
              ret (mk_verdict ''host reality'' f ev (res_elapsed_ms r), parsed)))))"

record ScrapeResult =
  sc_verdict :: Verdict
  sc_data :: "pydict option"
  sc_spec :: "pydict option"
  sc_names :: "(string \<times> string) list"

definition scrape_failed :: "Failure \<Rightarrow> pydict \<Rightarrow> (string \<times> string) list \<Rightarrow> ScrapeResult" where
  "scrape_failed f evidence names =
     \<lparr>sc_verdict = mk_verdict ''scrape'' (Some f) evidence 0, sc_data = None, sc_spec = None, sc_names = names\<rparr>"

definition scrape_summary :: "pydict \<Rightarrow> string" where
  "scrape_summary spec =
     (case dget spec ''gpus'' (PList []) of PList cs \<Rightarrow> show_nat (length cs) | _ \<Rightarrow> []) @ '' cards, driver '' @
     py_str (py_or (dget spec ''driver'' (PStr [])) (PStr ''unknown''))"

definition nvml_errors :: "pydict \<Rightarrow> pyval list pyres" where
  "nvml_errors data =
     rbind (sub_dict (PDict data) ''nvml'') (\<lambda>n. rbind (attr_get n ''errors'' PNone) (\<lambda>x. py_iter (py_or x (PList []))))"

definition scrape_read :: "CheckEnv \<Rightarrow> Obfuscated \<Rightarrow> string \<Rightarrow> string \<Rightarrow> string \<Rightarrow> CommandResult \<Rightarrow> ScrapeResult pyres" where
  "scrape_read env prepared address port_range seed r =
     (let evidence = [(''command_ms'', PFloat (py_round_to 1 (res_elapsed_ms r))), (''stdout_bytes'', PInt (int (length (res_stdout r))))];
          reported = error_line (ck_loads env) (res_stdout r); tokens = candidates (res_stdout r)
      in if transport_failed r then Inr (scrape_failed (mk_failure SSH_TRANSPORT (res_error r) seed []) evidence [])
         else if reported \<noteq> []
         then Inr (scrape_failed (mk_failure AGENT_CRASH (''the scrape reported: '' @ take 300 reported) seed []) evidence [])
         else (case (if tokens = [] then None else decrypt_first (ck_decrypt env) (ck_loads env) (ob_key prepared) tokens) of
           None \<Rightarrow>
             Inr (scrape_failed
               (case classify r seed of
                  Some f \<Rightarrow> f
                | None \<Rightarrow> mk_failure AGENT_CRASH
                    (if tokens = [] then ''the scrape produced no output the validator could decrypt''
                     else ''no scrape token decrypted with the job key'') seed
                    [(''candidates'', PInt (int (length tokens))), (''stderr'', PStr (stderr_tail 400 r))])
               evidence (ob_names prepared))
         | Some data \<Rightarrow>
             rbind (restore data (ob_names prepared)) (\<lambda>restored.
             rbind (build_spec restored address port_range) (\<lambda>spec.
             rbind (nvml_errors restored) (\<lambda>errors.
               Inr \<lparr>sc_verdict = mk_verdict ''scrape'' None
                      (evidence @ [(''summary'', PStr (scrape_summary spec)), (''elapsed_ms'', dget restored ''elapsed_ms'' PNone),
                                   (''candidates'', PInt (int (length tokens))), (''nvml_errors'', PList errors)])
                      (res_elapsed_ms r),
                    sc_data = Some restored, sc_spec = Some spec, sc_names = ob_names prepared\<rparr>)))))"

definition scrape_run :: "CheckEnv \<Rightarrow> string \<Rightarrow> string \<Rightarrow> string \<Rightarrow> string \<Rightarrow> ('z Host_scheme, ScrapeResult) act" where
  "scrape_run env python address port_range seed =
     bnd (lift (obfuscate (ck_sha256 env) (ck_draw env) (ck_payload env))) (\<lambda>prepared.
     bnd (catch_ssh (bnd (run_in (ck_rig env) (shlex_quote python @ '' -I -'') (Some (ob_source prepared))) (\<lambda>r. ret (Inr r)))
            (\<lambda>k d. ret (Inl (ssh_failure k d seed)))) (\<lambda>done.
       case done of
         Inl f \<Rightarrow> ret (scrape_failed f [] [])
       | Inr r \<Rightarrow> lift (scrape_read env prepared address port_range seed r)))"

section \<open>Facts\<close>

lemma dict_comp_distinct:
  assumes "distinct (map fst kvs)"
  shows "dict_comp kvs = kvs"
proof -
  have "foldl (\<lambda>d (k, v). AList.update k v d) acc kvs = acc @ kvs"
    if "distinct (map fst (acc @ kvs))" for acc
    using that
  proof (induction kvs arbitrary: acc)
    case (Cons p kvs)
    have "AList.update (fst p) (snd p) acc = acc @ [p]"
      using Cons.prems by (cases p) (auto intro!: update_new)
    then show ?case using Cons.IH [of "acc @ [p]"] Cons.prems by (cases p) simp
  qed simp
  with assms show ?thesis by (simp add: dict_comp_def)
qed

text \<open>The names are drawn in order, so they are distinct when the draws are.\<close>

lemma obfuscate_lines_names:
  "obfuscate_lines draw n ls = (out, drawn) \<Longrightarrow> map fst drawn = map (\<lambda>i. ''_'' @ draw (n + i)) [0..<length drawn]"
proof (induction ls arbitrary: n out drawn)
  case (Cons l ls)
  show ?case
  proof (cases "field_line l")
    case None
    then show ?thesis using Cons by (auto split: prod.splits)
  next
    case (Some p)
    obtain out' drawn' where r: "obfuscate_lines draw (Suc n) ls = (out', drawn')" by fastforce
    then have "drawn = (''_'' @ draw n, snd p) # drawn'"
      using Some Cons.prems by (cases p) (auto simp: Let_def)
    then show ?thesis using Cons.IH [OF r] by (simp add: map_upt_Suc del: upt_Suc)
  qed
qed simp

lemma obfuscate_names_distinct:
  assumes "inj draw" "obfuscate sha256 draw original = Inr ob"
  shows "distinct (map fst (ob_names ob))"
proof -
  obtain out drawn where o: "obfuscate_lines draw 0 (split_on (CHR 0x0A) original) = (out, drawn)" by fastforce
  have "distinct (map fst drawn)"
    using assms(1) by (simp add: obfuscate_lines_names [OF o] distinct_map inj_on_def)
  then show ?thesis
    using assms(2) o by (auto simp: obfuscate_def dict_comp_distinct split: if_splits)
qed

text \<open>The card as the rewritten payload reports it: each declared field under its fresh name.\<close>

definition fresh_name :: "(string \<times> string) list \<Rightarrow> string \<Rightarrow> string" where
  "fresh_name names k = dget (map prod.swap names) k k"

definition hide_card :: "(string \<times> string) list \<Rightarrow> pydict \<Rightarrow> pydict" where
  "hide_card names c = map (\<lambda>(k, v). (fresh_name names k, v)) c"

lemma fresh_name_back:
  assumes "distinct (map fst names)" "k \<notin> fst ` set names"
  shows "dget names (fresh_name names k) (fresh_name names k) = k"
proof (cases "map_of (map prod.swap names) k")
  case None
  moreover have "map_of names k = None" using assms(2) by (simp add: map_of_eq_None_iff)
  ultimately show ?thesis by (simp add: fresh_name_def dget_def)
next
  case (Some f)
  then have "(f, k) \<in> set names" by (auto dest!: map_of_SomeD)
  then have "map_of names f = Some k" using assms(1) by simp
  then show ?thesis using Some by (simp add: fresh_name_def dget_def)
qed

lemma restore_hide_card:
  assumes "distinct (map fst names)" "distinct (map fst c)" "fst ` set c \<inter> fst ` set names = {}"
  shows "restore_card names (hide_card names c) = c"
proof -
  have "map (\<lambda>(k, v). (dget names k k, v)) (hide_card names c) = c"
    unfolding hide_card_def map_map
  proof (rule map_idI)
    fix p assume "p \<in> set c"
    then have "fst p \<notin> fst ` set names" using assms(3) by blast
    then show "((\<lambda>(k, v). (dget names k k, v)) \<circ> (\<lambda>(k, v). (fresh_name names k, v))) p = p"
      using fresh_name_back [OF assms(1), of "fst p"] by (cases p) simp
  qed
  then show ?thesis by (simp add: restore_card_def dict_comp_distinct assms(2))
qed

text \<open>The scrape payload reports a card's fields under names drawn afresh for the run, and \<^verbatim>\<open>restore\<close>
  undoes it: when the draws differ from one another, the cards the rewritten payload reports come
  back with their own field names and values, in order, and the rest of the report is untouched.\<close>

theorem restore_undoes_obfuscation:
  assumes "inj draw" "obfuscate sha256 draw original = Inr ob"
    and "\<forall>c \<in> set cs. distinct (map fst c) \<and> fst ` set c \<inter> fst ` set (ob_names ob) = {}"
  shows "restore (AList.update ''gpus'' (PList (map (\<lambda>c. PDict (hide_card (ob_names ob) c)) cs)) data) (ob_names ob) =
    Inr (AList.update ''gpus'' (PList (map PDict cs)) data)"
proof -
  let ?n = "ob_names ob"
  have "map (\<lambda>c. PDict (restore_card ?n (hide_card ?n c))) cs = map PDict cs"
    using assms(3) restore_hide_card [OF obfuscate_names_distinct [OF assms(1,2)]] by simp
  moreover have "dict_items (AList.update ''gpus'' (PList (map (\<lambda>c. PDict (hide_card ?n c)) cs)) data) ''gpus'' =
      Inr (map (hide_card ?n) cs)"
    by (cases cs) (simp_all add: dict_items_def iter_field_def dget_def update_conv')
  ultimately show ?thesis by (simp only: restore_def rbind_Inr map_map comp_def update_last)
qed

lemma decrypt_first_Some:
  "decrypt_first decrypt loads key ts = Some d \<Longrightarrow> \<exists>t \<in> set ts. \<exists>raw. decrypt key t = Some raw \<and> loads raw = Some (PDict d)"
  by (induction ts) (auto split: option.splits pyval.splits)

lemma scrape_read_passed:
  assumes "scrape_read env ob address port_range seed r = Inr res" "passed (sc_verdict res)"
  shows "\<not> transport_failed r \<and> error_line (ck_loads env) (res_stdout r) = [] \<and>
    (\<exists>d restored spec. decrypt_first (ck_decrypt env) (ck_loads env) (ob_key ob) (candidates (res_stdout r)) = Some d
       \<and> restore d (ob_names ob) = Inr restored \<and> build_spec restored address port_range = Inr spec
       \<and> sc_data res = Some restored \<and> sc_spec res = Some spec)"
  using assms
  by (auto simp: scrape_read_def scrape_failed_def passed_def Let_def rbind_eq_Inr split: if_splits option.splits)

lemma scrape_run_cases:
  assumes "scrape_run env python address port_range seed w = (w', Inr res)"
  obtains ob r where "obfuscate (ck_sha256 env) (ck_draw env) (ck_payload env) = Inr ob"
    and "r = ck_rig env (w_sent w) (shlex_quote python @ '' -I -'', Some (ob_source ob))"
    and "w' = w\<lparr>w_sent := w_sent w @ [(shlex_quote python @ '' -I -'', Some (ob_source ob))]\<rparr>"
    and "scrape_read env ob address port_range seed r = Inr res"
proof (cases "obfuscate (ck_sha256 env) (ck_draw env) (ck_payload env)")
  case (Inl e)
  then show thesis using assms by (simp add: scrape_run_def lift_def bnd_def)
next
  case (Inr ob)
  show thesis
    by (rule that [OF Inr refl])
      (use assms Inr in \<open>auto simp: scrape_run_def lift_def bnd_def catch_ssh_def attempt_def split: sum.splits\<close>)
qed


section \<open>Witnesses\<close>

definition demo_payload :: string where
  "demo_payload = ''F_UUID = '' @ [quote1] @ ''uuid'' @ [quote1] @ newline @ ''print(F_UUID)''"

definition demo_draw :: "nat \<Rightarrow> string" where
  "demo_draw n = replicate n (CHR ''a'')"

lemma inj_demo_draw: "inj demo_draw"
  by (rule injI) (metis demo_draw_def length_replicate)

definition demo_obfuscated :: Obfuscated where
  "demo_obfuscated = \<lparr>ob_source = ''F_UUID = '' @ [quote1] @ ''_'' @ [quote1] @ newline @ ''print(F_UUID)'',
     ob_names = [(''_'', ''uuid'')], ob_key = [1]\<rparr>"

lemma obfuscate_demo: "obfuscate (\<lambda>names. [length names]) demo_draw demo_payload = Inr demo_obfuscated"
  by code_simp

text \<open>A card with its uuid and its name comes back.\<close>

theorem restore_undoes_obfuscation_witness:
  "restore [(''gpus'', PList [PDict [(''_'', PStr ''GPU-1''), (''name'', PStr ''L40S'')]])] [(''_'', ''uuid'')] =
    Inr [(''gpus'', PList [PDict [(''uuid'', PStr ''GPU-1''), (''name'', PStr ''L40S'')]])]"
  using restore_undoes_obfuscation [OF inj_demo_draw obfuscate_demo, of "[[(''uuid'', PStr ''GPU-1''), (''name'', PStr ''L40S'')]]" "[]"]
  by (simp add: demo_obfuscated_def hide_card_def fresh_name_def dget_def)

definition demo_scrape_answer :: CommandResult where
  "demo_scrape_answer = \<lparr>res_command = [], res_exit_code = 0, res_stdout = ''gAAAAAtoken'', res_stderr = [],
     res_elapsed_ms = 12, res_error = []\<rparr>"

definition demo_env :: CheckEnv where
  "demo_env = \<lparr>ck_rig = \<lambda>_ _. demo_scrape_answer, ck_refuses = \<lambda>_ _. None,
     ck_loads = \<lambda>s. if s = ''report'' then Some (PDict [(''gpus'', PList [PDict [(''_'', PStr ''GPU-1'')]])]) else None,
     ck_sha256 = \<lambda>names. [length names],
     ck_decrypt = \<lambda>key t. if key = [1] \<and> t = ''gAAAAAtoken'' then Some ''report'' else None,
     ck_payload = demo_payload, ck_draw = demo_draw\<rparr>"

definition demo_scrape_spec :: pydict where
  "demo_scrape_spec =
     [(''gpus'', PList [PDict [(''model'', PStr []), (''memory_mb'', PInt 0), (''uuid'', PStr ''GPU-1'')]]),
      (''cpu_cores'', PInt 0), (''ram_mb'', PInt 0), (''disk_gb'', PFloat 0), (''disk_ssd'', PBool True), (''os'', PStr []),
      (''os_version'', PStr []), (''kernel'', PStr []), (''arch'', PStr []), (''driver'', PStr []),
      (''cuda'', PStr []), (''isolation'', PDict [(''sysbox'', PBool False), (''idmapped'', PBool False)]),
      (''storage_quota'', PBool False), (''hostname'', PStr []), (''public_ipv4'', PBool False), (''port_range'', PStr ''40000-40100''),
      (''docker_runtimes'', PList [])]"

definition demo_scraped :: ScrapeResult where
  "demo_scraped = \<lparr>sc_verdict = mk_verdict ''scrape'' None
     [(''command_ms'', PFloat 12), (''stdout_bytes'', PInt 11), (''summary'', PStr ''1 cards, driver unknown''),
      (''elapsed_ms'', PNone), (''candidates'', PInt 1), (''nvml_errors'', PList [])] 12,
     sc_data = Some [(''gpus'', PList [PDict [(''uuid'', PStr ''GPU-1'')]])], sc_spec = Some demo_scrape_spec,
     sc_names = [(''_'', ''uuid'')]\<rparr>"

lemma scan_window_short: "length s \<le> SCAN_BYTES \<Longrightarrow> scan_window s = map strip (rev (splitlines s))"
  by (simp add: scan_window_def tail_chars_def)

lemma demo_window: "scan_window ''gAAAAAtoken'' = [''gAAAAAtoken'']"
proof -
  have "map strip (rev (splitlines ''gAAAAAtoken'')) = [''gAAAAAtoken'']" by code_simp
  then show ?thesis by (subst scan_window_short) (simp_all add: SCAN_BYTES_def)
qed

lemma demo_lines:
  "candidates ''gAAAAAtoken'' = [''gAAAAAtoken'']" "error_line loads ''gAAAAAtoken'' = []"
  by (simp_all add: candidates_def error_line_def demo_window MAX_CANDIDATES_def TOKEN_PREFIX_def startswith_def)

lemma demo_restored:
  "restore [(''gpus'', PList [PDict [(''_'', PStr ''GPU-1'')]])] [(''_'', ''uuid'')] = Inr [(''gpus'', PList [PDict [(''uuid'', PStr ''GPU-1'')]])]"
  "build_spec [(''gpus'', PList [PDict [(''uuid'', PStr ''GPU-1'')]])] ''rig.example'' ''40000-40100'' = Inr demo_scrape_spec"
  "nvml_errors [(''gpus'', PList [PDict [(''uuid'', PStr ''GPU-1'')]])] = Inr []"
  "scrape_summary demo_scrape_spec = ''1 cards, driver unknown''" "py_round_to (Suc 0) 12 = 12"
  by code_simp+

lemma demo_scrape_read: "scrape_read demo_env demo_obfuscated ''rig.example'' ''40000-40100'' ''7'' demo_scrape_answer = Inr demo_scraped"
proof -
  have "\<not> transport_failed demo_scrape_answer" by code_simp
  then show ?thesis
    by (simp add: scrape_read_def demo_lines demo_restored demo_env_def demo_obfuscated_def demo_scrape_answer_def
        demo_scraped_def Let_def dget_def)
qed

lemma demo_scrape_run:
  "scrape_run demo_env ''python3'' ''rig.example'' ''40000-40100'' ''7'' \<lparr>w_sent = []\<rparr> =
    (\<lparr>w_sent = [(shlex_quote ''python3'' @ '' -I -'', Some (ob_source demo_obfuscated))]\<rparr>, Inr demo_scraped)"
proof -
  have "obfuscate (ck_sha256 demo_env) (ck_draw demo_env) (ck_payload demo_env) = Inr demo_obfuscated"
    using obfuscate_demo by (simp add: demo_env_def)
  moreover have "ck_rig demo_env sent c = demo_scrape_answer" for sent c by (simp add: demo_env_def)
  ultimately show ?thesis
    by (simp add: scrape_run_def lift_def bnd_def catch_ssh_def attempt_def demo_scrape_read)
qed

lemma demo_scraped_passed: "passed (sc_verdict demo_scraped)"
  by (simp add: demo_scraped_def passed_def)

end
