(* ===== verification/Work_Placement.thy ===== *)
theory Work_Placement
  imports Data_Tiers Scoring_Reliability Protocol_Attestation
begin

text \<open>
  Placement of work on rigs (\<^verbatim>\<open>validator/work/placement.py\<close>). The roster is what the pool server
  returned, dictionaries; the jobs of each rig and the uptime ledger are the validator's own.
\<close>

definition PLACEABLE_STATES :: "string list" where "PLACEABLE_STATES = [''probation'', ''active'']"

definition RANK :: "WorkKind \<Rightarrow> nat" where "RANK kind = index_of PRIORITY kind"

definition SENSITIVE :: "WorkKind list" where "SENSITIVE = [Rental]"
definition CUSTOMER :: "WorkKind list" where "CUSTOMER = [Inference]"

record Placement =
  pl_rig_id :: string
  pl_gpu_uuids :: "string list"
  pl_displaced :: "string list"
  pl_reason :: string

definition Placement_ok :: "Placement \<Rightarrow> bool" where
  "Placement_ok p = (pl_rig_id p \<noteq> [] \<and> pl_gpu_uuids p \<noteq> [])"

definition Placement_payload :: "Placement \<Rightarrow> pydict" where
  "Placement_payload p =
     [(''rig_id'', PStr (pl_rig_id p)), (''gpu_uuids'', PList (map PStr (pl_gpu_uuids p))),
      (''displaced'', PList (map PStr (pl_displaced p))), (''reason'', PStr (pl_reason p))]"

definition no_placement :: "string \<Rightarrow> Placement" where
  "no_placement reason = \<lparr>pl_rig_id = [], pl_gpu_uuids = [], pl_displaced = [], pl_reason = reason\<rparr>"

definition kind_of :: "string \<Rightarrow> WorkKind option" where
  "kind_of text = find (\<lambda>k. work_kind_value k = text) PRIORITY"

text \<open>\<^verbatim>\<open>reasons[0] if reasons else 'unspecified'\<close>.\<close>

fun first_reason :: "pyval \<Rightarrow> string pyres" where
  "first_reason (PList (r # rs)) = Inr (py_str r)"
| "first_reason (PStr (c # cs)) = Inr [c]"
| "first_reason v = (if truthy v then Inl (if is_dict v then KeyError else TypeError) else Inr ''unspecified'')"

definition eligibility_reason :: "pydict \<Rightarrow> WorkKind \<Rightarrow> string pyres" where
  "eligibility_reason rig kind =
     rbind (attr_get (py_or (dget rig ''eligibility'' PNone) (PDict [])) ''kinds'' PNone) (\<lambda>ks.
     rbind (attr_get (py_or ks (PDict [])) (work_kind_value kind) PNone) (\<lambda>entry.
       if entry = PNone then Inr (''no eligibility record for '' @ work_kind_value kind)
       else rbind (attr_get entry ''eligible'' (PBool False)) (\<lambda>eligible.
         if truthy eligible then Inr []
         else rbind (attr_get entry ''reasons'' PNone) (\<lambda>reasons.
              rbind (first_reason (py_or reasons (PList []))) (\<lambda>r.
                Inr (''not eligible for '' @ work_kind_value kind @ '': '' @ r))))))"

definition ineligible_reason :: "pydict \<Rightarrow> WorkKind \<Rightarrow> string pyres" where
  "ineligible_reason rig kind =
     (if str_field rig ''state'' \<notin> set PLACEABLE_STATES
      then Inr (''rig is '' @ py_str (dget rig ''state'' (PStr ''unknown'')))
      else if \<not> truthy (dget rig ''online'' (PBool False)) then Inr ''rig is offline''
      else if truthy (dget rig ''draining'' (PBool False)) then Inr ''rig is draining''
      else if kind = Rental \<and> truthy (dget rig ''rental_opt_out'' (PBool False)) then Inr ''rental declined by the owner''
      else eligibility_reason rig kind)"

definition rig_uuids :: "pydict \<Rightarrow> string list pyres" where
  "rig_uuids rig =
     rbind (py_iter (py_or (dget rig ''gpus'' PNone) (PList []))) (\<lambda>cards.
       Inr (map (\<lambda>c. str_field c ''uuid'') (filter (\<lambda>c. truthy (dget c ''uuid'' PNone)) (dicts_of cards))))"

type_synonym occupancy_table = "(string \<times> JobRecord list) list"

definition occupy :: "string list \<Rightarrow> JobRecord \<Rightarrow> occupancy_table \<Rightarrow> occupancy_table" where
  "occupy uuids job table =
     (let targets = (if jr_gpu_uuid job \<noteq> [] \<and> dhas table (jr_gpu_uuid job) then [jr_gpu_uuid job] else uuids)
      in foldl (\<lambda>t u. AList.update u (dget t u [] @ [job]) t) table targets)"

definition occupancy :: "pydict \<Rightarrow> JobRecord list \<Rightarrow> occupancy_table pyres" where
  "occupancy rig jobs =
     rbind (rig_uuids rig) (\<lambda>uuids.
       (let table = foldl (\<lambda>t u. AList.update u [] t) [] uuids
        in Inr (foldl (\<lambda>t job. occupy uuids job t) table jobs)))"

definition can_share :: "JobRecord list \<Rightarrow> WorkKind \<Rightarrow> bool" where
  "can_share existing kind =
     (if existing = [] then True
      else (let kinds = map (\<lambda>j. kind_of (jr_kind j)) existing in
        if kind \<in> set SENSITIVE \<or> (\<exists>k \<in> set kinds. k \<in> Some ` set SENSITIVE) then False
        else if kind \<in> set CUSTOMER then (\<forall>k \<in> set kinds. k \<in> Some ` set CUSTOMER)
        else False))"

definition outranked :: "WorkKind \<Rightarrow> JobRecord \<Rightarrow> bool" where
  "outranked kind job =
     (case kind_of (jr_kind job) of
        None \<Rightarrow> False
      | Some current \<Rightarrow> \<not> RANK current \<le> RANK kind \<and> current \<notin> set SENSITIVE \<and> current \<notin> set CUSTOMER)"

definition can_displace :: "JobRecord list \<Rightarrow> WorkKind \<Rightarrow> bool" where
  "can_displace existing kind = (existing \<noteq> [] \<and> list_all (outranked kind) existing)"

definition rank_rig :: "pydict \<Rightarrow> int \<Rightarrow> nat \<Rightarrow> ledger option \<Rightarrow> rat list pyres" where
  "rank_rig rig free displaced ledger =
     rbind (py_float (py_or (dget rig ''reliability'' (PFloat 0)) (PFloat 0))) (\<lambda>reliability.
       (let days = (case ledger of None \<Rightarrow> 0 | Some L \<Rightarrow> ledger_uptime_days L (str_field rig ''id''))
        in Inr [of_nat displaced, - reliability, - days, - of_int free]))"

section \<open>The cards of one rig\<close>

definition pick_cards :: "WorkKind \<Rightarrow> nat \<Rightarrow> occupancy_table \<Rightarrow> string list \<times> string list \<times> nat" where
  "pick_cards kind needed table =
     (let free = map fst (filter (\<lambda>(u, js). js = []) table);
          shareable = map fst (filter (\<lambda>(u, js). js \<noteq> [] \<and> can_share js kind) table);
          displaceable = map fst (filter (\<lambda>(u, js). js \<noteq> [] \<and> can_displace js kind) table);
          chosen = take needed free;
          chosen = (if length chosen < needed then chosen @ take (needed - length chosen) shareable else chosen);
          taken = (if length chosen < needed then take (needed - length chosen) displaceable else [])
      in (chosen @ taken, concat (map (\<lambda>u. map jr_job_id (dget table u [])) taken), length free))"

text \<open>What the loop over the roster makes of one rig: a reason to skip it, or a ranked candidate.\<close>

definition consider_rig ::
  "WorkKind \<Rightarrow> nat \<Rightarrow> (string \<times> JobRecord list) list \<Rightarrow> ledger option \<Rightarrow> bool \<Rightarrow> pydict
    \<Rightarrow> (string + rat list \<times> Placement) pyres" where
  "consider_rig kind needed jobs_by_rig ledger whole_node rig =
     (let rig_id = str_or_empty rig ''id'' in
      rbind (ineligible_reason rig kind) (\<lambda>reason.
        if reason \<noteq> [] then Inr (Inl (rig_id @ '': '' @ reason))
        else rbind (occupancy rig (dget jobs_by_rig rig_id [])) (\<lambda>table.
          if whole_node \<and> length table \<noteq> needed
          then Inr (Inl (rig_id @ '': whole node has '' @ show_nat (length table) @ '' cards, '' @ show_nat needed @ '' requested''))
          else (case pick_cards kind needed table of (chosen, displaced, free) \<Rightarrow>
            if length chosen < needed
            then Inr (Inl (rig_id @ '': only '' @ show_nat (length chosen) @ '' of '' @ show_nat needed @ '' cards available''))
            else rbind (rank_rig rig (int free - int (length chosen)) (length displaced) ledger) (\<lambda>rank.
              Inr (Inr (rank, \<lparr>pl_rig_id = rig_id, pl_gpu_uuids = chosen,
                               pl_displaced = sort (remdups displaced), pl_reason = []\<rparr>)))))))"

fun rights :: "('a + 'b) list \<Rightarrow> 'b list" where
  "rights [] = []" | "rights (Inr x # xs) = x # rights xs" | "rights (Inl y # xs) = rights xs"

fun lefts :: "('a + 'b) list \<Rightarrow> 'a list" where
  "lefts [] = []" | "lefts (Inl x # xs) = x # lefts xs" | "lefts (Inr y # xs) = lefts xs"

definition or_no_rigs :: "string \<Rightarrow> string" where
  "or_no_rigs s = (if s \<noteq> [] then s else ''no rigs in the roster'')"

definition choose_placement ::
  "string \<Rightarrow> int \<Rightarrow> pydict list \<Rightarrow> (string \<times> JobRecord list) list \<Rightarrow> ledger option \<Rightarrow> bool \<Rightarrow> Placement pyres" where
  "choose_placement kind_text gpu_count roster jobs_by_rig ledger whole_node =
     (case kind_of kind_text of
        None \<Rightarrow> Inr (no_placement (''unknown work kind '' @ repr_str kind_text))
      | Some kind \<Rightarrow>
          (let needed = nat (max 1 gpu_count) in
           rbind (rmap (consider_rig kind needed jobs_by_rig ledger whole_node) roster) (\<lambda>outcomes.
             (case rights outcomes of
                [] \<Rightarrow> Inr (no_placement (or_no_rigs (join ''; '' (take 8 (lefts outcomes)))))
              | c # cs \<Rightarrow> Inr (snd (min_by fst c cs))))))"


section \<open>Facts\<close>

lemma work_kind_inject: "work_kind_value a = work_kind_value b \<longleftrightarrow> a = b"
  by (cases a; cases b) simp_all

lemma kind_of_value: "kind_of t = Some k \<longleftrightarrow> t = work_kind_value k"
proof -
  have mem: "k \<in> set PRIORITY" by (cases k) (simp_all add: PRIORITY_def)
  show ?thesis
  proof
    assume "kind_of t = Some k"
    then show "t = work_kind_value k" by (auto simp: kind_of_def find_Some_iff)
  next
    assume t: "t = work_kind_value k"
    have "kind_of t \<noteq> None" using t mem by (auto simp: kind_of_def find_None_iff)
    then obtain k' where "kind_of t = Some k'" by auto
    moreover from this have "t = work_kind_value k'" by (auto simp: kind_of_def find_Some_iff)
    ultimately show "kind_of t = Some k" using t work_kind_inject by simp
  qed
qed

lemma foldl_update_wf: "wf_dict t \<Longrightarrow> wf_dict (foldl (\<lambda>t u. AList.update u (f t u) t) t us)"
  by (induction us arbitrary: t) auto

lemma occupancy_wf: "occupancy rig jobs = Inr table \<Longrightarrow> wf_dict table"
proof -
  have one: "wf_dict (occupy uuids job t)" if "wf_dict t" for uuids job t
    unfolding occupy_def Let_def using that by (rule foldl_update_wf)
  have "wf_dict (foldl (\<lambda>t job. occupy uuids job t) t jobs)" if "wf_dict t" for uuids t
    using that by (induction jobs arbitrary: t) (auto intro: one)
  moreover have "wf_dict (foldl (\<lambda>t u. AList.update u [] t) [] us)" for us :: "string list"
    using foldl_update_wf [of "[]" "\<lambda>_ _. []"] by simp
  ultimately show "occupancy rig jobs = Inr table \<Longrightarrow> wf_dict table"
    by (auto simp: occupancy_def result_simps)
qed

lemma share_not_displace: "js \<noteq> [] \<Longrightarrow> can_share js kind \<Longrightarrow> \<not> can_displace js kind"
  by (cases js) (auto simp: can_share_def can_displace_def outranked_def CUSTOMER_def SENSITIVE_def Let_def split: if_splits)

lemma table_entry: "wf_dict table \<Longrightarrow> (u, js) \<in> set table \<Longrightarrow> dget table u [] = js \<and> dhas table u"
  by (simp add: wf_dict_map_of dget_def dhas_def)

lemma distinct_map_fst_filter: "wf_dict table \<Longrightarrow> distinct (map fst (filter P table))"
  using wf_dict_filter by (auto simp: wf_dict_def)

lemma pick_cards_split:
  assumes "pick_cards kind needed table = (chosen, displaced, free)"
  shows "\<exists>fs ss ds. chosen = fs @ ss @ ds
    \<and> fs = take needed (map fst (filter (\<lambda>(u, js). js = []) table))
    \<and> (\<exists>n. ss = take n (map fst (filter (\<lambda>(u, js). js \<noteq> [] \<and> can_share js kind) table)) \<and> length fs + n \<le> needed)
    \<and> (\<exists>n. ds = take n (map fst (filter (\<lambda>(u, js). js \<noteq> [] \<and> can_displace js kind) table)) \<and> length (fs @ ss) + n \<le> needed)
    \<and> displaced = concat (map (\<lambda>u. map jr_job_id (dget table u [])) ds)"
proof -
  let ?free = "map fst (filter (\<lambda>(u, js). js = []) table)"
  let ?share = "map fst (filter (\<lambda>(u, js). js \<noteq> [] \<and> can_share js kind) table)"
  let ?disp = "map fst (filter (\<lambda>(u, js). js \<noteq> [] \<and> can_displace js kind) table)"
  define fs where "fs = take needed ?free"
  define n where "n = (if length fs < needed then needed - length fs else 0)"
  define ss where "ss = take n ?share"
  define m where "m = (if length (fs @ ss) < needed then needed - length (fs @ ss) else 0)"
  define ds where "ds = take m ?disp"
  have c: "(if length fs < needed then fs @ take (needed - length fs) ?share else fs) = fs @ ss"
    by (simp add: ss_def n_def)
  have d: "(if length (fs @ ss) < needed then take (needed - length (fs @ ss)) ?disp else []) = ds"
    by (simp add: ds_def m_def)
  have 1: "chosen = fs @ ss @ ds" "displaced = concat (map (\<lambda>u. map jr_job_id (dget table u [])) ds)"
    using assms unfolding pick_cards_def Let_def fs_def [symmetric] c d by simp_all
  have "length fs \<le> needed" by (simp add: fs_def)
  then have 2: "length fs + n \<le> needed" by (simp add: n_def)
  then have "length (fs @ ss) \<le> needed" by (simp add: ss_def)
  then have 3: "length (fs @ ss) + m \<le> needed" by (simp add: m_def)
  show ?thesis
    by (intro exI [of _ fs] exI [of _ ss] exI [of _ ds]) (use 1 2 3 fs_def ss_def ds_def in blast)
qed

lemma in_take_map_fst:
  "u \<in> set (take n (map fst (filter P table))) \<Longrightarrow> \<exists>js. (u, js) \<in> set table \<and> P (u, js)"
  by (drule in_set_takeD) auto

lemma pick_cards_safe:
  assumes wf: "wf_dict table" and pick: "pick_cards kind needed table = (chosen, displaced, free)"
  shows "distinct chosen \<and> length chosen \<le> needed \<and>
    (\<forall>u \<in> set chosen. dhas table u \<and>
       (dget table u [] = [] \<or> can_share (dget table u []) kind
        \<or> can_displace (dget table u []) kind \<and> set (map jr_job_id (dget table u [])) \<subseteq> set displaced))"
proof -
  let ?F = "\<lambda>(u :: string, js :: JobRecord list). js = []"
  let ?S = "\<lambda>(u :: string, js). js \<noteq> [] \<and> can_share js kind"
  let ?D = "\<lambda>(u :: string, js). js \<noteq> [] \<and> can_displace js kind"
  obtain fs ss ds n m where ch: "chosen = fs @ ss @ ds"
    and fs: "fs = take needed (map fst (filter ?F table))" and ss: "ss = take n (map fst (filter ?S table))"
    and ds: "ds = take m (map fst (filter ?D table))" and len: "length (fs @ ss) + m \<le> needed"
    and disp: "displaced = concat (map (\<lambda>u. map jr_job_id (dget table u [])) ds)"
    using pick_cards_split [OF pick] by blast
  have F: "dhas table u \<and> dget table u [] = []" if "u \<in> set fs" for u
    using in_take_map_fst [OF that [unfolded fs]] table_entry [OF wf] by auto
  have S: "dhas table u \<and> dget table u [] \<noteq> [] \<and> can_share (dget table u []) kind" if "u \<in> set ss" for u
    using in_take_map_fst [OF that [unfolded ss]] table_entry [OF wf] by fastforce
  have D: "dhas table u \<and> dget table u [] \<noteq> [] \<and> can_displace (dget table u []) kind" if "u \<in> set ds" for u
    using in_take_map_fst [OF that [unfolded ds]] table_entry [OF wf] by fastforce
  have "distinct fs" "distinct ss" "distinct ds"
    unfolding fs ss ds by (simp_all add: distinct_map_fst_filter [OF wf])
  then have "distinct chosen"
    using F S D share_not_displace by (fastforce simp: ch)
  moreover have "length chosen \<le> needed" using len by (simp add: ch ds)
  ultimately show ?thesis using F S D by (auto simp: ch disp)
qed

lemma can_share_kinds:
  "can_share js kind \<Longrightarrow> j \<in> set js \<Longrightarrow> kind = Inference \<and> kind_of (jr_kind j) = Some Inference"
  by (auto simp: can_share_def CUSTOMER_def SENSITIVE_def Let_def split: if_splits)

lemma can_displace_kinds:
  "can_displace js kind \<Longrightarrow> j \<in> set js \<Longrightarrow>
    \<exists>k. kind_of (jr_kind j) = Some k \<and> RANK kind < RANK k \<and> k \<noteq> Rental \<and> k \<noteq> Inference"
  by (auto simp: can_displace_def list_all_iff outranked_def CUSTOMER_def SENSITIVE_def split: option.splits)

lemma rights_set: "x \<in> set (rights xs) \<longleftrightarrow> Inr x \<in> set xs"
  by (induction xs rule: rights.induct) auto

lemma consider_rig_Inr:
  assumes "consider_rig kind needed jobs ledger whole rig = Inr (Inr (rank, p))"
  shows "\<exists>table displaced free. ineligible_reason rig kind = Inr [] \<and> pl_rig_id p = str_or_empty rig ''id''
    \<and> occupancy rig (dget jobs (pl_rig_id p) []) = Inr table
    \<and> pick_cards kind needed table = (pl_gpu_uuids p, displaced, free) \<and> \<not> length (pl_gpu_uuids p) < needed
    \<and> pl_displaced p = sort (remdups displaced) \<and> (whole \<longrightarrow> length table = needed)"
  using assms by (auto simp: consider_rig_def Let_def result_simps split: if_splits prod.splits)

lemma choose_from:
  assumes "choose_placement kind_text count roster jobs ledger whole = Inr p" "Placement_ok p"
  shows "\<exists>kind rig rank. kind_of kind_text = Some kind \<and> rig \<in> set roster
    \<and> consider_rig kind (nat (max 1 count)) jobs ledger whole rig = Inr (Inr (rank, p))
    \<and> (\<forall>rig' \<in> set roster. \<forall>rank' p'.
         consider_rig kind (nat (max 1 count)) jobs ledger whole rig' = Inr (Inr (rank', p')) \<longrightarrow> rank \<le> rank')"
proof -
  obtain kind where k: "kind_of kind_text = Some kind"
    using assms by (cases "kind_of kind_text") (auto simp: choose_placement_def no_placement_def Placement_ok_def)
  let ?f = "consider_rig kind (nat (max 1 count)) jobs ledger whole"
  obtain os where os: "rmap ?f roster = Inr os"
    using assms(1) k by (auto simp: choose_placement_def Let_def result_simps)
  have p: "(case rights os of [] \<Rightarrow> no_placement (or_no_rigs (join ''; '' (take 8 (lefts os)))) | c # cs \<Rightarrow> snd (min_by fst c cs)) = p"
    using assms(1) k os by (cases "rights os") (auto simp: choose_placement_def Let_def)
  obtain c cs where r: "rights os = c # cs"
    using p assms(2) by (cases "rights os") (auto simp: no_placement_def Placement_ok_def)
  define b where "b = min_by fst c cs"
  have b: "Inr b \<in> set os" "snd b = p"
    using min_by_in [of fst c cs] p r rights_set [of b os] by (auto simp: b_def)
  have set_os: "set os = {y. \<exists>x \<in> set roster. ?f x = Inr y}"
    using os by (induction roster arbitrary: os) (auto simp: result_simps)
  obtain rig where "rig \<in> set roster" "?f rig = Inr (Inr (fst b, p))"
    using b set_os by (cases b) auto
  moreover have "fst b \<le> rank'" if "rig' \<in> set roster" "?f rig' = Inr (Inr (rank', p'))" for rig' rank' p'
  proof -
    have "Inr (rank', p') \<in> set os" using that set_os by blast
    then have "(rank', p') \<in> set (c # cs)" using rights_set [of "(rank', p')" os] r by simp
    from min_by_le [OF this, of fst] show ?thesis by (simp add: b_def)
  qed
  ultimately show ?thesis using k by blast
qed

section \<open>Properties\<close>

text \<open>C16: A placement takes exactly the requested number of distinct cards of one eligible rig of the
  roster. A job that already runs on a chosen card stays only when it and the new work are both
  inference; every other one has strictly lower priority than the new work, is neither a rental nor
  inference, and is named among the displaced jobs. So no rental is ever joined or displaced, and
  rental work never shares a card.\<close>

theorem placement_respects_running_work:
  assumes "choose_placement kind_text count roster jobs_by_rig ledger whole_node = Inr p"
    and "Placement_ok p"
  shows "\<exists>kind rig table. kind_of kind_text = Some kind \<and> rig \<in> set roster \<and> pl_rig_id p = str_or_empty rig ''id''
    \<and> ineligible_reason rig kind = Inr [] \<and> occupancy rig (dget jobs_by_rig (pl_rig_id p) []) = Inr table
    \<and> length (pl_gpu_uuids p) = nat (max 1 count) \<and> distinct (pl_gpu_uuids p)
    \<and> (\<forall>u \<in> set (pl_gpu_uuids p). dhas table u \<and> (\<forall>job \<in> set (dget table u []).
         kind = Inference \<and> kind_of (jr_kind job) = Some Inference
         \<or> (\<exists>k. kind_of (jr_kind job) = Some k \<and> RANK kind < RANK k \<and> k \<noteq> Rental \<and> k \<noteq> Inference
              \<and> jr_job_id job \<in> set (pl_displaced p))))"
proof -
  obtain kind rig rank where k: "kind_of kind_text = Some kind" "rig \<in> set roster"
    "consider_rig kind (nat (max 1 count)) jobs_by_rig ledger whole_node rig = Inr (Inr (rank, p))"
    using choose_from [OF assms] by blast
  obtain table displaced free where t: "ineligible_reason rig kind = Inr []" "pl_rig_id p = str_or_empty rig ''id''"
    "occupancy rig (dget jobs_by_rig (pl_rig_id p) []) = Inr table"
    "pick_cards kind (nat (max 1 count)) table = (pl_gpu_uuids p, displaced, free)"
    "\<not> length (pl_gpu_uuids p) < nat (max 1 count)" "pl_displaced p = sort (remdups displaced)"
    using consider_rig_Inr [OF k(3)] by blast
  note safe = pick_cards_safe [OF occupancy_wf [OF t(3)] t(4)]
  have "kind = Inference \<and> kind_of (jr_kind job) = Some Inference
     \<or> (\<exists>k. kind_of (jr_kind job) = Some k \<and> RANK kind < RANK k \<and> k \<noteq> Rental \<and> k \<noteq> Inference
          \<and> jr_job_id job \<in> set (pl_displaced p))"
    if "u \<in> set (pl_gpu_uuids p)" "job \<in> set (dget table u [])" for u job
  proof -
    from safe that consider "can_share (dget table u []) kind"
      | "can_displace (dget table u []) kind" "jr_job_id job \<in> set displaced" by fastforce
    then show ?thesis
      using can_share_kinds [OF _ that(2)] can_displace_kinds [OF _ that(2)] t(6) by cases auto
  qed
  then show ?thesis using k(1,2) t(1,2,3,5) safe
    by (intro exI [of _ kind] exI [of _ rig] exI [of _ table]) auto
qed

definition demo_roster :: "pydict list" where
  "demo_roster = [[(''id'', PStr ''r1''), (''state'', PStr ''active''), (''online'', PBool True),
     (''eligibility'', PDict [(''kinds'', PDict [(''rental'', PDict [(''eligible'', PBool True)])])]),
     (''gpus'', PList [PDict [(''uuid'', PStr ''GPU-1'')], PDict [(''uuid'', PStr ''GPU-2'')]])]]"

definition demo_jobs :: "(string \<times> JobRecord list) list" where
  "demo_jobs = [(''r1'', [\<lparr>jr_job_id = ''j1'', jr_kind = ''mining'', jr_subnet = [], jr_pid = 4, jr_gpu_uuid = ''GPU-1'',
     jr_container = [], jr_started_at = []\<rparr>])]"

theorem placement_respects_running_work_witness:
  "\<exists>p. choose_placement ''rental'' 2 demo_roster demo_jobs None False = Inr p \<and> pl_displaced p = [''j1'']
     \<and> distinct (pl_gpu_uuids p) \<and> length (pl_gpu_uuids p) = 2"
proof -
  let ?p = "\<lparr>pl_rig_id = ''r1'', pl_gpu_uuids = [''GPU-2'', ''GPU-1''], pl_displaced = [''j1''], pl_reason = []\<rparr>"
  have run: "choose_placement ''rental'' 2 demo_roster demo_jobs None False = Inr ?p" by code_simp
  have "Placement_ok ?p" by (simp add: Placement_ok_def)
  from placement_respects_running_work [OF run this] show ?thesis using run by auto
qed

text \<open>Of all rigs that could take the work the validator chooses one of least rank: fewest displaced
  jobs first, then highest reliability, then longest uptime, then most free cards left.\<close>

theorem placement_least_rank:
  assumes "choose_placement kind_text count roster jobs_by_rig ledger whole_node = Inr p"
    and "Placement_ok p" and "kind_of kind_text = Some kind"
  shows "\<exists>rig \<in> set roster. \<exists>rank.
    consider_rig kind (nat (max 1 count)) jobs_by_rig ledger whole_node rig = Inr (Inr (rank, p))
    \<and> (\<forall>rig' \<in> set roster. \<forall>rank' p'.
         consider_rig kind (nat (max 1 count)) jobs_by_rig ledger whole_node rig' = Inr (Inr (rank', p')) \<longrightarrow> rank \<le> rank')"
  using choose_from [OF assms(1,2)] assms(3) by auto

theorem placement_least_rank_witness:
  "\<exists>rig \<in> set demo_roster. \<exists>rank p.
    consider_rig Rental 2 demo_jobs None False rig = Inr (Inr (rank, p)) \<and> pl_displaced p = [''j1'']"
proof -
  let ?p = "\<lparr>pl_rig_id = ''r1'', pl_gpu_uuids = [''GPU-2'', ''GPU-1''], pl_displaced = [''j1''], pl_reason = []\<rparr>"
  have run: "choose_placement ''rental'' 2 demo_roster demo_jobs None False = Inr ?p" by code_simp
  have ok: "Placement_ok ?p" by (simp add: Placement_ok_def)
  have k: "kind_of ''rental'' = Some Rental" by code_simp
  from placement_least_rank [OF run ok k] obtain rig rank where "rig \<in> set demo_roster"
    "consider_rig Rental 2 demo_jobs None False rig = Inr (Inr (rank, ?p))" by auto
  then show ?thesis by fastforce
qed

end
