(* ===== verification/Storage_Volumes.thy ===== *)
theory Storage_Volumes
  imports Remote_Host "HOL-Library.Word"
begin

text \<open>
  Ephemeral volumes on a rig (\<^verbatim>\<open>validator/storage/volumes.py\<close>): names, the commands that create and remove
  them, the listing of them, the share of the disk a job gets, and the script that mounts an encrypted
  volume. The derivation of a passphrase belongs to the cryptography library: \<open>derive secret name\<close> is its
  text. Random bytes and tags are arguments.
\<close>

unbundle bit_operations_syntax

section \<open>Names and paths\<close>

text \<open>A character class, repeated \<open>lo\<close> to \<open>hi\<close> times, up to the end of the text.\<close>

definition class_run :: "(char \<Rightarrow> bool) \<Rightarrow> nat \<Rightarrow> nat \<Rightarrow> string \<Rightarrow> bool" where
  "class_run P lo hi s =
     (let t = takeWhile P s in lo \<le> length t \<and> length t \<le> hi \<and> at_dollar (drop (length t) s))"

definition name_char :: "char \<Rightarrow> bool" where
  "name_char c = (is_alnum c \<or> c \<in> set ''_.-'')"

definition ident_run :: "nat \<Rightarrow> string \<Rightarrow> bool" where
  "ident_run n s = (case s of [] \<Rightarrow> False | c # cs \<Rightarrow> is_alnum c \<and> class_run name_char 0 n cs)"

definition VOL_PREFIX :: string where "VOL_PREFIX = ''mt-vol-''"
definition CIPHER_PATH :: string where "CIPHER_PATH = ''/mnt/mt-cipher''"

definition vol_valid :: "string \<Rightarrow> bool" where
  "vol_valid name = (startswith name VOL_PREFIX \<and> ident_run 60 (drop (length VOL_PREFIX) name))"

definition vol_require :: "string \<Rightarrow> ('s, string) act" where
  "vol_require name = (if vol_valid name then ret name else raise VolumeNameError)"

definition volume_name :: "string \<Rightarrow> ('s, string) act" where
  "volume_name job_id = vol_require (VOL_PREFIX @ job_id)"

definition MOUNT_PATH :: "string \<Rightarrow> bool" where
  "MOUNT_PATH path =
     (case path of [] \<Rightarrow> False | c # cs \<Rightarrow> c = CHR ''/'' \<and> class_run (\<lambda>c. is_alnum c \<or> c \<in> set ''_./-'') 1 200 cs)"

definition path_ok :: "string \<Rightarrow> bool" where
  "path_ok path = (MOUNT_PATH path \<and> \<not> contains_str ''..'' path)"

definition require_path :: "string \<Rightarrow> ('s, string) act" where
  "require_path path = (if path_ok path then ret path else raise VolumeNameError)"

definition create_timeout :: "rat \<Rightarrow> rat" where
  "create_timeout size_gb = (if size_gb \<le> 100 then 10 else min 180 (30 + of_int \<lceil>size_gb / 10\<rceil>))"

section \<open>Volumes\<close>

record VolumeSpec =
  vs_name :: string
  vs_mount_path :: string
  vs_size_gb :: rat
  vs_driver :: string
  vs_sparse :: bool
  vs_encrypted :: bool
  vs_create :: bool

definition VolumeSpec_payload :: "VolumeSpec \<Rightarrow> pydict" where
  "VolumeSpec_payload v =
     [(''name'', PStr (vs_name v)), (''mount_path'', PStr (vs_mount_path v)), (''size_gb'', PFloat (vs_size_gb v)),
      (''driver'', PStr (vs_driver v)), (''sparse'', PBool (vs_sparse v)), (''encrypted'', PBool (vs_encrypted v)),
      (''create'', PBool (vs_create v))]"

definition VolumeSpec_from_payload :: "pydict \<Rightarrow> VolumeSpec pyres" where
  "VolumeSpec_from_payload d =
     rbind (py_float (py_or (dget d ''size_gb'' (PFloat 0)) (PFloat 0))) (\<lambda>size. Inr
     \<lparr>vs_name = str_field d ''name'', vs_mount_path = str_field d ''mount_path'', vs_size_gb = size,
      vs_driver = str_or_empty d ''driver'', vs_sparse = truthy (dget d ''sparse'' (PBool False)),
      vs_encrypted = truthy (dget d ''encrypted'' (PBool False)), vs_create = truthy (dget d ''create'' (PBool True))\<rparr>)"

definition vol_problems :: "VolumeSpec \<Rightarrow> string list" where
  "vol_problems v =
     (if \<not> vol_valid (vs_name v) then [''volume name '' @ repr_str (vs_name v) @ '' is not accepted''] else []) @
     (if \<not> path_ok (vs_mount_path v) then [''mount path '' @ repr_str (vs_mount_path v) @ '' is not accepted''] else []) @
     (if vs_encrypted v \<and> vs_mount_path v = CIPHER_PATH
      then [''an encrypted volume cannot mount at the ciphertext path''] else [])"

definition container_target :: "VolumeSpec \<Rightarrow> string" where
  "container_target v = (if vs_encrypted v then CIPHER_PATH else vs_mount_path v)"

definition mount_args :: "VolumeSpec \<Rightarrow> ('s, string list) act" where
  "mount_args v =
     bnd (vol_require (vs_name v)) (\<lambda>_. bnd (require_path (vs_mount_path v)) (\<lambda>_.
       ret ([''-v'', vs_name v @ '':'' @ container_target v] @
            (if vs_encrypted v then [''--device'', ''/dev/fuse''] else []))))"

definition create_args :: "VolumeSpec \<Rightarrow> string list" where
  "create_args v =
     [''docker'', ''volume'', ''create'', ''--name'', vs_name v] @
     (if vs_driver v \<noteq> []
      then [''--driver'', vs_driver v] @
           (if 0 < vs_size_gb v then [''--opt'', ''size='' @ show_int (max 1 \<lceil>vs_size_gb v\<rceil>) @ ''G''] else []) @
           (if vs_sparse v then [''--opt'', ''sparse=true''] else [])
      else []) @
     [''--label'', ''mt.owner=validator'']"

definition create_command :: "VolumeSpec \<Rightarrow> ('s, string) act" where
  "create_command v = bnd (vol_require (vs_name v)) (\<lambda>_. ret (join '' '' (map shlex_quote (create_args v))))"

definition err_text :: "nat \<Rightarrow> CommandResult \<Rightarrow> string" where
  "err_text n r = strip (str_or (res_error r) (stderr_tail n r))"

definition vol_create :: "rig \<Rightarrow> VolumeSpec \<Rightarrow> ('z Host_scheme, bool \<times> string) act" where
  "vol_create h v =
     (if vol_problems v \<noteq> [] then ret (False, hd (vol_problems v))
      else bnd (create_command v) (\<lambda>c. bnd (run h c) (\<lambda>r.
             if \<not> res_is_ok r then ret (False, err_text 300 r) else ret (True, []))))"

definition remove_command :: "string \<Rightarrow> string" where
  "remove_command name = ''docker volume rm -f '' @ shlex_quote name"

definition vol_destroy :: "rig \<Rightarrow> string \<Rightarrow> ('z Host_scheme, bool \<times> string) act" where
  "vol_destroy h name =
     (if \<not> vol_valid name then ret (False, ''refusing to remove '' @ repr_str name @ '': not an ephemeral volume name'')
      else bnd (run h (remove_command name)) (\<lambda>r.
             if res_is_ok r \<or> contains_str ''no such volume'' (lower (res_stderr r)) then ret (True, [])
             else ret (False, err_text 300 r)))"

definition LIST_VOLUMES :: string where
  "LIST_VOLUMES = ''docker volume ls -q --filter name='' @ shlex_quote (''^'' @ VOL_PREFIX)"

definition LIST_MOUNTS :: string where
  "LIST_MOUNTS = ''docker ps -a --format '' @ [CHR 0x27] @ ''{{.Mounts}}'' @ [CHR 0x27]"

definition list_ours :: "rig \<Rightarrow> ('z Host_scheme, string list) act" where
  "list_ours h = bnd (run h LIST_VOLUMES) (\<lambda>r.
     ret (if \<not> res_is_ok r then [] else filter vol_valid (map strip (splitlines (res_stdout r)))))"

definition mounts_of :: "string \<Rightarrow> string set" where
  "mounts_of stdout =
     set (filter (\<lambda>m. startswith m VOL_PREFIX) (concat (map (\<lambda>l. map strip (split_on (CHR '','') l)) (splitlines stdout))))"

definition mounted_volumes :: "rig \<Rightarrow> ('z Host_scheme, string set option) act" where
  "mounted_volumes h = bnd (run h LIST_MOUNTS) (\<lambda>r.
     ret (if \<not> res_is_ok r then None else Some (mounts_of (res_stdout r))))"

section \<open>The share of the disk\<close>

definition VOL_GB :: rat where "VOL_GB = 1000000000"
definition OVERHEAD_GB :: rat where "OVERHEAD_GB = 20"
definition FREE_MARGIN_GB :: rat where "FREE_MARGIN_GB = 10"
definition FLOOR_GB :: rat where "FLOOR_GB = 1"

definition parse_size_bytes :: "string \<Rightarrow> rat" where
  "parse_size_bytes text = (case float_of_str (strip text) of Inr x \<Rightarrow> x | Inl _ \<Rightarrow> 0)"

definition strip_gg :: "string \<Rightarrow> string" where
  "strip_gg s = rev (dropWhile (\<lambda>c. c \<in> set ''Gg'') (rev s))"

definition existing_gb :: "string \<Rightarrow> rat" where
  "existing_gb stdout =
     sum_list (map (\<lambda>l. case float_of_str (strip_gg (strip l)) of Inr x \<Rightarrow> x | Inl _ \<Rightarrow> 0) (splitlines stdout))"

definition slice_of :: "rat \<Rightarrow> rat \<Rightarrow> rat \<Rightarrow> rat \<Rightarrow> rat \<times> rat" where
  "slice_of requested_gb share free_gb existing =
     (let pool = max 0 (free_gb + existing - OVERHEAD_GB);
          slice_gb = min (min (share * pool) (requested_gb * (3 / 2))) (max 0 (free_gb - FREE_MARGIN_GB) * (3 / 2))
      in (max FLOOR_GB (slice_gb * 2 / 3), max FLOOR_GB (slice_gb / 3)))"

definition DOCKER_ROOT :: string where
  "DOCKER_ROOT = ''docker info --format '' @ [CHR 0x27] @ ''{{.DockerRootDir}}'' @ [CHR 0x27]"

definition LIST_SIZES :: string where
  "LIST_SIZES = ''docker volume ls -q --filter name=^mt-vol- | xargs -r docker volume inspect --format '' @
     [CHR 0x27] @ ''{{index .Options '' @ [CHR 0x22] @ ''size'' @ [CHR 0x22] @ ''}}'' @ [CHR 0x27]"

definition size_for :: "rig \<Rightarrow> rat \<Rightarrow> rat \<Rightarrow> bool \<Rightarrow> ('z Host_scheme, rat \<times> rat) act" where
  "size_for h requested_gb share quotas =
     (if \<not> quotas \<or> requested_gb \<le> 0 then ret (requested_gb, 0)
      else bnd (run h DOCKER_ROOT) (\<lambda>root.
        if \<not> res_is_ok root \<or> strip (res_stdout root) = [] then ret (requested_gb, 0)
        else bnd (run h (''df -B1 --output=avail '' @
                         shlex_quote (strip (last (splitlines (strip (res_stdout root))))) @ '' | tail -n 1'')) (\<lambda>free.
          if \<not> res_is_ok free then ret (requested_gb, 0)
          else bnd (run h LIST_SIZES) (\<lambda>listing.
            ret (slice_of requested_gb share (parse_size_bytes (res_stdout free) / VOL_GB)
                   (if res_is_ok listing then existing_gb (res_stdout listing) else 0))))))"

section \<open>Encrypted volumes\<close>

definition wrap :: "nat list \<Rightarrow> nat list \<Rightarrow> nat list" where
  "wrap raw pad = map2 (\<lambda>a b. a XOR b) raw pad"

definition q1 :: string where "q1 = [CHR 0x22]"

definition AWK :: string where
  "AWK = ''BEGIN{h='' @ q1 @ ''0123456789abcdef'' @ q1 @ '';n=length(w)/2;'' @
     ''for(i=0;i<n;i++){a=(index(h,substr(w,2*i+1,1))-1)*16+index(h,substr(w,2*i+2,1))-1;'' @
     ''b=(index(h,substr(k,2*i+1,1))-1)*16+index(h,substr(k,2*i+2,1))-1;'' @
     ''r=0;p=1;while(a>0||b>0){if((a%2)!=(b%2))r+=p;a=int(a/2);b=int(b/2);p*=2}'' @
     ''printf '' @ q1 @ ''%c'' @ q1 @ '',r}}''"

text \<open>What the awk program computes: the value of a pair of hexadecimal digits, the exclusive or of two
  numbers bit by bit, and the bytes of two texts of equal length.\<close>

function awk_xor :: "nat \<Rightarrow> nat \<Rightarrow> nat \<Rightarrow> nat \<Rightarrow> nat" where
  "awk_xor a b r p =
     (if 0 < a \<or> 0 < b
      then awk_xor (a div 2) (b div 2) (if a mod 2 \<noteq> b mod 2 then r + p else r) (2 * p)
      else r)"
  by pat_completeness auto
termination by (relation "measure (\<lambda>(a, b, r, p). a + b)") auto

declare awk_xor.simps [simp del]

fun awk_index :: "char \<Rightarrow> string \<Rightarrow> nat" where
  "awk_index c [] = 0"
| "awk_index c (d # ds) = (if c = d then 1 else (case awk_index c ds of 0 \<Rightarrow> 0 | Suc n \<Rightarrow> Suc (Suc n)))"

definition awk_byte :: "char \<Rightarrow> char \<Rightarrow> nat" where
  "awk_byte c d = (awk_index c ''0123456789abcdef'' - 1) * 16 + awk_index d ''0123456789abcdef'' - 1"

fun awk_run :: "string \<Rightarrow> string \<Rightarrow> nat list" where
  "awk_run (c # d # w) (c' # d' # k) = awk_xor (awk_byte c d) (awk_byte c' d') 0 1 # awk_run w k"
| "awk_run w k = []"

definition script_init :: "bool \<Rightarrow> string \<Rightarrow> string" where
  "script_init fresh cipher_path =
     (if fresh
      then ''if [ ! -f '' @ shlex_quote cipher_path @ ''/gocryptfs.conf ]; then '' @
           ''gocryptfs -q -init -passfile '' @ q1 @ ''$F'' @ q1 @ '' '' @ shlex_quote cipher_path @ '' || exit 3; fi'' @ newline
      else ''[ -f '' @ shlex_quote cipher_path @ ''/gocryptfs.conf ] || exit 4'' @ newline)"

definition unwrap_script :: "nat list \<Rightarrow> nat list \<Rightarrow> string \<Rightarrow> string \<Rightarrow> string \<Rightarrow> bool \<Rightarrow> string" where
  "unwrap_script raw pad tag cipher_path plain_path fresh =
     (let F = q1 @ ''$F'' @ q1 in
      ''#!/bin/sh'' @ newline @ ''set -e'' @ newline @ ''umask 077'' @ newline @
      ''F='' @ shlex_quote (''/tmp/.mt-'' @ tag) @ newline @
      ''trap '' @ [CHR 0x27] @ ''rm -f '' @ F @ [CHR 0x27] @ '' EXIT'' @ newline @
      ''awk -v w='' @ tohex (wrap raw pad) @ '' -v k='' @ tohex pad @ '' '' @ shlex_quote AWK @ '' > '' @ F @ newline @
      ''chmod 600 '' @ F @ newline @
      ''mkdir -p '' @ shlex_quote cipher_path @ '' '' @ shlex_quote plain_path @ newline @
      script_init fresh cipher_path @
      ''gocryptfs -q -allow_other -passfile '' @ F @ '' '' @ shlex_quote cipher_path @ '' '' @ shlex_quote plain_path @ newline)"

text \<open>The tags and pads drawn for one mount.\<close>

record Draw =
  dr_pad :: "nat list"
  dr_passfile :: string
  dr_script :: string

definition str_bytes :: "string \<Rightarrow> nat list" where "str_bytes s = map of_char s"

definition verify_mount :: "rig \<Rightarrow> string \<Rightarrow> string \<Rightarrow> ('z Host_scheme, bool) act" where
  "verify_mount h container path =
     bnd (run h (''docker exec '' @ shlex_quote container @ '' grep -F '' @ [CHR 0x27] @ '' fuse.gocryptfs '' @ [CHR 0x27] @
                 '' /proc/mounts'')) (\<lambda>r.
       ret (res_is_ok r \<and> list_ex (\<lambda>l. case split_ws l of
              _ # p # t # _ \<Rightarrow> p = path \<and> t = ''fuse.gocryptfs'' | _ \<Rightarrow> False) (splitlines (res_stdout r))))"

definition deliver_command :: "string \<Rightarrow> string \<Rightarrow> string" where
  "deliver_command container script_path =
     ''docker exec -i '' @ shlex_quote container @ '' sh -c '' @ shlex_quote (''umask 077; cat > '' @ script_path)"

definition mount_command :: "string \<Rightarrow> string \<Rightarrow> string" where
  "mount_command container script_path =
     ''docker exec '' @ shlex_quote container @ '' sh -c '' @
     shlex_quote (''sh '' @ script_path @ ''; s=$?; rm -f '' @ script_path @ ''; exit $s'')"

definition setup_encrypted ::
  "rig \<Rightarrow> (string \<Rightarrow> string \<Rightarrow> string) \<Rightarrow> Draw \<Rightarrow> string \<Rightarrow> VolumeSpec \<Rightarrow> string \<Rightarrow> bool
    \<Rightarrow> ('z Host_scheme, bool \<times> string) act" where
  "setup_encrypted h derive draw container v secret fresh =
     bnd (vol_require (vs_name v)) (\<lambda>_. bnd (require_path (vs_mount_path v)) (\<lambda>_.
     (let passphrase = derive secret (vs_name v);
          script = unwrap_script (str_bytes passphrase) (dr_pad draw) (dr_passfile draw) CIPHER_PATH (vs_mount_path v) fresh;
          script_path = ''/tmp/.mt-'' @ dr_script draw @ ''.sh''
      in bnd (run_in h (deliver_command container script_path) (Some script)) (\<lambda>written.
           if \<not> res_is_ok written then ret (False, ''could not deliver the mount script: '' @ err_text 200 written)
           else bnd (run h (mount_command container script_path)) (\<lambda>ran.
             if \<not> res_is_ok ran
             then ret (False, if res_exit_code ran = 4
                    then ''gocryptfs.conf is missing: the volume data is gone, refusing to re-initialise''
                    else ''gocryptfs mount failed: '' @ err_text 300 ran)
             else bnd (verify_mount h container (vs_mount_path v)) (\<lambda>ok.
               ret (if ok then (True, []) else (False, ''the encrypted mount is not present in /proc/mounts'')))))))) "

definition user_ok :: "string \<Rightarrow> bool" where
  "user_ok user = class_run (\<lambda>c. is_alnum c \<or> c \<in> set ''_.:-'') 1 64 user"

definition grant_workspace :: "rig \<Rightarrow> string \<Rightarrow> string \<Rightarrow> string \<Rightarrow> ('z Host_scheme, bool) act" where
  "grant_workspace h container path user =
     (if \<not> user_ok user then ret False
      else bnd (require_path path) (\<lambda>p.
             bnd (run h (''docker exec '' @ shlex_quote container @ '' chown '' @ shlex_quote user @ '' '' @ shlex_quote p))
               (\<lambda>r. ret (res_is_ok r))))"

section \<open>Facts\<close>

interpretation volume_spec: codec VolumeSpec_payload VolumeSpec_from_payload "\<lambda>_. True"
  by unfold_locales (simp add: VolumeSpec_payload_def VolumeSpec_from_payload_def field_simps_py dget_def)

lemma awk_xor_eq: "awk_xor a b r p = r + p * (a XOR b)"
proof (induction a b r p rule: awk_xor.induct)
  case (1 a b r p)
  show ?case
  proof (cases "0 < a \<or> 0 < b")
    case True
    have "a XOR b = of_bool (odd a \<noteq> odd b) + 2 * ((a div 2) XOR (b div 2))"
      by (rule xor_rec)
    moreover have "a mod 2 \<noteq> b mod 2 \<longleftrightarrow> odd a \<noteq> odd b"
      by (auto simp: odd_iff_mod_2_eq_one)
    ultimately show ?thesis using 1 [OF True] True
      by (subst awk_xor.simps) (auto simp: algebra_simps)
  next
    case False
    then show ?thesis by (subst awk_xor.simps) simp
  qed
qed

lemma awk_index_digit: "n < 16 \<Longrightarrow> awk_index (hex_digit n) ''0123456789abcdef'' = Suc n"
proof -
  have "list_all (\<lambda>n. awk_index (hex_digit n) ''0123456789abcdef'' = Suc n) [0..<16]" by code_simp
  then show "n < 16 \<Longrightarrow> awk_index (hex_digit n) ''0123456789abcdef'' = Suc n" by (auto simp: list_all_iff)
qed

lemma awk_byte_hex: "b < 256 \<Longrightarrow> awk_byte (hex_digit (b div 16)) (hex_digit (b mod 16)) = b"
proof -
  assume "b < 256"
  then have "b div 16 < 16" by (simp add: less_mult_imp_div_less)
  then show ?thesis
    using awk_index_digit [of "b div 16"] awk_index_digit [of "b mod 16"] by (simp add: awk_byte_def del: awk_index.simps)
qed

lemma xor_byte: "a < 256 \<Longrightarrow> b < 256 \<Longrightarrow> a XOR b < (256 :: nat)"
proof -
  assume "a < 256" "b < 256"
  then have "take_bit 8 a = a" "take_bit 8 b = b" by (simp_all add: take_bit_nat_eq_self)
  then have "take_bit 8 (a XOR b) = a XOR b" by (simp add: take_bit_xor)
  then show ?thesis using take_bit_nat_less_exp [of 8 "a XOR b"] by simp
qed

lemma awk_run_wrap:
  assumes "length raw = length pad" "\<forall>b \<in> set raw. b < 256" "\<forall>b \<in> set pad. b < 256"
  shows "awk_run (tohex (wrap raw pad)) (tohex pad) = raw"
  using assms
proof (induction raw pad rule: list_induct2)
  case Nil
  show ?case by (simp add: wrap_def tohex_def)
next
  case (Cons a raw b pad)
  have x: "a XOR b < 256" using Cons.prems by (intro xor_byte) auto
  have c: "tohex (y # ys) = hex_digit (y div 16) # hex_digit (y mod 16) # tohex ys" for y ys
    by (simp add: tohex_def)
  have "(a XOR b) XOR b = a" by (simp add: xor.assoc)
  then show ?case
    using Cons awk_byte_hex [OF x] awk_byte_hex [of b] by (simp add: wrap_def c awk_xor_eq)
qed

lemma vol_require_Inr [simp]: "vol_require n w = (w', Inr x) \<longleftrightarrow> vol_valid n \<and> w' = w \<and> x = n"
  by (auto simp: vol_require_def)

lemma emits_require [emits_rules]: "emits P (vol_require n)" "emits P (require_path p)"
  by (auto simp: vol_require_def require_path_def intro!: emits_rules)

lemma shlex_quote_inject: "shlex_quote a = shlex_quote b \<Longrightarrow> a = b"
  using sh_quote [of a "[]"] sh_quote [of b "[]"] by simp

lemma remove_command_inject [simp]: "remove_command a = remove_command b \<longleftrightarrow> a = b"
  by (auto simp: remove_command_def dest: shlex_quote_inject)

lemma emits_vol_destroy:
  "(vol_valid n \<Longrightarrow> P (remove_command n, None)) \<Longrightarrow> emits P (vol_destroy h n)"
  by (auto simp: vol_destroy_def intro!: emits_rules)

lemma vol_destroy_sends:
  "vol_destroy h n w = (w', r) \<Longrightarrow>
     w_sent w' = w_sent w @ (if vol_valid n then [(remove_command n, None)] else []) \<and> (\<exists>b t. r = Inr (b, t))"
  by (auto simp: vol_destroy_def bnd_def split: if_splits)

section \<open>Properties\<close>

text \<open>The passphrase of an encrypted volume reaches the container intact. The awk program that the
  script delivered to the container runs, given the passphrase combined with a drawn pad and the pad,
  both in hexadecimal, prints the bytes of the passphrase, for every passphrase of ASCII characters
  and every pad of the same length.\<close>

theorem passphrase_unwrapped:
  assumes "length raw = length pad" "\<forall>b \<in> set raw. b < 128" "\<forall>b \<in> set pad. b < 256"
  shows "awk_run (tohex (wrap raw pad)) (tohex pad) = raw"
proof (rule awk_run_wrap [OF assms(1) _ assms(3)])
  show "\<forall>b \<in> set raw. b < 256" using assms(2) by auto
qed

theorem passphrase_unwrapped_witness: "awk_run (tohex (wrap [104, 105] [200, 7])) (tohex [200, 7]) = [104, 105]"
  by (rule passphrase_unwrapped) simp_all

text \<open>The sizes given to the volume and to the writable layer of a job on a rig with quotas. Each is at
  least the floor of one gigabyte; the volume is not larger than was asked for nor than what is free
  beyond the margin, unless that is below the floor; and together they take no more than the job's
  share of the pool plus the two floors.\<close>

theorem slice_within_share:
  assumes "slice_of requested share free existing = (v, s)" "0 \<le> share" "0 \<le> requested"
  shows "FLOOR_GB \<le> v \<and> FLOOR_GB \<le> s \<and> v \<le> max FLOOR_GB requested
    \<and> v \<le> max FLOOR_GB (free - FREE_MARGIN_GB)
    \<and> v + s \<le> share * max 0 (free + existing - OVERHEAD_GB) + 2 * FLOOR_GB"
proof -
  define pl where "pl = share * max 0 (free + existing - OVERHEAD_GB)"
  define sl where "sl = min (min pl (requested * (3 / 2))) (max 0 (free - FREE_MARGIN_GB) * (3 / 2))"
  have vs: "v = max FLOOR_GB (sl * 2 / 3)" "s = max FLOOR_GB (sl / 3)"
    using assms(1) by (auto simp: slice_of_def Let_def sl_def pl_def)
  have le: "sl \<le> pl" "sl \<le> requested * (3 / 2)" "sl \<le> max 0 (free - FREE_MARGIN_GB) * (3 / 2)"
    by (auto simp: sl_def)
  have "0 \<le> pl" using assms(2) by (simp add: pl_def)
  then have nn: "0 \<le> sl" using assms(3) by (simp add: sl_def)
  have "v + s \<le> sl + 2 * FLOOR_GB" using nn by (auto simp: vs max_def FLOOR_GB_def)
  then have "v + s \<le> pl + 2 * FLOOR_GB" using le(1) by linarith
  moreover have "v \<le> max FLOOR_GB requested" using le(2) by (auto simp: vs(1) max_def)
  moreover have "v \<le> max FLOOR_GB (free - FREE_MARGIN_GB)"
    using le(3) by (auto simp: vs(1) max_def FLOOR_GB_def split: if_splits)
  ultimately show ?thesis by (auto simp: vs pl_def)
qed

theorem slice_within_share_witness: "slice_of 100 (1 / 2) 200 20 = (200 / 3, 100 / 3) \<and> (200 / 3 :: rat) + 100 / 3 \<le> 102"
proof -
  have e: "slice_of 100 (1 / 2) 200 20 = (200 / 3, 100 / 3)"
    by (simp add: slice_of_def Let_def OVERHEAD_GB_def FREE_MARGIN_GB_def FLOOR_GB_def)
  show ?thesis using slice_within_share [OF e] e by (simp add: OVERHEAD_GB_def FLOOR_GB_def)
qed

end
