(* ===== verification/Work_Jobs.thy ===== *)
theory Work_Jobs
  imports Storage_Volumes Data_Tiers
begin

text \<open>
  Jobs on a rig (\<^verbatim>\<open>validator/work/containers.py\<close>, first half): what a job asks for, what is refused, the
  \<^verbatim>\<open>docker run\<close> command it becomes, the file it is kept in, the host ports and the device nodes it gets.
  \<^verbatim>\<open>shlex.split\<close>, which reads the customer's command, is modelled as the state machine it is.
\<close>

section \<open>Patterns\<close>

definition JOB_ID :: "string \<Rightarrow> bool" where "JOB_ID s = ident_run 60 s"

definition is_alpha_us :: "char \<Rightarrow> bool" where
  "is_alpha_us c = ((is_alnum c \<and> \<not> is_digit c) \<or> c = CHR ''_'')"

definition ENV_KEY :: "string \<Rightarrow> bool" where
  "ENV_KEY s = (case s of [] \<Rightarrow> False
     | c # cs \<Rightarrow> is_alpha_us c \<and> class_run (\<lambda>c. is_alnum c \<or> c = CHR ''_'') 0 63 cs)"

definition lower_alnum :: "char \<Rightarrow> bool" where
  "lower_alnum c = (is_digit c \<or> (97 \<le> (of_char c :: nat) \<and> (of_char c :: nat) \<le> 122))"

definition IMAGE_REF :: "string \<Rightarrow> bool" where
  "IMAGE_REF s =
     (case s of [] \<Rightarrow> False
      | c # cs \<Rightarrow>
          (let t = takeWhile (\<lambda>c. lower_alnum c \<or> c \<in> set ''._/-'') cs; rest = drop (length t) cs in
           lower_alnum c \<and> length t \<le> 200 \<and> prefix ''@sha256:'' rest \<and> NONCE_PATTERN (drop 8 rest)))"

definition GPU_UUID :: "string \<Rightarrow> bool" where
  "GPU_UUID s = (prefix ''GPU-'' s \<and> class_run (\<lambda>c. is_lower_hex c \<or> c = CHR ''-'') 36 36 (drop 4 s))"

definition SHM_SIZE :: "string \<Rightarrow> bool" where
  "SHM_SIZE s =
     (let t = takeWhile is_digit s; rest = drop (length t) s in
      t \<noteq> [] \<and> (at_dollar rest \<or> (rest \<noteq> [] \<and> hd rest \<in> set ''kmgKMG'' \<and> at_dollar (tl rest))))"

section \<open>Job specifications\<close>

record PortMapping =
  pm_host :: int
  pm_container :: int
  pm_protocol :: string

definition PortMapping_payload :: "PortMapping \<Rightarrow> pydict" where
  "PortMapping_payload p =
     [(''host'', PInt (pm_host p)), (''container'', PInt (pm_container p)), (''protocol'', PStr (pm_protocol p))]"

definition PortMapping_from_payload :: "pyval \<Rightarrow> PortMapping pyres" where
  "PortMapping_from_payload v =
     rbind (attr_get v ''host'' (PInt 0)) (\<lambda>a. rbind (py_int (py_or a (PInt 0))) (\<lambda>host.
     rbind (attr_get v ''container'' (PInt 0)) (\<lambda>b. rbind (py_int (py_or b (PInt 0))) (\<lambda>container.
     rbind (attr_get v ''protocol'' (PStr ''tcp'')) (\<lambda>c.
     Inr \<lparr>pm_host = host, pm_container = container, pm_protocol = py_str (py_or c (PStr ''tcp''))\<rparr>)))))"

definition port_token :: "PortMapping \<Rightarrow> string" where
  "port_token p = show_int (pm_host p) @ '':'' @ show_int (pm_container p) @
     (if pm_protocol p = ''tcp'' then [] else ''/'' @ pm_protocol p)"

record JobSpec =
  js_job_id :: string
  js_kind :: string
  js_image :: string
  js_gpu_uuids :: "string list"
  js_owner :: string
  js_memory_gb :: rat
  js_cpus :: rat
  js_storage_gb :: rat
  js_shm_size :: string
  js_ports :: "PortMapping list"
  js_container_ports :: "int list"
  js_port_range :: string
  js_env :: "(string \<times> string) list"
  js_command :: string
  js_entrypoint :: string
  js_volumes :: "VolumeSpec list"
  js_whole_node :: bool
  js_devices :: "string list"
  js_isolation :: bool
  js_power_caps :: "(string \<times> rat) list"
  js_quotas_supported :: bool
  js_workspace_user :: string

definition NAME_PREFIX :: string where "NAME_PREFIX = ''mt-''"
definition OWNER_LABEL :: string where "OWNER_LABEL = ''mt.owner=validator''"
definition MAX_GPUS :: nat where "MAX_GPUS = 14"

definition container_name :: "JobSpec \<Rightarrow> string" where
  "container_name s = NAME_PREFIX @ js_job_id s"

definition sensitive :: "JobSpec \<Rightarrow> bool" where
  "sensitive s = (js_kind s = work_kind_value Rental)"

definition stop_grace :: "JobSpec \<Rightarrow> int" where
  "stop_grace s = (if js_kind s \<in> {work_kind_value Rental, work_kind_value Inference} then 30 else 15)"

definition JobSpec_payload :: "JobSpec \<Rightarrow> pydict" where
  "JobSpec_payload s =
     [(''job_id'', PStr (js_job_id s)), (''kind'', PStr (js_kind s)), (''image'', PStr (js_image s)),
      (''gpu_uuids'', PList (map PStr (js_gpu_uuids s))), (''owner'', PStr (js_owner s)),
      (''memory_gb'', PFloat (js_memory_gb s)), (''cpus'', PFloat (js_cpus s)), (''storage_gb'', PFloat (js_storage_gb s)),
      (''shm_size'', PStr (js_shm_size s)), (''ports'', PList (map (\<lambda>p. PDict (PortMapping_payload p)) (js_ports s))),
      (''container_ports'', PList (map PInt (js_container_ports s))), (''port_range'', PStr (js_port_range s)),
      (''env'', PDict (map (\<lambda>(k, v). (k, PStr v)) (js_env s))), (''command'', PStr (js_command s)),
      (''entrypoint'', PStr (js_entrypoint s)),
      (''volumes'', PList (map (\<lambda>v. PDict (VolumeSpec_payload v)) (js_volumes s))),
      (''whole_node'', PBool (js_whole_node s)), (''devices'', PList (map PStr (js_devices s))),
      (''isolation'', PBool (js_isolation s)),
      (''power_caps'', PDict (map (\<lambda>(k, v). (k, PFloat v)) (js_power_caps s))),
      (''quotas_supported'', PBool (js_quotas_supported s)), (''workspace_user'', PStr (js_workspace_user s))]"

text \<open>\<^verbatim>\<open>payload.get(key) or []\<close> iterated, and \<^verbatim>\<open>(payload.get(key) or {}).items()\<close>.\<close>

definition list_of :: "pydict \<Rightarrow> string \<Rightarrow> pyval list pyres" where
  "list_of d k = py_iter (py_or (dget d k PNone) (PList []))"

definition items_of :: "pydict \<Rightarrow> string \<Rightarrow> pydict pyres" where
  "items_of d k = (case py_or (dget d k PNone) (PDict []) of PDict e \<Rightarrow> Inr e | _ \<Rightarrow> Inl AttributeError)"

definition float_of :: "pydict \<Rightarrow> string \<Rightarrow> rat pyres" where
  "float_of d k = py_float (py_or (dget d k (PFloat 0)) (PFloat 0))"

definition volume_of :: "pyval \<Rightarrow> VolumeSpec pyres" where
  "volume_of v = (case v of PDict d \<Rightarrow> VolumeSpec_from_payload d | _ \<Rightarrow> Inl AttributeError)"

definition JobSpec_from_payload :: "pydict \<Rightarrow> JobSpec pyres" where
  "JobSpec_from_payload d =
     rbind (list_of d ''gpu_uuids'') (\<lambda>uuids. rbind (float_of d ''memory_gb'') (\<lambda>memory. rbind (float_of d ''cpus'') (\<lambda>cpus.
     rbind (float_of d ''storage_gb'') (\<lambda>storage. rbind (list_of d ''ports'') (\<lambda>ps.
     rbind (rmap PortMapping_from_payload ps) (\<lambda>ports. rbind (list_of d ''container_ports'') (\<lambda>cps.
     rbind (rmap py_int cps) (\<lambda>container_ports. rbind (items_of d ''env'') (\<lambda>env. rbind (list_of d ''volumes'') (\<lambda>vs.
     rbind (rmap volume_of vs) (\<lambda>volumes. rbind (list_of d ''devices'') (\<lambda>devices.
     rbind (items_of d ''power_caps'') (\<lambda>caps. rbind (rmap (\<lambda>(k, v). rbind (py_float v) (\<lambda>f. Inr (k, f))) caps) (\<lambda>power.
     Inr \<lparr>js_job_id = str_field d ''job_id'', js_kind = str_field d ''kind'', js_image = str_field d ''image'',
      js_gpu_uuids = map py_str uuids, js_owner = str_or_empty d ''owner'', js_memory_gb = memory, js_cpus = cpus,
      js_storage_gb = storage, js_shm_size = py_str (py_or (dget d ''shm_size'' (PStr ''1g'')) (PStr ''1g'')),
      js_ports = ports, js_container_ports = container_ports, js_port_range = str_or_empty d ''port_range'',
      js_env = map (\<lambda>(k, v). (k, py_str v)) env, js_command = str_or_empty d ''command'',
      js_entrypoint = str_or_empty d ''entrypoint'', js_volumes = volumes,
      js_whole_node = truthy (dget d ''whole_node'' (PBool False)), js_devices = map py_str devices,
      js_isolation = truthy (dget d ''isolation'' (PBool False)), js_power_caps = power,
      js_quotas_supported = truthy (dget d ''quotas_supported'' (PBool False)),
      js_workspace_user = str_or_empty d ''workspace_user''\<rparr>))))))))))))))"

text \<open>\<^verbatim>\<open>image.rsplit("@", 1)[-1]\<close>.\<close>

definition after_at :: "string \<Rightarrow> string" where
  "after_at s = rev (takeWhile (\<lambda>c. c \<noteq> CHR ''@'') (rev s))"

definition image_problems :: "string \<Rightarrow> string list \<Rightarrow> string list" where
  "image_problems ref allowlist =
     (if \<not> IMAGE_REF ref \<or> \<not> well_formed_digest (after_at ref)
      then [''image '' @ repr_str ref @ '' must be pinned by sha256 digest'']
      else if ref \<notin> set allowlist then [''image '' @ ref @ '' is not on the allowlist''] else [])"

definition job_problems :: "JobSpec \<Rightarrow> string list \<Rightarrow> string list" where
  "job_problems s allowlist =
     (if \<not> JOB_ID (js_job_id s) then [''job id '' @ repr_str (js_job_id s) @ '' is not accepted''] else []) @
     (if js_kind s \<notin> set (map work_kind_value PRIORITY) then [''unknown work kind '' @ repr_str (js_kind s)] else []) @
     image_problems (js_image s) allowlist @
     (if js_gpu_uuids s = [] then [''no GPU assigned''] else []) @
     (if MAX_GPUS < length (js_gpu_uuids s) then [''more than '' @ show_nat MAX_GPUS @ '' GPUs assigned''] else []) @
     (if list_ex (\<lambda>u. \<not> GPU_UUID u) (js_gpu_uuids s) then [''a GPU uuid is malformed''] else []) @
     (if sensitive s \<and> \<not> js_isolation s then [''rental requires the isolation runtime''] else []) @
     map (\<lambda>(k, v). ''environment key '' @ repr_str k @ '' is not accepted'') (filter (\<lambda>(k, v). \<not> ENV_KEY k) (js_env s)) @
     (if \<not> SHM_SIZE (js_shm_size s) then [''shm size '' @ repr_str (js_shm_size s) @ '' is not accepted''] else []) @
     concat (map vol_problems (js_volumes s)) @
     (if 0 < js_storage_gb s \<and> \<not> js_quotas_supported s
      then [''storage quota requested on a host whose driver cannot enforce it''] else [])"

section \<open>The customer's command\<close>

definition lex_space :: "char \<Rightarrow> bool" where
  "lex_space c = (c \<in> {CHR '' '', CHR 0x09, CHR 0x0D, CHR 0x0A})"

fun lex_word :: "string option \<Rightarrow> string \<Rightarrow> string list option"
  and lex_sq :: "string \<Rightarrow> string \<Rightarrow> string list option"
  and lex_dq :: "string \<Rightarrow> string \<Rightarrow> string list option"
  and lex_esc :: "string \<Rightarrow> string \<Rightarrow> string list option"
  and lex_dq_esc :: "string \<Rightarrow> string \<Rightarrow> string list option" where
  "lex_word w [] = Some (case w of None \<Rightarrow> [] | Some a \<Rightarrow> [a])"
| "lex_word w (c # cs) =
     (if lex_space c
      then (case w of None \<Rightarrow> lex_word None cs | Some a \<Rightarrow> map_option (Cons a) (lex_word None cs))
      else if c = CHR 0x5C then lex_esc (word_of w) cs
      else if c = CHR 0x27 then lex_sq (word_of w) cs
      else if c = CHR 0x22 then lex_dq (word_of w) cs
      else lex_word (Some (word_of w @ [c])) cs)"
| "lex_sq a [] = None"
| "lex_sq a (c # cs) = (if c = CHR 0x27 then lex_word (Some a) cs else lex_sq (a @ [c]) cs)"
| "lex_dq a [] = None"
| "lex_dq a (c # cs) =
     (if c = CHR 0x22 then lex_word (Some a) cs
      else if c = CHR 0x5C then lex_dq_esc a cs
      else lex_dq (a @ [c]) cs)"
| "lex_esc a [] = None"
| "lex_esc a (c # cs) = lex_word (Some (a @ [c])) cs"
| "lex_dq_esc a [] = None"
| "lex_dq_esc a (c # cs) = lex_dq (if c = CHR 0x5C \<or> c = CHR 0x22 then a @ [c] else a @ [CHR 0x5C, c]) cs"

definition shlex_split :: "string \<Rightarrow> string list option" where
  "shlex_split s = lex_word None s"

definition user_tokens :: "string \<Rightarrow> string list option" where
  "user_tokens text = (if strip text = [] then Some [] else shlex_split text)"

definition tokens_or_none :: "string \<Rightarrow> string list" where
  "tokens_or_none text = (case user_tokens text of None \<Rightarrow> [] | Some ts \<Rightarrow> ts)"

text \<open>\<^verbatim>\<open>f"{x:g}"\<close> for \<open>0.0001 \<le> x < 1000000\<close>: six significant digits, trailing zeros dropped.\<close>

definition fmt_sig :: "rat \<Rightarrow> string" where
  "fmt_sig x =
     (let d = (if 1 \<le> x then 6 - length (show_nat (nat \<lfloor>x\<rfloor>))
               else if 1 / 10 \<le> x then 6 else if 1 / 100 \<le> x then 7 else if 1 / 1000 \<le> x then 8 else 9);
          m = nat (py_round (x * 10 ^ d));
          frac = rstrip_char (CHR ''0'') (zfill d (show_nat (m mod 10 ^ d)))
      in show_nat (m div 10 ^ d) @ (if frac = [] then [] else ''.'' @ frac))"

text \<open>The options before the image and the words after it.\<close>

definition run_options :: "JobSpec \<Rightarrow> string list \<Rightarrow> string list" where
  "run_options s mounts =
     [''docker'', ''run'', ''-d'', ''--name'', container_name s, ''--restart'', ''unless-stopped''] @
     (if js_isolation s then [''--runtime'', ''sysbox-runc''] else []) @
     [''--gpus'', [CHR 0x22] @ ''device='' @ join '','' (js_gpu_uuids s) @ [CHR 0x22]] @
     concat (map (\<lambda>d. [''--device'', d @ '':'' @ d @ '':rwm'']) (js_devices s)) @
     [''--cap-add'', ''NET_ADMIN'', ''--sysctl'', ''net.ipv4.conf.all.src_valid_mark=1''] @
     (if 0 < js_memory_gb s then [''--memory'', show_int (py_trunc (js_memory_gb s * 1024)) @ ''m''] else []) @
     (if 0 < js_cpus s then [''--cpus'', fmt_sig (js_cpus s)] else []) @
     (if 0 < js_storage_gb s \<and> js_quotas_supported s
      then [''--storage-opt'', ''size='' @ show_int (py_trunc (js_storage_gb s)) @ ''G''] else []) @
     [''--shm-size'', js_shm_size s] @
     concat (map (\<lambda>p. [''-p'', port_token p]) (js_ports s)) @
     [''--label'', ''mt.job='' @ js_job_id s, ''--label'', ''mt.kind='' @ js_kind s, ''--label'', OWNER_LABEL] @
     (if js_owner s \<noteq> [] then [''--label'', ''mt.tenant='' @ js_owner s] else []) @
     [''-e'', ''NVIDIA_DRIVER_CAPABILITIES=all''] @
     concat (map (\<lambda>(k, v). [''-e'', k @ ''='' @ v]) (sort_key fst (js_env s))) @
     mounts @
     (if list_ex vs_encrypted (js_volumes s) \<and> \<not> js_isolation s
      then [''--cap-add'', ''SYS_ADMIN'', ''--security-opt'', ''apparmor=unconfined''] else []) @
     (case tokens_or_none (js_entrypoint s) of [] \<Rightarrow> [] | e # _ \<Rightarrow> [''--entrypoint'', e])"

definition run_tail :: "JobSpec \<Rightarrow> string list" where
  "run_tail s = tl (tokens_or_none (js_entrypoint s)) @ tokens_or_none (js_command s)"

definition run_command :: "JobSpec \<Rightarrow> ('s, string) act" where
  "run_command s =
     bnd (each mount_args (js_volumes s)) (\<lambda>mounts.
       ret (join '' '' (map shlex_quote (run_options s (concat mounts) @ [js_image s] @ run_tail s))))"

section \<open>The job store\<close>

text \<open>The directory of job files: the parsed content by job; \<open>st_writable\<close> is whether the file system
  accepts changes. \<open>_file\<close> raises for a job id that is not accepted.\<close>

record JobStore =
  st_files :: "(string \<times> pyval) list"
  st_writable :: bool

definition store_save :: "rat \<Rightarrow> JobSpec \<Rightarrow> string \<Rightarrow> JobStore \<Rightarrow> exc + JobStore" where
  "store_save now s rig_id st =
     (if \<not> st_writable st then Inl OsError
      else if \<not> JOB_ID (js_job_id s) then Inl (ValueErr (''job id '' @ repr_str (js_job_id s) @ '' is not accepted''))
      else Inr (st\<lparr>st_files := AList.update (js_job_id s)
        (PDict [(''rig_id'', PStr rig_id), (''saved_at'', PFloat now), (''spec'', PDict (JobSpec_payload s))]) (st_files st)\<rparr>))"

definition spec_in :: "pyval \<Rightarrow> (JobSpec \<times> string) pyres" where
  "spec_in body =
     rbind (attr_get body ''spec'' PNone) (\<lambda>v.
       case py_or v (PDict []) of
         PDict d \<Rightarrow> rbind (JobSpec_from_payload d) (\<lambda>s.
           rbind (attr_get body ''rig_id'' (PStr [])) (\<lambda>r. Inr (s, py_str (py_or r (PStr [])))))
       | _ \<Rightarrow> Inl AttributeError)"

definition store_load :: "string \<Rightarrow> JobStore \<Rightarrow> (JobSpec \<times> string) option pyres" where
  "store_load job_id st =
     (if \<not> JOB_ID job_id then Inl ValueError
      else (case map_of (st_files st) job_id of
              None \<Rightarrow> Inr None
            | Some body \<Rightarrow> rbind (spec_in body) (\<lambda>r. Inr (Some r))))"

definition store_forget :: "string \<Rightarrow> JobStore \<Rightarrow> JobStore" where
  "store_forget job_id st =
     (if JOB_ID job_id \<and> st_writable st then st\<lparr>st_files := AList.delete job_id (st_files st)\<rparr> else st)"

definition store_all :: "JobStore \<Rightarrow> (JobSpec \<times> string) list pyres" where
  "store_all st =
     rbind (rmap (\<lambda>k. store_load k st) (sort (map fst (st_files st)))) (\<lambda>rs. Inr (concat (map (\<lambda>r. case r of None \<Rightarrow> [] | Some x \<Rightarrow> [x]) rs)))"

section \<open>Ports\<close>

definition parse_range :: "string \<Rightarrow> (int \<times> int) option" where
  "parse_range text =
     (case split_on (CHR ''-'') text of
        [a, b] \<Rightarrow>
          (let x = strip a; y = strip b in
           if x = [] \<or> y = [] \<or> \<not> list_all is_digit x \<or> \<not> list_all is_digit y then None
           else (let low = int (digits_val x); high = int (digits_val y) in
                 if low < 1 \<or> 65535 < high \<or> high < low then None else Some (low, high)))
      | _ \<Rightarrow> None)"

definition token_port :: "string \<Rightarrow> int option" where
  "token_port token =
     (let ds = rev (takeWhile is_digit (rev token)); rest = take (length token - length ds) token in
      if ds \<noteq> [] \<and> rest \<noteq> [] \<and> last rest = CHR '':'' then Some (int (digits_val ds)) else None)"

definition LIST_PORTS :: string where
  "LIST_PORTS = ''ss -Hltn 2>/dev/null || netstat -ltn 2>/dev/null''"

definition used_ports :: "rig \<Rightarrow> ('z Host_scheme, int set) act" where
  "used_ports h = bnd (run h LIST_PORTS) (\<lambda>r.
     ret (set (concat (map (\<lambda>l. List.map_filter token_port (split_ws l)) (splitlines (res_stdout r))))))"

function next_free :: "int set \<Rightarrow> int \<Rightarrow> int \<Rightarrow> int" where
  "next_free busy high candidate =
     (if candidate \<le> high \<and> candidate \<in> busy then next_free busy high (candidate + 1) else candidate)"
  by pat_completeness auto
termination by (relation "measure (\<lambda>(busy, high, c). nat (high + 1 - c))") auto

declare next_free.simps [simp del]

fun assign_ports :: "int set \<Rightarrow> int \<Rightarrow> int \<Rightarrow> int list \<Rightarrow> PortMapping list option" where
  "assign_ports busy high candidate [] = Some []"
| "assign_ports busy high candidate (p # ps) =
     (let c = next_free busy high candidate in
      if high < c then None
      else map_option (Cons \<lparr>pm_host = c, pm_container = p, pm_protocol = ''tcp''\<rparr>) (assign_ports busy high (c + 1) ps))"

definition reserve_ports :: "rig \<Rightarrow> JobSpec \<Rightarrow> ('z Host_scheme, PortMapping list \<times> string) act" where
  "reserve_ports h s =
     (if js_ports s \<noteq> [] \<or> js_container_ports s = [] then ret (js_ports s, [])
      else (case parse_range (js_port_range s) of
              None \<Rightarrow> ret ([], ''port range '' @ repr_str (js_port_range s) @ '' is not usable'')
            | Some (low, high) \<Rightarrow> bnd (used_ports h) (\<lambda>busy.
                ret (case assign_ports busy high low (js_container_ports s) of
                       None \<Rightarrow> ([], ''no free port left in the reserved range'')
                     | Some ms \<Rightarrow> (ms, [])))))"

section \<open>Device nodes\<close>

definition normalise_bus :: "string \<Rightarrow> string" where
  "normalise_bus text = (let s = lower (strip text) in drop (length s - 12) s)"

text \<open>\<^verbatim>\<open>text.split(sep)\<close> for a separator of more than one character.\<close>

fun split_str :: "string \<Rightarrow> nat \<Rightarrow> string \<Rightarrow> string \<Rightarrow> string list" where
  "split_str sep skip acc [] = [acc]"
| "split_str sep (Suc n) acc (c # cs) = split_str sep n acc cs"
| "split_str sep 0 acc (c # cs) =
     (if prefix sep (c # cs) then acc # split_str sep (length sep - 1) [] cs else split_str sep 0 (acc @ [c]) cs)"

definition section_lines :: "nat \<Rightarrow> string list \<Rightarrow> string list" where
  "section_lines i sections = (if i < length sections then splitlines (sections ! i) else [])"

definition uuid_line :: "string \<Rightarrow> (string \<times> string) option" where
  "uuid_line line =
     (case map strip (split_on (CHR '','') line) of
        [a, b] \<Rightarrow> if startswith a ''GPU-'' then Some (a, normalise_bus b) else None
      | _ \<Rightarrow> None)"

definition minor_line :: "string \<Rightarrow> (string \<times> int) option" where
  "minor_line line0 =
     (let line = strip line0; p = ''/proc/driver/nvidia/gpus/'' in
      if \<not> prefix p line then None
      else (let r1 = drop (length p) line; bus = takeWhile (\<lambda>c. c \<noteq> CHR ''/'') r1; r2 = drop (length bus) r1 in
        if bus = [] \<or> \<not> prefix ''/information:'' r2 then None
        else (let r3 = lstrip (drop 13 r2) in
          if \<not> prefix ''Device Minor:'' r3 then None
          else (let ds = takeWhile is_digit (lstrip (drop 13 r3)) in
            if ds = [] then None else Some (normalise_bus bus, int (digits_val ds))))))"

definition dict_of :: "('k \<times> 'v) list \<Rightarrow> ('k \<times> 'v) list" where
  "dict_of kvs = foldl (\<lambda>d (k, v). AList.update k v d) [] kvs"

definition parse_device_probe ::
  "string \<Rightarrow> (string \<times> string) list \<times> (string \<times> int) list \<times> string list" where
  "parse_device_probe stdout =
     (let sections = split_str ''---'' 0 [] stdout in
      (dict_of (List.map_filter uuid_line (section_lines 0 sections)),
       dict_of (List.map_filter minor_line (section_lines 1 sections)),
       filter (\<lambda>l. startswith l ''/dev/'') (map strip (section_lines 2 sections))))"

definition DEVICE_NODES :: "string list" where
  "DEVICE_NODES = [''/dev/nvidiactl'', ''/dev/nvidia-uvm'', ''/dev/nvidia-uvm-tools'', ''/dev/nvidia-modeset'']"

definition HOST_WIDE_DIRS :: "string list" where
  "HOST_WIDE_DIRS = [''/dev/nvidia-caps'', ''/dev/infiniband'']"

definition DEVICE_PROBE :: string where
  "DEVICE_PROBE = ''nvidia-smi --query-gpu=uuid,pci.bus_id --format=csv,noheader; echo ---; '' @
     ''grep -H '' @ [CHR 0x27] @ ''Device Minor'' @ [CHR 0x27] @ '' /proc/driver/nvidia/gpus/*/information 2>/dev/null; echo ---; '' @
     ''ls -1 /dev/nvidia* /dev/nvidia-caps/* /dev/infiniband/* 2>/dev/null''"

fun choose_nodes ::
  "(string \<times> string) list \<Rightarrow> (string \<times> int) list \<Rightarrow> string list \<Rightarrow> string list \<Rightarrow> string + string list" where
  "choose_nodes bus_by_uuid minor_by_bus nodes [] = Inr []"
| "choose_nodes bus_by_uuid minor_by_bus nodes (u # us) =
     (case map_of bus_by_uuid u of
        None \<Rightarrow> Inl (''no device node resolved for '' @ u)
      | Some bus \<Rightarrow>
          (case map_of minor_by_bus bus of
             None \<Rightarrow> Inl (''no device node resolved for '' @ u)
           | Some minor \<Rightarrow>
               (let node = ''/dev/nvidia'' @ show_int minor in
                if node \<notin> set nodes then Inl (node @ '' for '' @ u @ '' is absent'')
                else rbind (choose_nodes bus_by_uuid minor_by_bus nodes us) (\<lambda>ns. Inr (node # ns)))))"

definition device_nodes :: "rig \<Rightarrow> string list \<Rightarrow> bool \<Rightarrow> ('z Host_scheme, string list \<times> string) act" where
  "device_nodes h uuids whole_node =
     bnd (run h DEVICE_PROBE) (\<lambda>r.
       ret (if transport_failed r then ([], res_error r)
            else (case parse_device_probe (res_stdout r) of (bus_by_uuid, minor_by_bus, nodes) \<Rightarrow>
              (case choose_nodes bus_by_uuid minor_by_bus nodes uuids of
                 Inl e \<Rightarrow> ([], e)
               | Inr chosen \<Rightarrow>
                   (chosen @ filter (\<lambda>n. n \<in> set nodes) DEVICE_NODES @
                    (if whole_node
                     then filter (\<lambda>n. list_ex (\<lambda>p. startswith n (p @ ''/'')) HOST_WIDE_DIRS) nodes else []),
                    [])))))"

section \<open>Facts\<close>

lemma rmap_map_Inr: "(\<And>x. x \<in> set xs \<Longrightarrow> f (g x) = Inr x) \<Longrightarrow> rmap f (map g xs) = Inr xs"
  by (induction xs) auto

lemma list_of_PList: "map_of d k = Some (PList xs) \<Longrightarrow> list_of d k = Inr xs"
  by (cases xs) (simp_all add: list_of_def dget_def py_or_def)

lemma items_of_PDict: "map_of d k = Some (PDict e) \<Longrightarrow> items_of d k = Inr e"
  by (cases e) (simp_all add: items_of_def dget_def py_or_def)

lemma float_of_PFloat: "map_of d k = Some (PFloat x) \<Longrightarrow> float_of d k = Inr x"
  by (simp add: float_of_def dget_def)

lemma PortMapping_inverse:
  "pm_protocol p \<noteq> [] \<Longrightarrow> PortMapping_from_payload (PDict (PortMapping_payload p)) = Inr p"
  by (simp add: PortMapping_from_payload_def PortMapping_payload_def py_or_def)

lemma volume_inverse: "volume_of (PDict (VolumeSpec_payload v)) = Inr v"
  by (simp add: volume_of_def volume_spec.dec_enc)

definition spec_wf :: "JobSpec \<Rightarrow> bool" where
  "spec_wf s \<longleftrightarrow> js_shm_size s \<noteq> [] \<and> list_all (\<lambda>p. pm_protocol p \<noteq> []) (js_ports s)"

interpretation job_spec: codec JobSpec_payload JobSpec_from_payload spec_wf
proof
  fix s assume wf: "spec_wf s"
  let ?d = "JobSpec_payload s"
  have lists: "list_of ?d ''gpu_uuids'' = Inr (map PStr (js_gpu_uuids s))"
    "list_of ?d ''ports'' = Inr (map (\<lambda>p. PDict (PortMapping_payload p)) (js_ports s))"
    "list_of ?d ''container_ports'' = Inr (map PInt (js_container_ports s))"
    "list_of ?d ''volumes'' = Inr (map (\<lambda>v. PDict (VolumeSpec_payload v)) (js_volumes s))"
    "list_of ?d ''devices'' = Inr (map PStr (js_devices s))"
    by (rule list_of_PList, simp add: JobSpec_payload_def)+
  have items: "items_of ?d ''env'' = Inr (map (\<lambda>(k, v). (k, PStr v)) (js_env s))"
    "items_of ?d ''power_caps'' = Inr (map (\<lambda>(k, v). (k, PFloat v)) (js_power_caps s))"
    by (rule items_of_PDict, simp add: JobSpec_payload_def)+
  have floats: "float_of ?d ''memory_gb'' = Inr (js_memory_gb s)" "float_of ?d ''cpus'' = Inr (js_cpus s)"
    "float_of ?d ''storage_gb'' = Inr (js_storage_gb s)"
    by (rule float_of_PFloat, simp add: JobSpec_payload_def)+
  have maps: "rmap PortMapping_from_payload (map (\<lambda>p. PDict (PortMapping_payload p)) (js_ports s)) = Inr (js_ports s)"
    "rmap py_int (map PInt (js_container_ports s)) = Inr (js_container_ports s)"
    "rmap volume_of (map (\<lambda>v. PDict (VolumeSpec_payload v)) (js_volumes s)) = Inr (js_volumes s)"
    "rmap (\<lambda>(k, v). rbind (py_float v) (\<lambda>f. Inr (k, f))) (map (\<lambda>(k, v). (k, PFloat v)) (js_power_caps s))
      = Inr (js_power_caps s)"
    using wf by (auto intro!: rmap_map_Inr simp: PortMapping_inverse volume_inverse spec_wf_def list_all_iff)
  have strs: "map py_str (map PStr xs) = xs" "map (\<lambda>(k, v). (k, py_str v)) (map (\<lambda>(k, v). (k, PStr v)) e) = e"
    for xs and e :: "(string \<times> string) list"
    by (simp_all add: comp_def split_def)
  show "JobSpec_from_payload ?d = Inr s"
    unfolding JobSpec_from_payload_def lists items floats maps rbind_Inr strs
    using wf by (simp add: JobSpec_payload_def field_simps_py spec_wf_def py_or_def dget_def)
qed

lemma next_free_ge: "candidate \<le> next_free busy high candidate"
proof (induction busy high candidate rule: next_free.induct)
  case (1 busy high candidate)
  then show ?case by (subst next_free.simps) auto
qed

lemma next_free_free: "next_free busy high candidate \<le> high \<Longrightarrow> next_free busy high candidate \<notin> busy"
proof (induction busy high candidate rule: next_free.induct)
  case (1 busy high candidate)
  then show ?case by (subst next_free.simps, subst (asm) (2) next_free.simps) (auto split: if_splits)
qed

lemma next_free_between: "candidate \<le> x \<Longrightarrow> x < next_free busy high candidate \<Longrightarrow> x \<in> busy"
proof (induction busy high candidate rule: next_free.induct)
  case (1 busy high candidate)
  show ?case
  proof (cases "candidate \<le> high \<and> candidate \<in> busy")
    case True
    then have "next_free busy high candidate = next_free busy high (candidate + 1)" by (subst next_free.simps) simp
    then show ?thesis using 1 True by (cases "x = candidate") auto
  next
    case False
    then have "next_free busy high candidate = candidate" by (subst next_free.simps) auto
    then show ?thesis using 1 by simp
  qed
qed

lemma assign_ports_Some:
  "assign_ports busy high c ps = Some ms \<Longrightarrow>
     map pm_container ms = ps \<and> sorted_wrt (<) (map pm_host ms) \<and>
     (\<forall>m \<in> set ms. c \<le> pm_host m \<and> pm_host m \<le> high \<and> pm_host m \<notin> busy \<and> pm_protocol m = ''tcp'')"
proof (induction busy high c ps arbitrary: ms rule: assign_ports.induct)
  case (2 busy high c p ps)
  let ?n = "next_free busy high c"
  obtain ns where n: "?n \<le> high" "assign_ports busy high (?n + 1) ps = Some ns"
    and ms: "ms = \<lparr>pm_host = ?n, pm_container = p, pm_protocol = ''tcp''\<rparr> # ns"
    using 2(2) by (auto simp: Let_def split: if_splits)
  then show ?case
    using 2(1) [OF refl _ n(2)] next_free_ge [of c busy high] next_free_free [of busy high c] by force
qed simp

text \<open>When no assignment is found the range has fewer free ports than the job needs.\<close>

lemma assign_ports_None:
  "assign_ports busy high c ps = None \<Longrightarrow> card ({c..high} - busy) < length ps"
proof (induction busy high c ps rule: assign_ports.induct)
  case (2 busy high c p ps)
  let ?n = "next_free busy high c"
  have sub: "{c..high} - busy \<subseteq> {?n..high}"
    using next_free_between [of c _ busy high] by fastforce
  show ?case
  proof (cases "high < ?n")
    case True
    then have none: "{c..high} - busy = {}" using sub by auto
    show ?thesis unfolding none by simp
  next
    case False
    then have "assign_ports busy high (?n + 1) ps = None" using 2(2) by (auto simp: Let_def)
    then have ih: "card ({?n + 1..high} - busy) < length ps" using 2(1) False by auto
    have "{c..high} - busy \<subseteq> insert ?n ({?n + 1..high} - busy)" using sub by fastforce
    then have "card ({c..high} - busy) \<le> card (insert ?n ({?n + 1..high} - busy))" by (intro card_mono) auto
    also have "\<dots> \<le> Suc (card ({?n + 1..high} - busy))" by (simp add: card_insert_if)
    finally show ?thesis using ih by simp
  qed
qed simp

lemma parse_range_Some: "parse_range t = Some (low, high) \<Longrightarrow> 1 \<le> low \<and> low \<le> high \<and> high \<le> 65535"
  by (auto simp: parse_range_def Let_def split: list.splits if_splits)

lemma image_ok:
  "job_problems s allowlist = [] \<Longrightarrow> js_image s \<in> set allowlist \<and> IMAGE_REF (js_image s)"
  by (auto simp: job_problems_def image_problems_def split: if_splits)

lemma each_mount_args: "each mount_args vs w = (w', r) \<Longrightarrow> w' = w"
proof (induction vs arbitrary: r)
  case (Cons v vs)
  then show ?case
    by (auto simp: bnd_def mount_args_def vol_require_def require_path_def split: prod.splits sum.splits if_splits)
qed simp

section \<open>Properties\<close>


definition demo_image :: string where
  "demo_image = ''reg/app@sha256:'' @ replicate 64 CHR ''a''"

definition demo_spec :: JobSpec where
  "demo_spec =
     \<lparr>js_job_id = ''j1'', js_kind = ''mining'', js_image = demo_image,
      js_gpu_uuids = [''GPU-'' @ replicate 36 CHR ''a''], js_owner = [], js_memory_gb = 0, js_cpus = 0, js_storage_gb = 0,
      js_shm_size = ''1g'', js_ports = [], js_container_ports = [22, 80], js_port_range = ''4000-4003'',
      js_env = [(''A'', ''x; rm -rf /'')], js_command = ''echo hi'', js_entrypoint = [],
      js_volumes = [\<lparr>vs_name = ''mt-vol-j1'', vs_mount_path = ''/data'', vs_size_gb = 0, vs_driver = [], vs_sparse = False,
        vs_encrypted = False, vs_create = True\<rparr>],
      js_whole_node = False, js_devices = [], js_isolation = False, js_power_caps = [], js_quotas_supported = False,
      js_workspace_user = []\<rparr>"


text \<open>The ports reserved for a job are the container ports in order, mapped to distinct ports of
  the job's range, in increasing order, that nothing on the rig listens on; and when the reservation
  fails for want of ports, the range has fewer free ports than the job asks for.\<close>

theorem reserved_ports_exact:
  assumes "js_ports s = []" "parse_range (js_port_range s) = Some (low, high)"
    and "used_ports h w = (w1, Inr busy)" "reserve_ports h s w = (w', Inr (ms, reason))"
  shows "(reason = [] \<longrightarrow> map pm_container ms = js_container_ports s \<and> sorted_wrt (<) (map pm_host ms) \<and>
      (\<forall>m \<in> set ms. 1 \<le> pm_host m \<and> low \<le> pm_host m \<and> pm_host m \<le> high \<and> pm_host m \<le> 65535 \<and> pm_host m \<notin> busy))
    \<and> (reason \<noteq> [] \<longrightarrow> ms = [] \<and> card ({low..high} - busy) < length (js_container_ports s))"
proof (cases "js_container_ports s = []")
  case True
  then show ?thesis using assms(1,4) by (simp add: reserve_ports_def)
next
  case False
  then have r: "(ms, reason) = (case assign_ports busy high low (js_container_ports s) of
      None \<Rightarrow> ([], ''no free port left in the reserved range'') | Some ms \<Rightarrow> (ms, []))"
    using assms by (simp add: reserve_ports_def bnd_def)
  show ?thesis
  proof (cases "assign_ports busy high low (js_container_ports s)")
    case None
    then show ?thesis using r assign_ports_None by simp
  next
    case (Some xs)
    then show ?thesis using r assign_ports_Some [OF Some] parse_range_Some [OF assms(2)] by fastforce
  qed
qed

theorem reserved_ports_exact_witness:
  "\<exists>w'. reserve_ports (\<lambda>tr c. \<lparr>res_command = [], res_exit_code = 0, res_stdout = ''LISTEN 0 128 0.0.0.0:4000 *:*'',
      res_stderr = [], res_elapsed_ms = 0, res_error = []\<rparr>) demo_spec \<lparr>w_sent = []\<rparr>
    = (w', Inr ([\<lparr>pm_host = 4001, pm_container = 22, pm_protocol = ''tcp''\<rparr>, \<lparr>pm_host = 4002, pm_container = 80, pm_protocol = ''tcp''\<rparr>], []))
    \<and> sorted_wrt (<) [4001, 4002 :: int]"
proof -
  let ?h = "\<lambda>tr c. \<lparr>res_command = [], res_exit_code = 0, res_stdout = ''LISTEN 0 128 0.0.0.0:4000 *:*'',
      res_stderr = [], res_elapsed_ms = 0, res_error = []\<rparr>"
  have b: "set (concat (map (\<lambda>l. List.map_filter token_port (split_ws l)) (splitlines ''LISTEN 0 128 0.0.0.0:4000 *:*''))) = {4000}"
    by code_simp
  have u: "used_ports ?h \<lparr>w_sent = []\<rparr> = (\<lparr>w_sent = [(LIST_PORTS, None)]\<rparr>, Inr {4000})"
    using b by (simp add: used_ports_def bnd_def)
  have p: "parse_range ''4000-4003'' = Some (4000, 4003)" by code_simp
  have a: "assign_ports {4000} 4003 4000 [22, 80] =
      Some [\<lparr>pm_host = 4001, pm_container = 22, pm_protocol = ''tcp''\<rparr>, \<lparr>pm_host = 4002, pm_container = 80, pm_protocol = ''tcp''\<rparr>]"
    by (simp add: next_free.simps)
  have r: "reserve_ports ?h demo_spec \<lparr>w_sent = []\<rparr> = (\<lparr>w_sent = [(LIST_PORTS, None)]\<rparr>,
      Inr ([\<lparr>pm_host = 4001, pm_container = 22, pm_protocol = ''tcp''\<rparr>, \<lparr>pm_host = 4002, pm_container = 80, pm_protocol = ''tcp''\<rparr>], []))"
    by (simp add: reserve_ports_def demo_spec_def p bnd_def u a del: assign_ports.simps)
  show ?thesis using reserved_ports_exact [OF _ _ u r, of 4000 4003] r p by (simp add: demo_spec_def)
qed

text \<open>A job that was saved is loaded back exactly, with the rig it runs on, under its id and no
  other id is touched; the loaded specification is the saved one in every field, for a job with a
  shared memory size and named port protocols.\<close>

theorem job_store_roundtrip:
  assumes "spec_wf s" "store_save now s rig_id st = Inr st'"
  shows "store_load (js_job_id s) st' = Inr (Some (s, rig_id))
    \<and> (\<forall>j. j \<noteq> js_job_id s \<longrightarrow> store_load j st' = store_load j st)"
proof -
  have st': "JOB_ID (js_job_id s)" "map_of (st_files st') = (map_of (st_files st))(js_job_id s \<mapsto>
      PDict [(''rig_id'', PStr rig_id), (''saved_at'', PFloat now), (''spec'', PDict (JobSpec_payload s))])"
    using assms(2) by (auto simp: store_save_def update_conv' split: if_splits)
  have ne: "py_or (PDict (JobSpec_payload s)) (PDict []) = PDict (JobSpec_payload s)"
    by (simp add: py_or_def JobSpec_payload_def)
  have "spec_in (PDict [(''rig_id'', PStr rig_id), (''saved_at'', PFloat now), (''spec'', PDict (JobSpec_payload s))])
      = Inr (s, rig_id)"
    using job_spec.dec_enc [OF assms(1)] by (simp add: spec_in_def ne)
  then show ?thesis using st' by (auto simp: store_load_def)
qed

theorem job_store_roundtrip_witness:
  "\<exists>st'. store_save 5 demo_spec ''rig'' \<lparr>st_files = [], st_writable = True\<rparr> = Inr st'
    \<and> store_load ''j1'' st' = Inr (Some (demo_spec, ''rig''))"
proof -
  have j: "JOB_ID (js_job_id demo_spec)" "js_job_id demo_spec = ''j1''" by code_simp+
  then obtain st' where st': "store_save 5 demo_spec ''rig'' \<lparr>st_files = [], st_writable = True\<rparr> = Inr st'"
    by (simp add: store_save_def)
  have "spec_wf demo_spec" by (simp add: spec_wf_def demo_spec_def)
  from job_store_roundtrip [OF this st'] st' j show ?thesis by simp
qed

end
