(* ===== verification/Work_Power.thy ===== *)
theory Work_Power
  imports Remote_Host
begin

text \<open>
  Power limits of a rig's GPUs (\<^verbatim>\<open>validator/work/power.py\<close>) and the cure of wedged GPUs
  (\<^verbatim>\<open>validator/recovery/gpu_wedge.py\<close>). The records file is the pair of dictionaries it holds;
  \<open>pr_writable\<close> says whether writing it succeeds, otherwise \<^verbatim>\<open>save\<close> raises after the dictionaries in memory
  have changed, as in the source. The two queries of \<^verbatim>\<open>query_wedged\<close>, which the source starts together,
  are sent in the order in which it starts them.
\<close>

section \<open>Records\<close>

record GpuPower =
  gp_original_w :: rat
  gp_recorded_at :: rat
  gp_job :: string

type_synonym power_doc = "(string \<times> GpuPower) list \<times> (string \<times> string list) list"

record PowerRecords =
  pr_gpus :: "(string \<times> GpuPower) list"
  pr_jobs :: "(string \<times> string list) list"
  pr_file :: "power_doc option"
  pr_writable :: bool

record PowerHost = Host +
  w_records :: PowerRecords

definition records_load :: "PowerRecords \<Rightarrow> PowerRecords" where
  "records_load p = (case pr_file p of None \<Rightarrow> p | Some (gpus, jobs) \<Rightarrow> p\<lparr>pr_gpus := gpus, pr_jobs := jobs\<rparr>)"

definition records_save :: "('z PowerHost_scheme, unit) act" where
  "records_save = (\<lambda>w. let p = w_records w in
     if pr_writable p then (w\<lparr>w_records := p\<lparr>pr_file := Some (pr_gpus p, pr_jobs p)\<rparr>\<rparr>, Inr ())
     else (w, Inl OsError))"

definition remember :: "string \<Rightarrow> rat \<Rightarrow> string \<Rightarrow> rat \<Rightarrow> PowerRecords \<Rightarrow> PowerRecords" where
  "remember uuid original_w job_id now p =
     (let gpus = (if dhas (pr_gpus p) uuid then pr_gpus p
                  else AList.update uuid \<lparr>gp_original_w = original_w, gp_recorded_at = now, gp_job = job_id\<rparr> (pr_gpus p));
          uuids = dget (pr_jobs p) job_id []
      in p\<lparr>pr_gpus := gpus,
           pr_jobs := AList.update job_id (if uuid \<in> set uuids then uuids else uuids @ [uuid]) (pr_jobs p)\<rparr>)"

definition remember_original :: "string \<Rightarrow> rat \<Rightarrow> string \<Rightarrow> rat \<Rightarrow> ('z PowerHost_scheme, unit) act" where
  "remember_original uuid original_w job_id now =
     bnd (modify (\<lambda>w. w\<lparr>w_records := remember uuid original_w job_id now (w_records w)\<rparr>)) (\<lambda>_. records_save)"

definition original :: "PowerRecords \<Rightarrow> string \<Rightarrow> rat option" where
  "original p uuid = map_option gp_original_w (map_of (pr_gpus p) uuid)"

definition drop_record :: "string \<Rightarrow> string option \<Rightarrow> PowerRecords \<Rightarrow> PowerRecords" where
  "drop_record uuid job_id p =
     p\<lparr>pr_gpus := AList.delete uuid (pr_gpus p),
       pr_jobs := (case job_id of
          None \<Rightarrow> pr_jobs p
        | Some j \<Rightarrow>
            (let remaining = filter (\<lambda>u. u \<noteq> uuid) (dget (pr_jobs p) j []) in
             if remaining \<noteq> [] then AList.update j remaining (pr_jobs p) else AList.delete j (pr_jobs p)))\<rparr>"

definition records_forget :: "string \<Rightarrow> string option \<Rightarrow> ('z PowerHost_scheme, unit) act" where
  "records_forget uuid job_id =
     bnd (modify (\<lambda>w. w\<lparr>w_records := drop_record uuid job_id (w_records w)\<rparr>)) (\<lambda>_. records_save)"

definition STALE_GRACE_SECONDS :: rat where "STALE_GRACE_SECONDS = 1800"

definition records_stale :: "rat \<Rightarrow> PowerRecords \<Rightarrow> string list" where
  "records_stale moment p =
     map fst (filter (\<lambda>(uuid, r). STALE_GRACE_SECONDS < moment - gp_recorded_at r) (pr_gpus p))"

section \<open>Limits\<close>

record PowerState =
  ps_limit_w :: rat
  ps_default_w :: rat
  ps_min_w :: rat
  ps_max_w :: rat
  ps_persistence :: bool

definition power_query :: "string \<Rightarrow> string" where
  "power_query uuid =
     ''nvidia-smi -i '' @ shlex_quote uuid @
     '' --query-gpu=power.limit,power.default_limit,power.min_limit,power.max_limit,persistence_mode --format=csv,noheader,nounits''"

definition parse_state :: "string \<Rightarrow> PowerState option" where
  "parse_state stdout =
     (if strip stdout = [] then None
      else (case map strip (split_on (CHR '','') (last (splitlines (strip stdout)))) of
              [a, b, c, d, e] \<Rightarrow>
                (case (float_of_str a, float_of_str b, float_of_str c, float_of_str d) of
                   (Inr l, Inr f, Inr lo, Inr hi) \<Rightarrow>
                     Some \<lparr>ps_limit_w = l, ps_default_w = f, ps_min_w = lo, ps_max_w = hi,
                           ps_persistence = startswith (lower e) ''enabled''\<rparr>
                 | _ \<Rightarrow> None)
            | _ \<Rightarrow> None))"

definition read_state :: "rig \<Rightarrow> string \<Rightarrow> ('z Host_scheme, PowerState option) act" where
  "read_state h uuid = bnd (run h (power_query uuid)) (\<lambda>r.
     ret (if \<not> res_is_ok r then None else parse_state (res_stdout r)))"

definition limit_command :: "string \<Rightarrow> rat \<Rightarrow> string" where
  "limit_command uuid watts = ''nvidia-smi -i '' @ shlex_quote uuid @ '' -pl '' @ show_int (py_round watts)"

definition set_limit :: "rig \<Rightarrow> string \<Rightarrow> rat \<Rightarrow> ('z Host_scheme, PowerState option) act" where
  "set_limit h uuid watts =
     bnd (run h (''nvidia-smi -i '' @ shlex_quote uuid @ '' -pm 1'')) (\<lambda>_.
     bnd (run h (limit_command uuid watts)) (\<lambda>r.
       if \<not> res_is_ok r then ret None
       else bnd (read_state h uuid) (\<lambda>s.
              ret (case s of None \<Rightarrow> None | Some st \<Rightarrow> if 1 < \<bar>ps_limit_w st - watts\<bar> then None else Some st))))"

text \<open>The loop of \<^verbatim>\<open>restore_job\<close> runs over a copy of the job's list.\<close>

definition restore_one :: "rig \<Rightarrow> string \<Rightarrow> string \<Rightarrow> ('z PowerHost_scheme, string list) act" where
  "restore_one h job_id uuid =
     bnd (gets (\<lambda>w. original (w_records w) uuid)) (\<lambda>orig.
       case orig of
         None \<Rightarrow> bnd (records_forget uuid (Some job_id)) (\<lambda>_. ret [])
       | Some watts \<Rightarrow> bnd (set_limit h uuid watts) (\<lambda>s.
           if s \<noteq> None then bnd (records_forget uuid (Some job_id)) (\<lambda>_. ret [uuid]) else ret []))"

definition restore_job :: "rig \<Rightarrow> string \<Rightarrow> ('z PowerHost_scheme, string list) act" where
  "restore_job h job_id =
     bnd (gets (\<lambda>w. dget (pr_jobs (w_records w)) job_id [])) (\<lambda>uuids.
       bnd (each (restore_one h job_id) uuids) (\<lambda>rs. ret (concat rs)))"

text \<open>\<^verbatim>\<open>records.original(uuid) or state.limit_w\<close>.\<close>

definition original_or :: "PowerRecords \<Rightarrow> string \<Rightarrow> rat \<Rightarrow> rat" where
  "original_or p uuid limit_w = (case original p uuid of None \<Rightarrow> limit_w | Some x \<Rightarrow> if x = 0 then limit_w else x)"

definition cap_target :: "PowerState \<Rightarrow> rat \<Rightarrow> rat" where
  "cap_target s requested = min (max requested (ps_min_w s)) (ps_max_w s)"

fun apply_caps ::
  "rig \<Rightarrow> rat \<Rightarrow> string \<Rightarrow> (string \<times> rat) list \<Rightarrow> ('z PowerHost_scheme, bool \<times> string) act" where
  "apply_caps h now job_id [] = ret (True, [])"
| "apply_caps h now job_id ((uuid, requested) # caps) =
     bnd (read_state h uuid) (\<lambda>s.
       case s of
         None \<Rightarrow> bnd (restore_job h job_id) (\<lambda>_. ret (False, uuid @ '': could not read power state''))
       | Some st \<Rightarrow>
           (let target = cap_target st requested in
            bnd (gets (\<lambda>w. original_or (w_records w) uuid (ps_limit_w st))) (\<lambda>orig.
            bnd (remember_original uuid orig job_id now) (\<lambda>_.
            bnd (set_limit h uuid target) (\<lambda>done.
              if done = None
              then bnd (restore_job h job_id) (\<lambda>_. ret (False, uuid @ '': limit '' @ fmt_0f target @ '' W did not read back''))
              else apply_caps h now job_id caps)))))"

definition MIN_RATIO :: rat where "MIN_RATIO = 9 / 10"

definition raise_low_one :: "rig \<Rightarrow> string \<Rightarrow> ('z Host_scheme, string list) act" where
  "raise_low_one h uuid =
     bnd (read_state h uuid) (\<lambda>s.
       case s of
         None \<Rightarrow> ret []
       | Some st \<Rightarrow>
           if ps_default_w st \<le> 0 then ret []
           else if ps_limit_w st < MIN_RATIO * ps_default_w st
           then bnd (set_limit h uuid (ps_default_w st)) (\<lambda>r. ret (if r \<noteq> None then [uuid] else []))
           else ret [])"

definition raise_low_limits :: "rig \<Rightarrow> string list \<Rightarrow> ('z Host_scheme, string list) act" where
  "raise_low_limits h uuids = bnd (each (raise_low_one h) uuids) (\<lambda>rs. ret (concat rs))"

section \<open>Wedged GPUs\<close>

definition UTILISATION_MIN :: rat where "UTILISATION_MIN = 95"
definition MEMORY_MAX_PERCENT :: rat where "MEMORY_MAX_PERCENT = 1"
definition SWEEP_MEMORY_MAX_MIB :: rat where "SWEEP_MEMORY_MAX_MIB = 16"
definition CURE_MARKER :: string where "CURE_MARKER = ''ctx open/close OK''"
definition QUERY_WEDGE :: string where
  "QUERY_WEDGE = ''nvidia-smi --query-gpu=uuid,utilization.gpu,memory.used --format=csv,noheader,nounits''"
definition QUERY_APPS :: string where
  "QUERY_APPS = ''nvidia-smi --query-compute-apps=pid --format=csv,noheader''"

definition CURE_SNIPPET :: string where
  "CURE_SNIPPET = (let q = [CHR 0x27] in
     ''import ctypes,sys;l=ctypes.CDLL('' @ q @ ''libcuda.so.1'' @ q @ '');assert l.cuInit(0)==0,'' @ q @ ''cuInit'' @ q @
     '';d=ctypes.c_int();assert l.cuDeviceGet(ctypes.byref(d),0)==0,'' @ q @ ''cuDeviceGet'' @ q @
     '';c=ctypes.c_void_p();assert l.cuCtxCreate_v2(ctypes.byref(c),0,d)==0,'' @ q @ ''cuCtxCreate'' @ q @
     '';assert l.cuCtxDestroy_v2(c)==0,'' @ q @ ''cuCtxDestroy'' @ q @ '';print('' @ q @ CURE_MARKER @ q @ '')'')"

record SweepResult =
  sw_wedged :: "string list"
  sw_cured :: "string list"
  sw_still_wedged :: "string list"
  sw_skipped :: string

definition no_sweep :: "string \<Rightarrow> SweepResult" where
  "no_sweep skipped = \<lparr>sw_wedged = [], sw_cured = [], sw_still_wedged = [], sw_skipped = skipped\<rparr>"

definition SweepResult_payload :: "SweepResult \<Rightarrow> pydict" where
  "SweepResult_payload s =
     [(''wedged'', PList (map PStr (sw_wedged s))), (''cured'', PList (map PStr (sw_cured s))),
      (''still_wedged'', PList (map PStr (sw_still_wedged s))), (''skipped'', PStr (sw_skipped s))]"

definition looks_wedged :: "rat \<Rightarrow> rat \<Rightarrow> bool" where
  "looks_wedged utilisation memory_used_mib =
     (UTILISATION_MIN \<le> utilisation \<and> memory_used_mib \<le> SWEEP_MEMORY_MAX_MIB)"

definition candidate_from_scrape :: "pydict \<Rightarrow> pyval list \<Rightarrow> bool" where
  "candidate_from_scrape gpu processes =
     (if processes \<noteq> [] then False
      else (case (py_float (py_or (dget gpu ''utilization'' PNone) (PFloat 0)),
                  py_float (py_or (dget gpu ''memory_utilization'' PNone) (PFloat 0))) of
              (Inr u, Inr m) \<Rightarrow> str_or_empty gpu ''uuid'' \<noteq> [] \<and> UTILISATION_MIN \<le> u \<and> m \<le> MEMORY_MAX_PERCENT
            | _ \<Rightarrow> False))"

definition wedged_line :: "string \<Rightarrow> string option" where
  "wedged_line line =
     (case map strip (split_on (CHR '','') line) of
        [a, b, c] \<Rightarrow>
          if \<not> startswith a ''GPU-'' then None
          else (case (float_of_str b, float_of_str c) of
                  (Inr u, Inr m) \<Rightarrow> if looks_wedged u m then Some a else None
                | _ \<Rightarrow> None)
      | _ \<Rightarrow> None)"

definition parse_query :: "string \<Rightarrow> string list" where
  "parse_query stdout = List.map_filter wedged_line (splitlines stdout)"

definition query_wedged :: "rig \<Rightarrow> ('z Host_scheme, string list \<times> string) act" where
  "query_wedged h =
     bnd (run h QUERY_APPS) (\<lambda>apps. bnd (run h QUERY_WEDGE) (\<lambda>sample.
       ret (if \<not> res_is_ok apps \<or> \<not> res_is_ok sample
            then ([], strip (''query failed: '' @ str_or (res_error apps) (stderr_tail 200 apps) @ '' '' @
                             str_or (res_error sample) (stderr_tail 200 sample)))
            else if strip (res_stdout apps) \<noteq> [] then ([], ''compute processes present, wedge signature cannot apply'')
            else (parse_query (res_stdout sample), []))))"

definition wedged_gpus :: "rig \<Rightarrow> ('z Host_scheme, string list \<times> string) act" where
  "wedged_gpus h =
     bnd (query_wedged h) (\<lambda>(first, skipped).
       if skipped \<noteq> [] \<or> first = [] then ret ([], skipped)
       else bnd (query_wedged h) (\<lambda>(second, skipped).
         ret (if skipped \<noteq> [] then ([], skipped) else (filter (\<lambda>u. u \<in> set second) first, []))))"

definition cure_command :: "string \<Rightarrow> string" where
  "cure_command uuid = ''CUDA_VISIBLE_DEVICES='' @ shlex_quote uuid @ '' python3 -c '' @ shlex_quote CURE_SNIPPET"

definition wedge_cure :: "rig \<Rightarrow> string \<Rightarrow> ('z Host_scheme, bool) act" where
  "wedge_cure h uuid = bnd (run h (cure_command uuid)) (\<lambda>r. ret (res_is_ok r \<and> contains_str CURE_MARKER (res_stdout r)))"

definition wedge_sweep :: "rig \<Rightarrow> ('z Host_scheme, SweepResult) act" where
  "wedge_sweep h =
     bnd (wedged_gpus h) (\<lambda>(wedged, skipped).
       if skipped \<noteq> [] then ret (no_sweep skipped)
       else if wedged = [] then ret (no_sweep [])
       else bnd (each (wedge_cure h) wedged) (\<lambda>_.
            bnd (query_wedged h) (\<lambda>(remaining, _).
              (let still = filter (\<lambda>u. u \<in> set remaining) wedged in
               ret \<lparr>sw_wedged = wedged, sw_cured = filter (\<lambda>u. u \<notin> set still) wedged, sw_still_wedged = still,
                    sw_skipped = []\<rparr>))))"

section \<open>Facts\<close>

lemma original_remember:
  "original (remember u x j now p) v =
     (if v = u then (case original p u of None \<Rightarrow> Some x | Some y \<Rightarrow> Some y) else original p v)"
  by (auto simp: original_def remember_def Let_def dhas_def update_conv' split: option.splits)

lemma original_drop: "original (drop_record u j p) v = (if v = u then None else original p v)"
  by (simp add: original_def drop_record_def map_of_dpop split: option.splits)

lemma records_save_Inr:
  "records_save w = (w', Inr ()) \<longleftrightarrow> pr_writable (w_records w) \<and>
     w' = w\<lparr>w_records := (w_records w)\<lparr>pr_file := Some (pr_gpus (w_records w), pr_jobs (w_records w))\<rparr>\<rparr>"
  by (auto simp: records_save_def Let_def)

lemma original_file [simp]: "original (p\<lparr>pr_file := f\<rparr>) u = original p u"
  by (simp add: original_def)

lemma remember_original_Inr:
  assumes "remember_original u x j now w = (w', Inr r)"
  shows "w_records w' = (let p = remember u x j now (w_records w) in p\<lparr>pr_file := Some (pr_gpus p, pr_jobs p)\<rparr>)"
    "w_sent w' = w_sent w"
  using assms by (auto simp: remember_original_def bnd_def records_save_def Let_def split: if_splits)

lemma records_forget_Inr:
  assumes "records_forget u j w = (w', Inr r)"
  shows "original (w_records w') v = (if v = u then None else original (w_records w) v)" "w_sent w' = w_sent w"
  using assms by (auto simp: records_forget_def bnd_def records_save_def Let_def original_drop split: if_splits)

lemma emits_records [emits_rules]: "emits P records_save" "emits P (remember_original u x j now)" "emits P (records_forget u k)"
proof -
  show s: "emits P records_save" by (simp add: emits_def records_save_def Let_def)
  show "emits P (remember_original u x j now)" "emits P (records_forget u k)"
    unfolding remember_original_def records_forget_def by (intro emits_rules s; simp)+
qed

lemma emits_read_state [emits_rules]: "P (power_query u, None) \<Longrightarrow> emits P (read_state h u)"
  unfolding read_state_def by (intro emits_rules)

text \<open>What \<^verbatim>\<open>set_limit\<close> sends, and what it returns: the state read back after the limit was set.\<close>

lemma set_limit_sends:
  assumes "set_limit h u watts w = (w', r)"
  shows "w_records w' = w_records w" "\<exists>s. r = Inr s"
    "r = Inr (Some st) \<Longrightarrow> \<exists>pre. w_sent w' = pre @ [(power_query u, None)]
       \<and> parse_state (res_stdout (h pre (power_query u, None))) = Some st \<and> \<bar>ps_limit_w st - watts\<bar> \<le> 1"
    "prefix (w_sent w) (w_sent w')"
  using assms by (auto simp: set_limit_def read_state_def bnd_def split: if_splits option.splits)

text \<open>The limit \<open>x\<close> of \<open>u\<close> was read back, within a watt, in what was sent so far.\<close>

definition read_back :: "rig \<Rightarrow> cmd list \<Rightarrow> string \<Rightarrow> rat \<Rightarrow> bool" where
  "read_back h sent u x \<longleftrightarrow> (\<exists>pre post st. sent = pre @ (power_query u, None) # post
     \<and> parse_state (res_stdout (h pre (power_query u, None))) = Some st \<and> \<bar>ps_limit_w st - x\<bar> \<le> 1)"

lemma read_back_prefix: "read_back h sent u x \<Longrightarrow> prefix sent sent' \<Longrightarrow> read_back h sent' u x"
  unfolding read_back_def prefix_def by (metis append.assoc append_Cons)

lemma restore_one_Inr:
  assumes "restore_one h j u w = (w', Inr rs)"
  shows "prefix (w_sent w) (w_sent w')" "rs = [] \<or> rs = [u]"
    "v \<noteq> u \<Longrightarrow> original (w_records w') v = original (w_records w) v"
    "original (w_records w) u = Some x \<Longrightarrow>
       (rs = [] \<longrightarrow> original (w_records w') u = Some x) \<and> (rs = [u] \<longrightarrow> read_back h (w_sent w') u x)"
proof -
  consider (absent) "original (w_records w) u = None" "records_forget u (Some j) w = (w', Inr ())" "rs = []"
    | (failed) y where "original (w_records w) u = Some y" "set_limit h u y w = (w', Inr None)" "rs = []"
    | (restored) y w1 st where "original (w_records w) u = Some y" "set_limit h u y w = (w1, Inr (Some st))"
        "records_forget u (Some j) w1 = (w', Inr ())" "rs = [u]"
    using assms by (auto simp: restore_one_def bnd_Inr split: option.splits if_splits)
  note cs = this
  show "prefix (w_sent w) (w_sent w')"
  proof (cases rule: cs)
    case absent
    then show ?thesis using records_forget_Inr(2) by fastforce
  next
    case failed
    then show ?thesis using set_limit_sends(4) by blast
  next
    case restored
    then show ?thesis using set_limit_sends(4) records_forget_Inr(2) by metis
  qed
  show "rs = [] \<or> rs = [u]" by (cases rule: cs) simp_all
  show "v \<noteq> u \<Longrightarrow> original (w_records w') v = original (w_records w) v"
    by (cases rule: cs) (use set_limit_sends(1) records_forget_Inr(1) in \<open>fastforce+\<close>)
  assume x: "original (w_records w) u = Some x"
  show "(rs = [] \<longrightarrow> original (w_records w') u = Some x) \<and> (rs = [u] \<longrightarrow> read_back h (w_sent w') u x)"
  proof (cases rule: cs)
    case (restored y w1 st)
    then have "y = x" using x by simp
    obtain pre where "w_sent w1 = pre @ [(power_query u, None)]"
      "parse_state (res_stdout (h pre (power_query u, None))) = Some st" "\<bar>ps_limit_w st - x\<bar> \<le> 1"
      using set_limit_sends(3) [OF restored(2)] \<open>y = x\<close> by blast
    then have "read_back h (w_sent w1) u x" unfolding read_back_def by blast
    then show ?thesis using restored records_forget_Inr(2) [OF restored(3)] by simp
  next
    case (failed y)
    then show ?thesis using x set_limit_sends(1) [OF failed(2)] by simp
  next
    case absent
    then show ?thesis using x by simp
  qed
qed

lemma restore_each:
  assumes "each (restore_one h j) us w = (w', Inr rss)"
  shows "prefix (w_sent w) (w_sent w') \<and> (\<forall>x. original (w_records w) u = Some x \<longrightarrow>
       (u \<notin> set (concat rss) \<longrightarrow> original (w_records w') u = Some x) \<and>
       (u \<in> set (concat rss) \<longrightarrow> read_back h (w_sent w') u x))"
  using assms
proof (induction us arbitrary: w rss)
  case (Cons a us)
  obtain w1 rs rss' where one: "restore_one h j a w = (w1, Inr rs)"
    and rest: "each (restore_one h j) us w1 = (w', Inr rss')" and rss: "rss = rs # rss'"
    using Cons.prems by (auto simp: bnd_Inr)
  note r = restore_one_Inr [OF one]
  note ih = Cons.IH [OF rest]
  have pre: "prefix (w_sent w) (w_sent w')" using r(1) ih by (metis prefix_order.trans)
  have "(u \<notin> set (concat rss) \<longrightarrow> original (w_records w') u = Some x) \<and>
       (u \<in> set (concat rss) \<longrightarrow> read_back h (w_sent w') u x)" if x: "original (w_records w) u = Some x" for x
  proof (cases "a = u \<and> rs = [u]")
    case True
    then have "read_back h (w_sent w1) u x" using r(4) x by blast
    then show ?thesis using read_back_prefix ih True rss by auto
  next
    case False
    then have "u \<notin> set rs" "original (w_records w1) u = Some x"
      using r(2) r(3) [of u] r(4) x by auto
    then show ?thesis using ih rss by auto
  qed
  then show ?case using pre by blast
qed simp

lemma apply_caps_True:
  assumes "apply_caps h now j caps w = (w', Inr (True, t))"
  shows "(\<forall>u x. original (w_records w) u = Some x \<longrightarrow> original (w_records w') u = Some x)
    \<and> (\<forall>u \<in> fst ` set caps. original (w_records w') u \<noteq> None)
    \<and> (caps \<noteq> [] \<longrightarrow> pr_file (w_records w') = Some (pr_gpus (w_records w'), pr_jobs (w_records w')))"
  using assms
proof (induction caps arbitrary: w)
  case (Cons c caps)
  obtain v rq where c: "c = (v, rq)" by (cases c)
  obtain w1 st w2 y w3 s where
    rd: "read_state h v w = (w1, Inr (Some st))"
    and rm: "remember_original v y j now w1 = (w2, Inr ())" and y: "y = original_or (w_records w1) v (ps_limit_w st)"
    and sl: "set_limit h v (cap_target st rq) w2 = (w3, Inr (Some s))"
    and rest: "apply_caps h now j caps w3 = (w', Inr (True, t))"
    using Cons.prems c by (auto simp: bnd_Inr Let_def split: option.splits if_splits)
  have w1: "w_records w1 = w_records w" using rd by (auto simp: read_state_def bnd_def)
  have w3: "w_records w3 = (let p = remember v y j now (w_records w) in p\<lparr>pr_file := Some (pr_gpus p, pr_jobs p)\<rparr>)"
    using set_limit_sends(1) [OF sl] remember_original_Inr(1) [OF rm] w1 by simp
  note ih = Cons.IH [OF rest]
  have keep: "original (w_records w3) u = Some x" if "original (w_records w) u = Some x" for u x
    using that by (auto simp: w3 Let_def original_remember)
  obtain z where z: "original (w_records w3) v = Some z"
    by (cases "original (w_records w) v") (auto simp: w3 Let_def original_remember)
  have "pr_file (w_records w') = Some (pr_gpus (w_records w'), pr_jobs (w_records w'))"
    using ih rest w3 by (cases "caps = []") (auto simp: Let_def)
  then show ?case using ih keep z c by auto
qed simp

lemma emits_wedge_sweep:
  assumes "P (QUERY_APPS, None)" "P (QUERY_WEDGE, None)" "\<And>u. P (cure_command u, None)"
  shows "emits P (wedge_sweep h)"
proof -
  have q: "emits P (query_wedged h)" unfolding query_wedged_def by (intro emits_rules assms)
  have c: "emits P (wedge_cure h u)" for u unfolding wedge_cure_def by (intro emits_rules assms)
  have w: "emits P (wedged_gpus h)" unfolding wedged_gpus_def
    by (intro emits_bnd q) (auto intro!: emits_rules q split: prod.splits)
  show ?thesis unfolding wedge_sweep_def Let_def
    by (intro emits_bnd w) (auto intro!: emits_rules q c split: prod.splits)
qed

section \<open>Properties\<close>

text \<open>The power limit a GPU had before it was capped is never lost. Capping keeps the limit recorded
  first, has a limit on record for every GPU it capped, and leaves the file on disk equal to the
  records; restoring drops the record of a GPU only when the limit was read back from the card within
  one watt of the recorded one, and keeps it otherwise.\<close>

theorem original_limit_kept:
  assumes "original (w_records w) u = Some x"
  shows "(apply_caps h now j caps w = (w1, Inr (True, t)) \<longrightarrow>
      original (w_records w1) u = Some x \<and> (\<forall>v \<in> fst ` set caps. original (w_records w1) v \<noteq> None) \<and>
      (caps \<noteq> [] \<longrightarrow> pr_file (w_records w1) = Some (pr_gpus (w_records w1), pr_jobs (w_records w1))))
    \<and> (restore_job h j w = (w2, Inr rs) \<longrightarrow>
      (u \<notin> set rs \<longrightarrow> original (w_records w2) u = Some x) \<and> (u \<in> set rs \<longrightarrow> read_back h (w_sent w2) u x))"
proof (intro conjI impI)
  assume r: "restore_job h j w = (w2, Inr rs)"
  then obtain rss where "each (restore_one h j) (dget (pr_jobs (w_records w)) j []) w = (w2, Inr rss)" "rs = concat rss"
    by (auto simp: restore_job_def bnd_Inr)
  from restore_each [OF this(1), of u] this(2) assms
  show "u \<notin> set rs \<Longrightarrow> original (w_records w2) u = Some x" "u \<in> set rs \<Longrightarrow> read_back h (w_sent w2) u x" by auto
qed (use assms apply_caps_True [of h now j caps w w1 t] in \<open>auto\<close>)

text \<open>A rig whose card accepts limits, and one that was capped from 300 to 200 watts.\<close>

definition demo_result :: "string \<Rightarrow> CommandResult" where
  "demo_result out =
     \<lparr>res_command = [], res_exit_code = 0, res_stdout = out, res_stderr = [], res_elapsed_ms = 0, res_error = []\<rparr>"

definition demo_power_host :: PowerHost where
  "demo_power_host =
     \<lparr>w_sent = [], w_records = \<lparr>pr_gpus = [(''GPU-1'', \<lparr>gp_original_w = 300, gp_recorded_at = 0, gp_job = ''j''\<rparr>)],
        pr_jobs = [(''j'', [''GPU-1''])], pr_file = None, pr_writable = True\<rparr>\<rparr>"

theorem original_limit_kept_witness:
  "\<exists>w2. restore_job (\<lambda>tr c. demo_result ''nothing'') ''j'' demo_power_host = (w2, Inr [])
    \<and> original (w_records w2) ''GPU-1'' = Some 300"
proof -
  have o: "original (w_records demo_power_host) ''GPU-1'' = Some 300"
    by (simp add: original_def demo_power_host_def)
  have p: "parse_state ''nothing'' = None" by code_simp
  have ok: "res_is_ok (demo_result s)" "res_stdout (demo_result s) = s" for s
    by (simp_all add: demo_result_def res_is_ok_def)
  obtain w2 where run: "restore_job (\<lambda>tr c. demo_result ''nothing'') ''j'' demo_power_host = (w2, Inr [])"
    by (simp add: restore_job_def restore_one_def set_limit_def read_state_def bnd_def p ok demo_power_host_def
        original_def dget_def ret_def)
  show ?thesis using original_limit_kept [OF o, of _ 0 "''j''" "[]" demo_power_host "[]" w2 "[]"] run by simp
qed

text \<open>A GPU that was wedged is reported as cured when the final query fails: that query then lists
  nothing, so the sweep cannot tell a cured GPU from one it could not ask about.\<close>

theorem failed_requery_reports_cured:
  assumes "wedged_gpus h w = (w1, Inr (wedged, []))" "wedged \<noteq> []"
    and "each (wedge_cure h) wedged w1 = (w2, Inr cs)" "\<not> res_is_ok (h (w_sent w2) (QUERY_APPS, None))"
  shows "\<exists>w3 s. wedge_sweep h w = (w3, Inr s) \<and> sw_cured s = wedged \<and> sw_still_wedged s = []"
  using assms
  by (auto simp: wedge_sweep_def bnd_def query_wedged_def Let_def)

text \<open>A rig with one card that looks wedged until it goes silent.\<close>

definition silent_after :: "nat \<Rightarrow> rig" where
  "silent_after n tr c =
     (if n \<le> length tr then (demo_result [])\<lparr>res_exit_code := -1, res_error := ''gone''\<rparr>
      else if fst c = QUERY_WEDGE then demo_result ''GPU-1, 100.0, 3.0'' else demo_result [])"

theorem failed_requery_reports_cured_witness:
  "\<exists>w3 s. wedge_sweep (silent_after 5) \<lparr>w_sent = []\<rparr> = (w3, Inr s) \<and> sw_cured s = [''GPU-1'']"
proof -
  have p: "parse_query ''GPU-1, 100.0, 3.0'' = [''GPU-1'']"
  proof -
    have f: "float_of_str ''100.0'' = Inr 100" "float_of_str ''3.0'' = Inr 3"
      using float_of_decimal [of "''100''" "''0''"] float_of_decimal [of "''3''" "''0''"]
      by (simp_all add: is_digit_def digits_val_def)
    have l: "splitlines ''GPU-1, 100.0, 3.0'' = [''GPU-1, 100.0, 3.0'']"
      "strip ''GPU-1'' = ''GPU-1''" "strip '' 100.0'' = ''100.0''" "strip '' 3.0'' = ''3.0''" by code_simp+
    show ?thesis
      unfolding parse_query_def l(1) List.map_filter_def wedged_line_def
      by (simp add: l(2-) f startswith_def looks_wedged_def UTILISATION_MIN_def SWEEP_MEMORY_MAX_MIB_def)
  qed
  have ok: "res_is_ok (demo_result s)" "res_stdout (demo_result s) = s" for s
    by (simp_all add: demo_result_def res_is_ok_def)
  have s0: "strip [] = []" by code_simp
  have ne: "QUERY_APPS \<noteq> QUERY_WEDGE" "cure_command u \<noteq> QUERY_WEDGE" for u
    by (simp_all add: QUERY_APPS_def QUERY_WEDGE_def cure_command_def)
  have 1: "wedged_gpus (silent_after 5) \<lparr>w_sent = []\<rparr> =
      (\<lparr>w_sent = [(QUERY_APPS, None), (QUERY_WEDGE, None), (QUERY_APPS, None), (QUERY_WEDGE, None)]\<rparr>, Inr ([''GPU-1''], []))"
    by (simp add: wedged_gpus_def query_wedged_def bnd_def silent_after_def ok p ne s0)
  show ?thesis
    using failed_requery_reports_cured [OF 1, of _ "[False]"]
    by (simp add: wedge_cure_def bnd_def silent_after_def ok ne res_is_ok_def contains_str_iff CURE_MARKER_def) blast
qed

end
