(* ===== verification/Work_Containers.thy ===== *)
theory Work_Containers
  imports Work_Jobs Work_Power
begin

text \<open>
  Containers on a rig (\<^verbatim>\<open>validator/work/containers.py\<close>, second half): creating one with everything it needs,
  undoing a creation that did not finish, destroying and recreating. The waiting loops, which the source
  ends by a clock, run for a given number of rounds: \<open>ce_tries\<close> is how often the clock is found before
  the deadline of \<^verbatim>\<open>docker_run\<close>, \<open>ce_polls\<close> how often before that of \<^verbatim>\<open>wait_running\<close>. Cancelling comes
  from another task: \<open>ce_cancelled sent\<close> says whether the job has been cancelled by the time the
  commands \<open>sent\<close> were sent. The volume master secret, the drawn tags and the clock are arguments; the
  text of an operating system error is left out of the reason that quotes it.
\<close>

section \<open>Jobs being created\<close>

text \<open>The two dictionaries of \<^verbatim>\<open>Inflight\<close>; the events that wake a waiter are not modelled.\<close>

record Inflight =
  if_cancelled :: "string set"
  if_active :: "string set"

definition inflight_start :: "string \<Rightarrow> Inflight \<Rightarrow> Inflight" where
  "inflight_start job i = i\<lparr>if_cancelled := if_cancelled i - {job}, if_active := insert job (if_active i)\<rparr>"

definition inflight_finish :: "string \<Rightarrow> Inflight \<Rightarrow> Inflight" where
  "inflight_finish job i = i\<lparr>if_cancelled := if_cancelled i - {job}, if_active := if_active i - {job}\<rparr>"

definition inflight_cancel :: "string \<Rightarrow> Inflight \<Rightarrow> Inflight \<times> bool" where
  "inflight_cancel job i =
     (if job \<notin> if_active i then (i, False) else (i\<lparr>if_cancelled := insert job (if_cancelled i)\<rparr>, True))"

section \<open>State\<close>

record JobHost = PowerHost +
  w_store :: JobStore

text \<open>The local variables of \<^verbatim>\<open>create\<close> that its \<^verbatim>\<open>finally\<close> reads.\<close>

record CreateHost = JobHost +
  pg_step :: string
  pg_volumes :: "string list"
  pg_capped :: bool
  pg_launched :: bool

record CreateEnv =
  ce_rig :: rig
  ce_loads :: "string \<Rightarrow> pyval option"
  ce_derive :: "string \<Rightarrow> string \<Rightarrow> string"
  ce_secret :: "string + string"
  ce_draw :: "string \<Rightarrow> Draw"
  ce_now :: rat
  ce_elapsed_ms :: rat
  ce_tries :: nat
  ce_polls :: nat
  ce_cancelled :: "cmd list \<Rightarrow> bool"
  ce_records :: bool
  ce_store :: bool

record CreateResult =
  cr_ok :: bool
  cr_step :: string
  cr_reason :: string
  cr_container :: string
  cr_ports :: "PortMapping list"
  cr_diagnostics :: pydict
  cr_elapsed_ms :: rat

definition failed_result :: "string \<Rightarrow> string \<Rightarrow> CreateResult" where
  "failed_result step reason =
     \<lparr>cr_ok = False, cr_step = step, cr_reason = reason, cr_container = [], cr_ports = [], cr_diagnostics = [],
      cr_elapsed_ms = 0\<rparr>"

definition CreateResult_payload :: "CreateResult \<Rightarrow> pydict" where
  "CreateResult_payload r =
     [(''ok'', PBool (cr_ok r)), (''step'', PStr (cr_step r)), (''reason'', PStr (cr_reason r)),
      (''container'', PStr (cr_container r)),
      (''ports'', PList (map (\<lambda>p. PDict (PortMapping_payload p)) (cr_ports r))),
      (''diagnostics'', PDict (cr_diagnostics r)), (''elapsed_ms'', PFloat (py_round_to 1 (cr_elapsed_ms r)))]"

section \<open>The state of a container\<close>

definition state_command :: "string \<Rightarrow> string" where
  "state_command name = ''docker inspect --format '' @ [CHR 0x27] @ ''{{json .State}}'' @ [CHR 0x27] @ '' '' @ shlex_quote name"

definition state_of :: "rig \<Rightarrow> (string \<Rightarrow> pyval option) \<Rightarrow> string \<Rightarrow> ('z Host_scheme, pydict option) act" where
  "state_of h loads name =
     bnd (run h (state_command name)) (\<lambda>r.
       ret (if \<not> res_is_ok r then None
            else (case rev (splitlines (strip (res_stdout r))) of
                    [] \<Rightarrow> None
                  | l # _ \<Rightarrow> (case loads l of Some (PDict d) \<Rightarrow> Some d | _ \<Rightarrow> None))))"

definition running :: "rig \<Rightarrow> (string \<Rightarrow> pyval option) \<Rightarrow> string \<Rightarrow> ('z Host_scheme, bool option) act" where
  "running h loads name = bnd (state_of h loads name) (\<lambda>s. ret (map_option (\<lambda>d. truthy (dget d ''Running'' PNone)) s))"

definition diagnostics :: "rig \<Rightarrow> (string \<Rightarrow> pyval option) \<Rightarrow> string \<Rightarrow> ('z Host_scheme, pydict) act" where
  "diagnostics h loads name =
     bnd (state_of h loads name) (\<lambda>s.
     bnd (run h (''docker logs --tail 100 '' @ shlex_quote name @ '' 2>&1'')) (\<lambda>logs.
       (let d = (case s of None \<Rightarrow> [] | Some d \<Rightarrow> d) in
        ret [(''status'', dget d ''Status'' PNone), (''exit_code'', dget d ''ExitCode'' PNone),
             (''oom_killed'', dget d ''OOMKilled'' PNone), (''error'', dget d ''Error'' PNone),
             (''logs'', PStr (tail_chars 4000 (res_stdout logs)))])))"

fun wait_running ::
  "rig \<Rightarrow> (string \<Rightarrow> pyval option) \<Rightarrow> string \<Rightarrow> nat \<Rightarrow> string \<Rightarrow> ('z Host_scheme, bool \<times> string) act" where
  "wait_running h loads name 0 seen =
     ret (False, ''container not running after 10 s ('' @ str_or seen ''no state'' @ '')'')"
| "wait_running h loads name (Suc n) seen =
     bnd (state_of h loads name) (\<lambda>s.
       case s of
         None \<Rightarrow> wait_running h loads name n seen
       | Some d \<Rightarrow>
           if truthy (dget d ''Running'' PNone) then ret (True, [])
           else (let status = str_or_empty d ''Status'' in
                 if status \<in> {''exited'', ''dead''}
                 then ret (False, ''container '' @ status @ '' with code '' @ py_str (dget d ''ExitCode'' PNone))
                 else wait_running h loads name n status))"

definition PORT_BUSY_MARKERS :: "string list" where
  "PORT_BUSY_MARKERS =
     [''port is already allocated'', ''address already in use'', ''failed to bind host port'', ''bind for'']"

definition port_busy :: "CommandResult \<Rightarrow> bool" where
  "port_busy r =
     (\<not> res_is_ok r \<and> \<not> transport_failed r \<and> list_ex (\<lambda>m. contains_str m (lower (res_stderr r))) PORT_BUSY_MARKERS)"

definition run_verdict :: "CommandResult \<Rightarrow> bool \<times> string" where
  "run_verdict r =
     (if res_is_ok r then (True, [])
      else if transport_failed r then (False, res_error r)
      else (False, str_or (strip (stderr_tail 600 r)) (res_error r)))"

fun docker_run_loop :: "rig \<Rightarrow> string \<Rightarrow> string \<Rightarrow> nat \<Rightarrow> ('z Host_scheme, bool \<times> string) act" where
  "docker_run_loop h name command 0 = bnd (run h command) (\<lambda>r. ret (run_verdict r))"
| "docker_run_loop h name command (Suc n) =
     bnd (run h command) (\<lambda>r.
       if port_busy r
       then bnd (run h (''docker rm -f '' @ shlex_quote name)) (\<lambda>_. docker_run_loop h name command n)
       else ret (run_verdict r))"

definition docker_run :: "rig \<Rightarrow> JobSpec \<Rightarrow> nat \<Rightarrow> ('z Host_scheme, bool \<times> string) act" where
  "docker_run h s tries = bnd (run_command s) (\<lambda>c. docker_run_loop h (container_name s) c tries)"

definition PROBE_CLEANUP :: string where
  "PROBE_CLEANUP = ''docker ps -aq --filter label=mt.kind=probe | xargs -r docker rm -f''"

definition remove_probe_containers :: "rig \<Rightarrow> ('z Host_scheme, unit) act" where
  "remove_probe_containers h = bnd (run h PROBE_CLEANUP) (\<lambda>_. ret ())"

definition remove_stale_volumes :: "rig \<Rightarrow> ('z Host_scheme, string list) act" where
  "remove_stale_volumes h =
     bnd (list_ours h) (\<lambda>ours. bnd (mounted_volumes h) (\<lambda>mounted.
       case mounted of
         None \<Rightarrow> ret []
       | Some ms \<Rightarrow>
           bnd (each (\<lambda>name. if name \<in> ms then ret []
                             else bnd (vol_destroy h name) (\<lambda>(ok, _). ret (if ok then [name] else []))) ours)
             (\<lambda>rs. ret (concat rs))))"

section \<open>Creation\<close>

text \<open>A stage ends the creation early with a result, or goes on with a value.\<close>

definition andthen :: "('s, CreateResult + 'a) act \<Rightarrow> ('a \<Rightarrow> ('s, CreateResult + 'b) act) \<Rightarrow> ('s, CreateResult + 'b) act" where
  "andthen m f = bnd m (\<lambda>r. case r of Inl res \<Rightarrow> ret (Inl res) | Inr x \<Rightarrow> f x)"

definition stop :: "string \<Rightarrow> ('z CreateHost_scheme, CreateResult + 'a) act" where
  "stop reason = bnd (gets pg_step) (\<lambda>step. ret (Inl (failed_result step reason)))"

definition go :: "'a \<Rightarrow> ('s, CreateResult + 'a) act" where
  "go x = ret (Inr x)"

definition at_step :: "string \<Rightarrow> ('z CreateHost_scheme, unit) act" where
  "at_step step = modify (\<lambda>w. w\<lparr>pg_step := step\<rparr>)"

definition checkpoint :: "CreateEnv \<Rightarrow> string \<Rightarrow> ('z Host_scheme, unit) act" where
  "checkpoint env job_id =
     bnd (gets w_sent) (\<lambda>sent.
       if ce_cancelled env sent then raise (Cancelled (''job '' @ job_id @ '' was cancelled during creation'')) else ret ())"

definition pull_command :: "string \<Rightarrow> string" where
  "pull_command img =
     ''flock -w 1800 /tmp/mt-agent-pull.lock docker pull '' @ shlex_quote img @ '' 2>&1 || docker pull '' @ shlex_quote img @ '' 2>&1''"

definition force_remove :: "string \<Rightarrow> string" where
  "force_remove name = ''docker rm -f -v '' @ shlex_quote name"

definition create_validate ::
  "CreateEnv \<Rightarrow> JobSpec \<Rightarrow> string list \<Rightarrow> ('z CreateHost_scheme, CreateResult + string) act" where
  "create_validate env s allowlist =
     (if job_problems s allowlist \<noteq> [] then stop (hd (job_problems s allowlist))
      else if list_ex vs_encrypted (js_volumes s)
      then (case ce_secret env of Inl e \<Rightarrow> stop e | Inr secret \<Rightarrow> go secret)
      else go [])"

definition create_prepare :: "CreateEnv \<Rightarrow> JobSpec \<Rightarrow> ('z CreateHost_scheme, CreateResult + JobSpec) act" where
  "create_prepare env s =
     bnd (checkpoint env (js_job_id s)) (\<lambda>_.
     bnd (at_step ''reserve ports'') (\<lambda>_.
     bnd (reserve_ports (ce_rig env) s) (\<lambda>(ports, reason).
       if reason \<noteq> [] then stop reason
       else bnd (at_step ''pull'') (\<lambda>_.
            bnd (run (ce_rig env) (pull_command (js_image s))) (\<lambda>pull.
              if \<not> res_is_ok pull then stop (strip (str_or (res_error pull) (tail_chars 600 (res_stdout pull))))
              else bnd (checkpoint env (js_job_id s)) (\<lambda>_.
                   bnd (at_step ''cleanup'') (\<lambda>_.
                   bnd (run (ce_rig env) (''docker rm -f '' @ shlex_quote (container_name s) @ '' 2>/dev/null'')) (\<lambda>_.
                   bnd (remove_stale_volumes (ce_rig env)) (\<lambda>_. go (s\<lparr>js_ports := ports\<rparr>))))))))))"

fun create_volumes :: "rig \<Rightarrow> VolumeSpec list \<Rightarrow> ('z CreateHost_scheme, CreateResult + unit) act" where
  "create_volumes h [] = go ()"
| "create_volumes h (v # vs) =
     (if \<not> vs_create v then create_volumes h vs
      else bnd (vol_create h v) (\<lambda>(ok, reason).
             if \<not> ok then stop (vs_name v @ '': '' @ reason)
             else bnd (modify (\<lambda>w. w\<lparr>pg_volumes := pg_volumes w @ [vs_name v]\<rparr>)) (\<lambda>_. create_volumes h vs)))"

definition create_power :: "CreateEnv \<Rightarrow> JobSpec \<Rightarrow> ('z CreateHost_scheme, CreateResult + unit) act" where
  "create_power env s =
     (if js_power_caps s = [] then go ()
      else if \<not> ce_records env then stop ''power caps requested without a records file''
      else bnd (apply_caps (ce_rig env) (ce_now env) (js_job_id s) (js_power_caps s)) (\<lambda>(ok, reason).
             if \<not> ok then stop reason
             else bnd (modify (\<lambda>w. w\<lparr>pg_capped := True\<rparr>)) (\<lambda>_. go ())))"

definition create_devices :: "CreateEnv \<Rightarrow> JobSpec \<Rightarrow> ('z CreateHost_scheme, CreateResult + JobSpec) act" where
  "create_devices env s =
     bnd (device_nodes (ce_rig env) (js_gpu_uuids s) (js_whole_node s)) (\<lambda>(devices, reason).
       if reason \<noteq> [] then stop reason else go (s\<lparr>js_devices := devices\<rparr>))"

definition diagnosed :: "CreateEnv \<Rightarrow> JobSpec \<Rightarrow> string \<Rightarrow> ('z CreateHost_scheme, CreateResult + 'a) act" where
  "diagnosed env s reason =
     bnd (diagnostics (ce_rig env) (ce_loads env) (container_name s)) (\<lambda>d.
     bnd (gets pg_step) (\<lambda>step.
       ret (Inl ((failed_result step reason)\<lparr>cr_container := container_name s, cr_diagnostics := d\<rparr>))))"

definition create_launch :: "CreateEnv \<Rightarrow> JobSpec \<Rightarrow> ('z CreateHost_scheme, CreateResult + unit) act" where
  "create_launch env s =
     bnd (remove_probe_containers (ce_rig env)) (\<lambda>_.
     bnd (checkpoint env (js_job_id s)) (\<lambda>_.
     bnd (at_step ''run'') (\<lambda>_.
     bnd (docker_run (ce_rig env) s (ce_tries env)) (\<lambda>(ok, reason).
       if \<not> ok then stop reason
       else bnd (modify (\<lambda>w. w\<lparr>pg_launched := True, pg_step := ''running''\<rparr>)) (\<lambda>_.
            bnd (wait_running (ce_rig env) (ce_loads env) (container_name s) (ce_polls env) []) (\<lambda>(ok, reason).
              if \<not> ok then diagnosed env s reason else go ()))))))"

fun create_mounts :: "CreateEnv \<Rightarrow> JobSpec \<Rightarrow> string \<Rightarrow> VolumeSpec list \<Rightarrow> ('z CreateHost_scheme, CreateResult + unit) act" where
  "create_mounts env s secret [] = go ()"
| "create_mounts env s secret (v # vs) =
     (if \<not> vs_encrypted v then create_mounts env s secret vs
      else bnd (setup_encrypted (ce_rig env) (ce_derive env) (ce_draw env (vs_name v)) (container_name s) v secret (vs_create v))
             (\<lambda>(ok, reason).
               if \<not> ok then diagnosed env s (vs_name v @ '': '' @ reason)
               else bnd (if js_workspace_user s \<noteq> []
                         then grant_workspace (ce_rig env) (container_name s) (vs_mount_path v) (js_workspace_user s)
                         else ret False) (\<lambda>_. create_mounts env s secret vs)))"

definition save_job :: "rat \<Rightarrow> JobSpec \<Rightarrow> string \<Rightarrow> ('z JobHost_scheme, unit) act" where
  "save_job now s rig_id = (\<lambda>w. case store_save now s rig_id (w_store w) of
     Inl e \<Rightarrow> (w, Inl e) | Inr st \<Rightarrow> (w\<lparr>w_store := st\<rparr>, Inr ()))"

definition create_record :: "CreateEnv \<Rightarrow> JobSpec \<Rightarrow> string \<Rightarrow> ('z CreateHost_scheme, CreateResult + unit) act" where
  "create_record env s rig_id =
     bnd (checkpoint env (js_job_id s)) (\<lambda>_.
     bnd (at_step ''record'') (\<lambda>_.
     bnd (if ce_store env then save_job (ce_now env) s rig_id else ret ()) (\<lambda>_. go ())))"

definition create_body ::
  "CreateEnv \<Rightarrow> JobSpec \<Rightarrow> string list \<Rightarrow> string \<Rightarrow> ('z CreateHost_scheme, CreateResult + PortMapping list) act" where
  "create_body env s allowlist rig_id =
     andthen (create_validate env s allowlist) (\<lambda>secret.
     andthen (create_prepare env s) (\<lambda>s1.
     bnd (at_step ''volumes'') (\<lambda>_.
     andthen (create_volumes (ce_rig env) (js_volumes s1)) (\<lambda>_.
     bnd (at_step ''devices'') (\<lambda>_.
     andthen (create_devices env s1) (\<lambda>s2.
     bnd (at_step ''power'') (\<lambda>_.
     andthen (create_power env s2) (\<lambda>_.
     andthen (create_launch env s2) (\<lambda>_.
     bnd (at_step ''encrypted volumes'') (\<lambda>_.
     andthen (create_mounts env s2 secret (js_volumes s2)) (\<lambda>_.
     andthen (create_record env s2 rig_id) (\<lambda>_. go (js_ports s2)))))))))))))"

text \<open>The exceptions \<^verbatim>\<open>create\<close> answers, and those it lets pass.\<close>

definition caught :: "JobSpec \<Rightarrow> exc \<Rightarrow> ('z CreateHost_scheme, CreateResult + PortMapping list) act" where
  "caught s e =
     bnd (gets (\<lambda>w. (pg_step w, if pg_launched w then container_name s else []))) (\<lambda>(step, container).
       case e of
         Cancelled text \<Rightarrow> ret (Inl ((failed_result ''cancelled'' text)\<lparr>cr_container := container\<rparr>))
       | SshErr kind detail \<Rightarrow> ret (Inl ((failed_result step detail)\<lparr>cr_container := container\<rparr>))
       | OsError \<Rightarrow> ret (Inl ((failed_result step ''OSError'')\<lparr>cr_container := container\<rparr>))
       | _ \<Rightarrow> raise e)"

definition rollback :: "CreateEnv \<Rightarrow> JobSpec \<Rightarrow> ('z CreateHost_scheme, unit) act" where
  "rollback env s =
     bnd (gets (\<lambda>w. (pg_launched w, pg_capped w, pg_volumes w))) (\<lambda>(launched, capped, created).
     bnd (if launched then bnd (run (ce_rig env) (force_remove (container_name s))) (\<lambda>_. ret ()) else ret ()) (\<lambda>_.
     bnd (if capped \<and> ce_records env then bnd (restore_job (ce_rig env) (js_job_id s)) (\<lambda>_. ret ()) else ret ()) (\<lambda>_.
     bnd (each (vol_destroy (ce_rig env)) created) (\<lambda>_.
     bnd (wedge_sweep (ce_rig env)) (\<lambda>_. ret ())))))"

definition forget_job :: "string \<Rightarrow> ('z JobHost_scheme, unit) act" where
  "forget_job job_id = modify (\<lambda>w. w\<lparr>w_store := store_forget job_id (w_store w)\<rparr>)"

text \<open>The \<^verbatim>\<open>finally\<close> clause: undo unless the creation succeeded and was not cancelled.\<close>

definition settle :: "CreateEnv \<Rightarrow> JobSpec \<Rightarrow> bool \<Rightarrow> ('z CreateHost_scheme, unit) act" where
  "settle env s succeeded =
     bnd (gets (\<lambda>w. (ce_cancelled env (w_sent w), pg_launched w \<or> pg_capped w \<or> pg_volumes w \<noteq> []))) (\<lambda>(cancelled, begun).
       if (\<not> succeeded \<or> cancelled) \<and> begun
       then bnd (rollback env s) (\<lambda>_. if ce_store env \<and> cancelled then forget_job (js_job_id s) else ret ())
       else ret ())"

definition create ::
  "CreateEnv \<Rightarrow> JobSpec \<Rightarrow> string list \<Rightarrow> string \<Rightarrow> ('z CreateHost_scheme, CreateResult) act" where
  "create env s allowlist rig_id =
     (\<lambda>w. case attempt (create_body env s allowlist rig_id) (caught s)
              (w\<lparr>pg_step := ''validate'', pg_volumes := [], pg_capped := False, pg_launched := False\<rparr>) of
        (w1, Inl e) \<Rightarrow> (case settle env s False w1 of (w2, Inl e') \<Rightarrow> (w2, Inl e') | (w2, Inr _) \<Rightarrow> (w2, Inl e))
      | (w1, Inr (Inl res)) \<Rightarrow> bnd (settle env s False) (\<lambda>_. ret res) w1
      | (w1, Inr (Inr ports)) \<Rightarrow> bnd (settle env s True) (\<lambda>_.
          ret \<lparr>cr_ok = True, cr_step = ''done'', cr_reason = [], cr_container = container_name s, cr_ports = ports,
               cr_diagnostics = [], cr_elapsed_ms = ce_elapsed_ms env\<rparr>) w1)"

section \<open>Destruction\<close>

record DestroyResult =
  dr_ok :: bool
  dr_reason :: string
  dr_retry_later :: bool
  dr_steps :: pydict

definition container_ok :: "string \<Rightarrow> bool" where
  "container_ok name = ident_run 80 name"

definition ok_or :: "bool \<Rightarrow> string \<Rightarrow> pyval" where
  "ok_or ok text = (if ok then PBool True else PStr text)"

definition stop_command :: "int \<Rightarrow> string \<Rightarrow> string" where
  "stop_command grace name = ''docker stop -t '' @ show_int grace @ '' '' @ shlex_quote name"

definition destroy ::
  "rig \<Rightarrow> string \<Rightarrow> int \<Rightarrow> string \<Rightarrow> bool \<Rightarrow> string list \<Rightarrow> bool \<Rightarrow> bool \<Rightarrow> ('z JobHost_scheme, DestroyResult) act" where
  "destroy h name grace job_id has_records volume_names has_store prune_images =
     (if \<not> container_ok name
      then ret \<lparr>dr_ok = False, dr_reason = ''container name '' @ repr_str name @ '' is not accepted'', dr_retry_later = False, dr_steps = []\<rparr>
      else bnd (run h (stop_command grace name)) (\<lambda>stp.
        (let s1 = [(''stop'', ok_or (res_is_ok stp) (strip (stderr_tail 200 stp)))] in
         if transport_failed stp
         then ret \<lparr>dr_ok = False, dr_reason = res_error stp, dr_retry_later = True, dr_steps = s1\<rparr>
         else bnd (run h (force_remove name)) (\<lambda>rm.
           (let stderr = lower (res_stderr rm) in
            if \<not> (res_is_ok rm \<or> contains_str ''no such container'' stderr)
            then (let why = str_or (strip (stderr_tail 300 rm)) (res_error rm) in
                  bnd (wedge_sweep h) (\<lambda>_.
                    ret \<lparr>dr_ok = False, dr_reason = why,
                         dr_retry_later = (contains_str ''removal'' stderr \<and> contains_str ''in progress'' stderr) \<or> transport_failed rm,
                         dr_steps = s1 @ [(''remove'', PStr why)]\<rparr>))
            else bnd (if has_records \<and> job_id \<noteq> []
                      then bnd (restore_job h job_id) (\<lambda>us. ret [(''power'', PList (map PStr us))]) else ret []) (\<lambda>s2.
                 bnd (wedge_sweep h) (\<lambda>sw.
                 bnd (if prune_images then bnd (run h ''docker image prune -f'') (\<lambda>p. ret [(''image_prune'', PBool (res_is_ok p))])
                      else ret []) (\<lambda>s3.
                 bnd (each (\<lambda>v. bnd (vol_destroy h v) (\<lambda>(ok, reason). ret (v, ok_or ok reason))) volume_names) (\<lambda>vsteps.
                 bnd (if has_store \<and> job_id \<noteq> [] then forget_job job_id else ret ()) (\<lambda>_.
                   ret \<lparr>dr_ok = True, dr_reason = [], dr_retry_later = False,
                        dr_steps = s1 @ [(''remove'', PBool True)] @ s2 @ [(''gpu_wedge'', PDict (SweepResult_payload sw))] @ s3 @
                          [(''volumes'', PDict (dict_of vsteps))]\<rparr>)))))))))) "

definition recreate ::
  "CreateEnv \<Rightarrow> JobSpec \<Rightarrow> string list \<Rightarrow> string \<Rightarrow> ('z CreateHost_scheme, CreateResult) act" where
  "recreate env s0 allowlist rig_id =
     (let s = s0\<lparr>js_volumes := map (\<lambda>v. v\<lparr>vs_create := False\<rparr>) (js_volumes s0), js_devices := []\<rparr> in
      bnd (destroy (ce_rig env) (container_name s) (stop_grace s) [] False [] False False) (\<lambda>torn.
        if \<not> dr_ok torn then ret ((failed_result ''destroy'' (dr_reason torn))\<lparr>cr_container := container_name s\<rparr>)
        else create (env\<lparr>ce_cancelled := (\<lambda>_. False)\<rparr>) s allowlist rig_id))"

section \<open>Facts\<close>

text \<open>The commands that make something on a rig: a volume, or a container.\<close>

definition create_text :: "VolumeSpec \<Rightarrow> string" where
  "create_text v = join '' '' (map shlex_quote (create_args v))"

definition creates :: "string \<Rightarrow> cmd \<Rightarrow> bool" where
  "creates n c \<longleftrightarrow> (\<exists>v. vs_name v = n \<and> fst c = create_text v)"

definition is_run :: "cmd \<Rightarrow> bool" where
  "is_run c \<longleftrightarrow> prefix ''docker run '' (fst c)"

definition quiet :: "cmd \<Rightarrow> bool" where
  "quiet c \<longleftrightarrow> \<not> prefix ''docker run '' (fst c) \<and> \<not> prefix ''docker volume create '' (fst c)"

lemma plain_word: "list_all shell_safe s \<Longrightarrow> s \<noteq> [] \<Longrightarrow> shlex_quote s = s"
  by (simp add: shlex_quote_def)

lemma create_text_prefix: "\<exists>rest. create_text v = ''docker volume create '' @ rest"
proof -
  have "shlex_quote ''docker'' = ''docker''" "shlex_quote ''volume'' = ''volume''" "shlex_quote ''create'' = ''create''"
    by code_simp+
  then show ?thesis by (simp add: create_text_def create_args_def)
qed

lemma create_text_inject: "create_text v = create_text v' \<Longrightarrow> vs_name v = vs_name v'"
  using sh_join [of "create_args v"] sh_join [of "create_args v'"] by (simp add: create_text_def create_args_def)

lemma run_command_text: "run_command s w = (w', Inr c) \<Longrightarrow> \<exists>rest. c = ''docker run '' @ rest"
proof -
  assume "run_command s w = (w', Inr c)"
  then obtain ms where c: "c = join '' '' (map shlex_quote (run_options s (concat ms) @ [js_image s] @ run_tail s))"
    by (auto simp: run_command_def bnd_Inr)
  have "shlex_quote ''docker'' = ''docker''" "shlex_quote ''run'' = ''run''" by code_simp+
  then show ?thesis unfolding c by (simp add: run_options_def)
qed

lemma quiet_not: "quiet c \<Longrightarrow> \<not> is_run c \<and> \<not> creates n c"
  using create_text_prefix by (fastforce simp: quiet_def is_run_def creates_def prefix_def)

text \<open>Computations that make nothing and do not touch the progress of a creation.\<close>

definition pg :: "'z CreateHost_scheme \<Rightarrow> string list \<times> bool" where
  "pg w = (pg_volumes w, pg_launched w)"

definition calm :: "('z CreateHost_scheme, 'a) act \<Rightarrow> bool" where
  "calm m \<longleftrightarrow> emits quiet m \<and> (\<forall>w. pg (fst (m w)) = pg w)"

named_theorems calm_rules

lemma calm_basic [calm_rules]: "calm (ret x)" "calm (raise e)" "calm (gets g)"
  by (simp_all add: calm_def emits_rules)

lemma calm_modify [calm_rules]:
  "(\<And>w. w_sent (u w) = w_sent w) \<Longrightarrow> (\<And>w. pg (u w) = pg w) \<Longrightarrow> calm (modify u)"
  by (simp add: calm_def emits_rules)

lemma calm_run [calm_rules]: "quiet (c, None) \<Longrightarrow> calm (run h c)" "quiet (c, i) \<Longrightarrow> calm (run_in h c i)"
  by (simp_all add: calm_def emits_rules pg_def)

lemma calm_bnd [calm_rules]:
  assumes m: "calm m" and f: "\<And>x. calm (f x)"
  shows "calm (bnd m f)"
proof -
  have "pg (fst (bnd m f w)) = pg w" for w
  proof (cases "m w")
    case (Pair w1 r)
    moreover have "pg w1 = pg w" using m Pair unfolding calm_def by (metis fst_conv)
    ultimately show ?thesis using f unfolding calm_def by (cases r) (simp_all add: bnd_def)
  qed
  then show ?thesis using m f by (simp add: calm_def emits_bnd)
qed

lemma calm_attempt [calm_rules]:
  assumes m: "calm m" and f: "\<And>e. calm (f e)"
  shows "calm (attempt m f)"
proof -
  have "pg (fst (attempt m f w)) = pg w" for w
  proof (cases "m w")
    case (Pair w1 r)
    moreover have "pg w1 = pg w" using m Pair unfolding calm_def by (metis fst_conv)
    ultimately show ?thesis using f unfolding calm_def by (cases r) (simp_all add: attempt_def)
  qed
  then show ?thesis using m f by (simp add: calm_def emits_attempt)
qed

lemma calm_each [calm_rules]: "(\<And>x. x \<in> set xs \<Longrightarrow> calm (f x)) \<Longrightarrow> calm (each f xs)"
  by (induction xs) (auto intro!: calm_rules)

lemma calm_splits [calm_rules]:
  "(b \<Longrightarrow> calm m) \<Longrightarrow> (\<not> b \<Longrightarrow> calm n) \<Longrightarrow> calm (if b then m else n)"
  "calm m \<Longrightarrow> (\<And>y. calm (f y)) \<Longrightarrow> calm (case x of None \<Rightarrow> m | Some y \<Rightarrow> f y)"
  "(\<And>a b. calm (g a b)) \<Longrightarrow> calm (case p of (a, b) \<Rightarrow> g a b)"
  "(\<And>a. calm (k a)) \<Longrightarrow> (\<And>b. calm (l b)) \<Longrightarrow> calm (case r of Inl a \<Rightarrow> k a | Inr b \<Rightarrow> l b)"
  by (auto split: option.splits prod.splits sum.splits)

lemma calm_records [calm_rules]: "calm records_save" "calm (remember_original u x j now)" "calm (records_forget u k)"
proof -
  show s: "calm records_save"
    using emits_records(1) by (simp add: calm_def) (simp add: records_save_def Let_def pg_def)
  show "calm (remember_original u x j now)" "calm (records_forget u k)"
    unfolding remember_original_def records_forget_def by (intro calm_rules s; simp add: pg_def)+
qed

lemma calm_power [calm_rules]: "calm (read_state h u)" "calm (set_limit h u x)" "calm (restore_job h j)"
proof -
  show r: "calm (read_state h u)" for u
    unfolding read_state_def by (intro calm_rules) (simp_all add: quiet_def power_query_def)
  show s: "calm (set_limit h u x)" for u x
    unfolding set_limit_def by (intro calm_rules r) (simp_all add: quiet_def limit_command_def)
  show "calm (restore_job h j)"
    unfolding restore_job_def restore_one_def by (intro calm_rules s)
qed

lemma calm_apply_caps [calm_rules]: "calm (apply_caps h now j caps)"
proof (induction caps)
  case Nil
  then show ?case unfolding apply_caps.simps by (intro calm_rules)
next
  case (Cons c caps)
  show ?case by (cases c) (simp only: apply_caps.simps Let_def, intro calm_rules Cons)
qed

lemma calm_wedge [calm_rules]: "calm (wedge_sweep h)"
proof -
  have q: "calm (query_wedged h)"
    unfolding query_wedged_def by (intro calm_rules) (simp_all add: quiet_def QUERY_APPS_def QUERY_WEDGE_def)
  have c: "calm (wedge_cure h u)" for u
    unfolding wedge_cure_def by (intro calm_rules) (simp_all add: quiet_def cure_command_def)
  show ?thesis unfolding wedge_sweep_def wedged_gpus_def Let_def by (intro calm_rules q c)
qed

lemma calm_require [calm_rules]: "calm (vol_require n)" "calm (require_path p)"
  by (auto simp: vol_require_def require_path_def intro!: calm_rules)

lemma calm_volumes [calm_rules]: "calm (vol_destroy h n)" "calm (remove_stale_volumes h)"
proof -
  show d: "calm (vol_destroy h n)" for n
    unfolding vol_destroy_def by (intro calm_rules) (simp_all add: quiet_def remove_command_def)
  show "calm (remove_stale_volumes h)"
    unfolding remove_stale_volumes_def list_ours_def mounted_volumes_def
    by (intro calm_rules d) (simp_all add: quiet_def LIST_VOLUMES_def LIST_MOUNTS_def VOL_PREFIX_def)
qed

lemma calm_encrypted [calm_rules]: "calm (setup_encrypted h d dr c v s f)" "calm (grant_workspace h c p u)"
  unfolding setup_encrypted_def grant_workspace_def verify_mount_def Let_def
  by (intro calm_rules; simp add: quiet_def deliver_command_def mount_command_def)+

lemma calm_state [calm_rules]: "calm (state_of h l n)"
  unfolding state_of_def by (intro calm_rules) (simp_all add: quiet_def state_command_def)

lemma calm_wait [calm_rules]: "calm (wait_running h l n k t)"
  by (induction k arbitrary: t) (auto simp: Let_def intro!: calm_rules)

lemma calm_steps [calm_rules]: "calm (stop r)" "calm (go x)" "calm (at_step t)" "calm (checkpoint env j)"
  "calm (diagnosed env s r)" "calm (remove_probe_containers h)"
  unfolding stop_def go_def at_step_def checkpoint_def diagnosed_def diagnostics_def remove_probe_containers_def Let_def
  by (intro calm_rules; simp add: quiet_def pg_def PROBE_CLEANUP_def)+

lemma calm_ports [calm_rules]: "calm (reserve_ports h s)" "calm (device_nodes h us b)"
  unfolding reserve_ports_def used_ports_def device_nodes_def
  by (intro calm_rules; simp add: quiet_def LIST_PORTS_def DEVICE_PROBE_def)+

end
