(* ===== verification/Work_Undo.thy ===== *)
theory Work_Undo
  imports Work_Containers
begin

text \<open>
  What a creation, a recreation and a destruction (\<^verbatim>\<open>create\<close>, \<^verbatim>\<open>_rollback\<close>, \<^verbatim>\<open>recreate\<close>, \<^verbatim>\<open>destroy\<close> in
  \<^verbatim>\<open>validator/work/containers.py\<close>) leave behind on the rig. \<open>tracked\<close> is the invariant of the stages of
  \<^verbatim>\<open>create\<close>: whatever a successful command made on the rig is named in the variables the rollback reads;
  \<open>keeps\<close> says that a stage preserves it, and every stage does. \<open>adds\<close> says that a computation only adds
  to what was sent, \<open>fails\<close> that a stage that ends a creation ends it with a failure.
\<close>

section \<open>What the stages keep track of\<close>

text \<open>The command at position \<open>i\<close>, sent after the first \<open>k\<close>, satisfies \<open>P\<close> and was answered with success.\<close>

definition done_at :: "rig \<Rightarrow> nat \<Rightarrow> (cmd \<Rightarrow> bool) \<Rightarrow> cmd list \<Rightarrow> nat \<Rightarrow> bool" where
  "done_at h k P sent i \<longleftrightarrow> k \<le> i \<and> i < length sent \<and> P (sent ! i) \<and> res_is_ok (h (take i sent) (sent ! i))"

definition tracked :: "rig \<Rightarrow> nat \<Rightarrow> 'z CreateHost_scheme \<Rightarrow> bool" where
  "tracked h k w \<longleftrightarrow>
     (\<forall>i. done_at h k is_run (w_sent w) i \<longrightarrow> pg_launched w) \<and>
     (\<forall>n i. done_at h k (creates n) (w_sent w) i \<longrightarrow> n \<in> set (pg_volumes w)) \<and>
     (\<forall>n\<in>set (pg_volumes w). vol_valid n)"

definition keeps :: "rig \<Rightarrow> nat \<Rightarrow> ('z CreateHost_scheme, 'a) act \<Rightarrow> bool" where
  "keeps h k m \<longleftrightarrow> (\<forall>w. tracked h k w \<longrightarrow> tracked h k (fst (m w)))"

named_theorems keeps_rules

lemma done_at_append:
  "done_at h k P (xs @ cs) i \<longleftrightarrow>
     done_at h k P xs i \<or> (length xs \<le> i \<and> k \<le> i \<and> i < length xs + length cs \<and> P (cs ! (i - length xs)) \<and>
       res_is_ok (h (xs @ take (i - length xs) cs) (cs ! (i - length xs))))"
  by (auto simp: done_at_def nth_append)

lemma done_at_quiet:
  assumes "list_all (\<lambda>c. \<not> P c) cs"
  shows "done_at h k P (xs @ cs) i \<longleftrightarrow> done_at h k P xs i"
proof -
  have "\<not> P (cs ! (i - length xs))" if "length xs \<le> i" "i < length xs + length cs"
    using assms that by (simp add: list_all_length)
  then show ?thesis by (auto simp: done_at_append)
qed

lemma tracked_quiet:
  assumes "tracked h k w" "list_all quiet cs" "w_sent w' = w_sent w @ cs" "pg w' = pg w"
  shows "tracked h k w'"
proof -
  have "list_all (\<lambda>c. \<not> is_run c) cs" "list_all (\<lambda>c. \<not> creates n c) cs" for n
    using assms(2) quiet_not by (auto simp: list_all_iff)
  then show ?thesis using assms(1,3,4) by (simp add: tracked_def done_at_quiet pg_def)
qed

lemma keeps_calm [keeps_rules]: "calm m \<Longrightarrow> keeps h k m"
  unfolding keeps_def calm_def emits_def by (meson tracked_quiet)

lemma keeps_bnd:
  fixes m :: "('z CreateHost_scheme, 'a) act"
  assumes "keeps h k m" "\<And>x. keeps h k (f x)"
  shows "keeps h k (bnd m f)"
  unfolding keeps_def
proof (intro allI impI)
  fix w :: "'z CreateHost_scheme" assume w: "tracked h k w"
  obtain w1 r where m: "m w = (w1, r)" by fastforce
  then have "tracked h k w1" using assms(1) w unfolding keeps_def by (metis fst_conv)
  then show "tracked h k (fst (bnd m f w))"
    using m assms(2) unfolding keeps_def by (cases r) (simp_all add: bnd_def)
qed

lemma keeps_andthen:
  assumes "keeps h k m" "\<And>x. keeps h k (f x)"
  shows "keeps h k (andthen m f)"
  unfolding andthen_def by (intro keeps_bnd assms) (auto split: sum.splits intro!: assms keeps_calm calm_rules)

lemma done_at_snoc:
  "done_at h k P (xs @ [c]) i \<longleftrightarrow> done_at h k P xs i \<or> (i = length xs \<and> k \<le> i \<and> P c \<and> res_is_ok (h xs c))"
  unfolding done_at_append by (auto simp: less_Suc_eq)

lemma tracked_refused:
  "tracked h k w \<Longrightarrow> \<not> res_is_ok (h (w_sent w) c) \<Longrightarrow> tracked h k (w\<lparr>w_sent := w_sent w @ [c]\<rparr>)"
  by (simp add: tracked_def done_at_snoc)

lemma created_not_run: "\<not> is_run (create_text v, i)" "creates n (create_text v, i) \<Longrightarrow> n = vs_name v"
proof -
  obtain rest where r: "create_text v = ''docker volume create '' @ rest" using create_text_prefix by blast
  show "\<not> is_run (create_text v, i)" unfolding is_run_def fst_conv r by simp
  show "creates n (create_text v, i) \<Longrightarrow> n = vs_name v"
    unfolding creates_def fst_conv by (metis create_text_inject)
qed

lemma tracked_volume:
  assumes "tracked h k w" "vol_valid (vs_name v)"
  shows "tracked h k (w\<lparr>w_sent := w_sent w @ [(create_text v, None)], pg_volumes := pg_volumes w @ [vs_name v]\<rparr>)"
proof -
  have run: "done_at h k is_run (w_sent w @ [(create_text v, None)]) i \<longleftrightarrow> done_at h k is_run (w_sent w) i" for i
    by (simp add: done_at_snoc created_not_run(1))
  have "done_at h k (creates n) (w_sent w) i \<or> n = vs_name v"
    if "done_at h k (creates n) (w_sent w @ [(create_text v, None)]) i" for n i
    using that created_not_run(2) [of n v None] by (simp add: done_at_snoc) blast
  then have "n \<in> set (pg_volumes w @ [vs_name v])"
    if "done_at h k (creates n) (w_sent w @ [(create_text v, None)]) i" for n i
    using assms(1) that unfolding tracked_def by fastforce
  then show ?thesis using assms run unfolding tracked_def by simp
qed

lemma vol_create_cases:
  obtains e where "vol_create h v w = (w, e)" "\<And>t. e \<noteq> Inr (True, t)"
  | t where "vol_create h v w = (w\<lparr>w_sent := w_sent w @ [(create_text v, None)]\<rparr>, Inr (False, t))"
      "\<not> res_is_ok (h (w_sent w) (create_text v, None))"
  | "vol_create h v w = (w\<lparr>w_sent := w_sent w @ [(create_text v, None)]\<rparr>, Inr (True, []))" "vol_valid (vs_name v)"
proof (cases "vol_problems v = [] \<and> vol_valid (vs_name v)")
  case True
  then show ?thesis
    by (cases "res_is_ok (h (w_sent w) (create_text v, None))")
      (auto intro: that(2,3) simp: vol_create_def create_command_def vol_require_def bnd_def create_text_def)
next
  case False
  then show ?thesis
    by (intro that(1) [of "snd (vol_create h v w)"]) (auto simp: vol_create_def create_command_def vol_require_def bnd_def split: if_splits)
qed

lemma keeps_volumes: "keeps h k (create_volumes h vs :: ('z CreateHost_scheme, CreateResult + unit) act)"
proof (induction vs)
  case Nil
  show ?case by (simp add: keeps_calm calm_rules)
next
  case (Cons v vs)
  have st: "keeps h k (stop t :: ('z CreateHost_scheme, CreateResult + unit) act)" for t by (intro keeps_calm calm_rules)
  show ?case unfolding keeps_def
  proof (intro allI impI)
    fix w :: "'z CreateHost_scheme" assume w: "tracked h k w"
    show "tracked h k (fst (create_volumes h (v # vs) w))"
    proof (cases "vs_create v")
      case False
      then show ?thesis using Cons w by (simp add: keeps_def)
    next
      case True
      show ?thesis
      proof (cases rule: vol_create_cases [of h v w])
        case (1 e)
        then have "\<exists>w' x. create_volumes h (v # vs) w = (w, x) \<or> (\<exists>t. create_volumes h (v # vs) w = stop t w)"
          using True by (cases e; cases "projr e") (auto simp: bnd_def split: if_splits)
        then show ?thesis using w st unfolding keeps_def by (metis fst_conv)
      next
        case (2 t)
        then show ?thesis using True w st tracked_refused [OF w] by (auto simp: keeps_def bnd_def)
      next
        case 3
        then show ?thesis using True Cons tracked_volume [OF w] by (simp add: keeps_def bnd_def)
      qed
    qed
  qed
qed

lemma tracked_launched:
  assumes "tracked h k w" "is_run c"
  shows "tracked h k (w\<lparr>w_sent := w_sent w @ [c], pg_launched := True, pg_step := p\<rparr>)"
proof -
  have "\<not> creates n c" for n
    using assms(2) created_not_run(1) by (metis creates_def is_run_def fst_conv)
  then show ?thesis using assms(1) by (simp add: tracked_def done_at_snoc)
qed

lemma tracked_sent_quiet: "tracked h k w \<Longrightarrow> quiet c \<Longrightarrow> tracked h k (w\<lparr>w_sent := w_sent w @ [c]\<rparr>)"
  by (rule tracked_quiet [where cs = "[c]"]) (simp_all add: pg_def)

lemma bnd_step: "m w = (w1, Inr x) \<Longrightarrow> bnd m f w = f x w1"
  by (simp add: bnd_def)

lemma bnd_stop: "m w = (w1, Inl e) \<Longrightarrow> bnd m f w = (w1, Inl e)"
  by (simp add: bnd_def)

lemma docker_run_loop_tracked:
  assumes "tracked h k w" "is_run (c, None)" "docker_run_loop h name c n w = (w', r)"
  shows "r = Inr (True, []) \<and> tracked h k (w'\<lparr>pg_launched := True, pg_step := p\<rparr>) \<or> tracked h k w' \<and> (\<exists>t. r = Inr (False, t))"
  using assms
proof (induction n arbitrary: w)
  case 0
  then show ?case using tracked_refused [OF 0(1), of "(c, None)"] tracked_launched [OF 0(1,2), of p]
    by (auto simp: bnd_def run_verdict_def split: if_splits)
next
  case (Suc n)
  show ?case
  proof (cases "port_busy (h (w_sent w) (c, None))")
    case True
    then have bad: "\<not> res_is_ok (h (w_sent w) (c, None))" by (simp add: port_busy_def)
    have q: "quiet (''docker rm -f '' @ shlex_quote name, None)" by (simp add: quiet_def)
    show ?thesis
      using Suc.IH [OF tracked_sent_quiet [OF tracked_refused [OF Suc.prems(1) bad] q] Suc.prems(2)] Suc.prems(3) True
      by (simp add: bnd_def)
  next
    case False
    then show ?thesis using Suc.prems tracked_refused [OF Suc.prems(1), of "(c, None)"] tracked_launched [OF Suc.prems(1,2), of p]
      by (auto simp: bnd_def run_verdict_def split: if_splits)
  qed
qed

lemma run_command_state: "run_command s w = (w', r) \<Longrightarrow> w' = w"
  unfolding run_command_def by (erule bnd_cases) (auto dest: each_mount_args)

lemma docker_run_tracked:
  assumes "tracked h k w" "docker_run h s n w = (w', r)"
  shows "r = Inr (True, []) \<and> tracked h k (w'\<lparr>pg_launched := True, pg_step := p\<rparr>) \<or> tracked h k w' \<and> (\<forall>t. r \<noteq> Inr (True, t))"
  using assms(2) unfolding docker_run_def
proof (cases rule: bnd_cases)
  case (stop e)
  then show ?thesis using assms(1) by (auto dest: run_command_state)
next
  case (go w1 c)
  have "w1 = w" by (rule run_command_state [OF go(1)])
  moreover have "is_run (c, None)" using run_command_text [OF go(1)] by (auto simp: is_run_def)
  ultimately show ?thesis using docker_run_loop_tracked [of h k w c "container_name s" n w' r p] assms(1) go(2) by auto
qed

lemma keeps_docker_run:
  fixes ok :: "('z CreateHost_scheme, 'a) act"
  assumes ok: "keeps h k ok" and bad: "\<And>t. keeps h k (bad t)"
  shows "keeps h k (bnd (docker_run h s n) (\<lambda>(b, t). if \<not> b then bad t else
           bnd (modify (\<lambda>w. w\<lparr>pg_launched := True, pg_step := p\<rparr>)) (\<lambda>_. ok)))"
  unfolding keeps_def
proof (intro allI impI)
  fix w :: "'z CreateHost_scheme" assume w: "tracked h k w"
  obtain w' r where d: "docker_run h s n w = (w', r)" by fastforce
  from docker_run_tracked [OF w this, of p]
  show "tracked h k (fst (bnd (docker_run h s n) (\<lambda>(b, t). if \<not> b then bad t else
           bnd (modify (\<lambda>w. w\<lparr>pg_launched := True, pg_step := p\<rparr>)) (\<lambda>_. ok)) w))"
    using ok bad d unfolding keeps_def by (cases r) (auto simp: bnd_step bnd_stop)
qed

lemma keeps_launch: "keeps (ce_rig env) k (create_launch env s)"
  unfolding create_launch_def
  by (intro keeps_docker_run keeps_bnd [OF keeps_calm]) (intro keeps_calm calm_rules)+

lemma calm_mounts: "calm (create_mounts env s secret vs)"
  by (induction vs) (auto intro!: calm_rules)

lemma calm_save_job: "calm (save_job now s r)"
  by (auto simp: calm_def emits_def save_job_def pg_def split: sum.splits)

lemma calm_stages: "calm (create_validate env s al)" "calm (create_prepare env s)" "calm (create_devices env s)"
  "calm (create_power env s)" "calm (create_record env s r)" "calm (caught s e)"
  unfolding create_validate_def create_prepare_def create_devices_def create_power_def create_record_def caught_def
  by (intro calm_rules calm_save_job; simp add: quiet_def pull_command_def pg_def calm_rules split: exc.splits)+

lemma keeps_body: "keeps (ce_rig env) k (create_body env s al r)"
  unfolding create_body_def
  by (intro keeps_andthen keeps_bnd [OF keeps_calm [OF calm_steps(3)]] keeps_volumes keeps_launch keeps_calm calm_mounts calm_stages calm_steps)

lemma keeps_attempt:
  fixes m :: "('z CreateHost_scheme, 'a) act"
  assumes "keeps h k m" "\<And>e. keeps h k (g e)"
  shows "keeps h k (attempt m g)"
  unfolding keeps_def
proof (intro allI impI)
  fix w :: "'z CreateHost_scheme" assume w: "tracked h k w"
  obtain w1 r where m: "m w = (w1, r)" by fastforce
  then have "tracked h k w1" using assms(1) w unfolding keeps_def by (metis fst_conv)
  then show "tracked h k (fst (attempt m g w))"
    using m assms(2) unfolding keeps_def by (cases r) (simp_all add: attempt_def)
qed

lemma each_vol_destroy:
  "each (vol_destroy h) ns w = (w', r) \<Longrightarrow>
     w_sent w' = w_sent w @ map (\<lambda>n. (remove_command n, None)) (filter vol_valid ns)"
proof (induction ns arbitrary: w w' r)
  case (Cons n ns)
  obtain w1 b t where d: "vol_destroy h n w = (w1, Inr (b, t))"
    and s: "w_sent w1 = w_sent w @ (if vol_valid n then [(remove_command n, None)] else [])"
    using vol_destroy_sends by (metis surj_pair)
  obtain w2 r2 where e: "each (vol_destroy h) ns w1 = (w2, r2)" by fastforce
  then have "w' = w2" using Cons.prems d by (cases r2) (auto simp: bnd_def)
  then show ?case using Cons.IH [OF e] s by simp
qed simp

definition undone :: "string \<Rightarrow> 'z CreateHost_scheme \<Rightarrow> cmd list \<Rightarrow> bool" where
  "undone name w cs \<longleftrightarrow>
     (pg_launched w \<longrightarrow> (force_remove name, None) \<in> set cs) \<and>
     (\<forall>n\<in>set (pg_volumes w). vol_valid n \<longrightarrow> (remove_command n, None) \<in> set cs)"

lemma calm_sends:
  assumes "calm m" "m w = (w', r)"
  obtains cs where "w_sent w' = w_sent w @ cs" "list_all quiet cs" "pg w' = pg w"
  using assms emitsD unfolding calm_def by (metis fst_conv)

lemma calm_rollback: "calm (rollback env s)"
  unfolding rollback_def by (intro calm_rules) (simp_all add: quiet_def force_remove_def)

lemma rollback_undoes:
  assumes "rollback env s w = (w', Inr u)"
  shows "\<exists>cs. w_sent w' = w_sent w @ cs \<and> undone (container_name s) w cs"
proof -
  let ?h = "ce_rig env"
  let ?rm = "if pg_launched w then bnd (run ?h (force_remove (container_name s))) (\<lambda>_. ret ()) else ret ()"
  let ?caps = "if pg_capped w \<and> ce_records env then bnd (restore_job ?h (js_job_id s)) (\<lambda>_. ret ()) else ret ()"
  obtain w1 w2 w3 vs where
    1: "?rm w = (w1, Inr ())" and 2: "?caps w1 = (w2, Inr ())" and
    3: "each (vol_destroy ?h) (pg_volumes w) w2 = (w3, Inr vs)" and
    4: "bnd (wedge_sweep ?h) (\<lambda>_. ret ()) w3 = (w', Inr u)"
    using assms by (auto simp: rollback_def bnd_Inr)
  have "calm ?caps" "calm (bnd (wedge_sweep ?h) (\<lambda>_. ret ()))" by (intro calm_rules)+
  then obtain c2 c4 where "w_sent w2 = w_sent w1 @ c2" "w_sent w' = w_sent w3 @ c4"
    using 2 4 by (metis calm_sends)
  moreover have "w_sent w1 = w_sent w @ (if pg_launched w then [(force_remove (container_name s), None)] else [])"
    using 1 by (auto simp: bnd_def split: if_splits)
  ultimately show ?thesis using each_vol_destroy [OF 3]
    by (auto simp: undone_def)
qed

lemma create_failed:
  assumes "create env s al rig_id w = (w', Inr res)" "\<not> cr_ok res"
  obtains w1 where "attempt (create_body env s al rig_id) (caught s)
       (w\<lparr>pg_step := ''validate'', pg_volumes := [], pg_capped := False, pg_launched := False\<rparr>) = (w1, Inr (Inl res))"
    "settle env s False w1 = (w', Inr ())"
  using assms by (auto simp: create_def bnd_Inr split: prod.splits sum.splits)

lemma settle_undoes:
  assumes "settle env s False w = (w', Inr u)"
  shows "\<exists>cs. w_sent w' = w_sent w @ cs \<and> list_all quiet cs \<and> undone (container_name s) w cs"
proof (cases "pg_launched w \<or> pg_capped w \<or> pg_volumes w \<noteq> []")
  case False
  then show ?thesis using assms by (auto simp: settle_def bnd_def undone_def)
next
  case True
  then obtain w1 u1 where r: "rollback env s w = (w1, Inr u1)" and "w_sent w' = w_sent w1"
    using assms by (auto simp: settle_def bnd_Inr forget_job_def split: if_splits)
  moreover obtain cs where "w_sent w1 = w_sent w @ cs" "list_all quiet cs" using calm_sends [OF calm_rollback r] .
  ultimately show ?thesis using rollback_undoes [OF r] by auto
qed

section \<open>What was sent stays sent\<close>

lemma andthen_Inr:
  assumes "andthen m f w = (w', Inr (Inr y))"
  obtains w1 x where "m w = (w1, Inr (Inr x))" "f x w1 = (w', Inr (Inr y))"
proof -
  obtain w1 r where m: "m w = (w1, Inr r)" and f: "(case r of Inl res \<Rightarrow> ret (Inl res) | Inr x \<Rightarrow> f x) w1 = (w', Inr (Inr y))"
    using assms unfolding andthen_def bnd_Inr by blast
  then show ?thesis using that by (cases r) auto
qed

text \<open>Whatever a creation sends is added to what was sent before.\<close>

definition adds :: "('z Host_scheme, 'a) act \<Rightarrow> bool" where
  "adds m \<longleftrightarrow> emits (\<lambda>_. True) m"

lemma adds_calm: "calm m \<Longrightarrow> adds m"
  unfolding calm_def adds_def by (blast intro: emits_mono)

lemma adds_bnd: "adds m \<Longrightarrow> (\<And>x. adds (f x)) \<Longrightarrow> adds (bnd m f)"
  unfolding adds_def by (rule emits_bnd)

lemma adds_andthen: "adds m \<Longrightarrow> (\<And>x. adds (f x)) \<Longrightarrow> adds (andthen m f)"
  unfolding andthen_def by (intro adds_bnd) (auto split: sum.splits simp: adds_def intro!: emits_ret)

lemma adds_loop: "adds (docker_run_loop h name c n)"
  unfolding adds_def by (induction n) (auto intro!: emits_rules)

lemma adds_volumes: "adds (create_volumes h vs :: ('z CreateHost_scheme, CreateResult + unit) act)"
proof (induction vs)
  case Nil
  show ?case by (simp add: go_def adds_def emits_ret del: act_simps)
next
  case (Cons v vs)
  have "adds (vol_create h v)" unfolding adds_def by (auto simp: vol_create_def create_command_def intro!: emits_rules)
  then show ?case using Cons unfolding adds_def by (auto simp: stop_def intro!: emits_rules)
qed

lemma adds_docker_run: "adds (docker_run h s n)"
proof -
  have "adds (run_command s)"
    unfolding adds_def emits_def by (metis append_Nil2 list.pred_inject(1) run_command_state surjective_pairing)
  then show ?thesis unfolding docker_run_def by (intro adds_bnd adds_loop)
qed

lemma adds_launch: "adds (create_launch env s)"
proof -
  have m: "adds (modify (\<lambda>w. w\<lparr>pg_launched := True, pg_step := p\<rparr>))" for p
    by (simp add: adds_def emits_modify)
  show ?thesis
    unfolding create_launch_def
    apply (intro adds_bnd adds_docker_run adds_calm [OF calm_steps(6)] adds_calm [OF calm_steps(4)] adds_calm [OF calm_steps(3)])
    apply (clarsimp split: prod.splits, intro conjI impI)
    apply (intro adds_calm calm_rules)
    apply (intro adds_bnd m adds_calm calm_rules)
    done
qed

lemma each_sends:
  assumes "each f xs w = (w', Inr ys)" "x \<in> set xs" "\<And>x. adds (f x)"
    and "\<And>w w' r. f x w = (w', r) \<Longrightarrow> c \<in> set (w_sent w')"
  shows "c \<in> set (w_sent w')"
  using assms(1,2)
proof (induction xs arbitrary: w ys)
  case (Cons a xs)
  obtain w1 y ys' where 1: "f a w = (w1, Inr y)" "each f xs w1 = (w', Inr ys')"
    using Cons.prems(1) by (auto simp: bnd_Inr)
  have "adds (each f xs)" unfolding adds_def using assms(3) by (intro emits_each) (simp add: adds_def)
  then have "set (w_sent w1) \<subseteq> set (w_sent w')" using 1(2) unfolding adds_def by (auto dest!: emitsD)
  then show ?case using Cons assms(4) 1 by (cases "x = a") auto
qed simp

lemma stale_volume_removed:
  assumes "remove_stale_volumes h w = (w', Inr rs)"
    and ours: "\<And>sent. res_is_ok (h sent (LIST_VOLUMES, None)) \<and> n \<in> set (map strip (splitlines (res_stdout (h sent (LIST_VOLUMES, None)))))"
    and free: "\<And>sent. res_is_ok (h sent (LIST_MOUNTS, None)) \<and> n \<notin> mounts_of (res_stdout (h sent (LIST_MOUNTS, None)))"
    and valid: "vol_valid n"
  shows "(remove_command n, None) \<in> set (w_sent w')"
proof -
  obtain w1 ns ms ys where e: "each (\<lambda>name. if name \<in> ms then ret []
        else bnd (vol_destroy h name) (\<lambda>(ok, _). ret (if ok then [name] else []))) ns w1 = (w', Inr ys)"
    and n: "n \<in> set ns" "n \<notin> ms"
    using assms(1) ours free valid by (auto simp: remove_stale_volumes_def list_ours_def mounted_volumes_def bnd_Inr)
  show ?thesis
  proof (rule each_sends [OF e n(1)])
    fix x show "adds (if x \<in> ms then ret [] else bnd (vol_destroy h x) (\<lambda>(ok, _). ret (if ok then [x] else [])))"
      unfolding adds_def vol_destroy_def by (intro emits_rules) (auto intro!: emits_rules split: prod.splits)
  next
    fix w w' r
    assume "(if n \<in> ms then ret [] else bnd (vol_destroy h n) (\<lambda>(ok, _). ret (if ok then [n] else []))) w = (w', r)"
    then show "(remove_command n, None) \<in> set (w_sent w')"
      using n(2) valid by (auto simp: vol_destroy_def bnd_def split: if_splits)
  qed
qed

text \<open>A stage that ends a creation ends it with a failure.\<close>

definition fails :: "('s, CreateResult + 'a) act \<Rightarrow> bool" where
  "fails m \<longleftrightarrow> (\<forall>w w' res. m w = (w', Inr (Inl res)) \<longrightarrow> \<not> cr_ok res)"

lemma fails_bnd: "(\<And>x. fails (f x)) \<Longrightarrow> fails (bnd m f)"
  unfolding fails_def bnd_Inr by blast

lemma fails_andthen: "fails m \<Longrightarrow> (\<And>x. fails (f x)) \<Longrightarrow> fails (andthen m f)"
  unfolding fails_def andthen_def bnd_Inr by (force split: sum.splits)

lemma fails_basic: "fails (stop t)" "fails (go x)" "fails (diagnosed env s t)"
  by (auto simp: fails_def stop_def go_def diagnosed_def bnd_Inr failed_result_def)

lemma fails_attempt:
  assumes "fails m" "\<And>e. fails (g e)"
  shows "fails (attempt m g)"
  unfolding fails_def
proof (intro allI impI)
  fix w w' res assume "attempt m g w = (w', Inr (Inl res))"
  then show "\<not> cr_ok res" using assms unfolding fails_def attempt_def
    by (cases "m w"; cases "snd (m w)") auto
qed

lemma fails_splits:
  "(b \<Longrightarrow> fails m) \<Longrightarrow> (\<not> b \<Longrightarrow> fails n) \<Longrightarrow> fails (if b then m else n)"
  "(\<And>a b. fails (g a b)) \<Longrightarrow> fails (case p of (a, b) \<Rightarrow> g a b)"
  "(\<And>a. fails (k a)) \<Longrightarrow> (\<And>b. fails (l b)) \<Longrightarrow> fails (case r of Inl a \<Rightarrow> k a | Inr b \<Rightarrow> l b)"
  by (auto split: prod.splits sum.splits)

lemmas fails_rules = fails_basic fails_splits fails_bnd

lemma fails_loops: "fails (create_volumes h vs)" "fails (create_mounts env s secret vs)"
  by (induction vs) (auto simp del: act_simps intro!: fails_rules)

lemma fails_stages: "fails (create_validate env s al)" "fails (create_prepare env s)" "fails (create_devices env s)"
  "fails (create_power env s)" "fails (create_launch env s)" "fails (create_record env s r)"
  unfolding create_validate_def create_prepare_def create_devices_def create_power_def create_launch_def create_record_def
  by (intro fails_rules)+

lemma fails_body: "fails (create_body env s al r)"
  unfolding create_body_def
  by (intro fails_andthen fails_loops fails_stages fails_basic fails_bnd)

lemma fails_caught: "fails (caught s e)"
  unfolding caught_def by (cases e) (auto simp: fails_def bnd_Inr failed_result_def)

lemma create_ok:
  assumes "create env s al rig_id w = (w', Inr res)" "cr_ok res"
  obtains w1 ports where "create_body env s al rig_id
       (w\<lparr>pg_step := ''validate'', pg_volumes := [], pg_capped := False, pg_launched := False\<rparr>) = (w1, Inr (Inr ports))"
    "settle env s True w1 = (w', Inr ())"
proof -
  let ?w = "w\<lparr>pg_step := ''validate'', pg_volumes := [], pg_capped := False, pg_launched := False\<rparr>"
  obtain w1 r where b: "attempt (create_body env s al rig_id) (caught s) ?w = (w1, r)" by fastforce
  have "\<not> cr_ok x" if "r = Inr (Inl x)" for x
    using b that fails_attempt [OF fails_body fails_caught, of env s al rig_id "\<lambda>_. s" "\<lambda>e. e"]
    unfolding fails_def by blast
  then obtain ports where r: "r = Inr (Inr ports)" and st: "settle env s True w1 = (w', Inr ())"
    using assms b by (cases r) (auto simp: create_def bnd_Inr split: prod.splits sum.splits)
  have "create_body env s al rig_id ?w = (w1, Inr (Inr ports))"
    using b unfolding r by (auto simp: attempt_def caught_def bnd_Inr split: prod.splits sum.splits exc.splits)
  then show ?thesis using st by (rule that)
qed

lemma create_prepare_sends:
  assumes "create_prepare env s w = (w', Inr (Inr s1))"
  obtains w1 rs where "remove_stale_volumes (ce_rig env) w1 = (w', Inr rs)"
proof -
  have "\<exists>w1 p. bnd (remove_stale_volumes (ce_rig env)) (\<lambda>_. go (s\<lparr>js_ports := p\<rparr>)) w1 = (w', Inr (Inr s1))"
    using assms unfolding create_prepare_def
    by (auto simp: bnd_Inr at_step_def stop_def split: if_splits)
  then show ?thesis using that by (auto simp: bnd_Inr go_def)
qed

lemma calm_forget: "calm (forget_job j)"
  unfolding forget_job_def by (intro calm_rules) (simp_all add: pg_def)

lemma calm_settle: "calm (settle env s b)"
  unfolding settle_def by (intro calm_rules calm_rollback calm_forget)

lemma adds_rest:
  assumes "adds m" "m w = (w', r)"
  shows "set (w_sent w) \<subseteq> set (w_sent w')"
  using emitsD [OF assms(1) [unfolded adds_def] assms(2)] by auto

section \<open>Volumes named for removal\<close>

lemma emits_restore_job:
  assumes "\<And>c. prefix ''nvidia-smi '' (fst c) \<Longrightarrow> P c"
  shows "emits P (restore_job h j)"
proof -
  have "emits P (set_limit h u x)" for u x
    unfolding set_limit_def
    by (intro emits_rules assms) (auto simp: limit_command_def power_query_def intro!: emits_rules assms split: option.splits)
  then show ?thesis
    unfolding restore_job_def restore_one_def
    by (intro emits_rules) (auto intro!: emits_rules split: option.splits)
qed

text \<open>The only commands that name a volume for removal are those of \<^verbatim>\<open>volumes.destroy\<close>.\<close>

definition spares :: "cmd \<Rightarrow> bool" where
  "spares c \<longleftrightarrow> \<not> prefix ''docker volume rm'' (fst c)"

lemma removal_not_spared: "\<not> spares (remove_command n, i)"
  by (simp add: spares_def remove_command_def)

lemma spares_basics:
  "prefix ''nvidia-smi '' (fst c) \<Longrightarrow> spares c" "spares (QUERY_APPS, i)" "spares (QUERY_WEDGE, i)" "spares (cure_command u, i)"
  "spares (stop_command g n, i)" "spares (force_remove n, i)" "spares (''docker image prune -f'', i)"
  by (auto simp: prefix_def spares_def QUERY_APPS_def QUERY_WEDGE_def cure_command_def stop_command_def force_remove_def)

lemma emits_mem: "emits P m \<Longrightarrow> m w = (w', r) \<Longrightarrow> w_sent w' = w_sent w @ cs \<Longrightarrow> c \<in> set cs \<Longrightarrow> P c"
  using emitsD by (fastforce simp: list_all_iff)

lemma bnd_run: "bnd (run h c) f w = f (h (w_sent w) (c, None)) (w\<lparr>w_sent := w_sent w @ [(c, None)]\<rparr>)"
  by (simp add: bnd_def)

section \<open>A rig for the examples\<close>

definition demo_create_env :: "rig \<Rightarrow> CreateEnv" where
  "demo_create_env h =
     \<lparr>ce_rig = h, ce_loads = (\<lambda>_. Some (PDict [(''Running'', PBool True)])), ce_derive = (\<lambda>a b. a), ce_secret = Inr [],
      ce_draw = (\<lambda>_. \<lparr>dr_pad = [], dr_passfile = [], dr_script = []\<rparr>), ce_now = 0, ce_elapsed_ms = 0, ce_tries = 1,
      ce_polls = 1, ce_cancelled = (\<lambda>_. False), ce_records = False, ce_store = False\<rparr>"

definition demo_create_host :: CreateHost where
  "demo_create_host =
     \<lparr>w_sent = [], w_records = \<lparr>pr_gpus = [], pr_jobs = [], pr_file = None, pr_writable = True\<rparr>,
      w_store = \<lparr>st_files = [], st_writable = True\<rparr>, pg_step = [], pg_volumes = [], pg_capped = False, pg_launched = False\<rparr>"

definition demo_docker :: rig where
  "demo_docker sent c =
     demo_result (if fst c = DEVICE_PROBE
       then ''GPU-'' @ replicate 36 CHR ''a'' @ '', 00000000:01:00.0'' @ [CHR 0x0A] @ ''---'' @ [CHR 0x0A] @
         ''/proc/driver/nvidia/gpus/0000:01:00.0/information:Device Minor: 0'' @ [CHR 0x0A] @ ''---'' @ [CHR 0x0A] @ ''/dev/nvidia0''
       else if fst c = LIST_VOLUMES then ''mt-vol-j1''
       else if prefix ''docker inspect'' (fst c) then ''{}''
       else [])"


lemma demo_docker_ok [simp]: "res_is_ok (demo_docker sent c)" "\<not> transport_failed (demo_docker sent c)"
  by (simp_all add: demo_docker_def demo_result_def res_is_ok_def transport_failed_def)

lemma demo_docker_sent: "demo_docker sent c = demo_docker [] c"
  by (simp add: demo_docker_def)

lemma demo_docker_out:
  "res_stdout (demo_docker sent (LIST_VOLUMES, None)) = ''mt-vol-j1''" "res_stdout (demo_docker sent (LIST_MOUNTS, None)) = []"
  "res_stdout (demo_docker sent (QUERY_APPS, None)) = []" "res_stdout (demo_docker sent (QUERY_WEDGE, None)) = []"
  "res_stdout (demo_docker sent (state_command name, None)) = ''{}''"
proof -
  have "res_stdout (demo_docker [] (LIST_VOLUMES, None)) = ''mt-vol-j1''" "res_stdout (demo_docker [] (LIST_MOUNTS, None)) = []"
    "res_stdout (demo_docker [] (QUERY_APPS, None)) = []" "res_stdout (demo_docker [] (QUERY_WEDGE, None)) = []"
    by code_simp+
  then show "res_stdout (demo_docker sent (LIST_VOLUMES, None)) = ''mt-vol-j1''" "res_stdout (demo_docker sent (LIST_MOUNTS, None)) = []"
    "res_stdout (demo_docker sent (QUERY_APPS, None)) = []" "res_stdout (demo_docker sent (QUERY_WEDGE, None)) = []"
    by (simp_all only: demo_docker_sent [of sent])
  show "res_stdout (demo_docker sent (state_command name, None)) = ''{}''"
    by (simp add: demo_docker_def demo_result_def state_command_def DEVICE_PROBE_def LIST_VOLUMES_def)
qed

definition demo_small :: JobSpec where
  "demo_small = demo_spec\<lparr>js_container_ports := []\<rparr>"


text \<open>On such a rig the value of a computation does not depend on what was sent before.\<close>

definition gives :: "('s, 'a) act \<Rightarrow> 'a \<Rightarrow> bool" where
  "gives m x \<longleftrightarrow> (\<forall>w. snd (m w) = Inr x)"

lemma gives_bnd: "gives m x \<Longrightarrow> gives (f x) y \<Longrightarrow> gives (bnd m f) y"
  by (auto simp: gives_def bnd_def split: prod.splits) (metis snd_conv sum.simps(6))

lemma gives_andthen: "gives m (Inr x) \<Longrightarrow> gives (f x) y \<Longrightarrow> gives (andthen m f) y"
  unfolding andthen_def by (rule gives_bnd [where x = "Inr x"]) (simp_all only: sum.case)

lemma gives_ret: "gives (ret x) x" "gives (modify u) ()"
  by (simp_all add: gives_def)

lemma gives_step: "gives (at_step t) ()" "gives (go x) (Inr x)"
  by (simp_all add: gives_def at_step_def go_def)

lemma gives_run: "gives (run demo_docker c) (demo_docker [] (c, None))"
  using demo_docker_sent by (simp add: gives_def)

lemma gives_sweep: "gives (wedge_sweep demo_docker) (no_sweep [])"
proof -
  have "parse_query [] = []" "strip [] = []" by code_simp+
  then have "gives (query_wedged demo_docker) ([], [])"
    unfolding query_wedged_def by (intro gives_bnd [OF gives_run]) (simp add: demo_docker_out gives_def)
  then show ?thesis unfolding wedge_sweep_def wedged_gpus_def by (intro gives_bnd) (auto simp: gives_def)
qed

lemma gives_each1: "gives (f x) y \<Longrightarrow> gives (each f [x]) [y]"
  unfolding each.simps by (intro gives_bnd [where x = y] gives_bnd [where x = "[]"] gives_ret)

lemma gives_stale: "gives (remove_stale_volumes demo_docker) [''mt-vol-j1'']"
proof -
  let ?f = "\<lambda>name. if name \<in> {} then ret [] else bnd (vol_destroy demo_docker name) (\<lambda>(ok, _). ret (if ok then [name] else []))"
  have 1: "filter vol_valid (map strip (splitlines ''mt-vol-j1'')) = [''mt-vol-j1'']" "mounts_of [] = {}" "vol_valid ''mt-vol-j1''"
    by code_simp+
  have "gives (vol_destroy demo_docker ''mt-vol-j1'') (True, [])"
    unfolding vol_destroy_def using 1(3) by (simp del: act_simps) (intro gives_bnd [OF gives_run], simp add: gives_def)
  then have "gives (?f ''mt-vol-j1'') [''mt-vol-j1'']" by (simp del: act_simps) (erule gives_bnd, simp add: gives_def)
  then have e: "gives (each ?f [''mt-vol-j1'']) [[''mt-vol-j1'']]" by (rule gives_each1)
  have l: "gives (list_ours demo_docker) [''mt-vol-j1'']" "gives (mounted_volumes demo_docker) (Some {})"
    unfolding list_ours_def mounted_volumes_def 1(1,2) [symmetric]
    by (intro gives_bnd [OF gives_run]; simp only: demo_docker_out demo_docker_ok simp_thms if_False gives_ret)+
  show ?thesis unfolding remove_stale_volumes_def
    by (intro gives_bnd [OF l(1)] gives_bnd [OF l(2)]) (simp only: option.case, intro gives_bnd [OF e], simp add: gives_def)
qed

abbreviation demo_env :: CreateEnv where
  "demo_env \<equiv> demo_create_env demo_docker"

lemma demo_env_rig [simp]: "ce_rig demo_env = demo_docker" "ce_cancelled demo_env = (\<lambda>_. False)" "ce_records demo_env = False"
  "ce_store demo_env = False" "ce_tries demo_env = 1" "ce_polls demo_env = 1"
  by (simp_all add: demo_create_env_def)

lemma gives_destroy: "\<exists>d. dr_ok d \<and> gives (destroy demo_docker ''mt-j1'' grace [] False [] False False :: (CreateHost, _) act) d"
proof -
  have 1: "container_ok ''mt-j1''" by code_simp
  let ?d = "\<lparr>dr_ok = True, dr_reason = [], dr_retry_later = False,
     dr_steps = [(''stop'', PBool True)] @ [(''remove'', PBool True)] @ [] @ [(''gpu_wedge'', PDict (SweepResult_payload (no_sweep [])))] @ [] @
        [(''volumes'', PDict (dict_of []))]\<rparr>"
  have "gives (destroy demo_docker ''mt-j1'' grace [] False [] False False :: (CreateHost, _) act) ?d"
    unfolding destroy_def using 1
    by (simp only: if_True if_False not_True_eq_False)
      (rule gives_bnd [OF gives_run], simp only: Let_def demo_docker_ok if_False simp_thms, rule gives_bnd [OF gives_run],
       simp del: act_simps, rule gives_bnd [OF gives_sweep], simp add: gives_def ok_or_def)
  then show ?thesis by (intro exI [of _ ?d]) simp
qed

lemma gives_checkpoint: "gives (checkpoint demo_env j) ()"
  by (simp add: gives_def checkpoint_def bnd_def)

lemma gives_prepare:
  assumes "js_container_ports s = []" "js_ports s = []"
  shows "gives (create_prepare demo_env s) (Inr s)"
proof -
  have p: "gives (reserve_ports demo_docker s) ([], [])"
    using assms by (simp add: reserve_ports_def gives_def)
  have "s\<lparr>js_ports := []\<rparr> = s" using assms(2) by simp
  then show ?thesis unfolding create_prepare_def demo_env_rig
    by (intro gives_bnd [OF gives_checkpoint] gives_bnd [OF gives_step(1)] gives_bnd [OF p]) 
      (simp only: prod.case simp_thms if_False if_True demo_docker_ok, intro gives_bnd [OF gives_step(1)] gives_bnd [OF gives_run],
       simp only: simp_thms if_False demo_docker_ok,
       intro gives_bnd [OF gives_checkpoint] gives_bnd [OF gives_step(1)] gives_bnd [OF gives_run] gives_bnd [OF gives_stale] gives_step(2))
qed

definition demo_again :: JobSpec where
  "demo_again = demo_small\<lparr>js_volumes := map (\<lambda>v. v\<lparr>vs_create := False\<rparr>) (js_volumes demo_small), js_devices := []\<rparr>"

lemma gives_devices: "\<exists>ds. gives (create_devices demo_env demo_again :: (CreateHost, _) act) (Inr (demo_again\<lparr>js_devices := ds\<rparr>))"
proof -
  let ?us = "js_gpu_uuids demo_again" and ?wn = "js_whole_node demo_again"
  have "snd (projr (snd (device_nodes demo_docker ?us ?wn \<lparr>w_sent = []\<rparr>))) = []" "\<not> isl (snd (device_nodes demo_docker ?us ?wn \<lparr>w_sent = []\<rparr>))"
    by code_simp+
  then obtain ds where d: "snd (device_nodes demo_docker ?us ?wn \<lparr>w_sent = []\<rparr>) = Inr (ds, [])"
    by (cases "snd (device_nodes demo_docker ?us ?wn \<lparr>w_sent = []\<rparr>)") (auto simp: prod_eq_iff)
  have "gives (device_nodes demo_docker ?us ?wn :: (CreateHost, _) act) (ds, [])"
    using d unfolding device_nodes_def
    by (intro gives_bnd [OF gives_run]) (simp add: bnd_def gives_def)
  then have "gives (create_devices demo_env demo_again :: (CreateHost, _) act) (Inr (demo_again\<lparr>js_devices := ds\<rparr>))"
    unfolding create_devices_def demo_env_rig by (rule gives_bnd) (simp add: gives_step del: act_simps)
  then show ?thesis by blast
qed

lemma gives_run_command:
  assumes "js_volumes s = js_volumes demo_again"
  shows "\<exists>c. gives (run_command s :: (CreateHost, string) act) c"
proof -
  have "vol_valid ''mt-vol-j1''" "path_ok ''/data''" by code_simp+
  then have "\<exists>m. gives (mount_args (hd (js_volumes demo_again)) :: (CreateHost, _) act) m"
    by (simp add: gives_def mount_args_def vol_require_def require_path_def demo_again_def demo_small_def demo_spec_def bnd_def)
  then obtain m where m: "gives (mount_args (hd (js_volumes demo_again)) :: (CreateHost, _) act) m" by blast
  have v: "js_volumes s = [hd (js_volumes demo_again)]" using assms by (simp add: demo_again_def demo_small_def demo_spec_def)
  have "gives (run_command s :: (CreateHost, _) act) (join '' '' (map shlex_quote (run_options s (concat [m]) @ [js_image s] @ run_tail s)))"
    unfolding run_command_def v by (intro gives_bnd [OF gives_each1 [of mount_args, OF m]] gives_ret)
  then show ?thesis by blast
qed

lemma gives_launch:
  assumes "gives (run_command s :: (CreateHost, string) act) c"
  shows "gives (create_launch demo_env s :: (CreateHost, CreateResult + unit) act) (Inr ())"
proof -
  have o: "rev (splitlines (strip ''{}'')) = [''{}'']" by code_simp
  have st: "gives (state_of demo_docker (ce_loads demo_env) n) (Some [(''Running'', PBool True)])" for n
    unfolding state_of_def
    by (rule gives_bnd [OF gives_run], simp only: demo_docker_out demo_docker_ok o) (simp add: gives_def demo_create_env_def)
  have w: "gives (wait_running demo_docker (ce_loads demo_env) n 1 []) (True, [])" for n
    unfolding One_nat_def wait_running.simps by (rule gives_bnd [OF st]) (simp add: gives_def dget_def)
  have d: "gives (docker_run demo_docker s 1 :: (CreateHost, _) act) (True, [])"
    unfolding docker_run_def One_nat_def docker_run_loop.simps
    by (intro gives_bnd [OF assms] gives_bnd [OF gives_run]) (simp add: port_busy_def run_verdict_def gives_def)
  have p: "gives (remove_probe_containers demo_docker) ()"
    unfolding remove_probe_containers_def by (intro gives_bnd [OF gives_run] gives_ret)
  show ?thesis unfolding create_launch_def demo_env_rig
    by (intro gives_bnd [OF p] gives_bnd [OF gives_checkpoint] gives_bnd [OF gives_step(1)] gives_bnd [OF d])
      (simp only: prod.case simp_thms if_False, intro gives_bnd [OF gives_ret(2)] gives_bnd [OF w], simp only: prod.case simp_thms if_False gives_step)
qed

lemma gives_body: "\<exists>ports. gives (create_body demo_env demo_again [demo_image] ''r'' :: (CreateHost, _) act) (Inr ports)"
proof -
  obtain ds where d: "gives (create_devices demo_env demo_again :: (CreateHost, _) act) (Inr (demo_again\<lparr>js_devices := ds\<rparr>))"
    using gives_devices by blast
  let ?s = "demo_again\<lparr>js_devices := ds\<rparr>"
  obtain c where c: "gives (run_command ?s :: (CreateHost, _) act) c" using gives_run_command [of ?s] by auto
  have "job_problems demo_again [demo_image] = []" by code_simp
  moreover have vs: "list_all (\<lambda>v. \<not> vs_create v \<and> \<not> vs_encrypted v) (js_volumes demo_again)"
    "js_container_ports demo_again = []" "js_ports demo_again = []" "js_power_caps demo_again = []"
    by (simp_all add: demo_again_def demo_small_def demo_spec_def)
  ultimately have v: "gives (create_validate demo_env demo_again [demo_image]) (Inr [])"
    by (simp add: create_validate_def list_ex_iff list_all_iff gives_step del: act_simps)
  have cv: "gives (create_volumes demo_docker (js_volumes demo_again)) (Inr ())"
    "gives (create_mounts demo_env ?s [] (js_volumes ?s)) (Inr ())"
    by (simp_all add: demo_again_def demo_small_def demo_spec_def gives_step del: act_simps)
  have pw: "gives (create_power demo_env ?s) (Inr ())" "gives (create_record demo_env ?s ''r'') (Inr ())"
    using vs by (simp_all add: create_power_def gives_step del: act_simps)
      (simp add: create_record_def, intro gives_bnd [OF gives_checkpoint] gives_bnd [OF gives_step(1)] gives_bnd [OF gives_ret(1)] gives_step)
  have "gives (create_body demo_env demo_again [demo_image] ''r'' :: (CreateHost, _) act) (Inr (js_ports ?s))"
    unfolding create_body_def demo_env_rig
    by (rule gives_andthen [OF v], rule gives_andthen [OF gives_prepare [OF vs(2,3)]], rule gives_bnd [OF gives_step(1)],
        rule gives_andthen [OF cv(1)], rule gives_bnd [OF gives_step(1)], rule gives_andthen [OF d],
        rule gives_bnd [OF gives_step(1)], rule gives_andthen [OF pw(1)], rule gives_andthen [OF gives_launch [OF c]],
        rule gives_bnd [OF gives_step(1)], rule gives_andthen [OF cv(2)], rule gives_andthen [OF pw(2)], rule gives_step(2))
  then show ?thesis by blast
qed

lemma gives_create:
  assumes "gives (create_body demo_env s al r :: (CreateHost, _) act) (Inr ports)"
  shows "gives (create demo_env s al r :: (CreateHost, _) act) \<lparr>cr_ok = True, cr_step = ''done'', cr_reason = [], cr_container = container_name s, cr_ports = ports,
               cr_diagnostics = [], cr_elapsed_ms = ce_elapsed_ms demo_env\<rparr>"
  unfolding gives_def
proof
  fix w :: CreateHost
  let ?w = "w\<lparr>pg_step := ''validate'', pg_volumes := [], pg_capped := False, pg_launched := False\<rparr>"
  obtain w1 where "create_body demo_env s al r ?w = (w1, Inr (Inr ports))"
    using assms [unfolded gives_def, rule_format, of ?w] by (cases "create_body demo_env s al r ?w") simp
  then show "snd (create demo_env s al r w) = Inr \<lparr>cr_ok = True, cr_step = ''done'', cr_reason = [], cr_container = container_name s,
      cr_ports = ports, cr_diagnostics = [], cr_elapsed_ms = ce_elapsed_ms demo_env\<rparr>"
    by (simp add: create_def attempt_def settle_def bnd_def)
qed

lemma demo_recreated: "\<exists>w' res. recreate demo_env demo_small [demo_image] ''r'' (w :: CreateHost) = (w', Inr res) \<and> cr_ok res"
proof -
  have e: "demo_env\<lparr>ce_cancelled := \<lambda>_. False\<rparr> = demo_env" by (simp add: demo_create_env_def)
  have nm: "container_name demo_again = ''mt-j1''" by code_simp
  obtain d where d: "dr_ok d" "gives (destroy demo_docker ''mt-j1'' (stop_grace demo_again) [] False [] False False :: (CreateHost, _) act) d"
    using gives_destroy by blast
  obtain ports where b: "gives (create_body demo_env demo_again [demo_image] ''r'' :: (CreateHost, _) act) (Inr ports)" using gives_body by blast
  let ?r = "\<lparr>cr_ok = True, cr_step = ''done'', cr_reason = [], cr_container = container_name demo_again, cr_ports = ports,
               cr_diagnostics = [], cr_elapsed_ms = ce_elapsed_ms demo_env\<rparr>"
  have "gives (create demo_env demo_again [demo_image] ''r'' :: (CreateHost, _) act) ?r"
    using gives_create [OF b] by simp
  then have "gives (recreate demo_env demo_small [demo_image] ''r'' :: (CreateHost, _) act) ?r"
    unfolding recreate_def Let_def demo_again_def [symmetric] e nm demo_env_rig
    by (intro gives_bnd [OF d(2)]) (simp add: d(1))
  then have "snd (recreate demo_env demo_small [demo_image] ''r'' w) = Inr ?r" unfolding gives_def by blast
  then show ?thesis by (intro exI [of _ "fst (recreate demo_env demo_small [demo_image] ''r'' w)"] exI [of _ ?r]) (simp add: prod_eq_iff)
qed

section \<open>Properties\<close>

text \<open>C4: A creation that reports a failure leaves nothing behind. Every \<^verbatim>\<open>docker run\<close> it sent that the rig
  answered with success is followed by the forced removal of the container, and every successful
  creation of a volume by the removal of that volume, whichever stage failed or was cancelled and
  whatever the rig answered to the other commands.\<close>

theorem failed_creation_undone:
  assumes "create env s allowlist rig_id w = (w', Inr res)" "\<not> cr_ok res"
    and "length (w_sent w) \<le> i" "i < length (w_sent w')"
    and "res_is_ok (ce_rig env (take i (w_sent w')) (w_sent w' ! i))"
  shows "(is_run (w_sent w' ! i) \<longrightarrow> (force_remove (container_name s), None) \<in> set (drop (Suc i) (w_sent w'))) \<and>
    (\<forall>n. creates n (w_sent w' ! i) \<longrightarrow> (remove_command n, None) \<in> set (drop (Suc i) (w_sent w')))"
proof -
  let ?h = "ce_rig env" and ?k = "length (w_sent w)"
  obtain w1 where b: "attempt (create_body env s allowlist rig_id) (caught s)
       (w\<lparr>pg_step := ''validate'', pg_volumes := [], pg_capped := False, pg_launched := False\<rparr>) = (w1, Inr (Inl res))"
    and st: "settle env s False w1 = (w', Inr ())" using create_failed [OF assms(1,2)] .
  obtain cs where cs: "w_sent w' = w_sent w1 @ cs" "list_all quiet cs" "undone (container_name s) w1 cs"
    using settle_undoes [OF st] by blast
  have "keeps ?h ?k (attempt (create_body env s allowlist rig_id) (caught s))"
    by (intro keeps_attempt keeps_body keeps_calm calm_stages)
  moreover have "tracked ?h ?k (w\<lparr>pg_step := ''validate'', pg_volumes := [], pg_capped := False, pg_launched := False\<rparr>)"
    by (simp add: tracked_def done_at_def)
  ultimately have t: "tracked ?h ?k w1" using b unfolding keeps_def by (metis fst_conv)
  have here: "done_at ?h ?k P (w_sent w1) i \<and> i < length (w_sent w1)"
    if "P (w_sent w' ! i)" "\<And>c. quiet c \<Longrightarrow> \<not> P c" for P
  proof -
    have "list_all (\<lambda>c. \<not> P c) cs" using cs(2) that(2) by (simp add: list_all_iff)
    then have "done_at ?h ?k P (w_sent w1) i"
      using assms(3-5) that(1) done_at_quiet [of P cs ?h ?k "w_sent w1" i] by (simp add: cs(1) done_at_def)
    then show ?thesis by (simp add: done_at_def)
  qed
  have sub: "i < length (w_sent w1) \<Longrightarrow> set cs \<subseteq> set (drop (Suc i) (w_sent w'))"
    by (simp add: cs(1))
  show ?thesis
  proof (intro conjI allI impI)
    assume "is_run (w_sent w' ! i)"
    then show "(force_remove (container_name s), None) \<in> set (drop (Suc i) (w_sent w'))"
      using here [of is_run] quiet_not t cs(3) sub unfolding tracked_def undone_def by blast
  next
    fix n assume "creates n (w_sent w' ! i)"
    then show "(remove_command n, None) \<in> set (drop (Suc i) (w_sent w'))"
      using here [of "creates n"] quiet_not t cs(3) sub unfolding tracked_def undone_def by blast
  qed
qed

theorem failed_creation_undone_witness:
  "\<exists>w' res. create (demo_create_env (\<lambda>sent c. demo_result [])) demo_small [demo_image] ''r'' demo_create_host = (w', Inr res) \<and>
     \<not> cr_ok res \<and> creates ''mt-vol-j1'' (w_sent w' ! 4) \<and> (remove_command ''mt-vol-j1'', None) \<in> set (drop 5 (w_sent w'))"
proof -
  let ?env = "demo_create_env (\<lambda>sent c. demo_result [])"
  let ?run = "create ?env demo_small [demo_image] ''r'' demo_create_host"
  have "case ?run of (w', Inl e) \<Rightarrow> False
      | (w', Inr res) \<Rightarrow> \<not> cr_ok res \<and> length (w_sent w') = 9 \<and> fst (w_sent w' ! 4) = create_text (hd (js_volumes demo_small))"
    by code_simp
  then obtain w' res where r: "?run = (w', Inr res)" "\<not> cr_ok res"
    and w: "length (w_sent w') = 9" "fst (w_sent w' ! 4) = create_text (hd (js_volumes demo_small))"
    by (auto split: prod.splits sum.splits)
  have c: "creates ''mt-vol-j1'' (w_sent w' ! 4)" 
    unfolding creates_def w(2) by (intro exI [of _ "hd (js_volumes demo_small)"]) (simp add: demo_small_def demo_spec_def)
  have "res_is_ok (ce_rig ?env (take 4 (w_sent w')) (w_sent w' ! 4))"
    by (simp add: demo_create_env_def demo_result_def res_is_ok_def)
  then show ?thesis
    using failed_creation_undone [OF r, of 4] w(1) c r by (simp add: demo_create_host_def)
qed

text \<open>Destroying a container removes no volume before the container is gone. When \<^verbatim>\<open>destroy\<close> sends the
  removal of a volume, the volume is one it was asked to remove and has an accepted name, and the rig
  has answered the removal of the container with success or that there is no such container.\<close>

theorem volumes_removed_after_container:
  assumes "destroy h name grace job_id has_records volume_names has_store prune w = (w', r)"
    and "w_sent w' = w_sent w @ cs" "(remove_command n, None) \<in> set cs"
  shows "n \<in> set volume_names \<and> vol_valid n \<and>
    (let rm = h (w_sent w @ [(stop_command grace name, None)]) (force_remove name, None)
     in res_is_ok rm \<or> contains_str ''no such container'' (lower (res_stderr rm)))"
proof -
  let ?Q = "\<lambda>c. spares c \<or> (\<exists>m \<in> set volume_names. vol_valid m \<and> c = (remove_command m, None))"
  have p: "emits P (restore_job h job_id)" "emits P (wedge_sweep h)" if "\<And>c. spares c \<Longrightarrow> P c" for P
    by (intro emits_restore_job that spares_basics(1), assumption) (intro emits_wedge_sweep that spares_basics(2-4))
  have "emits ?Q (destroy h name grace job_id has_records volume_names has_store prune)"
    unfolding destroy_def Let_def
    by (intro emits_rules p emits_vol_destroy) (auto simp: spares_basics forget_job_def intro!: emits_rules emits_vol_destroy split: prod.splits)
  then have "?Q (remove_command n, None)" 
    using emits_mem [of ?Q] assms by blast
  then have n: "n \<in> set volume_names \<and> vol_valid n"
    using removal_not_spared by auto
  let ?rm = "h (w_sent w @ [(stop_command grace name, None)]) (force_remove name, None)"
  have "res_is_ok ?rm \<or> contains_str ''no such container'' (lower (res_stderr ?rm))"
  proof (rule ccontr)
    assume bad: "\<not> ?thesis"
    let ?w2 = "w\<lparr>w_sent := w_sent w @ [(stop_command grace name, None), (force_remove name, None)]\<rparr>"
    consider "w_sent w' = w_sent w" | "w_sent w' = w_sent w @ [(stop_command grace name, None)]"
      | d where "bnd (wedge_sweep h) (\<lambda>_. ret d) ?w2 = (w', r)"
      using assms(1) bad by (auto simp: destroy_def Let_def bnd_run split: if_splits)
    then have "list_all spares cs"
    proof cases
      case (3 d)
      have "emits spares (bnd (wedge_sweep h) (\<lambda>_. ret d))" by (intro emits_rules p)
      from emitsD [OF this 3] show ?thesis using assms(2) by (auto simp: spares_basics)
    qed (use assms(2) in \<open>simp_all add: spares_basics\<close>)
    then show False using assms(3) removal_not_spared by (auto simp: list_all_iff)
  qed
  then show ?thesis using n by simp
qed

theorem volumes_removed_after_container_witness:
  "\<exists>w' r. destroy (\<lambda>sent c. demo_result []) ''mt-j1'' 10 [] False [''mt-vol-j1''] False False
       \<lparr>w_sent = [], w_records = \<lparr>pr_gpus = [], pr_jobs = [], pr_file = None, pr_writable = True\<rparr>,
        w_store = \<lparr>st_files = [], st_writable = True\<rparr>\<rparr> = (w', r) \<and>
     (remove_command ''mt-vol-j1'', None) \<in> set (w_sent w') \<and> vol_valid ''mt-vol-j1''"
proof -
  let ?run = "destroy (\<lambda>sent c. demo_result []) ''mt-j1'' 10 [] False [''mt-vol-j1''] False False
       \<lparr>w_sent = [], w_records = \<lparr>pr_gpus = [], pr_jobs = [], pr_file = None, pr_writable = True\<rparr>,
        w_store = \<lparr>st_files = [], st_writable = True\<rparr>\<rparr>"
  obtain w' r where d: "?run = (w', r)" by fastforce
  have "container_ok ''mt-j1''" "vol_valid ''mt-vol-j1''" "parse_query [] = []" "strip [] = []" by code_simp+
  then have facts: "container_ok ''mt-j1''" "vol_valid ''mt-vol-j1''" "res_is_ok (demo_result [])" "\<not> transport_failed (demo_result [])"
    and sw: "wedge_sweep (\<lambda>sent c. demo_result []) w =
        (w\<lparr>w_sent := w_sent w @ [(QUERY_APPS, None), (QUERY_WEDGE, None)]\<rparr>, Inr (no_sweep []))"
      for w :: JobHost
    by (simp_all add: demo_result_def res_is_ok_def transport_failed_def wedge_sweep_def wedged_gpus_def query_wedged_def bnd_def)
  have "(remove_command ''mt-vol-j1'', None) \<in> set (w_sent (fst ?run))"
    unfolding destroy_def Let_def by (simp add: facts bnd_run bnd_step [OF sw] vol_destroy_def bnd_step)
  then have m: "(remove_command ''mt-vol-j1'', None) \<in> set (w_sent w')" by (simp only: d fst_conv)
  have "vol_valid ''mt-vol-j1''" using volumes_removed_after_container [OF d _ m] by simp
  then show ?thesis using d m by blast
qed



end
