(* ===== verification/Work_Recovery.thy ===== *)
theory Work_Recovery
  imports Work_Undo Verify_Checks
begin

text \<open>
  Cleaning up a rig: the sweep of what was left behind (\<^verbatim>\<open>validator/storage/sweep.py\<close>), the repair of
  containers that lost their devices (\<^verbatim>\<open>validator/recovery/device_cgroup.py\<close>) and the scrubbing after a
  teardown (\<^verbatim>\<open>validator/recovery/teardown.py\<close>).
\<close>

section \<open>Teardowns to retry\<close>

text \<open>The dictionary of pending teardowns and the file it is written to.\<close>

record TeardownRetries =
  tr_pending :: "(string \<times> pydict) list"
  tr_file :: "pyval option"
  tr_writable :: bool

record SweepHost = JobHost +
  w_retries :: TeardownRetries

definition retries_load :: "TeardownRetries \<Rightarrow> TeardownRetries pyres" where
  "retries_load t =
     (case tr_file t of
        None \<Rightarrow> Inr t
      | Some data \<Rightarrow>
          rbind (attr_get data ''pending'' PNone) (\<lambda>v.
            case py_or v (PDict []) of
              PDict d \<Rightarrow> rbind (rmap (\<lambda>(k, v). case v of PDict e \<Rightarrow> Inr (k, e) | _ \<Rightarrow> Inl TypeError) d) (\<lambda>p.
                Inr (t\<lparr>tr_pending := p\<rparr>))
            | _ \<Rightarrow> Inl AttributeError))"

definition retries_save :: "('z SweepHost_scheme, unit) act" where
  "retries_save = (\<lambda>w. let t = w_retries w in
     if tr_writable t
     then (w\<lparr>w_retries := t\<lparr>tr_file := Some (PDict [(''pending'', PDict (map (\<lambda>(k, e). (k, PDict e)) (tr_pending t)))])\<rparr>\<rparr>, Inr ())
     else (w, Inl OsError))"

definition retries_add :: "rat \<Rightarrow> string \<Rightarrow> string \<Rightarrow> string \<Rightarrow> string list \<Rightarrow> ('z SweepHost_scheme, unit) act" where
  "retries_add now rig_id name job_id volume_names =
     bnd (gets (\<lambda>w. dget (tr_pending (w_retries w)) name [])) (\<lambda>before.
     bnd (lift (py_int (dget before ''attempts'' (PInt 0)))) (\<lambda>attempts.
     bnd (modify (\<lambda>w. w\<lparr>w_retries := (w_retries w)\<lparr>tr_pending := AList.update name
            [(''rig_id'', PStr rig_id), (''job_id'', PStr job_id), (''volumes'', PList (map PStr volume_names)),
             (''attempts'', PInt (attempts + 1)), (''recorded_at'', PFloat now)] (tr_pending (w_retries w))\<rparr>\<rparr>)) (\<lambda>_.
       retries_save)))"

definition retries_forget :: "string \<Rightarrow> ('z SweepHost_scheme, unit) act" where
  "retries_forget name =
     bnd (gets (\<lambda>w. dhas (tr_pending (w_retries w)) name)) (\<lambda>there.
       if there
       then bnd (modify (\<lambda>w. w\<lparr>w_retries := (w_retries w)\<lparr>tr_pending := AList.delete name (tr_pending (w_retries w))\<rparr>\<rparr>)) (\<lambda>_.
              retries_save)
       else ret ())"

definition for_rig :: "string \<Rightarrow> TeardownRetries \<Rightarrow> (string \<times> pydict) list" where
  "for_rig rig_id t = filter (\<lambda>(name, e). dget e ''rig_id'' PNone = PStr rig_id) (tr_pending t)"

section \<open>The sweep\<close>

definition LIST_OURS :: string where
  "LIST_OURS = ''docker ps -a --no-trunc --filter label='' @ OWNER_LABEL @ '' --format '' @ [CHR 0x27] @ ''{{.ID}}'' @ [CHR 0x09] @
     ''{{.Names}}'' @ [CHR 0x09] @ ''{{.Label '' @ q1 @ ''mt.job'' @ q1 @ ''}}'' @ [CHR 0x09] @ ''{{.State}}'' @ [CHR 0x27]"

definition sweep_containers :: "rig \<Rightarrow> ('z Host_scheme, OwnContainer list \<times> string) act" where
  "sweep_containers h = bnd (run h LIST_OURS) (\<lambda>r. ret (own_containers r))"

definition oc_target :: "OwnContainer \<Rightarrow> string" where
  "oc_target c = str_or (oc_name c) (oc_id c)"

definition STOP_GRACE_FILLER :: int where "STOP_GRACE_FILLER = 15"

definition orphan_volumes :: "string \<Rightarrow> string list" where
  "orphan_volumes job = (if job \<noteq> [] \<and> vol_valid (VOL_PREFIX @ job) then [VOL_PREFIX @ job] else [])"

definition orphan_one ::
  "rig \<Rightarrow> string set \<Rightarrow> bool \<Rightarrow> bool \<Rightarrow> OwnContainer \<Rightarrow> ('z JobHost_scheme, string list \<times> string list) act" where
  "orphan_one h running_jobs has_records has_store c =
     (if oc_job c \<noteq> [] \<and> oc_job c \<in> running_jobs then ret ([], [])
      else bnd (destroy h (oc_target c) STOP_GRACE_FILLER (oc_job c) has_records (orphan_volumes (oc_job c)) has_store False) (\<lambda>d.
        ret (if dr_ok d then ([oc_target c], []) else ([], [oc_target c @ '': '' @ DestroyResult.dr_reason d]))))"

definition orphaned_containers ::
  "rig \<Rightarrow> string set \<Rightarrow> bool \<Rightarrow> bool \<Rightarrow> ('z JobHost_scheme, string list \<times> string list) act" where
  "orphaned_containers h running_jobs has_records has_store =
     bnd (sweep_containers h) (\<lambda>(ours, e).
       if e \<noteq> [] then ret ([], [e])
       else bnd (each (orphan_one h running_jobs has_records has_store) ours) (\<lambda>rs.
         ret (concat (map fst rs), concat (map snd rs))))"

definition DANGLING :: string where "DANGLING = ''docker images -q --filter dangling=true''"

definition dangling_images :: "rig \<Rightarrow> ('z Host_scheme, nat) act" where
  "dangling_images h =
     bnd (run h DANGLING) (\<lambda>listing.
       if \<not> res_is_ok listing then ret 0
       else (let ids = filter (\<lambda>l. l \<noteq> []) (map strip (splitlines (res_stdout listing))) in
             if ids = [] then ret 0
             else bnd (run h (DANGLING @ '' | xargs -r docker image rm -f'')) (\<lambda>_. ret (length ids))))"

definition entry_volumes :: "pydict \<Rightarrow> string list pyres" where
  "entry_volumes e = rbind (iter_field e ''volumes'') (\<lambda>vs. Inr (map py_str vs))"

definition retry_one ::
  "rig \<Rightarrow> rat \<Rightarrow> string \<Rightarrow> bool \<Rightarrow> bool \<Rightarrow> string \<times> pydict \<Rightarrow> ('z SweepHost_scheme, string list \<times> string list) act" where
  "retry_one h now rig_id has_records has_store = (\<lambda>(name, e).
     bnd (lift (entry_volumes e)) (\<lambda>vols.
     bnd (destroy h name STOP_GRACE_FILLER (str_or_empty e ''job_id'') has_records vols has_store False) (\<lambda>d.
       if dr_ok d then bnd (retries_forget name) (\<lambda>_. ret ([name], []))
       else bnd (retries_add now rig_id name (str_or_empty e ''job_id'') vols) (\<lambda>_.
              ret ([], [name @ '': '' @ DestroyResult.dr_reason d])))))"

definition retry_teardowns ::
  "rig \<Rightarrow> rat \<Rightarrow> string \<Rightarrow> bool \<Rightarrow> bool \<Rightarrow> ('z SweepHost_scheme, string list \<times> string list) act" where
  "retry_teardowns h now rig_id has_records has_store =
     bnd (gets (\<lambda>w. for_rig rig_id (w_retries w))) (\<lambda>es.
     bnd (each (retry_one h now rig_id has_records has_store) es) (\<lambda>rs.
       ret (concat (map fst rs), concat (map snd rs))))"

record SweepReport =
  sp_stale_volumes :: "string list"
  sp_orphaned_containers :: "string list"
  sp_dangling_images :: nat
  sp_retried_teardowns :: "string list"
  sp_failed_teardowns :: "string list"
  sp_power_raised :: "string list"
  sp_errors :: "string list"

definition SweepReport_payload :: "SweepReport \<Rightarrow> pydict" where
  "SweepReport_payload s =
     [(''stale_volumes'', PList (map PStr (sp_stale_volumes s))),
      (''orphaned_containers'', PList (map PStr (sp_orphaned_containers s))),
      (''dangling_images'', PInt (int (sp_dangling_images s))),
      (''retried_teardowns'', PList (map PStr (sp_retried_teardowns s))),
      (''failed_teardowns'', PList (map PStr (sp_failed_teardowns s))),
      (''power_raised'', PList (map PStr (sp_power_raised s))), (''errors'', PList (map PStr (sp_errors s)))]"

definition storage_sweep ::
  "rig \<Rightarrow> rat \<Rightarrow> string \<Rightarrow> string set \<Rightarrow> bool \<Rightarrow> bool \<Rightarrow> bool \<Rightarrow> string list \<Rightarrow> ('z SweepHost_scheme, SweepReport) act" where
  "storage_sweep h now rig_id running_jobs has_retries has_records has_store gpu_uuids =
     bnd (if has_retries then retry_teardowns h now rig_id has_records has_store else ret ([], [])) (\<lambda>(retried, failed).
     bnd (orphaned_containers h running_jobs has_records has_store) (\<lambda>(orphans, errors).
     bnd (remove_stale_volumes h) (\<lambda>stale.
     bnd (dangling_images h) (\<lambda>dangling.
     bnd (if gpu_uuids \<noteq> [] then raise_low_limits h gpu_uuids else ret []) (\<lambda>raised.
       ret \<lparr>sp_stale_volumes = stale, sp_orphaned_containers = orphans, sp_dangling_images = dangling,
            sp_retried_teardowns = retried, sp_failed_teardowns = failed, sp_power_raised = raised, sp_errors = errors\<rparr>)))))"

section \<open>Containers that lost their devices\<close>

definition LOSS_MARKERS :: "string list" where
  "LOSS_MARKERS = [''operation not permitted'', ''eperm'', ''unknown error'', ''failed to initialize nvml'']"

definition looks_wiped :: "int \<Rightarrow> string \<Rightarrow> string \<Rightarrow> bool" where
  "looks_wiped exit_code stdout stderr =
     (if exit_code = 0 \<and> contains_str ''GPU 0'' stdout then False
      else list_ex (\<lambda>m. contains_str m (lower (stdout @ newline @ stderr))) LOSS_MARKERS)"

definition device_probe :: "rig \<Rightarrow> OwnContainer \<Rightarrow> ('z Host_scheme, bool option) act" where
  "device_probe h c =
     bnd (run h (''docker exec '' @ shlex_quote (oc_target c) @ '' nvidia-smi -L'')) (\<lambda>r.
       ret (if transport_failed r then None else Some (looks_wiped (res_exit_code r) (res_stdout r) (res_stderr r))))"

fun probe_each :: "rig \<Rightarrow> OwnContainer list \<Rightarrow> OwnContainer list \<Rightarrow> ('z Host_scheme, OwnContainer list \<times> string) act" where
  "probe_each h [] wiped = ret (wiped, [])"
| "probe_each h (c # cs) wiped =
     bnd (device_probe h c) (\<lambda>o'. case o' of
       None \<Rightarrow> ret (wiped, ''probe transport failed'')
     | Some b \<Rightarrow> probe_each h cs (if b then wiped @ [c] else wiped))"

definition detect :: "rig \<Rightarrow> ('z Host_scheme, OwnContainer list \<times> OwnContainer list \<times> string) act" where
  "detect h =
     bnd (sweep_containers h) (\<lambda>(ours, e).
       if e \<noteq> [] then ret ([], [], e)
       else (let live = filter (\<lambda>c. oc_state c \<in> {[], ''running''}) ours in
             bnd (probe_each h live []) (\<lambda>(wiped, e). ret (live, wiped, e))))"

definition probe_verdict :: "string \<Rightarrow> bool option \<Rightarrow> bool \<times> string" where
  "probe_verdict what again =
     (if again = Some False then (True, []) else (False, ''devices still unreachable after '' @ what))"

definition repair ::
  "CreateEnv \<Rightarrow> OwnContainer \<Rightarrow> string list \<Rightarrow> ('z CreateHost_scheme, bool \<times> string) act" where
  "repair env c allowlist =
     bnd (if ce_store env \<and> oc_job c \<noteq> []
          then bnd (gets (\<lambda>w. store_load (oc_job c) (w_store w))) lift else ret None) (\<lambda>loaded.
       case loaded of
         None \<Rightarrow>
           bnd (run (ce_rig env) (''docker restart -t 30 '' @ shlex_quote (oc_target c))) (\<lambda>r.
             if \<not> res_is_ok r
             then ret (False, ''restart failed: '' @ strip (str_or (res_error r) (stderr_tail 200 r)))
             else bnd (device_probe (ce_rig env) c) (\<lambda>again. ret (probe_verdict ''restart'' again)))
       | Some (s, rig_id) \<Rightarrow>
           bnd (recreate env s allowlist rig_id) (\<lambda>res.
             if \<not> cr_ok res then ret (False, cr_step res @ '': '' @ cr_reason res)
             else bnd (device_probe (ce_rig env) \<lparr>oc_id = [], oc_name = container_name s, oc_job = js_job_id s, oc_state = ''running''\<rparr>)
                    (\<lambda>again. ret (probe_verdict ''recreation'' again))))"

record RepairReport =
  rp_checked :: nat
  rp_wiped :: "string list"
  rp_repaired :: "string list"
  rp_failed :: "(string \<times> string) list"
  rp_skipped :: string

definition RepairReport_payload :: "RepairReport \<Rightarrow> pydict" where
  "RepairReport_payload r =
     [(''checked'', PInt (int (rp_checked r))), (''wiped'', PList (map PStr (rp_wiped r))),
      (''repaired'', PList (map PStr (rp_repaired r))),
      (''failed'', PDict (map (\<lambda>(k, v). (k, PStr v)) (rp_failed r))), (''skipped'', PStr (rp_skipped r))]"

definition note_repair :: "OwnContainer \<Rightarrow> bool \<times> string \<Rightarrow> RepairReport \<Rightarrow> RepairReport" where
  "note_repair c outcome report =
     (if fst outcome then report\<lparr>rp_repaired := rp_repaired report @ [oc_target c]\<rparr>
      else report\<lparr>rp_failed := AList.update (oc_target c) (snd outcome) (rp_failed report)\<rparr>)"

definition device_sweep :: "CreateEnv \<Rightarrow> string list \<Rightarrow> ('z CreateHost_scheme, RepairReport) act" where
  "device_sweep env allowlist =
     bnd (detect (ce_rig env)) (\<lambda>(live, wiped, e).
       (let report = \<lparr>rp_checked = length live, rp_wiped = map oc_target wiped, rp_repaired = [], rp_failed = [], rp_skipped = e\<rparr> in
        if e \<noteq> [] then ret report
        else bnd (each (\<lambda>c. repair env c allowlist) wiped) (\<lambda>outcomes.
          ret (fold (\<lambda>(c, o'). note_repair c o') (zip wiped outcomes) report))))"

section \<open>After a teardown\<close>

definition SCRUB_MARKER :: string where "SCRUB_MARKER = ''scrubbed_bytes=''"

definition SCRUB_SNIPPET :: string where
  "SCRUB_SNIPPET = join newline
     [''import ctypes,sys'',
      ''chunk=268435456'',
      ''def runtime():'',
      ''    for name in ('' @ [CHR 0x27] @ ''libcudart.so'' @ [CHR 0x27] @ '','' @ [CHR 0x27] @ ''libcudart.so.12'' @ [CHR 0x27] @ '','' @ [CHR 0x27] @ ''libcudart.so.11.0'' @ [CHR 0x27] @ ''):'',
      ''        try: return ctypes.CDLL(name)'',
      ''        except OSError: pass'',
      ''    return None'',
      ''total=0'',
      ''rt=runtime()'',
      ''if rt is not None:'',
      ''    assert rt.cudaSetDevice(0)==0,'' @ [CHR 0x27] @ ''cudaSetDevice'' @ [CHR 0x27],
      ''    held=[]'',
      ''    while True:'',
      ''        p=ctypes.c_void_p()'',
      ''        if rt.cudaMalloc(ctypes.byref(p),ctypes.c_size_t(chunk))!=0: break'',
      ''        assert rt.cudaMemset(p,0,ctypes.c_size_t(chunk))==0,'' @ [CHR 0x27] @ ''cudaMemset'' @ [CHR 0x27],
      ''        held.append(p); total+=chunk'',
      ''    assert rt.cudaDeviceSynchronize()==0,'' @ [CHR 0x27] @ ''cudaDeviceSynchronize'' @ [CHR 0x27],
      ''    for p in held: rt.cudaFree(p)'',
      ''    rt.cudaDeviceReset()'',
      ''else:'',
      ''    cu=ctypes.CDLL('' @ [CHR 0x27] @ ''libcuda.so.1'' @ [CHR 0x27] @ '')'',
      ''    assert cu.cuInit(0)==0,'' @ [CHR 0x27] @ ''cuInit'' @ [CHR 0x27],
      ''    d=ctypes.c_int(); assert cu.cuDeviceGet(ctypes.byref(d),0)==0,'' @ [CHR 0x27] @ ''cuDeviceGet'' @ [CHR 0x27],
      ''    c=ctypes.c_void_p(); assert cu.cuCtxCreate_v2(ctypes.byref(c),0,d)==0,'' @ [CHR 0x27] @ ''cuCtxCreate'' @ [CHR 0x27],
      ''    held=[]'',
      ''    while True:'',
      ''        p=ctypes.c_uint64()'',
      ''        if cu.cuMemAlloc_v2(ctypes.byref(p),ctypes.c_size_t(chunk))!=0: break'',
      ''        assert cu.cuMemsetD8_v2(p,ctypes.c_ubyte(0),ctypes.c_size_t(chunk))==0,'' @ [CHR 0x27] @ ''cuMemsetD8'' @ [CHR 0x27],
      ''        held.append(p); total+=chunk'',
      ''    assert cu.cuCtxSynchronize()==0,'' @ [CHR 0x27] @ ''cuCtxSynchronize'' @ [CHR 0x27],
      ''    for p in held: cu.cuMemFree_v2(p)'',
      ''    cu.cuCtxDestroy_v2(c)'',
      ''print('' @ [CHR 0x27] @ ''scrubbed_bytes=%d'' @ [CHR 0x27] @ ''%total)'',
      []]"

text \<open>The number after the first marker that digits follow.\<close>

fun scrub_match :: "string \<Rightarrow> int option" where
  "scrub_match [] = None"
| "scrub_match (c # s) =
     (let rest = drop (length SCRUB_MARKER) (c # s); ds = takeWhile is_digit rest in
      if prefix SCRUB_MARKER (c # s) \<and> ds \<noteq> [] then Some (int (digits_val ds)) else scrub_match s)"

definition scrub_command :: "string \<Rightarrow> string \<Rightarrow> string" where
  "scrub_command uuid python =
     ''CUDA_VISIBLE_DEVICES='' @ shlex_quote uuid @ '' '' @ shlex_quote python @ '' -c '' @ shlex_quote SCRUB_SNIPPET"

definition scrub_vram :: "rig \<Rightarrow> string \<Rightarrow> string \<Rightarrow> ('z Host_scheme, int \<times> string) act" where
  "scrub_vram h uuid python =
     (if \<not> GPU_UUID uuid then ret (0, ''uuid '' @ repr_str uuid @ '' is not accepted'')
      else bnd (run h (scrub_command uuid python)) (\<lambda>r.
        ret (case scrub_match (res_stdout r) of
               Some n \<Rightarrow> if res_is_ok r then (n, []) else (0, str_or (err_text 300 r) ''no scrub marker'')
             | None \<Rightarrow> (0, str_or (err_text 300 r) ''no scrub marker''))))"

record TeardownReport =
  td_scrubbed :: "(string \<times> int) list"
  td_scrub_errors :: "(string \<times> string) list"
  td_volumes_removed :: "string list"
  td_volume_errors :: "(string \<times> string) list"
  td_wedge :: pydict

definition TeardownReport_payload :: "TeardownReport \<Rightarrow> pydict" where
  "TeardownReport_payload t =
     [(''scrubbed'', PDict (map (\<lambda>(k, n). (k, PInt n)) (td_scrubbed t))),
      (''scrub_errors'', PDict (map (\<lambda>(k, e). (k, PStr e)) (td_scrub_errors t))),
      (''volumes_removed'', PList (map PStr (td_volumes_removed t))),
      (''volume_errors'', PDict (map (\<lambda>(k, e). (k, PStr e)) (td_volume_errors t))), (''wedge'', PDict (td_wedge t))]"

definition note_scrub :: "string \<times> int \<times> string \<Rightarrow> TeardownReport \<Rightarrow> TeardownReport" where
  "note_scrub = (\<lambda>(uuid, n, e) t.
     if e \<noteq> [] then t\<lparr>td_scrub_errors := AList.update uuid e (td_scrub_errors t)\<rparr>
     else t\<lparr>td_scrubbed := AList.update uuid n (td_scrubbed t)\<rparr>)"

definition note_volume :: "string \<times> bool \<times> string \<Rightarrow> TeardownReport \<Rightarrow> TeardownReport" where
  "note_volume = (\<lambda>(name, ok, reason) t.
     if ok then t\<lparr>td_volumes_removed := td_volumes_removed t @ [name]\<rparr>
     else t\<lparr>td_volume_errors := AList.update name reason (td_volume_errors t)\<rparr>)"

definition after_teardown :: "rig \<Rightarrow> string list \<Rightarrow> string list \<Rightarrow> string \<Rightarrow> ('z Host_scheme, TeardownReport) act" where
  "after_teardown h gpu_uuids volume_names python =
     bnd (each (\<lambda>u. bnd (scrub_vram h u python) (\<lambda>r. ret (u, r))) gpu_uuids) (\<lambda>scrubs.
     bnd (each (\<lambda>n. bnd (vol_destroy h n) (\<lambda>r. ret (n, r))) volume_names) (\<lambda>removals.
     bnd (wedge_sweep h) (\<lambda>sw.
       (let t0 = \<lparr>td_scrubbed = [], td_scrub_errors = [], td_volumes_removed = [], td_volume_errors = [],
                  td_wedge = SweepResult_payload sw\<rparr>
        in ret (fold note_volume removals (fold note_scrub scrubs t0))))))"

section \<open>Facts\<close>

lemma emits_destroy:
  assumes "\<And>c. prefix ''nvidia-smi '' (fst c) \<Longrightarrow> P c" "\<And>u. P (cure_command u, None)"
    and "P (stop_command grace name, None)" "P (force_remove name, None)" "P (''docker image prune -f'', None)"
    and "\<And>n. n \<in> set vs \<Longrightarrow> vol_valid n \<Longrightarrow> P (remove_command n, None)"
  shows "emits P (destroy h name grace j hr vs hs prune)"
proof -
  have w: "emits P (wedge_sweep h)"
    by (intro emits_wedge_sweep assms(1,2)) (simp_all add: QUERY_APPS_def QUERY_WEDGE_def)
  have r: "emits P (restore_job h j)" by (intro emits_restore_job assms(1))
  have v: "emits P (each (\<lambda>v. bnd (vol_destroy h v) (\<lambda>(ok, reason). ret (v, ok_or ok reason))) vs)"
    by (intro emits_each emits_bnd emits_vol_destroy) (auto intro: assms(6) emits_ret split: prod.splits)
  have f: "emits P (forget_job j)" unfolding forget_job_def by (intro emits_modify) simp
  show ?thesis
    unfolding destroy_def Let_def
    by (intro emits_if emits_bnd emits_run emits_ret assms(3-5) w r v f)
qed

text \<open>The commands that remove a container.\<close>

lemma force_remove_inject [simp]: "force_remove a = force_remove b \<longleftrightarrow> a = b"
  by (auto simp: force_remove_def dest: shlex_quote_inject)

definition removes_only :: "string set \<Rightarrow> cmd \<Rightarrow> bool" where
  "removes_only names c \<longleftrightarrow> (\<forall>m. fst c = force_remove m \<longrightarrow> m \<in> names)"

lemma removes_only_others:
  "prefix ''nvidia-smi '' (fst c) \<Longrightarrow> removes_only N c" "removes_only N (cure_command u, i)"
  "removes_only N (stop_command g n, i)" "removes_only N (''docker image prune -f'', i)" "removes_only N (remove_command v, i)"
  "removes_only N (LIST_OURS, i)"
  by (auto simp: removes_only_def force_remove_def cure_command_def stop_command_def remove_command_def LIST_OURS_def prefix_def)

lemma removes_only_destroy: "name \<in> N \<Longrightarrow> emits (removes_only N) (destroy h name grace j hr vs hs prune)"
  by (rule emits_destroy) (simp_all add: removes_only_others, simp add: removes_only_def)

definition orphan :: "string set \<Rightarrow> OwnContainer \<Rightarrow> bool" where
  "orphan rs c \<longleftrightarrow> \<not> (oc_job c \<noteq> [] \<and> oc_job c \<in> rs)"

lemma removes_only_orphans:
  "emits (removes_only {oc_target c | c. c \<in> set cs \<and> orphan rs c}) (each (orphan_one h rs hr hs) cs)"
proof (intro emits_each)
  fix c assume "c \<in> set cs"
  then show "emits (removes_only {oc_target c | c. c \<in> set cs \<and> orphan rs c}) (orphan_one h rs hr hs c)"
    unfolding orphan_one_def by (auto simp: orphan_def intro!: emits_rules removes_only_destroy)
qed

section \<open>Properties\<close>

text \<open>The sweep never removes the container of a running job. Every container that the sweep of orphans
  removes is one that the rig listed with a job that is not among the running ones, or with no job at
  all, whatever the rig answers while the sweep runs.\<close>

theorem orphan_sweep_spares_running:
  assumes "orphaned_containers h running_jobs has_records has_store w = (w', r)"
    and "w_sent w' = w_sent w @ cs" "(force_remove name, None) \<in> set cs"
  shows "\<exists>c \<in> set (parse_containers (res_stdout (h (w_sent w) (LIST_OURS, None)))).
    oc_target c = name \<and> \<not> (oc_job c \<noteq> [] \<and> oc_job c \<in> running_jobs)"
proof -
  let ?l = "h (w_sent w) (LIST_OURS, None)" and ?w = "w\<lparr>w_sent := w_sent w @ [(LIST_OURS, None)]\<rparr>"
  let ?ours = "parse_containers (res_stdout ?l)"
  let ?N = "{oc_target c | c. c \<in> set ?ours \<and> orphan running_jobs c}"
  let ?go = "bnd (each (orphan_one h running_jobs has_records has_store) ?ours) (\<lambda>rs. ret (concat (map fst rs), concat (map snd rs)))"
  have sent: "(LIST_OURS, None) \<noteq> (force_remove name, None)" by (simp add: LIST_OURS_def force_remove_def)
  consider "w_sent w' = w_sent ?w" | "?go ?w = (w', r)"
    using assms(1) by (auto simp: orphaned_containers_def sweep_containers_def bnd_assoc bnd_run own_containers_def split: if_splits)
  then have "list_all (removes_only ?N) cs"
  proof cases
    case 1
    then show ?thesis using assms(2) by (simp add: removes_only_others)
  next
    case 2
    have "emits (removes_only ?N) ?go" by (intro emits_bnd removes_only_orphans emits_ret)
    from emitsD [OF this 2] show ?thesis using assms(2) by (auto simp: removes_only_others)
  qed
  then have "name \<in> ?N" using assms(3) by (auto simp: list_all_iff removes_only_def)
  then show ?thesis by (auto simp: orphan_def)
qed

definition demo_orphan_rig :: rig where
  "demo_orphan_rig sent c =
     demo_result (if fst c = LIST_OURS then ''c1'' @ [CHR 0x09] @ ''mt-j9'' @ [CHR 0x09] @ ''j9'' @ [CHR 0x09] @ ''running'' else [])"

theorem orphan_sweep_spares_running_witness:
  "\<exists>w' r. orphaned_containers demo_orphan_rig {''j1''} False False
       \<lparr>w_sent = [], w_records = \<lparr>pr_gpus = [], pr_jobs = [], pr_file = None, pr_writable = True\<rparr>,
        w_store = \<lparr>st_files = [], st_writable = True\<rparr>\<rparr> = (w', r) \<and>
     (force_remove ''mt-j9'', None) \<in> set (w_sent w') \<and> ''j9'' \<notin> {''j1''}"
proof -
  let ?run = "orphaned_containers demo_orphan_rig {''j1''} False False
       \<lparr>w_sent = [], w_records = \<lparr>pr_gpus = [], pr_jobs = [], pr_file = None, pr_writable = True\<rparr>,
        w_store = \<lparr>st_files = [], st_writable = True\<rparr>\<rparr>"
  obtain w' r where d: "?run = (w', r)" by fastforce
  let ?cs = "[\<lparr>oc_id = ''c1'', oc_name = ''mt-j9'', oc_job = ''j9'', oc_state = ''running''\<rparr>]"
  have p: "own_containers (demo_orphan_rig [] (LIST_OURS, None)) = (?cs, [])" "container_ok ''mt-j9''"
    "oc_target \<lparr>oc_id = ''c1'', oc_name = ''mt-j9'', oc_job = ''j9'', oc_state = ''running''\<rparr> = ''mt-j9''"
    by code_simp+
  have o: "orphan_volumes ''j9'' = [''mt-vol-j9'']" "vol_valid ''mt-vol-j9''" "parse_query [] = []" "strip [] = []"
    "LIST_OURS \<noteq> QUERY_APPS" "LIST_OURS \<noteq> QUERY_WEDGE"
    by code_simp+
  have ok: "\<not> transport_failed (demo_orphan_rig sent c)" "res_is_ok (demo_orphan_rig sent c)" for sent c
    by (simp_all add: demo_orphan_rig_def demo_result_def transport_failed_def res_is_ok_def)
  have sw: "wedge_sweep demo_orphan_rig w = (w\<lparr>w_sent := w_sent w @ [(QUERY_APPS, None), (QUERY_WEDGE, None)]\<rparr>, Inr (no_sweep []))"
    for w :: JobHost
    using o(3-6) by (simp add: wedge_sweep_def wedged_gpus_def query_wedged_def bnd_def ok)
      (simp add: demo_orphan_rig_def demo_result_def)
  have "(force_remove ''mt-j9'', None) \<in> set (w_sent (fst ?run))"
    unfolding orphaned_containers_def sweep_containers_def bnd_assoc
    by (simp add: bnd_run p orphan_one_def destroy_def Let_def o ok sw bnd_step [OF sw] vol_destroy_def bnd_step)
  then have m: "(force_remove ''mt-j9'', None) \<in> set (w_sent w')" by (simp only: d fst_conv)
  show ?thesis using orphan_sweep_spares_running [OF d _ m] d m by auto
qed

end
