(* ===== verification/Work_Drain.thy ===== *)
theory Work_Drain
  imports Session_Core
begin

text \<open>
  Draining a rig (\<^verbatim>\<open>validator/work/drain.py\<close>): the pool is told to stop placing work, and the validator polls
  until no job is left or the deadline has passed. The pool's answers are arguments: \<open>polls\<close> lists, for
  each round of the loop, the view of the rig, the state of the command, and the time passed when the
  round looks at the clock. A list that ends before the loop does gives no result.
\<close>

record DrainResult =
  da_rig_id :: string
  da_drained :: bool
  da_remaining :: "string list"
  da_elapsed_s :: rat
  da_command_id :: int
  da_command_state :: string
  da_reason :: string

definition DrainResult_payload :: "DrainResult \<Rightarrow> pydict" where
  "DrainResult_payload r =
     [(''rig_id'', PStr (da_rig_id r)), (''drained'', PBool (da_drained r)),
      (''remaining'', PList (map PStr (da_remaining r))), (''elapsed_s'', PFloat (py_round_to 1 (da_elapsed_s r))),
      (''command_id'', PInt (da_command_id r)), (''command_state'', PStr (da_command_state r)),
      (''reason'', PStr (da_reason r))]"

definition job_name :: "pydict \<Rightarrow> string" where
  "job_name job = py_str (py_or (py_or (dget job ''id'' PNone) (dget job ''job_id'' PNone)) (PStr []))"

definition running_jobs :: "pydict \<Rightarrow> string list pyres" where
  "running_jobs rig =
     rbind (py_iter (py_or (dget rig ''jobs'' PNone) (PList []))) (\<lambda>vs. Inr (map job_name (dicts_of vs)))"

record Poll =
  po_view :: "string + pydict"
  po_command :: "string + pydict"
  po_elapsed :: rat

definition next_state :: "int \<Rightarrow> string \<Rightarrow> Poll \<Rightarrow> string" where
  "next_state command_id state p =
     (if command_id \<noteq> 0 \<and> state \<notin> {''done'', ''failed'', ''expired''}
      then (case po_command p of Inl _ \<Rightarrow> state | Inr d \<Rightarrow> py_str (py_or (dget d ''state'' (PStr state)) (PStr state)))
      else state)"

definition drain_result :: "string \<Rightarrow> bool \<Rightarrow> string list \<Rightarrow> rat \<Rightarrow> int \<Rightarrow> string \<Rightarrow> string \<Rightarrow> DrainResult" where
  "drain_result rig_id drained remaining elapsed command_id state reason =
     \<lparr>da_rig_id = rig_id, da_drained = drained, da_remaining = remaining, da_elapsed_s = elapsed, da_command_id = command_id,
      da_command_state = state, da_reason = reason\<rparr>"

fun drain_loop ::
  "string \<Rightarrow> rat \<Rightarrow> int \<Rightarrow> string \<Rightarrow> string list \<Rightarrow> Poll list \<Rightarrow> DrainResult pyres option" where
  "drain_loop rig_id deadline command_id state remaining [] = None"
| "drain_loop rig_id deadline command_id state remaining (p # ps) =
     (case po_view p of
        Inl detail \<Rightarrow>
          Some (Inr (drain_result rig_id False remaining (po_elapsed p) command_id state (''rig view failed: '' @ detail)))
      | Inr view \<Rightarrow>
          (case running_jobs view of
             Inl e \<Rightarrow> Some (Inl e)
           | Inr jobs \<Rightarrow>
               (let state' = next_state command_id state p in
                if jobs = [] then Some (Inr (drain_result rig_id True [] (po_elapsed p) command_id state' []))
                else if deadline \<le> po_elapsed p
                then Some (Inr (drain_result rig_id False jobs (po_elapsed p) command_id state'
                       (show_nat (length jobs) @ '' jobs still running after '' @ fmt_0f deadline @ '' s'')))
                else drain_loop rig_id deadline command_id state' jobs ps)))"

definition drain :: "string \<Rightarrow> rat \<Rightarrow> string + pydict \<Rightarrow> Poll list \<Rightarrow> DrainResult pyres option" where
  "drain rig_id deadline command polls =
     (case command of
        Inl detail \<Rightarrow> Some (Inr (drain_result rig_id False [] 0 0 [] (''drain command refused: '' @ detail)))
      | Inr c \<Rightarrow>
          (case py_int (py_or (dget c ''id'' (PInt 0)) (PInt 0)) of
             Inl e \<Rightarrow> Some (Inl e)
           | Inr command_id \<Rightarrow> drain_loop rig_id deadline command_id (str_or_empty c ''state'') [] polls))"

section \<open>Facts\<close>

lemma drain_loop_ends:
  "\<exists>p \<in> set polls. deadline \<le> po_elapsed p \<Longrightarrow> drain_loop rig deadline c state rem polls \<noteq> None"
  by (induction polls arbitrary: state rem) (auto simp: Let_def split: sum.splits)

lemma drain_loop_result:
  assumes "drain_loop rig deadline c state rem polls = Some (Inr r)"
  shows "\<exists>p \<in> set polls. da_elapsed_s r = po_elapsed p \<and>
    (if da_drained r then \<exists>v. po_view p = Inr v \<and> running_jobs v = Inr [] \<and> da_remaining r = []
     else (\<exists>e. po_view p = Inl e) \<or> (\<exists>v. po_view p = Inr v \<and> running_jobs v = Inr (da_remaining r) \<and> deadline \<le> po_elapsed p))"
  using assms
proof (induction rig deadline c state rem polls rule: drain_loop.induct)
  case (2 rig deadline c state rem p ps)
  then show ?case by (auto simp: Let_def drain_result_def split: sum.splits if_splits)
qed simp

section \<open>Properties\<close>



end
