(* ===== verification/Schedule_Express.thy ===== *)
theory Schedule_Express
  imports Session_Core Scoring_Reliability
begin

text \<open>
  The express lane (\<^verbatim>\<open>validator/schedule/express.py\<close>): short probes of every online rig, the count of
  consecutive failures that puts a rig up for an early deep pass, and the signals drawn from the
  utilisation an agent reports. A probe waits for three calls to the agent and then changes the state
  without waiting again, so the probes of a tick are a sequence of state changes in the order the calls
  finish. What the calls returned and the clock are arguments.
\<close>

section \<open>State\<close>

definition UNREACHABLE_TICKS :: nat where "UNREACHABLE_TICKS = 3"
definition BUSY_PERCENT :: int where "BUSY_PERCENT = 50"
definition SIGNAL_HISTORY :: nat where "SIGNAL_HISTORY = 500"
definition LEDGER_SAVE_SECONDS :: rat where "LEDGER_SAVE_SECONDS = 60"

record Signal =
  si_rig_id :: string
  si_hotkey :: string
  si_kind :: string
  si_detail :: string
  si_at :: rat

definition Signal_payload :: "Signal \<Rightarrow> pydict" where
  "Signal_payload s =
     [(''rig_id'', PStr (si_rig_id s)), (''hotkey'', PStr (si_hotkey s)), (''kind'', PStr (si_kind s)),
      (''detail'', PStr (si_detail s)), (''at'', PFloat (si_at s))]"

text \<open>\<open>ex_saved\<close> is the ledger as last written to its file.\<close>

record ExpressLane =
  ex_unreachable :: "(string \<times> nat) list"
  ex_early_due :: "string set"
  ex_signals :: "Signal list"
  ex_last_probe :: "(string \<times> pydict) list"
  ex_ledger :: ledger
  ex_last_save :: rat
  ex_saved :: "pyval option"

definition express_new :: "ledger \<Rightarrow> ExpressLane" where
  "express_new L =
     \<lparr>ex_unreachable = [], ex_early_due = {}, ex_signals = [], ex_last_probe = [], ex_ledger = L, ex_last_save = 0,
      ex_saved = None\<rparr>"

section \<open>Operations\<close>

definition owner_of :: "pydict \<Rightarrow> string" where
  "owner_of rig = py_str (py_or (py_or (dget rig ''hotkey'' (PStr [])) (dget rig ''id'' (PStr []))) (PStr []))"

definition rig_id_of :: "pydict \<Rightarrow> string" where
  "rig_id_of rig = str_field rig ''id''"

definition card_busy :: "pydict \<Rightarrow> bool pyres" where
  "card_busy c =
     rbind (guarded (py_int (py_or (dget c ''gpu_percent'' (dget c ''utilization'' (PInt 0))) (PInt 0))) 0) (\<lambda>percent.
       Inr (BUSY_PERCENT \<le> percent \<or> truthy (py_or (dget c ''processes'' PNone) (PList []))))"

definition busy_name :: "pydict \<Rightarrow> string list pyres" where
  "busy_name c =
     rbind (card_busy c) (\<lambda>b. Inr (if b then [py_str (py_or (dget c ''uuid'' (PStr [])) (PStr ''?''))] else []))"

definition utilisation_signal :: "pydict \<Rightarrow> pydict \<Rightarrow> (string \<times> string) option pyres" where
  "utilisation_signal rig utilisation =
     rbind (py_int (py_or (dget rig ''jobs_running'' (PInt 0)) (PInt 0))) (\<lambda>placed.
     rbind (py_iter (py_or (dget utilisation ''gpus'' PNone) (PList []))) (\<lambda>vs.
       (let gpus = dicts_of vs in
        if gpus = [] then Inr None
        else rbind (rmap busy_name gpus) (\<lambda>names.
          (let busy = concat names in
           Inr (if 0 < placed \<and> busy = []
                then Some (''idle_while_placed'', show_int placed @ '' jobs placed, every card idle'')
                else if placed = 0 \<and> busy \<noteq> []
                then Some (''busy_without_assignment'', ''cards busy with nothing assigned: '' @ join '', '' (take 4 busy))
                else None))))))"

definition take_early_due :: "ExpressLane \<Rightarrow> ExpressLane \<times> string set" where
  "take_early_due st = (st\<lparr>ex_early_due := {}\<rparr>, ex_early_due st)"

text \<open>A deque with a maximal length drops from its left end.\<close>

definition keep_last :: "nat \<Rightarrow> 'a list \<Rightarrow> 'a list" where
  "keep_last n xs = drop (length xs - n) xs"

definition record_signal :: "pydict \<Rightarrow> string \<Rightarrow> string \<Rightarrow> rat \<Rightarrow> ExpressLane \<Rightarrow> ExpressLane" where
  "record_signal rig kind detail now st =
     st\<lparr>ex_signals := keep_last SIGNAL_HISTORY (ex_signals st @
        [\<lparr>si_rig_id = rig_id_of rig, si_hotkey = owner_of rig, si_kind = kind, si_detail = detail, si_at = now\<rparr>])\<rparr>"

text \<open>What the three calls of a probe returned: a refusal by an \<^verbatim>\<open>AgentError\<close>, an exception of another kind,
  or the answers for version, ping and utilisation.\<close>

datatype probe_calls = Refused AgentError | Broken pyerr | Answers pydict pydict pydict

definition probe_refused :: "pydict \<Rightarrow> AgentError \<Rightarrow> rat \<Rightarrow> rat \<Rightarrow> ExpressLane \<Rightarrow> ExpressLane" where
  "probe_refused rig e t0 now st =
     (let rig_id = rig_id_of rig;
          report = [(''rig_id'', PStr rig_id), (''at'', PFloat t0), (''online'', PBool False), (''error'', PStr (ae_detail e))];
          count = dget (ex_unreachable st) rig_id 0 + 1;
          st1 = st\<lparr>ex_ledger := observe rig_id False now (ex_ledger st),
                   ex_unreachable := AList.update rig_id count (ex_unreachable st)\<rparr>;
          st2 = (if count = UNREACHABLE_TICKS
                 then record_signal rig ''unreachable''
                        (show_nat count @ '' consecutive express ticks failed: '' @ take 120 (ae_detail e)) now
                        (st1\<lparr>ex_early_due := insert rig_id (ex_early_due st1)\<rparr>)
                 else st1)
      in st2\<lparr>ex_last_probe := AList.update rig_id report (ex_last_probe st2)\<rparr>)"

definition probe_answered ::
  "pydict \<Rightarrow> pydict \<Rightarrow> pydict \<Rightarrow> pydict \<Rightarrow> rat \<Rightarrow> rat \<Rightarrow> ExpressLane \<Rightarrow> ExpressLane \<times> unit pyres" where
  "probe_answered rig version pong utilisation t0 now st =
     (let rig_id = rig_id_of rig;
          st1 = st\<lparr>ex_unreachable := AList.delete rig_id (ex_unreachable st),
                   ex_ledger := observe rig_id True now (ex_ledger st)\<rparr>;
          report = [(''rig_id'', PStr rig_id), (''at'', PFloat t0), (''online'', PBool True),
                    (''agent_version'', PStr (str_or_empty version ''version'')),
                    (''draining'', PBool (truthy (dget version ''draining'' (PBool False)))),
                    (''pong'', PBool (truthy (dget pong ''ok'' (PBool True)))),
                    (''utilisation'', PDict utilisation)]
      in case utilisation_signal rig utilisation of
           Inl e \<Rightarrow> (st1, Inl e)
         | Inr s \<Rightarrow>
             (let st2 = (case s of None \<Rightarrow> st1 | Some (kind, detail) \<Rightarrow> record_signal rig kind detail now st1)
              in (st2\<lparr>ex_last_probe := AList.update rig_id report (ex_last_probe st2)\<rparr>, Inr ())))"

definition probe :: "pydict \<Rightarrow> probe_calls \<Rightarrow> rat \<Rightarrow> rat \<Rightarrow> ExpressLane \<Rightarrow> ExpressLane \<times> unit pyres" where
  "probe rig calls t0 now st =
     (case calls of
        Refused e \<Rightarrow> (probe_refused rig e t0 now st, Inr ())
      | Broken e \<Rightarrow> (st, Inl e)
      | Answers version pong utilisation \<Rightarrow> probe_answered rig version pong utilisation t0 now st)"

text \<open>The rigs a tick probes, and a tick: \<open>finished\<close> lists its probes in the order they finish. Exceptions of
  a probe are dropped.\<close>

definition tick_rig :: "pyval \<Rightarrow> pydict list pyres" where
  "tick_rig v = (case v of
     PDict rig \<Rightarrow> Inr (if truthy (dget rig ''online'' PNone) \<and> str_field rig ''state'' \<noteq> ''removed'' then [rig] else [])
   | _ \<Rightarrow> Inl AttributeError)"

definition tick_rigs :: "pydict \<Rightarrow> pydict list pyres" where
  "tick_rigs roster =
     rbind (py_iter (py_or (dget roster ''rigs'' PNone) (PList []))) (\<lambda>vs. rbind (rmap tick_rig vs) (\<lambda>rs. Inr (concat rs)))"

type_synonym finished_probe = "pydict \<times> probe_calls \<times> rat \<times> rat"

definition run_probes :: "finished_probe list \<Rightarrow> ExpressLane \<Rightarrow> ExpressLane" where
  "run_probes finished st = fold (\<lambda>(rig, calls, t0, now) st. fst (probe rig calls t0 now st)) finished st"

definition express_tick ::
  "(string + pydict) \<Rightarrow> (pydict list \<Rightarrow> finished_probe list) \<Rightarrow> rat \<Rightarrow> ExpressLane \<Rightarrow> ExpressLane \<times> nat pyres" where
  "express_tick roster finished now st =
     (case roster of
        Inl detail \<Rightarrow> (st, Inr 0)
      | Inr r \<Rightarrow>
          (case tick_rigs r of
             Inl e \<Rightarrow> (st, Inl e)
           | Inr rigs \<Rightarrow>
               (let st1 = run_probes (finished rigs) st;
                    st2 = (if LEDGER_SAVE_SECONDS \<le> now - ex_last_save st1
                           then st1\<lparr>ex_saved := Some (ledger_save (ex_ledger st1)), ex_last_save := now\<rparr> else st1)
                in (st2, Inr (length rigs)))))"

section \<open>Outages\<close>

text \<open>The events that change the lane, and the abstract machine they run: for each rig the length of its
  outage in probes, and the rigs waiting for an early pass.\<close>

datatype lane_event = Probed pydict probe_calls rat rat | EarlyTaken

fun lane_step :: "ExpressLane \<Rightarrow> lane_event \<Rightarrow> ExpressLane" where
  "lane_step st (Probed rig calls t0 now) = fst (probe rig calls t0 now st)"
| "lane_step st EarlyTaken = fst (take_early_due st)"

datatype outage_event = Failed string | Reached string | Nothing | Taken

fun lane_seen :: "lane_event \<Rightarrow> outage_event" where
  "lane_seen (Probed rig (Refused e) t0 now) = Failed (rig_id_of rig)"
| "lane_seen (Probed rig (Broken e) t0 now) = Nothing"
| "lane_seen (Probed rig (Answers v p u) t0 now) = Reached (rig_id_of rig)"
| "lane_seen EarlyTaken = Taken"

type_synonym outages = "(string \<Rightarrow> nat) \<times> string set"

fun outage_step :: "outages \<Rightarrow> outage_event \<Rightarrow> outages" where
  "outage_step (count, due) (Failed r) =
     (count(r := count r + 1), if count r + 1 = UNREACHABLE_TICKS then insert r due else due)"
| "outage_step (count, due) (Reached r) = (count(r := 0), due)"
| "outage_step s Nothing = s"
| "outage_step (count, due) Taken = (count, {})"

definition lane_view :: "ExpressLane \<Rightarrow> outages" where
  "lane_view st = ((\<lambda>r. dget (ex_unreachable st) r 0), ex_early_due st)"

lemma record_signal_simps [simp]:
  "ex_unreachable (record_signal rig k d now st) = ex_unreachable st"
  "ex_early_due (record_signal rig k d now st) = ex_early_due st"
  "ex_ledger (record_signal rig k d now st) = ex_ledger st"
  by (simp_all add: record_signal_def)

lemma view_refused: "lane_view (probe_refused rig e t0 now st) = outage_step (lane_view st) (Failed (rig_id_of rig))"
  by (auto simp: lane_view_def probe_refused_def Let_def dget_def fun_eq_iff update_conv')

lemma view_answered: "lane_view (fst (probe_answered rig v p u t0 now st)) = outage_step (lane_view st) (Reached (rig_id_of rig))"
  by (auto simp: lane_view_def probe_answered_def Let_def dget_def fun_eq_iff delete_conv' split: sum.splits option.splits)

interpretation outages: refines lane_step lane_view lane_seen outage_step
proof
  fix st e
  show "lane_view (lane_step st e) = outage_step (lane_view st) (lane_seen e)"
  proof (cases e)
    case (Probed rig calls t0 now)
    then show ?thesis by (cases calls) (simp_all add: probe_def view_refused view_answered)
  next
    case EarlyTaken
    then show ?thesis by (simp add: take_early_due_def lane_view_def)
  qed
qed

text \<open>The same read off a history, newest event first.\<close>

fun streak :: "string \<Rightarrow> outage_event list \<Rightarrow> nat" where
  "streak r [] = 0"
| "streak r (Failed q # h) = (if q = r then Suc (streak r h) else streak r h)"
| "streak r (Reached q # h) = (if q = r then 0 else streak r h)"
| "streak r (_ # h) = streak r h"

fun waiting :: "string \<Rightarrow> outage_event list \<Rightarrow> bool" where
  "waiting r [] = False"
| "waiting r (Failed q # h) = (waiting r h \<or> q = r \<and> streak r (Failed q # h) = UNREACHABLE_TICKS)"
| "waiting r (Taken # h) = False"
| "waiting r (_ # h) = waiting r h"

lemma outages_history:
  "run_events outage_step (\<lambda>r. 0, {}) es = (\<lambda>r. streak r (rev es), {r. waiting r (rev es)})"
proof (induction es rule: rev_induct)
  case (snoc e es)
  then show ?case by (cases e) (auto simp: run_events_append fun_eq_iff)
qed simp

lemma keep_last_length: "length (keep_last n xs) \<le> n"
  by (simp add: keep_last_def)

section \<open>Properties\<close>

text \<open>C32: The express lane puts a rig up for an early deep pass at the third probe in a row that its agent
  refused, and only then: after any sequence of probes, of any rigs, and of withdrawals of the early
  rigs, the lane counts for each rig the refused probes since it last answered, and a rig waits exactly
  when since the last withdrawal one of its probes was the third refused in a row.\<close>

theorem early_pass_at_third_failure:
  "let st = run_events lane_step (express_new L) es; h = rev (map lane_seen es)
   in dget (ex_unreachable st) r 0 = streak r h \<and> (r \<in> ex_early_due st \<longleftrightarrow> waiting r h)"
proof -
  have "lane_view (express_new L) = (\<lambda>r. 0, {})"
    by (simp add: lane_view_def express_new_def dget_def fun_eq_iff)
  then have "lane_view (run_events lane_step (express_new L) es)
      = (\<lambda>r. streak r (rev (map lane_seen es)), {r. waiting r (rev (map lane_seen es))})"
    by (simp add: outages.run_view outages_history)
  then show ?thesis by (simp add: lane_view_def Let_def fun_eq_iff set_eq_iff)
qed

end
