(* ===== verification/Schedule_Deep.thy ===== *)
theory Schedule_Deep
  imports Verify_Scrape Verify_Challenge Work_Power Schedule_Express "HOL-Library.Multiset"
begin

text \<open>
  The deep pass over a rig (\<^verbatim>\<open>validator/schedule/deep.py\<close>): which rigs are due, the pipeline of checks over
  one session, the outcome and what is posted to the pool. The verdicts and the detail collected so far
  are passed from check to check; an exception that leaves the pipeline loses them, as in the source,
  where the outcome is then dropped. The drawn request and secret, the clock, the answers of the pool and
  of the agent's HTTP interface, and HMAC are arguments.
\<close>

section \<open>The outcome of a pass\<close>

definition DEFAULT_INTERVAL :: int where "DEFAULT_INTERVAL = 3600"

definition VERIFIABLE_STATES :: "string list" where
  "VERIFIABLE_STATES = [''validating'', ''probation'', ''active'', ''failed'']"

definition summary_of :: "Verdict \<Rightarrow> string" where
  "summary_of v = (case v_failure v of
     Some f \<Rightarrow> take 200 (f_detail f) | None \<Rightarrow> take 200 (py_str (dget (v_evidence v) ''summary'' (PStr ''ok''))))"

record Outcome =
  ou_rig_id :: string
  ou_hotkey :: string
  ou_seed :: string
  ou_started_at :: rat
  ou_verdicts :: "Verdict list"
  ou_detail :: pydict
  ou_finished_at :: rat
  ou_failure :: "Failure option"

definition ou_passed :: "Outcome \<Rightarrow> bool" where
  "ou_passed o' = (ou_failure o' = None)"

definition ou_elapsed_ms :: "Outcome \<Rightarrow> rat" where
  "ou_elapsed_ms o' = (ou_finished_at o' - ou_started_at o') * 1000"

text \<open>The source compares failures by identity. \<open>worst\<close> returns the first failure of the least class, so the
  first verdict with an equal failure is the one it came from.\<close>

definition failing_check :: "Verdict list \<Rightarrow> Failure option \<Rightarrow> string" where
  "failing_check vs failure =
     (case List.find (\<lambda>v. v_failure v \<noteq> None \<and> v_failure v = failure) vs of
        Some v \<Rightarrow> v_check v
      | None \<Rightarrow> (case List.find (\<lambda>v. v_failure v \<noteq> None) vs of Some v \<Rightarrow> v_check v | None \<Rightarrow> []))"

definition outcome_finish :: "rat \<Rightarrow> Outcome \<Rightarrow> Outcome" where
  "outcome_finish now o0 =
     (let failure = worst (ou_verdicts o0);
          o1 = o0\<lparr>ou_finished_at := now, ou_failure := failure\<rparr>;
          d1 = AList.update ''reason'' (PStr (case failure of None \<Rightarrow> [] | Some f \<Rightarrow> f_detail f)) (ou_detail o1);
          d2 = AList.update ''failing_check'' (PStr (failing_check (ou_verdicts o1) failure)) d1
      in o1\<lparr>ou_detail := AList.update ''elapsed_ms'' (PFloat (py_round_to 1 (ou_elapsed_ms o1))) d2\<rparr>)"

definition outcome_payload :: "(rat \<Rightarrow> string) \<Rightarrow> Outcome \<Rightarrow> pydict" where
  "outcome_payload isoformat o' =
     [(''passed'', PBool (ou_passed o')),
      (''failure'', PStr (case ou_failure o' of None \<Rightarrow> [] | Some f \<Rightarrow> failure_value (f_kind f))),
      (''seed'', PStr (take 80 (ou_seed o'))), (''detail'', PDict (ou_detail o')),
      (''checks'', PList (map (\<lambda>v. PDict [(''check'', PStr (v_check v)), (''passed'', PBool (passed v)),
         (''value'', PStr (summary_of v))]) (ou_verdicts o'))),
      (''started_at'', PStr (isoformat (ou_started_at o'))), (''finished_at'', PStr (isoformat (ou_finished_at o')))]"

section \<open>What the detail keeps\<close>

definition HOST_KEEP :: "string list" where
  "HOST_KEEP = [''init_root_differs'', ''init_os_release_readable'', ''init_hostname'', ''init_comm'', ''init_cgroup'',
     ''detect_virt'', ''dmi'', ''kernel'', ''boot_id'', ''machine_id'', ''init_environ_container'', ''dockerenv'',
     ''host_dockerenv'']"

definition trimmed_host :: "pydict \<Rightarrow> pydict" where
  "trimmed_host host = map (\<lambda>k. (k, dget host k PNone)) (filter (dhas host) HOST_KEEP)"

definition CARD_KEEP :: "string list" where
  "CARD_KEEP = [''index'', ''name'', ''uuid'', ''memory_total_mb'', ''memory_used_mb'', ''compute_capability'', ''power_limit_w'',
     ''power_default_w'', ''utilization'', ''memory_utilization'', ''mig_mode'', ''virtualization'', ''pci_bus_id'', ''minor'',
     ''errors'']"

definition trimmed_card :: "pyval \<Rightarrow> pyval pyres" where
  "trimmed_card c = (case c of
     PDict d \<Rightarrow> Inr (PDict (filter (\<lambda>(k, v). k \<in> set CARD_KEEP) d)) | _ \<Rightarrow> Inl AttributeError)"

text \<open>\<^verbatim>\<open>v.get(k)\<close> for several keys.\<close>

definition gets_of :: "pyval \<Rightarrow> (string \<times> string) list \<Rightarrow> pydict pyres" where
  "gets_of v ks = rmap (\<lambda>(name, k). rbind (attr_get v k PNone) (\<lambda>x. Inr (name, x))) ks"

definition trimmed_probes :: "pyval \<Rightarrow> pydict pyres" where
  "trimmed_probes probes =
     rbind (sub_dict probes ''sysbox'') (\<lambda>sysbox.
     rbind (attr_get sysbox ''ok'' PNone) (\<lambda>sysbox_ok.
     rbind (case sysbox of PDict d \<Rightarrow> Inr (filter (\<lambda>(k, v). k \<noteq> ''stdout'') d) | _ \<Rightarrow> Inl AttributeError) (\<lambda>items.
     rbind (sub_dict probes ''storage_quota'') (\<lambda>quota.
     rbind (attr_get quota ''ok'' PNone) (\<lambda>quota_ok.
     rbind (gets_of probes [(''idmapped'', ''idmapped''), (''image'', ''image'')]) (\<lambda>rest.
       Inr ([(''sysbox'', sysbox_ok), (''sysbox_detail'', PDict items), (''storage_quota'', quota_ok)] @ rest)))))))"

definition trimmed_scrape :: "pydict \<Rightarrow> pydict pyres" where
  "trimmed_scrape data =
     rbind (sub_dict (PDict data) ''nvml'') (\<lambda>nvml. rbind (sub_dict (PDict data) ''host'') (\<lambda>host.
     rbind (sub_dict (PDict data) ''probes'') (\<lambda>probes.
     rbind (gets_of nvml [(''driver'', ''driver''), (''cuda'', ''cuda''), (''nvml_version'', ''nvml_version''), (''nvml_errors'', ''errors'')]) (\<lambda>n.
     rbind (trimmed_probes probes) (\<lambda>p.
     rbind (gets_of host (map (\<lambda>k. (k, k)) [''cpu'', ''memory'', ''disk'', ''os'', ''boot_id'', ''uptime_seconds'', ''nvidia_devices''])) (\<lambda>h.
     rbind (rbind (iter_field data ''gpus'') (rmap trimmed_card)) (\<lambda>cards.
       Inr (n @ [(''hashes'', dget data ''hashes'' PNone), (''docker'', dget data ''docker'' PNone), (''probes'', PDict p),
                 (''host'', PDict h), (''gpus'', PList cards), (''elapsed_ms'', dget data ''elapsed_ms'' PNone)]))))))))"

section \<open>One session\<close>

text \<open>What a pass depends on besides the rig and the libraries of \<open>CheckEnv\<close>: the settings, the drawn request
  and secret, HMAC-SHA256 in hex, and the digest the compiled library computes when its file is there.\<close>

record DeepEnv =
  de_check :: CheckEnv
  de_sha256_hex :: "string \<Rightarrow> string"
  de_hmac :: "string \<Rightarrow> string \<Rightarrow> string"
  de_agent_library :: "string option"
  de_allow_reference :: bool
  de_library_digest :: "(challenge_error + int) option"
  de_max_ms :: rat
  de_request :: ChallengeRequest
  de_secret :: string

type_synonym pass_report = "Verdict list \<times> pydict"

definition add_verdict :: "Verdict \<Rightarrow> pass_report \<Rightarrow> pass_report" where
  "add_verdict v rep = (fst rep @ [v], snd rep)"

definition put_detail :: "string \<Rightarrow> pyval \<Rightarrow> pass_report \<Rightarrow> pass_report" where
  "put_detail k x rep = (fst rep, AList.update k x (snd rep))"

definition unreached :: "Verdict \<Rightarrow> bool" where
  "unreached v = (case v_failure v of None \<Rightarrow> False | Some f \<Rightarrow> f_kind f = SSH_TRANSPORT)"

definition session_dir_of :: "Session \<Rightarrow> ChallengeRequest \<Rightarrow> string" where
  "session_dir_of s rq =
     rstrip_char (CHR ''/'') (sg_root_dir (s_grant s)) @ ''/mt-'' @ zfill 16 (nat_hex (nat (cr_seed rq)))"

definition mkdir_command :: "string \<Rightarrow> string" where
  "mkdir_command dir = ''mkdir -p '' @ shlex_quote dir @ '' && chmod 700 '' @ shlex_quote dir"

definition rmdir_command :: "string \<Rightarrow> string" where
  "rmdir_command dir = ''rm -rf '' @ shlex_quote dir"

definition uuid_of :: "pyval \<Rightarrow> string list pyres" where
  "uuid_of c = rbind (attr_get c ''uuid'' PNone) (\<lambda>u. Inr (if truthy u then [py_str u] else []))"

definition enrolled_uuids :: "pydict \<Rightarrow> string list pyres" where
  "enrolled_uuids rig = rbind (iter_field rig ''gpus'') (\<lambda>cs. rbind (rmap uuid_of cs) (\<lambda>us. Inr (concat us)))"

text \<open>The checks on what the scrape reported, and the cards that are asked to solve the challenge.\<close>

definition judge_scrape ::
  "pydict \<Rightarrow> pydict list \<Rightarrow> string \<Rightarrow> pydict \<Rightarrow> pydict \<Rightarrow> string list \<Rightarrow> pass_report \<Rightarrow> (string list \<times> pass_report) pyres" where
  "judge_scrape rig roster seed data spec uuids rep =
     rbind (trimmed_scrape data) (\<lambda>t. rbind (specs_check data rig seed) (\<lambda>sv.
     rbind (dict_items data ''gpus'') (\<lambda>cards. rbind (duplicates_check cards (rig_id_of rig) roster seed) (\<lambda>dv.
     rbind (enrolled_uuids data) (\<lambda>seen.
       (let present = filter (\<lambda>u. u \<in> set seen) uuids;
            rep1 = put_detail ''scrape'' (PDict t) (put_detail ''spec'' (PDict spec) rep);
            rep2 = put_detail ''specs'' (PDict (v_evidence sv)) (add_verdict sv rep1);
            rep3 = put_detail ''duplicates'' (PDict (v_evidence dv)) (add_verdict dv rep2)
        in Inr (if present = [] then uuids else present, rep3)))))))"

text \<open>The challenge over the session: the uploads, then each card in turn.\<close>

definition deep_prepare :: "DeepEnv \<Rightarrow> string \<Rightarrow> ('z Host_scheme, Prepared) act" where
  "deep_prepare env dir =
     bnd (gets w_sent) (\<lambda>sent.
       case challenge_prepare
              (\<lambda>path. map_option (\<lambda>d. mk_failure SSH_TRANSPORT (''upload '' @ path @ '': '' @ d) [] []) (ck_refuses (de_check env) sent path))
              (de_sha256_hex env) (de_agent_library env) (de_allow_reference env) dir of
         Inr p \<Rightarrow> ret p
       | Inl (ChallengeSsh f) \<Rightarrow> raise (SshErr (f_kind f) (f_detail f))
       | Inl (ChallengeUnavailable m) \<Rightarrow> raise (Unavailable m)
       | Inl (ChallengeRaised e) \<Rightarrow> raise (Raised e))"

definition deep_expected :: "DeepEnv \<Rightarrow> ('s, int \<times> string) act" where
  "deep_expected env =
     (case expected_digest (de_library_digest env) (de_request env) of
        Inr x \<Rightarrow> ret x
      | Inl (ChallengeSsh f) \<Rightarrow> raise (SshErr (f_kind f) (f_detail f))
      | Inl (ChallengeUnavailable m) \<Rightarrow> raise (Unavailable m)
      | Inl (ChallengeRaised e) \<Rightarrow> raise (Raised e))"

definition ask_card :: "DeepEnv \<Rightarrow> string \<Rightarrow> string \<Rightarrow> ('z Host_scheme, runner_answer) act" where
  "ask_card env seed command =
     catch_ssh (bnd (run_json (de_check env) command) (\<lambda>(r, parsed). ret (RunDone r parsed)))
       (\<lambda>k d. ret (RunRaised (ssh_failure k d seed)))"

fun challenge_cards ::
  "DeepEnv \<Rightarrow> string \<Rightarrow> string \<Rightarrow> Prepared \<Rightarrow> int \<Rightarrow> Tier option \<Rightarrow> string list
    \<Rightarrow> ('z Host_scheme, Failure list \<times> rat \<times> pydict list) act" where
  "challenge_cards env python dir p expected tier [] = ret ([], 0, [])"
| "challenge_cards env python dir p expected tier (uuid # uuids) =
     bnd (ask_card env (show_int (cr_seed (de_request env))) (command_for python dir p (de_request env) uuid)) (\<lambda>answer.
     bnd (lift (judge_card p expected (de_max_ms env) tier (de_request env) uuid answer)) (\<lambda>(f, go_on, ms, entry).
     bnd (if go_on then challenge_cards env python dir p expected tier uuids else ret ([], 0, [])) (\<lambda>(fs, rest, entries).
       ret ((case f of None \<Rightarrow> fs | Some x \<Rightarrow> x # fs), ms + rest, entry @ entries))))"

definition deep_challenge ::
  "DeepEnv \<Rightarrow> string \<Rightarrow> string \<Rightarrow> Tier option \<Rightarrow> string list \<Rightarrow> ('z Host_scheme, Verdict) act" where
  "deep_challenge env python dir tier uuids =
     bnd (deep_prepare env dir) (\<lambda>p. bnd (deep_expected env) (\<lambda>(expected, method).
     bnd (challenge_cards env python dir p expected tier (challenge_targets uuids)) (\<lambda>(fs, ms, entries).
       ret (mk_verdict ''challenge'' (case fs of [] \<Rightarrow> None | f # _ \<Rightarrow> Some f)
         (challenge_evidence p method tier (de_request env) entries
            (challenge_summary p (length (challenge_targets uuids)) (fs \<noteq> []) entries)) ms))))"

text \<open>The inspector. \<^verbatim>\<open>hmac.compare_digest\<close> raises on a text with characters outside ASCII.\<close>

definition INSPECTOR :: string where "INSPECTOR = ''inspector.py''"

fun py_len :: "pyval \<Rightarrow> nat pyres" where
  "py_len (PList xs) = Inr (length xs)"
| "py_len (PDict d) = Inr (length d)"
| "py_len (PStr s) = Inr (length s)"
| "py_len _ = Inl TypeError"

definition compare_digest :: "string \<Rightarrow> string \<Rightarrow> bool pyres" where
  "compare_digest a b =
     (if list_all (\<lambda>c. of_char c < (128 :: nat)) (a @ b) then Inr (a = b) else Inl TypeError)"

definition inspector_evidence :: "bool \<Rightarrow> pydict \<Rightarrow> pydict pyres" where
  "inspector_evidence ok parsed =
     rbind (py_len (py_or (dget parsed ''processes'' PNone) (PList []))) (\<lambda>n.
     rbind (py_len (py_or (dget parsed ''containers'' PNone) (PList []))) (\<lambda>m.
       Inr [(''handshake_ok'', PBool ok), (''processes'', PInt (int n)), (''containers'', PInt (int m)),
            (''containers_error'', PStr (take 200 (str_or_empty parsed ''containers_error''))),
            (''summary'', PStr (show_nat n @ '' processes, '' @ show_nat m @ '' containers''))]))"

definition inspect ::
  "DeepEnv \<Rightarrow> Session \<Rightarrow> string \<Rightarrow> string \<Rightarrow> ('z Host_scheme, Verdict \<times> pydict) act" where
  "inspect env s dir seed =
     (let remote = dir @ ''/'' @ INSPECTOR;
          command = shlex_quote (session_python s) @ '' -I '' @ shlex_quote remote @ '' '' @ de_secret env @ '' '' @ s_nonce s
      in bnd (catch_ssh (bnd (upload (de_check env) remote) (\<lambda>_. bnd (run_json (de_check env) command) (\<lambda>x. ret (Inr x))))
                (\<lambda>k d. ret (Inl (ssh_failure k d seed)))) (\<lambda>got.
        case got of
          Inl f \<Rightarrow> ret (mk_verdict ''inspector'' (Some f) [] 0, [])
        | Inr (r, None) \<Rightarrow>
            ret (mk_verdict ''inspector''
                   (Some (case classify r seed of
                      Some f \<Rightarrow> f | None \<Rightarrow> mk_failure AGENT_CRASH ''the inspector printed no result'' seed []))
                   [] (res_elapsed_ms r), [])
        | Inr (r, Some parsed) \<Rightarrow>
            bnd (lift (compare_digest (de_hmac env (de_secret env) (s_nonce s)) (str_or_empty parsed ''handshake''))) (\<lambda>ok.
            bnd (lift (inspector_evidence ok parsed)) (\<lambda>ev.
              ret (if ok then (mk_verdict ''inspector'' None ev (res_elapsed_ms r), parsed)
                   else (mk_verdict ''inspector''
                           (Some (mk_failure AGENT_CRASH ''the inspector handshake does not match this session'' seed []))
                           ev (res_elapsed_ms r), []))))))"

definition LIST_COMMAND :: string where
  "LIST_COMMAND = ''docker ps -a --no-trunc --filter label=mt.owner=validator --format '' @ [CHR 0x27] @ ''{{.ID}}'' @ [CHR 0x09] @
     ''{{.Names}}'' @ [CHR 0x09] @ ''{{.Label '' @ [quote1] @ ''mt.job'' @ [quote1] @ ''}}'' @ [CHR 0x09] @ ''{{.State}}'' @ [CHR 0x27]"

definition alive_pids :: "pydict \<Rightarrow> int list option pyres" where
  "alive_pids inspected =
     (if inspected = [] then Inr None
      else rbind (dict_items inspected ''processes'') (\<lambda>ps.
           rbind (rmap (\<lambda>p. py_int (py_or (dget p ''pid'' (PInt 0)) (PInt 0))) ps) (\<lambda>pids. Inr (Some pids))))"

definition deep_exclusivity ::
  "pydict \<Rightarrow> pydict option \<Rightarrow> pydict \<Rightarrow> CommandResult \<Rightarrow> string \<Rightarrow> Verdict pyres" where
  "deep_exclusivity rig data inspected listing seed =
     (let (ours, listing_error) = own_containers listing in
      rbind (alive_pids inspected) (\<lambda>alive.
      rbind (dict_items (case data of None \<Rightarrow> [] | Some d \<Rightarrow> d) ''gpus'') (\<lambda>gpus.
      rbind (jobs_of rig) (\<lambda>jobs.
      rbind (exclusivity_check gpus jobs ours seed alive) (\<lambda>v.
        Inr (if listing_error = [] then v
             else v\<lparr>v_evidence := AList.update ''listing_error'' (PStr (take 200 listing_error)) (v_evidence v)\<rparr>))))))"

text \<open>The stages of a session, each with the stages after it.\<close>

definition exclusivity_stage ::
  "DeepEnv \<Rightarrow> pydict \<Rightarrow> string \<Rightarrow> pydict option \<Rightarrow> pydict \<Rightarrow> pass_report \<Rightarrow> ('z Host_scheme, pass_report) act" where
  "exclusivity_stage env rig seed data inspected rep =
     bnd (run (ck_rig (de_check env)) LIST_COMMAND) (\<lambda>listing.
     bnd (lift (deep_exclusivity rig data inspected listing seed)) (\<lambda>v.
       (let rep1 = put_detail ''exclusivity'' (PDict (v_evidence v)) (add_verdict v rep) in
        if worst (fst rep1) = None
        then bnd (wedge_sweep (ck_rig (de_check env))) (\<lambda>sweep.
               ret (put_detail ''recovery'' (PDict [(''gpu_wedge'', PDict (SweepResult_payload sweep))]) rep1))
        else ret rep1)))"

definition inspector_stage ::
  "DeepEnv \<Rightarrow> Session \<Rightarrow> string \<Rightarrow> pydict \<Rightarrow> string \<Rightarrow> pydict option \<Rightarrow> pass_report \<Rightarrow> ('z Host_scheme, pass_report) act" where
  "inspector_stage env s dir rig seed data rep =
     bnd (inspect env s dir seed) (\<lambda>(v, inspected).
       (let rep1 = put_detail ''inspector'' (PDict (v_evidence v)) (add_verdict v rep) in
        if unreached v then ret rep1 else exclusivity_stage env rig seed data inspected rep1))"

definition challenge_stage ::
  "DeepEnv \<Rightarrow> Session \<Rightarrow> string \<Rightarrow> pydict \<Rightarrow> string \<Rightarrow> pydict option \<Rightarrow> string list \<Rightarrow> pass_report
    \<Rightarrow> ('z Host_scheme, pass_report) act" where
  "challenge_stage env s dir rig seed data uuids rep =
     bnd (deep_challenge env (session_python s) dir (challenge_tier_of rig) uuids) (\<lambda>v.
       (let rep1 = put_detail ''challenge'' (PDict (filter (\<lambda>(k, x). k \<noteq> ''digest'') (v_evidence v))) (add_verdict v rep) in
        if unreached v then ret rep1 else inspector_stage env s dir rig seed data rep1))"

definition scrape_stage ::
  "DeepEnv \<Rightarrow> Session \<Rightarrow> string \<Rightarrow> pydict \<Rightarrow> pydict list \<Rightarrow> string \<Rightarrow> pass_report \<Rightarrow> ('z Host_scheme, pass_report) act" where
  "scrape_stage env s dir rig roster seed rep =
     bnd (scrape_run (de_check env) (session_python s) (s_address s) (sg_port_range (s_grant s)) seed) (\<lambda>sc.
     bnd (lift (enrolled_uuids rig)) (\<lambda>uuids.
       (let rep1 = add_verdict (sc_verdict sc) rep in
        case (sc_data sc, sc_spec sc) of
          (Some data, Some spec) \<Rightarrow>
            bnd (lift (judge_scrape rig roster seed data spec uuids rep1)) (\<lambda>(uuids1, rep2).
              challenge_stage env s dir rig seed (Some data) uuids1 rep2)
        | (data, _) \<Rightarrow>
            if unreached (sc_verdict sc) then ret rep1
            else challenge_stage env s dir rig seed data uuids rep1)))"

definition host_stage ::
  "DeepEnv \<Rightarrow> Session \<Rightarrow> string \<Rightarrow> pydict \<Rightarrow> pydict list \<Rightarrow> string \<Rightarrow> pass_report \<Rightarrow> ('z Host_scheme, pass_report) act" where
  "host_stage env s dir rig roster seed rep =
     bnd (host_run (de_check env) (session_python s) dir seed) (\<lambda>(v, host).
       (let rep1 = put_detail ''host'' (PDict (trimmed_host host)) (add_verdict v rep) in
        if unreached v then ret rep1 else scrape_stage env s dir rig roster seed rep1))"

text \<open>\<^verbatim>\<open>try: m finally: c\<close>, for a \<open>c\<close> that does not raise.\<close>

definition finally_run :: "rig \<Rightarrow> string \<Rightarrow> ('z Host_scheme, 'a) act \<Rightarrow> ('z Host_scheme, 'a) act" where
  "finally_run h c m = (\<lambda>w. case m w of (w', r) \<Rightarrow> (fst (run h c w'), r))"

definition in_session ::
  "DeepEnv \<Rightarrow> Session \<Rightarrow> pydict \<Rightarrow> pydict list \<Rightarrow> string \<Rightarrow> pass_report \<Rightarrow> ('z Host_scheme, pass_report) act" where
  "in_session env s rig roster seed rep =
     (let h = ck_rig (de_check env); dir = session_dir_of s (de_request env);
          rep1 = put_detail ''attestation'' (PDict (attestation_summary s)) (add_verdict (attestation_verdict s seed) rep)
      in bnd (run h (mkdir_command dir)) (\<lambda>made.
           case classify made seed of
             Some crash \<Rightarrow>
               ret (add_verdict (mk_verdict ''session'' (Some crash)
                      [(''summary'', PStr ''could not create the session directory'')] 0) rep1)
           | None \<Rightarrow> finally_run h (rmdir_command dir) (host_stage env s dir rig roster seed rep1)))"

section \<open>One pass\<close>

text \<open>\<open>version\<close> is the agent's answer to the version request and \<open>opened\<close> how the session was opened
  (\<open>client_open\<close>). An \<^verbatim>\<open>AgentError\<close> comes from the opening only.\<close>

definition pipeline ::
  "DeepEnv \<Rightarrow> AgentError + pydict \<Rightarrow> open_outcome \<Rightarrow> pydict \<Rightarrow> pydict list \<Rightarrow> string \<Rightarrow> string
    \<Rightarrow> ('z Host_scheme, pass_report) act" where
  "pipeline env version opened rig roster min_version seed =
     (let (v, answer) = version_fetch version min_version seed;
          rep = put_detail ''agent_version'' (PStr (str_or_empty answer ''version'')) (add_verdict v ([], []));
          refused = (\<lambda>e. ret (add_verdict (mk_verdict ''session'' (Some (AgentError_failure e seed))
                       [(''summary'', PStr (take 120 (ae_detail e)))] 0) rep))
      in if v_failure v \<noteq> None then ret rep
         else (case opened of
           OpenCallFailed e \<Rightarrow> refused e
         | NoSession e \<Rightarrow> refused e
         | BadGrant e \<Rightarrow> raise (Raised e)
         | BodyRan s \<Rightarrow> in_session env s rig roster seed rep))"

text \<open>The rig as the pool describes it, or as the roster does when the pool refuses.\<close>

definition rig_view :: "pydict \<Rightarrow> string + pydict \<Rightarrow> pydict" where
  "rig_view rig detail =
     (let d = (case detail of Inl _ \<Rightarrow> rig | Inr d \<Rightarrow> d) in
      if dhas d ''connection'' then d
      else AList.update ''connection'' (py_or (dget rig ''connection'' PNone) (PDict [])) d)"

text \<open>What comes from the pool, the agent and the clock during a pass.\<close>

record PassInput =
  pi_detail :: "string + pydict"
  pi_version :: "AgentError + pydict"
  pi_opened :: open_outcome
  pi_started :: rat
  pi_finished :: rat

definition verify ::
  "DeepEnv \<Rightarrow> PassInput \<Rightarrow> pydict \<Rightarrow> pydict list \<Rightarrow> string \<Rightarrow> ('z Host_scheme, Outcome option) act" where
  "verify env i rig roster min_version =
     (let seed = show_int (cr_seed (de_request env)) in
      bnd (attempt (bnd (pipeline env (pi_version i) (pi_opened i) (rig_view rig (pi_detail i)) roster min_version seed)
                      (\<lambda>rep. ret (Some rep)))
             (\<lambda>e. case e of Unavailable m \<Rightarrow> ret None | _ \<Rightarrow> raise e)) (\<lambda>r.
        case r of
          None \<Rightarrow> ret None
        | Some rep \<Rightarrow> ret (Some (outcome_finish (pi_finished i)
            \<lparr>ou_rig_id = rig_id_of rig, ou_hotkey = owner_of rig, ou_seed = seed, ou_started_at = pi_started i,
             ou_verdicts = fst rep, ou_detail = snd rep, ou_finished_at = pi_finished i, ou_failure = None\<rparr>))))"

section \<open>The schedule\<close>

text \<open>\<open>dp_sent\<close> lists the verifications sent to the pool.\<close>

record DeepPass =
  dp_busy :: "string set"
  dp_server_interval :: int
  dp_last_outcomes :: "(string \<times> Outcome) list"
  dp_sent :: "(string \<times> pydict) list"

definition deep_interval :: "int \<Rightarrow> DeepPass \<Rightarrow> int" where
  "deep_interval deep_seconds st =
     (if deep_seconds \<noteq> 0 then deep_seconds
      else if dp_server_interval st \<noteq> 0 then dp_server_interval st else DEFAULT_INTERVAL)"

text \<open>\<open>fromisoformat\<close> reads a moment, as seconds; one without a zone is taken as UTC.\<close>

definition locally_due :: "(string \<Rightarrow> rat option) \<Rightarrow> int \<Rightarrow> rat \<Rightarrow> pydict \<Rightarrow> bool pyres" where
  "locally_due fromisoformat interval now rig =
     (if str_field rig ''state'' \<notin> set VERIFIABLE_STATES \<or> \<not> truthy (dget rig ''online'' (PBool False)) then Inr False
      else rbind (sub_dict (PDict rig) ''last_pass'') (\<lambda>p. rbind (str_attr p ''at'') (\<lambda>last.
        Inr (last = [] \<or> (case fromisoformat last of None \<Rightarrow> True | Some moment \<Rightarrow> of_int interval \<le> now - moment)))))"

definition add_early :: "string set \<Rightarrow> pydict list \<times> string set \<Rightarrow> pydict \<Rightarrow> pydict list \<times> string set" where
  "add_early early = (\<lambda>(due, chosen) rig.
     if rig_id_of rig \<in> early \<and> rig_id_of rig \<notin> chosen \<and> str_field rig ''state'' \<in> set VERIFIABLE_STATES
     then (due @ [rig], insert (rig_id_of rig) chosen) else (due, chosen))"

text \<open>\<open>answer\<close> is what the pool returned for the rigs it holds due, asked for only when the interval is the
  pool's.\<close>

definition due_rigs ::
  "(string \<Rightarrow> rat option) \<Rightarrow> int \<Rightarrow> rat \<Rightarrow> pydict \<Rightarrow> pydict pyres \<Rightarrow> ExpressLane \<times> DeepPass
    \<Rightarrow> (ExpressLane \<times> DeepPass) \<times> (pydict list \<times> pydict list \<times> string) pyres" where
  "due_rigs fromisoformat deep_seconds now roster answer = (\<lambda>(lane, st).
     case rbind (dict_items roster ''rigs'') (\<lambda>rigs.
          rbind (py_int (py_or (dget roster ''deep_pass_seconds'' (PInt DEFAULT_INTERVAL)) (PInt DEFAULT_INTERVAL))) (\<lambda>seconds.
            Inr (rigs, seconds))) of
       Inl e \<Rightarrow> ((lane, st), Inl e)
     | Inr (rigs, seconds) \<Rightarrow>
         (let st1 = st\<lparr>dp_server_interval := seconds\<rparr>; minimum = str_or_empty roster ''agent_min_version'' in
          case (if deep_seconds \<noteq> 0
                then rbind (rmap (\<lambda>r. rbind (locally_due fromisoformat (deep_interval deep_seconds st1) now r) (\<lambda>b.
                       Inr (if b then [r] else []))) rigs) (\<lambda>rs. Inr (concat rs, minimum))
                else rbind answer (\<lambda>a. rbind (dict_items a ''rigs'') (\<lambda>due.
                       Inr (due, py_str (py_or (dget a ''agent_min_version'' (PStr minimum)) (PStr minimum)))))) of
            Inl e \<Rightarrow> ((lane, st1), Inl e)
          | Inr (due, min_version) \<Rightarrow>
              (let (lane1, early) = take_early_due lane;
                   (due1, chosen) = foldl (add_early early) (due, set (map rig_id_of due)) rigs
               in ((lane1, st1), Inr (due1, rigs, min_version)))))"

definition report :: "(rat \<Rightarrow> string) \<Rightarrow> Outcome \<Rightarrow> DeepPass \<Rightarrow> DeepPass" where
  "report isoformat o' st =
     st\<lparr>dp_last_outcomes := AList.update (ou_rig_id o') o' (dp_last_outcomes st),
        dp_sent := dp_sent st @ [(ou_rig_id o', outcome_payload isoformat o')]\<rparr>"

text \<open>The end of a guarded pass: the outcome is reported, an exception is logged, and the rig is released.\<close>

definition end_pass :: "(rat \<Rightarrow> string) \<Rightarrow> pydict \<times> (exc + Outcome option) \<Rightarrow> DeepPass \<Rightarrow> DeepPass" where
  "end_pass isoformat = (\<lambda>(rig, result) st.
     (let st1 = (case result of Inr (Some o') \<Rightarrow> report isoformat o' st | _ \<Rightarrow> st)
      in st1\<lparr>dp_busy := dp_busy st1 - {rig_id_of rig}\<rparr>))"

text \<open>A round of the schedule: \<open>finished\<close> gives the passes over the pending rigs in the order they end.\<close>

definition run_once ::
  "(string \<Rightarrow> rat option) \<Rightarrow> (rat \<Rightarrow> string) \<Rightarrow> int \<Rightarrow> rat \<Rightarrow> pydict \<Rightarrow> pydict pyres
    \<Rightarrow> (pydict list \<Rightarrow> (pydict \<times> (exc + Outcome option)) list) \<Rightarrow> ExpressLane \<times> DeepPass
    \<Rightarrow> (ExpressLane \<times> DeepPass) \<times> nat pyres" where
  "run_once fromisoformat isoformat deep_seconds now roster answer finished state =
     (case due_rigs fromisoformat deep_seconds now roster answer state of
        (state1, Inl e) \<Rightarrow> (state1, Inl e)
      | ((lane, st), Inr (due, rigs, min_version)) \<Rightarrow>
          (let pending = filter (\<lambda>r. rig_id_of r \<notin> dp_busy st) due;
               st1 = st\<lparr>dp_busy := dp_busy st \<union> set (map rig_id_of pending)\<rparr>
           in ((lane, fold (end_pass isoformat) (finished pending) st1), Inr (length pending))))"

section \<open>What a computation may return\<close>

definition returns :: "(Host, 'a) act \<Rightarrow> 'a \<Rightarrow> bool" where
  "returns m x \<longleftrightarrow> (\<exists>w w'. m w = (w', Inr x))"

lemma returnsI: "m w = (w', Inr x) \<Longrightarrow> returns m x"
  by (auto simp: returns_def)

lemma returns_ret [simp]: "returns (ret x) y \<longleftrightarrow> y = x"
  by (auto simp: returns_def)

lemma returns_raise [simp]: "\<not> returns (raise e) y"
  by (auto simp: returns_def)

lemma returns_lift [simp]: "returns (lift m) y \<longleftrightarrow> m = Inr y"
  by (cases m) (auto simp: lift_def)

lemma returns_bnd: "returns (bnd m f) y \<Longrightarrow> \<exists>x. returns m x \<and> returns (f x) y"
  unfolding returns_def bnd_Inr by blast

lemma returns_finally: "returns (finally_run h c m) y \<Longrightarrow> returns m y"
  unfolding returns_def finally_run_def by (metis (no_types, lifting) case_prod_beta prod.collapse snd_conv)

lemma report_simps [simp]:
  "fst (add_verdict v rep) = fst rep @ [v]" "fst (put_detail k x rep) = fst rep"
  by (simp_all add: add_verdict_def put_detail_def)

lemma passed_reached: "passed v \<Longrightarrow> \<not> unreached v"
  by (simp add: passed_def unreached_def)

section \<open>The stages\<close>

lemma exclusivity_stage_returns:
  assumes "returns (exclusivity_stage env rig seed data inspected rep) rep'"
  shows "\<exists>listing e. deep_exclusivity rig data inspected listing seed = Inr e \<and> fst rep' = fst rep @ [e]"
proof -
  obtain listing e where e: "deep_exclusivity rig data inspected listing seed = Inr e"
    and r: "returns (let rep1 = put_detail ''exclusivity'' (PDict (v_evidence e)) (add_verdict e rep) in
        if worst (fst rep1) = None
        then bnd (wedge_sweep (ck_rig (de_check env))) (\<lambda>sweep.
               ret (put_detail ''recovery'' (PDict [(''gpu_wedge'', PDict (SweepResult_payload sweep))]) rep1))
        else ret rep1) rep'"
    using assms unfolding exclusivity_stage_def by (auto dest!: returns_bnd)
  then have "fst rep' = fst rep @ [e]" by (auto simp: Let_def dest!: returns_bnd split: if_splits)
  with e show ?thesis by blast
qed

lemma inspector_stage_returns:
  assumes "returns (inspector_stage env s dir rig seed data rep) rep'" "list_all passed (fst rep')"
  shows "\<exists>v inspected listing e. returns (inspect env s dir seed) (v, inspected)
    \<and> deep_exclusivity rig data inspected listing seed = Inr e \<and> fst rep' = fst rep @ [v, e]"
  using assms unfolding inspector_stage_def
  by (auto simp: Let_def dest!: returns_bnd exclusivity_stage_returns passed_reached split: if_splits) blast+

lemma challenge_stage_returns:
  assumes "returns (challenge_stage env s dir rig seed data uuids rep) rep'" "list_all passed (fst rep')"
  shows "\<exists>c v inspected listing e.
    returns (deep_challenge env (session_python s) dir (challenge_tier_of rig) uuids) c
    \<and> returns (inspect env s dir seed) (v, inspected)
    \<and> deep_exclusivity rig data inspected listing seed = Inr e \<and> fst rep' = fst rep @ [c, v, e]"
proof -
  obtain c where c: "returns (deep_challenge env (session_python s) dir (challenge_tier_of rig) uuids) c"
    and r: "returns (let rep1 = put_detail ''challenge'' (PDict (filter (\<lambda>(k, x). k \<noteq> ''digest'') (v_evidence c))) (add_verdict c rep) in
        if unreached c then ret rep1 else inspector_stage env s dir rig seed data rep1) rep'"
    using assms(1) unfolding challenge_stage_def by (auto dest!: returns_bnd)
  have "\<not> unreached c" using r assms(2) passed_reached [of c] by (auto simp: Let_def split: if_splits)
  then have "returns (inspector_stage env s dir rig seed data
      (put_detail ''challenge'' (PDict (filter (\<lambda>(k, x). k \<noteq> ''digest'') (v_evidence c))) (add_verdict c rep))) rep'"
    using r by (simp add: Let_def)
  from inspector_stage_returns [OF this assms(2)] obtain v inspected listing e
    where "returns (inspect env s dir seed) (v, inspected)" "deep_exclusivity rig data inspected listing seed = Inr e"
      "fst rep' = fst rep @ [c, v, e]" by auto
  with c show ?thesis by blast
qed

lemma judge_scrape_Inr:
  assumes "judge_scrape rig roster seed data spec us rep = Inr (uuids, rep')"
  shows "\<exists>sv cards dv. specs_check data rig seed = Inr sv \<and> dict_items data ''gpus'' = Inr cards
    \<and> duplicates_check cards (rig_id_of rig) roster seed = Inr dv \<and> fst rep' = fst rep @ [sv, dv]
    \<and> set uuids \<subseteq> set us \<and> (uuids = [] \<longleftrightarrow> us = [])"
  using assms by (auto simp: judge_scrape_def result_simps Let_def split: if_splits)

lemma scrape_run_data:
  assumes "returns (scrape_run env python address ports seed) sc" "passed (sc_verdict sc)"
  shows "\<exists>data spec. sc_data sc = Some data \<and> sc_spec sc = Some spec"
proof -
  obtain w w' :: Host where "scrape_run env python address ports seed w = (w', Inr sc)" using assms(1) by (auto simp: returns_def)
  then show ?thesis using scrape_read_passed [OF _ assms(2)] by (elim scrape_run_cases) blast
qed

lemma scrape_stage_returns:
  assumes "returns (scrape_stage env s dir rig roster seed rep) rep'" "list_all passed (fst rep')"
  shows "\<exists>sc data us sv cards dv uuids c v inspected listing e.
    returns (scrape_run (de_check env) (session_python s) (s_address s) (sg_port_range (s_grant s)) seed) sc
    \<and> sc_data sc = Some data \<and> specs_check data rig seed = Inr sv \<and> dict_items data ''gpus'' = Inr cards
    \<and> duplicates_check cards (rig_id_of rig) roster seed = Inr dv
    \<and> enrolled_uuids rig = Inr us \<and> set uuids \<subseteq> set us \<and> (uuids = [] \<longleftrightarrow> us = [])
    \<and> returns (deep_challenge env (session_python s) dir (challenge_tier_of rig) uuids) c
    \<and> returns (inspect env s dir seed) (v, inspected)
    \<and> deep_exclusivity rig (Some data) inspected listing seed = Inr e
    \<and> fst rep' = fst rep @ [sc_verdict sc, sv, dv, c, v, e]"
proof -
  obtain sc us where sc: "returns (scrape_run (de_check env) (session_python s) (s_address s) (sg_port_range (s_grant s)) seed) sc"
    and us: "enrolled_uuids rig = Inr us"
    and r: "returns (let rep1 = add_verdict (sc_verdict sc) rep in
        case (sc_data sc, sc_spec sc) of
          (Some data, Some spec) \<Rightarrow>
            bnd (lift (judge_scrape rig roster seed data spec us rep1)) (\<lambda>(uuids1, rep2).
              challenge_stage env s dir rig seed (Some data) uuids1 rep2)
        | (data, _) \<Rightarrow>
            if unreached (sc_verdict sc) then ret rep1
            else challenge_stage env s dir rig seed data us rep1) rep'"
    using assms(1) unfolding scrape_stage_def by (auto dest!: returns_bnd)
  have grows: "set (fst rep1) \<subseteq> set (fst rep')" if "returns (challenge_stage env s dir rig seed data uuids rep1) rep'"
    for data uuids rep1 using challenge_stage_returns [OF that assms(2)] by auto
  have "sc_verdict sc \<in> set (fst rep')"
  proof (cases "sc_data sc = None \<or> sc_spec sc = None")
    case True
    then show ?thesis using r by (auto simp: Let_def dest!: grows split: option.splits if_splits)
  next
    case False
    then show ?thesis using r by (auto simp: Let_def dest!: returns_bnd judge_scrape_Inr grows)
  qed
  with assms(2) have "passed (sc_verdict sc)" by (simp add: list_all_iff)
  then obtain data spec where d: "sc_data sc = Some data" "sc_spec sc = Some spec" using scrape_run_data [OF sc] by blast
  then obtain uuids rep2 where j: "judge_scrape rig roster seed data spec us (add_verdict (sc_verdict sc) rep) = Inr (uuids, rep2)"
    and c: "returns (challenge_stage env s dir rig seed (Some data) uuids rep2) rep'"
    using r by (auto simp: Let_def dest!: returns_bnd)
  from judge_scrape_Inr [OF j] obtain sv cards dv where "specs_check data rig seed = Inr sv" "dict_items data ''gpus'' = Inr cards"
    "duplicates_check cards (rig_id_of rig) roster seed = Inr dv" "fst rep2 = fst rep @ [sc_verdict sc, sv, dv]"
    "set uuids \<subseteq> set us" "uuids = [] \<longleftrightarrow> us = []" by auto
  moreover from challenge_stage_returns [OF c assms(2)] obtain c v inspected listing e
    where "returns (deep_challenge env (session_python s) dir (challenge_tier_of rig) uuids) c"
      "returns (inspect env s dir seed) (v, inspected)"
      "deep_exclusivity rig (Some data) inspected listing seed = Inr e" "fst rep' = fst rep2 @ [c, v, e]" by blast
  ultimately show ?thesis using sc us d(1)
    by (intro exI [of _ sc] exI [of _ data] exI [of _ us] exI [of _ cards] exI [of _ uuids] exI) (simp, blast?)
qed

lemma host_stage_returns:
  assumes "returns (host_stage env s dir rig roster seed rep) rep'" "list_all passed (fst rep')"
  shows "\<exists>hv host rep1. returns (host_run (de_check env) (session_python s) dir seed) (hv, host)
    \<and> fst rep1 = fst rep @ [hv] \<and> returns (scrape_stage env s dir rig roster seed rep1) rep'"
proof -
  obtain hv host where h: "returns (host_run (de_check env) (session_python s) dir seed) (hv, host)"
    and r: "returns (let rep1 = put_detail ''host'' (PDict (trimmed_host host)) (add_verdict hv rep) in
        if unreached hv then ret rep1 else scrape_stage env s dir rig roster seed rep1) rep'"
    using assms(1) unfolding host_stage_def by (auto dest!: returns_bnd)
  have "\<not> unreached hv" using r assms(2) passed_reached [of hv] by (auto simp: Let_def split: if_splits)
  then show ?thesis using h r by (intro exI conjI) (auto simp: Let_def)
qed

lemma in_session_returns:
  assumes "returns (in_session env s rig roster seed rep) rep'" "list_all passed (fst rep')"
  shows "\<exists>rep1. fst rep1 = fst rep @ [attestation_verdict s seed]
    \<and> returns (host_stage env s (session_dir_of s (de_request env)) rig roster seed rep1) rep'"
proof -
  let ?rep = "put_detail ''attestation'' (PDict (attestation_summary s)) (add_verdict (attestation_verdict s seed) rep)"
  have "returns (host_stage env s (session_dir_of s (de_request env)) rig roster seed ?rep) rep'"
    using assms unfolding in_session_def Let_def by (auto dest!: returns_bnd returns_finally split: option.splits)
  then show ?thesis by (intro exI [of _ ?rep]) simp
qed

lemma pipeline_returns:
  assumes "returns (pipeline env version opened rig roster min_version seed) rep'" "list_all passed (fst rep')"
  shows "\<exists>s rep1. opened = BodyRan s \<and> fst rep1 = [fst (version_fetch version min_version seed)]
    \<and> returns (in_session env s rig roster seed rep1) rep'"
proof -
  obtain v answer where v: "version_fetch version min_version seed = (v, answer)" by fastforce
  let ?rep = "put_detail ''agent_version'' (PStr (str_or_empty answer ''version'')) (add_verdict v ([], []))"
  have "\<exists>s. opened = BodyRan s \<and> returns (in_session env s rig roster seed ?rep) rep'"
    using assms v unfolding pipeline_def Let_def by (auto simp: passed_def split: if_splits open_outcome.splits)
  then show ?thesis using v by (auto intro!: exI [of _ ?rep] simp del: split_paired_Ex)
qed

lemma verify_returns:
  assumes "verify env i rig roster min_version w = (w', Inr (Some out))"
  shows "\<exists>rep w1. pipeline env (pi_version i) (pi_opened i) (rig_view rig (pi_detail i)) roster min_version
      (show_int (cr_seed (de_request env))) w = (w1, Inr rep)
    \<and> ou_verdicts out = fst rep \<and> ou_failure out = worst (fst rep)
    \<and> dget (ou_detail out) ''failing_check'' PNone = PStr (failing_check (fst rep) (worst (fst rep)))"
  using assms
  by (auto simp: verify_def Let_def bnd_def attempt_def outcome_finish_def dget_update
      split: prod.splits sum.splits option.splits exc.splits)


section \<open>What is reported\<close>

lemma find_prefix:
  assumes "vs = us @ v # ws" "P v" "\<forall>u \<in> set us. \<not> P u"
  shows "List.find P vs = Some v"
proof -
  have "List.find P us = None" using assms(3) by (simp add: find_None_iff)
  then show ?thesis unfolding assms(1) by (induction us) (auto simp: assms(2) split: if_splits)
qed

lemma worst_from:
  assumes "worst vs = Some f"
  obtains us v ws where "vs = us @ v # ws" "v_failure v = Some f" "\<forall>u \<in> set us. v_failure u \<noteq> Some f"
proof -
  have "\<exists>v \<in> set vs. v_failure v = Some f" using worst.pick_mem [OF assms] by (simp add: set_failures_of)
  then show thesis by (rule split_list_first_propE) (use that in blast)
qed

text \<open>The outcome a pass reports is the worst of its verdicts: it has passed exactly when every verdict has,
  and otherwise its failure is that of the check it names, of a class no other failure of the pass comes
  before.\<close>

theorem outcome_is_worst_verdict:
  assumes "verify env i rig roster min_version w = (w', Inr (Some out))"
  shows "(ou_passed out \<longleftrightarrow> list_all passed (ou_verdicts out))
    \<and> (\<forall>f. ou_failure out = Some f \<longrightarrow>
         (\<exists>v \<in> set (ou_verdicts out). v_failure v = Some f \<and> dget (ou_detail out) ''failing_check'' PNone = PStr (v_check v))
         \<and> (\<forall>v \<in> set (ou_verdicts out). \<forall>g. v_failure v = Some g \<longrightarrow> f_kind f \<le> f_kind g))"
proof -
  from verify_returns [OF assms] obtain rep :: pass_report where o: "ou_verdicts out = fst rep" "ou_failure out = worst (fst rep)"
    "dget (ou_detail out) ''failing_check'' PNone = PStr (failing_check (fst rep) (worst (fst rep)))" by (elim exE conjE) (rule that)
  have "\<exists>v \<in> set (fst rep). v_failure v = Some f \<and> failing_check (fst rep) (Some f) = v_check v" if "worst (fst rep) = Some f" for f
    using that
  proof (rule worst_from)
    fix us v ws
    assume v: "fst rep = us @ v # ws" "v_failure v = Some f" "\<forall>u \<in> set us. v_failure u \<noteq> Some f"
    then have "List.find (\<lambda>v. v_failure v \<noteq> None \<and> v_failure v = Some f) (fst rep) = Some v" by (intro find_prefix) auto
    then show ?thesis using v by (auto simp: failing_check_def)
  qed
  then show ?thesis using o worst.pick_least [of "fst rep"] by (auto simp: ou_passed_def worst.pick_None list_all_iff set_failures_of)
qed

section \<open>Rounds of the schedule\<close>

lemma add_early_all:
  assumes "foldl (add_early early) (due, set (map rig_id_of due)) rigs = (due', chosen')"
  shows "chosen' = set (map rig_id_of due') \<and> prefix due due'
    \<and> (\<forall>r \<in> set rigs. rig_id_of r \<in> early \<and> str_field r ''state'' \<in> set VERIFIABLE_STATES \<longrightarrow> rig_id_of r \<in> chosen')"
  using assms
proof (induction rigs arbitrary: due)
  case (Cons r rigs)
  let ?add = "rig_id_of r \<in> early \<and> rig_id_of r \<notin> set (map rig_id_of due) \<and> str_field r ''state'' \<in> set VERIFIABLE_STATES"
  define due1 where "due1 = (if ?add then due @ [r] else due)"
  have "foldl (add_early early) (due1, set (map rig_id_of due1)) rigs = (due', chosen')"
    using Cons.prems by (auto simp: add_early_def due1_def)
  note IH = Cons.IH [OF this]
  moreover have "set (map rig_id_of due1) \<subseteq> chosen'" using IH by (auto simp: prefix_def)
  ultimately show ?case by (auto simp: due1_def prefix_def split: if_splits)
qed simp

lemma end_pass_busy: "dp_busy (end_pass isoformat p st) = dp_busy st - {rig_id_of (fst p)}"
  by (auto simp: end_pass_def report_def Let_def split: prod.splits sum.splits option.splits)

definition sent_by :: "(rat \<Rightarrow> string) \<Rightarrow> pydict \<times> (exc + Outcome option) \<Rightarrow> (string \<times> pydict) list" where
  "sent_by isoformat p = (case snd p of Inr (Some out) \<Rightarrow> [(ou_rig_id out, outcome_payload isoformat out)] | _ \<Rightarrow> [])"

lemma end_pass_sent: "dp_sent (end_pass isoformat p st) = dp_sent st @ sent_by isoformat p"
  by (auto simp: end_pass_def report_def sent_by_def Let_def split: prod.splits sum.splits option.splits)

lemma end_passes:
  "dp_busy (fold (end_pass isoformat) ps st) = dp_busy st - rig_id_of ` fst ` set ps"
  "dp_sent (fold (end_pass isoformat) ps st) = dp_sent st @ concat (map (sent_by isoformat) ps)"
  by (induction ps arbitrary: st) (auto simp: end_pass_busy end_pass_sent)

lemma due_rigs_Inr:
  assumes "due_rigs fromisoformat deep_seconds now roster answer (lane, st) = ((lane', st'), Inr (due, rigs, min_version))"
  shows "dict_items roster ''rigs'' = Inr rigs \<and> ex_early_due lane' = {} \<and> dp_busy st' = dp_busy st \<and> dp_sent st' = dp_sent st
    \<and> (\<forall>r \<in> set rigs. rig_id_of r \<in> ex_early_due lane \<and> str_field r ''state'' \<in> set VERIFIABLE_STATES
         \<longrightarrow> rig_id_of r \<in> rig_id_of ` set due)"
proof -
  obtain due0 due1 chosen where f: "foldl (add_early (ex_early_due lane)) (due0, set (map rig_id_of due0)) rigs = (due1, chosen)"
    and r: "due = due1" "dict_items roster ''rigs'' = Inr rigs" "lane' = lane\<lparr>ex_early_due := {}\<rparr>"
      "dp_busy st' = dp_busy st" "dp_sent st' = dp_sent st"
    using assms by (auto simp: due_rigs_def take_early_due_def Let_def result_simps split: sum.splits prod.splits)
  then show ?thesis using add_early_all [OF f] by auto
qed

text \<open>C22: A round of the schedule serves the rigs the express lane put up: every rig of the roster that waits
  for an early pass, is in a state that is verified and is not in a pass already gets one in this round,
  and the waiting list is emptied. The round ends with the same rigs busy as it began with, and sends the
  pool the outcomes of its passes in the order they ended, and nothing else.\<close>

theorem round_serves_early_rigs:
  assumes "run_once fromisoformat isoformat deep_seconds now roster answer finished (lane, st) = ((lane', st'), Inr n)"
    and "\<forall>ps. mset (map fst (finished ps)) = mset ps"
  shows "\<exists>pending rigs. dict_items roster ''rigs'' = Inr rigs \<and> n = length pending
    \<and> (\<forall>r \<in> set rigs. rig_id_of r \<in> ex_early_due lane \<and> str_field r ''state'' \<in> set VERIFIABLE_STATES
          \<and> rig_id_of r \<notin> dp_busy st \<longrightarrow> (\<exists>p \<in> set (finished pending). rig_id_of (fst p) = rig_id_of r))
    \<and> ex_early_due lane' = {} \<and> dp_busy st' = dp_busy st
    \<and> dp_sent st' = dp_sent st @ concat (map (sent_by isoformat) (finished pending))"
proof -
  obtain st1 due rigs min_version where d: "due_rigs fromisoformat deep_seconds now roster answer (lane, st) =
      ((lane', st1), Inr (due, rigs, min_version))"
    and n: "n = length (filter (\<lambda>r. rig_id_of r \<notin> dp_busy st1) due)"
    and s: "st' = fold (end_pass isoformat) (finished (filter (\<lambda>r. rig_id_of r \<notin> dp_busy st1) due))
        (st1\<lparr>dp_busy := dp_busy st1 \<union> set (map rig_id_of (filter (\<lambda>r. rig_id_of r \<notin> dp_busy st1) due))\<rparr>)"
    using assms(1) by (auto simp: run_once_def Let_def split: prod.splits sum.splits)
  define pending where "pending = filter (\<lambda>r. rig_id_of r \<notin> dp_busy st1) due"
  note facts = due_rigs_Inr [OF d]
  have m: "fst ` set (finished pending) = set pending"
    using assms(2) [rule_format, of pending] by (metis set_map set_mset_mset)
  have "\<exists>p \<in> set (finished pending). rig_id_of (fst p) = rig_id_of r"
    if "r \<in> set rigs" "rig_id_of r \<in> ex_early_due lane" "str_field r ''state'' \<in> set VERIFIABLE_STATES" "rig_id_of r \<notin> dp_busy st" for r
  proof -
    have "\<exists>r' \<in> set pending. rig_id_of r' = rig_id_of r" using facts that by (fastforce simp: pending_def)
    then obtain r' where "r' \<in> fst ` set (finished pending)" "rig_id_of r' = rig_id_of r" unfolding m by blast
    then show ?thesis by auto
  qed
  moreover have "dp_busy st' = dp_busy st" unfolding s pending_def [symmetric] end_passes m
    using facts by (auto simp: pending_def)
  moreover have "dp_sent st' = dp_sent st @ concat (map (sent_by isoformat) (finished pending))"
    unfolding s pending_def [symmetric] end_passes using facts by simp
  ultimately show ?thesis using facts n unfolding pending_def [symmetric] by blast
qed

text \<open>C37: A rig that answers out of form escapes its verdict. A grant that cannot be read, or a host report whose
  judgement raises (its DMI entry is not an object, say), ends the pass with an exception; nothing is sent
  to the pool and the last outcome stays, where a refusal or a failed check would have been reported.\<close>

theorem malformed_answer_escapes_verdict:
  assumes "seed = show_int (cr_seed (de_request env))" "passed (fst (version_fetch (pi_version i) min_version seed))"
    and "pi_opened i = BadGrant e \<or> (\<exists>s dir sent report. pi_opened i = BodyRan s \<and> dir = session_dir_of s (de_request env)
      \<and> sent = w_sent w @ [(mkdir_command dir, None)]
      \<and> classify (ck_rig (de_check env) (w_sent w) (mkdir_command dir, None)) seed = None
      \<and> ck_refuses (de_check env) sent (dir @ ''/host_reality.py'') = None
      \<and> last_json_object (ck_loads (de_check env)) (res_stdout (ck_rig (de_check env) sent
           (shlex_quote (session_python s) @ '' -I '' @ shlex_quote (dir @ ''/host_reality.py''), None))) = Some report
      \<and> host_judge report seed = Inl e)"
  shows "snd (verify env i rig roster min_version w) = Inl (Raised e)
    \<and> dp_sent (end_pass isoformat (rig, snd (verify env i rig roster min_version w)) st) = dp_sent st
    \<and> dp_last_outcomes (end_pass isoformat (rig, snd (verify env i rig roster min_version w)) st) = dp_last_outcomes st"
proof -
  let ?p = "pipeline env (pi_version i) (pi_opened i) (rig_view rig (pi_detail i)) roster min_version seed"
  have "snd (?p w) = Inl (Raised e)"
    using assms(3)
  proof (elim disjE exE conjE)
    assume "pi_opened i = BadGrant e"
    then show ?thesis using assms(2) by (auto simp: pipeline_def Let_def passed_def split: prod.splits)
  next
    fix s dir sent report
    assume a: "pi_opened i = BodyRan s" "dir = session_dir_of s (de_request env)" "sent = w_sent w @ [(mkdir_command dir, None)]"
      "classify (ck_rig (de_check env) (w_sent w) (mkdir_command dir, None)) seed = None"
      "ck_refuses (de_check env) sent (dir @ ''/host_reality.py'') = None"
      "last_json_object (ck_loads (de_check env)) (res_stdout (ck_rig (de_check env) sent
           (shlex_quote (session_python s) @ '' -I '' @ shlex_quote (dir @ ''/host_reality.py''), None))) = Some report"
      "host_judge report seed = Inl e"
    then have "\<exists>w1. host_run (de_check env) (session_python s) dir seed (w\<lparr>w_sent := sent\<rparr>) = (w1, Inl (Raised e))"
      by (simp add: host_run_def Let_def HOST_PAYLOAD_def catch_ssh_def attempt_def bnd_def upload_def run_json_def lift_def)
    then show ?thesis using a assms(2)
      by (auto simp: pipeline_def in_session_def host_stage_def finally_run_def bnd_def Let_def passed_def split: prod.splits)
  qed
  then have "snd (verify env i rig roster min_version w) = Inl (Raised e)"
    by (cases "?p w") (auto simp: verify_def Let_def bnd_def attempt_def assms(1))
  then show ?thesis by (simp add: end_pass_def Let_def)
qed

section \<open>What a pass sends\<close>

abbreviation anything :: "cmd \<Rightarrow> bool" where "anything \<equiv> \<lambda>_. True"

lemma emits_catch: "emits anything m \<Longrightarrow> (\<And>k d. emits anything (f k d)) \<Longrightarrow> emits anything (catch_ssh m f)"
  unfolding catch_ssh_def by (intro emits_rules) (auto intro: emits_rules split: exc.splits)

lemma emits_uploads: "emits anything (upload env path)" "emits anything (run_json env c)"
  unfolding upload_def run_json_def by (auto intro!: emits_rules split: option.splits)

lemma emits_host_run: "emits anything (host_run env python dir seed)"
  unfolding host_run_def Let_def
  by (intro emits_bnd emits_catch) (auto intro!: emits_rules emits_uploads split: sum.splits option.splits)

lemma emits_scrape_run: "emits anything (scrape_run env python address ports seed)"
  unfolding scrape_run_def by (intro emits_bnd emits_catch) (auto intro!: emits_rules split: sum.splits)

lemma emits_cards: "emits anything (challenge_cards env python dir p expected tier uuids)"
proof (induction uuids)
  case (Cons u us)
  have "emits anything (ask_card env seed c)" for seed c
    unfolding ask_card_def by (intro emits_catch) (auto intro!: emits_rules emits_uploads)
  then show ?case by (auto intro!: emits_rules Cons.IH)
qed (simp only: challenge_cards.simps emits_ret)

lemma emits_challenge: "emits anything (deep_challenge env python dir tier uuids)"
proof -
  have "emits anything (deep_prepare env dir)" "emits anything (deep_expected env)"
    unfolding deep_prepare_def deep_expected_def by (auto intro!: emits_rules split: sum.splits challenge_error.splits)
  then show ?thesis unfolding deep_challenge_def by (auto intro!: emits_rules emits_cards)
qed

lemma emits_inspect: "emits anything (inspect env s dir seed)"
  unfolding inspect_def Let_def
  by (intro emits_bnd emits_catch) (auto intro!: emits_rules emits_uploads split: sum.splits option.splits)

lemma emits_exclusivity: "emits anything (exclusivity_stage env rig seed data inspected rep)"
  unfolding exclusivity_stage_def Let_def by (auto intro!: emits_rules emits_wedge_sweep)

lemma emits_inspector: "emits anything (inspector_stage env s dir rig seed data rep)"
  unfolding inspector_stage_def Let_def by (auto intro!: emits_rules emits_inspect emits_exclusivity)

lemma emits_challenge_stage: "emits anything (challenge_stage env s dir rig seed data uuids rep)"
  unfolding challenge_stage_def Let_def by (auto intro!: emits_rules emits_challenge emits_inspector)

lemma emits_scrape_stage: "emits anything (scrape_stage env s dir rig roster seed rep)"
  unfolding scrape_stage_def Let_def
  by (auto intro!: emits_rules emits_scrape_run emits_challenge_stage split: option.splits)

lemma emits_host_stage: "emits anything (host_stage env s dir rig roster seed rep)"
  unfolding host_stage_def Let_def by (auto intro!: emits_rules emits_host_run emits_scrape_stage)

text \<open>The directory a session works in is removed on every path: when the command that makes it
  succeeded, the last command of the session is its removal, whatever the checks returned or raised; when
  it failed, nothing else is sent.\<close>

theorem session_dir_removed:
  "\<exists>cs. w_sent (fst (in_session env s rig roster seed rep w)) =
      w_sent w @ (mkdir_command (session_dir_of s (de_request env)), None) # cs
    \<and> (if classify (ck_rig (de_check env) (w_sent w) (mkdir_command (session_dir_of s (de_request env)), None)) seed = None
       then cs \<noteq> [] \<and> last cs = (rmdir_command (session_dir_of s (de_request env)), None) else cs = [])"
proof (cases "classify (ck_rig (de_check env) (w_sent w) (mkdir_command (session_dir_of s (de_request env)), None)) seed")
  case None
  let ?dir = "session_dir_of s (de_request env)"
  let ?w = "w\<lparr>w_sent := w_sent w @ [(mkdir_command ?dir, None)]\<rparr>"
    and ?rep = "put_detail ''attestation'' (PDict (attestation_summary s)) (add_verdict (attestation_verdict s seed) rep)"
  obtain w1 r where h: "host_stage env s ?dir rig roster seed ?rep ?w = (w1, r)" by fastforce
  then obtain cs where cs: "w_sent w1 = w_sent ?w @ cs" using emitsD [OF emits_host_stage] by blast
  have "fst (in_session env s rig roster seed rep w) = w1\<lparr>w_sent := w_sent w1 @ [(rmdir_command ?dir, None)]\<rparr>"
    using None h by (simp add: in_session_def Let_def bnd_def finally_run_def)
  then show ?thesis using None cs by (intro exI [of _ "cs @ [(rmdir_command ?dir, None)]"]) simp
next
  case (Some crash)
  then show ?thesis by (simp add: in_session_def Let_def bnd_def)
qed

section \<open>A pass that succeeds\<close>

lemma scan_window_code [code]:
  "scan_window s = (if int (length s) \<le> 262144 then map strip (rev (splitlines s))
     else map strip (rev (splitlines (tail_chars SCAN_BYTES s))))"
  by (auto simp: scan_window_def tail_chars_def SCAN_BYTES_def)

definition answering :: "string \<Rightarrow> CommandResult" where
  "answering out = \<lparr>res_command = [], res_exit_code = 0, res_stdout = out, res_stderr = [], res_elapsed_ms = 5, res_error = []\<rparr>"

text \<open>A rig that answers each check with one line.\<close>

definition demo_deep_rig :: rig where
  "demo_deep_rig sent c =
     (case snd c of
        Some _ \<Rightarrow> answering ''gAAAAAtoken''
      | None \<Rightarrow> answering
          (if contains_str ''host_reality'' (fst c) then ''{h}''
           else if contains_str ''challenge_runner'' (fst c) then ''{c}''
           else if contains_str ''inspector'' (fst c) then ''{i}'' else []))"

definition demo_deep_json :: "string \<Rightarrow> pyval option" where
  "demo_deep_json l =
     (if l = ''report'' then Some (PDict [(''gpus'', PList [PDict [(''_'', PStr ''GPU-1'')]])])
      else if l = ''{h}''
      then Some (PDict [(''init_root_reachable'', PBool True), (''init_root_differs'', PBool True),
             (''init_os_release_readable'', PBool True), (''dmi'', PDict [(''sys_vendor'', PStr ''ACME'')])])
      else if l = ''{c}'' then Some (PDict [(''digest'', PStr ''1f''), (''elapsed_ms'', PFloat 7)])
      else if l = ''{i}'' then Some (PDict [(''handshake'', PStr ''mac'')])
      else None)"

definition demo_deep :: DeepEnv where
  "demo_deep = \<lparr>de_check = \<lparr>ck_rig = demo_deep_rig, ck_refuses = \<lambda>_ _. None, ck_loads = demo_deep_json,
       ck_sha256 = \<lambda>names. [length names], ck_decrypt = \<lambda>key t. if key = [1] \<and> t = ''gAAAAAtoken'' then Some ''report'' else None,
       ck_payload = demo_payload, ck_draw = demo_draw\<rparr>,
     de_sha256_hex = \<lambda>_. [], de_hmac = \<lambda>_ _. ''mac'', de_agent_library = None, de_allow_reference = True,
     de_library_digest = Some (Inr 31), de_max_ms = 1000,
     de_request = \<lparr>cr_seed = 7, cr_cipher = 2, cr_n = 2, cr_rounds = 1, cr_benchmark_n = 2, cr_iterations = 1\<rparr>,
     de_secret = ''00''\<rparr>"

definition demo_session :: Session where
  "demo_session = \<lparr>s_rig_id = ''r1'', s_address = ''rig.example'',
     s_grant = \<lparr>sg_ssh_username = ''rig'', sg_ssh_port = 22, sg_ssh_host_key = ''k'', sg_python_path = [], sg_root_dir = ''/opt'',
       sg_port_range = ''1-2'', sg_validator = [], sg_expires_at = [], sg_gpu_attestation = [], sg_tdx_quote = [], sg_session_id = []\<rparr>,
     s_nonce = ''n'', s_public_key = [],
     s_attestation = \<lparr>at_nonce = ''n'', at_agent_version = [], at_hostname = [], at_gpus = [], at_driver = [], at_cuda = [],
       at_machine_id = [], at_boot_id = [], at_host_key = [], at_report_data_hex = [], at_tdx_quote = [], at_gpu_evidence = [],
       at_generated_at = 0\<rparr>,
     s_bound = True, s_report_data_ok = None\<rparr>"

definition demo_input :: PassInput where
  "demo_input = \<lparr>pi_detail = Inl [], pi_version = Inr [(''version'', PStr ''1.0'')], pi_opened = BodyRan demo_session,
     pi_started = 0, pi_finished = 1\<rparr>"

definition passes :: "'s \<times> (exc + Outcome option) \<Rightarrow> bool" where
  "passes r = (case snd r of Inr (Some out) \<Rightarrow> ou_passed out | _ \<Rightarrow> False)"

lemma demo_passes: "passes (verify demo_deep demo_input [(''id'', PStr ''r1'')] [] ''0.9'' \<lparr>w_sent = []\<rparr>)"
  by code_simp

lemma passesE:
  assumes "passes r" obtains w' out where "r = (w', Inr (Some out))" "ou_passed out"
  using assms by (cases r) (auto simp: passes_def split: sum.splits option.splits)


theorem outcome_is_worst_verdict_witness:
  "\<exists>w' out. verify demo_deep demo_input [(''id'', PStr ''r1'')] [] ''0.9'' \<lparr>w_sent = []\<rparr> = (w', Inr (Some out))
    \<and> list_all passed (ou_verdicts out)"
  using demo_passes
proof (rule passesE)
  fix w' out
  assume r: "verify demo_deep demo_input [(''id'', PStr ''r1'')] [] ''0.9'' \<lparr>w_sent = []\<rparr> = (w', Inr (Some out))" "ou_passed out"
  from outcome_is_worst_verdict [OF r(1)] r show ?thesis by blast
qed

theorem malformed_answer_escapes_verdict_witness:
  "dp_sent (end_pass (\<lambda>_. []) ([], snd (verify demo_deep (demo_input\<lparr>pi_opened := BadGrant ValueError\<rparr>) [] [] ''0.9'' \<lparr>w_sent = []\<rparr>))
      \<lparr>dp_busy = {}, dp_server_interval = 0, dp_last_outcomes = [], dp_sent = []\<rparr>) = []"
proof -
  have "passed (fst (version_fetch (pi_version (demo_input\<lparr>pi_opened := BadGrant ValueError\<rparr>)) ''0.9'' (show_int (cr_seed (de_request demo_deep)))))"
    by code_simp
  from malformed_answer_escapes_verdict [OF refl this, where e = ValueError and w = "\<lparr>w_sent = []\<rparr>" and rig = "[]" and roster = "[]"
      and isoformat = "\<lambda>_. []" and st = "\<lparr>dp_busy = {}, dp_server_interval = 0, dp_last_outcomes = [], dp_sent = []\<rparr>"]
  show ?thesis by (simp add: end_pass_def Let_def)
qed

text \<open>A roster with one rig that waits for an early pass.\<close>

theorem round_serves_early_rigs_witness:
  "let rig = [(''id'', PStr ''r1''), (''state'', PStr ''active'')] in
   \<exists>lane' st' n. run_once (\<lambda>_. None) (\<lambda>_. []) 0 0 [(''rigs'', PList [PDict rig])] (Inr [])
       (map (\<lambda>r. (r, Inr None))) ((express_new [])\<lparr>ex_early_due := {''r1''}\<rparr>,
         \<lparr>dp_busy = {}, dp_server_interval = 0, dp_last_outcomes = [], dp_sent = []\<rparr>) = ((lane', st'), Inr n)
     \<and> ex_early_due lane' = {} \<and> dp_busy st' = {} \<and> n = 1"
proof -
  let ?rig = "[(''id'', PStr ''r1''), (''state'', PStr ''active'')]"
  let ?run = "run_once (\<lambda>_. None) (\<lambda>_. []) 0 0 [(''rigs'', PList [PDict ?rig])] (Inr [])
       (map (\<lambda>r. (r, Inr None))) ((express_new [])\<lparr>ex_early_due := {''r1''}\<rparr>,
         \<lparr>dp_busy = {}, dp_server_interval = 0, dp_last_outcomes = [], dp_sent = []\<rparr>)"
  have "snd ?run = Inr 1" by code_simp
  then obtain lane' st' where r: "?run = ((lane', st'), Inr 1)" by (metis prod.collapse)
  from round_serves_early_rigs [OF r] have "ex_early_due lane' = {} \<and> dp_busy st' = {}" by (auto simp: comp_def)
  then show ?thesis unfolding Let_def using r by blast
qed
end
