(* ===== verification/Rig_Challenge.thy ===== *)
theory Rig_Challenge
  imports Verify_Challenge
begin

text \<open>
  The two programs that solve a challenge on a rig: the script the validator uploads
  (\<^verbatim>\<open>validator/verify/payloads/challenge_runner.py\<close>) and the agent's own call of the library
  (\<^verbatim>\<open>agent/hardware/challenge.py\<close>). The compiled library is a record of its entry points, over the machine words that
  \<^verbatim>\<open>ctypes\<close> converts a Python integer to; what its clock and its benchmark measure are arguments. The last
  theorems put the rig's programs together with the validator's judgement.
\<close>

section \<open>The library\<close>

record ChallengeLibrary =
  cl_sha256 :: string
  cl_build :: string
  cl_version :: int
  cl_last_error :: string
  cl_solve :: "64 word \<Rightarrow> 64 word \<Rightarrow> 32 word \<Rightarrow> 32 word \<Rightarrow> int \<times> 64 word"
  cl_benchmark :: "32 word \<Rightarrow> 32 word \<Rightarrow> int \<times> rat \<times> rat \<times> rat"

definition hex16 :: "64 word \<Rightarrow> string" where
  "hex16 d = zfill 16 (nat_hex (unat d))"

section \<open>The uploaded script\<close>

text \<open>\<open>re_library\<close> is what loading the file gives (\<open>None\<close> when it raises), \<open>re_numpy\<close> that numpy can be imported and
  holds the matrices, \<open>re_exc\<close> the text of an exception and \<open>re_elapsed\<close> the milliseconds measured.\<close>

record RunnerEnv =
  re_library :: "string \<Rightarrow> ChallengeLibrary option"
  re_numpy :: bool
  re_exc :: string
  re_elapsed :: rat

definition payload_reference_digest :: "int \<Rightarrow> int \<Rightarrow> int \<Rightarrow> int \<Rightarrow> int" where
  "payload_reference_digest seed cipher n rounds =
     (let state = seed_state seed cipher;
          matrix = (np_square (nat n) ^^ nat rounds) (np_matrix (of_int state) (nat n));
          digest = foldl (\<lambda>d r. fnv_u64 d (uint r)) FNV_OFFSET (np_rows (nat n) matrix);
          digest = fnv_u64 digest seed;
          digest = fnv_u64 digest cipher;
          digest = fnv_u32 digest n
      in fnv_u32 digest rounds)"

definition run_reference :: "RunnerEnv \<Rightarrow> int \<Rightarrow> int \<Rightarrow> int \<Rightarrow> int \<Rightarrow> pydict option" where
  "run_reference env seed cipher n rounds =
     (if \<not> re_numpy env \<or> n < 0 then None
      else Some
        [(''digest'', PStr (zfill 16 (nat_hex (nat (payload_reference_digest seed cipher n rounds))))),
         (''elapsed_ms'', PFloat (py_round_to 3 (re_elapsed env))), (''gops'', PFloat 0), (''gbps'', PFloat 0),
         (''benchmark_ms'', PFloat 0), (''build'', PStr ''python-reference''), (''version'', PInt 1), (''error'', PStr []),
         (''mode'', PStr ''reference''), (''library_sha256'', PStr [])])"

definition library_answer ::
  "ChallengeLibrary \<Rightarrow> rat \<Rightarrow> string \<Rightarrow> rat \<Rightarrow> rat \<Rightarrow> rat \<Rightarrow> string \<Rightarrow> pydict" where
  "library_answer lib elapsed digest gops gbps bench error =
     [(''digest'', PStr digest), (''elapsed_ms'', PFloat (py_round_to 3 elapsed)), (''gops'', PFloat (py_round_to 3 gops)),
      (''gbps'', PFloat (py_round_to 3 gbps)), (''benchmark_ms'', PFloat (py_round_to 3 bench)), (''build'', PStr (cl_build lib)),
      (''version'', PInt (cl_version lib)), (''error'', PStr error), (''mode'', PStr ''library''),
      (''library_sha256'', PStr (cl_sha256 lib))]"

definition run_library :: "RunnerEnv \<Rightarrow> ChallengeLibrary \<Rightarrow> int \<Rightarrow> int \<Rightarrow> int \<Rightarrow> int \<Rightarrow> int \<Rightarrow> int \<Rightarrow> pydict" where
  "run_library env lib seed cipher n rounds benchmark_n iterations =
     (case cl_solve lib (of_int seed) (of_int cipher) (of_int n) (of_int rounds) of (code, digest) \<Rightarrow>
        if code \<noteq> 0
        then library_answer lib (re_elapsed env) [] 0 0 0 (''solve failed with '' @ show_int code @ '': '' @ cl_last_error lib)
        else (case cl_benchmark lib (of_int benchmark_n) (of_int iterations) of (code2, gops, gbps, bench) \<Rightarrow>
                if code2 \<noteq> 0
                then library_answer lib (re_elapsed env) (hex16 digest) 0 0 0
                       (''benchmark failed with '' @ show_int code2 @ '': '' @ cl_last_error lib)
                else library_answer lib (re_elapsed env) (hex16 digest) gops gbps bench []))"

definition runner_error :: "string \<Rightarrow> pydict" where
  "runner_error text = [(''digest'', PStr []), (''elapsed_ms'', PFloat 0), (''error'', PStr text)]"

text \<open>\<^verbatim>\<open>release\<close>: how often the library's release was called before and after, at most once for a loaded library.\<close>

definition runner_release :: "ChallengeLibrary option \<Rightarrow> nat \<Rightarrow> nat" where
  "runner_release library released = (if library = None \<or> 0 < released then released else 1)"

text \<open>\<^verbatim>\<open>main\<close>: the object printed, the number of releases and the exit code.\<close>

definition runner_main :: "RunnerEnv \<Rightarrow> string list \<Rightarrow> pydict \<times> nat \<times> int" where
  "runner_main env argv =
     (if length argv \<noteq> 8
      then (runner_error ''usage: runner <lib|reference> seed cipher n rounds benchmark_n iterations'', 0, 2)
      else (case rmap int_of_str (drop 2 argv) of
              Inl _ \<Rightarrow> (runner_error ''numeric arguments required'', 0, 2)
            | Inr vs \<Rightarrow>
                (let library = (if argv ! 1 = MODE_REFERENCE then None else re_library env (argv ! 1));
                     answer = (if argv ! 1 = MODE_REFERENCE
                               then (case run_reference env (vs ! 0) (vs ! 1) (vs ! 2) (vs ! 3) of
                                       Some a \<Rightarrow> a | None \<Rightarrow> runner_error (re_exc env))
                               else (case library of
                                       Some lib \<Rightarrow> run_library env lib (vs ! 0) (vs ! 1) (vs ! 2) (vs ! 3) (vs ! 4) (vs ! 5)
                                     | None \<Rightarrow> runner_error (re_exc env)))
                 in (answer, runner_release library 0, if truthy (dget answer ''error'' PNone) then 1 else 0))))"

definition runner_on_signal :: "ChallengeLibrary option \<Rightarrow> nat \<Rightarrow> int \<Rightarrow> pydict \<times> nat \<times> int" where
  "runner_on_signal library released signum =
     (runner_error (''terminated by signal '' @ show_int signum), runner_release library released, 143)"

section \<open>The agent's call\<close>

definition CODES :: "(int \<times> string) list" where
  "CODES = [(0, ''ok''), (-1, ''bad arguments''), (-2, ''allocation failed''), (-3, ''kernel launch failed''),
     (-4, ''unavailable''), (-5, ''device error'')]"

definition MISSING :: string where "MISSING = ''challenge library not installed''"
definition BUSY :: string where "BUSY = ''challenge already running''"

definition code_text :: "int \<Rightarrow> string" where
  "code_text code = (case map_of CODES code of Some t \<Rightarrow> t | None \<Rightarrow> ''code '' @ show_int code)"

definition describe_code :: "ChallengeLibrary \<Rightarrow> string \<Rightarrow> int \<Rightarrow> string" where
  "describe_code lib stage code =
     stage @ '' failed ('' @ show_int code @ ''): '' @ str_or (cl_last_error lib) (code_text code)"

definition challenge_answer_error :: "string \<Rightarrow> ChallengeAnswer" where
  "challenge_answer_error error =
     \<lparr>ca_digest = [], ca_elapsed_ms = 0, ca_gops = 0, ca_gbps = 0, ca_benchmark_ms = 0, ca_build = [], ca_version = 0,
      ca_error = error\<rparr>"

text \<open>The state: whether the lock around a challenge is held, and how often the library was released.\<close>

definition agent_challenge_run ::
  "ChallengeLibrary option \<Rightarrow> rat \<Rightarrow> ChallengeRequest \<Rightarrow> bool \<times> nat \<Rightarrow> (bool \<times> nat) \<times> ChallengeAnswer" where
  "agent_challenge_run library elapsed r s =
     (case library of
        None \<Rightarrow> (s, challenge_answer_error MISSING)
      | Some lib \<Rightarrow>
          if fst s then (s, challenge_answer_error BUSY)
          else ((False, snd s + 1),
            (let base = (challenge_answer_error [])\<lparr>ca_elapsed_ms := elapsed, ca_build := cl_build lib, ca_version := cl_version lib\<rparr> in
             case cl_solve lib (of_int (cr_seed r AND MASK64)) (of_int (cr_cipher r AND MASK64)) (of_int (cr_n r)) (of_int (cr_rounds r)) of
               (code, digest) \<Rightarrow>
                 if code \<noteq> 0 then base\<lparr>ca_error := describe_code lib ''solve'' code\<rparr>
                 else (case cl_benchmark lib (of_int (cr_benchmark_n r)) (of_int (cr_iterations r)) of (code2, gops, gbps, bench) \<Rightarrow>
                   if code2 \<noteq> 0 then base\<lparr>ca_digest := hex16 digest, ca_error := describe_code lib ''benchmark'' code2\<rparr>
                   else base\<lparr>ca_digest := hex16 digest, ca_gops := gops, ca_gbps := gbps, ca_benchmark_ms := bench\<rparr>))))"

section \<open>Hexadecimal text\<close>

lemma hex_val_digit [simp]: "n < 16 \<Longrightarrow> hex_val (hex_digit n) = Some n"
  by (auto simp: hex_val_def hex_digit_def Let_def)

lemma hex_digit_plain:
  assumes "n < 16"
  shows "hex_digit n \<noteq> CHR ''_'' \<and> hex_digit n \<noteq> CHR ''-'' \<and> hex_digit n \<noteq> CHR ''+'' \<and> lower_char (hex_digit n) \<noteq> CHR ''x'' \<and>
    \<not> is_space (hex_digit n)"
proof -
  have "\<forall>n < 16. hex_digit n \<noteq> CHR ''_'' \<and> hex_digit n \<noteq> CHR ''-'' \<and> hex_digit n \<noteq> CHR ''+'' \<and> lower_char (hex_digit n) \<noteq> CHR ''x'' \<and>
    \<not> is_space (hex_digit n)" by code_simp
  with assms show ?thesis by blast
qed

text \<open>The texts of hexadecimal digits.\<close>

definition hex_text :: "string \<Rightarrow> bool" where
  "hex_text s \<longleftrightarrow> set s \<subseteq> hex_digit ` {..<16}"

definition hex_value :: "string \<Rightarrow> nat" where
  "hex_value s = foldl (\<lambda>a c. 16 * a + the (hex_val c)) 0 s"

lemma hex_value_append: "hex_value (s @ [c]) = 16 * hex_value s + the (hex_val c)"
  by (simp add: hex_value_def)

lemma nat_hex_text: "hex_text (nat_hex n)"
  by (induction n rule: nat_hex.induct) (subst nat_hex.simps, auto simp: hex_text_def)

lemma nat_hex_ne [simp]: "nat_hex n \<noteq> []"
  by (subst nat_hex.simps) simp

lemma hex_value_nat_hex: "hex_value (nat_hex n) = n"
proof (induction n rule: nat_hex.induct)
  case (1 n)
  then show ?case by (subst nat_hex.simps) (auto simp: hex_value_append, simp add: hex_value_def)
qed

lemma zero_digit: "CHR ''0'' = hex_digit 0"
  by code_simp

lemma zfill_hex: "hex_text s \<Longrightarrow> hex_text (zfill n s)" "hex_value (zfill n s) = hex_value s"
proof -
  show "hex_text s \<Longrightarrow> hex_text (zfill n s)" by (auto simp: hex_text_def zfill_def zero_digit)
  have "foldl (\<lambda>a c. 16 * a + the (hex_val c)) 0 (replicate k (CHR ''0'')) = (0 :: nat)" for k
    by (induction k) (simp_all add: zero_digit)
  then show "hex_value (zfill n s) = hex_value s" by (simp add: hex_value_def zfill_def)
qed

lemma hex_group_text: "hex_text s \<Longrightarrow> s \<noteq> [] \<Longrightarrow> hex_group s"
  by (induction s rule: hex_group.induct) (auto simp: hex_text_def dest: hex_digit_plain)

lemma int_of_hex_text:
  assumes "hex_text s" "s \<noteq> []"
  shows "int_of_hex s = Some (int (hex_value s))"
proof -
  have p: "c \<noteq> CHR ''_'' \<and> c \<noteq> CHR ''-'' \<and> c \<noteq> CHR ''+'' \<and> lower_char c \<noteq> CHR ''x'' \<and> \<not> is_space c" if "c \<in> set s" for c
  proof -
    obtain n where n: "n < 16" "c = hex_digit n" using assms(1) \<open>c \<in> set s\<close> unfolding hex_text_def by blast
    show ?thesis unfolding n(2) by (rule hex_digit_plain [OF n(1)])
  qed
  have st: "strip s = s" by (rule strip_no_space) (use p in blast)
  have sg: "split_sign s = (1, s)" using p assms(2) by (cases s) (auto simp: split_sign_def)
  have du: "drop_underscores s = s" using p by (auto simp: drop_underscores_def filter_id_conv)
  have nx: "lower (take 2 s) \<noteq> ''0x''"
  proof
    assume "lower (take 2 s) = ''0x''"
    then have "CHR ''x'' \<in> lower_char ` set (take 2 s)" by (simp add: lower_def flip: set_map)
    then show False using p by (force dest: in_set_takeD)
  qed
  have "foldl (\<lambda>a c. 16 * a + int (the (hex_val c))) (int z) xs = int (foldl (\<lambda>a c. 16 * a + the (hex_val c)) z xs)" for xs z
  proof (induction xs arbitrary: z)
    case (Cons x xs)
    show ?case using Cons.IH [of "16 * z + the (hex_val x)"] by simp
  qed simp
  from this [of 0 s] show ?thesis using hex_group_text [OF assms] nx by (simp add: int_of_hex_def st sg du hex_value_def)
qed

lemma int_of_hex_zfill: "int_of_hex (zfill 16 (nat_hex n)) = Some (int n)"
proof -
  have "zfill 16 (nat_hex n) \<noteq> []" by (simp add: zfill_def)
  with int_of_hex_text [OF zfill_hex(1) [OF nat_hex_text] this] show ?thesis by (simp add: zfill_hex(2) hex_value_nat_hex)
qed

lemma int_of_hex_hex16 [simp]: "int_of_hex (hex16 d) = Some (uint d)"
  by (simp add: hex16_def int_of_hex_zfill)


section \<open>From the command to the arguments\<close>

definition runner_argv :: "Prepared \<Rightarrow> ChallengeRequest \<Rightarrow> string list" where
  "runner_argv p r = RUNNER_NAME # pr_library_arg p #
     map show_int [cr_seed r, cr_cipher r, cr_n r, cr_rounds r, cr_benchmark_n r, cr_iterations r]"

lemma quote_safe: "s \<noteq> [] \<Longrightarrow> list_all shell_safe s \<Longrightarrow> shlex_quote s = s"
  by (simp add: shlex_quote_def)

lemma quote_show_int [simp]: "shlex_quote (show_int i) = show_int i"
proof (rule quote_safe)
  show "show_int i \<noteq> []" by (simp add: show_int_def)
  show "list_all shell_safe (show_int i)"
    unfolding list_all_iff using show_int_chars [of _ i] by (auto simp: shell_safe_def is_alnum_def is_digit_def Let_def)
qed

lemma command_words:
  "\<exists>line pre. command_for python dir p r uuid = ''cd '' @ shlex_quote dir @ '' && '' @ line \<and> sh_words line = Some (pre @ runner_argv p r)"
proof -
  have q: "shlex_quote ''-I'' = ''-I''" "shlex_quote RUNNER_NAME = RUNNER_NAME" by code_simp+
  let ?ws = "python # ''-I'' # runner_argv p r"
  let ?line = "join '' '' (map shlex_quote ?ws)"
  let ?env = "if uuid \<noteq> [] then ''CUDA_VISIBLE_DEVICES='' @ shlex_quote uuid @ '' '' else []"
  have c: "command_for python dir p r uuid = ''cd '' @ shlex_quote dir @ '' && '' @ ?env @ ?line"
    by (simp add: command_for_def runner_argv_def q)
  have "\<exists>pre. sh_words (?env @ ?line) = Some (pre @ runner_argv p r)"
  proof (cases "uuid = []")
    case True
    then show ?thesis using sh_join [of ?ws] by simp
  next
    case False
    have safe: "list_all shell_safe ''CUDA_VISIBLE_DEVICES=''" by code_simp
    have "sh_words (?env @ ?line) = sh_unq (Some ''CUDA_VISIBLE_DEVICES='') (shlex_quote uuid @ '' '' @ ?line)"
      using False sh_unq_safe [OF safe, of None "shlex_quote uuid @ '' '' @ ?line"] by (simp add: sh_words_def)
    also have "\<dots> = sh_unq (Some (''CUDA_VISIBLE_DEVICES='' @ uuid)) ('' '' @ ?line)"
      using False sh_unq_safe [of uuid] sh_sq_escape [of _ uuid] by (auto simp: shlex_quote_def)
    finally show ?thesis using sh_join [of ?ws] by (simp add: sh_words_def)
  qed
  then show ?thesis using c by blast
qed

section \<open>An honest answer\<close>

lemma payload_reference_digest_eq:
  "0 \<le> n \<Longrightarrow> 0 \<le> rounds \<Longrightarrow> payload_reference_digest seed cipher n rounds = reference_digest seed cipher (nat n) (nat rounds)"
  by (simp add: payload_reference_digest_def reference_digest_def)

lemma argv_ints:
  "rmap int_of_str (drop 2 (runner_argv p r)) = Inr [cr_seed r, cr_cipher r, cr_n r, cr_rounds r, cr_benchmark_n r, cr_iterations r]"
  by (simp add: runner_argv_def int_of_str_show_int)

text \<open>The requests the library takes, and a library that computes the function of its source.\<close>

definition good_request :: "ChallengeRequest \<Rightarrow> bool" where
  "good_request r = (0 \<le> cr_seed r \<and> cr_seed r < 2 ^ 64 \<and> 0 \<le> cr_cipher r \<and> cr_cipher r < 2 ^ 64 \<and>
     8 \<le> cr_n r \<and> cr_n r \<le> 4096 \<and> 1 \<le> cr_rounds r \<and> cr_rounds r \<le> 16)"

definition solves :: "ChallengeLibrary \<Rightarrow> bool" where
  "solves lib \<longleftrightarrow> (\<forall>s c n m d. mt_challenge_solve s c (unat n) (unat m) = MT_OK d \<longrightarrow> cl_solve lib s c n m = (0, d))"

abbreviation digest_of :: "ChallengeRequest \<Rightarrow> int" where
  "digest_of r \<equiv> reference_digest (cr_seed r) (cr_cipher r) (nat (cr_n r)) (nat (cr_rounds r))"

lemma reference_solved:
  assumes "good_request r"
  shows "mt_challenge_solve (of_int (cr_seed r)) (of_int (cr_cipher r)) (nat (cr_n r)) (nat (cr_rounds r)) = MT_OK (of_int (digest_of r))"
    and "0 \<le> digest_of r" "digest_of r < 2 ^ 64"
proof -
  have g: "0 \<le> cr_seed r" "cr_seed r < 2 ^ 64" "0 \<le> cr_cipher r" "cr_cipher r < 2 ^ 64"
    "8 \<le> nat (cr_n r)" "nat (cr_n r) \<le> 4096" "1 \<le> nat (cr_rounds r)" "nat (cr_rounds r) \<le> 16"
    using assms by (auto simp: good_request_def)
  from digests_agree [OF g] show
    "mt_challenge_solve (of_int (cr_seed r)) (of_int (cr_cipher r)) (nat (cr_n r)) (nat (cr_rounds r)) = MT_OK (of_int (digest_of r))"
    "0 \<le> digest_of r" "digest_of r < 2 ^ 64" by blast+
qed

lemma unat_small: "0 \<le> i \<Longrightarrow> i \<le> 4096 \<Longrightarrow> unat (of_int i :: 32 word) = nat i"
  by (simp add: unat_eq_nat_uint unsigned_of_int take_bit_int_eq_self)

lemma uint_digest: "good_request r \<Longrightarrow> uint (of_int (digest_of r) :: 64 word) = digest_of r"
  using reference_solved(2,3) [of r] by (simp add: unsigned_of_int take_bit_int_eq_self)

lemma solves_request:
  assumes "solves lib" "good_request r"
  shows "cl_solve lib (of_int (cr_seed r)) (of_int (cr_cipher r)) (of_int (cr_n r)) (of_int (cr_rounds r)) = (0, of_int (digest_of r))"
proof -
  have "unat (of_int (cr_n r) :: 32 word) = nat (cr_n r)" "unat (of_int (cr_rounds r) :: 32 word) = nat (cr_rounds r)"
    using assms(2) unat_small by (auto simp: good_request_def)
  with assms reference_solved(1) [OF assms(2)] show ?thesis unfolding solves_def by metis
qed

text \<open>A rig that runs the uploaded script as it is: with numpy in reference mode, and in library mode with the
  uploaded library, whose benchmark reaches the floors of the tier.\<close>

definition honest_rig :: "RunnerEnv \<Rightarrow> Prepared \<Rightarrow> Tier option \<Rightarrow> ChallengeRequest \<Rightarrow> bool" where
  "honest_rig env p tier r \<longleftrightarrow>
     (pr_mode p = MODE_REFERENCE \<and> pr_library_arg p = MODE_REFERENCE \<and> re_numpy env) \<or>
     (pr_mode p = MODE_LIBRARY \<and> pr_library_arg p \<noteq> MODE_REFERENCE \<and>
      (\<exists>lib gops gbps bench. re_library env (pr_library_arg p) = Some lib \<and> cl_sha256 lib = pr_library_sha256 p \<and> solves lib
        \<and> cl_benchmark lib (of_int (cr_benchmark_n r)) (of_int (cr_iterations r)) = (0, gops, gbps, bench)
        \<and> GOPS_FLOOR (tier_or_entry tier) \<le> py_round_to 3 gops \<and> GBPS_FLOOR (tier_or_entry tier) \<le> py_round_to 3 gbps))"

lemma honest_answer:
  assumes "honest_rig env p tier r" "good_request r" "py_round_to 3 (re_elapsed env) \<le> max_ms" "\<not> transport_failed result"
  shows "good_answer p (digest_of r) max_ms tier (RunDone result (Some (fst (runner_main env (runner_argv p r)))))"
    and "snd (snd (runner_main env (runner_argv p r))) = 0"
proof -
  have l: "length (runner_argv p r) = 8" "runner_argv p r ! Suc 0 = pr_library_arg p" by (simp_all add: runner_argv_def)
  have modes: "MODE_REFERENCE \<noteq> MODE_LIBRARY" by (simp add: MODE_REFERENCE_def MODE_LIBRARY_def)
  have n: "0 \<le> cr_n r" "0 \<le> cr_rounds r" using assms(2) by (auto simp: good_request_def)
  have "good_answer p (digest_of r) max_ms tier (RunDone result (Some (fst (runner_main env (runner_argv p r)))))
    \<and> snd (snd (runner_main env (runner_argv p r))) = 0"
  proof (cases "pr_mode p = MODE_REFERENCE")
    case True
    then have "pr_library_arg p = MODE_REFERENCE" "re_numpy env" using assms(1) modes by (auto simp: honest_rig_def)
    then show ?thesis
      using True n modes assms(3,4) reference_solved(2) [OF assms(2)] payload_reference_digest_eq [OF n]
      by (auto simp: runner_main_def l argv_ints run_reference_def Let_def good_answer_def ChallengeAnswer_from_payload_def field_simps_py
          int_of_hex_zfill dget_def)
  next
    case False
    then obtain lib gops gbps bench where h: "pr_mode p = MODE_LIBRARY" "pr_library_arg p \<noteq> MODE_REFERENCE"
      "re_library env (pr_library_arg p) = Some lib" "cl_sha256 lib = pr_library_sha256 p" "solves lib"
      "cl_benchmark lib (of_int (cr_benchmark_n r)) (of_int (cr_iterations r)) = (0, gops, gbps, bench)"
      "GOPS_FLOOR (tier_or_entry tier) \<le> py_round_to 3 gops" "GBPS_FLOOR (tier_or_entry tier) \<le> py_round_to 3 gbps"
      using assms(1) by (auto simp: honest_rig_def)
    then show ?thesis
      using assms(3,4) solves_request [OF h(5) assms(2)] uint_digest [OF assms(2)]
      by (auto simp: runner_main_def l argv_ints run_library_def library_answer_def Let_def good_answer_def
          ChallengeAnswer_from_payload_def field_simps_py dget_def)
  qed
  then show "good_answer p (digest_of r) max_ms tier (RunDone result (Some (fst (runner_main env (runner_argv p r)))))"
    "snd (snd (runner_main env (runner_argv p r))) = 0" by blast+
qed

lemma agent_digest:
  assumes "solves lib" "good_request r"
    and "cl_benchmark lib (of_int (cr_benchmark_n r)) (of_int (cr_iterations r)) = (0, gops, gbps, bench)"
  shows "\<exists>a. agent_challenge_run (Some lib) elapsed r (False, k) = ((False, k + 1), a) \<and> ca_error a = [] \<and> digest_ok (digest_of r) a
    \<and> ca_gops a = gops \<and> ca_gbps a = gbps"
proof -
  have "cr_seed r AND MASK64 = cr_seed r" "cr_cipher r AND MASK64 = cr_cipher r"
    using assms(2) by (simp_all add: and_MASK64 good_request_def)
  then show ?thesis using solves_request [OF assms(1,2)] uint_digest [OF assms(2)] assms(3)
    by (simp add: agent_challenge_run_def challenge_answer_error_def digest_ok_def Let_def)
qed

section \<open>Properties\<close>

text \<open>C6: An honest rig passes the compute challenge. The command the validator sends hands the uploaded script
  exactly the arguments of the request; a rig that runs it, with numpy or with the uploaded library,
  prints a digest that the validator reads back as the one it expects, for every seed, cipher, size and
  round count the library takes; so when it is in time and at the floors of its tier, the verdict passes.\<close>

theorem honest_rig_passes:
  assumes "honest_rig env p tier r" "good_request r" "py_round_to 3 (re_elapsed env) \<le> max_ms" "\<not> transport_failed result"
    and "expected_digest None r = Inr expected"
    and "\<And>u. run_json (command_for python dir p r u) = RunDone result (Some (fst (runner_main env (runner_argv p r))))"
    and "challenge_run p expected max_ms tier r run_json python dir gpu_uuids = Inr v"
  shows "passed v \<and> (\<forall>u. \<exists>line pre. command_for python dir p r u = ''cd '' @ shlex_quote dir @ '' && '' @ line
    \<and> sh_words line = Some (pre @ runner_argv p r))"
proof -
  obtain fs ms es where l: "challenge_loop p (fst expected) max_ms tier r
      (\<lambda>u. run_json (command_for python dir p r u)) (challenge_targets gpu_uuids) = Inr (fs, ms, es)"
    and v: "v_failure v = (case fs of [] \<Rightarrow> None | f # _ \<Rightarrow> Some f)"
    using assms(7) by (auto simp: challenge_run_def Let_def result_simps)
  have "fst expected = digest_of r" using assms(5) by (auto simp: expected_digest_def)
  then have "fs = []" using challenge_loop_good [OF l] honest_answer(1) [OF assms(1-4)] assms(6) by simp
  then show ?thesis using v command_words by (simp add: passed_def)
qed


lemma judge_card_parsed:
  "ChallengeAnswer_from_payload d = Inr a \<Longrightarrow> \<exists>y. judge_card p expected max_ms tier r u (RunDone result (Some d)) = Inr y"
  by (auto simp: judge_card_def card_entry_def Let_def)

lemma challenge_run_total:
  assumes "\<And>u. \<exists>y. judge_card p (fst expected) max_ms tier r u (run_json (command_for python dir p r u)) = Inr y"
  shows "\<exists>v. challenge_run p expected max_ms tier r run_json python dir gpu_uuids = Inr v"
proof -
  have "\<exists>z. challenge_loop p (fst expected) max_ms tier r (\<lambda>u. run_json (command_for python dir p r u)) us = Inr z" for us
  proof (induction us)
    case (Cons u us)
    obtain f go_on ms entry where "judge_card p (fst expected) max_ms tier r u (run_json (command_for python dir p r u)) = Inr (f, go_on, ms, entry)"
      using assms [of u] by auto
    with Cons show ?case by (auto simp: result_simps split: prod.splits)
  qed simp
  then show ?thesis by (auto simp: challenge_run_def Let_def result_simps split: prod.splits)
qed

definition wit_prepared :: Prepared where
  "wit_prepared = \<lparr>pr_mode = MODE_REFERENCE, pr_library_sha256 = [], pr_library_arg = MODE_REFERENCE\<rparr>"

definition wit_runner :: RunnerEnv where
  "wit_runner = \<lparr>re_library = (\<lambda>_. None), re_numpy = True, re_exc = [], re_elapsed = 7\<rparr>"

definition wit_result :: CommandResult where
  "wit_result = \<lparr>res_command = [], res_exit_code = 0, res_stdout = [], res_stderr = [], res_elapsed_ms = 5, res_error = []\<rparr>"

abbreviation wit_answer :: runner_answer where
  "wit_answer \<equiv> RunDone wit_result (Some (fst (runner_main wit_runner (runner_argv wit_prepared demo_challenge))))"

theorem honest_rig_passes_witness:
  "\<exists>v. challenge_run wit_prepared (digest_of demo_challenge, ''reference'') 1000 None demo_challenge (\<lambda>_. wit_answer) ''python3'' ''/tmp/x'' [''GPU-1''] = Inr v
    \<and> passed v"
proof -
  have h: "honest_rig wit_runner wit_prepared None demo_challenge" by (simp add: honest_rig_def wit_prepared_def wit_runner_def)
  have g: "good_request demo_challenge" by (simp add: good_request_def demo_challenge_def)
  have e: "py_round_to 3 (re_elapsed wit_runner) \<le> 1000" by code_simp
  have t: "\<not> transport_failed wit_result" by code_simp
  have x: "expected_digest None demo_challenge = Inr (digest_of demo_challenge, ''reference'')" by (simp add: expected_digest_def)
  from honest_answer(1) [OF h g e t] obtain d a where "fst (runner_main wit_runner (runner_argv wit_prepared demo_challenge)) = d"
    "ChallengeAnswer_from_payload d = Inr a" by (auto simp: good_answer_def)
  then have "\<exists>v. challenge_run wit_prepared (digest_of demo_challenge, ''reference'') 1000 None demo_challenge (\<lambda>_. wit_answer) ''python3'' ''/tmp/x'' [''GPU-1''] = Inr v"
    using judge_card_parsed by (intro challenge_run_total) blast
  then obtain v where v: "challenge_run wit_prepared (digest_of demo_challenge, ''reference'') 1000 None demo_challenge (\<lambda>_. wit_answer) ''python3'' ''/tmp/x'' [''GPU-1''] = Inr v" ..
  have "passed v" using honest_rig_passes [where run_json = "\<lambda>_. wit_answer", OF h g e t x refl v] ..
  with v show ?thesis by blast
qed

end
