(* ===== verification/Rig_System.thy ===== *)
theory Rig_System
  imports Remote_Host
begin

text \<open>
  The machine as the programs that run on a rig see it: its files, its commands and what the standard library
  answers. The scripts the validator sends (\<^verbatim>\<open>validator/verify/payloads\<close>) and the readers of the agent
  (\<^verbatim>\<open>agent/hardware\<close>) are functions of this record, which stands for the machine during one run. A file or a
  directory that cannot be read gives the text of its \<^verbatim>\<open>OSError\<close>.
\<close>

datatype ran_command = Ran int string string | NotRan string

record System =
  sy_file :: "string \<Rightarrow> string + string"
  sy_exists :: "string \<Rightarrow> bool"
  sy_isfile :: "string \<Rightarrow> bool"
  sy_isdir :: "string \<Rightarrow> bool"
  sy_listdir :: "string \<Rightarrow> string list option"
  sy_walk :: "string \<Rightarrow> (string \<times> string list) list"
  sy_realpath :: "string \<Rightarrow> string"
  sy_stat :: "string \<Rightarrow> (int \<times> int) option"
  sy_device :: "int \<Rightarrow> int \<times> int"
  sy_usage :: "string \<Rightarrow> string + int \<times> int \<times> int"
  sy_run :: "string list \<Rightarrow> ran_command"
  sy_ms :: "string list \<Rightarrow> rat"
  sy_which :: "string \<Rightarrow> string option"
  sy_environ :: "string \<Rightarrow> string option"
  sy_hostname :: string
  sy_release :: string
  sy_machine :: string
  sy_system :: string
  sy_processor :: string
  sy_python :: string
  sy_uid :: int
  sy_pid :: int
  sy_affinity :: "int option"
  sy_cpu_count :: "int option"
  sy_loads :: "string \<Rightarrow> pyval option"
  sy_dumps :: "pyval \<Rightarrow> string"
  sy_sha256 :: "string \<Rightarrow> string"
  sy_md5 :: "string \<Rightarrow> string"
  sy_now :: rat
  sy_elapsed :: rat

definition HOST_ROOT :: string where "HOST_ROOT = ''/proc/1/root''"

text \<open>\<^verbatim>\<open>os.path.join\<close> of a directory and a relative name.\<close>

definition path_join :: "string \<Rightarrow> string \<Rightarrow> string" where
  "path_join base name = (if base = [] \<or> last base = CHR ''/'' then base @ name else base @ ''/'' @ name)"

text \<open>The first \<open>limit\<close> characters of a file, and nothing when it cannot be read.\<close>

definition read_file :: "System \<Rightarrow> string \<Rightarrow> nat \<Rightarrow> string" where
  "read_file sy path limit = (case sy_file sy path of Inl _ \<Rightarrow> [] | Inr text \<Rightarrow> take limit text)"

text \<open>The code (none when the command did not run), the output and the error text.\<close>

definition run_argv :: "System \<Rightarrow> string list \<Rightarrow> int option \<times> string \<times> string" where
  "run_argv sy argv = (case sy_run sy argv of Ran code out err \<Rightarrow> (Some code, out, err) | NotRan text \<Rightarrow> (None, [], text))"

text \<open>\<^verbatim>\<open>s.split(c, 1)\<close> when \<open>c\<close> occurs in \<open>s\<close>.\<close>

definition cut_at :: "char \<Rightarrow> string \<Rightarrow> (string \<times> string) option" where
  "cut_at c s = (if c \<in> set s then Some (takeWhile (\<lambda>x. x \<noteq> c) s, drop 1 (dropWhile (\<lambda>x. x \<noteq> c) s)) else None)"

definition isdigit :: "string \<Rightarrow> bool" where
  "isdigit s = (s \<noteq> [] \<and> list_all is_digit s)"

text \<open>\<^verbatim>\<open>s.strip(c)\<close>.\<close>

definition strip_char :: "char \<Rightarrow> string \<Rightarrow> string" where
  "strip_char c s = rstrip_char c (dropWhile (\<lambda>x. x = c) s)"

text \<open>The first run of 64 lower-case hexadecimal digits: the identifier of a container.\<close>

fun hex64_in :: "string \<Rightarrow> string" where
  "hex64_in [] = []"
| "hex64_in (c # cs) = (if 64 \<le> length (c # cs) \<and> list_all is_lower_hex (take 64 (c # cs)) then take 64 (c # cs) else hex64_in cs)"

text \<open>The number after a label in a status file: the second word of the first line that starts with it, \<open>default\<close>
  when there is none.\<close>

definition second_number :: "string \<Rightarrow> int option" where
  "second_number line = (case split_ws line of _ # p # _ \<Rightarrow> if isdigit p then Some (int (digits_val p)) else None | _ \<Rightarrow> None)"

text \<open>\<^verbatim>\<open>re.match("(\d+)\.(\d+)", text)\<close> as a pair of numbers, zeros when there is no match.\<close>

definition version_pair :: "string \<Rightarrow> int \<times> int" where
  "version_pair text =
     (let a = takeWhile is_digit text; rest = drop (length a) text; b = takeWhile is_digit (tl rest)
      in if a \<noteq> [] \<and> rest \<noteq> [] \<and> hd rest = CHR ''.'' \<and> b \<noteq> [] then (int (digits_val a), int (digits_val b)) else (0, 0))"

definition at_least :: "int \<times> int \<Rightarrow> int \<times> int \<Rightarrow> bool" where
  "at_least v w = (fst w < fst v \<or> (fst v = fst w \<and> snd w \<le> snd v))"

text \<open>\<^verbatim>\<open>KEY=value\<close> lines as a dictionary; \<open>skip\<close> tells the lines to leave out.\<close>

definition key_values :: "(string \<Rightarrow> bool) \<Rightarrow> string \<Rightarrow> (string \<times> string) list" where
  "key_values skip text =
     foldl (\<lambda>d line. case cut_at (CHR ''='') line of
              None \<Rightarrow> d | Some (k, v) \<Rightarrow> if skip line then d else AList.update (strip k) (strip_char (CHR 0x22) (strip v)) d)
       [] (splitlines text)"

text \<open>The answer after the label of the sysbox log; \<open>fold\<close> is applied to both sides.\<close>

definition IDMAP_LABEL :: string where "IDMAP_LABEL = ''ID-mapped mounts supported by kernel:''"

definition idmap_at :: "(string \<Rightarrow> string) \<Rightarrow> string \<Rightarrow> bool option" where
  "idmap_at canon s =
     (if prefix (canon IDMAP_LABEL) (canon s)
      then (let rest = lstrip (drop (length IDMAP_LABEL) s)
            in if prefix ''yes'' (canon rest) then Some True else if prefix ''no'' (canon rest) then Some False else None)
      else None)"

text \<open>All matches in a text, from left to right; a match does not overlap another one, since the label does not overlap itself.\<close>

fun idmap_all :: "(string \<Rightarrow> string) \<Rightarrow> string \<Rightarrow> bool list" where
  "idmap_all canon [] = []"
| "idmap_all canon (c # cs) = (case idmap_at canon (c # cs) of Some b \<Rightarrow> b # idmap_all canon cs | None \<Rightarrow> idmap_all canon cs)"

lemma read_file_length: "length (read_file sy path limit) \<le> limit"
  by (simp add: read_file_def split: sum.splits)

lemma hex64_in_ok: "hex64_in s = [] \<or> (length (hex64_in s) = 64 \<and> list_all is_lower_hex (hex64_in s))"
  by (induction s) auto

text \<open>A machine with nothing on it.\<close>

definition bare_system :: System where
  "bare_system = \<lparr>sy_file = \<lambda>_. Inl ''No such file or directory'', sy_exists = \<lambda>_. False, sy_isfile = \<lambda>_. False, sy_isdir = \<lambda>_. False,
     sy_listdir = \<lambda>_. None, sy_walk = \<lambda>_. [], sy_realpath = id, sy_stat = \<lambda>_. None, sy_device = \<lambda>_. (0, 0),
     sy_usage = \<lambda>_. Inl ''No such file or directory'', sy_run = \<lambda>_. NotRan ''command not found'', sy_ms = \<lambda>_. 0, sy_which = \<lambda>_. None,
     sy_environ = \<lambda>_. None, sy_hostname = ''rig'', sy_release = ''6.8.0'', sy_machine = ''x86_64'', sy_system = ''Linux'', sy_processor = [],
     sy_python = ''3.12.0'', sy_uid = 0, sy_pid = 1, sy_affinity = None, sy_cpu_count = Some 4, sy_loads = \<lambda>_. None, sy_dumps = \<lambda>_. ''{}'',
     sy_sha256 = \<lambda>_. [], sy_md5 = \<lambda>_. [], sy_now = 0, sy_elapsed = 0\<rparr>"

end
