(* ===== verification/Act_Trace.thy ===== *)
theory Act_Trace
  imports Remote_Host
begin

text \<open>
  A computation that appends to a log, for any state that has one: which entries it may append. Besides the
  commands sent to a rig, the agent's components append docker command lines and events. And the parts of a
  state that a computation leaves as they are.
\<close>

locale trace =
  fixes log :: "'s \<Rightarrow> 'c list"
begin

definition logs :: "('c \<Rightarrow> bool) \<Rightarrow> ('s, 'a) act \<Rightarrow> bool" where
  "logs P m \<longleftrightarrow> (\<forall>w. \<exists>cs. log (fst (m w)) = log w @ cs \<and> list_all P cs)"

lemma logsD: "logs P m \<Longrightarrow> m w = (w', r) \<Longrightarrow> \<exists>cs. log w' = log w @ cs \<and> list_all P cs"
  unfolding logs_def by (metis fst_conv)

lemma logs_ret: "logs P (ret x)"
  by (simp add: logs_def)

lemma logs_raise: "logs P (raise e)"
  by (simp add: logs_def)

lemma logs_lift: "logs P (lift m)"
  by (cases m) (simp_all add: lift_def logs_def)

lemma logs_modify: "(\<And>w. log (u w) = log w) \<Longrightarrow> logs P (modify u)"
  by (simp add: logs_def)

lemma logs_if: "(b \<Longrightarrow> logs P m) \<Longrightarrow> (\<not> b \<Longrightarrow> logs P n) \<Longrightarrow> logs P (if b then m else n)"
  by simp

lemma logs_mono: "logs P m \<Longrightarrow> (\<And>c. P c \<Longrightarrow> Q c) \<Longrightarrow> logs Q m"
  unfolding logs_def by (meson list_all_iff)

lemma logs_bnd:
  assumes "logs P m" "\<And>x. logs P (f x)"
  shows "logs P (bnd m f)"
  unfolding logs_def
proof
  fix w
  obtain w1 r where m: "m w = (w1, r)" by fastforce
  then obtain cs where cs: "log w1 = log w @ cs" "list_all P cs" using assms(1) logsD by blast
  show "\<exists>cs. log (fst (bnd m f w)) = log w @ cs \<and> list_all P cs"
  proof (cases r)
    case (Inl e)
    then show ?thesis using m cs by (auto simp: bnd_def)
  next
    case (Inr x)
    obtain ds where "log (fst (f x w1)) = log w1 @ ds" "list_all P ds"
      using assms(2) [of x] unfolding logs_def by blast
    then show ?thesis using m cs Inr by (auto simp: bnd_def)
  qed
qed

lemmas logs_rules = logs_ret logs_raise logs_lift logs_if logs_bnd

end

text \<open>A part of the state that a computation leaves as it is.\<close>

locale frame =
  fixes part :: "'s \<Rightarrow> 'p"
begin

definition leaves :: "('s, 'a) act \<Rightarrow> bool" where
  "leaves m \<longleftrightarrow> (\<forall>w. part (fst (m w)) = part w)"

lemma leavesD: "leaves m \<Longrightarrow> m w = (w', r) \<Longrightarrow> part w' = part w"
  unfolding leaves_def by (metis fst_conv)

lemma leaves_ret: "leaves (ret x)"
  by (simp add: leaves_def)

lemma leaves_raise: "leaves (raise e)"
  by (simp add: leaves_def)

lemma leaves_gets: "leaves (gets g)"
  by (simp add: leaves_def)

lemma leaves_lift: "leaves (lift m)"
  by (cases m) (simp_all add: lift_def leaves_def)

lemma leaves_modify: "(\<And>w. part (u w) = part w) \<Longrightarrow> leaves (modify u)"
  by (simp add: leaves_def)

lemma leaves_if: "(b \<Longrightarrow> leaves m) \<Longrightarrow> (\<not> b \<Longrightarrow> leaves n) \<Longrightarrow> leaves (if b then m else n)"
  by simp

lemma leaves_bnd: "leaves m \<Longrightarrow> (\<And>x. leaves (f x)) \<Longrightarrow> leaves (bnd m f)"
  by (auto simp: leaves_def bnd_def split: prod.splits sum.splits) (metis fst_conv)+

lemma leaves_attempt: "leaves m \<Longrightarrow> (\<And>e. leaves (h e)) \<Longrightarrow> leaves (attempt m h)"
  by (auto simp: leaves_def attempt_def split: prod.splits sum.splits) (metis fst_conv)+

lemmas leaves_rules = leaves_ret leaves_raise leaves_gets leaves_lift leaves_if leaves_bnd leaves_attempt

end

end
