(* ===== verification/Rig_Nvml.thy ===== *)
theory Rig_Nvml
  imports Rig_System Verify_Scrape Act_Trace
begin

text \<open>
  The reading of the cards by the scrape payload (\<^verbatim>\<open>validator/verify/payloads/scrape.py\<close>), which the validator pipes
  into Python on the rig. The names of the fields are an argument \<open>F\<close>: the file declares them in the lines that the
  validator rewrites before sending it. NVML is a library whose functions return a code and fill in what they are
  given; it is the answer to a call after the calls it has seen.
\<close>

section \<open>The fields\<close>

definition FIELDS :: "string list" where
  "FIELDS = [''index'', ''name'', ''uuid'', ''serial'', ''memory_total_mb'', ''memory_used_mb'', ''compute_capability'', ''power_limit_w'',
     ''power_default_w'', ''power_min_w'', ''power_max_w'', ''clock_graphics_mhz'', ''clock_sm_mhz'', ''clock_memory_mhz'', ''pcie_width'',
     ''pcie_generation'', ''utilization'', ''memory_utilization'', ''mig_mode'', ''virtualization'', ''host_vgpu_mode'', ''ecc_mode'',
     ''pci_bus_id'', ''minor'', ''processes'', ''errors'']"

type_synonym field_names = "string \<Rightarrow> string"

definition PROBE_TIMEOUT :: nat where "PROBE_TIMEOUT = 30"

definition NVML_CANDIDATES :: "string list" where
  "NVML_CANDIDATES = [''/usr/lib/x86_64-linux-gnu/libnvidia-ml.so.1'', ''/usr/lib64/libnvidia-ml.so.1'', ''/usr/lib/libnvidia-ml.so.1'']"

definition NVML_NAMES :: "(int \<times> string) list" where
  "NVML_NAMES = [(0, ''SUCCESS''), (1, ''UNINITIALIZED''), (2, ''INVALID_ARGUMENT''), (3, ''NOT_SUPPORTED''), (4, ''NO_PERMISSION''),
     (5, ''ALREADY_INITIALIZED''), (6, ''NOT_FOUND''), (7, ''INSUFFICIENT_SIZE''), (8, ''INSUFFICIENT_POWER''), (9, ''DRIVER_NOT_LOADED''),
     (10, ''TIMEOUT''), (11, ''IRQ_ISSUE''), (12, ''LIBRARY_NOT_FOUND''), (13, ''FUNCTION_NOT_FOUND''), (14, ''CORRUPTED_INFOROM''),
     (15, ''GPU_IS_LOST''), (16, ''RESET_REQUIRED''), (17, ''OPERATING_SYSTEM''), (18, ''LIB_RM_VERSION_MISMATCH''), (19, ''IN_USE''),
     (20, ''MEMORY''), (21, ''NO_DATA''), (22, ''VGPU_ECC_NOT_SUPPORTED''), (23, ''INSUFFICIENT_RESOURCES''), (24, ''FREQ_NOT_SUPPORTED''),
     (25, ''ARGUMENT_VERSION_MISMATCH''), (26, ''DEPRECATED''), (27, ''NOT_READY''), (28, ''GPU_NOT_FOUND''), (29, ''INVALID_STATE''),
     (999, ''UNKNOWN'')]"

definition INSUFFICIENT_SIZE :: int where "INSUFFICIENT_SIZE = 7"
definition FUNCTION_NOT_FOUND :: int where "FUNCTION_NOT_FOUND = 13"

definition VIRTUALIZATION_NAMES :: "(int \<times> string) list" where
  "VIRTUALIZATION_NAMES = [(0, ''NONE''), (1, ''PASSTHROUGH''), (2, ''VGPU''), (3, ''HOST_VGPU''), (4, ''HOST_VSGA'')]"

section \<open>NVML\<close>

text \<open>A call: the function and the integers it is given (the handle first). Its answer: the code, the integers and the
  text it filled in, and the entries of a list of processes.\<close>

type_synonym nv_call = "string \<times> int list"

record NvProcess =
  np_pid :: int
  np_memory :: int
  np_instances :: "(int \<times> int) option"

record NvAnswer =
  na_code :: int
  na_ints :: "int list"
  na_text :: string
  na_full :: string
  na_processes :: "NvProcess list"

record NvLibrary =
  nl_has :: "string \<Rightarrow> bool"
  nl_answer :: "nv_call list \<Rightarrow> nv_call \<Rightarrow> NvAnswer"

record Nvml =
  nv_calls :: "nv_call list"
  nv_errors :: "string list"

definition nvml_name :: "int \<Rightarrow> string" where
  "nvml_name code = dget NVML_NAMES code (''CODE_'' @ show_int code)"

definition nvml_missing :: NvAnswer where
  "nvml_missing = \<lparr>na_code = FUNCTION_NOT_FOUND, na_ints = [], na_text = [], na_full = [], na_processes = []\<rparr>"

definition nvml_call :: "NvLibrary \<Rightarrow> string \<Rightarrow> int list \<Rightarrow> ('z Nvml_scheme, NvAnswer) act" where
  "nvml_call lib name args =
     (if nl_has lib name
      then (\<lambda>w. (w\<lparr>nv_calls := nv_calls w @ [(name, args)]\<rparr>, Inr (nl_answer lib (nv_calls w) (name, args))))
      else ret nvml_missing)"

definition nvml_check :: "NvLibrary \<Rightarrow> string \<Rightarrow> int list \<Rightarrow> ('z Nvml_scheme, NvAnswer) act" where
  "nvml_check lib name args =
     bnd (nvml_call lib name args) (\<lambda>a. if na_code a \<noteq> 0 then raise (NvmlErr (na_code a) name) else ret a)"

definition nvml_note :: "int \<Rightarrow> ('z Nvml_scheme, unit) act" where
  "nvml_note code = modify (\<lambda>w. if nvml_name code \<in> set (nv_errors w) then w else w\<lparr>nv_errors := nv_errors w @ [nvml_name code]\<rparr>)"

definition nvml_string :: "NvLibrary \<Rightarrow> string \<Rightarrow> int \<Rightarrow> nat \<Rightarrow> ('z Nvml_scheme, pyval) act" where
  "nvml_string lib name handle size' = bnd (nvml_check lib name [handle, int size']) (\<lambda>a. ret (PStr (take size' (na_text a))))"

definition out_int :: "NvAnswer \<Rightarrow> nat \<Rightarrow> int" where
  "out_int a k = (if k < length (na_ints a) then na_ints a ! k else 0)"

definition nvml_uint :: "NvLibrary \<Rightarrow> string \<Rightarrow> int \<Rightarrow> int list \<Rightarrow> ('z Nvml_scheme, int) act" where
  "nvml_uint lib name handle extra = bnd (nvml_check lib name (handle # extra)) (\<lambda>a. ret (out_int a 0))"

section \<open>A card\<close>

definition exc_type :: "exc \<Rightarrow> string" where
  "exc_type e = (case e of OsError \<Rightarrow> ''OSError'' | ValueErr _ \<Rightarrow> ''ValueError'' | RuntimeErr _ \<Rightarrow> ''RuntimeError''
     | Raised TypeError \<Rightarrow> ''TypeError'' | Raised ValueError \<Rightarrow> ''ValueError'' | Raised AttributeError \<Rightarrow> ''AttributeError''
     | Raised KeyError \<Rightarrow> ''KeyError'' | Raised IndexError \<Rightarrow> ''IndexError'' | _ \<Rightarrow> ''Exception'')"

definition set_error :: "field_names \<Rightarrow> string \<Rightarrow> string \<Rightarrow> pydict \<Rightarrow> pydict" where
  "set_error F key name gpu =
     AList.update (F ''errors'') (case dget gpu (F ''errors'') PNone of PDict es \<Rightarrow> PDict (AList.update key (PStr name) es) | v \<Rightarrow> v) gpu"

definition attempt_field :: "field_names \<Rightarrow> string \<Rightarrow> ('z Nvml_scheme, pyval) act \<Rightarrow> pydict \<Rightarrow> ('z Nvml_scheme, pydict) act" where
  "attempt_field F fld action gpu =
     attempt (bnd action (\<lambda>v. ret (AList.update (F fld) v gpu)))
       (\<lambda>e. ret (set_error F (F fld) (case e of NvmlErr code _ \<Rightarrow> nvml_name code | _ \<Rightarrow> ''PY_'' @ exc_type e)
              (AList.update (F fld) PNone gpu)))"

text \<open>Two fields of one call, and the key its failure is filed under; \<open>noted\<close> tells whether the failure is noted.\<close>

definition attempt_pair ::
  "field_names \<Rightarrow> string \<Rightarrow> string \<Rightarrow> string \<Rightarrow> bool \<Rightarrow> ('z Nvml_scheme, pyval \<times> pyval) act \<Rightarrow> pydict \<Rightarrow> ('z Nvml_scheme, pydict) act" where
  "attempt_pair F fld1 fld2 key noted action gpu =
     attempt (bnd action (\<lambda>(a, b). ret (AList.update (F fld2) b (AList.update (F fld1) a gpu))))
       (\<lambda>e. case e of
          NvmlErr code _ \<Rightarrow>
            bnd (if noted then nvml_note code else ret ()) (\<lambda>_.
              ret (set_error F key (nvml_name code) (AList.update (F fld2) PNone (AList.update (F fld1) PNone gpu))))
        | _ \<Rightarrow> raise e)"

definition MIB :: int where "MIB = 1024 * 1024"

definition watts :: "int \<Rightarrow> pyval" where
  "watts mw = PFloat (of_int mw / 1000)"

definition memory_info :: "NvLibrary \<Rightarrow> int \<Rightarrow> ('z Nvml_scheme, pyval \<times> pyval) act" where
  "memory_info lib handle =
     bnd (nvml_check lib ''nvmlDeviceGetMemoryInfo'' [handle]) (\<lambda>a. ret (PInt (out_int a 0 div MIB), PInt (out_int a 2 div MIB)))"

definition capability :: "NvLibrary \<Rightarrow> int \<Rightarrow> ('z Nvml_scheme, pyval) act" where
  "capability lib handle =
     bnd (nvml_check lib ''nvmlDeviceGetCudaComputeCapability'' [handle]) (\<lambda>a. ret (PStr (show_int (out_int a 0) @ ''.'' @ show_int (out_int a 1))))"

definition constraints :: "NvLibrary \<Rightarrow> int \<Rightarrow> ('z Nvml_scheme, pyval \<times> pyval) act" where
  "constraints lib handle =
     bnd (nvml_check lib ''nvmlDeviceGetPowerManagementLimitConstraints'' [handle]) (\<lambda>a. ret (watts (out_int a 0), watts (out_int a 1)))"

definition utilization_rates :: "NvLibrary \<Rightarrow> int \<Rightarrow> ('z Nvml_scheme, pyval \<times> pyval) act" where
  "utilization_rates lib handle =
     bnd (nvml_check lib ''nvmlDeviceGetUtilizationRates'' [handle]) (\<lambda>a. ret (PInt (out_int a 0), PInt (out_int a 1)))"

definition mig_mode :: "NvLibrary \<Rightarrow> int \<Rightarrow> ('z Nvml_scheme, pyval) act" where
  "mig_mode lib handle =
     bnd (nvml_check lib ''nvmlDeviceGetMigMode'' [handle]) (\<lambda>a.
       ret (PDict [(''current'', PInt (out_int a 0)), (''pending'', PInt (out_int a 1))]))"

definition virtualization_mode :: "NvLibrary \<Rightarrow> int \<Rightarrow> ('z Nvml_scheme, pyval) act" where
  "virtualization_mode lib handle =
     bnd (nvml_check lib ''nvmlDeviceGetVirtualizationMode'' [handle]) (\<lambda>a.
       ret (PStr (dget VIRTUALIZATION_NAMES (out_int a 0) (''MODE_'' @ show_int (out_int a 0)))))"

definition ecc_mode :: "NvLibrary \<Rightarrow> int \<Rightarrow> ('z Nvml_scheme, pyval) act" where
  "ecc_mode lib handle = bnd (nvml_check lib ''nvmlDeviceGetEccMode'' [handle]) (\<lambda>a. ret (PInt (out_int a 0)))"

text \<open>The bus of a card: the first of the three functions that exists; the newest one also fills in the long form.\<close>

fun pci_bus :: "NvLibrary \<Rightarrow> int \<Rightarrow> string list \<Rightarrow> ('z Nvml_scheme, pyval) act" where
  "pci_bus lib handle [] = raise (NvmlErr FUNCTION_NOT_FOUND ''nvmlDeviceGetPciInfo'')"
| "pci_bus lib handle (name # names) =
     (if \<not> nl_has lib name then pci_bus lib handle names
      else bnd (nvml_check lib name [handle]) (\<lambda>a.
             ret (PStr (if endswith name ''_v3'' \<and> na_full a \<noteq> [] then na_full a else na_text a))))"

definition PCI_FUNCTIONS :: "string list" where
  "PCI_FUNCTIONS = [''nvmlDeviceGetPciInfo_v3'', ''nvmlDeviceGetPciInfo_v2'', ''nvmlDeviceGetPciInfo'']"

section \<open>Processes\<close>

definition status_uid :: "string \<Rightarrow> int" where
  "status_uid status =
     (case List.find (\<lambda>l. startswith l ''Uid:'') (splitlines status) of
        None \<Rightarrow> -1 | Some line \<Rightarrow> (case second_number line of Some n \<Rightarrow> n | None \<Rightarrow> -1))"

definition proc_path :: "int \<Rightarrow> string \<Rightarrow> string" where
  "proc_path pid name = ''/proc/'' @ show_int pid @ name"

definition container_of :: "System \<Rightarrow> int \<Rightarrow> string" where
  "container_of sy pid = hex64_in (read_file sy (proc_path pid ''/cgroup'') 4096)"

definition spaced_cmdline :: "string \<Rightarrow> string" where
  "spaced_cmdline raw = take 200 (strip (map (\<lambda>c. if c = CHR 0x00 then CHR '' '' else c) raw))"

definition describe_process :: "System \<Rightarrow> string \<Rightarrow> int \<Rightarrow> int \<Rightarrow> int \<times> int \<Rightarrow> pydict" where
  "describe_process sy kind pid memory_mb instances =
     [(''pid'', PInt pid), (''kind'', PStr kind), (''memory_mb'', PInt memory_mb),
      (''comm'', PStr (strip (read_file sy (proc_path pid ''/comm'') 64))),
      (''cmdline'', PStr (spaced_cmdline (read_file sy (proc_path pid ''/cmdline'') 4096))),
      (''uid'', PInt (status_uid (read_file sy (proc_path pid ''/status'') 2048))), (''container'', PStr (container_of sy pid)),
      (''gpu_instance'', PInt (fst instances)), (''compute_instance'', PInt (snd instances)),
      (''alive'', PBool (sy_exists sy (proc_path pid [])))]"

definition process_entry :: "System \<Rightarrow> string \<Rightarrow> bool \<Rightarrow> NvProcess \<Rightarrow> pydict" where
  "process_entry sy kind wide p =
     describe_process sy kind (np_pid p) (if np_memory p = 0xFFFFFFFFFFFFFFFF then -1 else np_memory p div MIB)
       (case np_instances p of Some i \<Rightarrow> if wide then i else (0xFFFFFFFF, 0xFFFFFFFF) | None \<Rightarrow> (0xFFFFFFFF, 0xFFFFFFFF))"

fun try_versions ::
  "NvLibrary \<Rightarrow> System \<Rightarrow> int \<Rightarrow> string \<Rightarrow> int option \<Rightarrow> (string \<times> bool) list \<Rightarrow> ('z Nvml_scheme, pydict list \<times> string) act" where
  "try_versions lib sy handle kind last' [] =
     (case last' of
        None \<Rightarrow> ret ([], ''FUNCTION_NOT_FOUND'')
      | Some code \<Rightarrow> bnd (nvml_note code) (\<lambda>_. ret ([], nvml_name code)))"
| "try_versions lib sy handle kind last' ((name, wide) # versions) =
     (if \<not> nl_has lib name then try_versions lib sy handle kind last' versions
      else bnd (nvml_call lib name [handle, 0]) (\<lambda>a.
        if na_code a = 0 then ret ([], [])
        else if na_code a \<noteq> INSUFFICIENT_SIZE then try_versions lib sy handle kind (Some (na_code a)) versions
        else (let size' = out_int a 0 * 2 + 5 in
              bnd (nvml_call lib name [handle, size']) (\<lambda>b.
                if na_code b \<noteq> 0 then try_versions lib sy handle kind (Some (na_code b)) versions
                else ret (map (process_entry sy kind wide) (take (nat (out_int b 0)) (na_processes b)), [])))))"

definition running_processes :: "NvLibrary \<Rightarrow> System \<Rightarrow> int \<Rightarrow> string \<Rightarrow> string \<Rightarrow> ('z Nvml_scheme, pydict list \<times> string) act" where
  "running_processes lib sy handle family kind =
     try_versions lib sy handle kind None [(family @ ''_v3'', True), (family @ ''_v2'', True), (family, False)]"

text \<open>The two lists of processes: a process is reported once, as a compute process when it is in both lists.\<close>

definition merge_processes :: "pydict list \<Rightarrow> pydict list \<Rightarrow> pydict list" where
  "merge_processes compute graphics =
     compute @ filter (\<lambda>p. dget p ''pid'' PNone \<notin> set (map (\<lambda>q. dget q ''pid'' PNone) compute)) graphics"

definition note_list_error :: "field_names \<Rightarrow> string \<Rightarrow> string \<Rightarrow> pydict \<Rightarrow> pydict" where
  "note_list_error F key error gpu = (if error = [] then gpu else set_error F key error gpu)"

definition process_step :: "field_names \<Rightarrow> NvLibrary \<Rightarrow> System \<Rightarrow> int \<Rightarrow> pydict \<Rightarrow> ('z Nvml_scheme, pydict) act" where
  "process_step F lib sy handle gpu =
     bnd (running_processes lib sy handle ''nvmlDeviceGetComputeRunningProcesses'' ''compute'') (\<lambda>(compute, e1).
     bnd (running_processes lib sy handle ''nvmlDeviceGetGraphicsRunningProcesses'' ''graphics'') (\<lambda>(graphics, e2).
       ret (AList.update (F ''processes'') (PList (map PDict (merge_processes compute graphics)))
              (note_list_error F ''graphics_processes'' e2 (note_list_error F ''compute_processes'' e1 gpu)))))"

section \<open>The cards\<close>

fun chain :: "('a \<Rightarrow> ('s, 'a) act) list \<Rightarrow> 'a \<Rightarrow> ('s, 'a) act" where
  "chain [] x = ret x"
| "chain (f # fs) x = bnd (f x) (chain fs)"

definition uint_field :: "NvLibrary \<Rightarrow> string \<Rightarrow> int \<Rightarrow> int list \<Rightarrow> ('z Nvml_scheme, pyval) act" where
  "uint_field lib name handle extra = bnd (nvml_uint lib name handle extra) (\<lambda>v. ret (PInt v))"

definition watts_field :: "NvLibrary \<Rightarrow> string \<Rightarrow> int \<Rightarrow> ('z Nvml_scheme, pyval) act" where
  "watts_field lib name handle = bnd (nvml_uint lib name handle []) (\<lambda>v. ret (watts v))"

definition card_steps :: "field_names \<Rightarrow> NvLibrary \<Rightarrow> int \<Rightarrow> (pydict \<Rightarrow> ('z Nvml_scheme, pydict) act) list" where
  "card_steps F lib h =
     [attempt_field F ''name'' (nvml_string lib ''nvmlDeviceGetName'' h 96),
      attempt_field F ''uuid'' (nvml_string lib ''nvmlDeviceGetUUID'' h 96),
      attempt_field F ''serial'' (nvml_string lib ''nvmlDeviceGetSerial'' h 64),
      attempt_pair F ''memory_total_mb'' ''memory_used_mb'' ''memory'' True (memory_info lib h),
      attempt_field F ''compute_capability'' (capability lib h),
      attempt_field F ''power_limit_w'' (watts_field lib ''nvmlDeviceGetPowerManagementLimit'' h),
      attempt_field F ''power_default_w'' (watts_field lib ''nvmlDeviceGetPowerManagementDefaultLimit'' h),
      attempt_pair F ''power_min_w'' ''power_max_w'' ''power_constraints'' False (constraints lib h),
      attempt_field F ''clock_graphics_mhz'' (uint_field lib ''nvmlDeviceGetClockInfo'' h [0]),
      attempt_field F ''clock_sm_mhz'' (uint_field lib ''nvmlDeviceGetClockInfo'' h [1]),
      attempt_field F ''clock_memory_mhz'' (uint_field lib ''nvmlDeviceGetClockInfo'' h [2]),
      attempt_field F ''pcie_width'' (uint_field lib ''nvmlDeviceGetCurrPcieLinkWidth'' h []),
      attempt_field F ''pcie_generation'' (uint_field lib ''nvmlDeviceGetCurrPcieLinkGeneration'' h []),
      attempt_pair F ''utilization'' ''memory_utilization'' ''utilization'' False (utilization_rates lib h),
      attempt_field F ''mig_mode'' (mig_mode lib h),
      attempt_field F ''virtualization'' (virtualization_mode lib h),
      attempt_field F ''host_vgpu_mode'' (uint_field lib ''nvmlDeviceGetHostVgpuMode'' h []),
      attempt_field F ''ecc_mode'' (ecc_mode lib h),
      attempt_field F ''pci_bus_id'' (pci_bus lib h PCI_FUNCTIONS),
      attempt_field F ''minor'' (uint_field lib ''nvmlDeviceGetMinorNumber'' h [])]"

definition scrape_gpu :: "field_names \<Rightarrow> NvLibrary \<Rightarrow> System \<Rightarrow> int \<Rightarrow> ('z Nvml_scheme, pydict) act" where
  "scrape_gpu F lib sy index =
     (let gpu = dict_comp [(F ''index'', PInt index), (F ''errors'', PDict [])] in
      bnd (nvml_call lib ''nvmlDeviceGetHandleByIndex_v2'' [index]) (\<lambda>a.
        if na_code a \<noteq> 0
        then bnd (nvml_note (na_code a)) (\<lambda>_. ret (set_error F ''handle'' (nvml_name (na_code a)) gpu))
        else bnd (chain (card_steps F lib (out_int a 0)) gpu) (process_step F lib sy (out_int a 0))))"

definition file_hashes :: "System \<Rightarrow> string \<Rightarrow> pydict" where
  "file_hashes sy path =
     (if path = [] then [(''path'', PStr []), (''error'', PStr ''not found'')]
      else (case sy_file sy path of
              Inl e \<Rightarrow> [(''path'', PStr path), (''error'', PStr e)]
            | Inr raw \<Rightarrow> [(''path'', PStr path), (''size'', PInt (int (length raw))), (''sha256'', PStr (sy_sha256 sy raw)),
                          (''md5'', PStr (sy_md5 sy raw))]))"

definition NVML_FILE :: string where "NVML_FILE = ''libnvidia-ml.so.1''"

text \<open>The library file: one of the known places, else the best of the first nine found below \<^verbatim>\<open>/usr\<close> (a 64 bit
  directory first, then the shortest path).\<close>

definition find_nvml :: "System \<Rightarrow> string" where
  "find_nvml sy =
     (case List.find (sy_isfile sy) NVML_CANDIDATES of
        Some p \<Rightarrow> p
      | None \<Rightarrow>
          (let found = take 9 (map (\<lambda>(base, _). path_join base NVML_FILE) (filter (\<lambda>(_, files). NVML_FILE \<in> set files) (sy_walk sy ''/usr'')));
               ranked = sort_key (\<lambda>p. if contains_str ''x86_64'' p \<or> contains_str ''lib64'' p then 0 else 1 :: nat) (sort_key length found)
           in case ranked of [] \<Rightarrow> [] | p # _ \<Rightarrow> p))"

definition cuda_text :: "int \<Rightarrow> string" where
  "cuda_text v = show_int (v div 1000) @ ''.'' @ show_int ((v mod 1000) div 10)"

definition nvml_driver :: "NvLibrary \<Rightarrow> ('z Nvml_scheme, string \<times> string \<times> string) act" where
  "nvml_driver lib =
     bnd (nvml_call lib ''nvmlSystemGetDriverVersion'' [96]) (\<lambda>d.
     bnd (nvml_call lib ''nvmlSystemGetNVMLVersion'' [96]) (\<lambda>v.
     bnd (nvml_call lib ''nvmlSystemGetCudaDriverVersion_v2'' []) (\<lambda>c.
     bnd (if na_code c = 0 then ret c else nvml_call lib ''nvmlSystemGetCudaDriverVersion'' []) (\<lambda>c'.
       ret (if na_code d = 0 then na_text d else [], if na_code v = 0 then na_text v else [],
            if na_code c' = 0 then cuda_text (out_int c' 0) else [])))))"

definition nvml_cards :: "field_names \<Rightarrow> NvLibrary \<Rightarrow> System \<Rightarrow> ('z Nvml_scheme, int \<times> pydict list) act" where
  "nvml_cards F lib sy =
     bnd (nvml_call lib ''nvmlDeviceGetCount_v2'' []) (\<lambda>n.
       if na_code n \<noteq> 0 then bnd (nvml_note (na_code n)) (\<lambda>_. ret (0, []))
       else bnd (each (scrape_gpu F lib sy) (map int [0..<nat (out_int n 0)])) (\<lambda>cards. ret (out_int n 0, cards)))"

text \<open>\<^verbatim>\<open>try: m finally: nvml.call("nvmlShutdown")\<close>.\<close>

definition shutting_down :: "NvLibrary \<Rightarrow> ('z Nvml_scheme, 'a) act \<Rightarrow> ('z Nvml_scheme, 'a) act" where
  "shutting_down lib m = (\<lambda>w. case m w of (w', r) \<Rightarrow> (fst (nvml_call lib ''nvmlShutdown'' [] w'), r))"

definition nvml_result :: "string \<Rightarrow> pydict \<Rightarrow> string list \<Rightarrow> string \<times> string \<times> string \<Rightarrow> int \<Rightarrow> pydict list \<Rightarrow> pydict \<Rightarrow> pydict" where
  "nvml_result path hashes errors versions count cards extra =
     [(''library'', PStr path), (''hashes'', PDict hashes), (''errors'', PList (map PStr errors)), (''driver'', PStr (fst versions)),
      (''cuda'', PStr (snd (snd versions))), (''nvml_version'', PStr (fst (snd versions))), (''count'', PInt count),
      (''gpus'', PList (map PDict cards))] @ extra"

definition error_string :: "NvLibrary \<Rightarrow> int \<Rightarrow> ('z Nvml_scheme, string) act" where
  "error_string lib code =
     (if nl_has lib ''nvmlErrorString'' then bnd (nvml_call lib ''nvmlErrorString'' [code]) (\<lambda>a. ret (na_text a)) else ret [])"

definition nvml_session :: "field_names \<Rightarrow> NvLibrary \<Rightarrow> System \<Rightarrow> string \<Rightarrow> pydict \<Rightarrow> ('z Nvml_scheme, pydict) act" where
  "nvml_session F lib sy path hashes =
     bnd (nvml_call lib ''nvmlInit_v2'' []) (\<lambda>a.
       if na_code a \<noteq> 0
       then bnd (nvml_note (na_code a)) (\<lambda>_. bnd (error_string lib (na_code a)) (\<lambda>text. bnd (gets nv_errors) (\<lambda>errors.
              ret (nvml_result path hashes errors ([], [], []) 0 [] [(''init_error'', PStr text)]))))
       else bnd (shutting_down lib (bnd (nvml_driver lib) (\<lambda>versions. bnd (nvml_cards F lib sy) (\<lambda>counted. ret (versions, counted)))))
              (\<lambda>(versions, count, cards). bnd (gets nv_errors) (\<lambda>errors. ret (nvml_result path hashes errors versions count cards []))))"

definition scrape_nvml :: "field_names \<Rightarrow> (string \<Rightarrow> string + NvLibrary) \<Rightarrow> System \<Rightarrow> ('z Nvml_scheme, pydict) act" where
  "scrape_nvml F load sy =
     (let path = find_nvml sy;
          unloaded = \<lambda>e. nvml_result path [] [''LIBRARY_NOT_FOUND''] ([], [], []) 0 [] [(''load_error'', PStr e)]
      in if path = [] then ret (nvml_result [] [] [''LIBRARY_NOT_FOUND''] ([], [], []) 0 [] [])
         else (case sy_file sy path of
                 Inl e \<Rightarrow> ret (unloaded e)
               | Inr _ \<Rightarrow> (case load path of Inl e \<Rightarrow> ret (unloaded e) | Inr lib \<Rightarrow> nvml_session F lib sy path (file_hashes sy path))))"

section \<open>Other names\<close>

text \<open>A card under the names \<open>F\<close>. In the dictionary of its errors only the keys that are fields are renamed: a failure that
  concerns two fields is filed under a word of its own.\<close>

definition SINGLE_FIELDS :: "string list" where
  "SINGLE_FIELDS = [''name'', ''uuid'', ''serial'', ''compute_capability'', ''power_limit_w'', ''power_default_w'', ''clock_graphics_mhz'',
     ''clock_sm_mhz'', ''clock_memory_mhz'', ''pcie_width'', ''pcie_generation'', ''mig_mode'', ''virtualization'', ''host_vgpu_mode'',
     ''ecc_mode'', ''pci_bus_id'', ''minor'']"

definition ERROR_WORDS :: "string list" where
  "ERROR_WORDS = [''handle'', ''memory'', ''power_constraints'', ''utilization'', ''compute_processes'', ''graphics_processes'']"

definition error_name :: "field_names \<Rightarrow> string \<Rightarrow> string" where
  "error_name F k = (if k \<in> set SINGLE_FIELDS then F k else k)"

definition hide_value :: "field_names \<Rightarrow> string \<Rightarrow> pyval \<Rightarrow> pyval" where
  "hide_value F k v = (if k = ''errors'' then (case v of PDict es \<Rightarrow> PDict (map (\<lambda>(e, x). (error_name F e, x)) es) | _ \<Rightarrow> v) else v)"

definition under_names :: "field_names \<Rightarrow> pydict \<Rightarrow> pydict" where
  "under_names F c = map (\<lambda>(k, v). (F k, hide_value F k v)) c"

definition names_ok :: "field_names \<Rightarrow> bool" where
  "names_ok F \<longleftrightarrow> inj_on F (set FIELDS) \<and> inj_on (error_name F) (set SINGLE_FIELDS \<union> set ERROR_WORDS)"

definition card_ok :: "pydict \<Rightarrow> bool" where
  "card_ok c \<longleftrightarrow> set (map fst c) \<subseteq> set FIELDS \<and> distinct (map fst c)
     \<and> (\<exists>es. map_of c ''errors'' = Some (PDict es) \<and> set (map fst es) \<subseteq> set SINGLE_FIELDS \<union> set ERROR_WORDS)"

lemma SINGLE_in_FIELDS: "set SINGLE_FIELDS \<subseteq> set FIELDS"
  by (simp add: SINGLE_FIELDS_def FIELDS_def)

lemma update_map_key:
  assumes "inj_on g (insert k (set (map fst c)))"
  shows "map (\<lambda>(k, v). (g k, h k v)) (AList.update k v c) = AList.update (g k) (h k v) (map (\<lambda>(k, v). (g k, h k v)) c)"
  using assms by (induction c) (auto simp: inj_on_def)

lemma names_ok_inj:
  assumes "names_ok F"
  shows "inj_on F (set FIELDS)" "inj_on (error_name F) (set SINGLE_FIELDS \<union> set ERROR_WORDS)"
  using assms unfolding names_ok_def by blast+

lemma under_names_update:
  assumes "names_ok F" "k \<in> set FIELDS" "set (map fst c) \<subseteq> set FIELDS"
  shows "under_names F (AList.update k v c) = AList.update (F k) (hide_value F k v) (under_names F c)"
proof -
  have "inj_on F (insert k (set (map fst c)))" using assms(2,3) by (intro inj_on_subset [OF names_ok_inj(1) [OF assms(1)]]) simp
  then show ?thesis unfolding under_names_def by (rule update_map_key)
qed

lemma map_of_under_names:
  assumes "names_ok F" "k \<in> set FIELDS" "set (map fst c) \<subseteq> set FIELDS"
  shows "map_of (under_names F c) (F k) = map_option (hide_value F k) (map_of c k)"
  using assms(3)
proof (induction c)
  case (Cons p c)
  obtain k' v where p: "p = (k', v)" by fastforce
  have "F k = F k' \<longleftrightarrow> k = k'" using Cons.prems p inj_on_eq_iff [OF names_ok_inj(1) [OF assms(1)] assms(2), of k'] by simp
  then show ?case using Cons p by (simp add: under_names_def)
qed (simp add: under_names_def)

lemma card_ok_update:
  assumes "card_ok c" "k \<in> set FIELDS" "k \<noteq> ''errors''"
  shows "card_ok (AList.update k v c)"
  using assms by (auto simp: card_ok_def update_conv' dom_update distinct_update)

lemma set_error_under_names:
  assumes "names_ok F" "card_ok c" "key \<in> set SINGLE_FIELDS \<union> set ERROR_WORDS"
  shows "set_error F (error_name F key) name (under_names F c) = under_names F (set_error id key name c)" "card_ok (set_error id key name c)"
proof -
  obtain es where es: "map_of c ''errors'' = Some (PDict es)" "set (map fst es) \<subseteq> set SINGLE_FIELDS \<union> set ERROR_WORDS"
    and c: "set (map fst c) \<subseteq> set FIELDS" using assms(2) by (auto simp: card_ok_def)
  have e: "''errors'' \<in> set FIELDS" by (simp add: FIELDS_def)
  let ?es = "AList.update key (PStr name) es"
  have upd: "map (\<lambda>(e, x). (error_name F e, x)) ?es = AList.update (error_name F key) (PStr name) (map (\<lambda>(e, x). (error_name F e, x)) es)"
  proof -
    have "inj_on (error_name F) (insert key (set (map fst es)))" using assms(3) es(2) by (intro inj_on_subset [OF names_ok_inj(2) [OF assms(1)]]) simp
    then show ?thesis by (rule update_map_key [where h = "\<lambda>_ x. x"])
  qed
  have s: "set_error id key name c = AList.update ''errors'' (PDict ?es) c" using es(1) by (simp add: set_error_def dget_def)
  have "map_of (under_names F c) (F ''errors'') = Some (PDict (map (\<lambda>(e, x). (error_name F e, x)) es))"
    using map_of_under_names [OF assms(1) e c] es(1) by (simp add: hide_value_def)
  then have "set_error F (error_name F key) name (under_names F c) = AList.update (F ''errors'') (PDict (map (\<lambda>(e, x). (error_name F e, x)) ?es)) (under_names F c)"
    unfolding upd by (simp add: set_error_def dget_def)
  then show "set_error F (error_name F key) name (under_names F c) = under_names F (set_error id key name c)"
    unfolding s using under_names_update [OF assms(1) e c] by (simp add: hide_value_def)
  have "set (map fst ?es) \<subseteq> set SINGLE_FIELDS \<union> set ERROR_WORDS" using assms(3) es(2) by (auto simp: dom_update)
  then show "card_ok (set_error id key name c)" unfolding s using c e assms(2) by (auto simp: card_ok_def update_conv' dom_update distinct_update)
qed

text \<open>A step that does under the names \<open>F\<close> what another one does under the original names.\<close>

definition renames :: "field_names \<Rightarrow> (pydict \<Rightarrow> ('s, pydict) act) \<Rightarrow> (pydict \<Rightarrow> ('s, pydict) act) \<Rightarrow> bool" where
  "renames F f g \<longleftrightarrow> (\<forall>c w. card_ok c \<longrightarrow>
     (\<exists>w' r. g c w = (w', r) \<and> f (under_names F c) w = (w', map_sum id (under_names F) r) \<and> (\<forall>x. r = Inr x \<longrightarrow> card_ok x)))"

lemma renamesI:
  assumes "\<And>c w. card_ok c \<Longrightarrow> \<exists>w' r. g c w = (w', r) \<and> f (under_names F c) w = (w', map_sum id (under_names F) r) \<and> (\<forall>x. r = Inr x \<longrightarrow> card_ok x)"
  shows "renames F f g"
  using assms unfolding renames_def by blast

lemma renames_chain:
  assumes "list_all2 (renames F) fs gs"
  shows "renames F (chain fs) (chain gs)"
  using assms
proof (induction rule: list_all2_induct)
  case Nil
  then show ?case by (intro renamesI) auto
next
  case (Cons f fs g gs)
  show ?case
  proof (rule renamesI)
    fix c w assume "card_ok c"
    then obtain w1 r where g: "g c w = (w1, r)" and f: "f (under_names F c) w = (w1, map_sum id (under_names F) r)"
      and ok: "\<And>x. r = Inr x \<Longrightarrow> card_ok x"
      using Cons.hyps(1) unfolding renames_def by blast
    show "\<exists>w' r. chain (g # gs) c w = (w', r) \<and> chain (f # fs) (under_names F c) w = (w', map_sum id (under_names F) r) \<and> (\<forall>x. r = Inr x \<longrightarrow> card_ok x)"
    proof (cases r)
      case (Inl e)
      then show ?thesis using f g by (simp add: bnd_def)
    next
      case (Inr x)
      then have "card_ok x" using ok by simp
      then show ?thesis using Cons.IH Inr f g unfolding renames_def by (simp add: bnd_def)
    qed
  qed
qed

lemma hide_value_other: "k \<noteq> ''errors'' \<Longrightarrow> hide_value F k v = v"
  by (simp add: hide_value_def)

lemma renames_field:
  assumes "names_ok F" "fld \<in> set SINGLE_FIELDS"
  shows "renames F (attempt_field F fld action) (attempt_field id fld action)"
proof (rule renamesI)
  fix c w assume ok: "card_ok c"
  obtain w' r where a: "action w = (w', r)" by fastforce
  have f: "fld \<in> set FIELDS" "fld \<noteq> ''errors''" using assms(2) SINGLE_in_FIELDS by (auto simp: SINGLE_FIELDS_def)
  have keys: "set (map fst c) \<subseteq> set FIELDS" using ok by (simp add: card_ok_def)
  note u = under_names_update [OF assms(1) f(1) keys] card_ok_update [OF ok f]
  have e: "error_name F fld = F fld" using assms(2) by (simp add: error_name_def)
  note se = set_error_under_names [OF assms(1) u(2), of fld, unfolded e]
  show "\<exists>w' r. attempt_field id fld action c w = (w', r) \<and> attempt_field F fld action (under_names F c) w = (w', map_sum id (under_names F) r) \<and> (\<forall>x. r = Inr x \<longrightarrow> card_ok x)"
    using a u se assms(2) by (cases r) (simp_all add: attempt_field_def attempt_def bnd_def hide_value_other [OF f(2)])
qed

lemma nvml_call_runs: "\<exists>w' a. nvml_call lib name args w = (w', Inr a)"
  by (cases "nl_has lib name") (simp_all add: nvml_call_def)

lemma nvml_note_runs: "\<exists>w'. nvml_note code w = (w', Inr ())"
  by (simp add: nvml_note_def)

lemma renames_pair:
  assumes "names_ok F" "fld1 \<in> set FIELDS" "fld1 \<noteq> ''errors''" "fld2 \<in> set FIELDS" "fld2 \<noteq> ''errors''" "key \<in> set ERROR_WORDS"
  shows "renames F (attempt_pair F fld1 fld2 key noted action) (attempt_pair id fld1 fld2 key noted action)"
proof (rule renamesI)
  fix c w assume ok: "card_ok c"
  obtain w' r where a: "action w = (w', r)" by fastforce
  have keys: "set (map fst x) \<subseteq> set FIELDS" if "card_ok x" for x using that by (simp add: card_ok_def)
  have u: "under_names F (AList.update fld2 b (AList.update fld1 a c)) = AList.update (F fld2) b (AList.update (F fld1) a (under_names F c))" for a b
    using under_names_update [OF assms(1,4) keys [OF card_ok_update [OF ok assms(2,3)]]] under_names_update [OF assms(1,2) keys [OF ok]]
    by (simp add: hide_value_other assms(3,5))
  have ok2: "card_ok (AList.update fld2 b (AList.update fld1 a c))" for a b using card_ok_update [OF card_ok_update [OF ok assms(2,3)] assms(4,5)] .
  have "error_name F key = key" using assms(6) by (auto simp: error_name_def ERROR_WORDS_def SINGLE_FIELDS_def)
  note se = set_error_under_names [OF assms(1) ok2, of key, unfolded this]
  obtain w2 where n: "(if noted then nvml_note code else ret ()) w' = (w2 code, Inr ())" for code
    using nvml_note_runs [of _ w'] by (cases noted) (simp_all, metis)
  show "\<exists>w' r. attempt_pair id fld1 fld2 key noted action c w = (w', r) \<and> attempt_pair F fld1 fld2 key noted action (under_names F c) w = (w', map_sum id (under_names F) r) \<and> (\<forall>x. r = Inr x \<longrightarrow> card_ok x)"
  proof (cases r)
    case (Inr x)
    then show ?thesis using a u ok2 by (cases x) (simp add: attempt_pair_def attempt_def bnd_def)
  next
    case (Inl e)
    show ?thesis
    proof (cases "\<exists>code name. e = NvmlErr code name")
      case True
      then show ?thesis using a Inl u se n assms(6) by (auto simp: attempt_pair_def attempt_def bnd_def)
    next
      case False
      then show ?thesis using a Inl by (cases e) (simp_all add: attempt_pair_def attempt_def bnd_def)
    qed
  qed
qed

lemma renames_list_error:
  assumes "names_ok F" "card_ok c" "key \<in> set ERROR_WORDS"
  shows "note_list_error F key error (under_names F c) = under_names F (note_list_error id key error c)" "card_ok (note_list_error id key error c)"
proof -
  have "error_name F key = key" using assms(3) by (auto simp: error_name_def ERROR_WORDS_def SINGLE_FIELDS_def)
  then show "note_list_error F key error (under_names F c) = under_names F (note_list_error id key error c)" "card_ok (note_list_error id key error c)"
    using set_error_under_names [OF assms(1,2), of key] assms(2,3) by (simp_all add: note_list_error_def)
qed

lemma renames_processes:
  assumes "names_ok F"
  shows "renames F (process_step F lib sy handle) (process_step id lib sy handle)"
proof (rule renamesI)
  fix c :: pydict and w :: "'a Nvml_scheme" assume ok: "card_ok c"
  let ?n = "\<lambda>F e1 e2 c. note_list_error F ''graphics_processes'' e2 (note_list_error F ''compute_processes'' e1 c)"
  have words: "''compute_processes'' \<in> set ERROR_WORDS" "''graphics_processes'' \<in> set ERROR_WORDS" by (simp_all add: ERROR_WORDS_def)
  have n: "?n F e1 e2 (under_names F c) = under_names F (?n id e1 e2 c)" "card_ok (?n id e1 e2 c)" for e1 e2
    using renames_list_error [OF assms] words ok by simp_all
  have p: "''processes'' \<in> set FIELDS" "''processes'' \<noteq> ''errors''" by (simp_all add: FIELDS_def)
  have keys: "set (map fst x) \<subseteq> set FIELDS" if "card_ok x" for x using that by (simp add: card_ok_def)
  have u: "AList.update (F ''processes'') v (?n F e1 e2 (under_names F c)) = under_names F (AList.update ''processes'' v (?n id e1 e2 c))" for v e1 e2
    using under_names_update [OF assms p(1) keys [OF n(2)]] n(1) by (simp add: hide_value_def)
  note u = u card_ok_update [OF n(2) p]
  show "\<exists>w' r. process_step id lib sy handle c w = (w', r) \<and> process_step F lib sy handle (under_names F c) w = (w', map_sum id (under_names F) r) \<and> (\<forall>x. r = Inr x \<longrightarrow> card_ok x)"
    using u unfolding process_step_def by (auto simp: bnd_def split: prod.splits sum.splits)
qed

lemma renames_steps:
  assumes "names_ok F"
  shows "list_all2 (renames F) (card_steps F lib h) (card_steps id lib h)"
proof -
  note fields = renames_field [OF assms] and pairs = renames_pair [OF assms]
  have "''memory_total_mb'' \<in> set FIELDS" "''memory_used_mb'' \<in> set FIELDS" "''power_min_w'' \<in> set FIELDS" "''power_max_w'' \<in> set FIELDS"
    "''utilization'' \<in> set FIELDS" "''memory_utilization'' \<in> set FIELDS" "''memory'' \<in> set ERROR_WORDS" "''power_constraints'' \<in> set ERROR_WORDS"
    "''utilization'' \<in> set ERROR_WORDS" by (simp_all add: FIELDS_def ERROR_WORDS_def)
  note w = this
  show ?thesis unfolding card_steps_def list_all2_Cons list_all2_Nil
    by (intro conjI fields pairs w TrueI) (simp_all add: SINGLE_FIELDS_def)
qed

definition blank_card :: "int \<Rightarrow> pydict" where
  "blank_card index = [(''index'', PInt index), (''errors'', PDict [])]"

lemma blank_card_ok: "card_ok (blank_card index)"
  by (simp add: card_ok_def blank_card_def FIELDS_def)

lemma blank_card_names:
  assumes "names_ok F"
  shows "dict_comp [(F ''index'', PInt index), (F ''errors'', PDict [])] = under_names F (blank_card index)"
proof -
  have "F ''index'' \<noteq> F ''errors''" using inj_onD [OF names_ok_inj(1) [OF assms], of "''index''" "''errors''"] by (auto simp: FIELDS_def)
  then show ?thesis by (subst dict_comp_distinct) (auto simp: under_names_def blank_card_def hide_value_def)
qed

lemma names_ok_id: "names_ok id"
  by (simp add: names_ok_def error_name_def inj_on_def)

lemma under_names_id: "under_names id c = c"
  by (induction c) (auto simp: under_names_def hide_value_def error_name_def split: pyval.splits)

lemma chain_snoc: "bnd (chain fs x) f = chain (fs @ [f]) x"
proof (induction fs arbitrary: x)
  case Nil
  have "bnd m (chain []) = m" for m :: "('a, 'b) act" by (auto simp: bnd_def fun_eq_iff split: prod.splits sum.splits)
  then show ?case by (simp add: bnd_def)
qed (simp add: bnd_assoc)

text \<open>The names do not change what the payload asks, and change its answer only in the names.\<close>

lemma scrape_gpu_names:
  assumes "names_ok F" "scrape_gpu id lib sy index w = (w', r)"
  shows "scrape_gpu F lib sy index w = (w', map_sum id (under_names F) r)"
proof -
  obtain w1 a where c: "nvml_call lib ''nvmlDeviceGetHandleByIndex_v2'' [index] w = (w1, Inr a)"
    using nvml_call_runs by blast
  have b: "dict_comp [(id ''index'', PInt index), (id ''errors'', PDict [])] = blank_card index"
    using blank_card_names [OF names_ok_id, of index] by (simp add: under_names_id)
  have "''handle'' \<in> set SINGLE_FIELDS \<union> set ERROR_WORDS" "error_name F ''handle'' = ''handle''" by (simp_all add: ERROR_WORDS_def error_name_def SINGLE_FIELDS_def)
  then have se: "set_error F ''handle'' name (under_names F (blank_card index)) = under_names F (set_error id ''handle'' name (blank_card index))" for name
    using set_error_under_names(1) [OF assms(1) blank_card_ok, of "''handle''"] by simp
  have steps: "renames F (chain (card_steps F lib (out_int a 0) @ [process_step F lib sy (out_int a 0)])) (chain (card_steps id lib (out_int a 0) @ [process_step id lib sy (out_int a 0)]))"
    using renames_steps [OF assms(1)] renames_processes [OF assms(1)] by (intro renames_chain list_all2_appendI) simp_all
  show ?thesis
  proof (cases "na_code a = 0")
    case True
    then have "chain (card_steps id lib (out_int a 0) @ [process_step id lib sy (out_int a 0)]) (blank_card index) w1 = (w', r)"
      using assms(2) c unfolding scrape_gpu_def Let_def b by (simp add: bnd_def [of "nvml_call _ _ _"] chain_snoc)
    moreover obtain w2 r2 where "chain (card_steps id lib (out_int a 0) @ [process_step id lib sy (out_int a 0)]) (blank_card index) w1 = (w2, r2)"
      "chain (card_steps F lib (out_int a 0) @ [process_step F lib sy (out_int a 0)]) (under_names F (blank_card index)) w1 = (w2, map_sum id (under_names F) r2)"
      using steps blank_card_ok [of index] unfolding renames_def by blast
    ultimately show ?thesis
      using True c unfolding scrape_gpu_def Let_def blank_card_names [OF assms(1)] by (simp add: bnd_def [of "nvml_call _ _ _"] chain_snoc)
  next
    case False
    then show ?thesis
      using assms(2) c nvml_note_runs [of "na_code a" w1] se unfolding scrape_gpu_def Let_def blank_card_names [OF assms(1)] b
      by (auto simp: bnd_def)
  qed
qed

section \<open>A card is complete\<close>

text \<open>The key under which the failure of a field is filed.\<close>

definition failure_key :: "string \<Rightarrow> string" where
  "failure_key k =
     (if k \<in> {''memory_total_mb'', ''memory_used_mb''} then ''memory''
      else if k \<in> {''power_min_w'', ''power_max_w''} then ''power_constraints''
      else if k \<in> {''utilization'', ''memory_utilization''} then ''utilization'' else k)"

definition errors_of :: "pydict \<Rightarrow> pydict" where
  "errors_of c = (case map_of c ''errors'' of Some (PDict es) \<Rightarrow> es | _ \<Rightarrow> [])"

text \<open>A field that was read, or whose failure is filed.\<close>

definition settled :: "pydict \<Rightarrow> string \<Rightarrow> bool" where
  "settled c k \<longleftrightarrow> (\<exists>v. map_of c k = Some v \<and> (v = PNone \<longrightarrow> dhas (errors_of c) (failure_key k)))"

definition settles :: "string list \<Rightarrow> (pydict \<Rightarrow> ('s, pydict) act) \<Rightarrow> bool" where
  "settles ks f \<longleftrightarrow> (\<forall>c w. card_ok c \<longrightarrow> (\<exists>w' c'. f c w = (w', Inr c') \<and> card_ok c' \<and> set (map fst c') = set (map fst c) \<union> set ks
     \<and> (\<forall>k. settled c k \<or> k \<in> set ks \<longrightarrow> settled c' k)))"

lemma settlesI:
  assumes "\<And>c w. card_ok c \<Longrightarrow> \<exists>w' c'. f c w = (w', Inr c') \<and> card_ok c' \<and> set (map fst c') = set (map fst c) \<union> set ks
     \<and> (\<forall>k. settled c k \<or> k \<in> set ks \<longrightarrow> settled c' k)"
  shows "settles ks f"
  using assms unfolding settles_def by blast

lemma settles_chain:
  assumes "list_all2 settles kss fs"
  shows "settles (concat kss) (chain fs)"
  using assms
proof (induction rule: list_all2_induct)
  case Nil
  then show ?case by (intro settlesI) auto
next
  case (Cons ks kss f fs)
  show ?case
  proof (rule settlesI)
    fix c w assume "card_ok c"
    then obtain w1 c1 where f: "f c w = (w1, Inr c1)" "card_ok c1" "set (map fst c1) = set (map fst c) \<union> set ks"
      "\<forall>k. settled c k \<or> k \<in> set ks \<longrightarrow> settled c1 k" using Cons.hyps(1) unfolding settles_def by blast
    then obtain w2 c2 where "chain fs c1 w1 = (w2, Inr c2)" "card_ok c2" "set (map fst c2) = set (map fst c1) \<union> set (concat kss)"
      "\<forall>k. settled c1 k \<or> k \<in> set (concat kss) \<longrightarrow> settled c2 k" using Cons.IH unfolding settles_def by blast
    then show "\<exists>w' c'. chain (f # fs) c w = (w', Inr c') \<and> card_ok c' \<and> set (map fst c') = set (map fst c) \<union> set (concat (ks # kss))
       \<and> (\<forall>k. settled c k \<or> k \<in> set (concat (ks # kss)) \<longrightarrow> settled c' k)"
      using f by (auto simp: bnd_def)
  qed
qed

lemma card_ok_errors: "card_ok c \<Longrightarrow> ''errors'' \<in> set (map fst c)"
  unfolding card_ok_def by (metis domI dom_map_of_conv_image_fst set_map)

lemma errors_of_update: "k \<noteq> ''errors'' \<Longrightarrow> errors_of (AList.update k v c) = errors_of c"
  by (simp add: errors_of_def update_conv')

lemma settled_update:
  assumes "k \<noteq> ''errors''" "settled c k' \<or> k' = k" "v \<noteq> PNone"
  shows "settled (AList.update k v c) k'"
  using assms by (auto simp: settled_def update_conv' errors_of_update)

lemma set_error_id:
  assumes "card_ok c"
  shows "set_error id key name c = AList.update ''errors'' (PDict (AList.update key (PStr name) (errors_of c))) c"
    "errors_of (set_error id key name c) = AList.update key (PStr name) (errors_of c)"
  using assms by (auto simp: set_error_def errors_of_def card_ok_def dget_def update_conv')

text \<open>Fields set to nothing, with the failure filed.\<close>

lemma settled_failed:
  assumes "card_ok c" "card_ok c1" "\<And>k. k \<notin> set ks \<Longrightarrow> map_of c1 k = map_of c k" "\<And>k. k \<in> set ks \<Longrightarrow> map_of c1 k = Some PNone"
    and "\<And>k. k \<in> set ks \<Longrightarrow> failure_key k = key" "''errors'' \<notin> set ks" "settled c k \<or> k \<in> set ks"
  shows "settled (set_error id key name c1) k"
proof -
  have es: "errors_of c1 = errors_of c" using assms(3,6) by (simp add: errors_of_def)
  have e: "errors_of (set_error id key name c1) = AList.update key (PStr name) (errors_of c)" using set_error_id(2) [OF assms(2)] es by simp
  have m: "map_of (set_error id key name c1) k = map_of c1 k" if "k \<noteq> ''errors''" for k using that set_error_id(1) [OF assms(2)] by (simp add: update_conv')
  have "map_of (set_error id key name c1) ''errors'' = Some (PDict (AList.update key (PStr name) (errors_of c1)))"
    using set_error_id(1) [OF assms(2)] by (simp add: update_conv')
  then show ?thesis
    using assms(3-7) e m by (cases "k = ''errors''"; cases "k \<in> set ks") (auto simp: settled_def dhas_def update_conv')
qed

lemma settles_field:
  assumes "fld \<in> set SINGLE_FIELDS" "\<And>w w' v. action w = (w', Inr v) \<Longrightarrow> v \<noteq> PNone"
  shows "settles [fld] (attempt_field id fld action)"
proof (rule settlesI)
  fix c w assume ok: "card_ok c"
  have f: "fld \<in> set FIELDS" "fld \<noteq> ''errors''" "failure_key fld = fld"
    using assms(1) SINGLE_in_FIELDS by (auto simp: SINGLE_FIELDS_def failure_key_def)
  have ok': "card_ok (AList.update fld v c)" for v using card_ok_update [OF ok f(1,2)] .
  obtain w' r where a: "action w = (w', r)" by fastforce
  show "\<exists>w' c'. attempt_field id fld action c w = (w', Inr c') \<and> card_ok c' \<and> set (map fst c') = set (map fst c) \<union> set [fld]
      \<and> (\<forall>k. settled c k \<or> k \<in> set [fld] \<longrightarrow> settled c' k)"
  proof (cases r)
    case (Inr v)
    then have "v \<noteq> PNone" using a assms(2) by blast
    then show ?thesis using a Inr ok' settled_update [OF f(2)]
      by (simp add: attempt_field_def attempt_def bnd_def dom_update)
  next
    case (Inl e)
    define name where "name = (case e of NvmlErr code _ \<Rightarrow> nvml_name code | _ \<Rightarrow> ''PY_'' @ exc_type e)"
    let ?c1 = "AList.update fld PNone c"
    have "settled (set_error id fld name ?c1) k" if "settled c k \<or> k \<in> set [fld]" for k
      using that f by (intro settled_failed [OF ok ok', where ks = "[fld]"]) (auto simp: update_conv')
    moreover have "card_ok (set_error id fld name ?c1)" using set_error_under_names(2) [OF names_ok_id ok'] assms(1) by blast
    moreover have "''errors'' \<in> set (map fst c)" using card_ok_errors [OF ok] .
    ultimately show ?thesis using a Inl set_error_id(1) [OF ok', of fld name PNone]
      by (auto simp: attempt_field_def attempt_def bnd_def name_def dom_update)
  qed
qed

text \<open>Actions that raise nothing but failures of NVML.\<close>

definition nvml_only :: "('s, 'a) act \<Rightarrow> bool" where
  "nvml_only m \<longleftrightarrow> (\<forall>w w' e. m w = (w', Inl e) \<longrightarrow> (\<exists>code name. e = NvmlErr code name))"

lemma nvml_only_check: "nvml_only (bnd (nvml_check lib name args) (\<lambda>a. ret (f a)))"
  unfolding nvml_only_def nvml_check_def
  by (auto simp: bnd_def split: prod.splits sum.splits if_splits) (metis nvml_call_runs prod.inject sum.distinct(1))

lemma settles_pair:
  assumes "fld1 \<in> set FIELDS" "fld1 \<noteq> ''errors''" "fld2 \<in> set FIELDS" "fld2 \<noteq> ''errors''" "key \<in> set ERROR_WORDS"
    and "failure_key fld1 = key" "failure_key fld2 = key" "nvml_only action"
    and "\<And>w w' v. action w = (w', Inr v) \<Longrightarrow> fst v \<noteq> PNone \<and> snd v \<noteq> PNone"
  shows "settles [fld1, fld2] (attempt_pair id fld1 fld2 key noted action)"
proof (rule settlesI)
  fix c w assume ok: "card_ok c"
  have ok': "card_ok (AList.update fld2 b (AList.update fld1 a c))" for a b
    using card_ok_update [OF card_ok_update [OF ok assms(1,2)] assms(3,4)] .
  obtain w' r where a: "action w = (w', r)" by fastforce
  show "\<exists>w' c'. attempt_pair id fld1 fld2 key noted action c w = (w', Inr c') \<and> card_ok c' \<and> set (map fst c') = set (map fst c) \<union> set [fld1, fld2]
      \<and> (\<forall>k. settled c k \<or> k \<in> set [fld1, fld2] \<longrightarrow> settled c' k)"
  proof (cases r)
    case (Inr v)
    then have v: "fst v \<noteq> PNone" "snd v \<noteq> PNone" using a assms(9) by blast+
    have "settled (AList.update fld2 (snd v) (AList.update fld1 (fst v) c)) k" if "settled c k \<or> k = fld1 \<or> k = fld2" for k
      using that settled_update [OF assms(4) _ v(2)] settled_update [OF assms(2) _ v(1)] by blast
    then show ?thesis using a Inr ok' by (cases v) (auto simp: attempt_pair_def attempt_def bnd_def dom_update)
  next
    case (Inl e)
    then obtain code name where e: "e = NvmlErr code name" using a assms(8) unfolding nvml_only_def by blast
    let ?c1 = "AList.update fld2 PNone (AList.update fld1 PNone c)"
    let ?c2 = "set_error id key (nvml_name code) ?c1"
    have "settled ?c2 k" if "settled c k \<or> k \<in> set [fld1, fld2]" for k
      using that assms by (intro settled_failed [OF ok ok', where ks = "[fld1, fld2]"]) (auto simp: update_conv')
    moreover have "card_ok ?c2" using set_error_under_names(2) [OF names_ok_id ok'] assms(5) by blast
    moreover have "''errors'' \<in> set (map fst c)" using card_ok_errors [OF ok] .
    then have "set (map fst ?c2) = set (map fst c) \<union> set [fld1, fld2]" using set_error_id(1) [OF ok'] by (auto simp: dom_update)
    moreover obtain w2 where "(if noted then nvml_note code else ret ()) w' = (w2, Inr ())" using nvml_note_runs [of code w'] by (cases noted) auto
    ultimately show ?thesis using a Inl e by (auto simp: attempt_pair_def attempt_def bnd_def)
  qed
qed

lemmas nvml_actions = nvml_string_def capability_def watts_field_def nvml_uint_def uint_field_def mig_mode_def virtualization_mode_def
  ecc_mode_def memory_info_def constraints_def utilization_rates_def watts_def

lemma check_value: "bnd (nvml_check lib name args) (\<lambda>a. ret (f a)) w = (w', Inr v) \<Longrightarrow> \<exists>a. v = f a"
  by (auto simp: bnd_Inr)

lemma pci_bus_value: "pci_bus lib handle names w = (w', Inr v) \<Longrightarrow> v \<noteq> PNone"
  by (induction names) (auto simp: bnd_Inr split: if_splits)

lemma card_steps_settle:
  "list_all2 settles
     [[''name''], [''uuid''], [''serial''], [''memory_total_mb'', ''memory_used_mb''], [''compute_capability''], [''power_limit_w''],
      [''power_default_w''], [''power_min_w'', ''power_max_w''], [''clock_graphics_mhz''], [''clock_sm_mhz''], [''clock_memory_mhz''],
      [''pcie_width''], [''pcie_generation''], [''utilization'', ''memory_utilization''], [''mig_mode''], [''virtualization''],
      [''host_vgpu_mode''], [''ecc_mode''], [''pci_bus_id''], [''minor'']] (card_steps id lib h)"
proof -
  have w: "''memory_total_mb'' \<in> set FIELDS" "''memory_used_mb'' \<in> set FIELDS" "''power_min_w'' \<in> set FIELDS" "''power_max_w'' \<in> set FIELDS"
    "''utilization'' \<in> set FIELDS" "''memory_utilization'' \<in> set FIELDS" "''memory'' \<in> set ERROR_WORDS" "''power_constraints'' \<in> set ERROR_WORDS"
    "''utilization'' \<in> set ERROR_WORDS" by (simp_all add: FIELDS_def ERROR_WORDS_def)
  have v: "bnd (nvml_check lib name args) (\<lambda>a. ret (f a)) w = (w', Inr v) \<Longrightarrow> (\<And>a. P (f a)) \<Longrightarrow> P v" for name args f w w' v P
    using check_value by fastforce
  show ?thesis unfolding card_steps_def list_all2_Cons list_all2_Nil
    by (intro conjI settles_field settles_pair w TrueI)
      (auto simp: SINGLE_FIELDS_def failure_key_def nvml_actions bnd_assoc nvml_only_check bnd_Inr dest: pci_bus_value)
qed

lemma try_versions_runs: "\<exists>w' ps e. try_versions lib sy handle kind last' versions w = (w', Inr (ps, e))"
proof (induction versions arbitrary: last' w)
  case Nil
  show ?case
  proof (cases last')
    case (Some code)
    obtain w' where "nvml_note code w = (w', Inr ())" using nvml_note_runs by blast
    then show ?thesis using Some by (simp add: bnd_def)
  qed simp
next
  case (Cons v versions)
  obtain name wide where v: "v = (name, wide)" by fastforce
  obtain w1 a where a: "nvml_call lib name [handle, 0] w = (w1, Inr a)" using nvml_call_runs by blast
  obtain w2 b where b: "nvml_call lib name [handle, out_int a 0 * 2 + 5] w1 = (w2, Inr b)" using nvml_call_runs by blast
  show ?case using Cons.IH a b v by (auto simp: bnd_def Let_def)
qed

lemma settled_list_error:
  assumes "card_ok c" "key \<in> set ERROR_WORDS" "settled c k"
  shows "settled (note_list_error id key error c) k"
  using settled_failed [OF assms(1,1), of "[]" key k error] assms(3) by (simp add: note_list_error_def)

lemma keys_list_error: "card_ok c \<Longrightarrow> set (map fst (note_list_error id key error c)) = set (map fst c)"
  using card_ok_errors [of c] set_error_id(1) [of c] by (auto simp: note_list_error_def dom_update)

lemma settles_processes: "settles [''processes''] (process_step id lib sy handle)"
proof (rule settlesI)
  fix c :: pydict and w :: "'a Nvml_scheme" assume ok: "card_ok c"
  obtain w1 ps e1 where 1: "running_processes lib sy handle ''nvmlDeviceGetComputeRunningProcesses'' ''compute'' w = (w1, Inr (ps, e1))"
    unfolding running_processes_def using try_versions_runs by blast
  obtain w2 qs e2 where 2: "running_processes lib sy handle ''nvmlDeviceGetGraphicsRunningProcesses'' ''graphics'' w1 = (w2, Inr (qs, e2))"
    unfolding running_processes_def using try_versions_runs by blast
  have words: "''compute_processes'' \<in> set ERROR_WORDS" "''graphics_processes'' \<in> set ERROR_WORDS" "''processes'' \<in> set FIELDS" "''processes'' \<noteq> ''errors''"
    by (simp_all add: ERROR_WORDS_def FIELDS_def)
  let ?c1 = "note_list_error id ''compute_processes'' e1 c"
  let ?c2 = "note_list_error id ''graphics_processes'' e2 ?c1"
  have ok1: "card_ok ?c1" using renames_list_error(2) [OF names_ok_id ok words(1)] .
  have ok2: "card_ok ?c2" using renames_list_error(2) [OF names_ok_id ok1 words(2)] .
  have "settled (AList.update ''processes'' (PList xs) ?c2) k" if "settled c k \<or> k \<in> set [''processes'']" for k xs
    using that settled_list_error [OF ok words(1)] settled_list_error [OF ok1 words(2)] by (intro settled_update [OF words(4)]) auto
  then show "\<exists>w' c'. process_step id lib sy handle c w = (w', Inr c') \<and> card_ok c' \<and> set (map fst c') = set (map fst c) \<union> set [''processes'']
      \<and> (\<forall>k. settled c k \<or> k \<in> set [''processes''] \<longrightarrow> settled c' k)"
    using 1 2 card_ok_update [OF ok2 words(3,4)] keys_list_error [OF ok] keys_list_error [OF ok1]
    by (simp add: process_step_def bnd_def dom_update)
qed

lemma scrape_gpu_cases:
  obtains (lost) w' code where "scrape_gpu id lib sy index w =
      (w', Inr [(''index'', PInt index), (''errors'', PDict [(''handle'', PStr (nvml_name code))])])" "code \<noteq> 0"
  | (read) w' c where "scrape_gpu id lib sy index w = (w', Inr c)" "card_ok c" "set (map fst c) = set FIELDS" "\<forall>k \<in> set FIELDS. settled c k"
proof -
  obtain w1 a where c: "nvml_call lib ''nvmlDeviceGetHandleByIndex_v2'' [index] w = (w1, Inr a)" using nvml_call_runs by blast
  have b: "dict_comp [(id ''index'', PInt index), (id ''errors'', PDict [])] = blank_card index"
    using blank_card_names [OF names_ok_id, of index] by (simp add: under_names_id)
  show thesis
  proof (cases "na_code a = 0")
    case True
    let ?kss = "[[''name''], [''uuid''], [''serial''], [''memory_total_mb'', ''memory_used_mb''], [''compute_capability''], [''power_limit_w''],
      [''power_default_w''], [''power_min_w'', ''power_max_w''], [''clock_graphics_mhz''], [''clock_sm_mhz''], [''clock_memory_mhz''],
      [''pcie_width''], [''pcie_generation''], [''utilization'', ''memory_utilization''], [''mig_mode''], [''virtualization''],
      [''host_vgpu_mode''], [''ecc_mode''], [''pci_bus_id''], [''minor'']] @ [[''processes'']]"
    have "settles (concat ?kss) (chain (card_steps id lib (out_int a 0) @ [process_step id lib sy (out_int a 0)]))"
      using card_steps_settle settles_processes by (intro settles_chain list_all2_appendI) simp_all
    then obtain w2 c2 where c2: "chain (card_steps id lib (out_int a 0) @ [process_step id lib sy (out_int a 0)]) (blank_card index) w1 = (w2, Inr c2)"
      "card_ok c2" "set (map fst c2) = set (map fst (blank_card index)) \<union> set (concat ?kss)"
      "\<forall>k. settled (blank_card index) k \<or> k \<in> set (concat ?kss) \<longrightarrow> settled c2 k"
      using blank_card_ok unfolding settles_def by blast
    have fields: "set FIELDS = set (map fst (blank_card index)) \<union> set (concat ?kss)"
      by (simp add: FIELDS_def blank_card_def) (simp add: insert_commute)
    have "settled (blank_card index) k" if "k \<in> set (map fst (blank_card index))" for k
      using that by (auto simp: settled_def blank_card_def)
    with c2 fields have "\<forall>k \<in> set FIELDS. settled c2 k" by blast
    moreover have "scrape_gpu id lib sy index w = (w2, Inr c2)"
      using True c c2(1) unfolding scrape_gpu_def Let_def b by (simp add: bnd_def [of "nvml_call _ _ _"] chain_snoc)
    ultimately show thesis using read c2(2,3) fields by simp
  next
    case False
    obtain w2 where "nvml_note (na_code a) w1 = (w2, Inr ())" using nvml_note_runs by blast
    then have "scrape_gpu id lib sy index w = (w2, Inr (set_error id ''handle'' (nvml_name (na_code a)) (blank_card index)))"
      using False c unfolding scrape_gpu_def Let_def b by (simp add: bnd_def)
    then show thesis using lost False by (simp add: set_error_def blank_card_def dget_def)
  qed
qed

section \<open>The memory of a card is a number\<close>

definition memory_typed :: "pydict \<Rightarrow> bool" where
  "memory_typed c \<longleftrightarrow> (\<forall>v. map_of c ''memory_total_mb'' = Some v \<longrightarrow> v = PNone \<or> (\<exists>n. v = PInt n))"

definition keeps_memory :: "(pydict \<Rightarrow> ('s, pydict) act) \<Rightarrow> bool" where
  "keeps_memory f \<longleftrightarrow> (\<forall>c w w' c'. memory_typed c \<and> f c w = (w', Inr c') \<longrightarrow> memory_typed c')"

lemma memory_typed_update:
  "memory_typed c \<Longrightarrow> k \<noteq> ''memory_total_mb'' \<or> v = PNone \<or> (\<exists>n. v = PInt n) \<Longrightarrow> memory_typed (AList.update k v c)"
  by (auto simp: memory_typed_def update_conv')

lemma memory_typed_error: "memory_typed c \<Longrightarrow> memory_typed (set_error id key name c)"
  unfolding set_error_def by (intro memory_typed_update) simp_all

lemma keeps_memory_field: "fld \<noteq> ''memory_total_mb'' \<Longrightarrow> keeps_memory (attempt_field id fld action)"
  by (auto simp: keeps_memory_def attempt_field_def attempt_def bnd_def memory_typed_update memory_typed_error split: prod.splits sum.splits)

lemma keeps_memory_pair:
  assumes "fld2 \<noteq> ''memory_total_mb''" "\<And>w w' a b. action w = (w', Inr (a, b)) \<Longrightarrow> fld1 \<noteq> ''memory_total_mb'' \<or> (\<exists>n. a = PInt n)"
  shows "keeps_memory (attempt_pair id fld1 fld2 key noted action)"
  unfolding keeps_memory_def
proof (intro allI impI, elim conjE)
  fix c w w' c' assume c: "memory_typed c" and r: "attempt_pair id fld1 fld2 key noted action c w = (w', Inr c')"
  obtain w1 a where a: "action w = (w1, a)" by fastforce
  show "memory_typed c'"
  proof (cases a)
    case (Inr x)
    obtain u v where x: "x = (u, v)" by fastforce
    have "fld1 \<noteq> ''memory_total_mb'' \<or> (\<exists>n. u = PInt n)" using assms(2) a Inr x by blast
    then show ?thesis using c r a Inr x assms(1) by (auto simp: attempt_pair_def attempt_def bnd_def intro!: memory_typed_update)
  next
    case (Inl e)
    then show ?thesis using c r a
      by (auto simp: attempt_pair_def attempt_def bnd_def intro!: memory_typed_error memory_typed_update split: exc.splits prod.splits sum.splits)
  qed
qed

lemma keeps_memory_chain: "list_all keeps_memory fs \<Longrightarrow> keeps_memory (chain fs)"
proof (induction fs)
  case (Cons f fs)
  then have f: "keeps_memory f" and fs: "keeps_memory (chain fs)" by simp_all
  show ?case unfolding keeps_memory_def
  proof (intro allI impI, elim conjE)
    fix c w w' c' assume c: "memory_typed c" and r: "chain (f # fs) c w = (w', Inr c')"
    then obtain w1 c1 where "f c w = (w1, Inr c1)" "chain fs c1 w1 = (w', Inr c')" by (auto simp: bnd_def split: prod.splits sum.splits)
    with c f fs show "memory_typed c'" unfolding keeps_memory_def by blast
  qed
qed (simp add: keeps_memory_def)

lemma keeps_memory_processes: "keeps_memory (process_step id lib sy h)"
  by (auto simp: keeps_memory_def process_step_def note_list_error_def bnd_def intro!: memory_typed_update memory_typed_error split: prod.splits sum.splits)

lemma keeps_memory_pairs:
  "keeps_memory (attempt_pair id ''memory_total_mb'' ''memory_used_mb'' ''memory'' True (memory_info lib h))"
  "fld1 \<noteq> ''memory_total_mb'' \<Longrightarrow> fld2 \<noteq> ''memory_total_mb'' \<Longrightarrow> keeps_memory (attempt_pair id fld1 fld2 key noted action)"
  by (rule keeps_memory_pair, auto simp: memory_info_def bnd_def split: prod.splits sum.splits)+

lemma keeps_memory_steps: "list_all keeps_memory (card_steps id lib h)"
  unfolding card_steps_def by (simp add: keeps_memory_field keeps_memory_pairs)

lemma scrape_gpu_memory:
  assumes "scrape_gpu id lib sy index w = (w', Inr c)"
  shows "memory_typed c"
proof -
  obtain w1 a where a: "nvml_call lib ''nvmlDeviceGetHandleByIndex_v2'' [index] w = (w1, Inr a)" using nvml_call_runs by blast
  have b: "dict_comp [(id ''index'', PInt index), (id ''errors'', PDict [])] = blank_card index"
    using blank_card_names [OF names_ok_id, of index] by (simp add: under_names_id)
  have t: "memory_typed (blank_card index)" by (simp add: memory_typed_def blank_card_def)
  show ?thesis
  proof (cases "na_code a = 0")
    case True
    have "keeps_memory (chain (card_steps id lib (out_int a 0) @ [process_step id lib sy (out_int a 0)]))"
      by (intro keeps_memory_chain) (simp add: keeps_memory_steps keeps_memory_processes)
    moreover have "chain (card_steps id lib (out_int a 0) @ [process_step id lib sy (out_int a 0)]) (blank_card index) w1 = (w', Inr c)"
      using True a assms unfolding scrape_gpu_def Let_def b by (simp add: bnd_def [of "nvml_call _ _ _"] chain_snoc)
    ultimately show ?thesis using t unfolding keeps_memory_def by blast
  next
    case False
    obtain w2 where "nvml_note (na_code a) w1 = (w2, Inr ())" using nvml_note_runs by blast
    then have "c = set_error id ''handle'' (nvml_name (na_code a)) (blank_card index)"
      using False a assms unfolding scrape_gpu_def Let_def b by (simp add: bnd_def)
    then show ?thesis using t by (simp add: memory_typed_error)
  qed
qed

section \<open>The whole reading\<close>

lemma each_names:
  assumes "names_ok F" "each (scrape_gpu id lib sy) xs w = (w', r)"
  shows "each (scrape_gpu F lib sy) xs w = (w', map_sum id (map (under_names F)) r)"
  using assms(2)
proof (induction xs arbitrary: w w' r)
  case (Cons x xs)
  obtain w1 r1 where g: "scrape_gpu id lib sy x w = (w1, r1)" by fastforce
  note f = scrape_gpu_names [OF assms(1) g]
  show ?case
  proof (cases r1)
    case (Inl e)
    then have "w' = w1" "r = Inl e" using Cons.prems g by (simp_all add: bnd_def del: id_apply)
    then show ?thesis using f Inl by (simp add: bnd_def)
  next
    case (Inr c)
    obtain w2 r2 where t: "each (scrape_gpu id lib sy) xs w1 = (w2, r2)" by fastforce
    have e: "each (scrape_gpu id lib sy) (x # xs) w = (w2, case r2 of Inl e \<Rightarrow> Inl e | Inr cs \<Rightarrow> Inr (c # cs))"
      using g Inr t by (cases r2) (simp_all add: bnd_def del: id_apply)
    have "w' = w2" "r = (case r2 of Inl e \<Rightarrow> Inl e | Inr cs \<Rightarrow> Inr (c # cs))" using trans [OF Cons.prems [symmetric] e] by simp_all
    then show ?thesis using f Inr Cons.IH [OF t] by (cases r2) (simp_all add: bnd_def)
  qed
qed simp

abbreviation good_card :: "pydict \<Rightarrow> bool" where
  "good_card c \<equiv> card_ok c \<and> memory_typed c"

lemma each_cards: "\<exists>w' cs. each (scrape_gpu id lib sy) xs w = (w', Inr cs) \<and> list_all good_card cs \<and> length cs = length xs"
proof (induction xs arbitrary: w)
  case (Cons x xs)
  have "\<exists>w1 c. scrape_gpu id lib sy x w = (w1, Inr c) \<and> card_ok c"
  proof (cases rule: scrape_gpu_cases [of lib sy x w])
    case (lost w' code)
    then show ?thesis by (auto simp: card_ok_def FIELDS_def ERROR_WORDS_def)
  qed blast
  then obtain w1 c where c: "scrape_gpu id lib sy x w = (w1, Inr c)" "card_ok c" by blast
  note m = scrape_gpu_memory [OF c(1)]
  obtain w2 cs where "each (scrape_gpu id lib sy) xs w1 = (w2, Inr cs)" "list_all good_card cs" "length cs = length xs" using Cons by blast
  with c m show ?case by (simp add: bnd_def del: id_apply)
qed simp

lemma nvml_cards_names:
  assumes "names_ok F"
  obtains w' n cs where "nvml_cards id lib sy w = (w', Inr (n, cs))" "list_all good_card cs"
    "nvml_cards F lib sy w = (w', Inr (n, map (under_names F) cs))"
proof -
  obtain w1 a where a: "nvml_call lib ''nvmlDeviceGetCount_v2'' [] w = (w1, Inr a)" using nvml_call_runs by blast
  show thesis
  proof (cases "na_code a = 0")
    case True
    obtain w2 cs where cs: "each (scrape_gpu id lib sy) (map int [0..<nat (out_int a 0)]) w1 = (w2, Inr cs)" "list_all good_card cs"
      using each_cards by blast
    show thesis using that cs(2) a True cs(1) each_names [OF assms cs(1)] by (simp add: nvml_cards_def bnd_def)
  next
    case False
    obtain w2 where "nvml_note (na_code a) w1 = (w2, Inr ())" using nvml_note_runs by blast
    then show thesis using that [of w2 0 "[]"] a False by (simp add: nvml_cards_def bnd_def)
  qed
qed

lemma nvml_driver_runs: "\<exists>w' v. nvml_driver lib w = (w', Inr v)"
proof -
  obtain w1 a where a: "nvml_call lib ''nvmlSystemGetDriverVersion'' [96] w = (w1, Inr a)" using nvml_call_runs by blast
  obtain w2 b where b: "nvml_call lib ''nvmlSystemGetNVMLVersion'' [96] w1 = (w2, Inr b)" using nvml_call_runs by blast
  obtain w3 c where c: "nvml_call lib ''nvmlSystemGetCudaDriverVersion_v2'' [] w2 = (w3, Inr c)" using nvml_call_runs by blast
  obtain w4 d where "nvml_call lib ''nvmlSystemGetCudaDriverVersion'' [] w3 = (w4, Inr d)" using nvml_call_runs by blast
  with a b c show ?thesis by (simp add: nvml_driver_def bnd_def)
qed

lemma error_string_runs: "\<exists>w' text. error_string lib code w = (w', Inr text)"
proof -
  obtain w1 a where "nvml_call lib ''nvmlErrorString'' [code] w = (w1, Inr a)" using nvml_call_runs by blast
  then show ?thesis by (simp add: error_string_def bnd_def)
qed

lemma nvml_session_names:
  assumes "names_ok F"
  obtains w' e v n cs x where "nvml_session id lib sy path hashes w = (w', Inr (nvml_result path hashes e v n cs x))" "list_all good_card cs"
    "nvml_session F lib sy path hashes w = (w', Inr (nvml_result path hashes e v n (map (under_names F) cs) x))"
proof -
  obtain w1 a where a: "nvml_call lib ''nvmlInit_v2'' [] w = (w1, Inr a)" using nvml_call_runs by blast
  show thesis
  proof (cases "na_code a = 0")
    case True
    obtain w2 v where v: "nvml_driver lib w1 = (w2, Inr v)" using nvml_driver_runs by blast
    obtain w3 n cs where cs: "nvml_cards id lib sy w2 = (w3, Inr (n, cs))" "list_all good_card cs" "nvml_cards F lib sy w2 = (w3, Inr (n, map (under_names F) cs))"
      using nvml_cards_names [OF assms] by blast
    show thesis using that [OF _ cs(2)] True a v cs(1,3) by (simp add: nvml_session_def shutting_down_def bnd_def)
  next
    case False
    obtain w2 where w2: "nvml_note (na_code a) w1 = (w2, Inr ())" using nvml_note_runs by blast
    obtain w3 text' where w3: "error_string lib (na_code a) w2 = (w3, Inr text')" using error_string_runs by blast
    show thesis using False a w2 w3 by (intro that [of w3 "nv_errors w3" "([], [], [])" 0 "[]" "[(''init_error'', PStr text')]"]) (simp_all add: nvml_session_def bnd_def)
  qed
qed

text \<open>The reading of NVML never fails, and under other names it is the same reading.\<close>

lemma scrape_nvml_names:
  assumes "names_ok F"
  obtains w' path h e v n cs x where "scrape_nvml id load sy w = (w', Inr (nvml_result path h e v n cs x))" "list_all good_card cs"
    "scrape_nvml F load sy w = (w', Inr (nvml_result path h e v n (map (under_names F) cs) x))"
proof (cases "\<exists>lib raw. find_nvml sy \<noteq> [] \<and> sy_file sy (find_nvml sy) = Inr raw \<and> load (find_nvml sy) = Inr lib")
  case True
  then obtain lib where lib: "scrape_nvml F' load sy w = nvml_session F' lib sy (find_nvml sy) (file_hashes sy (find_nvml sy)) w" for F'
    by (auto simp: scrape_nvml_def Let_def)
  obtain w' e v n cs x where s: "scrape_nvml id load sy w = (w', Inr (nvml_result (find_nvml sy) (file_hashes sy (find_nvml sy)) e v n cs x))"
    "list_all good_card cs"
    "scrape_nvml F load sy w = (w', Inr (nvml_result (find_nvml sy) (file_hashes sy (find_nvml sy)) e v n (map (under_names F) cs) x))"
    unfolding lib by (rule nvml_session_names [OF assms])
  show thesis by (rule that [OF s])
next
  case False
  have "\<exists>path x. \<forall>F'. scrape_nvml F' load sy w = (w, Inr (nvml_result path [] [''LIBRARY_NOT_FOUND''] ([], [], []) 0 [] x))"
  proof (cases "find_nvml sy = []")
    case True
    then show ?thesis by (auto simp: scrape_nvml_def Let_def)
  next
    case path: False
    then show ?thesis using False by (cases "sy_file sy (find_nvml sy)"; cases "load (find_nvml sy)") (simp_all add: scrape_nvml_def Let_def, blast+)
  qed
  then obtain path x where "scrape_nvml F' load sy w = (w, Inr (nvml_result path [] [''LIBRARY_NOT_FOUND''] ([], [], []) 0 [] x))" for F' by blast
  then show thesis by (intro that [of w path "[]" "[''LIBRARY_NOT_FOUND'']" "([], [], [])" 0 "[]" x]) simp_all
qed

section \<open>Properties\<close>

lemma renamed_ok: "names_ok (Cons (CHR ''_''))"
proof -
  have "inj_on (error_name (Cons (CHR ''_''))) (set (SINGLE_FIELDS @ ERROR_WORDS))"
    by (simp only: set_append SINGLE_FIELDS_def ERROR_WORDS_def) (auto simp: inj_on_def error_name_def SINGLE_FIELDS_def)
  then show ?thesis by (simp add: names_ok_def)
qed

text \<open>A library that hands out a handle and knows nothing else.\<close>

definition dumb_library :: NvLibrary where
  "dumb_library = \<lparr>nl_has = \<lambda>name. name = ''nvmlDeviceGetHandleByIndex_v2'', nl_answer = \<lambda>_ _. nvml_missing\<lparr>na_code := 0\<rparr>\<rparr>"

text \<open>C9: A card never stops the scrape and never goes missing from it: whatever NVML answers, \<^verbatim>\<open>scrape_gpu\<close> returns a card
  under the names it was sent, and either the handle of the card could not be had and the card says so with the code, or it has every
  field once and each field has a value or is filed among the errors of the card.\<close>

theorem scraped_card_complete:
  assumes "names_ok F"
  shows "\<exists>w' c. scrape_gpu F lib sy index w = (w', Inr (under_names F c)) \<and> distinct (map fst c) \<and>
    ((\<exists>code. code \<noteq> 0 \<and> c = [(''index'', PInt index), (''errors'', PDict [(''handle'', PStr (nvml_name code))])])
     \<or> (set (map fst c) = set FIELDS \<and> (\<forall>k \<in> set FIELDS. settled c k)))"
proof (cases rule: scrape_gpu_cases [of lib sy index w])
  case (lost w' code)
  then show ?thesis using scrape_gpu_names [OF assms lost(1)] by auto
next
  case (read w' c)
  then show ?thesis using scrape_gpu_names [OF assms read(1)] by (auto simp: card_ok_def)
qed

theorem scraped_card_complete_witness:
  "\<exists>w' c. scrape_gpu (Cons (CHR ''_'')) dumb_library bare_system 0 \<lparr>nv_calls = [], nv_errors = []\<rparr> = (w', Inr (under_names (Cons (CHR ''_'')) c))
    \<and> distinct (map fst c) \<and>
    ((\<exists>code. code \<noteq> 0 \<and> c = [(''index'', PInt 0), (''errors'', PDict [(''handle'', PStr (nvml_name code))])])
     \<or> (set (map fst c) = set FIELDS \<and> (\<forall>k \<in> set FIELDS. settled c k)))"
  by (rule scraped_card_complete [OF renamed_ok])

end
