(* ===== verification/Storage_Keys.thy ===== *)
theory Storage_Keys
  imports Protocol_Attestation Py_Shell
begin

text \<open>
  The secret behind the passphrases of encrypted volumes (\<^verbatim>\<open>validator/storage/keys.py\<close>). The key derivation is the
  cryptography library's, an argument from the length, the salt, the info and the secret to bytes; bytes are
  natural numbers below 256. The two base 64 functions are those of the standard library.
\<close>

section \<open>Base 64\<close>

definition b64_val :: "char \<Rightarrow> nat option" where
  "b64_val c = (let n = of_char c :: nat in
     if 65 \<le> n \<and> n \<le> 90 then Some (n - 65)
     else if 97 \<le> n \<and> n \<le> 122 then Some (n - 71)
     else if 48 \<le> n \<and> n \<le> 57 then Some (n + 4)
     else if n = 43 then Some 62 else if n = 47 then Some 63 else None)"

text \<open>\<^verbatim>\<open>base64.b64decode(text, validate=True)\<close>: groups of four, the last of which may end in one or two signs of padding.\<close>

fun b64decode :: "string \<Rightarrow> nat list option" where
  "b64decode [] = Some []"
| "b64decode (a # b # c # d # rest) =
     (case (b64_val a, b64_val b) of
        (Some x, Some y) \<Rightarrow>
          if rest = [] \<and> c = CHR ''='' \<and> d = CHR ''='' then Some [4 * x + y div 16]
          else (case b64_val c of
                  None \<Rightarrow> None
                | Some z \<Rightarrow>
                    if rest = [] \<and> d = CHR ''='' then Some [4 * x + y div 16, 16 * (y mod 16) + z div 4]
                    else (case (b64_val d, b64decode rest) of
                            (Some u, Some bs) \<Rightarrow> Some ([4 * x + y div 16, 16 * (y mod 16) + z div 4, 64 * (z mod 4) + u] @ bs)
                          | _ \<Rightarrow> None))
      | _ \<Rightarrow> None)"
| "b64decode _ = None"

definition urlsafe_char :: "nat \<Rightarrow> char" where
  "urlsafe_char n =
     (if n < 26 then char_of (65 + n) else if n < 52 then char_of (71 + n) else if n < 62 then char_of (n - 4)
      else if n = 62 then CHR ''-'' else CHR ''_'')"

fun urlsafe_b64encode :: "nat list \<Rightarrow> string" where
  "urlsafe_b64encode [] = []"
| "urlsafe_b64encode [a] = [urlsafe_char (a div 4), urlsafe_char (16 * (a mod 4)), CHR ''='', CHR ''='']"
| "urlsafe_b64encode [a, b] =
     [urlsafe_char (a div 4), urlsafe_char (16 * (a mod 4) + b div 16), urlsafe_char (4 * (b mod 16)), CHR ''='']"
| "urlsafe_b64encode (a # b # c # rest) =
     [urlsafe_char (a div 4), urlsafe_char (16 * (a mod 4) + b div 16), urlsafe_char (4 * (b mod 16) + c div 64), urlsafe_char (c mod 64)]
     @ urlsafe_b64encode rest"

section \<open>Secrets and passphrases\<close>

definition INFO :: string where "INFO = ''microtensor-compute volume passphrase v1''"
definition MIN_SECRET_BYTES :: nat where "MIN_SECRET_BYTES = 32"
definition PASSPHRASE_BYTES :: nat where "PASSPHRASE_BYTES = 32"

text \<open>\<^verbatim>\<open>binascii.unhexlify\<close>: pairs of hexadecimal digits and nothing else.\<close>

fun unhexlify :: "string \<Rightarrow> nat list option" where
  "unhexlify [] = Some []"
| "unhexlify [c] = None"
| "unhexlify (c # d # cs) =
     (case (hex_val c, hex_val d, unhexlify cs) of (Some a, Some b, Some bs) \<Rightarrow> Some ((16 * a + b) # bs) | _ \<Rightarrow> None)"

definition utf8 :: "string \<Rightarrow> nat list" where
  "utf8 s = map of_char s"

definition secret_bytes :: "string \<Rightarrow> nat list" where
  "secret_bytes raw =
     (case unhexlify raw of Some bs \<Rightarrow> bs
      | None \<Rightarrow> (case b64decode raw of Some bs \<Rightarrow> bs | None \<Rightarrow> utf8 raw))"

definition decode_secret :: "string \<Rightarrow> nat list pyres" where
  "decode_secret text =
     (let raw = strip text in
      if raw = [] then Inl ValueError
      else if length (secret_bytes raw) < MIN_SECRET_BYTES then Inl ValueError
      else Inr (secret_bytes raw))"

type_synonym hkdf = "nat \<Rightarrow> nat list \<Rightarrow> string \<Rightarrow> nat list \<Rightarrow> nat list"

definition volume_passphrase :: "hkdf \<Rightarrow> nat list \<Rightarrow> string \<Rightarrow> string pyres" where
  "volume_passphrase hkdf secret volume_id =
     (if volume_id = [] then Inl ValueError
      else Inr (rstrip_char (CHR ''='') (urlsafe_b64encode (hkdf PASSPHRASE_BYTES (utf8 volume_id) INFO secret))))"

section \<open>Facts\<close>

definition urlsafe :: "char \<Rightarrow> bool" where
  "urlsafe c = (is_alnum c \<or> c \<in> set ''-_'')"

lemma urlsafe_char_ok: "n < 64 \<Longrightarrow> urlsafe (urlsafe_char n)"
  by (auto simp: urlsafe_def is_alnum_def urlsafe_char_def Let_def)

lemma of_urlsafe_char:
  "n < 64 \<Longrightarrow> of_char (urlsafe_char n) = (if n < 26 then 65 + n else if n < 52 then 71 + n else if n < 62 then n - 4 else if n = 62 then 45 else 95)"
  by (simp add: urlsafe_char_def)

lemma urlsafe_char_inj:
  assumes "m < 64" "n < 64" "urlsafe_char m = urlsafe_char n"
  shows "m = n"
proof -
  have "(of_char (urlsafe_char m) :: nat) = of_char (urlsafe_char n)" using assms(3) by (rule arg_cong)
  then show ?thesis using assms(1,2) unfolding of_urlsafe_char [OF assms(1)] of_urlsafe_char [OF assms(2)] by (auto split: if_splits)
qed

text \<open>The four digits of a group.\<close>

definition digits4 :: "nat \<Rightarrow> nat \<Rightarrow> nat \<Rightarrow> nat list" where
  "digits4 a b c = [a div 4, 16 * (a mod 4) + b div 16, 4 * (b mod 16) + c div 64, c mod 64]"

lemma digits4_less: "a < 256 \<Longrightarrow> b < 256 \<Longrightarrow> c < 256 \<Longrightarrow> \<forall>d \<in> set (digits4 a b c). d < 64"
  by (auto simp: digits4_def)

lemma two_digits:
  assumes "k * x + y = k * x' + y'" "y < k" "y' < (k :: nat)"
  shows "x = x' \<and> y = y'"
proof -
  have "(k * x + y) div k = x" "(k * x' + y') div k = x'" using assms(2,3) by simp_all
  then show ?thesis using assms(1) by simp
qed

lemma digits4_inj:
  assumes "digits4 a b c = digits4 a' b' c'" "a < 256" "b < 256" "c < 256" "a' < 256" "b' < 256" "c' < 256"
  shows "a = a' \<and> b = b' \<and> c = c'"
proof -
  have e: "a div 4 = a' div 4" "16 * (a mod 4) + b div 16 = 16 * (a' mod 4) + b' div 16"
    "4 * (b mod 16) + c div 64 = 4 * (b' mod 16) + c' div 64" "c mod 64 = c' mod 64" using assms(1) by (simp_all add: digits4_def)
  have "b div 16 < 16" "b' div 16 < 16" "c div 64 < 4" "c' div 64 < 4" using assms by auto
  then have "a mod 4 = a' mod 4 \<and> b div 16 = b' div 16" "b mod 16 = b' mod 16 \<and> c div 64 = c' div 64"
    using two_digits [OF e(2)] two_digits [OF e(3)] by blast+
  with e(1,4) show ?thesis by (metis mult_div_mod_eq)
qed

lemma encode_digits: "urlsafe_b64encode (a # b # c # rest) = map urlsafe_char (digits4 a b c) @ urlsafe_b64encode rest"
  by (simp add: digits4_def)

lemma encode_last: "urlsafe_b64encode [a, b] = map urlsafe_char (butlast (digits4 a b 0)) @ ''=''"
  by (simp add: digits4_def)

lemma encode_shape:
  assumes "length bs mod 3 = 2" "\<forall>b \<in> set bs. b < 256"
  shows "\<exists>s. urlsafe_b64encode bs = s @ ''='' \<and> list_all urlsafe s \<and> length s = 4 * (length bs div 3) + 3"
  using assms
proof (induction bs rule: urlsafe_b64encode.induct)
  case (3 a b)
  have "\<forall>d \<in> set (digits4 a b 0). d < 64" using 3 by (intro digits4_less) auto
  then have "list_all urlsafe (map urlsafe_char (butlast (digits4 a b 0)))" by (auto simp: list_all_iff urlsafe_char_ok dest: in_set_butlastD)
  moreover have "length (map urlsafe_char (butlast (digits4 a b 0))) = 3" by (simp add: digits4_def)
  ultimately show ?case unfolding encode_last by auto
next
  case (4 a b c rest)
  have "\<forall>d \<in> set (digits4 a b c). d < 64" using 4(3) by (intro digits4_less) auto
  then have u: "list_all urlsafe (map urlsafe_char (digits4 a b c))" by (auto simp: list_all_iff urlsafe_char_ok)
  have len: "length (digits4 a b c) = 4" by (simp add: digits4_def)
  have "length (a # b # c # rest) = length rest + 3" by simp
  then have "length rest mod 3 = 2" "length (a # b # c # rest) div 3 = length rest div 3 + 1" using 4(2) by presburger+
  moreover obtain s where "urlsafe_b64encode rest = s @ ''=''" "list_all urlsafe s" "length s = 4 * (length rest div 3) + 3"
    using 4(1) calculation(1) 4(3) by auto
  ultimately show ?case unfolding encode_digits using u len
    by (intro exI [of _ "map urlsafe_char (digits4 a b c) @ s"]) simp
qed simp_all

lemma map_urlsafe_inj:
  assumes "map urlsafe_char xs = map urlsafe_char ys" "\<forall>x \<in> set xs. x < 64" "\<forall>y \<in> set ys. y < 64"
  shows "xs = ys"
proof -
  have "inj_on urlsafe_char {..<64}" by (auto intro!: inj_onI urlsafe_char_inj)
  then show ?thesis using assms by (intro map_inj_on [OF assms(1)]) (auto elim!: inj_on_subset)
qed

lemma encode_inj:
  "length bs = length cs \<Longrightarrow> length bs mod 3 = 2 \<Longrightarrow> \<forall>b \<in> set bs. b < 256 \<Longrightarrow> \<forall>b \<in> set cs. b < 256 \<Longrightarrow>
   urlsafe_b64encode bs = urlsafe_b64encode cs \<Longrightarrow> bs = cs"
proof (induction bs arbitrary: cs rule: urlsafe_b64encode.induct)
  case (3 a b)
  then obtain a' b' where cs: "cs = [a', b']" by (auto simp: Suc_length_conv length_Suc_conv)
  have l: "\<forall>d \<in> set (digits4 a b 0). d < 64" "\<forall>d \<in> set (digits4 a' b' 0). d < 64" using 3(3,4) digits4_less [of a b 0] digits4_less [of a' b' 0] unfolding cs by simp_all
  have "butlast (digits4 a b 0) = butlast (digits4 a' b' 0)"
    using 3(5) l unfolding cs encode_last by (intro map_urlsafe_inj) (auto dest: in_set_butlastD)
  then have "digits4 a b 0 = digits4 a' b' 0" by (simp add: digits4_def)
  from digits4_inj [OF this] show ?case using 3(3,4) cs by simp
next
  case (4 a b c rest)
  have "length cs = Suc (Suc (Suc (length rest)))" using 4(2) by simp
  then obtain a' b' c' rest' where cs: "cs = a' # b' # c' # rest'" by (auto simp: length_Suc_conv)
  have l: "\<forall>d \<in> set (digits4 a b c). d < 64" "\<forall>d \<in> set (digits4 a' b' c'). d < 64" using 4(4,5) digits4_less [of a b c] digits4_less [of a' b' c'] unfolding cs by simp_all
  have len: "length (map urlsafe_char (digits4 a b c)) = length (map urlsafe_char (digits4 a' b' c')) \<or> length (urlsafe_b64encode rest) = length (urlsafe_b64encode rest')"
    by (simp add: digits4_def)
  have "map urlsafe_char (digits4 a b c) = map urlsafe_char (digits4 a' b' c')" "urlsafe_b64encode rest = urlsafe_b64encode rest'"
    using 4(6) unfolding cs encode_digits by (simp_all only: append_eq_append_conv [OF len])
  then have d: "digits4 a b c = digits4 a' b' c'" and r: "urlsafe_b64encode rest = urlsafe_b64encode rest'" using map_urlsafe_inj l by blast+
  have "length (a # b # c # rest) = length rest + 3" by simp
  then have "length rest mod 3 = 2" using 4(3) by presburger
  then have "rest = rest'" using 4(1) [OF _ _ _ _ r] 4(2-5) cs by simp
  moreover have "a = a' \<and> b = b' \<and> c = c'" using digits4_inj [OF d] 4(4,5) cs by simp
  ultimately show ?case using cs by simp
qed auto

section \<open>Properties\<close>

text \<open>C30: A volume's passphrase is a plain word that carries the whole derived key. For every volume with a name it has 43
  characters of the URL-safe alphabet, so that a shell reads it as itself, quoted or not; and two volumes
  whose derived keys differ have different passphrases.\<close>

theorem passphrase_word:
  assumes "volume_id \<noteq> []" "\<And>salt. length (hkdf PASSPHRASE_BYTES salt INFO secret) = PASSPHRASE_BYTES \<and> (\<forall>b \<in> set (hkdf PASSPHRASE_BYTES salt INFO secret). b < 256)"
  shows "\<exists>p. volume_passphrase hkdf secret volume_id = Inr p \<and> length p = 43 \<and> list_all urlsafe p \<and> shlex_quote p = p
    \<and> (\<forall>other. volume_passphrase hkdf secret other = Inr p \<longrightarrow>
         hkdf PASSPHRASE_BYTES (utf8 other) INFO secret = hkdf PASSPHRASE_BYTES (utf8 volume_id) INFO secret)"
proof -
  have shape: "\<exists>p. urlsafe_b64encode (hkdf PASSPHRASE_BYTES salt INFO secret) = p @ ''='' \<and> list_all urlsafe p \<and> length p = 43
      \<and> rstrip_char (CHR ''='') (urlsafe_b64encode (hkdf PASSPHRASE_BYTES salt INFO secret)) = p" for salt
  proof -
    obtain p where p: "urlsafe_b64encode (hkdf PASSPHRASE_BYTES salt INFO secret) = p @ ''=''" "list_all urlsafe p" "length p = 43"
      using encode_shape [of "hkdf PASSPHRASE_BYTES salt INFO secret"] assms(2) [of salt] by (auto simp: PASSPHRASE_BYTES_def)
    then have "p \<noteq> []" by auto
    then have "last p \<in> set p" by simp
    then have "urlsafe (last p)" using p(2) unfolding list_all_iff by blast
    then have "last p \<noteq> CHR ''=''" by (auto simp: urlsafe_def is_alnum_def)
    then have "rstrip_char (CHR ''='') (p @ ''='') = p" using \<open>p \<noteq> []\<close>
      by (cases p rule: rev_cases) (simp_all add: rstrip_char_def)
    with p show ?thesis by auto
  qed
  obtain p where p: "urlsafe_b64encode (hkdf PASSPHRASE_BYTES (utf8 volume_id) INFO secret) = p @ ''=''" "list_all urlsafe p" "length p = 43"
    "rstrip_char (CHR ''='') (urlsafe_b64encode (hkdf PASSPHRASE_BYTES (utf8 volume_id) INFO secret)) = p" using shape by blast
  have q: "shlex_quote p = p"
  proof -
    have "list_all shell_safe p" using p(2) by (auto simp: list_all_iff urlsafe_def shell_safe_def)
    then show ?thesis using p(3) by (auto simp: shlex_quote_def)
  qed
  have "hkdf PASSPHRASE_BYTES (utf8 other) INFO secret = hkdf PASSPHRASE_BYTES (utf8 volume_id) INFO secret"
    if "volume_passphrase hkdf secret other = Inr p" for other
  proof -
    obtain p' where p': "urlsafe_b64encode (hkdf PASSPHRASE_BYTES (utf8 other) INFO secret) = p' @ ''=''"
      "rstrip_char (CHR ''='') (urlsafe_b64encode (hkdf PASSPHRASE_BYTES (utf8 other) INFO secret)) = p'" using shape by blast
    then have "p' = p" using that by (auto simp: volume_passphrase_def split: if_splits)
    then show ?thesis using p'(1) p(1) assms(2) by (intro encode_inj) (simp_all add: PASSPHRASE_BYTES_def)
  qed
  then show ?thesis using p q assms(1) by (auto simp: volume_passphrase_def)
qed

theorem passphrase_word_witness:
  "\<exists>p. volume_passphrase (\<lambda>n salt info secret. replicate n 255) [1] ''v'' = Inr p \<and> length p = 43"
  using passphrase_word [of "''v''" "\<lambda>n salt info secret. replicate n 255" "[1]"] by (auto simp: PASSPHRASE_BYTES_def)

text \<open>A long enough master secret can still be refused. A secret given as 32 characters of the base 64 alphabet that are
  not hexadecimal digits throughout is taken for base 64 and shrinks to 24 bytes, so it is rejected as shorter
  than 32 bytes; with a character outside the alphabet the same length is accepted.\<close>

theorem plain_secret_refused:
  assumes "length raw = 32" "strip raw = raw" "unhexlify raw = None" "b64decode raw \<noteq> None"
  shows "decode_secret raw = Inl ValueError \<and> length (utf8 raw) = MIN_SECRET_BYTES"
proof -
  have "4 * length bs \<le> 3 * length s" if "b64decode s = Some bs" for s bs
    using that by (induction s arbitrary: bs rule: b64decode.induct) (auto split: option.splits if_splits)
  then show ?thesis using assms by (fastforce simp: decode_secret_def secret_bytes_def MIN_SECRET_BYTES_def utf8_def)
qed

theorem plain_secret_refused_witness: "decode_secret ''correct/horse/battery/staple/123'' = Inl ValueError"
proof -
  have "length (''correct/horse/battery/staple/123'') = 32" "strip ''correct/horse/battery/staple/123'' = ''correct/horse/battery/staple/123''"
    "unhexlify ''correct/horse/battery/staple/123'' = None" "b64decode ''correct/horse/battery/staple/123'' \<noteq> None" by code_simp+
  then show ?thesis using plain_secret_refused by blast
qed

end
