(* ===== verification/Rig_Sbox.thy ===== *)
theory Rig_Sbox
  imports Storage_Keys
begin

text \<open>
  The AES S-box as the scrape payload builds it (\<^verbatim>\<open>validator/verify/payloads/scrape.py\<close>, \<^verbatim>\<open>build_sbox\<close>), from powers
  and logarithms in the field of 256 elements, and that the inverse table FIPS 197 prints inverts it.
\<close>

unbundle bit_operations_syntax

section \<open>The S-box\<close>

definition xtime :: "nat \<Rightarrow> nat" where
  "xtime value = (let v = push_bit 1 value in if v AND 0x100 \<noteq> 0 then (v XOR 0x11B) AND 0xFF else v)"

text \<open>The first loop of \<^verbatim>\<open>build_sbox\<close>: powers of the generator and their logarithms.\<close>

fun log_loop :: "nat \<Rightarrow> nat \<Rightarrow> nat \<Rightarrow> nat list \<times> nat list \<Rightarrow> nat list \<times> nat list" where
  "log_loop 0 i x tables = tables"
| "log_loop (Suc k) i x (powers, logs) = log_loop k (Suc i) (x XOR xtime x) (powers[i := x], logs[x := i])"

definition rotl1 :: "nat \<Rightarrow> nat" where
  "rotl1 v = (push_bit 1 v OR drop_bit 7 v) AND 0xFF"

fun affine_loop :: "nat \<Rightarrow> nat \<Rightarrow> nat \<Rightarrow> nat" where
  "affine_loop 0 s v = s"
| "affine_loop (Suc k) s v = (let v' = rotl1 v in affine_loop k (s XOR v') v')"

definition build_sbox :: "nat list" where
  "build_sbox =
     (case log_loop 255 0 1 (replicate 256 0, replicate 256 0) of (powers, logs) \<Rightarrow>
        map (\<lambda>value. let inverse = if value \<noteq> 0 then powers ! ((255 - logs ! value) mod 255) else 0
                     in affine_loop 4 inverse inverse XOR 0x63) [0..<256])"

definition SBOX :: "nat list" where "SBOX = build_sbox"

text \<open>The inverse S-box, as FIPS 197 prints it.\<close>

definition FIPS_INV_SBOX :: "nat list list" where
  "FIPS_INV_SBOX = [
     [0x52, 0x09, 0x6A, 0xD5, 0x30, 0x36, 0xA5, 0x38, 0xBF, 0x40, 0xA3, 0x9E, 0x81, 0xF3, 0xD7, 0xFB],
     [0x7C, 0xE3, 0x39, 0x82, 0x9B, 0x2F, 0xFF, 0x87, 0x34, 0x8E, 0x43, 0x44, 0xC4, 0xDE, 0xE9, 0xCB],
     [0x54, 0x7B, 0x94, 0x32, 0xA6, 0xC2, 0x23, 0x3D, 0xEE, 0x4C, 0x95, 0x0B, 0x42, 0xFA, 0xC3, 0x4E],
     [0x08, 0x2E, 0xA1, 0x66, 0x28, 0xD9, 0x24, 0xB2, 0x76, 0x5B, 0xA2, 0x49, 0x6D, 0x8B, 0xD1, 0x25],
     [0x72, 0xF8, 0xF6, 0x64, 0x86, 0x68, 0x98, 0x16, 0xD4, 0xA4, 0x5C, 0xCC, 0x5D, 0x65, 0xB6, 0x92],
     [0x6C, 0x70, 0x48, 0x50, 0xFD, 0xED, 0xB9, 0xDA, 0x5E, 0x15, 0x46, 0x57, 0xA7, 0x8D, 0x9D, 0x84],
     [0x90, 0xD8, 0xAB, 0x00, 0x8C, 0xBC, 0xD3, 0x0A, 0xF7, 0xE4, 0x58, 0x05, 0xB8, 0xB3, 0x45, 0x06],
     [0xD0, 0x2C, 0x1E, 0x8F, 0xCA, 0x3F, 0x0F, 0x02, 0xC1, 0xAF, 0xBD, 0x03, 0x01, 0x13, 0x8A, 0x6B],
     [0x3A, 0x91, 0x11, 0x41, 0x4F, 0x67, 0xDC, 0xEA, 0x97, 0xF2, 0xCF, 0xCE, 0xF0, 0xB4, 0xE6, 0x73],
     [0x96, 0xAC, 0x74, 0x22, 0xE7, 0xAD, 0x35, 0x85, 0xE2, 0xF9, 0x37, 0xE8, 0x1C, 0x75, 0xDF, 0x6E],
     [0x47, 0xF1, 0x1A, 0x71, 0x1D, 0x29, 0xC5, 0x89, 0x6F, 0xB7, 0x62, 0x0E, 0xAA, 0x18, 0xBE, 0x1B],
     [0xFC, 0x56, 0x3E, 0x4B, 0xC6, 0xD2, 0x79, 0x20, 0x9A, 0xDB, 0xC0, 0xFE, 0x78, 0xCD, 0x5A, 0xF4],
     [0x1F, 0xDD, 0xA8, 0x33, 0x88, 0x07, 0xC7, 0x31, 0xB1, 0x12, 0x10, 0x59, 0x27, 0x80, 0xEC, 0x5F],
     [0x60, 0x51, 0x7F, 0xA9, 0x19, 0xB5, 0x4A, 0x0D, 0x2D, 0xE5, 0x7A, 0x9F, 0x93, 0xC9, 0x9C, 0xEF],
     [0xA0, 0xE0, 0x3B, 0x4D, 0xAE, 0x2A, 0xF5, 0xB0, 0xC8, 0xEB, 0xBB, 0x3C, 0x83, 0x53, 0x99, 0x61],
     [0x17, 0x2B, 0x04, 0x7E, 0xBA, 0x77, 0xD6, 0x26, 0xE1, 0x69, 0x14, 0x63, 0x55, 0x21, 0x0C, 0x7D]]"

definition inv_sbox :: "nat \<Rightarrow> nat" where
  "inv_sbox b = FIPS_INV_SBOX ! (b div 16) ! (b mod 16)"

section \<open>Bytes\<close>

lemma xor_left_self: "a XOR (a XOR b) = (b :: nat)"
  by (simp flip: xor.assoc)

lemmas xor_ac = xor.assoc xor.commute xor.left_commute xor_self_eq xor_left_self

lemma byte_take_bit: "(v < 256) \<longleftrightarrow> take_bit 8 v = (v :: nat)"
  by (simp add: take_bit_nat_eq_self_iff)

lemma xor_less [simp]: "a < 256 \<Longrightarrow> b < 256 \<Longrightarrow> a XOR b < (256 :: nat)"
  by (simp add: byte_take_bit take_bit_xor)

text \<open>Doubling as a linear map.\<close>

definition dbl :: "nat \<Rightarrow> nat" where
  "dbl v = take_bit 8 (push_bit 1 v) XOR (if bit v 7 then 0x1B else 0)"

lemma dbl_less [simp]: "dbl v < 256"
proof -
  have "take_bit 8 (push_bit 1 v) < (256 :: nat)" using take_bit_nat_less_exp [of 8 "push_bit 1 v"] by simp
  then show ?thesis by (simp add: dbl_def)
qed

lemma dbl_xor: "dbl (a XOR b) = dbl a XOR dbl b"
  by (simp add: dbl_def take_bit_xor push_bit_xor bit_xor_iff xor_ac)

lemma xtime_dbl: 
  assumes "v < 256"
  shows "xtime v = dbl v"
proof -
  let ?w = "push_bit 1 v :: nat"
  have b: "(?w AND 0x100 \<noteq> 0) = bit v 7"
  proof -
    have "bit ?w 8 = bit v 7" by (subst bit_push_bit_iff) simp
    moreover have "(?w AND 2 ^ 8 = 0) = (\<not> bit ?w 8)" by (rule and_exp_eq_0_iff_not_bit)
    ultimately show ?thesis by simp
  qed
  have m: "(x AND 0xFF) = take_bit 8 x" for x :: nat
    by (simp add: take_bit_eq_mask mask_eq_exp_minus_1)
  have "\<not> bit v 7 \<Longrightarrow> take_bit 8 ?w = ?w"
  proof -
    assume "\<not> bit v 7"
    moreover have "take_bit (Suc 7) v = v" using assms by (simp add: byte_take_bit)
    ultimately have "take_bit 7 v = v" unfolding take_bit_Suc_from_most [of 7 v] by simp
    then have "v < 128" by (simp add: take_bit_nat_eq_self_iff)
    then show ?thesis by (simp add: take_bit_nat_eq_self_iff push_bit_eq_mult)
  qed
  then show ?thesis using b by (simp add: xtime_def Let_def m dbl_def take_bit_xor)
qed

lemma xtime_less [simp]: "v < 256 \<Longrightarrow> xtime v < 256"
  by (simp add: xtime_dbl)

section \<open>The S-box is the one of the standard\<close>

definition gen_step :: "nat \<Rightarrow> nat" where "gen_step x = x XOR xtime x"

lemma log_loop_Suc: "log_loop (Suc k) i x (ps, ls) = log_loop k (Suc i) (gen_step x) (ps[i := x], ls[x := i])"
  by (simp add: gen_step_def)

lemma funpow_next: "(f ^^ m) (f x) = (f ^^ Suc m) x"
  by (simp add: funpow_swap1)

text \<open>The powers of the generator.\<close>

definition POWERS :: "nat list" where
  "POWERS = [
     0x01, 0x03, 0x05, 0x0F, 0x11, 0x33, 0x55, 0xFF, 0x1A, 0x2E, 0x72, 0x96, 0xA1, 0xF8, 0x13, 0x35,
     0x5F, 0xE1, 0x38, 0x48, 0xD8, 0x73, 0x95, 0xA4, 0xF7, 0x02, 0x06, 0x0A, 0x1E, 0x22, 0x66, 0xAA,
     0xE5, 0x34, 0x5C, 0xE4, 0x37, 0x59, 0xEB, 0x26, 0x6A, 0xBE, 0xD9, 0x70, 0x90, 0xAB, 0xE6, 0x31,
     0x53, 0xF5, 0x04, 0x0C, 0x14, 0x3C, 0x44, 0xCC, 0x4F, 0xD1, 0x68, 0xB8, 0xD3, 0x6E, 0xB2, 0xCD,
     0x4C, 0xD4, 0x67, 0xA9, 0xE0, 0x3B, 0x4D, 0xD7, 0x62, 0xA6, 0xF1, 0x08, 0x18, 0x28, 0x78, 0x88,
     0x83, 0x9E, 0xB9, 0xD0, 0x6B, 0xBD, 0xDC, 0x7F, 0x81, 0x98, 0xB3, 0xCE, 0x49, 0xDB, 0x76, 0x9A,
     0xB5, 0xC4, 0x57, 0xF9, 0x10, 0x30, 0x50, 0xF0, 0x0B, 0x1D, 0x27, 0x69, 0xBB, 0xD6, 0x61, 0xA3,
     0xFE, 0x19, 0x2B, 0x7D, 0x87, 0x92, 0xAD, 0xEC, 0x2F, 0x71, 0x93, 0xAE, 0xE9, 0x20, 0x60, 0xA0,
     0xFB, 0x16, 0x3A, 0x4E, 0xD2, 0x6D, 0xB7, 0xC2, 0x5D, 0xE7, 0x32, 0x56, 0xFA, 0x15, 0x3F, 0x41,
     0xC3, 0x5E, 0xE2, 0x3D, 0x47, 0xC9, 0x40, 0xC0, 0x5B, 0xED, 0x2C, 0x74, 0x9C, 0xBF, 0xDA, 0x75,
     0x9F, 0xBA, 0xD5, 0x64, 0xAC, 0xEF, 0x2A, 0x7E, 0x82, 0x9D, 0xBC, 0xDF, 0x7A, 0x8E, 0x89, 0x80,
     0x9B, 0xB6, 0xC1, 0x58, 0xE8, 0x23, 0x65, 0xAF, 0xEA, 0x25, 0x6F, 0xB1, 0xC8, 0x43, 0xC5, 0x54,
     0xFC, 0x1F, 0x21, 0x63, 0xA5, 0xF4, 0x07, 0x09, 0x1B, 0x2D, 0x77, 0x99, 0xB0, 0xCB, 0x46, 0xCA,
     0x45, 0xCF, 0x4A, 0xDE, 0x79, 0x8B, 0x86, 0x91, 0xA8, 0xE3, 0x3E, 0x42, 0xC6, 0x51, 0xF3, 0x0E,
     0x12, 0x36, 0x5A, 0xEE, 0x29, 0x7B, 0x8D, 0x8C, 0x8F, 0x8A, 0x85, 0x94, 0xA7, 0xF2, 0x0D, 0x17,
     0x39, 0x4B, 0xDD, 0x7C, 0x84, 0x97, 0xA2, 0xFD, 0x1C, 0x24, 0x6C, 0xB4, 0xC7, 0x52, 0xF6]"

lemma POWERS_step: "map gen_step (butlast POWERS) = tl POWERS"
  by (simp add: POWERS_def gen_step_def xtime_def flip: numeral_2_eq_2)

lemma POWERS_distinct: "distinct POWERS"
  by (simp add: POWERS_def)

lemma POWERS_range: "list_all (\<lambda>x. 0 < x \<and> x < 256) POWERS" "length POWERS = 255" "hd POWERS = 1"
  by (simp_all add: POWERS_def)

definition affine :: "nat \<Rightarrow> nat" where "affine v = affine_loop 4 v v XOR 0x63"

lemma affine_eq:
  "affine v = v XOR rotl1 v XOR rotl1 (rotl1 v) XOR rotl1 (rotl1 (rotl1 v)) XOR rotl1 (rotl1 (rotl1 (rotl1 v))) XOR 0x63"
  by (simp add: affine_def eval_nat_numeral(2,3) Let_def xor.assoc)

lemma INV_affine: "list_all2 (\<lambda>x y. affine x < 256 \<and> inv_sbox (affine x) = y) (hd POWERS # rev (tl POWERS)) POWERS"
  by (simp add: POWERS_def affine_eq rotl1_def inv_sbox_def FIPS_INV_SBOX_def flip: numeral_2_eq_2)

text \<open>What the loop leaves in the two tables.\<close>

lemma log_loop_powers:
  assumes "log_loop k i x (ps, ls) = (ps', ls')" "i + k \<le> length ps" "j < k"
  shows "ps' ! (i + j) = (gen_step ^^ j) x"
proof -
  have keep: "log_loop k i x (ps, ls) = (ps', ls') \<Longrightarrow> m < i \<Longrightarrow> ps' ! m = ps ! m" for k i x ps ls ps' ls' m
    by (induction k i x "(ps, ls)" arbitrary: ps ls rule: log_loop.induct) auto
  show ?thesis using assms
  proof (induction k arbitrary: i x ps ls j)
    case (Suc k)
    note run = Suc.prems(1) [unfolded log_loop_Suc]
    show ?case
    proof (cases j)
      case 0
      then show ?thesis using Suc.prems keep [OF run, of i] by simp
    next
      case (Suc j')
      then show ?thesis using Suc.IH [OF run, of j'] Suc.prems unfolding funpow_next by simp
    qed
  qed simp
qed

lemma log_loop_keeps: "log_loop k i x (ps, ls) = (ps', ls') \<Longrightarrow> (\<And>j. j < k \<Longrightarrow> (gen_step ^^ j) x \<noteq> v) \<Longrightarrow> ls' ! v = ls ! v"
proof (induction k arbitrary: i x ps ls)
  case (Suc k)
  have "(gen_step ^^ j) (gen_step x) \<noteq> v" if "j < k" for j using Suc.prems(2) [of "Suc j"] that unfolding funpow_next by simp
  moreover have "x \<noteq> v" using Suc.prems(2) [of 0] by simp
  ultimately show ?case using Suc.IH [OF Suc.prems(1) [unfolded log_loop_Suc]] by simp
qed simp

lemma log_loop_logs:
  assumes "log_loop k i x (ps, ls) = (ps', ls')" "inj_on (\<lambda>j. (gen_step ^^ j) x) {..<k}" "\<And>j. j < k \<Longrightarrow> (gen_step ^^ j) x < length ls" "j < k"
  shows "ls' ! ((gen_step ^^ j) x) = i + j"
  using assms
proof (induction k arbitrary: i x ps ls j)
  case (Suc k)
  note run = Suc.prems(1) [unfolded log_loop_Suc]
  have inj: "inj_on (\<lambda>m. (gen_step ^^ m) (gen_step x)) {..<k}"
  proof (rule inj_onI)
    fix a b assume "a \<in> {..<k}" "b \<in> {..<k}" "(gen_step ^^ a) (gen_step x) = (gen_step ^^ b) (gen_step x)"
    then show "a = b" using inj_onD [OF Suc.prems(2), of "Suc a" "Suc b"] unfolding funpow_next by simp
  qed
  show ?case
  proof (cases j)
    case 0
    have "(gen_step ^^ m) (gen_step x) \<noteq> x" if "m < k" for m
      using inj_onD [OF Suc.prems(2), of "Suc m" 0] that unfolding funpow_next by auto
    then show ?thesis using 0 log_loop_keeps [OF run] Suc.prems(3) [of 0] by simp
  next
    case (Suc j')
    have "(gen_step ^^ m) (gen_step x) < length (ls[x := i])" if "m < k" for m
      using Suc.prems(3) [of "Suc m"] that unfolding funpow_next by simp
    then show ?thesis using Suc.IH [OF run inj, of j'] Suc.prems(4) Suc unfolding funpow_next by simp
  qed
qed simp

lemma POWERS_nth: "j < 255 \<Longrightarrow> (gen_step ^^ j) (Suc 0) = POWERS ! j"
proof (induction j)
  case 0
  have "POWERS \<noteq> []" using POWERS_range(2) by auto
  then show ?case using POWERS_range(3) by (simp add: hd_conv_nth)
next
  case (Suc j)
  have "map gen_step (butlast POWERS) ! j = tl POWERS ! j" using POWERS_step by simp
  then show ?case using Suc POWERS_range(2) by (simp add: nth_tl nth_butlast)
qed

lemma POWERS_onto:
  assumes "0 < v" "v < 256"
  obtains j where "j < 255" "POWERS ! j = v"
proof -
  have "set POWERS \<subseteq> {1..<256}" using POWERS_range(1) by (auto simp: list_all_iff Suc_le_eq)
  moreover have "card (set POWERS) = card {1..<256 :: nat}" using POWERS_distinct POWERS_range(2) by (simp add: distinct_card)
  ultimately have "set POWERS = {1..<256}" by (simp add: card_subset_eq)
  with assms have "v \<in> set POWERS" by simp
  then show thesis using that POWERS_range(2) by (metis in_set_conv_nth)
qed

lemma SBOX_power:
  assumes "j < 255"
  shows "SBOX ! (POWERS ! j) = affine (POWERS ! ((255 - j) mod 255))"
proof -
  obtain ps ls where t: "log_loop 255 0 1 (replicate 256 0, replicate 256 0) = (ps, ls)" by fastforce
  have v: "0 < POWERS ! j" "POWERS ! j < 256" using assms POWERS_range by (auto simp: list_all_length)
  have "inj_on (\<lambda>j. (gen_step ^^ j) (Suc 0)) {..<255}"
    using POWERS_distinct POWERS_range(2) by (intro inj_onI) (auto simp: POWERS_nth nth_eq_iff_index_eq)
  moreover have "(gen_step ^^ j) (Suc 0) < 256" if "j < 255" for j
    using POWERS_range that by (auto simp: POWERS_nth list_all_length)
  ultimately have "ls ! (POWERS ! j) = j" using log_loop_logs [OF t _ _ assms] assms by (simp add: POWERS_nth)
  moreover have "ps ! m = POWERS ! m" if "m < 255" for m using log_loop_powers [OF t, of m] that by (simp add: POWERS_nth)
  ultimately show ?thesis using v unfolding SBOX_def build_sbox_def t affine_def by (simp add: Let_def)
qed

lemma SBOX_zero: "SBOX ! 0 = 0x63"
proof -
  obtain ps ls where t: "log_loop 255 0 1 (replicate 256 0, replicate 256 0) = (ps, ls)" by fastforce
  have "SBOX ! 0 = affine 0" unfolding SBOX_def build_sbox_def t affine_def by simp
  then show ?thesis by (simp add: affine_eq rotl1_def)
qed

lemma rev_powers_nth: "j < 255 \<Longrightarrow> (hd POWERS # rev (tl POWERS)) ! j = POWERS ! ((255 - j) mod 255)"
proof (cases j)
  case 0
  have "POWERS \<noteq> []" using POWERS_range(2) by auto
  with 0 show ?thesis by (simp add: hd_conv_nth)
next
  case (Suc i)
  assume "j < 255"
  moreover from this have "Suc (253 - i) = 254 - i" using Suc by simp
  ultimately show ?thesis using Suc POWERS_range(2) by (simp add: rev_nth nth_tl)
qed

text \<open>The table of the standard inverts the computed one.\<close>

lemma inv_sbox_SBOX:
  assumes "v < 256"
  shows "SBOX ! v < 256" "inv_sbox (SBOX ! v) = v"
proof -
  have "SBOX ! v < 256 \<and> inv_sbox (SBOX ! v) = v"
  proof (cases "v = 0")
    case True
    then show ?thesis by (simp add: SBOX_zero inv_sbox_def FIPS_INV_SBOX_def)
  next
    case False
    then obtain j where j: "j < 255" "POWERS ! j = v" using assms POWERS_onto by blast
    then show ?thesis
      using list_all2_nthD [OF INV_affine, of j] POWERS_range(2) rev_powers_nth [OF j(1)] SBOX_power [OF j(1)] by simp
  qed
  then show "SBOX ! v < 256" "inv_sbox (SBOX ! v) = v" by simp_all
qed

end
