(* ===== verification/Rig_Cipher.thy ===== *)
theory Rig_Cipher
  imports Rig_Sbox
begin

text \<open>
  The cipher the scrape payload brings along (\<^verbatim>\<open>validator/verify/payloads/scrape.py\<close>), since a rig need not have a
  cryptography library: the key schedule, the encryption of a block, and
  the Fernet token. The random bytes, the clock and HMAC-SHA256 are arguments. The reference is the inverse
  cipher of FIPS 197 with its printed table, and the reading of a token by the Fernet specification, which is
  what the validator's library does.
\<close>

unbundle bit_operations_syntax

section \<open>The cipher\<close>

definition RCON :: "nat list" where "RCON = [0x01, 0x02, 0x04, 0x08, 0x10, 0x20, 0x40, 0x80, 0x1B, 0x36]"
definition SHIFT :: "nat list" where "SHIFT = map (\<lambda>i. ((i div 4 + i mod 4) mod 4) * 4 + i mod 4) [0..<16]"

definition xor_bytes :: "nat list \<Rightarrow> nat list \<Rightarrow> nat list" where
  "xor_bytes a b = map2 (XOR) a b"

definition next_word :: "nat list list \<Rightarrow> nat \<Rightarrow> nat list" where
  "next_word words i =
     (let temp = words ! (i - 1);
          temp = (if i mod 4 = 0
                  then (let t = map (\<lambda>b. SBOX ! b) (tl temp @ [hd temp]) in (hd t XOR RCON ! (i div 4 - 1)) # tl t)
                  else temp)
      in xor_bytes (words ! (i - 4)) temp)"

definition expand_key :: "nat list \<Rightarrow> nat list list" where
  "expand_key key =
     (let words = foldl (\<lambda>ws i. ws @ [next_word ws i]) (map (\<lambda>i. take 4 (drop i key)) [0, 4, 8, 12]) [4..<44]
      in map (\<lambda>r. concat (take 4 (drop (4 * r) words))) [0..<11])"

fun mix_column :: "nat list \<Rightarrow> nat list" where
  "mix_column [a0, a1, a2, a3] =
     [xtime a0 XOR xtime a1 XOR a1 XOR a2 XOR a3,
      a0 XOR xtime a1 XOR xtime a2 XOR a2 XOR a3,
      a0 XOR a1 XOR xtime a2 XOR xtime a3 XOR a3,
      xtime a0 XOR a0 XOR a1 XOR a2 XOR xtime a3]"
| "mix_column _ = []"

definition columns :: "(nat list \<Rightarrow> nat list) \<Rightarrow> nat list \<Rightarrow> nat list" where
  "columns f state = concat (map (\<lambda>c. f (take 4 (drop c state))) [0, 4, 8, 12])"

definition cipher_round :: "nat list list \<Rightarrow> nat \<Rightarrow> nat list \<Rightarrow> nat list" where
  "cipher_round round_keys rnd state =
     (let state = map (\<lambda>b. SBOX ! b) state;
          state = map (\<lambda>i. state ! (SHIFT ! i)) [0..<16];
          state = (if rnd \<noteq> 10 then columns mix_column state else state)
      in xor_bytes state (round_keys ! rnd))"

definition encrypt_block :: "nat list list \<Rightarrow> nat list \<Rightarrow> nat list" where
  "encrypt_block round_keys block = fold (cipher_round round_keys) [1..<11] (xor_bytes block (round_keys ! 0))"

fun cbc_loop :: "nat list list \<Rightarrow> nat list \<Rightarrow> nat list \<Rightarrow> nat list" where
  "cbc_loop round_keys previous padded =
     (if padded = [] then []
      else (let block = encrypt_block round_keys (xor_bytes (take 16 padded) previous)
            in block @ cbc_loop round_keys block (drop 16 padded)))"

declare cbc_loop.simps [simp del]

section \<open>Tokens\<close>

definition pad16 :: "nat list \<Rightarrow> nat list" where
  "pad16 data = (let pad = 16 - length data mod 16 in data @ replicate pad pad)"

definition pack_u64 :: "nat \<Rightarrow> nat list" where
  "pack_u64 t = map (\<lambda>k. (t div 256 ^ k) mod 256) [7, 6, 5, 4, 3, 2, 1, 0]"

text \<open>\<^verbatim>\<open>base64.urlsafe_b64decode\<close> of a text of the alphabet.\<close>

definition standard_char :: "char \<Rightarrow> char" where
  "standard_char c = (if c = CHR ''-'' then CHR ''+'' else if c = CHR ''_'' then CHR ''/'' else c)"

definition urlsafe_b64decode :: "string \<Rightarrow> nat list option" where
  "urlsafe_b64decode text = b64decode (map standard_char text)"

type_synonym hmac = "nat list \<Rightarrow> nat list \<Rightarrow> nat list"

definition fernet_body :: "nat list \<Rightarrow> nat list \<Rightarrow> nat \<Rightarrow> nat list \<Rightarrow> nat list" where
  "fernet_body encryption_key iv now data =
     [0x80] @ pack_u64 now @ iv @ cbc_loop (expand_key encryption_key) iv (pad16 data)"

definition fernet_encrypt :: "hmac \<Rightarrow> nat list \<Rightarrow> nat \<Rightarrow> string \<Rightarrow> nat list \<Rightarrow> string option" where
  "fernet_encrypt hmac iv now key_text data =
     map_option (\<lambda>key.
       let basic = fernet_body (take 16 (drop 16 key)) iv now data
       in urlsafe_b64encode (basic @ hmac (take 16 key) basic)) (urlsafe_b64decode key_text)"

definition derive_key :: "(string \<Rightarrow> nat list) \<Rightarrow> string list \<Rightarrow> string" where
  "derive_key sha256 names = urlsafe_b64encode (sha256 (concat names))"

section \<open>The reference: FIPS 197 and the Fernet specification\<close>

text \<open>The key expansion of FIPS 197, word by word.\<close>

fun fips_word :: "nat list \<Rightarrow> nat \<Rightarrow> nat list" where
  "fips_word key i =
     (if i < 4 then take 4 (drop (4 * i) key)
      else xor_bytes (fips_word key (i - 4))
             (let t = fips_word key (i - 1) in
              if i mod 4 = 0 then xor_bytes (map (\<lambda>b. SBOX ! b) (rotate1 t)) [RCON ! (i div 4 - 1), 0, 0, 0] else t))"

declare fips_word.simps [simp del]

definition fips_round_key :: "nat list \<Rightarrow> nat \<Rightarrow> nat list" where
  "fips_round_key key r = concat (map (\<lambda>j. fips_word key (4 * r + j)) [0..<4])"

definition inv_shift_rows :: "nat list \<Rightarrow> nat list" where
  "inv_shift_rows s = map (\<lambda>i. s ! (((i div 4 + 3 * (i mod 4)) mod 4) * 4 + i mod 4)) [0..<16]"

text \<open>Products with the constants of \<^verbatim>\<open>InvMixColumns\<close>, by repeated doubling.\<close>

definition gf9 :: "nat \<Rightarrow> nat" where "gf9 b = xtime (xtime (xtime b)) XOR b"
definition gfB :: "nat \<Rightarrow> nat" where "gfB b = xtime (xtime (xtime b)) XOR xtime b XOR b"
definition gfD :: "nat \<Rightarrow> nat" where "gfD b = xtime (xtime (xtime b)) XOR xtime (xtime b) XOR b"
definition gfE :: "nat \<Rightarrow> nat" where "gfE b = xtime (xtime (xtime b)) XOR xtime (xtime b) XOR xtime b"

fun inv_mix_column :: "nat list \<Rightarrow> nat list" where
  "inv_mix_column [b0, b1, b2, b3] =
     [gfE b0 XOR gfB b1 XOR gfD b2 XOR gf9 b3,
      gf9 b0 XOR gfE b1 XOR gfB b2 XOR gfD b3,
      gfD b0 XOR gf9 b1 XOR gfE b2 XOR gfB b3,
      gfB b0 XOR gfD b1 XOR gf9 b2 XOR gfE b3]"
| "inv_mix_column _ = []"

definition inv_round :: "nat list \<Rightarrow> nat \<Rightarrow> nat list \<Rightarrow> nat list" where
  "inv_round key r s =
     (let s = xor_bytes s (fips_round_key key r);
          s = (if r \<noteq> 10 then columns inv_mix_column s else s)
      in map inv_sbox (inv_shift_rows s))"

definition fips_decrypt_block :: "nat list \<Rightarrow> nat list \<Rightarrow> nat list" where
  "fips_decrypt_block key block = xor_bytes (fold (inv_round key) (rev [1..<11]) block) (fips_round_key key 0)"

fun cbc_decrypt :: "nat list \<Rightarrow> nat list \<Rightarrow> nat list \<Rightarrow> nat list" where
  "cbc_decrypt key previous data =
     (if data = [] then []
      else xor_bytes (fips_decrypt_block key (take 16 data)) previous @ cbc_decrypt key (take 16 data) (drop 16 data))"

declare cbc_decrypt.simps [simp del]

definition unpad16 :: "nat list \<Rightarrow> nat list option" where
  "unpad16 data =
     (let pad = last data; keep = length data - pad
      in if data \<noteq> [] \<and> 0 < pad \<and> pad \<le> 16 \<and> drop keep data = replicate pad pad then Some (take keep data) else None)"

text \<open>A token is read under a key of 32 bytes: version, time, vector, blocks and a tag of 32 bytes over them.\<close>

definition fernet_decrypt :: "hmac \<Rightarrow> nat list \<Rightarrow> string \<Rightarrow> nat list option" where
  "fernet_decrypt hmac key token =
     (case urlsafe_b64decode token of
        None \<Rightarrow> None
      | Some raw \<Rightarrow>
          (let basic = take (length raw - 32) raw; blocks = drop 25 basic in
           if length raw < 57 \<or> hd raw \<noteq> 0x80 \<or> hmac (take 16 key) basic \<noteq> drop (length raw - 32) raw \<or> length blocks mod 16 \<noteq> 0
           then None
           else unpad16 (cbc_decrypt (drop 16 key) (take 16 (drop 9 basic)) blocks)))"

section \<open>Facts\<close>

lemma mix_column_inverse:
  assumes "list_all (\<lambda>b. b < 256) [a0, a1, a2, a3]"
  shows "inv_mix_column (mix_column [a0, a1, a2, a3]) = [a0, a1, a2, a3]"
  using assms by (simp add: gf9_def gfB_def gfD_def gfE_def xtime_dbl dbl_xor xor_ac)

abbreviation octets :: "nat list \<Rightarrow> bool" where "octets \<equiv> list_all (\<lambda>b. b < 256)"

lemma xor_bytes_length [simp]: "length (xor_bytes a b) = min (length a) (length b)"
  by (simp add: xor_bytes_def)

lemma xor_bytes_nth: "i < length a \<Longrightarrow> i < length b \<Longrightarrow> xor_bytes a b ! i = (a ! i) XOR (b ! i)"
  by (simp add: xor_bytes_def)

lemma xor_bytes_octets: "octets a \<Longrightarrow> octets b \<Longrightarrow> octets (xor_bytes a b)"
  by (auto simp: list_all_length xor_bytes_nth)

lemma xor_bytes_twice: "length a \<le> length b \<Longrightarrow> xor_bytes (xor_bytes a b) b = a"
  by (auto intro!: nth_equalityI simp: xor_bytes_nth xor_ac)

lemma SBOX_octets: "octets s \<Longrightarrow> octets (map ((!) SBOX) s)"
  by (auto simp: list_all_iff inv_sbox_SBOX)

lemma inv_sbox_map: "octets s \<Longrightarrow> map inv_sbox (map ((!) SBOX) s) = s"
  by (auto simp: list_all_iff inv_sbox_SBOX intro!: map_idI)

lemma octets_parts: "octets s \<Longrightarrow> octets (take n s)" "octets s \<Longrightarrow> octets (drop n s)"
  by (auto simp: list_all_iff dest: in_set_takeD in_set_dropD)

lemma list_of_four:
  assumes "length xs = 4"
  obtains a b c d where "xs = [a, b, c, d]"
  using assms by (auto simp: numeral_eq_Suc length_Suc_conv)

subsection \<open>The key schedule\<close>

lemma RCON_octet: "k < 10 \<Longrightarrow> RCON ! k < 256"
proof -
  have "list_all (\<lambda>b. b < 256) RCON" "length RCON = 10" by (simp_all add: RCON_def)
  then show "k < 10 \<Longrightarrow> RCON ! k < 256" by (simp add: list_all_length)
qed

lemma fips_word_ok:
  assumes "length key = 16" "octets key"
  shows "i < 44 \<Longrightarrow> length (fips_word key i) = 4 \<and> octets (fips_word key i)"
proof (induction i rule: less_induct)
  case (less i)
  show ?case
  proof (cases "i < 4")
    case True
    then show ?thesis using assms by (subst (1 2) fips_word.simps) (simp add: octets_parts)
  next
    case False
    let ?t = "fips_word key (i - 1)" and ?u = "fips_word key (i - 4)"
    have t: "length ?t = 4" "octets ?t" "length ?u = 4" "octets ?u" using less False by auto
    have "octets (map ((!) SBOX) (rotate1 ?t))" using t(2) by (intro SBOX_octets) (simp add: list_all_iff)
    moreover have "RCON ! (i div 4 - 1) < 256" using less.prems False by (intro RCON_octet) auto
    ultimately show ?thesis using t False
      by (subst (1 2) fips_word.simps) (auto simp: Let_def intro!: xor_bytes_octets)
  qed
qed

lemma next_word_fips:
  assumes "length key = 16" "octets key" "4 \<le> i" "i < 44"
  shows "next_word (map (fips_word key) [0..<i]) i = fips_word key i"
proof -
  obtain a b c d where t: "fips_word key (i - 1) = [a, b, c, d]"
    using fips_word_ok [OF assms(1,2), of "i - 1"] assms(4) list_of_four by fastforce
  then show ?thesis
    using assms(3) by (subst fips_word.simps) (simp add: next_word_def Let_def xor_bytes_def)
qed

lemma words_fips:
  assumes "length key = 16" "octets key" "4 \<le> n" "n \<le> 44"
  shows "foldl (\<lambda>ws i. ws @ [next_word ws i]) (map (\<lambda>i. take 4 (drop i key)) [0, 4, 8, 12]) [4..<n] = map (fips_word key) [0..<n]"
  using assms(3,4)
proof (induction n rule: dec_induct)
  case base
  have "[0..<4] = [0, 1, 2, 3 :: nat]" by (simp add: upt_rec)
  then show ?case by (simp add: fips_word.simps)
next
  case (step n)
  then show ?case using next_word_fips [OF assms(1,2), of n] by simp
qed

lemma window_of_map: "m + w \<le> n \<Longrightarrow> take w (drop m (map f [0..<n])) = map (\<lambda>j. f (m + j)) [0..<w]"
  by (rule nth_equalityI) auto

lemma expand_key_fips:
  assumes "length key = 16" "octets key" "r < 11"
  shows "expand_key key ! r = fips_round_key key r"
proof -
  have "take 4 (drop (4 * r) (map (fips_word key) [0..<44])) = map (\<lambda>j. fips_word key (4 * r + j)) [0..<4]"
    using assms(3) by (intro window_of_map) simp
  then show ?thesis
    using assms(3) words_fips [OF assms(1,2), of 44] by (simp add: expand_key_def fips_round_key_def Let_def del: upt.simps upt_rec_numeral)
qed

lemma round_key_ok:
  assumes "length key = 16" "octets key" "r < 11"
  shows "length (fips_round_key key r) = 16" "octets (fips_round_key key r)"
proof -
  have w: "length (fips_word key (4 * r + j)) = 4 \<and> octets (fips_word key (4 * r + j))" if "j < 4" for j
    using fips_word_ok [OF assms(1,2)] assms(3) that by simp
  have u: "[0..<4] = [0, 1, 2, 3 :: nat]" by (simp add: upt_rec)
  show "length (fips_round_key key r) = 16" "octets (fips_round_key key r)"
    using w [of 0] w [of 1] w [of 2] w [of 3] by (simp_all add: fips_round_key_def u)
qed

subsection \<open>A block\<close>

lemma columns_eq:
  assumes "length s = 16"
  shows "columns f s = f (take 4 s) @ f (take 4 (drop 4 s)) @ f (take 4 (drop 8 s)) @ f (drop 12 s)"
  using assms by (simp add: columns_def)

lemma columns_inverse:
  assumes "length s = 16" "octets s"
  shows "columns inv_mix_column (columns mix_column s) = s" "length (columns mix_column s) = 16" "octets (columns mix_column s)"
proof -
  have l: "length (mix_column c) = 4 \<and> octets (mix_column c) \<and> inv_mix_column (mix_column c) = c" if c: "length c = 4" "octets c" for c
  proof -
    obtain x y z u where "c = [x, y, z, u]" using c(1) list_of_four by blast
    then show ?thesis using c(2) mix_column_inverse [of x y z u] by (simp del: inv_mix_column.simps)
  qed
  note e = columns_eq [OF assms(1), of mix_column]
  let ?c = "[take 4 s, take 4 (drop 4 s), take 4 (drop 8 s), drop 12 s]"
  have c: "\<forall>c \<in> set ?c. length c = 4 \<and> octets c" using assms by (auto simp: octets_parts)
  then show n: "length (columns mix_column s) = 16" and "octets (columns mix_column s)" unfolding e by (simp_all add: l)
  have "columns inv_mix_column (columns mix_column s) = concat ?c"
    unfolding columns_eq [OF n] unfolding e using c by (simp add: l)
  also have "\<dots> = s" 
    using append_take_drop_id [of 4 "drop 8 s"] append_take_drop_id [of 4 "drop 4 s"] append_take_drop_id [of 4 s] by simp
  finally show "columns inv_mix_column (columns mix_column s) = s" .
qed

lemma shift_inverse:
  assumes "length s = 16"
  shows "inv_shift_rows (map (\<lambda>i. s ! (SHIFT ! i)) [0..<16]) = s"
proof (rule nth_equalityI)
  fix i assume "i < length (inv_shift_rows (map (\<lambda>i. s ! (SHIFT ! i)) [0..<16]))"
  then have i: "i \<in> set [0..<16]" by (simp add: inv_shift_rows_def)
  let ?k = "\<lambda>i. ((i div 4 + 3 * (i mod 4)) mod 4) * 4 + i mod (4 :: nat)"
  have "list_all (\<lambda>i. ?k i < 16 \<and> SHIFT ! ?k i = i) [0..<16]" by code_simp
  then have "?k i < 16 \<and> SHIFT ! ?k i = i" using i by (auto simp: list_all_iff)
  then show "inv_shift_rows (map (\<lambda>i. s ! (SHIFT ! i)) [0..<16]) ! i = s ! i" using i by (simp add: inv_shift_rows_def)
qed (simp add: inv_shift_rows_def assms)

lemma shift_ok:
  assumes "length s = 16" "octets s"
  shows "octets (map (\<lambda>i. s ! (SHIFT ! i)) [0..<16])"
proof -
  have "list_all (\<lambda>i. SHIFT ! i < 16) [0..<16]" by code_simp
  then show ?thesis using assms by (auto simp: list_all_iff list_all_length)
qed

lemma inv_round_cipher_round:
  assumes "length key = 16" "octets key" "r < 11" "length s = 16" "octets s"
  shows "inv_round key r (cipher_round (expand_key key) r s) = s" "length (cipher_round (expand_key key) r s) = 16"
    "octets (cipher_round (expand_key key) r s)"
proof -
  define sub where "sub = map ((!) SBOX) s"
  define shifted where "shifted = map (\<lambda>i. sub ! (SHIFT ! i)) [0..<16]"
  define mixed where "mixed = (if r \<noteq> 10 then columns mix_column shifted else shifted)"
  note k = round_key_ok [OF assms(1-3)]
  have sub: "length sub = 16" "octets sub" using assms(4,5) SBOX_octets by (simp_all add: sub_def)
  have shifted: "length shifted = 16" "octets shifted" using shift_ok [OF sub] by (simp_all add: shifted_def)
  have mixed: "length mixed = 16" "octets mixed" using shifted columns_inverse [OF shifted] by (simp_all add: mixed_def)
  have c: "cipher_round (expand_key key) r s = xor_bytes mixed (fips_round_key key r)"
    using expand_key_fips [OF assms(1-3)] by (simp add: cipher_round_def Let_def mixed_def shifted_def sub_def)
  then show "length (cipher_round (expand_key key) r s) = 16" "octets (cipher_round (expand_key key) r s)"
    using mixed k by (simp_all add: xor_bytes_octets)
  have "(if r \<noteq> 10 then columns inv_mix_column mixed else mixed) = shifted"
    using columns_inverse [OF shifted] by (simp add: mixed_def)
  moreover have "inv_shift_rows shifted = sub" unfolding shifted_def using sub(1) by (rule shift_inverse)
  moreover have "map inv_sbox sub = s" using inv_sbox_map [OF assms(5)] by (simp add: sub_def)
  ultimately show "inv_round key r (cipher_round (expand_key key) r s) = s"
    using mixed k by (simp add: c inv_round_def Let_def xor_bytes_twice)
qed

text \<open>A fold undone by the fold of the inverses in reverse.\<close>

lemma fold_undone:
  assumes "\<And>r s. r \<in> set rs \<Longrightarrow> ok s \<Longrightarrow> ok (f r s) \<and> g r (f r s) = s" "ok s"
  shows "fold g (rev rs) (fold f rs s) = s \<and> ok (fold f rs s)"
  using assms by (induction rs arbitrary: s) auto

lemma fips_decrypts_block:
  assumes "length key = 16" "octets key" "length block = 16" "octets block"
  shows "fips_decrypt_block key (encrypt_block (expand_key key) block) = block"
    "length (encrypt_block (expand_key key) block) = 16" "octets (encrypt_block (expand_key key) block)"
proof -
  let ?s = "xor_bytes block (fips_round_key key 0)"
  have k: "length (fips_round_key key 0) = 16" "octets (fips_round_key key 0)" using round_key_ok [OF assms(1,2), of 0] by simp_all
  have s: "length ?s = 16 \<and> octets ?s" using assms k by (simp add: xor_bytes_octets)
  have "fold (inv_round key) (rev [1..<11]) (fold (cipher_round (expand_key key)) [1..<11] ?s) = ?s \<and>
      (length (fold (cipher_round (expand_key key)) [1..<11] ?s) = 16 \<and> octets (fold (cipher_round (expand_key key)) [1..<11] ?s))"
    using inv_round_cipher_round [OF assms(1,2)] s by (intro fold_undone [where ok = "\<lambda>s. length s = 16 \<and> octets s"]) auto
  moreover have "expand_key key ! 0 = fips_round_key key 0" using expand_key_fips [OF assms(1,2), of 0] by simp
  ultimately show "fips_decrypt_block key (encrypt_block (expand_key key) block) = block"
    "length (encrypt_block (expand_key key) block) = 16" "octets (encrypt_block (expand_key key) block)"
    using assms k unfolding fips_decrypt_block_def encrypt_block_def by (simp_all add: xor_bytes_twice)
qed

subsection \<open>The chain of blocks and the padding\<close>

lemma cbc_decrypts:
  assumes "length key = 16" "octets key"
  shows "length previous = 16 \<Longrightarrow> octets previous \<Longrightarrow> octets data \<Longrightarrow> 16 dvd length data \<Longrightarrow>
    cbc_decrypt key previous (cbc_loop (expand_key key) previous data) = data
    \<and> length (cbc_loop (expand_key key) previous data) = length data \<and> octets (cbc_loop (expand_key key) previous data)"
proof (induction "expand_key key" previous data rule: cbc_loop.induct)
  case (1 previous data)
  show ?case
  proof (cases "data = []")
    case True
    then show ?thesis by (simp add: cbc_loop.simps cbc_decrypt.simps)
  next
    case False
    then have len: "16 \<le> length data" using 1 by (auto dest: dvd_imp_le)
    let ?b = "encrypt_block (expand_key key) (xor_bytes (take 16 data) previous)"
    let ?rest = "cbc_loop (expand_key key) ?b (drop 16 data)"
    have x: "length (xor_bytes (take 16 data) previous) = 16" "octets (xor_bytes (take 16 data) previous)"
      using 1 len by (simp_all add: xor_bytes_octets octets_parts)
    note b = fips_decrypts_block [OF assms x]
    have "16 dvd length (drop 16 data)" using "1.prems"(4) len by (simp add: dvd_diff_nat)
    then have IH: "cbc_decrypt key ?b ?rest = drop 16 data" "length ?rest = length data - 16" "octets ?rest"
      using 1 False b by (simp_all add: octets_parts)
    have c: "cbc_loop (expand_key key) previous data = ?b @ ?rest" using False by (subst cbc_loop.simps) (simp add: Let_def)
    have "?b \<noteq> []" using b(2) by auto
    moreover have "xor_bytes (xor_bytes (take 16 data) previous) previous = take 16 data"
      using 1 by (intro xor_bytes_twice) simp
    ultimately show ?thesis unfolding c using b IH len by (subst cbc_decrypt.simps) simp
  qed
qed

lemma pad16_ok: "octets data \<Longrightarrow> octets (pad16 data)" "16 dvd length (pad16 data)" "pad16 data \<noteq> []"
proof -
  have p: "length data mod 16 < 16" by simp
  show "octets data \<Longrightarrow> octets (pad16 data)" by (auto simp: pad16_def Let_def list_all_iff)
  have "length (pad16 data) = 16 * (length data div 16) + 16"
    unfolding pad16_def Let_def length_append length_replicate using p div_mult_mod_eq [of "length data" 16] by linarith
  then show "16 dvd length (pad16 data)" by simp
  show "pad16 data \<noteq> []" using p by (simp add: pad16_def Let_def not_le)
qed

lemma unpad16_pad16: "unpad16 (pad16 data) = Some data"
proof -
  define p where "p = 16 - length data mod 16"
  have "length data mod 16 < 16" by simp
  then have p: "0 < p" "p \<le> 16" by (simp_all add: p_def)
  then have "last (data @ replicate p p) = p" by simp
  then show ?thesis using p unfolding unpad16_def pad16_def Let_def p_def [symmetric] by simp
qed

subsection \<open>Base 64\<close>

lemma char_code: "c = d \<longleftrightarrow> (of_char c :: nat) = of_char d"
  by simp

lemma b64_val_urlsafe:
  assumes "n < 64"
  shows "b64_val (standard_char (urlsafe_char n)) = Some n"
proof -
  note o = of_urlsafe_char [OF assms]
  consider "n < 26" | "26 \<le> n" "n < 52" | "52 \<le> n" "n < 62" | "n = 62" | "n = 63" using assms by linarith
  then show ?thesis using o by cases (auto simp: standard_char_def b64_val_def char_code Let_def)
qed

lemma standard_pad: "standard_char (CHR ''='') = CHR ''=''" "n < 64 \<Longrightarrow> standard_char (urlsafe_char n) \<noteq> CHR ''=''"
proof -
  have "b64_val (CHR ''='') = None" by code_simp
  then show "n < 64 \<Longrightarrow> standard_char (urlsafe_char n) \<noteq> CHR ''=''" using b64_val_urlsafe by fastforce
qed (simp add: standard_char_def)

lemma b64_roundtrip: "octets bs \<Longrightarrow> urlsafe_b64decode (urlsafe_b64encode bs) = Some bs"
proof (induction bs rule: urlsafe_b64encode.induct)
  case (2 a)
  then have "a div 4 < 64" "16 * (a mod 4) < 64" by auto
  then show ?case by (simp add: urlsafe_b64decode_def b64_val_urlsafe standard_pad)
next
  case (3 a b)
  then have "a div 4 < 64" "16 * (a mod 4) + b div 16 < 64" "4 * (b mod 16) < 64" "b div 16 < 16" by auto
  then show ?case by (simp add: urlsafe_b64decode_def b64_val_urlsafe standard_pad)
next
  case (4 a b c rest)
  then have n: "a div 4 < 64" "16 * (a mod 4) + b div 16 < 64" "4 * (b mod 16) + c div 64 < 64" "c mod 64 < 64" "b div 16 < 16" "c div 64 < 4"
    by auto
  have "b64decode (map standard_char (urlsafe_b64encode rest)) = Some rest" using 4 by (simp add: urlsafe_b64decode_def)
  then show ?case using n by (simp add: urlsafe_b64decode_def b64_val_urlsafe standard_pad)
qed (simp add: urlsafe_b64decode_def)

subsection \<open>Tokens\<close>

lemma pack_u64_ok: "length (pack_u64 t) = 8" "octets (pack_u64 t)"
  by (simp_all add: pack_u64_def)

lemma encode_prefix:
  "prefix [urlsafe_char (a div 4), urlsafe_char (16 * (a mod 4) + b div 16), urlsafe_char (4 * (b mod 16) + c div 64), urlsafe_char (c mod 64),
     urlsafe_char (d div 4), urlsafe_char (16 * (d mod 4) + e div 16)] (urlsafe_b64encode (a # b # c # d # e # f # rest))"
  by simp

text \<open>A token begins with the version and the high bits of the clock, which are zero for two thousand years.\<close>

lemma token_prefix:
  assumes "t < 2 ^ 36"
  shows "prefix ''gAAAAA'' (urlsafe_b64encode ([0x80] @ pack_u64 t @ rest))"
proof -
  have z: "t div 256 ^ 7 = 0" "t div 256 ^ 6 = 0" "t div 256 ^ 5 = 0" "t div 256 ^ 4 < 16" using assms by (simp_all add: less_mult_imp_div_less)
  then have p: "pack_u64 t = [0, 0, 0, t div 256 ^ 4, (t div 256 ^ 3) mod 256, (t div 256 ^ 2) mod 256, (t div 256) mod 256, t mod 256]"
    by (simp add: pack_u64_def)
  have "urlsafe_char 0 = CHR ''A''" "urlsafe_char 32 = CHR ''g''" by code_simp+
  then show ?thesis
    using encode_prefix [where a = "0x80" and b = 0 and c = 0 and d = 0 and e = "t div 256 ^ 4" and f = "(t div 256 ^ 3) mod 256"] z(4)
    by (simp add: p)
qed

definition hmac_sha256 :: "hmac \<Rightarrow> bool" where
  "hmac_sha256 hmac \<longleftrightarrow> (\<forall>k m. length (hmac k m) = 32 \<and> octets (hmac k m))"

lemma fernet_decrypt_parts:
  assumes "urlsafe_b64decode token = Some (basic @ hmac (take 16 key) basic)" "length (hmac (take 16 key) basic) = 32"
    and "basic = 0x80 # stamp @ iv @ blocks" "length stamp = 8" "length iv = 16" "16 dvd length blocks"
  shows "fernet_decrypt hmac key token = unpad16 (cbc_decrypt (drop 16 key) iv blocks)"
proof -
  have "25 \<le> length basic" "hd (basic @ hmac (take 16 key) basic) = 0x80" "take 16 (drop 9 basic) = iv" "drop 25 basic = blocks"
    using assms(3-5) by simp_all
  moreover have "(length basic - 25) mod 16 = 0" using assms(3-6) by simp
  ultimately show ?thesis using assms(1,2) by (simp add: fernet_decrypt_def Let_def)
qed

lemma fernet_roundtrip:
  assumes "hmac_sha256 hmac" "length key = 32" "octets key" "length iv = 16" "octets iv" "octets data"
  obtains token where "fernet_encrypt hmac iv now (urlsafe_b64encode key) data = Some token"
    "fernet_decrypt hmac key token = Some data" "now < 2 ^ 36 \<Longrightarrow> prefix ''gAAAAA'' token"
proof -
  let ?k = "drop 16 key" and ?blocks = "cbc_loop (expand_key (drop 16 key)) iv (pad16 data)"
  let ?basic = "[0x80] @ pack_u64 now @ iv @ ?blocks"
  let ?tag = "hmac (take 16 key) ?basic"
  have k: "length ?k = 16" "octets ?k" using assms by (simp_all add: octets_parts)
  note b = cbc_decrypts [OF k assms(4,5) pad16_ok(1) [OF assms(6)] pad16_ok(2)]
  have tag: "length ?tag = 32" "octets ?tag" using assms(1) by (simp_all add: hmac_sha256_def)
  have len: "length ?basic = 25 + length ?blocks" "0 < length ?blocks" "16 dvd length ?blocks"
    using b pad16_ok [of data] assms(4) pack_u64_ok by simp_all
  have "octets (?basic @ ?tag)" using b tag assms(5) pack_u64_ok by simp
  then have d: "urlsafe_b64decode (urlsafe_b64encode (?basic @ ?tag)) = Some (?basic @ ?tag)" by (rule b64_roundtrip)
  have "fernet_decrypt hmac key (urlsafe_b64encode (?basic @ ?tag)) = unpad16 (cbc_decrypt (drop 16 key) iv ?blocks)"
    using d tag(1) len(3) assms(4) pack_u64_ok(1) by (intro fernet_decrypt_parts) simp_all
  then have "fernet_decrypt hmac key (urlsafe_b64encode (?basic @ ?tag)) = Some data" using b by (simp add: unpad16_pad16)
  moreover have "fernet_encrypt hmac iv now (urlsafe_b64encode key) data = Some (urlsafe_b64encode (?basic @ ?tag))"
    using b64_roundtrip [OF assms(3)] k(1) by (simp add: fernet_encrypt_def fernet_body_def Let_def)
  moreover have "now < 2 ^ 36 \<Longrightarrow> prefix ''gAAAAA'' (urlsafe_b64encode (?basic @ ?tag))"
    using token_prefix [of now "iv @ ?blocks @ ?tag"] by simp
  ultimately show thesis using that by blast
qed

section \<open>Property\<close>

text \<open>C8: The cipher the scrape payload brings along is the standard one: for every key of 32 bytes, vector and
  report, the token it prints is read back by the Fernet specification, with the AES inverse cipher of FIPS 197
  and its printed table, to exactly that report; and until the clock passes 68719476736 seconds the token starts with the
  prefix the validator looks for.\<close>

theorem payload_token_decrypts:
  assumes "hmac_sha256 hmac" "length key = 32" "octets key" "length iv = 16" "octets iv" "octets data"
  shows "\<exists>token. fernet_encrypt hmac iv now (urlsafe_b64encode key) data = Some token
    \<and> fernet_decrypt hmac key token = Some data \<and> (now < 2 ^ 36 \<longrightarrow> prefix ''gAAAAA'' token)"
  using fernet_roundtrip [OF assms] by metis

theorem payload_token_decrypts_witness:
  "\<exists>token. fernet_encrypt (\<lambda>k m. replicate 32 (length m mod 256)) (replicate 16 7) 1700000000 (urlsafe_b64encode (replicate 32 200)) [1, 2, 3] = Some token
    \<and> fernet_decrypt (\<lambda>k m. replicate 32 (length m mod 256)) (replicate 32 200) token = Some [1, 2, 3] \<and> prefix ''gAAAAA'' token"
  using payload_token_decrypts [of "\<lambda>k m. replicate 32 (length m mod 256)" "replicate 32 200" "replicate 16 7" "[1, 2, 3]" 1700000000]
  by (simp add: hmac_sha256_def list_all_iff)

end
