(* ===== verification/Rig_Scrape.thy ===== *)
theory Rig_Scrape
  imports Rig_Nvml Rig_Cipher
begin

text \<open>
  The rest of the scrape payload (\<^verbatim>\<open>validator/verify/payloads/scrape.py\<close>): what it reads of the host and of docker, and
  the report it prints as one token. The last theorems put the payload on the rig together with the validator's
  reading of its answer (\<open>Verify_Scrape\<close>).
\<close>

section \<open>The host\<close>

definition os_release :: "System \<Rightarrow> (string \<times> string) list" where
  "os_release sy =
     (let text = read_file sy (path_join HOST_ROOT ''etc/os-release'') 8192;
          text = (if text = [] then read_file sy ''/etc/os-release'' 8192 else text)
      in key_values (\<lambda>line. startswith line ''#'') text)"

definition model_line :: "string \<Rightarrow> bool" where
  "model_line line = startswith (lower line) ''model name''"

definition cpu_facts :: "System \<Rightarrow> pydict pyres" where
  "cpu_facts sy =
     rbind (case List.find model_line (splitlines (read_file sy ''/proc/cpuinfo'' (2 ^ 20))) of
              None \<Rightarrow> Inr []
            | Some line \<Rightarrow> (case cut_at (CHR '':'') line of None \<Rightarrow> Inl IndexError | Some (_, v) \<Rightarrow> Inr (strip v))) (\<lambda>model.
       Inr [(''model'', PStr model),
            (''count'', PInt (case sy_affinity sy of Some n \<Rightarrow> n | None \<Rightarrow> (case sy_cpu_count sy of Some n \<Rightarrow> n | None \<Rightarrow> 0))),
            (''load'', PList (map PStr (take 3 (split_ws (read_file sy ''/proc/loadavg'' 128)))))])"

definition meminfo_line :: "int \<times> int \<Rightarrow> string \<Rightarrow> int \<times> int" where
  "meminfo_line m line =
     (case split_ws line of
        k # v # _ \<Rightarrow>
          if \<not> isdigit v then m
          else if k = ''MemTotal:'' then (int (digits_val v) div 1024, snd m)
          else if k = ''MemAvailable:'' then (fst m, int (digits_val v) div 1024)
          else m
      | _ \<Rightarrow> m)"

definition memory_facts :: "System \<Rightarrow> pydict" where
  "memory_facts sy =
     (let m = foldl meminfo_line (0, 0) (splitlines (read_file sy ''/proc/meminfo'' 8192))
      in [(''total_mb'', PInt (fst m)), (''available_mb'', PInt (snd m))])"

definition dirname :: "string \<Rightarrow> string" where
  "dirname p = (let d = rev (tl (dropWhile (\<lambda>c. c \<noteq> CHR ''/'') (rev p))) in if d = [] then ''/'' else d)"

definition rotational_flag :: "System \<Rightarrow> string \<Rightarrow> bool option" where
  "rotational_flag sy dir =
     (let flag = strip (read_file sy (path_join (path_join dir ''queue'') ''rotational'') 8)
      in if flag = ''1'' then Some True else if flag = ''0'' then Some False else None)"

definition lsblk_flag :: "System \<Rightarrow> bool option" where
  "lsblk_flag sy =
     (case run_argv sy [''lsblk'', ''-d'', ''-n'', ''-o'', ''NAME,ROTA,TYPE''] of (code, out, _) \<Rightarrow>
        if code \<noteq> Some 0 then None
        else (let disks = filter (\<lambda>ps. 3 \<le> length ps \<and> ps ! 2 = ''disk'') (map split_ws (filter (\<lambda>l. strip l \<noteq> []) (splitlines out)))
              in if disks \<noteq> [] \<and> list_all (\<lambda>ps. ps ! 1 = ''0'') disks then Some False
                 else if disks \<noteq> [] \<and> list_all (\<lambda>ps. ps ! 1 = ''1'') disks then Some True else None))"

definition opt_flag :: "bool option \<Rightarrow> pyval" where
  "opt_flag b = (case b of None \<Rightarrow> PNone | Some x \<Rightarrow> PBool x)"

definition device_text :: "System \<Rightarrow> int \<Rightarrow> string" where
  "device_text sy dev = (case sy_device sy dev of (major, minor) \<Rightarrow> show_int major @ '':'' @ show_int minor)"

definition block_rotational :: "System \<Rightarrow> string \<Rightarrow> pyval \<times> string" where
  "block_rotational sy path =
     (case sy_stat sy path of
        None \<Rightarrow> (PNone, ''stat failed'')
      | Some (dev, _) \<Rightarrow>
          (case sy_listdir sy ''/sys/class/block'' of
             None \<Rightarrow> (PNone, ''no sysfs'')
           | Some names \<Rightarrow>
               (case List.find (\<lambda>n. strip (read_file sy (path_join (path_join ''/sys/class/block'' n) ''dev'') 32) = device_text sy dev) names of
                  Some n \<Rightarrow>
                    (let real = sy_realpath sy (path_join ''/sys/class/block'' n)
                     in case rotational_flag sy real of
                          Some b \<Rightarrow> (PBool b, n) | None \<Rightarrow> (opt_flag (rotational_flag sy (dirname real)), n))
                | None \<Rightarrow>
                    (case lsblk_flag sy of
                       Some b \<Rightarrow> (PBool b, ''lsblk all disks'') | None \<Rightarrow> (PNone, ''unresolved '' @ device_text sy dev)))))"

definition disk_entry :: "System \<Rightarrow> string \<times> string \<Rightarrow> pydict" where
  "disk_entry sy lp =
     (case lp of (label, path) \<Rightarrow>
        if path = [] \<or> \<not> sy_isdir sy path then []
        else (case sy_usage sy path of
                Inl e \<Rightarrow> [(label, PDict [(''path'', PStr path), (''error'', PStr e)])]
              | Inr (bytes, _, free) \<Rightarrow>
                  (case block_rotational sy path of (rotational, how) \<Rightarrow>
                     [(label, PDict [(''path'', PStr path), (''total_gb'', PFloat (py_round_to 1 (of_int bytes / 10 ^ 9))),
                         (''free_gb'', PFloat (py_round_to 1 (of_int free / 10 ^ 9))), (''rotational'', rotational), (''method'', PStr how)])])))"

definition disk_facts :: "System \<Rightarrow> string \<Rightarrow> pydict" where
  "disk_facts sy docker_root =
     concat (map (disk_entry sy)
       [(''root'', if sy_isdir sy HOST_ROOT then HOST_ROOT else ''/''),
        (''docker_root'', if docker_root = [] then [] else path_join HOST_ROOT (dropWhile (\<lambda>c. c = CHR ''/'') docker_root))])"

section \<open>Docker\<close>

definition docker_unavailable :: "string \<Rightarrow> pydict" where
  "docker_unavailable error = [(''available'', PBool False), (''error'', PStr error)]"

definition runtime_names :: "pyval \<Rightarrow> string list pyres" where
  "runtime_names v = (case py_or v (PDict []) of PDict d \<Rightarrow> Inr (sort (dkeys d)) | _ \<Rightarrow> Inl AttributeError)"

definition str_get :: "pyval \<Rightarrow> string \<Rightarrow> pyval pyres" where
  "str_get v k = rbind (attr_get v k (PStr [])) (\<lambda>x. Inr (PStr (py_str x)))"

definition docker_facts :: "System \<Rightarrow> pydict pyres" where
  "docker_facts sy =
     (case run_argv sy [''docker'', ''info'', ''--format'', ''{{json .}}''] of (code, out, err) \<Rightarrow>
        if code \<noteq> Some 0 \<or> strip out = [] then Inr (docker_unavailable (take 300 (strip (str_or err ''docker info failed''))))
        else (case sy_loads sy out of
                None \<Rightarrow> Inr (docker_unavailable ''docker info is not JSON'')
              | Some info \<Rightarrow>
                  rbind (str_get info ''ServerVersion'') (\<lambda>version. rbind (attr_get info ''Runtimes'' PNone) (\<lambda>rts.
                  rbind (runtime_names rts) (\<lambda>runtimes. rbind (str_get info ''DefaultRuntime'') (\<lambda>runtime.
                  rbind (str_get info ''Driver'') (\<lambda>driver. rbind (attr_get info ''DriverStatus'' PNone) (\<lambda>status.
                  rbind (str_get info ''DockerRootDir'') (\<lambda>root. rbind (str_get info ''CgroupDriver'') (\<lambda>cgroup.
                  rbind (str_get info ''CgroupVersion'') (\<lambda>cgroups. rbind (attr_get info ''ContainersRunning'' PNone) (\<lambda>n.
                  rbind (attr_get info ''Images'' PNone) (\<lambda>images.
                    Inr [(''available'', PBool True), (''server_version'', version), (''runtimes'', PList (map PStr runtimes)),
                         (''default_runtime'', runtime), (''driver'', driver), (''driver_status'', py_or status (PList [])),
                         (''root_dir'', root), (''cgroup_driver'', cgroup), (''cgroup_version'', cgroups), (''containers_running'', n),
                         (''images'', images)])))))))))))))"

definition scrape_own_container :: "System \<Rightarrow> string" where
  "scrape_own_container sy =
     (let c = hex64_in (read_file sy ''/proc/self/cgroup'' 4096)
      in if c \<noteq> [] then c else hex64_in (read_file sy ''/proc/self/mountinfo'' (2 ^ 16)))"

definition first_image :: "System \<Rightarrow> string \<times> string" where
  "first_image sy =
     (case run_argv sy [''docker'', ''images'', ''-q''] of (code, out, _) \<Rightarrow>
        (case (if code = Some 0 then filter (\<lambda>l. l \<noteq> []) (map strip (splitlines out)) else []) of
           [] \<Rightarrow> ([], ''no local image'') | l # _ \<Rightarrow> (l, ''first local image'')))"

definition probe_image :: "System \<Rightarrow> string \<times> string" where
  "probe_image sy =
     (let own = scrape_own_container sy
      in if own = [] then first_image sy
         else (case run_argv sy [''docker'', ''inspect'', ''--format'', ''{{.Image}}'', own] of (code, out, _) \<Rightarrow>
                 if code = Some 0 \<and> strip out \<noteq> [] then (strip out, ''own container'') else first_image sy))"

definition probe_command :: "System \<Rightarrow> string list \<Rightarrow> string option \<Rightarrow> pydict" where
  "probe_command sy argv marker =
     (case run_argv sy argv of (code, out, err) \<Rightarrow>
        [(''ok'', PBool (code = Some 0 \<and> (case marker of None \<Rightarrow> True | Some m \<Rightarrow> contains_str m out))),
         (''code'', case code of None \<Rightarrow> PNone | Some c \<Rightarrow> PInt c), (''stdout'', PStr (last_chars 300 (strip out))),
         (''stderr'', PStr (last_chars 300 (strip err))), (''elapsed_ms'', PFloat (py_round_to 1 (sy_ms sy argv))),
         (''command'', PStr (join '' '' argv))])"

text \<open>The last answer in the journal, from the host's journal first.\<close>

definition journal_verdict :: "System \<Rightarrow> string list \<Rightarrow> bool option" where
  "journal_verdict sy argv =
     (case run_argv sy argv of (code, out, _) \<Rightarrow>
        if code \<noteq> Some 0 then None
        else (case concat (map (\<lambda>l. take 1 (idmap_all id l)) (splitlines out)) of [] \<Rightarrow> None | vs \<Rightarrow> Some (last vs)))"

definition JOURNAL :: "string list" where
  "JOURNAL = [''journalctl'', ''-u'', ''sysbox-mgr'', ''-b'', ''--no-pager'', ''-o'', ''cat'']"

definition idmapped_facts :: "System \<Rightarrow> int \<times> int \<Rightarrow> pyval list \<Rightarrow> pydict" where
  "idmapped_facts sy kver runtimes =
     (case (case journal_verdict sy ([''chroot'', HOST_ROOT] @ JOURNAL) of Some b \<Rightarrow> Some b | None \<Rightarrow> journal_verdict sy JOURNAL) of
        Some b \<Rightarrow> [(''idmapped'', PBool b), (''method'', PStr ''sysbox-mgr journal'')]
      | None \<Rightarrow> [(''idmapped'', PBool (at_least kver (5, 19) \<and> PStr ''sysbox-runc'' \<in> set runtimes)),
                 (''method'', PStr ''kernel version and runtime presence'')])"

definition skipped :: "string \<Rightarrow> pyval" where
  "skipped why = PDict [(''ok'', PBool False), (''skipped'', PStr why)]"

definition SYSBOX_PROBE :: "string \<Rightarrow> string list" where
  "SYSBOX_PROBE img = [''docker'', ''run'', ''--rm'', ''--runtime=sysbox-runc'', ''--gpus'', ''all'', img, ''nvidia-smi'', ''-L'']"

definition QUOTA_PROBE :: "string \<Rightarrow> string list" where
  "QUOTA_PROBE img = [''docker'', ''run'', ''--rm'', ''--storage-opt'', ''size=1g'', img, ''true'']"

definition scrape_probes :: "System \<Rightarrow> pydict \<Rightarrow> int \<times> int \<Rightarrow> pydict" where
  "scrape_probes sy docker kver =
     (let (img, source) = probe_image sy;
          runtimes = (case py_or (dget docker ''runtimes'' PNone) (PList []) of PList rs \<Rightarrow> rs | _ \<Rightarrow> []);
          (sysbox, quota) =
            (if \<not> truthy (dget docker ''available'' PNone) then (skipped ''docker unavailable'', skipped ''docker unavailable'')
             else if img = [] then (skipped ''no local image'', skipped ''no local image'')
             else (if PStr ''sysbox-runc'' \<in> set runtimes then PDict (probe_command sy (SYSBOX_PROBE img) (Some ''GPU 0''))
                   else skipped ''sysbox-runc runtime not registered'',
                   PDict (probe_command sy (QUOTA_PROBE img) None)))
      in [(''image'', PStr img), (''image_source'', PStr source), (''sysbox'', sysbox), (''storage_quota'', quota),
          (''idmapped'', PDict (idmapped_facts sy kver runtimes))])"

section \<open>The report\<close>

definition text_or :: "string \<Rightarrow> string \<Rightarrow> string" where
  "text_or a b = (if a = [] then b else a)"

definition nvidia_devices :: "System \<Rightarrow> ('s, string list) act" where
  "nvidia_devices sy =
     (if \<not> sy_isdir sy ''/dev'' then ret []
      else (case sy_listdir sy ''/dev'' of
              None \<Rightarrow> raise OsError | Some names \<Rightarrow> ret (sort (filter (\<lambda>n. startswith n ''nvidia'') names))))"

definition uptime_seconds :: "System \<Rightarrow> rat pyres" where
  "uptime_seconds sy = float_of_str (case split_ws (read_file sy ''/proc/uptime'' 64) of [] \<Rightarrow> ''0'' | p # _ \<Rightarrow> p)"

definition host_dict :: "System \<Rightarrow> string \<Rightarrow> pydict \<Rightarrow> rat \<Rightarrow> string list \<Rightarrow> pydict" where
  "host_dict sy docker_root cpu uptime devices =
     (let release = os_release sy; kver = version_pair (sy_release sy) in
        [(''cpu'', PDict cpu), (''memory'', PDict (memory_facts sy)),
             (''disk'', PDict (disk_facts sy docker_root)),
             (''os'', PDict [(''id'', PStr (lower (dget release ''ID'' []))), (''version'', PStr (dget release ''VERSION_ID'' [])),
                            (''pretty'', PStr (dget release ''PRETTY_NAME'' []))]),
             (''kernel'', PStr (sy_release sy)), (''kernel_tuple'', PList [PInt (fst kver), PInt (snd kver)]),
             (''arch'', PStr (sy_machine sy)),
             (''hostname'', PStr (text_or (strip (read_file sy (path_join HOST_ROOT ''etc/hostname'') 256)) (sy_hostname sy))),
             (''boot_id'', PStr (strip (read_file sy ''/proc/sys/kernel/random/boot_id'' 64))),
             (''machine_id'', PStr (text_or (strip (read_file sy (path_join HOST_ROOT ''etc/machine-id'') 64)) (strip (read_file sy ''/etc/machine-id'' 64)))),
             (''uptime_seconds'', PFloat uptime),
             (''rm_profiling_admin_only'', PStr (take 800 (strip (read_file sy ''/proc/driver/nvidia/params'' 4096)))),
             (''nvidia_devices'', PList (map PStr devices)),
             (''ld_preload'', PStr (case sy_environ sy ''LD_PRELOAD'' of None \<Rightarrow> [] | Some v \<Rightarrow> v)),
             (''python'', PStr (sy_python sy)), (''uid'', PInt (sy_uid sy))])"

definition host_facts :: "System \<Rightarrow> pydict \<Rightarrow> ('s, pydict) act" where
  "host_facts sy docker =
     bnd (lift (cpu_facts sy)) (\<lambda>cpu. bnd (lift (uptime_seconds sy)) (\<lambda>uptime. bnd (nvidia_devices sy) (\<lambda>devices.
       ret (host_dict sy (case dget docker ''root_dir'' (PStr []) of PStr r \<Rightarrow> r | _ \<Rightarrow> []) cpu uptime devices))))"

definition which_path :: "System \<Rightarrow> string \<Rightarrow> string" where
  "which_path sy name = (case sy_which sy name of None \<Rightarrow> [] | Some p \<Rightarrow> p)"

definition scrape_report :: "field_names \<Rightarrow> (string \<Rightarrow> string + NvLibrary) \<Rightarrow> System \<Rightarrow> ('z Nvml_scheme, pydict) act" where
  "scrape_report F load sy =
     bnd (scrape_nvml F load sy) (\<lambda>nvml. bnd (lift (docker_facts sy)) (\<lambda>docker. bnd (host_facts sy docker) (\<lambda>host.
       ret [(''version'', PInt 1), (''collected_at'', PFloat (py_round_to 3 (sy_now sy))),
            (''elapsed_ms'', PFloat (py_round_to 1 (sy_elapsed sy))), (''gpus'', dget nvml ''gpus'' (PList [])),
            (''nvml'', PDict (AList.delete ''gpus'' nvml)), (''host'', PDict host), (''docker'', PDict docker),
            (''probes'', PDict (scrape_probes sy docker (version_pair (sy_release sy)))),
            (''hashes'', PDict [(''nvidia_smi'', PDict (file_hashes sy (which_path sy ''nvidia-smi''))),
                               (''nvml'', py_or (dget nvml ''hashes'' PNone) (PDict [])),
                               (''docker'', PDict (file_hashes sy (which_path sy ''docker'')))])])))"

record Crypto =
  cr_hmac :: hmac
  cr_sha256 :: "string \<Rightarrow> nat list"
  cr_random :: "nat list"
  cr_clock :: nat

definition scrape_token :: "Crypto \<Rightarrow> field_names \<Rightarrow> (string \<Rightarrow> string + NvLibrary) \<Rightarrow> System \<Rightarrow> ('z Nvml_scheme, string) act" where
  "scrape_token cr F load sy =
     bnd (scrape_report F load sy) (\<lambda>payload.
       case fernet_encrypt (cr_hmac cr) (cr_random cr) (cr_clock cr) (derive_key (cr_sha256 cr) (map F FIELDS)) (utf8 (sy_dumps sy (PDict payload))) of
         None \<Rightarrow> raise (Raised ValueError) | Some token \<Rightarrow> ret token)"

text \<open>What the script prints, and its exit code.\<close>

definition scrape_main ::
  "Crypto \<Rightarrow> (exc \<Rightarrow> string) \<Rightarrow> field_names \<Rightarrow> (string \<Rightarrow> string + NvLibrary) \<Rightarrow> System \<Rightarrow> ('z Nvml_scheme, string \<times> int) act" where
  "scrape_main cr exc_text F load sy =
     (let failed = \<lambda>text. ret (sy_dumps sy (PDict [(''error'', PStr text)]) @ newline, 1) in
      if (case sy_environ sy ''LD_PRELOAD'' of None \<Rightarrow> False | Some v \<Rightarrow> v \<noteq> []) then failed ''LD_PRELOAD is set''
      else attempt (bnd (scrape_token cr F load sy) (\<lambda>token. ret (token @ newline, 0)))
             (\<lambda>e. failed (exc_type e @ '': '' @ exc_text e)))"

end
