(* ===== verification/Rig_Answer.thy ===== *)
theory Rig_Answer
  imports Rig_Scrape Agent_Access
begin

text \<open>
  The scrape from end to end: the validator rewrites the names in the payload (\<^verbatim>\<open>validator/verify/scrape.py\<close>), the rig runs the
  text it was sent (\<^verbatim>\<open>validator/verify/payloads/scrape.py\<close>), and the validator reads what it prints. The names and the key are not
  sent beside the text: the payload finds them in its own lines, so the two sides agree only if both take the same
  names in the same order.
\<close>

section \<open>The names in the text\<close>

text \<open>The lines of the payload that declare the fields: the variable and the field it holds.\<close>

definition FIELD_VARS :: "(string \<times> string) list" where
  "FIELD_VARS = [(''F_INDEX'', ''index''), (''F_NAME'', ''name''), (''F_UUID'', ''uuid''), (''F_SERIAL'', ''serial''),
     (''F_MEMORY_TOTAL'', ''memory_total_mb''), (''F_MEMORY_USED'', ''memory_used_mb''), (''F_CAPABILITY'', ''compute_capability''),
     (''F_POWER_LIMIT'', ''power_limit_w''), (''F_POWER_DEFAULT'', ''power_default_w''), (''F_POWER_MIN'', ''power_min_w''),
     (''F_POWER_MAX'', ''power_max_w''), (''F_CLOCK_GRAPHICS'', ''clock_graphics_mhz''), (''F_CLOCK_SM'', ''clock_sm_mhz''),
     (''F_CLOCK_MEMORY'', ''clock_memory_mhz''), (''F_PCIE_WIDTH'', ''pcie_width''), (''F_PCIE_GENERATION'', ''pcie_generation''),
     (''F_UTILIZATION'', ''utilization''), (''F_MEMORY_UTILIZATION'', ''memory_utilization''), (''F_MIG_MODE'', ''mig_mode''),
     (''F_VIRTUALIZATION'', ''virtualization''), (''F_HOST_VGPU'', ''host_vgpu_mode''), (''F_ECC'', ''ecc_mode''),
     (''F_PCI_BUS'', ''pci_bus_id''), (''F_MINOR'', ''minor''), (''F_PROCESSES'', ''processes''), (''F_ERRORS'', ''errors'')]"

definition assign_line :: "string \<Rightarrow> string \<Rightarrow> string" where
  "assign_line var value = var @ '' = '' @ [quote1] @ value @ [quote1]"

definition FIELD_LINES :: "string list" where
  "FIELD_LINES = map (\<lambda>(var, fld). assign_line var fld) FIELD_VARS"

text \<open>The value a text gives to a variable: what is between the quotes of the last line that assigns it.\<close>

definition assigned :: "string \<Rightarrow> string \<Rightarrow> string" where
  "assigned source var =
     (case List.find (prefix (var @ '' = '' @ [quote1])) (rev (split_on (CHR 0x0A) source)) of
        Some l \<Rightarrow> butlast (drop (length var + 4) l) | None \<Rightarrow> [])"

definition var_of :: "string \<Rightarrow> string" where
  "var_of fld = dget (map prod.swap FIELD_VARS) fld []"

definition payload_names :: "string \<Rightarrow> field_names" where
  "payload_names source fld = assigned source (var_of fld)"

lemma FIELD_VARS_fields: "map snd FIELD_VARS = FIELDS"
  by (simp add: FIELD_VARS_def FIELDS_def)

lemma FIELD_LINES_lines: "list_all (\<lambda>(var, fld). field_line (assign_line var fld) = Some (var, fld)) FIELD_VARS"
  by code_simp

lemma FIELD_VARS_vars: "distinct (map fst FIELD_VARS)" "distinct (map snd FIELD_VARS)"
  "list_all (\<lambda>(var, fld). list_all upper_us var) FIELD_VARS"
  by code_simp+

lemma obfuscate_lines_plain:
  "list_all (\<lambda>l. field_line l = None) ls \<Longrightarrow> obfuscate_lines draw n (ls @ rest) = map_prod (append ls) id (obfuscate_lines draw n rest)"
  by (cases "obfuscate_lines draw n rest"; induction ls) simp_all

lemma obfuscate_lines_fields:
  "list_all (\<lambda>(var, fld). field_line (assign_line var fld) = Some (var, fld)) vs \<Longrightarrow>
   obfuscate_lines draw n (map (\<lambda>(var, fld). assign_line var fld) vs @ rest) =
   map_prod (append (map (\<lambda>(i, var, fld). assign_line var (''_'' @ draw i)) (enumerate n vs)))
     (append (map (\<lambda>(i, var, fld). (''_'' @ draw i, fld)) (enumerate n vs))) (obfuscate_lines draw (n + length vs) rest)"
proof (induction vs arbitrary: n)
  case (Cons v vs)
  obtain var fld where v: "v = (var, fld)" by fastforce
  then show ?case using Cons.IH [of "Suc n"] Cons.prems
    by (cases "obfuscate_lines draw (Suc (n + length vs)) rest") (simp add: Let_def assign_line_def)
next
  case Nil
  then show ?case by (cases "obfuscate_lines draw n rest") simp
qed

lemma no_field_line: "\<not> prefix ''F_'' l \<Longrightarrow> field_line l = None"
  by (simp add: field_line_def Let_def)

section \<open>Other lines\<close>

text \<open>The rest of the payload: no line declares a field.\<close>

definition other_lines :: "string list \<Rightarrow> bool" where
  "other_lines ls \<longleftrightarrow> list_all (\<lambda>l. CHR 0x0A \<notin> set l \<and> \<not> prefix ''F_'' l) ls"

definition drawn_names :: "(nat \<Rightarrow> string) \<Rightarrow> (string \<times> string) list" where
  "drawn_names draw = map (\<lambda>(i, var, fld). (''_'' @ draw i, fld)) (enumerate 0 FIELD_VARS)"

definition drawn_lines :: "(nat \<Rightarrow> string) \<Rightarrow> string list" where
  "drawn_lines draw = map (\<lambda>(i, var, fld). assign_line var (''_'' @ draw i)) (enumerate 0 FIELD_VARS)"

lemma obfuscate_lines_payload:
  assumes "other_lines before" "other_lines after"
  shows "obfuscate_lines draw 0 (before @ FIELD_LINES @ after) = (before @ drawn_lines draw @ after, drawn_names draw)"
proof -
  have b: "list_all (\<lambda>l. field_line l = None) before" and a: "list_all (\<lambda>l. field_line l = None) after"
    using assms by (auto simp: other_lines_def list_all_iff no_field_line)
  have "obfuscate_lines draw n after = (after, [])" for n using obfuscate_lines_plain [OF a, of draw n "[]"] by simp
  then show ?thesis
    using obfuscate_lines_plain [OF b] obfuscate_lines_fields [OF FIELD_LINES_lines, of draw 0 after]
    by (simp add: FIELD_LINES_def drawn_lines_def drawn_names_def)
qed

lemma split_on_join: "ls \<noteq> [] \<Longrightarrow> list_all (\<lambda>l. c \<notin> set l) ls \<Longrightarrow> split_on c (join [c] ls) = ls"
  by (induction ls rule: induct_list012) (simp_all add: split_on_single split_on_append)

lemma FIELD_LINES_plain: "list_all (\<lambda>l. CHR 0x0A \<notin> set l) FIELD_LINES" "FIELD_LINES \<noteq> []"
  by code_simp+

lemma drawn_ne: "drawn_names draw \<noteq> []" "drawn_lines draw \<noteq> []"
  by (simp_all add: drawn_names_def drawn_lines_def FIELD_VARS_def)

lemma obfuscate_payload:
  assumes "other_lines before" "other_lines after"
  shows "obfuscate sha256 draw (join newline (before @ FIELD_LINES @ after)) =
    Inr \<lparr>ob_source = join newline (before @ drawn_lines draw @ after), ob_names = dict_comp (drawn_names draw),
         ob_key = sha256 (concat (map fst (drawn_names draw)))\<rparr>"
proof -
  have "split_on (CHR 0x0A) (join newline (before @ FIELD_LINES @ after)) = before @ FIELD_LINES @ after"
    using assms FIELD_LINES_plain by (intro split_on_join) (auto simp: other_lines_def list_all_iff)
  then show ?thesis using obfuscate_lines_payload [OF assms] drawn_ne(1) by (simp add: obfuscate_def)
qed

section \<open>What the rig finds in the text\<close>

text \<open>\<^verbatim>\<open>secrets.token_hex\<close>: lower-case hexadecimal digits.\<close>

definition token_draws :: "(nat \<Rightarrow> string) \<Rightarrow> bool" where
  "token_draws draw \<longleftrightarrow> inj draw \<and> (\<forall>i. list_all is_lower_hex (draw i))"

lemma enumerate_fields: "map (\<lambda>(i, v). snd v) (enumerate n vs) = map snd vs" "map (\<lambda>(i, v). fst v) (enumerate n vs) = map fst vs"
  by (induction vs arbitrary: n) simp_all

lemma nth_enumerate0: "p \<in> set (enumerate 0 vs) \<longleftrightarrow> (\<exists>i < length vs. p = (i, vs ! i))"
  by (auto simp: in_set_enumerate_eq prod_eq_iff)

lemma drawn_line_cases:
  assumes "l \<in> set (drawn_lines draw)"
  obtains i where "i < length FIELD_VARS" "l = assign_line (fst (FIELD_VARS ! i)) (''_'' @ draw i)"
proof -
  obtain p where "p \<in> set (enumerate 0 FIELD_VARS)" "l = (\<lambda>(i, var, fld). assign_line var (''_'' @ draw i)) p"
    using assms unfolding drawn_lines_def set_map by blast
  then show thesis using that by (auto simp: nth_enumerate0 case_prod_beta)
qed

lemma drawn_lines_plain:
  assumes "token_draws draw"
  shows "list_all (\<lambda>l. CHR 0x0A \<notin> set l) (drawn_lines draw)"
proof -
  have "\<not> is_lower_hex (CHR 0x0A)" by code_simp
  then have hex: "CHR 0x0A \<notin> set (draw i)" for i
    using assms unfolding token_draws_def list_all_iff by blast
  have "list_all (\<lambda>(var, fld). CHR 0x0A \<notin> set var) FIELD_VARS" by code_simp
  then have var: "CHR 0x0A \<notin> set (fst v)" if "v \<in> set FIELD_VARS" for v
    using that unfolding list_all_iff by (cases v) auto
  show ?thesis unfolding list_all_iff
  proof
    fix l assume "l \<in> set (drawn_lines draw)"
    then obtain i where i: "i < length FIELD_VARS" "l = assign_line (fst (FIELD_VARS ! i)) (''_'' @ draw i)" by (rule drawn_line_cases)
    then show "CHR 0x0A \<notin> set l" using var [OF nth_mem [OF i(1)]] hex by (simp add: assign_line_def quote1_def)
  qed
qed

lemma find_unique: "x \<in> set xs \<Longrightarrow> P x \<Longrightarrow> (\<And>y. y \<in> set xs \<Longrightarrow> P y \<Longrightarrow> y = x) \<Longrightarrow> List.find P xs = Some x"
proof (induction xs)
  case (Cons a xs)
  show ?case
  proof (cases "P a")
    case True
    then show ?thesis using Cons.prems(3) [of a] by simp
  next
    case False
    then have "x \<in> set xs" using Cons.prems(1,2) by auto
    then show ?thesis using Cons.IH [OF _ Cons.prems(2)] Cons.prems(3) False by simp
  qed
qed simp

lemma assign_var:
  assumes "list_all upper_us var"
  shows "takeWhile upper_us (var @ '' = '' @ rest) = var"
  using assms by (induction var) (simp_all add: upper_us_def)

lemma assign_line_prefix:
  assumes "list_all upper_us var" "list_all upper_us var'"
  shows "prefix (var @ '' = '' @ [quote1]) (assign_line var' v) \<longleftrightarrow> var = var'"
proof
  assume "prefix (var @ '' = '' @ [quote1]) (assign_line var' v)"
  then obtain rest where "assign_line var' v = var @ '' = '' @ ([quote1] @ rest)" by (auto simp: prefix_def)
  then show "var = var'" using assign_var [OF assms(1)] assign_var [OF assms(2)] unfolding assign_line_def by metis
qed (simp add: assign_line_def)

lemma find_assigned:
  assumes "other_lines before" "other_lines after" "i < length FIELD_VARS" "FIELD_VARS ! i = (var, fld)"
  shows "List.find (prefix (var @ '' = '' @ [quote1])) (rev (before @ drawn_lines draw @ after)) = Some (assign_line var (''_'' @ draw i))"
proof (rule find_unique)
  have up: "list_all upper_us (fst (FIELD_VARS ! j))" if "j < length FIELD_VARS" for j
    using nth_mem [OF that] FIELD_VARS_vars(3) unfolding list_all_iff [of _ FIELD_VARS] by auto
  then have var: "list_all upper_us var" using assms(3,4) by fastforce
  have "prefix ''F_'' (fst v)" if "v \<in> set FIELD_VARS" for v using that unfolding FIELD_VARS_def by auto
  then have F: "prefix ''F_'' var" using nth_mem [OF assms(3)] assms(4) by fastforce
  show "assign_line var (''_'' @ draw i) \<in> set (rev (before @ drawn_lines draw @ after))"
    using assms(3,4) by (force simp: drawn_lines_def nth_enumerate0)
  show "prefix (var @ '' = '' @ [quote1]) (assign_line var (''_'' @ draw i))" using assign_line_prefix [OF var var] by blast
  fix l assume l: "l \<in> set (rev (before @ drawn_lines draw @ after))" "prefix (var @ '' = '' @ [quote1]) l"
  have "prefix ''F_'' l" using F l(2) by (auto simp: prefix_def)
  then have "l \<in> set (drawn_lines draw)" using l(1) assms(1,2) by (auto simp: other_lines_def list_all_iff)
  then obtain j where j: "j < length FIELD_VARS" "l = assign_line (fst (FIELD_VARS ! j)) (''_'' @ draw j)" by (rule drawn_line_cases)
  then have "fst (FIELD_VARS ! j) = fst (FIELD_VARS ! i)" using l(2) assign_line_prefix [OF var up [OF j(1)]] assms(4) by simp
  then have "j = i" using nth_eq_iff_index_eq [OF FIELD_VARS_vars(1), of j i] j(1) assms(3) by simp
  then show "l = assign_line var (''_'' @ draw i)" using j(2) assms(4) by simp
qed

lemma payload_names_drawn:
  assumes "token_draws draw" "other_lines before" "other_lines after" "i < length FIELDS"
  shows "payload_names (join newline (before @ drawn_lines draw @ after)) (FIELDS ! i) = ''_'' @ draw i"
proof -
  have i: "i < length FIELD_VARS" using assms(4) FIELD_VARS_fields by (metis length_map)
  obtain var where v: "FIELD_VARS ! i = (var, FIELDS ! i)" using i FIELD_VARS_fields by (metis nth_map prod.collapse)
  then have "(FIELDS ! i, var) \<in> set (map prod.swap FIELD_VARS)" using nth_mem [OF i] by (force simp: prod.swap_def)
  moreover have "distinct (map fst (map prod.swap FIELD_VARS))" using FIELD_VARS_vars(2) by (simp add: comp_def)
  ultimately have var: "var_of (FIELDS ! i) = var" by (simp add: var_of_def dget_def del: set_map)
  have "split_on (CHR 0x0A) (join newline (before @ drawn_lines draw @ after)) = before @ drawn_lines draw @ after"
    using assms(2,3) drawn_lines_plain [OF assms(1)] drawn_ne(2) by (intro split_on_join) (auto simp: other_lines_def list_all_iff)
  then show ?thesis
    using find_assigned [OF assms(2,3) i v, of draw] by (simp add: payload_names_def assigned_def var assign_line_def butlast_append)
qed

section \<open>Both sides agree\<close>

text \<open>The names of the fields in a run: what the rig finds in the text that was sent.\<close>

definition run_names :: "(nat \<Rightarrow> string) \<Rightarrow> field_names \<Rightarrow> bool" where
  "run_names draw F \<longleftrightarrow> (\<forall>i < length FIELDS. F (FIELDS ! i) = ''_'' @ draw i)"

lemma drawn_names_eq: "drawn_names draw = map (\<lambda>i. (''_'' @ draw i, FIELDS ! i)) [0..<length FIELDS]"
proof (rule nth_equalityI)
  have len: "length FIELD_VARS = length FIELDS" using FIELD_VARS_fields by (metis length_map)
  then show "length (drawn_names draw) = length (map (\<lambda>i. (''_'' @ draw i, FIELDS ! i)) [0..<length FIELDS])"
    by (simp add: drawn_names_def)
  fix i assume "i < length (drawn_names draw)"
  then have i: "i < length FIELD_VARS" by (simp add: drawn_names_def)
  have "snd (FIELD_VARS ! i) = FIELDS ! i" using i FIELD_VARS_fields by (metis nth_map)
  then show "drawn_names draw ! i = map (\<lambda>i. (''_'' @ draw i, FIELDS ! i)) [0..<length FIELDS] ! i"
    using i len by (simp add: drawn_names_def nth_enumerate_eq case_prod_beta)
qed

lemma drawn_names_distinct: "inj draw \<Longrightarrow> distinct (map fst (drawn_names draw))"
  by (simp add: drawn_names_eq distinct_map inj_on_def comp_def)

lemma same_key_names:
  assumes "run_names draw F"
  shows "map F FIELDS = map fst (drawn_names draw)"
  using assms by (intro nth_equalityI) (simp_all add: drawn_names_eq run_names_def)

lemma FIELDS_distinct: "distinct FIELDS"
  using FIELD_VARS_vars(2) FIELD_VARS_fields by metis

lemma run_names_inj:
  assumes "inj draw" "run_names draw F"
  shows "inj_on F (set FIELDS)"
proof -
  have "distinct (map F FIELDS)" using drawn_names_distinct [OF assms(1)] same_key_names [OF assms(2)] by simp
  then show ?thesis by (simp add: distinct_map)
qed

lemma run_names_fresh:
  assumes "run_names draw F" "k \<in> set FIELDS"
  obtains i where "i < length FIELDS" "k = FIELDS ! i" "F k = ''_'' @ draw i"
  using assms unfolding run_names_def in_set_conv_nth by blast

lemma run_names_ok:
  assumes "inj draw" "run_names draw F"
  shows "names_ok F"
proof -
  note inj = run_names_inj [OF assms]
  have words: "hd k \<noteq> CHR ''_''" if "k \<in> set ERROR_WORDS" for k using that by (auto simp: ERROR_WORDS_def)
  have fresh: "hd (F k) = CHR ''_''" if "k \<in> set SINGLE_FIELDS" for k
    by (rule run_names_fresh [OF assms(2) subsetD [OF SINGLE_in_FIELDS that]]) simp
  have "inj_on (error_name F) (set SINGLE_FIELDS \<union> set ERROR_WORDS)"
  proof (rule inj_onI)
    fix x y assume xy: "x \<in> set SINGLE_FIELDS \<union> set ERROR_WORDS" "y \<in> set SINGLE_FIELDS \<union> set ERROR_WORDS" "error_name F x = error_name F y"
    show "x = y"
    proof (cases "x \<in> set SINGLE_FIELDS \<longleftrightarrow> y \<in> set SINGLE_FIELDS")
      case True
      then show ?thesis using xy(3) inj_onD [OF inj, of x y] SINGLE_in_FIELDS by (auto simp: error_name_def split: if_splits)
    next
      case False
      then show ?thesis using xy fresh [of x] fresh [of y] words [of x] words [of y] unfolding error_name_def by (metis Un_iff)
    qed
  qed
  with inj show ?thesis by (simp add: names_ok_def)
qed

text \<open>A card as the validator has it in the end: its own names, but the keys of its errors as the rig filed them.\<close>

definition restored_card :: "field_names \<Rightarrow> pydict \<Rightarrow> pydict" where
  "restored_card F c = map (\<lambda>(k, v). (k, hide_value F k v)) c"

lemma restore_run_card:
  assumes "inj draw" "run_names draw F" "card_ok c"
  shows "restore_card (drawn_names draw) (under_names F c) = restored_card F c"
proof -
  let ?n = "drawn_names draw"
  have undo: "dget ?n (F k) (F k) = k" if "k \<in> set FIELDS" for k
  proof (rule run_names_fresh [OF assms(2) that])
    fix i assume i: "i < length FIELDS" "k = FIELDS ! i" "F k = ''_'' @ draw i"
    then have "(F k, k) \<in> set ?n" by (auto simp: drawn_names_eq)
    then show ?thesis using drawn_names_distinct [OF assms(1)] by (simp add: dget_def)
  qed
  have keys: "set (map fst c) \<subseteq> set FIELDS" "distinct (map fst c)" using assms(3) by (auto simp: card_ok_def)
  have "map (\<lambda>(k, v). (dget ?n k k, v)) (under_names F c) = restored_card F c"
    unfolding under_names_def restored_card_def map_map
  proof (rule map_cong [OF refl])
    fix p assume "p \<in> set c"
    then have "fst p \<in> set FIELDS" using keys(1) by auto
    then show "((\<lambda>(k, v). (dget ?n k k, v)) \<circ> (\<lambda>(k, v). (F k, hide_value F k v))) p = (case p of (k, v) \<Rightarrow> (k, hide_value F k v))"
      using undo by (cases p) simp
  qed
  moreover have "map fst (restored_card F c) = map fst c" by (simp add: restored_card_def case_prod_beta comp_def)
  ultimately show ?thesis using keys(2) by (simp add: restore_card_def dict_comp_distinct)
qed

section \<open>The token\<close>

lemma urlsafe_plain: "n < 64 \<Longrightarrow> \<not> is_space (urlsafe_char n) \<and> \<not> is_linebreak (urlsafe_char n)"
  using of_urlsafe_char [of n] by (auto simp: is_space_def is_linebreak_def Let_def split: if_splits)

definition token_char :: "char \<Rightarrow> bool" where
  "token_char c \<longleftrightarrow> \<not> is_space c \<and> \<not> is_linebreak c"

lemma sextets:
  fixes a b :: nat
  assumes "a < 256"
  shows "a div 4 < 64" "16 * (a mod 4) < 64" "4 * (a mod 16) < 64" "a mod 64 < 64"
    "b < 256 \<Longrightarrow> 16 * (a mod 4) + b div 16 < 64" "b < 256 \<Longrightarrow> 4 * (a mod 16) + b div 64 < 64"
proof -
  have m: "a mod 4 \<le> 3" "a mod 16 \<le> 15" using mod_less_divisor [of 4 a] mod_less_divisor [of 16 a] by simp_all
  have d: "x < 256 \<Longrightarrow> x div 4 < 64" "x < 256 \<Longrightarrow> x div 16 < 16" "x < 256 \<Longrightarrow> x div 64 < 4" for x :: nat by (simp_all add: less_mult_imp_div_less)
  show "a div 4 < 64" "16 * (a mod 4) < 64" "4 * (a mod 16) < 64" "a mod 64 < 64"
    "b < 256 \<Longrightarrow> 16 * (a mod 4) + b div 16 < 64" "b < 256 \<Longrightarrow> 4 * (a mod 16) + b div 64 < 64"
    using m d [OF assms] d [of b] by simp_all
qed

lemma equals_plain: "\<not> is_space (CHR ''='')" "\<not> is_linebreak (CHR ''='')"
  by code_simp+

lemma token_chars: "octets bs \<Longrightarrow> list_all token_char (urlsafe_b64encode bs)"
proof (induction bs rule: urlsafe_b64encode.induct)
  case (4 a b c rest)
  then show ?case by (simp add: token_char_def urlsafe_plain sextets)
qed (simp_all add: token_char_def urlsafe_plain sextets equals_plain)

lemma token_length: "length (urlsafe_b64encode bs) = 4 * ((length bs + 2) div 3)"
proof (induction bs rule: urlsafe_b64encode.induct)
  case (4 a b c rest)
  then show ?case by simp presburger
qed simp_all

lemma scan_token:
  assumes "list_all token_char token" "length token < SCAN_BYTES"
  shows "scan_window (token @ newline) = [token]"
proof -
  have "one_line token" using assms(1) by (auto simp: one_line_def list_all_iff token_char_def)
  then have "splitlines (token @ newline) = [token]" using splitlines_line [of token "[]"] by simp
  moreover have "strip token = token" using assms(1) by (intro strip_unchanged) (auto simp: list_all_iff token_char_def)
  ultimately show ?thesis using assms(2) by (simp add: scan_window_short)
qed

section \<open>The report under other names\<close>

definition report_of :: "System \<Rightarrow> pyval \<Rightarrow> pydict \<Rightarrow> pydict \<Rightarrow> pydict \<Rightarrow> pyval \<Rightarrow> pydict" where
  "report_of sy gpus nvml host docker hashes =
     [(''version'', PInt 1), (''collected_at'', PFloat (py_round_to 3 (sy_now sy))), (''elapsed_ms'', PFloat (py_round_to 1 (sy_elapsed sy))),
      (''gpus'', gpus), (''nvml'', PDict nvml), (''host'', PDict host), (''docker'', PDict docker),
      (''probes'', PDict (scrape_probes sy docker (version_pair (sy_release sy)))), (''hashes'', hashes)]"

lemma nvml_result_gpus:
  "dget (nvml_result path h e v n cs x) ''gpus'' (PList []) = PList (map PDict cs)"
  "AList.delete ''gpus'' (nvml_result path h e v n cs x) =
     [(''library'', PStr path), (''hashes'', PDict h), (''errors'', PList (map PStr e)), (''driver'', PStr (fst v)),
      (''cuda'', PStr (snd (snd v))), (''nvml_version'', PStr (fst (snd v))), (''count'', PInt n)] @ AList.delete ''gpus'' x"
  "dget (nvml_result path h e v n cs x) ''hashes'' PNone = PDict h"
  by (simp_all add: nvml_result_def dget_def)

text \<open>What a finished report is made of.\<close>

lemma scrape_report_shape:
  fixes w :: "'z Nvml_scheme"
  assumes "names_ok F" "scrape_report id load sy w = (w', Inr report)"
  obtains cs nvml host docker hashes and w1 w2 :: "'z Nvml_scheme" where "list_all good_card cs"
    "report = report_of sy (PList (map PDict cs)) nvml host docker hashes"
    "scrape_report F load sy w = (w', Inr (report_of sy (PList (map (\<lambda>c. PDict (under_names F c)) cs)) nvml host docker hashes))"
    "docker_facts sy = Inr docker" "host_facts sy docker w1 = (w2, Inr host)"
    "\<exists>e d c. dget nvml ''errors'' PNone = PList e \<and> dget nvml ''driver'' (PStr []) = PStr d \<and> dget nvml ''cuda'' (PStr []) = PStr c" "nvml \<noteq> []"
proof -
  obtain w1 path h e v n cs x where nv: "scrape_nvml id load sy w = (w1, Inr (nvml_result path h e v n cs x))" "list_all good_card cs"
    "scrape_nvml F load sy w = (w1, Inr (nvml_result path h e v n (map (under_names F) cs) x))"
    by (rule scrape_nvml_names [OF assms(1)])
  let ?nv = "[(''library'', PStr path), (''hashes'', PDict h), (''errors'', PList (map PStr e)), (''driver'', PStr (fst v)),
      (''cuda'', PStr (snd (snd v))), (''nvml_version'', PStr (fst (snd v))), (''count'', PInt n)] @ AList.delete ''gpus'' x"
  obtain docker where d: "docker_facts sy = Inr docker"
    using assms(2) nv(1) by (cases "docker_facts sy") (simp_all add: scrape_report_def bnd_def lift_def del: id_apply)
  obtain w2 host where h: "host_facts sy docker w1 = (w2, Inr host)"
    using assms(2) nv(1) d by (auto simp: scrape_report_def bnd_def lift_def simp del: id_apply split: prod.splits sum.splits)
  let ?hs = "PDict [(''nvidia_smi'', PDict (file_hashes sy (which_path sy ''nvidia-smi''))), (''nvml'', py_or (PDict h) (PDict [])),
    (''docker'', PDict (file_hashes sy (which_path sy ''docker'')))]"
  have "w' = w2" "report = report_of sy (PList (map PDict cs)) ?nv host docker ?hs"
    using assms(2) nv(1) d h by (simp_all add: scrape_report_def bnd_def lift_def nvml_result_gpus report_of_def del: id_apply)
  moreover have "scrape_report F load sy w = (w2, Inr (report_of sy (PList (map (\<lambda>c. PDict (under_names F c)) cs)) ?nv host docker ?hs))"
    using nv(3) d h by (simp add: scrape_report_def bnd_def lift_def nvml_result_gpus report_of_def comp_def)
  ultimately show thesis using nv(2) d h by (intro that [of cs ?nv host docker ?hs w1 w2]) (simp_all add: dget_def)
qed

section \<open>The specification of a report\<close>

lemma map_of_restored: "map_of (restored_card F c) k = map_option (hide_value F k) (map_of c k)"
  by (induction c) (auto simp: restored_card_def)

lemma spec_card_total:
  assumes "memory_typed c"
  shows "\<exists>xs. spec_card (PDict (restored_card F c)) = Inr xs"
proof -
  have "map_of (restored_card F c) ''memory_total_mb'' = map_of c ''memory_total_mb''"
    by (cases "map_of c ''memory_total_mb''") (simp_all add: map_of_restored hide_value_def)
  then have "\<exists>n. int_attr (PDict (restored_card F c)) ''memory_total_mb'' = Inr n"
    using assms by (auto simp: int_attr_def dget_def memory_typed_def py_or_def split: option.splits)
  then show ?thesis by (auto simp: spec_card_def str_attr_def)
qed

lemma rmap_defined: "(\<And>x. x \<in> set xs \<Longrightarrow> \<exists>y. f x = Inr y) \<Longrightarrow> \<exists>ys. rmap f xs = Inr ys"
proof (induction xs)
  case (Cons x xs)
  then obtain y ys where "f x = Inr y" "rmap f xs = Inr ys" by fastforce
  then show ?case by simp
qed simp

lemma disk_volume:
  assumes "map_of (disk_facts sy dr) k = Some v"
  obtains d where "v = PDict d" "d \<noteq> []" "dget d ''total_gb'' PNone = PNone \<or> (\<exists>q. dget d ''total_gb'' PNone = PFloat q)"
proof -
  have "(k, v) \<in> set (disk_facts sy dr)" using assms by (rule map_of_SomeD)
  then obtain lp where "(k, v) \<in> set (disk_entry sy lp)" unfolding disk_facts_def by auto
  then show thesis using that by (auto simp: disk_entry_def dget_def split: prod.splits if_splits sum.splits)
qed

lemma spec_volume_total:
  obtains d where "spec_volume (PDict (disk_facts sy dr)) = Inr (PDict d)"
    "dget d ''total_gb'' PNone = PNone \<or> (\<exists>q. dget d ''total_gb'' PNone = PFloat q)"
proof (cases "map_of (disk_facts sy dr) ''docker_root''")
  case (Some v)
  then obtain d where "v = PDict d" "d \<noteq> []" "dget d ''total_gb'' PNone = PNone \<or> (\<exists>q. dget d ''total_gb'' PNone = PFloat q)" by (rule disk_volume)
  then show thesis using that Some by (simp add: spec_volume_def dget_def)
next
  case none: None
  show thesis
  proof (cases "map_of (disk_facts sy dr) ''root''")
    case (Some v)
    then obtain d where "v = PDict d" "d \<noteq> []" "dget d ''total_gb'' PNone = PNone \<or> (\<exists>q. dget d ''total_gb'' PNone = PFloat q)" by (rule disk_volume)
    then show thesis using that none Some by (cases d) (auto simp: spec_volume_def dget_def)
  next
    case None
    then show thesis using that [of "[]"] none by (simp add: spec_volume_def dget_def)
  qed
qed

lemma host_shape:
  assumes "host_facts sy docker w = (w', Inr host)"
  obtains dr model cores load up ds where "host = host_dict sy dr [(''model'', model), (''count'', PInt cores), (''load'', load)] up ds"
proof -
  obtain cpu where cpu: "cpu_facts sy = Inr cpu" using assms by (cases "cpu_facts sy") (simp_all add: host_facts_def bnd_def lift_def)
  then obtain model cores load where c: "cpu = [(''model'', model), (''count'', PInt cores), (''load'', load)]" by (auto simp: cpu_facts_def result_simps)
  obtain up where up: "uptime_seconds sy = Inr up" using assms cpu by (cases "uptime_seconds sy") (simp_all add: host_facts_def bnd_def lift_def)
  show thesis using assms cpu c up by (auto simp: host_facts_def bnd_def lift_def split: prod.splits sum.splits intro: that)
qed

lemma py_or_same: "py_or (PInt n) (PInt 0) = PInt n" "py_or (PStr t) (PStr []) = PStr t" "py_or (PDict d) (PDict []) = PDict d" "py_or (PList l) (PList []) = PList l"
  by (simp_all add: py_or_def)

lemma spec_host_total: "\<exists>h. spec_host (PDict (host_dict sy dr [(''model'', model), (''count'', PInt cores), (''load'', load)] up ds)) = Inr h"
proof -
  obtain d where "spec_volume (PDict (disk_facts sy dr)) = Inr (PDict d)"
    "dget d ''total_gb'' PNone = PNone \<or> (\<exists>q. dget d ''total_gb'' PNone = PFloat q)" by (rule spec_volume_total)
  moreover from this(2) have "\<exists>q. py_float (py_or (dget d ''total_gb'' PNone) (PFloat 0)) = Inr q" by (auto simp: py_or_def)
  ultimately show ?thesis
    by (auto simp: spec_host_def host_dict_def Let_def sub_dict_def int_attr_def str_attr_def dget_def [of "_ # _"] memory_facts_def py_or_same)
qed

lemma ok_attr_dict: "dget d k PNone = PDict p \<Longrightarrow> \<exists>b. ok_attr (PDict d) k which = Inr b"
  by (cases p) (auto simp: ok_attr_def sub_dict_def py_or_def)

lemma probes_shape:
  obtains img source sysbox quota idmapped where "scrape_probes sy docker kver =
    [(''image'', img), (''image_source'', source), (''sysbox'', PDict sysbox), (''storage_quota'', PDict quota), (''idmapped'', PDict idmapped)]"
proof -
  have pair: "\<exists>a b. (if p then (skipped x, skipped x) else if q then (skipped y, skipped y) else (if r then PDict u else skipped z, PDict v)) = (PDict a, PDict b)"
    for p q r x y z u v by (auto simp: skipped_def)
  let ?img = "fst (probe_image sy)" and ?rts = "case py_or (dget docker ''runtimes'' PNone) (PList []) of PList rs \<Rightarrow> rs | _ \<Rightarrow> []"
  let ?pair = "if \<not> truthy (dget docker ''available'' PNone) then (skipped ''docker unavailable'', skipped ''docker unavailable'')
             else if ?img = [] then (skipped ''no local image'', skipped ''no local image'')
             else (if PStr ''sysbox-runc'' \<in> set ?rts then PDict (probe_command sy (SYSBOX_PROBE ?img) (Some ''GPU 0''))
                   else skipped ''sysbox-runc runtime not registered'',
                   PDict (probe_command sy (QUOTA_PROBE ?img) None))"
  obtain a b where "?pair = (PDict a, PDict b)" using pair by blast
  then have "scrape_probes sy docker kver = [(''image'', PStr ?img), (''image_source'', PStr (snd (probe_image sy))), (''sysbox'', PDict a),
      (''storage_quota'', PDict b), (''idmapped'', PDict (idmapped_facts sy kver ?rts))]"
    unfolding scrape_probes_def Let_def case_prod_beta by (simp only: fst_conv snd_conv)
  then show thesis by (rule that)
qed

lemma docker_runtimes:
  assumes "docker_facts sy = Inr docker"
  shows "\<exists>xs. dget docker ''runtimes'' PNone = PNone \<or> dget docker ''runtimes'' PNone = PList xs" "docker \<noteq> []"
  using assms by (auto simp: docker_facts_def docker_unavailable_def dget_def result_simps split: prod.splits if_splits option.splits)

lemma report_of_get:
  "dget (report_of sy g nvml host docker hashes) ''gpus'' PNone = g" "dget (report_of sy g nvml host docker hashes) ''nvml'' PNone = PDict nvml"
  "dget (report_of sy g nvml host docker hashes) ''host'' PNone = PDict host" "dget (report_of sy g nvml host docker hashes) ''docker'' PNone = PDict docker"
  "dget (report_of sy g nvml host docker hashes) ''probes'' PNone = PDict (scrape_probes sy docker (version_pair (sy_release sy)))"
  "AList.update ''gpus'' g' (report_of sy g nvml host docker hashes) = report_of sy g' nvml host docker hashes"
  by (simp_all add: report_of_def dget_def)

lemma report_spec_total:
  assumes "list_all good_card cs" "docker_facts sy = Inr docker" "host_facts sy docker w1 = (w2, Inr host)"
    and nv: "\<exists>e d c. dget nvml ''errors'' PNone = PList e \<and> dget nvml ''driver'' (PStr []) = PStr d \<and> dget nvml ''cuda'' (PStr []) = PStr c"
    and rep_def: "rep = report_of sy (PList (map (\<lambda>c. PDict (restored_card F c)) cs)) nvml host docker hashes"
  shows "\<exists>spec. build_spec rep address port_range = Inr spec" "\<exists>es. nvml_errors rep = Inr es"
proof -
  have sub: "sub_dict (PDict rep) ''host'' = Inr (PDict host)" "sub_dict (PDict rep) ''nvml'' = Inr (PDict nvml)"
    "sub_dict (PDict rep) ''docker'' = Inr (PDict docker)" "sub_dict (PDict rep) ''probes'' = Inr (PDict (scrape_probes sy docker (version_pair (sy_release sy))))"
    unfolding rep_def sub_dict_def by (simp_all add: report_of_get py_or_same)
  show "\<exists>es. nvml_errors rep = Inr es" using nv by (auto simp: nvml_errors_def sub py_or_same)
  have "\<exists>xs. spec_card v = Inr xs" if "v \<in> set (map (\<lambda>c. PDict (restored_card F c)) cs)" for v
    using that assms(1) spec_card_total by (auto simp: list_all_iff)
  then obtain cards where cards: "rmap spec_card (map (\<lambda>c. PDict (restored_card F c)) cs) = Inr cards" using rmap_defined by blast
  have it: "iter_field rep ''gpus'' = Inr (map (\<lambda>c. PDict (restored_card F c)) cs)"
    unfolding rep_def by (simp add: iter_field_def report_of_get py_or_same)
  obtain dr model cores load up ds where host: "host = host_dict sy dr [(''model'', model), (''count'', PInt cores), (''load'', load)] up ds"
    by (rule host_shape [OF assms(3)])
  obtain h where h: "spec_host (PDict host) = Inr h" using spec_host_total unfolding host by blast
  obtain img source a b c where p: "scrape_probes sy docker (version_pair (sy_release sy)) =
    [(''image'', img), (''image_source'', source), (''sysbox'', PDict a), (''storage_quota'', PDict b), (''idmapped'', PDict c)]" by (rule probes_shape)
  let ?p = "PDict (scrape_probes sy docker (version_pair (sy_release sy)))"
  obtain x y z where oks: "ok_attr ?p ''sysbox'' ''ok'' = Inr x" "ok_attr ?p ''idmapped'' ''idmapped'' = Inr y" "ok_attr ?p ''storage_quota'' ''ok'' = Inr z"
  proof -
    have "dget (scrape_probes sy docker (version_pair (sy_release sy))) ''sysbox'' PNone = PDict a"
      "dget (scrape_probes sy docker (version_pair (sy_release sy))) ''idmapped'' PNone = PDict c"
      "dget (scrape_probes sy docker (version_pair (sy_release sy))) ''storage_quota'' PNone = PDict b" unfolding p by (simp_all add: dget_def)
    from this [THEN ok_attr_dict] show thesis using that by blast
  qed
  have "\<exists>xs. py_iter (py_or (dget docker ''runtimes'' PNone) (PList [])) = Inr xs" using docker_runtimes(1) [OF assms(2)] by (auto simp: py_or_same)
  then obtain rts where rts: "py_iter (py_or (dget docker ''runtimes'' PNone) (PList [])) = Inr rts" by blast
  show "\<exists>spec. build_spec rep address port_range = Inr spec"
    unfolding build_spec_def sub it cards h oks rts rbind_Inr str_attr_def attr_get.simps by blast
qed

section \<open>The run\<close>

lemma scrape_main_prints:
  assumes "sy_environ sy ''LD_PRELOAD'' = None" "scrape_report F load sy w = (w', Inr report)"
    and "fernet_encrypt (cr_hmac cr) (cr_random cr) (cr_clock cr) (derive_key (cr_sha256 cr) (map F FIELDS)) (utf8 (sy_dumps sy (PDict report))) = Some token"
  shows "scrape_main cr exc_text F load sy w = (w', Inr (token @ newline, 0))"
  using assms by (simp add: scrape_main_def scrape_token_def attempt_def bnd_def Let_def)

text \<open>The library functions behave as documented: SHA-256 and HMAC-SHA256 give 32 bytes, the random source gives the 16 bytes asked for, and
  the clock is before the year 4147.\<close>

definition crypto_ok :: "Crypto \<Rightarrow> bool" where
  "crypto_ok cr \<longleftrightarrow> hmac_sha256 (cr_hmac cr) \<and> (\<forall>s. length (cr_sha256 cr s) = 32 \<and> octets (cr_sha256 cr s))
     \<and> length (cr_random cr) = 16 \<and> octets (cr_random cr) \<and> cr_clock cr < 2 ^ 36"

lemma utf8_octets: "octets (utf8 s)" "map char_of (utf8 s) = s"
  by (induction s) (simp_all add: utf8_def)

lemma encrypted_token:
  assumes "crypto_ok cr" "length text \<le> 196000"
  obtains token where "fernet_encrypt (cr_hmac cr) (cr_random cr) (cr_clock cr) (derive_key (cr_sha256 cr) names) (utf8 text) = Some token"
    "fernet_decrypt (cr_hmac cr) (cr_sha256 cr (concat names)) token = Some (utf8 text)" "startswith token TOKEN_PREFIX"
    "list_all token_char token" "length token < SCAN_BYTES"
proof -
  let ?key = "cr_sha256 cr (concat names)" and ?data = "utf8 text"
  have k: "length ?key = 32" "octets ?key" and c: "hmac_sha256 (cr_hmac cr)" "length (cr_random cr) = 16" "octets (cr_random cr)" "cr_clock cr < 2 ^ 36"
    using assms(1) by (simp_all add: crypto_ok_def)
  obtain token where t: "fernet_encrypt (cr_hmac cr) (cr_random cr) (cr_clock cr) (urlsafe_b64encode ?key) ?data = Some token"
    "fernet_decrypt (cr_hmac cr) ?key token = Some ?data" "cr_clock cr < 2 ^ 36 \<Longrightarrow> prefix ''gAAAAA'' token"
    using fernet_roundtrip [OF c(1) k c(2,3) utf8_octets(1) [of "text"], where now = "cr_clock cr"] by blast
  let ?basic = "fernet_body (take 16 (drop 16 ?key)) (cr_random cr) (cr_clock cr) ?data"
  have token: "token = urlsafe_b64encode (?basic @ cr_hmac cr (take 16 ?key) ?basic)"
    using t(1) b64_roundtrip [OF k(2)] by (simp add: fernet_encrypt_def Let_def)
  have d: "length (take 16 (drop 16 ?key)) = 16" "octets (take 16 (drop 16 ?key))" using k by (simp_all add: octets_parts)
  note b = cbc_decrypts [OF d c(2,3) pad16_ok(1) [OF utf8_octets(1)] pad16_ok(2)]
  have oct: "octets (?basic @ cr_hmac cr (take 16 ?key) ?basic)"
    using b c(1,3) pack_u64_ok by (simp add: fernet_body_def hmac_sha256_def)
  have "length (pad16 ?data) \<le> length text + 16" by (simp add: pad16_def Let_def utf8_def)
  then have "length (?basic @ cr_hmac cr (take 16 ?key) ?basic) \<le> length text + 73"
    using b c(1,2) pack_u64_ok by (simp add: fernet_body_def hmac_sha256_def)
  then have "length token < SCAN_BYTES" using assms(2) unfolding token token_length SCAN_BYTES_def by linarith
  then show thesis
    using that [of token] t c(4) token_chars [OF oct] unfolding token by (simp add: derive_key_def startswith_def TOKEN_PREFIX_def)
qed

lemma run_names_payload:
  assumes "token_draws draw" "other_lines before" "other_lines after"
  shows "run_names draw (payload_names (join newline (before @ drawn_lines draw @ after)))"
  using payload_names_drawn [OF assms] by (simp add: run_names_def)

lemma scrape_read_report:
  assumes "\<not> transport_failed r" "res_stdout r = token @ newline" "list_all token_char token" "length token < SCAN_BYTES" "startswith token TOKEN_PREFIX"
    and "ck_decrypt env (ob_key ob) token = Some raw" "ck_loads env raw = Some (PDict data)"
    and "restore data (ob_names ob) = Inr restored" "build_spec restored address port_range = Inr spec" "nvml_errors restored = Inr es"
  shows "\<exists>res. scrape_read env ob address port_range seed r = Inr res \<and> passed (sc_verdict res) \<and> sc_data res = Some restored \<and> sc_spec res = Some spec"
proof -
  have scan: "scan_window (res_stdout r) = [token]" using scan_token [OF assms(3,4)] assms(2) by simp
  then have c: "candidates (res_stdout r) = [token]" using assms(5) by (simp add: candidates_def MAX_CANDIDATES_def)
  obtain rest where "token = ''gAAAAA'' @ rest" using assms(5) by (auto simp: startswith_def TOKEN_PREFIX_def prefix_def)
  then have "error_line (ck_loads env) (res_stdout r) = []" using scan by (simp add: error_line_def)
  then show ?thesis using assms(1,6-) c by (simp add: scrape_read_def Let_def passed_def mk_verdict_def)
qed

lemma restore_report:
  assumes "inj draw" "run_names draw F" "list_all good_card cs"
  shows "restore (report_of sy (PList (map (\<lambda>c. PDict (under_names F c)) cs)) nvml host docker hashes) (dict_comp (drawn_names draw)) =
    Inr (report_of sy (PList (map (\<lambda>c. PDict (restored_card F c)) cs)) nvml host docker hashes)"
proof -
  have cards: "map (\<lambda>c. PDict (restore_card (drawn_names draw) (under_names F c))) cs = map (\<lambda>c. PDict (restored_card F c)) cs"
    using assms(3) restore_run_card [OF assms(1,2)] by (auto simp: list_all_iff)
  have dicts: "dicts_of (map (\<lambda>c. PDict (under_names F c)) cs) = map (under_names F) cs" by (induction cs) simp_all
  show ?thesis
    by (simp add: restore_def dict_items_def iter_field_def report_of_get py_or_same dicts dict_comp_distinct [OF drawn_names_distinct [OF assms(1)]] comp_def cards)
qed

text \<open>What a program printed.\<close>

definition printed :: "'s \<times> (exc + string \<times> int) \<Rightarrow> string" where
  "printed p = (case snd p of Inr (out, _) \<Rightarrow> out | Inl _ \<Rightarrow> [])"

section \<open>A concrete run\<close>

definition rep_draw :: "nat \<Rightarrow> string" where "rep_draw i = replicate i (CHR ''a'')"

definition demo_names :: field_names where
  "demo_names = payload_names (join newline ([] @ drawn_lines rep_draw @ []))"

text \<open>A library with one card that tells nothing about itself.\<close>

definition demo_library :: NvLibrary where
  "demo_library = \<lparr>nl_has = \<lambda>name. name \<in> {''nvmlInit_v2'', ''nvmlDeviceGetCount_v2'', ''nvmlDeviceGetHandleByIndex_v2''},
     nl_answer = \<lambda>_ _. nvml_missing\<lparr>na_code := 0, na_ints := [1]\<rparr>\<rparr>"

definition demo_system :: System where
  "demo_system = bare_system\<lparr>sy_isfile := \<lambda>_. True, sy_file := \<lambda>_. Inr []\<rparr>"

definition demo_nvml :: Nvml where "demo_nvml = \<lparr>nv_calls = [], nv_errors = []\<rparr>"

definition demo_crypto :: Crypto where
  "demo_crypto = \<lparr>cr_hmac = \<lambda>k m. replicate 32 (length m mod 256), cr_sha256 = \<lambda>s. replicate 32 (length s mod 256),
     cr_random = replicate 16 7, cr_clock = 1700000000\<rparr>"

definition honest_result :: "string \<Rightarrow> CommandResult" where
  "honest_result out = \<lparr>res_command = [], res_exit_code = 0, res_stdout = out, res_stderr = [], res_elapsed_ms = 5, res_error = []\<rparr>"

definition demo_out :: string where
  "demo_out = printed (scrape_main demo_crypto (\<lambda>_. []) demo_names (\<lambda>_. Inr demo_library) demo_system demo_nvml)"

definition report_dict :: "'s \<times> (exc + pydict) \<Rightarrow> pydict" where
  "report_dict p = (case snd p of Inr d \<Rightarrow> d | Inl _ \<Rightarrow> [])"

definition honest_env :: CheckEnv where
  "honest_env = \<lparr>ck_rig = \<lambda>_ _. honest_result demo_out, ck_refuses = \<lambda>_ _. None,
     ck_loads = \<lambda>_. Some (PDict (report_dict (scrape_report demo_names (\<lambda>_. Inr demo_library) demo_system demo_nvml))),
     ck_sha256 = cr_sha256 demo_crypto, ck_decrypt = \<lambda>key token. map_option (map char_of) (fernet_decrypt (cr_hmac demo_crypto) key token),
     ck_payload = join newline ([] @ FIELD_LINES @ []), ck_draw = rep_draw\<rparr>"

lemma rep_draws: "token_draws rep_draw"
proof -
  have "is_lower_hex (CHR ''a'')" by code_simp
  then show ?thesis by (auto simp: token_draws_def rep_draw_def inj_def list_all_iff dest: arg_cong [of _ _ length])
qed

lemma demo_host: "\<exists>host. host_facts demo_system docker w = (w, Inr host)"
proof -
  have rf: "read_file demo_system path n = []" for path n by (simp add: read_file_def demo_system_def)
  have "float_of_str ''0'' = Inr 0" by code_simp
  then have "uptime_seconds demo_system = Inr 0" by (simp add: uptime_seconds_def rf split_ws.simps)
  moreover have "\<exists>cpu. cpu_facts demo_system = Inr cpu" by (simp add: cpu_facts_def rf)
  ultimately show ?thesis by (auto simp: host_facts_def bnd_def lift_def nvidia_devices_def demo_system_def bare_system_def)
qed

lemma demo_report:
  fixes w :: "'z Nvml_scheme"
  assumes "names_ok F"
  shows "\<exists>w' report named. scrape_report id load demo_system w = (w', Inr report) \<and> scrape_report F load demo_system w = (w', Inr named)"
proof -
  have d: "docker_facts demo_system = Inr (docker_unavailable ''command not found'')" by code_simp
  obtain w1 path h e v n cs x where nv: "scrape_nvml id load demo_system w = (w1, Inr (nvml_result path h e v n cs x))" "list_all good_card cs"
    "scrape_nvml F load demo_system w = (w1, Inr (nvml_result path h e v n (map (under_names F) cs) x))"
    by (rule scrape_nvml_names [OF assms])
  obtain host where "host_facts demo_system (docker_unavailable ''command not found'') w1 = (w1, Inr host)" using demo_host [of _ w1] by blast
  with nv(1,3) d show ?thesis by (simp add: scrape_report_def bnd_def lift_def del: id_apply)
qed

section \<open>Property\<close>

text \<open>C7: An honest rig passes the scrape and the validator gets its report: the rig runs the text the validator sent, with the
  names it finds in that text, and whenever the payload can build its report (under its own names: \<open>report\<close>) and the report is not larger than
  196000 characters, the validator finds the token in the output, decrypts it with the key of the run, passes the scrape, and
  holds that report with every card under the names of its fields. Only the keys of a card's errors keep the drawn names.\<close>

theorem scrape_end_to_end:
  fixes w0 :: "'z Nvml_scheme"
  assumes payload: "ck_payload env = join newline (before @ FIELD_LINES @ after)" "other_lines before" "other_lines after"
    and draws: "token_draws (ck_draw env)"
    and libraries: "crypto_ok cr" "ck_sha256 env = cr_sha256 cr"
      "ck_decrypt env = (\<lambda>key token. map_option (map char_of) (fernet_decrypt (cr_hmac cr) key token))"
    and F: "F = payload_names (join newline (before @ drawn_lines (ck_draw env) @ after))"
    and rig: "sy_environ sy ''LD_PRELOAD'' = None" "scrape_report id load sy w0 = (w1, Inr report)"
      "length (sy_dumps sy (PDict named)) \<le> 196000" "ck_loads env (sy_dumps sy (PDict named)) = Some (PDict named)"
    and named: "scrape_report F load sy w0 = (w1, Inr named)"
    and answer: "\<not> transport_failed r" "res_stdout r = printed (scrape_main cr exc_text F load sy w0)"
      "ck_rig env (w_sent w) (shlex_quote python @ '' -I -'', Some (join newline (before @ drawn_lines (ck_draw env) @ after))) = r"
  shows "\<exists>w' res cs. scrape_run env python address port_range seed w = (w', Inr res) \<and> passed (sc_verdict res)
    \<and> dget report ''gpus'' PNone = PList (map PDict cs)
    \<and> sc_data res = Some (AList.update ''gpus'' (PList (map (\<lambda>c. PDict (restored_card F c)) cs)) report)"
proof -
  let ?draw = "ck_draw env" and ?src = "join newline (before @ drawn_lines (ck_draw env) @ after)"
  have inj: "inj ?draw" using draws by (simp add: token_draws_def)
  have run: "run_names ?draw F" unfolding F by (rule run_names_payload [OF draws payload(2,3)])
  obtain cs nvml host docker hashes and u1 u2 :: "'z Nvml_scheme" where cs: "list_all good_card cs"
    and rep: "report = report_of sy (PList (map PDict cs)) nvml host docker hashes"
    and repF: "scrape_report F load sy w0 = (w1, Inr (report_of sy (PList (map (\<lambda>c. PDict (under_names F c)) cs)) nvml host docker hashes))"
    and parts: "docker_facts sy = Inr docker" "host_facts sy docker u1 = (u2, Inr host)"
      "\<exists>e d c. dget nvml ''errors'' PNone = PList e \<and> dget nvml ''driver'' (PStr []) = PStr d \<and> dget nvml ''cuda'' (PStr []) = PStr c"
    by (rule scrape_report_shape [OF run_names_ok [OF inj run] rig(2)])
  have nm: "named = report_of sy (PList (map (\<lambda>c. PDict (under_names F c)) cs)) nvml host docker hashes" using named repF by simp
  obtain token where t: "fernet_encrypt (cr_hmac cr) (cr_random cr) (cr_clock cr) (derive_key (cr_sha256 cr) (map F FIELDS)) (utf8 (sy_dumps sy (PDict named))) = Some token"
    "fernet_decrypt (cr_hmac cr) (cr_sha256 cr (concat (map F FIELDS))) token = Some (utf8 (sy_dumps sy (PDict named)))" "startswith token TOKEN_PREFIX"
    "list_all token_char token" "length token < SCAN_BYTES"
    by (rule encrypted_token [OF libraries(1) rig(3)])
  have out: "res_stdout r = token @ newline"
    using scrape_main_prints [OF rig(1) named t(1), of exc_text] answer(2) by (simp add: printed_def)
  let ?ob = "\<lparr>ob_source = ?src, ob_names = dict_comp (drawn_names ?draw), ob_key = ck_sha256 env (concat (map fst (drawn_names ?draw)))\<rparr>"
  have ob: "obfuscate (ck_sha256 env) ?draw (ck_payload env) = Inr ?ob" unfolding payload(1) by (rule obfuscate_payload [OF payload(2,3)])
  have dec: "ck_decrypt env (ob_key ?ob) token = Some (sy_dumps sy (PDict named))"
    using t(2) by (simp add: libraries(2,3) same_key_names [OF run] utf8_octets(2))
  let ?data = "AList.update ''gpus'' (PList (map (\<lambda>c. PDict (restored_card F c)) cs)) report"
  have d: "?data = report_of sy (PList (map (\<lambda>c. PDict (restored_card F c)) cs)) nvml host docker hashes" by (simp add: rep report_of_get)
  have res: "restore named (ob_names ?ob) = Inr ?data" using restore_report [OF inj run cs] by (simp add: nm d)
  obtain spec es where se: "build_spec ?data address port_range = Inr spec" "nvml_errors ?data = Inr es"
    using report_spec_total [OF cs parts d] by blast
  obtain res' where "scrape_read env ?ob address port_range seed r = Inr res'" "passed (sc_verdict res')" "sc_data res' = Some ?data"
    using scrape_read_report [OF answer(1) out t(4,5,3) dec rig(4) res se] by blast
  moreover have "dget report ''gpus'' PNone = PList (map PDict cs)" by (simp add: rep report_of_get)
  ultimately show ?thesis using ob answer(3) by (auto simp: scrape_run_def bnd_def lift_def catch_ssh_def attempt_def)
qed

theorem scrape_end_to_end_witness:
  "\<exists>w' res cs. scrape_run honest_env ''python3'' ''203.0.113.7'' ''4000-4999'' ''seed'' \<lparr>w_sent = []\<rparr> = (w', Inr res) \<and> passed (sc_verdict res)
    \<and> dget (report_dict (scrape_report id (\<lambda>_. Inr demo_library) demo_system demo_nvml)) ''gpus'' PNone = PList (map PDict cs)
    \<and> sc_data res = Some (AList.update ''gpus'' (PList (map (\<lambda>c. PDict (restored_card demo_names c)) cs))
        (report_dict (scrape_report id (\<lambda>_. Inr demo_library) demo_system demo_nvml)))"
proof -
  let ?load = "\<lambda>_. Inr demo_library"
  have other: "other_lines []" by (simp add: other_lines_def)
  have F: "demo_names = payload_names (join newline ([] @ drawn_lines (ck_draw honest_env) @ []))" by (simp add: honest_env_def demo_names_def)
  have "run_names rep_draw demo_names" unfolding demo_names_def by (rule run_names_payload [OF rep_draws other other])
  then have "names_ok demo_names" using rep_draws unfolding token_draws_def by (blast intro: run_names_ok)
  then obtain w1 report named where r: "scrape_report id ?load demo_system demo_nvml = (w1, Inr report)"
    "scrape_report demo_names ?load demo_system demo_nvml = (w1, Inr named)" using demo_report by blast
  have d: "report_dict (scrape_report id ?load demo_system demo_nvml) = report" by (simp only: r(1) report_dict_def snd_conv sum.case)
  have l: "ck_loads honest_env t = Some (PDict named)" for t using r(2) by (simp add: honest_env_def report_dict_def)
  have c: "crypto_ok demo_crypto" by (simp add: crypto_ok_def demo_crypto_def hmac_sha256_def list_all_iff)
  have e: "ck_payload honest_env = join newline ([] @ FIELD_LINES @ [])" "token_draws (ck_draw honest_env)" "ck_sha256 honest_env = cr_sha256 demo_crypto"
    "ck_decrypt honest_env = (\<lambda>key token. map_option (map char_of) (fernet_decrypt (cr_hmac demo_crypto) key token))"
    "ck_rig honest_env sent cmd = honest_result demo_out" for sent cmd
    using rep_draws by (simp_all add: honest_env_def)
  have s: "sy_environ demo_system ''LD_PRELOAD'' = None" "length (sy_dumps demo_system (PDict named)) \<le> 196000"
    by (simp_all add: demo_system_def bare_system_def)
  have a: "\<not> transport_failed (honest_result demo_out)"
    "res_stdout (honest_result demo_out) = printed (scrape_main demo_crypto (\<lambda>_. []) demo_names ?load demo_system demo_nvml)"
    by (simp_all add: transport_failed_def honest_result_def demo_out_def)
  show ?thesis unfolding d by (rule scrape_end_to_end [OF e(1) other other e(2) c e(3,4) F s(1) r(1) s(2) l r(2) a e(5)])
qed

text \<open>The names of the errors. Whatever key a failure is filed under, it is not the name of a field.\<close>

lemma restored_errors:
  assumes "run_names draw F" "card_ok c" "k \<in> set SINGLE_FIELDS"
  shows "\<exists>es. map_of (restored_card F c) ''errors'' = Some (PDict es) \<and> map_of es k = None"
proof -
  obtain es where es: "map_of c ''errors'' = Some (PDict es)" "set (map fst es) \<subseteq> set SINGLE_FIELDS \<union> set ERROR_WORDS"
    using assms(2) by (auto simp: card_ok_def)
  have plain: "hd x \<noteq> CHR ''_''" if "x \<in> set SINGLE_FIELDS" for x using that by (auto simp: SINGLE_FIELDS_def)
  have "error_name F x \<noteq> k" if x: "x \<in> set SINGLE_FIELDS \<union> set ERROR_WORDS" for x
  proof (cases "x \<in> set SINGLE_FIELDS")
    case True
    have "hd (F x) = CHR ''_''" by (rule run_names_fresh [OF assms(1) subsetD [OF SINGLE_in_FIELDS True]]) simp
    then show ?thesis using True plain [OF assms(3)] by (auto simp: error_name_def)
  next
    case False
    then show ?thesis using assms(3) by (auto simp: error_name_def)
  qed
  then have "k \<notin> fst ` set (map (\<lambda>(e, x). (error_name F e, x)) es)" using es(2) by fastforce
  then show ?thesis using es(1) by (simp add: map_of_restored hide_value_def map_of_eq_None_iff)
qed

text \<open>C36: A failure to read the name or the identifier of a card is never recognised. The payload files such a failure under the drawn name
  of the field, and \<^verbatim>\<open>restore\<close> renames the fields of a card but not the keys of its errors: whatever card the payload reports, the list of core
  errors that \<^verbatim>\<open>specs.card_problems\<close> looks for has neither \<^verbatim>\<open>name\<close> nor \<^verbatim>\<open>uuid\<close> in it.\<close>

theorem lost_name_not_reported:
  assumes "inj draw" "run_names draw F" "scrape_gpu F lib sy index w = (w', Inr c)"
  shows "\<exists>core. core_errors (dget (restore_card (drawn_names draw) c) ''errors'' PNone) = Inr core
    \<and> ''name'' \<notin> fst ` set core \<and> ''uuid'' \<notin> fst ` set core"
proof -
  obtain w1 c0 where c0: "scrape_gpu id lib sy index w = (w1, Inr c0)" "card_ok c0"
    using each_cards [of lib sy "[index]" w] by (cases "scrape_gpu id lib sy index w"; cases "snd (scrape_gpu id lib sy index w)") (auto simp: bnd_def simp del: id_apply)
  have "c = under_names F c0" using scrape_gpu_names [OF run_names_ok [OF assms(1,2)] c0(1)] assms(3) by simp
  then have d: "restore_card (drawn_names draw) c = restored_card F c0" using restore_run_card [OF assms(1,2) c0(2)] by simp
  have "''name'' \<in> set SINGLE_FIELDS" "''uuid'' \<in> set SINGLE_FIELDS" by (simp_all add: SINGLE_FIELDS_def)
  from this [THEN restored_errors [OF assms(2) c0(2)]] obtain es where
    "map_of (restored_card F c0) ''errors'' = Some (PDict es)" "map_of es ''name'' = None" "map_of es ''uuid'' = None" by auto
  then show ?thesis unfolding d by (auto simp: dget_def map_filter_def)
qed

theorem lost_name_not_reported_witness:
  "\<exists>w' c core. scrape_gpu demo_names demo_library demo_system 0 demo_nvml = (w', Inr c)
    \<and> core_errors (dget (restore_card (drawn_names rep_draw) c) ''errors'' PNone) = Inr core \<and> ''name'' \<notin> fst ` set core \<and> ''uuid'' \<notin> fst ` set core"
proof -
  have inj: "inj rep_draw" using rep_draws unfolding token_draws_def by blast
  have r: "run_names rep_draw demo_names" unfolding demo_names_def by (rule run_names_payload [OF rep_draws]) (simp_all add: other_lines_def)
  obtain w1 c0 where c0: "scrape_gpu id demo_library demo_system 0 demo_nvml = (w1, Inr c0)"
    using scrape_gpu_cases [of demo_library demo_system 0 demo_nvml] by metis
  have "scrape_gpu demo_names demo_library demo_system 0 demo_nvml = (w1, Inr (under_names demo_names c0))"
    using scrape_gpu_names [OF run_names_ok [OF inj r] c0] by simp
  with lost_name_not_reported [OF inj r this] show ?thesis by blast
qed

end
