(* ===== verification/Rig_Reports.thy ===== *)
theory Rig_Reports
  imports Rig_System Schedule_Deep Agent_Access
begin

text \<open>
  The two smaller scripts the validator sends to a rig: \<^verbatim>\<open>validator/verify/payloads/host_reality.py\<close>, which tells whether the session
  runs on a real host, and \<^verbatim>\<open>validator/verify/payloads/inspector.py\<close>, which lists processes and containers under a handshake. The
  theorems put each script together with the validator's reading of its answer: the host reality run of
  \<open>Verify_Scrape\<close> and the inspector stage of \<open>Schedule_Deep\<close>.
\<close>

section \<open>Host reality\<close>

definition DMI_FIELDS :: "string list" where
  "DMI_FIELDS = [''sys_vendor'', ''product_name'', ''product_version'', ''board_vendor'', ''board_name'', ''bios_vendor'', ''bios_version'']"

definition DETECT_VIRT_PATHS :: "string list" where
  "DETECT_VIRT_PATHS = [''/usr/bin/systemd-detect-virt'', ''/bin/systemd-detect-virt'', ''/usr/sbin/systemd-detect-virt'']"

definition host_read :: "System \<Rightarrow> string \<Rightarrow> nat \<Rightarrow> string" where
  "host_read sy path limit = strip (read_file sy path limit)"

definition stat_pair :: "System \<Rightarrow> string \<Rightarrow> pyval" where
  "stat_pair sy path = (case sy_stat sy path of None \<Rightarrow> PNone | Some (dev, ino) \<Rightarrow> PList [PInt dev, PInt ino])"

definition run_stripped :: "System \<Rightarrow> string list \<Rightarrow> int option \<times> string \<times> string" where
  "run_stripped sy argv = (case run_argv sy argv of (code, out, err) \<Rightarrow> if code = None then (code, out, err) else (code, strip out, strip err))"

definition opt_code :: "int option \<Rightarrow> pyval" where
  "opt_code c = (case c of None \<Rightarrow> PNone | Some n \<Rightarrow> PInt n)"

definition virt_entry :: "string \<Rightarrow> string \<Rightarrow> int option \<times> string \<times> string \<Rightarrow> pydict" where
  "virt_entry how binary r =
     (case r of (code, out, err) \<Rightarrow>
        [(''method'', PStr how), (''binary'', PStr binary), (''code'', opt_code code), (''out'', PStr (take 80 out)), (''err'', PStr (take 200 err))])"

text \<open>What one run of the tool settles, if anything.\<close>

definition virt_answer :: "int option \<times> string \<times> string \<Rightarrow> string option" where
  "virt_answer r =
     (case r of (code, out, _) \<Rightarrow>
        if code \<noteq> None \<and> (code = Some 0 \<or> out \<noteq> []) then Some (str_or out ''none'')
        else if code = Some 1 \<and> out = [] then Some ''none'' else None)"

fun virt_loop :: "System \<Rightarrow> string \<Rightarrow> string \<Rightarrow> string list \<Rightarrow> string list \<Rightarrow> string option \<times> pydict list" where
  "virt_loop sy how base argv [] = (None, [])"
| "virt_loop sy how base argv (binary # rest) =
     (if \<not> sy_exists sy (base @ binary) then virt_loop sy how base argv rest
      else (let r = run_stripped sy (argv @ [binary, ''--container'']) in
            case virt_answer r of
              Some virt \<Rightarrow> (Some virt, [virt_entry how binary r])
            | None \<Rightarrow> (case virt_loop sy how base argv rest of (virt, es) \<Rightarrow> (virt, virt_entry how binary r # es))))"

definition detect_virt :: "System \<Rightarrow> string \<times> pydict list" where
  "detect_virt sy =
     (case virt_loop sy ''chroot'' HOST_ROOT [''chroot'', HOST_ROOT] DETECT_VIRT_PATHS of
        (Some virt, es) \<Rightarrow> (virt, es)
      | (None, es) \<Rightarrow>
          (case virt_loop sy ''local'' [] [] DETECT_VIRT_PATHS of
             (Some virt, es') \<Rightarrow> (virt, es @ es') | (None, es') \<Rightarrow> (''unavailable'', es @ es')))"

definition dmi :: "System \<Rightarrow> pydict" where
  "dmi sy = map (\<lambda>name. (name, PStr (str_or (host_read sy (HOST_ROOT @ ''/sys/class/dmi/id/'' @ name) 256)
                                          (host_read sy (''/sys/class/dmi/id/'' @ name) 256)))) DMI_FIELDS"

definition init_environ_container :: "System \<Rightarrow> string" where
  "init_environ_container sy =
     (case List.find (\<lambda>item. startswith item ''container='') (split_on (CHR 0x00) (read_file sy ''/proc/1/environ'' 65536)) of
        None \<Rightarrow> [] | Some item \<Rightarrow> take 40 (drop (length ''container='') item))"

definition root_differs :: "System \<Rightarrow> bool" where
  "root_differs sy = (sy_stat sy (HOST_ROOT @ ''/'') \<noteq> None \<and> sy_stat sy ''/'' \<noteq> None \<and> sy_stat sy (HOST_ROOT @ ''/'') \<noteq> sy_stat sy ''/'')"

definition host_report :: "System \<Rightarrow> pydict" where
  "host_report sy =
     (let os_release = host_read sy (HOST_ROOT @ ''/etc/os-release'') 4096; virt = detect_virt sy in
      [(''init_root_stat'', stat_pair sy (HOST_ROOT @ ''/'')), (''own_root_stat'', stat_pair sy ''/''),
       (''init_root_reachable'', PBool (sy_stat sy (HOST_ROOT @ ''/'') \<noteq> None)), (''init_root_differs'', PBool (root_differs sy)),
       (''init_os_release_readable'', PBool (os_release \<noteq> [])), (''init_os_release'', PStr (take 1200 os_release)),
       (''init_hostname'', PStr (host_read sy (HOST_ROOT @ ''/etc/hostname'') 256)), (''init_comm'', PStr (host_read sy ''/proc/1/comm'' 64)),
       (''init_cgroup'', PStr (host_read sy ''/proc/1/cgroup'' 2000)), (''self_cgroup'', PStr (host_read sy ''/proc/self/cgroup'' 2000)),
       (''init_environ_container'', PStr (init_environ_container sy)), (''dockerenv'', PBool (sy_exists sy ''/.dockerenv'')),
       (''host_dockerenv'', PBool (sy_exists sy (HOST_ROOT @ ''/.dockerenv''))), (''detect_virt'', PStr (fst virt)),
       (''detect_virt_attempts'', PList (map PDict (snd virt))), (''dmi'', PDict (dmi sy)),
       (''kernel'', PStr (host_read sy ''/proc/sys/kernel/osrelease'' 128)), (''boot_id'', PStr (host_read sy ''/proc/sys/kernel/random/boot_id'' 64)),
       (''machine_id'', PStr (str_or (host_read sy (HOST_ROOT @ ''/etc/machine-id'') 64) (host_read sy ''/etc/machine-id'' 64))),
       (''uid'', PInt (sy_uid sy)), (''python'', PStr (sy_python sy))])"

definition host_main :: "System \<Rightarrow> string" where
  "host_main sy = sy_dumps sy (PDict (host_report sy)) @ newline"

section \<open>The inspector\<close>

definition MAX_PROCESSES :: nat where "MAX_PROCESSES = 4000"
definition CMDLINE_LIMIT :: nat where "CMDLINE_LIMIT = 200"

text \<open>\<^verbatim>\<open>hmac.new(key, message, sha256).hexdigest()\<close>.\<close>

type_synonym hmac_hex = "nat list \<Rightarrow> string \<Rightarrow> string"

definition is_ascii :: "string \<Rightarrow> bool" where
  "is_ascii s = list_all (\<lambda>c. of_char c < (128 :: nat)) s"

definition inspector_handshake :: "hmac_hex \<Rightarrow> string \<Rightarrow> string \<Rightarrow> string pyres" where
  "inspector_handshake hm secret_hex nonce_hex =
     (case fromhex secret_hex of
        None \<Rightarrow> Inl ValueError | Some key \<Rightarrow> if is_ascii nonce_hex then Inr (hm key nonce_hex) else Inl ValueError)"

text \<open>The number on a line of the status of a process. The parent is read from the first such line, the user from the first one that has a number.\<close>

definition ppid_of :: "string \<Rightarrow> int" where
  "ppid_of status =
     (case List.find (\<lambda>l. startswith l ''PPid:'') (splitlines status) of
        None \<Rightarrow> 0 | Some l \<Rightarrow> (case second_number l of Some n \<Rightarrow> n | None \<Rightarrow> 0))"

definition uid_of :: "string \<Rightarrow> int" where
  "uid_of status =
     (case List.map_filter second_number (filter (\<lambda>l. startswith l ''Uid:'') (splitlines status)) of [] \<Rightarrow> -1 | n # _ \<Rightarrow> n)"

definition process_view :: "System \<Rightarrow> int \<Rightarrow> pydict option" where
  "process_view sy pid =
     (let base = ''/proc/'' @ show_int pid; comm = strip (read_file sy (base @ ''/comm'') 64); status = read_file sy (base @ ''/status'') 2048 in
      if comm = [] then None
      else Some [(''pid'', PInt pid), (''ppid'', PInt (ppid_of status)), (''comm'', PStr comm),
                 (''cmdline'', PStr (take CMDLINE_LIMIT (strip (map (\<lambda>c. if c = CHR 0x00 then CHR '' '' else c) (read_file sy (base @ ''/cmdline'') 4096))))),
                 (''uid'', PInt (uid_of status)), (''container'', PStr (hex64_in (read_file sy (base @ ''/cgroup'') 2048)))])"

definition listed_pids :: "System \<Rightarrow> int list" where
  "listed_pids sy = (case sy_listdir sy ''/proc'' of None \<Rightarrow> [] | Some names \<Rightarrow> sort (map (\<lambda>n. int (digits_val n)) (filter isdigit names)))"

definition inspector_processes :: "System \<Rightarrow> pydict list" where
  "inspector_processes sy = List.map_filter (process_view sy) (take MAX_PROCESSES (listed_pids sy))"

definition label_items :: "string \<Rightarrow> (string \<times> string) list" where
  "label_items labels =
     foldl (\<lambda>d item. case cut_at (CHR ''='') item of None \<Rightarrow> d | Some (k, v) \<Rightarrow> AList.update (strip k) (strip v) d) [] (split_on (CHR '','') labels)"

definition str_of_key :: "pydict \<Rightarrow> string \<Rightarrow> string" where
  "str_of_key row k = py_str (dget row k (PStr []))"

definition container_view :: "pyval \<Rightarrow> pydict pyres" where
  "container_view v =
     (case v of
        PDict row \<Rightarrow> Inr [(''id'', PStr (str_of_key row ''ID'')), (''name'', PStr (str_of_key row ''Names'')), (''image'', PStr (str_of_key row ''Image'')),
          (''state'', PStr (str_of_key row ''State'')), (''status'', PStr (str_of_key row ''Status'')),
          (''labels'', PDict (map (\<lambda>(k, v). (k, PStr v)) (label_items (py_str (py_or (dget row ''Labels'' (PStr [])) (PStr [])))))),
          (''runtime'', PStr [])]
      | _ \<Rightarrow> Inl AttributeError)"

definition PS_ARGV :: "string list" where
  "PS_ARGV = [''docker'', ''ps'', ''-a'', ''--no-trunc'', ''--format'', ''{{json .}}'']"

definition inspector_containers :: "System \<Rightarrow> (pydict list \<times> string) pyres" where
  "inspector_containers sy =
     (case sy_run sy PS_ARGV of
        NotRan e \<Rightarrow> Inr ([], ''docker ps: '' @ e)
      | Ran code out err \<Rightarrow>
          if code \<noteq> 0 then Inr ([], ''docker ps exit '' @ show_int code @ '': '' @ take 200 (strip err))
          else rbind (rmap container_view (List.map_filter (sy_loads sy) (filter (\<lambda>l. l \<noteq> []) (map strip (splitlines out))))) (\<lambda>found. Inr (found, [])))"

definition inspector_report :: "System \<Rightarrow> string \<Rightarrow> string \<Rightarrow> pydict list \<times> string \<Rightarrow> pydict" where
  "inspector_report sy nonce reply found =
     [(''nonce'', PStr nonce), (''handshake'', PStr reply), (''collected_at'', PFloat (py_round_to 3 (sy_now sy))),
      (''processes'', PList (map PDict (inspector_processes sy))), (''containers'', PList (map PDict (fst found))),
      (''containers_error'', PStr (snd found)), (''pid'', PInt (sy_pid sy)), (''elapsed_ms'', PFloat (py_round_to 3 (sy_elapsed sy)))]"

text \<open>What the script prints and its exit code, for the words after the interpreter's options. An exception that is not caught leaves nothing on the
  output and the code 1.\<close>

definition inspector_main :: "hmac_hex \<Rightarrow> (pyerr \<Rightarrow> string) \<Rightarrow> System \<Rightarrow> string list \<Rightarrow> string \<times> int" where
  "inspector_main hm exc_text sy argv =
     (case argv of
        [_, secret_hex, nonce_hex] \<Rightarrow>
          (case inspector_handshake hm secret_hex nonce_hex of
             Inl e \<Rightarrow> (sy_dumps sy (PDict [(''error'', PStr (''handshake: '' @ exc_text e))]) @ newline, 2)
           | Inr reply \<Rightarrow>
               (case inspector_containers sy of
                  Inl _ \<Rightarrow> ([], 1)
                | Inr found \<Rightarrow> (sy_dumps sy (PDict (inspector_report sy nonce_hex reply found)) @ newline, 0)))
      | _ \<Rightarrow> (sy_dumps sy (PDict [(''error'', PStr ''usage: inspector <secret hex> <nonce hex>'')]) @ newline, 2))"

section \<open>Reading what was printed\<close>

text \<open>The text of a dictionary as \<^verbatim>\<open>json.dumps\<close> writes it: one line between braces.\<close>

definition json_text :: "string \<Rightarrow> bool" where
  "json_text t \<longleftrightarrow> one_line t \<and> startswith t ''{'' \<and> endswith t ''}''"

lemma json_text_strip:
  assumes "json_text t"
  shows "strip t = t"
proof (rule strip_unchanged)
  have "hd t = CHR ''{''" using assms unfolding json_text_def startswith_def prefix_def by auto
  moreover have "last t = CHR ''}''" using assms unfolding json_text_def endswith_def suffix_def by auto
  ultimately show "\<not> is_space (hd t) \<and> \<not> is_space (last t)" by (simp add: is_space_def)
qed

lemma printed_json:
  assumes "json_text t" "loads t = Some (PDict d)"
  shows "last_json_object loads (t @ newline) = Some d"
proof -
  have "splitlines (t @ newline) = [t]" using splitlines_line [of t "[]"] assms(1) by (simp add: json_text_def)
  then show ?thesis using assms json_text_strip [OF assms(1)] by (simp add: last_json_object_def json_line_def json_text_def Let_def)
qed

lemma dmi_identity:
  "strip (str_or_empty (dmi sy) k) = str_or_empty (dmi sy) k"
proof -
  have "strip (str_or (strip a) (strip b)) = str_or (strip a) (strip b)" for a b by (simp add: str_or_def)
  then have "\<forall>v. map_of (dmi sy) k = Some v \<longrightarrow> (\<exists>t. v = PStr t \<and> strip t = t)"
    by (auto simp: dmi_def host_read_def map_of_map_restrict restrict_map_def split: if_splits)
  then show ?thesis by (cases "map_of (dmi sy) k") (auto simp: str_or_empty_def dget_def py_or_def strip_def lstrip_def rstrip_def)
qed

section \<open>A real host\<close>

definition real_host :: "System \<Rightarrow> bool" where
  "real_host sy \<longleftrightarrow> root_differs sy \<and> host_read sy (HOST_ROOT @ ''/etc/os-release'') 4096 \<noteq> []
     \<and> (\<forall>m \<in> set NESTED_MARKERS. \<not> sublist m (host_read sy ''/proc/1/cgroup'' 2000))
     \<and> lower (strip (fst (detect_virt sy))) \<in> set VIRT_CLEAR
     \<and> (str_or_empty (dmi sy) ''sys_vendor'' \<noteq> [] \<or> str_or_empty (dmi sy) ''product_name'' \<noteq> [])"

lemma text_field: "map_of d k = Some (PStr t) \<Longrightarrow> str_or_empty d k = t"
  by (simp add: str_or_empty_def dget_def py_or_def)

lemma host_report_judged: "host_judge (host_report sy) seed = Inr None \<longleftrightarrow> real_host sy"
proof -
  have f: "map_of (host_report sy) ''init_cgroup'' = Some (PStr (host_read sy ''/proc/1/cgroup'' 2000))"
    "map_of (host_report sy) ''detect_virt'' = Some (PStr (fst (detect_virt sy)))"
    "map_of (host_report sy) ''dmi'' = Some (PDict (dmi sy))"
    "map_of (host_report sy) ''init_root_reachable'' = Some (PBool (sy_stat sy (HOST_ROOT @ ''/'') \<noteq> None))"
    "map_of (host_report sy) ''init_root_differs'' = Some (PBool (root_differs sy))"
    "map_of (host_report sy) ''init_os_release_readable'' = Some (PBool (host_read sy (HOST_ROOT @ ''/etc/os-release'') 4096 \<noteq> []))"
    by (simp_all add: host_report_def Let_def)
  have "root_differs sy \<Longrightarrow> sy_stat sy (HOST_ROOT @ ''/'') \<noteq> None" by (simp add: root_differs_def)
  moreover have "py_or (PDict (dmi sy)) (PDict []) = PDict (dmi sy)" by (simp add: py_or_def)
  ultimately show ?thesis
    unfolding host_judge_passes text_field [OF f(1)] text_field [OF f(2)] dget_def f option.case truthy.simps real_host_def
    by (auto simp: dmi_identity)
qed

lemma host_evidence_total: "\<exists>ev. host_evidence (host_report sy) = Inr ev"
proof -
  have "map_of (host_report sy) ''dmi'' = Some (PDict (dmi sy))" by (simp add: host_report_def Let_def)
  then show ?thesis by (simp add: host_evidence_def sub_dict_def dget_def py_or_def)
qed

lemma host_judge_total: "\<exists>f. host_judge (host_report sy) seed = Inr f"
proof -
  have "map_of (host_report sy) ''dmi'' = Some (PDict (dmi sy))" by (simp add: host_report_def Let_def)
  then show ?thesis by (auto simp: host_judge_def Let_def dget_def [of _ "''dmi''"] py_or_def)
qed


section \<open>The inspector's answer\<close>

lemma lower_hex_safe: "is_lower_hex c \<Longrightarrow> shell_safe c"
  by (auto simp: is_lower_hex_def shell_safe_def is_alnum_def Let_def)

lemma quote_hex: "h \<noteq> [] \<Longrightarrow> list_all is_lower_hex h \<Longrightarrow> shlex_quote h = h"
  by (simp add: shlex_quote_def list_all_iff lower_hex_safe)

lemma lower_hex_ascii: "list_all is_lower_hex h \<Longrightarrow> is_ascii h"
  by (auto simp: is_ascii_def list_all_iff is_lower_hex_def Let_def)

text \<open>The shell of the rig gives the script exactly the words the validator meant.\<close>

lemma inspector_words:
  assumes "secret \<noteq> []" "list_all is_lower_hex secret" "nonce \<noteq> []" "list_all is_lower_hex nonce"
  shows "sh_words (shlex_quote python @ '' -I '' @ shlex_quote remote @ '' '' @ secret @ '' '' @ nonce) = Some (python # ''-I'' # [remote, secret, nonce])"
proof -
  have "shlex_quote ''-I'' = ''-I''" by code_simp
  then have "shlex_quote python @ '' -I '' @ shlex_quote remote @ '' '' @ secret @ '' '' @ nonce =
      join '' '' (map shlex_quote [python, ''-I'', remote, secret, nonce])"
    using quote_hex [OF assms(1,2)] quote_hex [OF assms(3,4)] by simp
  then show ?thesis by (simp only: sh_join)
qed

definition named_pids :: "System \<Rightarrow> int list" where
  "named_pids sy = filter (\<lambda>pid. strip (read_file sy (''/proc/'' @ show_int pid @ ''/comm'') 64) \<noteq> []) (take MAX_PROCESSES (listed_pids sy))"

lemma inspector_pids:
  "rmap (\<lambda>p. py_int (py_or (dget p ''pid'' (PInt 0)) (PInt 0))) (inspector_processes sy) = Inr (named_pids sy)"
proof -
  have "rmap (\<lambda>p. py_int (py_or (dget p ''pid'' (PInt 0)) (PInt 0))) (List.map_filter (process_view sy) pids) =
      Inr (filter (\<lambda>pid. strip (read_file sy (''/proc/'' @ show_int pid @ ''/comm'') 64) \<noteq> []) pids)" for pids
    by (induction pids) (auto simp: process_view_def Let_def map_filter_simps dget_def py_or_def)
  then show ?thesis by (simp add: inspector_processes_def named_pids_def)
qed

lemma dicts_of_dicts: "dicts_of (map PDict ds) = ds"
  by (induction ds) simp_all

lemma report_alive: "alive_pids (inspector_report sy nonce reply found) = Inr (Some (named_pids sy))"
proof -
  have "dict_items (inspector_report sy nonce reply found) ''processes'' = Inr (inspector_processes sy)"
    by (cases "inspector_processes sy") (simp_all add: inspector_report_def dict_items_def iter_field_def dget_def py_or_def dicts_of_dicts)
  moreover have "inspector_report sy nonce reply found \<noteq> []" by (simp add: inspector_report_def)
  ultimately show ?thesis by (simp only: alive_pids_def if_False rbind_Inr inspector_pids)
qed

lemma report_evidence: "\<exists>ev. inspector_evidence ok (inspector_report sy nonce reply found) = Inr ev"
  by (simp add: inspector_evidence_def inspector_report_def dget_def py_or_def)

section \<open>Properties\<close>

text \<open>C10: An honest rig passes the inspector stage and the validator learns its processes: the rig runs the script with the words its shell reads from
  the command, the secret and the nonce arrive as sent, the handshake is accepted, and the identifiers the validator takes to be alive are
  those of the first 4000 processes listed by the rig that have a name.\<close>

theorem inspector_end_to_end:
  assumes secret: "de_secret env \<noteq> []" "list_all is_lower_hex (de_secret env)" "even (length (de_secret env))"
    and nonce: "s_nonce s \<noteq> []" "list_all is_lower_hex (s_nonce s)"
    and hmac: "\<forall>key. fromhex (de_secret env) = Some key \<longrightarrow> de_hmac env (de_secret env) (s_nonce s) = hm key (s_nonce s)" "\<forall>k m. list_all is_lower_hex (hm k m)"
    and docker: "inspector_containers sy = Inr found"
    and rig: "ck_refuses (de_check env) (w_sent w) (dir @ ''/'' @ INSPECTOR) = None"
      "\<forall>c argv. sh_words c = Some (session_python s # ''-I'' # argv) \<longrightarrow> res_stdout (ck_rig (de_check env) (w_sent w) (c, None)) = fst (inspector_main hm exc_text sy argv)"
    and answer: "answer = inspector_report sy (s_nonce s) (de_hmac env (de_secret env) (s_nonce s)) found"
    and json: "json_text (sy_dumps sy (PDict answer))" "ck_loads (de_check env) (sy_dumps sy (PDict answer)) = Some (PDict answer)"
  shows "\<exists>w' v. inspect env s dir seed w = (w', Inr (v, answer)) \<and> passed v \<and> alive_pids answer = Inr (Some (named_pids sy))"
proof -
  obtain key where key: "fromhex (de_secret env) = Some key" using fromhex_lower_hex [OF secret(2,3)] by blast
  let ?reply = "hm key (s_nonce s)" and ?remote = "dir @ ''/'' @ INSPECTOR"
  let ?c = "shlex_quote (session_python s) @ '' -I '' @ shlex_quote ?remote @ '' '' @ de_secret env @ '' '' @ s_nonce s"
  have hm: "de_hmac env (de_secret env) (s_nonce s) = ?reply" using hmac(1) key by blast
  have hs: "inspector_handshake hm (de_secret env) (s_nonce s) = Inr ?reply"
    by (simp add: inspector_handshake_def key lower_hex_ascii [OF nonce(2)])
  have "res_stdout (ck_rig (de_check env) (w_sent w) (?c, None)) = fst (inspector_main hm exc_text sy [?remote, de_secret env, s_nonce s])"
    using rig(2) inspector_words [OF secret(1,2) nonce, of "session_python s" ?remote] by blast
  also have "\<dots> = sy_dumps sy (PDict answer) @ newline" by (simp add: inspector_main_def hs docker answer hm)
  finally have out: "res_stdout (ck_rig (de_check env) (w_sent w) (?c, None)) = sy_dumps sy (PDict answer) @ newline" .
  have j: "last_json_object (ck_loads (de_check env)) (sy_dumps sy (PDict answer) @ newline) = Some answer" using json by (rule printed_json)
  have hk: "str_or_empty answer ''handshake'' = ?reply" by (rule text_field) (simp add: answer hm inspector_report_def)
  have cmp: "compare_digest (de_hmac env (de_secret env) (s_nonce s)) (str_or_empty answer ''handshake'') = Inr True"
    using lower_hex_ascii [of ?reply] hmac(2) by (simp add: compare_digest_def hm hk is_ascii_def)
  obtain ev where ev: "inspector_evidence True answer = Inr ev" using report_evidence unfolding answer by blast
  have "\<exists>w' v. inspect env s dir seed w = (w', Inr (v, answer)) \<and> passed v"
    using rig(1) out j cmp ev by (simp add: inspect_def Let_def upload_def run_json_def catch_ssh_def attempt_def bnd_def lift_def passed_def mk_verdict_def)
  then show ?thesis using report_alive unfolding answer by blast
qed

text \<open>A rig with three processes, one of which has no name.\<close>

definition wit_rig_system :: System where
  "wit_rig_system = bare_system\<lparr>sy_listdir := \<lambda>d. if d = ''/proc'' then Some [''12'', ''self'', ''7'', ''3''] else None,
     sy_file := \<lambda>p. if p \<in> {''/proc/7/comm'', ''/proc/12/comm''} then Inr ''python'' else Inl ''No such file or directory''\<rparr>"

definition wit_hmac :: hmac_hex where "wit_hmac k m = ''0a''"

definition wit_inspector_env :: DeepEnv where
  "wit_inspector_env = demo_deep\<lparr>de_secret := ''00ff'', de_hmac := \<lambda>_ _. ''0a'',
     de_check := (de_check demo_deep)\<lparr>
       ck_rig := \<lambda>_ (c, _). \<lparr>res_command = c, res_exit_code = 0,
         res_stdout = (case sh_words c of Some (_ # _ # argv) \<Rightarrow> fst (inspector_main wit_hmac (\<lambda>_. []) wit_rig_system argv) | _ \<Rightarrow> []),
         res_stderr = [], res_elapsed_ms = 5, res_error = []\<rparr>,
       ck_loads := \<lambda>_. Some (PDict (inspector_report wit_rig_system ''ab'' ''0a'' ([], ''docker ps: command not found'')))\<rparr>\<rparr>"

definition wit_inspector_session :: Session where
  "wit_inspector_session = demo_session\<lparr>s_nonce := ''ab''\<rparr>"

theorem inspector_end_to_end_witness:
  "named_pids wit_rig_system = [7, 12] \<and> (\<exists>w' v answer. inspect wit_inspector_env wit_inspector_session ''/d'' ''seed'' \<lparr>w_sent = []\<rparr> = (w', Inr (v, answer))
    \<and> passed v \<and> alive_pids answer = Inr (Some (named_pids wit_rig_system)))"
proof
  show "named_pids wit_rig_system = [7, 12]" by code_simp
  let ?e = wit_inspector_env and ?s = wit_inspector_session and ?found = "([], ''docker ps: command not found'') :: pydict list \<times> string"
  let ?rep = "inspector_report wit_rig_system (s_nonce ?s) (de_hmac ?e (de_secret ?e) (s_nonce ?s)) ?found"
  have e: "de_secret ?e = ''00ff''" "s_nonce ?s = ''ab''" "de_hmac ?e k m = ''0a''" "ck_refuses (de_check ?e) sent p = None" for k m sent p
    by (simp_all add: wit_inspector_env_def wit_inspector_session_def demo_session_def demo_deep_def)
  have h: "list_all is_lower_hex ''00ff''" "list_all is_lower_hex ''ab''" "list_all is_lower_hex ''0a''" "json_text ''{}''" by code_simp+
  have d: "inspector_containers wit_rig_system = Inr ?found" "sy_dumps wit_rig_system v = ''{}''" for v
    by (simp_all add: inspector_containers_def wit_rig_system_def bare_system_def)
  have r: "\<forall>c argv. sh_words c = Some (session_python ?s # ''-I'' # argv) \<longrightarrow>
      res_stdout (ck_rig (de_check ?e) (w_sent \<lparr>w_sent = []\<rparr>) (c, None)) = fst (inspector_main wit_hmac (\<lambda>_. []) wit_rig_system argv)"
    by (simp add: wit_inspector_env_def)
  have l: "ck_loads (de_check ?e) t = Some (PDict ?rep)" for t unfolding e by (simp add: wit_inspector_env_def)
  have "\<exists>w' v. inspect ?e ?s ''/d'' ''seed'' \<lparr>w_sent = []\<rparr> = (w', Inr (v, ?rep)) \<and> passed v \<and> alive_pids ?rep = Inr (Some (named_pids wit_rig_system))"
    by (rule inspector_end_to_end [where hm = wit_hmac and exc_text = "\<lambda>_. []" and sy = wit_rig_system and found = ?found])
      (use h d r l in \<open>simp_all add: e wit_hmac_def\<close>)
  then show "\<exists>w' v answer. inspect ?e ?s ''/d'' ''seed'' \<lparr>w_sent = []\<rparr> = (w', Inr (v, answer)) \<and> passed v
      \<and> alive_pids answer = Inr (Some (named_pids wit_rig_system))" by blast
qed

definition wit_host_system :: System where
  "wit_host_system = bare_system\<lparr>sy_stat := \<lambda>p. if p = ''/'' then Some (1, 3) else Some (1, 2),
     sy_file := \<lambda>p. if p = ''/proc/1/root/etc/os-release'' then Inr ''ID=ubuntu'' else if p = ''/sys/class/dmi/id/sys_vendor'' then Inr ''ACME''
       else Inl ''No such file or directory''\<rparr>"

definition wit_host_env :: CheckEnv where
  "wit_host_env = (de_check demo_deep)\<lparr>ck_loads := \<lambda>_. Some (PDict (host_report wit_host_system)),
     ck_rig := \<lambda>_ (c, _). \<lparr>res_command = c, res_exit_code = 0, res_stdout = host_main wit_host_system, res_stderr = [], res_elapsed_ms = 5, res_error = []\<rparr>\<rparr>"


end
