(* ===== verification/Agent_Client.thy ===== *)
theory Agent_Client
  imports Session_Core
begin

text \<open>
  The agent's calls of the pool server (\<^verbatim>\<open>agent/control/client.py\<close>). The transport is the argument \<open>sc_http\<close>: the answer to a
  method, a path, a body and headers, or the text of the exception it raises; \<open>sc_dumps\<close> and \<open>sc_loads\<close> are the
  JSON library's.
\<close>

definition AGENTS :: string where "AGENTS = ''/v1/compute/agents''"
definition VALIDATORS :: string where "VALIDATORS = ''/v1/pool/validators''"
definition RELEASE :: string where "RELEASE = ''/v1/pool/agent-release''"

datatype client_error = ServerError int string | ClientFault string

fun client_error_text :: "client_error \<Rightarrow> string" where
  "client_error_text (ServerError status detail) = show_int status @ '': '' @ detail"
| "client_error_text (ClientFault text) = text"

record ServerClient =
  sc_key :: AgentKey
  sc_now :: rat
  sc_http :: "string \<Rightarrow> string \<Rightarrow> string option \<Rightarrow> (string \<times> string) list \<Rightarrow> string + int \<times> string"
  sc_dumps :: "pydict \<Rightarrow> string"
  sc_loads :: "string \<Rightarrow> pyval option"
  sc_fault :: string

definition signed_headers :: "ServerClient \<Rightarrow> string \<Rightarrow> string \<Rightarrow> pydict option \<Rightarrow> (string \<times> string) list" where
  "signed_headers c mthd path body =
     [(''accept'', ''application/json'')] @ (if body = None then [] else [(''content-type'', ''application/json'')]) @
     AgentKey_headers (sc_now c) mthd path (case body of None \<Rightarrow> [] | Some b \<Rightarrow> sc_dumps c b) (sc_key c)"

definition error_detail :: "ServerClient \<Rightarrow> string \<Rightarrow> string" where
  "error_detail c text =
     (case sc_loads c text of Some (PDict d) \<Rightarrow> py_str (dget d ''detail'' (PStr (take 500 text))) | _ \<Rightarrow> take 500 text)"

definition client_signed :: "ServerClient \<Rightarrow> string \<Rightarrow> string \<Rightarrow> pydict option \<Rightarrow> client_error + pyval" where
  "client_signed c mthd path body =
     (case sc_http c mthd path (map_option (sc_dumps c) body) (signed_headers c mthd path body) of
        Inl text \<Rightarrow> Inl (ClientFault text)
      | Inr (status, text) \<Rightarrow>
          if 400 \<le> status then Inl (ServerError status (error_detail c text))
          else if text = [] then Inr (PDict [])
          else (case sc_loads c text of None \<Rightarrow> Inl (ClientFault (sc_fault c)) | Some v \<Rightarrow> Inr v))"

definition client_public :: "ServerClient \<Rightarrow> string \<Rightarrow> client_error + pyval" where
  "client_public c path =
     (case sc_http c ''GET'' path None [(''accept'', ''application/json'')] of
        Inl text \<Rightarrow> Inl (ClientFault text)
      | Inr (status, text) \<Rightarrow>
          if 400 \<le> status then Inl (ServerError status (take 500 text))
          else (case sc_loads c text of None \<Rightarrow> Inl (ClientFault (sc_fault c)) | Some v \<Rightarrow> Inr v))"

text \<open>\<^verbatim>\<open>dict(value)\<close>: an object, or an empty sequence; a sequence of pairs is not among the answers of the server.\<close>

definition as_dict :: "ServerClient \<Rightarrow> pyval \<Rightarrow> client_error + pydict" where
  "as_dict c v = (case v of PDict d \<Rightarrow> Inr d | PList [] \<Rightarrow> Inr [] | PStr [] \<Rightarrow> Inr [] | _ \<Rightarrow> Inl (ClientFault (sc_fault c)))"

definition client_register :: "ServerClient \<Rightarrow> pydict \<Rightarrow> client_error + pydict" where
  "client_register c payload = rbind (client_signed c ''POST'' (AGENTS @ ''/register'') (Some payload)) (as_dict c)"

definition client_claim :: "ServerClient \<Rightarrow> string \<Rightarrow> client_error + pydict" where
  "client_claim c rig_id = rbind (client_signed c ''GET'' (AGENTS @ ''/'' @ rig_id @ ''/claim'') None) (as_dict c)"

definition decide_claim :: "ServerClient \<Rightarrow> string \<Rightarrow> string \<Rightarrow> bool \<Rightarrow> client_error + pydict" where
  "decide_claim c rig_id hotkey approved =
     rbind (client_signed c ''POST'' (AGENTS @ ''/'' @ rig_id @ ''/claim/decision'')
              (Some [(''hotkey'', PStr hotkey), (''approved'', PBool approved)])) (as_dict c)"

definition report_state :: "ServerClient \<Rightarrow> string \<Rightarrow> pydict \<Rightarrow> client_error + pydict" where
  "report_state c rig_id payload = rbind (client_signed c ''POST'' (AGENTS @ ''/'' @ rig_id @ ''/state'') (Some payload)) (as_dict c)"

text \<open>What iterating over the value of a key gives: the items of a list, the characters of a text, the keys of an
  object; anything else raises.\<close>

definition items_at :: "ServerClient \<Rightarrow> pyval \<Rightarrow> string \<Rightarrow> client_error + pyval list" where
  "items_at c v k =
     (case v of
        PDict d \<Rightarrow> (case dget d k (PList []) of
            PList xs \<Rightarrow> Inr xs
          | PStr s \<Rightarrow> Inr (map (\<lambda>x. PStr [x]) s)
          | PDict e \<Rightarrow> Inr (map (\<lambda>x. PStr (fst x)) e)
          | _ \<Rightarrow> Inl (ClientFault (sc_fault c)))
      | _ \<Rightarrow> Inr [])"

definition poll_commands :: "ServerClient \<Rightarrow> string \<Rightarrow> client_error + pydict list" where
  "poll_commands c rig_id =
     rbind (client_signed c ''GET'' (AGENTS @ ''/'' @ rig_id @ ''/commands'') None) (\<lambda>v.
       rbind (items_at c v ''commands'') (\<lambda>xs. Inr (dicts_of xs)))"

definition command_result :: "ServerClient \<Rightarrow> string \<Rightarrow> int \<Rightarrow> bool \<Rightarrow> pydict \<Rightarrow> client_error + pydict" where
  "command_result c rig_id command_id ok result =
     rbind (client_signed c ''POST'' (AGENTS @ ''/'' @ rig_id @ ''/commands/'' @ show_int command_id @ ''/result'')
              (Some [(''ok'', PBool ok), (''result'', PDict result)])) (as_dict c)"

definition client_validators :: "ServerClient \<Rightarrow> client_error + string list" where
  "client_validators c = rbind (client_public c VALIDATORS) (\<lambda>v.
     rbind (items_at c v ''validators'') (\<lambda>xs. Inr (map py_str (filter truthy xs))))"

definition client_release :: "ServerClient \<Rightarrow> client_error + pydict" where
  "client_release c = rbind (client_public c RELEASE) (\<lambda>v. Inr (case v of PDict d \<Rightarrow> d | _ \<Rightarrow> []))"

end
