(* ===== verification/Agent_Monitor.thy ===== *)
theory Agent_Monitor
  imports Session_Core
begin

text \<open>
  The agent's monitor process: the kernel log (\<^verbatim>\<open>agent/monitor/kmsg.py\<close>) and the containers' events
  (\<^verbatim>\<open>agent/monitor/containers.py\<close>), joined by \<^verbatim>\<open>run_monitor\<close> of \<^verbatim>\<open>agent/main.py\<close>. Texts are ASCII, the clock is an
  argument, \<open>loads\<close> is \<^verbatim>\<open>json.loads\<close>, and what the device and docker answer are arguments.
\<close>

section \<open>The kernel log\<close>

definition SEVERE_XIDS :: "(int \<times> string) list" where
  "SEVERE_XIDS =
     [(13, ''graphics engine exception''), (31, ''gpu memory page fault''), (32, ''invalid or corrupted push buffer stream''),
      (43, ''gpu stopped processing''), (45, ''preemptive cleanup after a hang''), (48, ''double bit ecc error''),
      (61, ''internal micro-controller breakpoint''), (62, ''internal micro-controller halt''),
      (63, ''ecc page retirement or row remap''), (64, ''ecc page retirement failure''), (68, ''video processor exception''),
      (74, ''nvlink error''), (79, ''gpu has fallen off the bus''), (92, ''high single bit ecc error rate''),
      (94, ''contained ecc error''), (95, ''uncontained ecc error''), (119, ''gsp rpc timeout''), (120, ''gsp error''),
      (140, ''unrecoverable ecc error'')]"

record KernelFault =
  kf_kind :: string
  kf_message :: string
  kf_pci :: string
  kf_xid :: "int option"
  kf_severe :: bool
  kf_seen_at :: rat

definition xid_value :: "int option \<Rightarrow> pyval" where
  "xid_value x = (case x of None \<Rightarrow> PNone | Some n \<Rightarrow> PInt n)"

text \<open>\<^verbatim>\<open>self.xid or -1\<close>: no number and the number 0 both look up -1.\<close>

definition xid_meaning :: "int option \<Rightarrow> string" where
  "xid_meaning x = dget SEVERE_XIDS (case x of None \<Rightarrow> -1 | Some n \<Rightarrow> if n = 0 then -1 else n) []"

definition KernelFault_payload :: "KernelFault \<Rightarrow> pydict" where
  "KernelFault_payload f =
     [(''kind'', PStr (kf_kind f)), (''message'', PStr (kf_message f)), (''pci'', PStr (kf_pci f)), (''xid'', xid_value (kf_xid f)),
      (''severe'', PBool (kf_severe f)), (''meaning'', PStr (xid_meaning (kf_xid f))),
      (''seen_at'', PFloat (py_round_to 3 (kf_seen_at f)))]"

text \<open>The pattern \<^verbatim>\<open>XID\<close> at the start of a text, and its first match. The class of the bus address has no
  closing parenthesis, so the longest run is the only candidate.\<close>

definition pci_char :: "char \<Rightarrow> bool" where
  "pci_char c = (hex_val c \<noteq> None \<or> c \<in> set '':.'')"

definition XID_PREFIX :: string where "XID_PREFIX = ''NVRM: Xid (PCI:''"

definition xid_at :: "string \<Rightarrow> (string \<times> string) option" where
  "xid_at s =
     (if \<not> startswith s XID_PREFIX then None
      else (let rest = drop (length XID_PREFIX) s; pci = takeWhile pci_char rest; tail = dropWhile pci_char rest in
            if pci = [] \<or> \<not> startswith tail ''): '' then None
            else (let digits = takeWhile is_digit (drop 3 tail) in if digits = [] then None else Some (pci, digits))))"

fun xid_search :: "string \<Rightarrow> (string \<times> string) option" where
  "xid_search [] = xid_at []"
| "xid_search (c # cs) = (case xid_at (c # cs) of Some m \<Rightarrow> Some m | None \<Rightarrow> xid_search cs)"

definition word_char :: "char \<Rightarrow> bool" where
  "word_char c = (is_alnum c \<or> c = CHR ''_'')"

text \<open>One of the words of the pattern \<^verbatim>\<open>RESET\<close> between word boundaries; \<open>inside\<close> says that the character before is
  a word character.\<close>

definition reset_word_at :: "string \<Rightarrow> bool" where
  "reset_word_at s =
     list_ex (\<lambda>w. startswith s w \<and> (case drop (length w) s of [] \<Rightarrow> True | c # _ \<Rightarrow> \<not> word_char c)) [''reset'', ''timeout'', ''stuck'']"

fun reset_word_in :: "bool \<Rightarrow> string \<Rightarrow> bool" where
  "reset_word_in inside [] = False"
| "reset_word_in inside (c # cs) = ((\<not> inside \<and> reset_word_at (c # cs)) \<or> reset_word_in (word_char c) cs)"

fun reset_search :: "string \<Rightarrow> bool" where
  "reset_search [] = False"
| "reset_search (c # cs) =
     ((startswith (c # cs) ''nvrm: '' \<and> reset_word_in False (takeWhile (\<lambda>x. x \<noteq> CHR 0x0A) (drop 6 (c # cs)))) \<or> reset_search cs)"

definition kmsg_text :: "string \<Rightarrow> string" where
  "kmsg_text raw = strip (if CHR '';'' \<in> set raw then drop 1 (dropWhile (\<lambda>c. c \<noteq> CHR '';'') raw) else raw)"

definition parse_line :: "rat \<Rightarrow> string \<Rightarrow> KernelFault option" where
  "parse_line now raw =
     (let message = kmsg_text raw in
      if message = [] then None
      else (case xid_search message of
              Some (pci, digits) \<Rightarrow>
                (let xid = int (digits_val digits) in
                 Some \<lparr>kf_kind = ''xid'', kf_message = message, kf_pci = pci, kf_xid = Some xid, kf_severe = dhas SEVERE_XIDS xid, kf_seen_at = now\<rparr>)
            | None \<Rightarrow>
                if contains_str ''gpu has fallen off the bus'' (lower message)
                then Some \<lparr>kf_kind = ''fallen_off_bus'', kf_message = message, kf_pci = [], kf_xid = Some 79, kf_severe = True, kf_seen_at = now\<rparr>
                else if reset_search (lower message)
                then Some \<lparr>kf_kind = ''driver_reset'', kf_message = message, kf_pci = [], kf_xid = None, kf_severe = True, kf_seen_at = now\<rparr>
                else None))"

definition scan_dmesg :: "rat \<Rightarrow> string \<Rightarrow> KernelFault list" where
  "scan_dmesg now text = List.map_filter (parse_line now) (splitlines text)"

text \<open>What a read of the device gives, with the time it is seen: a record, nothing yet, or an error number. The
  loop ends with the reads given, or with an error other than a lost record.\<close>

datatype kmsg_read = KmsgChunk rat string | KmsgBlocked | KmsgError int

fun kmsg_watch :: "kmsg_read list \<Rightarrow> KernelFault list \<times> int option" where
  "kmsg_watch [] = ([], None)"
| "kmsg_watch (KmsgBlocked # rs) = kmsg_watch rs"
| "kmsg_watch (KmsgError e # rs) = (if e \<in> {32, 22} then kmsg_watch rs else ([], Some e))"
| "kmsg_watch (KmsgChunk now chunk # rs) =
     (case (if chunk = [] then None else parse_line now chunk) of
        None \<Rightarrow> kmsg_watch rs
      | Some f \<Rightarrow> (f # fst (kmsg_watch rs), snd (kmsg_watch rs)))"

section \<open>Containers\<close>

definition JOB_LABEL :: string where "JOB_LABEL = ''mt.job''"
definition FAULT_WINDOW_SECONDS :: rat where "FAULT_WINDOW_SECONDS = 120"

definition LIFECYCLE :: "string list" where
  "LIFECYCLE = [''start'', ''stop'', ''restart'', ''kill'', ''destroy'', ''oom'', ''die'', ''pause'', ''unpause'', ''create'']"

definition EXIT_REASONS :: "(int \<times> string) list" where
  "EXIT_REASONS =
     [(0, ''purposely_stopped''), (1, ''application_error''), (125, ''container_failed_to_run''), (126, ''command_invoke_error''),
      (127, ''file_or_directory_not_found''), (128, ''invalid_argument_on_exit''), (134, ''abnormal_termination''),
      (137, ''immediate_termination''), (139, ''segmentation_fault''), (143, ''graceful_termination''),
      (255, ''exit_status_out_of_range'')]"

definition container_char :: "char \<Rightarrow> bool" where
  "container_char c = (is_alnum c \<or> c \<in> set ''_.-'')"

text \<open>The pattern \<^verbatim>\<open>NAME\<close>; its end also matches before a final line feed.\<close>

definition valid_name :: "string \<Rightarrow> bool" where
  "valid_name name =
     (let s = (if name \<noteq> [] \<and> last name = CHR 0x0A then butlast name else name) in
      s \<noteq> [] \<and> is_alnum (hd s) \<and> list_all container_char (tl s) \<and> length s \<le> 128)"

definition exit_reason :: "int option \<Rightarrow> string" where
  "exit_reason code =
     (case code of
        None \<Rightarrow> ''unknown''
      | Some n \<Rightarrow> dget EXIT_REASONS n (if 255 < n then ''exit_status_out_of_range'' else ''exit_'' @ show_int n))"

text \<open>\<^verbatim>\<open>stats\<close>: docker's exit code, output and error output for the name are an argument.\<close>

definition container_stats :: "(string \<Rightarrow> pyval option) \<Rightarrow> (string list \<Rightarrow> int \<times> string \<times> string) \<Rightarrow> string \<Rightarrow> pydict" where
  "container_stats loads docker name =
     (if \<not> valid_name name then [(''error'', PStr ''invalid container name''), (''code'', PInt 22)]
      else (case docker [''docker'', ''stats'', ''--no-stream'', ''--format'', ''{{json .}}'', name] of (code, out, err) \<Rightarrow>
        if code \<noteq> 0
        then [(''error'', PStr (str_or (last_chars 300 (strip err)) (str_or (last_chars 300 (strip out)) ''docker stats failed''))), (''code'', PInt code)]
        else (case splitlines (strip out) of
                [] \<Rightarrow> [(''error'', PStr ''unparseable docker stats output''), (''code'', PInt 1), (''raw'', PStr (last_chars 500 out))]
              | ls \<Rightarrow> (case loads (last ls) of
                          None \<Rightarrow> [(''error'', PStr ''unparseable docker stats output''), (''code'', PInt 1), (''raw'', PStr (last_chars 500 out))]
                        | Some (PDict d) \<Rightarrow> d
                        | Some _ \<Rightarrow> [(''raw'', PStr (last_chars 500 out))]))))"

text \<open>The job of a container: the last label of the job key.\<close>

definition job_of_labels :: "string \<Rightarrow> string" where
  "job_of_labels labels =
     foldl (\<lambda>job pair. if startswith pair (JOB_LABEL @ ''='') then drop (length JOB_LABEL + 1) pair else job) [] (split_on (CHR '','') labels)"

definition container_entry :: "pydict \<Rightarrow> pydict" where
  "container_entry item =
     [(''name'', PStr (str_or_empty item ''Names'')), (''image'', PStr (str_or_empty item ''Image'')),
      (''state'', PStr (str_or_empty item ''State'')), (''status'', PStr (str_or_empty item ''Status'')),
      (''job'', PStr (job_of_labels (str_or_empty item ''Labels''))), (''id'', PStr (str_or_empty item ''ID''))]"

definition job_containers :: "(string \<Rightarrow> pyval option) \<Rightarrow> int \<times> string \<Rightarrow> pydict list" where
  "job_containers loads answer =
     (if fst answer \<noteq> 0 then []
      else List.map_filter (\<lambda>line. case loads line of Some (PDict item) \<Rightarrow> Some (container_entry item) | _ \<Rightarrow> None) (splitlines (snd answer)))"

record ContainerWatcher =
  cw_faults :: "KernelFault list"
  cw_events :: "(string \<times> pydict) list"

definition within_window :: "rat \<Rightarrow> KernelFault \<Rightarrow> bool" where
  "within_window now f = (now - FAULT_WINDOW_SECONDS \<le> kf_seen_at f)"

definition note_fault :: "rat \<Rightarrow> KernelFault \<Rightarrow> ContainerWatcher \<Rightarrow> ContainerWatcher" where
  "note_fault now fault w = w\<lparr>cw_faults := filter (within_window now) (cw_faults w @ [fault])\<rparr>"

definition recent_fault :: "rat \<Rightarrow> ContainerWatcher \<Rightarrow> KernelFault option" where
  "recent_fault now w = (case filter (within_window now) (cw_faults w) of [] \<Rightarrow> None | fs \<Rightarrow> Some (last fs))"

definition dict_at :: "pydict \<Rightarrow> string \<Rightarrow> pydict" where
  "dict_at d k = (case dget d k PNone of PDict e \<Rightarrow> e | _ \<Rightarrow> [])"

definition event_action :: "pydict \<Rightarrow> string" where
  "event_action event = takeWhile (\<lambda>c. c \<noteq> CHR '':'') (str_or_empty event ''Action'')"

definition exit_code_of :: "pydict \<Rightarrow> int option" where
  "exit_code_of attributes =
     (let raw = dget attributes ''exitCode'' PNone in
      if raw = PNone \<or> raw = PStr [] then None else (case py_int raw of Inr n \<Rightarrow> Some n | Inl _ \<Rightarrow> None))"

definition watcher_classify :: "rat \<Rightarrow> pydict \<Rightarrow> ContainerWatcher \<Rightarrow> pydict" where
  "watcher_classify now event w =
     (let actor = dict_at event ''Actor''; attributes = dict_at actor ''Attributes''; action = event_action event;
          code = exit_code_of attributes;
          record = [(''action'', PStr action), (''container'', PStr (str_or_empty attributes ''name'')),
            (''id'', PStr (take 12 (str_or_empty actor ''ID''))), (''image'', PStr (str_or_empty attributes ''image'')),
            (''job'', PStr (str_or_empty attributes JOB_LABEL))]
      in if action \<notin> {''die'', ''oom'', ''kill''} then record
         else (let fault = recent_fault now w;
                   code_value = (''exit_code'', case code of None \<Rightarrow> PNone | Some n \<Rightarrow> PInt n);
                   reason = (if action = ''oom'' then ''oom_killed'' else exit_reason code)
               in (case fault of
                     None \<Rightarrow> record @ [code_value, (''reason'', PStr reason), (''gpu_error'', PBool False)]
                   | Some f \<Rightarrow> record @ [code_value, (''reason'', PStr ''gpu_error''), (''gpu_error'', PBool True),
                                 (''fault'', PDict (KernelFault_payload f))])))"

definition handle_line :: "(string \<Rightarrow> pyval option) \<Rightarrow> rat \<Rightarrow> string \<Rightarrow> ContainerWatcher \<Rightarrow> ContainerWatcher" where
  "handle_line loads now line w =
     (case loads line of
        Some (PDict event) \<Rightarrow>
          if dget event ''Type'' (PStr ''container'') \<noteq> PStr ''container'' \<or> event_action event \<notin> set LIFECYCLE then w
          else w\<lparr>cw_events := cw_events w @ [(''container.'' @ event_action event, watcher_classify now event w)]\<rparr>
      | _ \<Rightarrow> w)"

definition watcher_delay :: "rat \<Rightarrow> rat \<Rightarrow> rat" where
  "watcher_delay delay elapsed = (if 60 < elapsed then 2 else min (delay * 2) 60)"

text \<open>\<^verbatim>\<open>run_monitor\<close>: the two threads' work on the one watcher, each step under its lock.\<close>

datatype monitor_step = MonitorFault rat KernelFault | MonitorLine rat string

fun step_time :: "monitor_step \<Rightarrow> rat" where
  "step_time (MonitorFault now f) = now"
| "step_time (MonitorLine now line) = now"

fun run_monitor :: "(string \<Rightarrow> pyval option) \<Rightarrow> ContainerWatcher \<Rightarrow> monitor_step \<Rightarrow> ContainerWatcher" where
  "run_monitor loads w (MonitorFault now f) =
     (note_fault now f w)\<lparr>cw_events := cw_events w @ [(''gpu.fault'', KernelFault_payload f)]\<rparr>"
| "run_monitor loads w (MonitorLine now line) = handle_line loads now line w"


section \<open>Facts\<close>

fun faults_of :: "monitor_step list \<Rightarrow> KernelFault list" where
  "faults_of [] = []"
| "faults_of (MonitorFault now f # steps) = f # faults_of steps"
| "faults_of (MonitorLine now line # steps) = faults_of steps"

lemma window_mono: "t \<le> now \<Longrightarrow> within_window now f \<Longrightarrow> within_window t f"
  by (simp add: within_window_def)

lemma filter_window: "t \<le> now \<Longrightarrow> filter (within_window now) (filter (within_window t) fs) = filter (within_window now) fs"
  using window_mono by (auto intro: filter_cong)

text \<open>The pruned list of the watcher stands for the whole history: at every later time both hold the same faults
  in the window.\<close>

lemma watcher_history:
  assumes "\<forall>s \<in> set steps. step_time s \<le> now"
  shows "filter (within_window now) (cw_faults (run_events (run_monitor loads) w steps))
    = filter (within_window now) (cw_faults w @ faults_of steps)"
  using assms
proof (induction steps arbitrary: w)
  case (Cons s steps)
  have le: "step_time s \<le> now" using Cons.prems by simp
  show ?case
  proof (cases s)
    case (MonitorFault t f)
    have "cw_faults (run_monitor loads w s) = filter (within_window t) (cw_faults w @ [f])"
      by (simp add: MonitorFault note_fault_def)
    then have "filter (within_window now) (cw_faults (run_monitor loads w s)) = filter (within_window now) (cw_faults w @ [f])"
      using filter_window [of t now] window_mono [of t now f] le MonitorFault by auto
    moreover have "\<forall>s \<in> set steps. step_time s \<le> now" using Cons.prems by simp
    ultimately show ?thesis using Cons.IH MonitorFault by simp
  next
    case (MonitorLine t line)
    have "cw_faults (handle_line loads t line w) = cw_faults w"
      by (auto simp: handle_line_def split: option.splits pyval.splits)
    then show ?thesis using Cons MonitorLine by simp
  qed
qed simp

lemma recent_fault_history:
  assumes "\<forall>s \<in> set steps. step_time s \<le> now" "cw_faults w = []"
  shows "recent_fault now (run_events (run_monitor loads) w steps)
    = (case filter (within_window now) (faults_of steps) of [] \<Rightarrow> None | fs \<Rightarrow> Some (last fs))"
  using watcher_history [OF assms(1), of loads w] assms(2) by (simp add: recent_fault_def)

section \<open>Properties\<close>


definition wit_event :: pydict where
  "wit_event = [(''Action'', PStr ''die''), (''Actor'', PDict [(''Attributes'', PDict [(''exitCode'', PStr ''137'')])])]"

definition wit_fault :: KernelFault where
  "wit_fault = \<lparr>kf_kind = ''xid'', kf_message = ''m'', kf_pci = [], kf_xid = Some 79, kf_severe = True, kf_seen_at = 100\<rparr>"


text \<open>Every Xid the driver logs becomes a fault: a kernel record that carries the driver's line for a bus address
  and a number is reported as that number at that address, severe exactly when the table names it,
  whatever the record's prefix and the rest of the line are.\<close>

theorem xid_reported:
  assumes "CHR '';'' \<notin> set head" "pci \<noteq> []" "list_all pci_char pci"
  shows "\<exists>message. parse_line now (head @ '';'' @ XID_PREFIX @ pci @ ''): '' @ show_nat n @ '', '' @ rest) =
    Some \<lparr>kf_kind = ''xid'', kf_message = message, kf_pci = pci, kf_xid = Some (int n), kf_severe = dhas SEVERE_XIDS (int n), kf_seen_at = now\<rparr>"
proof -
  let ?core = "XID_PREFIX @ pci @ ''): '' @ show_nat n @ '',''"
  have k: "kmsg_text (head @ '';'' @ XID_PREFIX @ pci @ ''): '' @ show_nat n @ '', '' @ rest) = ?core @ rstrip ('' '' @ rest)"
  proof -
    have d: "dropWhile (\<lambda>c. c \<noteq> CHR '';'') (head @ '';'' @ x) = '';'' @ x" for x
      using assms(1) by (induction head) auto
    have l: "lstrip (XID_PREFIX @ x) = XID_PREFIX @ x" for x
      by (simp add: XID_PREFIX_def lstrip_def is_space_def)
    have r: "rstrip (a @ [c] @ b) = a @ [c] @ rstrip b" if "\<not> is_space c" for a b c
      using that by (simp add: rstrip_def dropWhile_append)
    have "\<not> is_space (CHR '','')" by code_simp
    from r [OF this, of "XID_PREFIX @ pci @ ''): '' @ show_nat n" "'' '' @ rest"]
    show ?thesis unfolding kmsg_text_def d strip_def by (simp add: l)
  qed
  let ?more = "rstrip ('' '' @ rest)"
  have dg: "takeWhile is_digit (show_nat n @ '','' @ x) = show_nat n" for x
  proof -
    have "\<not> is_digit (CHR '','')" by code_simp
    then show ?thesis using show_nat_digits by (simp add: takeWhile_append2)
  qed
  have "xid_at (?core @ ?more) = Some (pci, show_nat n)"
  proof -
    have nb: "\<not> pci_char (CHR '')'')" by code_simp
    have "takeWhile pci_char (pci @ '')'' @ x) = pci" "dropWhile pci_char (pci @ '')'' @ x) = '')'' @ x" for x
      using assms(3) nb by (auto simp: list_all_iff takeWhile_append dropWhile_append)
    then show ?thesis using assms(2) dg by (simp add: xid_at_def startswith_def Let_def)
  qed
  then have "xid_search (?core @ ?more) = Some (pci, show_nat n)" by (cases "?core @ ?more") (simp_all add: XID_PREFIX_def)
  moreover have "?core @ ?more \<noteq> []" by (simp add: XID_PREFIX_def)
  ultimately show ?thesis unfolding parse_line_def k Let_def by (simp add: digits_val_show_nat)
qed

theorem xid_reported_witness:
  "\<exists>message. parse_line 5 (''6,1,2,-'' @ '';'' @ XID_PREFIX @ ''0000:01:00'' @ ''): '' @ show_nat 79 @ '', '' @ ''pid=1'') =
    Some \<lparr>kf_kind = ''xid'', kf_message = message, kf_pci = ''0000:01:00'', kf_xid = Some (int 79), kf_severe = dhas SEVERE_XIDS (int 79), kf_seen_at = 5\<rparr>"
proof (rule xid_reported)
  show "CHR '';'' \<notin> set ''6,1,2,-''" "''0000:01:00'' \<noteq> []" "list_all pci_char ''0000:01:00''" by code_simp+
qed

end
