(* ===== verification/Agent_Cache.thy ===== *)
theory Agent_Cache
  imports Protocol_Messages Act_Trace
begin

text \<open>
  The agent's image cache (\<^verbatim>\<open>agent/cache/prefetch.py\<close>, \<^verbatim>\<open>agent/cache/pull_lock.py\<close>): the bounded state file, the
  lock around a pull, and the warming of an image. Docker is a parameter as in \<open>Agent_Updater\<close>; \<open>encoded\<close> is
  the length of the JSON text of a state, and the clock, the free space of the disk and the attempts at
  the lock are arguments.
\<close>

section \<open>References\<close>

definition ref_start :: "char \<Rightarrow> bool" where
  "ref_start c = (is_digit c \<or> (97 \<le> (of_char c :: nat) \<and> of_char c \<le> (122 :: nat)))"

definition ref_char :: "char \<Rightarrow> bool" where
  "ref_char c = (ref_start c \<or> c \<in> set ''._/-'')"

definition tag_char :: "char \<Rightarrow> bool" where
  "tag_char c = (ref_start c \<or> (65 \<le> (of_char c :: nat) \<and> of_char c \<le> (90 :: nat)) \<or> c \<in> set ''._-'')"

text \<open>The pattern \<^verbatim>\<open>REFERENCE\<close>: a name, a tag and a digest; the last two may be left out. Its end also matches
  before a final line feed.\<close>

definition after_tag :: "string \<Rightarrow> string option" where
  "after_tag s =
     (if s \<noteq> [] \<and> hd s = CHR '':''
      then (if takeWhile tag_char (tl s) = [] then None else Some (dropWhile tag_char (tl s)))
      else Some s)"

definition after_digest :: "string \<Rightarrow> string" where
  "after_digest s =
     (let h = take 64 (drop 8 s) in
      if startswith s ''@sha256:'' \<and> length h = 64 \<and> list_all is_lower_hex h then drop 72 s else s)"

definition REFERENCE :: "string \<Rightarrow> bool" where
  "REFERENCE s =
     (s \<noteq> [] \<and> ref_start (hd s) \<and>
      (case after_tag (dropWhile ref_char (tl s)) of None \<Rightarrow> False | Some rest \<Rightarrow> after_digest rest \<in> {[], newline}))"

section \<open>The state file\<close>

definition STATE_LIMIT :: nat where "STATE_LIMIT = 4096"

definition prefetch_load :: "rat \<Rightarrow> pyval option \<Rightarrow> pydict" where
  "prefetch_load started file =
     (let parsed = (case file of Some (PDict d) \<Rightarrow> d | _ \<Rightarrow> []);
          d1 = dsetdefault ''started_at'' (PFloat started) parsed;
          d2 = dsetdefault ''sweep_count'' (PInt 0) d1;
          d3 = dsetdefault ''images'' (PDict []) d2
      in (case dget d3 ''images'' PNone of PDict _ \<Rightarrow> d3 | _ \<Rightarrow> AList.update ''images'' (PDict []) d3))"

definition pulled_at :: "string \<times> pyval \<Rightarrow> rat pyres" where
  "pulled_at e = rbind (attr_get (snd e) ''pulled_at'' (PInt 0)) (\<lambda>x. py_float (py_or x (PInt 0)))"

text \<open>\<^verbatim>\<open>min(images, key=...)\<close>: the first name of the least time.\<close>

definition oldest :: "pydict \<Rightarrow> string pyres" where
  "oldest images =
     rbind (rmap (\<lambda>e. rbind (pulled_at e) (\<lambda>t. Inr (t, fst e))) images) (\<lambda>ts.
       case ts of [] \<Rightarrow> Inl ValueError | t # rest \<Rightarrow> Inr (snd (min_by fst t rest)))"

lemma oldest_Inr:
  assumes "oldest images = Inr name"
  obtains e t where "e \<in> set images" "fst e = name" "pulled_at e = Inr t"
    "\<And>e' t'. e' \<in> set images \<Longrightarrow> pulled_at e' = Inr t' \<Longrightarrow> t \<le> t'"
proof -
  obtain ts where r: "rmap (\<lambda>e. rbind (pulled_at e) (\<lambda>t. Inr (t, fst e))) images = Inr ts"
    and o: "(case ts of [] \<Rightarrow> Inl ValueError | t # rest \<Rightarrow> Inr (snd (min_by fst t rest))) = Inr name"
    using assms unfolding oldest_def rbind_eq_Inr by blast
  have mem: "set ts = {y. \<exists>e \<in> set images. rbind (pulled_at e) (\<lambda>t. Inr (t, fst e)) = Inr y}"
    using r by (rule rmap_set)
  from o obtain t rest where ts: "ts = t # rest" and n: "name = snd (min_by fst t rest)" by (cases ts) auto
  let ?m = "min_by fst t rest"
  have "?m \<in> set ts" unfolding ts by (rule min_by_in)
  then obtain e where e: "e \<in> set images" "pulled_at e = Inr (fst ?m)" "fst e = name"
    unfolding mem n mem_Collect_eq rbind_eq_Inr by (metis fst_conv snd_conv sum.inject(2))
  moreover have "fst ?m \<le> t'" if "e' \<in> set images" "pulled_at e' = Inr t'" for e' t'
  proof -
    have "(t', fst e') \<in> set ts" unfolding mem using that by (auto simp: result_simps)
    then show ?thesis unfolding ts using min_by_le [of "(t', fst e')" t rest fst] by simp
  qed
  ultimately show thesis using that by blast
qed

lemma oldest_mem: "oldest images = Inr name \<Longrightarrow> name \<in> fst ` set images"
  by (elim oldest_Inr) force

function trim :: "(pydict \<Rightarrow> nat) \<Rightarrow> pydict \<Rightarrow> pydict \<Rightarrow> pydict pyres" where
  "trim encoded state images =
     (if STATE_LIMIT < encoded state \<and> images \<noteq> []
      then (case oldest images of
              Inl e \<Rightarrow> Inl e
            | Inr name \<Rightarrow> trim encoded (AList.update ''images'' (PDict (AList.delete name images)) state) (AList.delete name images))
      else Inr state)"
  by pat_completeness auto
termination
proof (relation "measure (\<lambda>(encoded, state, images). length images)", simp)
  fix encoded :: "pydict \<Rightarrow> nat" and state images :: pydict and name
  assume "oldest images = Inr name"
  then have "name \<in> fst ` set images" by (rule oldest_mem)
  then have "length (AList.delete name images) < length images"
    unfolding AList.delete_eq by (force intro: length_filter_less)
  then show "((encoded, AList.update ''images'' (PDict (AList.delete name images)) state, AList.delete name images), encoded, state, images)
      \<in> measure (\<lambda>(encoded, state, images). length images)" by simp
qed

declare trim.simps [simp del]

record CacheHost =
  ch_calls :: "string list list"
  ch_file :: "pyval option"
  ch_events :: "(string \<times> pydict) list"

datatype lock_result = Locked | Degraded | Busy

record CacheEnv =
  ce_docker :: "string list list \<Rightarrow> string list \<Rightarrow> int \<times> string"
  ce_loads :: "string \<Rightarrow> pyval option"
  ce_encoded :: "pydict \<Rightarrow> nat"
  ce_started :: rat
  ce_now :: rat
  ce_free :: int
  ce_lock :: lock_result
  ce_seconds :: rat
  ce_writable :: bool
  ce_has_events :: bool

definition count_of :: "pydict \<Rightarrow> int pyres" where
  "count_of state = py_int (py_or (dget state ''sweep_count'' (PInt 0)) (PInt 0))"

definition prefetch_save :: "CacheEnv \<Rightarrow> pydict \<Rightarrow> ('z CacheHost_scheme, unit) act" where
  "prefetch_save env state =
     bnd (lift (count_of state)) (\<lambda>n.
       (let s1 = AList.update ''started_at'' (py_or (dget state ''started_at'' PNone) (PFloat (ce_started env))) state;
            s2 = AList.update ''sweep_count'' (PInt n) s1;
            s3 = AList.update ''updated_at'' (PFloat (py_round_to 3 (ce_now env))) s2;
            images = (case py_or (dget s3 ''images'' PNone) (PDict []) of PDict d \<Rightarrow> d | _ \<Rightarrow> [])
        in bnd (lift (trim (ce_encoded env) s3 images)) (\<lambda>s4.
             modify (\<lambda>w. if ce_writable env then w\<lparr>ch_file := Some (PDict s4)\<rparr> else w))))"

definition bump :: "pydict \<Rightarrow> pydict pyres" where
  "bump state = rbind (count_of state) (\<lambda>n. Inr (AList.update ''sweep_count'' (PInt (n + 1)) state))"

definition images_of :: "pydict \<Rightarrow> pydict" where
  "images_of state = (case dget state ''images'' PNone of PDict d \<Rightarrow> d | _ \<Rightarrow> [])"

definition prefetch_record :: "CacheEnv \<Rightarrow> string \<Rightarrow> pydict \<Rightarrow> ('z CacheHost_scheme, unit) act" where
  "prefetch_record env reference fs =
     bnd (gets (\<lambda>w. prefetch_load (ce_started env) (ch_file w))) (\<lambda>state.
       (let images = AList.update reference (PDict ((''pulled_at'', PFloat (py_round_to 3 (ce_now env))) # fs)) (images_of state) in
        bnd (lift (bump (AList.update ''images'' (PDict images) state))) (prefetch_save env)))"

definition note_error :: "CacheEnv \<Rightarrow> string \<Rightarrow> string \<Rightarrow> ('z CacheHost_scheme, unit) act" where
  "note_error env reference error =
     bnd (gets (\<lambda>w. prefetch_load (ce_started env) (ch_file w))) (\<lambda>state.
       bnd (lift (bump (AList.update ''last_error'' (PDict [(''reference'', PStr reference), (''error'', PStr (take 300 error)),
              (''at'', PFloat (py_round_to 3 (ce_now env)))]) state))) (prefetch_save env))"

section \<open>The lock\<close>

text \<open>The attempts at the lock: whether it was granted, and the time passed when it was not. A list that ends
  before the loop gives no result.\<close>

fun lock_loop :: "rat option \<Rightarrow> (bool \<times> rat) list \<Rightarrow> lock_result option" where
  "lock_loop timeout [] = None"
| "lock_loop timeout ((granted, elapsed) # attempts) =
     (if granted then Some Locked
      else if (case timeout of None \<Rightarrow> False | Some t \<Rightarrow> t \<le> elapsed) then Some Busy
      else lock_loop timeout attempts)"

definition lock_acquire :: "bool \<Rightarrow> bool \<Rightarrow> rat option \<Rightarrow> (bool \<times> rat) list \<Rightarrow> lock_result option" where
  "lock_acquire has_fcntl opened timeout attempts =
     (if \<not> has_fcntl \<or> \<not> opened then Some Degraded else lock_loop timeout attempts)"

section \<open>Warming an image\<close>

definition cache_docker :: "CacheEnv \<Rightarrow> string list \<Rightarrow> ('z CacheHost_scheme, int \<times> string) act" where
  "cache_docker env args = (\<lambda>w. (w\<lparr>ch_calls := ch_calls w @ [args]\<rparr>, Inr (ce_docker env (ch_calls w) args)))"

definition parsed_digests :: "CacheEnv \<Rightarrow> int \<times> string \<Rightarrow> string list" where
  "parsed_digests env answer =
     (let ls = splitlines (strip (snd answer)) in
      if fst answer \<noteq> 0 \<or> ls = [] then []
      else (case ce_loads env (last ls) of Some (PList es) \<Rightarrow> map py_str es | _ \<Rightarrow> []))"

definition digests_args :: "string \<Rightarrow> string list" where
  "digests_args reference = [''docker'', ''image'', ''inspect'', ''--format'', ''{{json .RepoDigests}}'', reference]"

definition repo_digests :: "CacheEnv \<Rightarrow> string \<Rightarrow> ('z CacheHost_scheme, string list) act" where
  "repo_digests env reference = bnd (cache_docker env (digests_args reference)) (\<lambda>a. ret (parsed_digests env a))"

definition layer_size :: "pydict \<Rightarrow> int pyres" where
  "layer_size d = py_int (py_or (dget d ''size'' (PInt 0)) (PInt 0))"

definition entry_size :: "pyval \<Rightarrow> int list pyres" where
  "entry_size entry =
     (case entry of
        PDict d \<Rightarrow>
          (case py_or (py_or (dget d ''SchemaV2Manifest'' PNone) (dget d ''OCIManifest'' PNone)) (PDict []) of
             PDict m \<Rightarrow>
               (case dget m ''layers'' PNone of
                  PList ls \<Rightarrow> rbind (rmap layer_size (dicts_of ls)) (\<lambda>ns. Inr [sum_list ns])
                | _ \<Rightarrow> Inr [])
           | _ \<Rightarrow> Inr [])
      | _ \<Rightarrow> Inr [])"

definition manifest_size :: "CacheEnv \<Rightarrow> int \<times> string \<Rightarrow> int pyres" where
  "manifest_size env answer =
     (if fst answer \<noteq> 0 then Inr 0
      else (case ce_loads env (strip (snd answer)) of
              None \<Rightarrow> Inr 0
            | Some parsed \<Rightarrow>
                rbind (rmap entry_size (case parsed of PList es \<Rightarrow> es | v \<Rightarrow> [v])) (\<lambda>ns.
                  Inr (case concat ns of [] \<Rightarrow> 0 | sizes \<Rightarrow> Max (set sizes)))))"

definition image_size :: "CacheEnv \<Rightarrow> string \<Rightarrow> ('z CacheHost_scheme, int) act" where
  "image_size env reference =
     bnd (cache_docker env [''docker'', ''manifest'', ''inspect'', ''--verbose'', reference]) (\<lambda>a. lift (manifest_size env a))"

definition has_digest :: "string \<Rightarrow> string list \<Rightarrow> bool" where
  "has_digest digest items = list_ex (\<lambda>i. suffix (''@'' @ digest) i) items"

definition failed_warm :: "CacheEnv \<Rightarrow> string \<Rightarrow> pydict \<Rightarrow> string \<Rightarrow> bool \<Rightarrow> ('z CacheHost_scheme, pydict) act" where
  "failed_warm env reference result error tell =
     bnd (note_error env reference error) (\<lambda>_.
     bnd (if tell \<and> ce_has_events env
          then modify (\<lambda>w. w\<lparr>ch_events := ch_events w @ [(''image.prefetch'',
                 [(''image'', PStr reference), (''ok'', PBool False), (''error'', PStr error)])]\<rparr>) else ret ()) (\<lambda>_.
       ret (result @ [(''error'', PStr error)])))"

definition pulled_digest :: "PrefetchRequest \<Rightarrow> string list \<Rightarrow> string" where
  "pulled_digest request digests =
     str_or (pf_digest request)
       (case digests of d # _ \<Rightarrow> if CHR ''@'' \<in> set d then drop 1 (dropWhile (\<lambda>c. c \<noteq> CHR ''@'') d) else [] | [] \<Rightarrow> [])"

text \<open>The part after the checks of space and of the lock.\<close>

definition warm_pull :: "CacheEnv \<Rightarrow> PrefetchRequest \<Rightarrow> string \<Rightarrow> int \<Rightarrow> pydict \<Rightarrow> ('z CacheHost_scheme, pydict) act" where
  "warm_pull env request reference nbytes result =
     bnd (cache_docker env [''docker'', ''pull'', reference]) (\<lambda>(code, out).
       (let seconds = PFloat (py_round_to 1 (ce_seconds env));
            result1 = result @ [(''pull_seconds'', seconds), (''lock_degraded'', PBool (ce_lock env = Degraded))]
        in if code \<noteq> 0
           then failed_warm env reference result1
                  (''docker pull failed ('' @ show_int code @ ''): '' @ last_chars 300 (strip out)) True
           else bnd (repo_digests env reference) (\<lambda>digests.
             (let result2 = result1 @ [(''repo_digests'', PList (map PStr digests))]; pulled = pulled_digest request digests in
              if pf_digest request \<noteq> [] \<and> \<not> has_digest (pf_digest request) digests
              then failed_warm env reference result2 ''pulled image does not carry the requested digest'' True
              else bnd (prefetch_record env reference [(''digest'', PStr pulled), (''size_bytes'', PInt nbytes), (''seconds'', seconds)]) (\<lambda>_.
                   bnd (if ce_has_events env
                        then modify (\<lambda>w. w\<lparr>ch_events := ch_events w @ [(''image.prefetch'',
                               [(''image'', PStr reference), (''ok'', PBool True), (''digest'', PStr pulled), (''seconds'', seconds)])]\<rparr>)
                        else ret ()) (\<lambda>_.
                     ret (result2 @ [(''ok'', PBool True), (''warm'', PBool True), (''pulled_digest'', PStr pulled)])))))))"

definition warm :: "CacheEnv \<Rightarrow> PrefetchRequest \<Rightarrow> ('z CacheHost_scheme, pydict) act" where
  "warm env request =
     (let reference = PrefetchRequest_reference request;
          result = [(''image'', PStr (pf_image request)), (''digest'', PStr (pf_digest request)), (''reference'', PStr reference)]
      in if \<not> REFERENCE reference then ret (result @ [(''error'', PStr ''invalid image reference'')])
         else if pf_digest request \<noteq> [] \<and> \<not> well_formed_digest (pf_digest request) then ret (result @ [(''error'', PStr ''invalid digest'')])
         else bnd (repo_digests env reference) (\<lambda>present.
           if pf_digest request \<noteq> [] \<and> has_digest (pf_digest request) present
           then bnd (prefetch_record env reference
                       [(''digest'', PStr (pf_digest request)), (''size_bytes'', PInt 0), (''already_present'', PBool True)]) (\<lambda>_.
                  ret (result @ [(''ok'', PBool True), (''warm'', PBool True), (''already_present'', PBool True)]))
           else bnd (image_size env reference) (\<lambda>nbytes.
             (let result1 = (if nbytes \<noteq> 0 then result @ [(''size_bytes'', PInt nbytes), (''free_bytes'', PInt (ce_free env))] else result) in
              if nbytes \<noteq> 0 \<and> ce_free env \<noteq> 0 \<and> ce_free env < nbytes * 3
              then failed_warm env reference result1 ''not enough free disk for the image'' False
              else if ce_lock env = Busy
              then failed_warm env reference result1 ''another pull holds the lock'' False
              else warm_pull env request reference nbytes result1))))"

section \<open>Facts\<close>

lemma set_delete: "set (AList.delete k d) = {e \<in> set d. fst e \<noteq> k}"
  unfolding AList.delete_eq by auto

lemma trim_keeps:
  assumes "trim encoded state images = Inr state'" "dget state ''images'' PNone = PDict images" "distinct (map fst images)"
  shows "\<exists>kept. dget state' ''images'' PNone = PDict kept \<and> set kept \<subseteq> set images
    \<and> (encoded state' \<le> STATE_LIMIT \<or> kept = [])
    \<and> (\<forall>d \<in> set images - set kept. \<forall>k \<in> set kept. \<forall>t u. pulled_at d = Inr t \<and> pulled_at k = Inr u \<longrightarrow> t \<le> u)"
  using assms
proof (induction encoded state images rule: trim.induct)
  case (1 encoded state images)
  show ?case
  proof (cases "STATE_LIMIT < encoded state \<and> images \<noteq> []")
    case False
    then show ?thesis using 1(2,3) by (auto simp: trim.simps)
  next
    case True
    then obtain name where o: "oldest images = Inr name"
      and t: "trim encoded (AList.update ''images'' (PDict (AList.delete name images)) state) (AList.delete name images) = Inr state'"
      using 1(2) by (auto simp: trim.simps split: sum.splits)
    have "distinct (map fst (AList.delete name images))" using 1(4) by (simp add: distinct_delete)
    from 1(1) [OF True o t _ this] obtain kept where k: "dget state' ''images'' PNone = PDict kept"
      "set kept \<subseteq> set (AList.delete name images)" "encoded state' \<le> STATE_LIMIT \<or> kept = []"
      "\<forall>d \<in> set (AList.delete name images) - set kept. \<forall>k \<in> set kept. \<forall>t u. pulled_at d = Inr t \<and> pulled_at k = Inr u \<longrightarrow> t \<le> u"
      by (auto simp: dget_update)
    from o obtain e te where e: "e \<in> set images" "fst e = name" "pulled_at e = Inr te"
      "\<And>e' t'. e' \<in> set images \<Longrightarrow> pulled_at e' = Inr t' \<Longrightarrow> te \<le> t'" by (rule oldest_Inr) blast
    have only: "d = e" if "d \<in> set images" "fst d = name" for d
      using that e(1,2) 1(4) by (metis eq_key_imp_eq_value prod.collapse)
    have "t \<le> u" if "d \<in> set images - set kept" "q \<in> set kept" "pulled_at d = Inr t" "pulled_at q = Inr u" for d q t u
    proof (cases "fst d = name")
      case True
      then have "d = e" using only that(1) by blast
      then have "t = te" using that(3) e(3) by simp
      moreover have "q \<in> set images" using k(2) that(2) by (auto simp: set_delete)
      ultimately show ?thesis using e(4) that(4) by simp
    next
      case False
      then show ?thesis using k(4) that by (auto simp: set_delete)
    qed
    then show ?thesis using k(1-3) by (auto simp: set_delete)
  qed
qed

section \<open>Properties\<close>

text \<open>The prefetch state is bounded by dropping its oldest images. Saving trims the state until its text
  fits the limit or no image is left, which always ends; the images kept are among those given, and no
  image dropped is newer than one kept.\<close>

theorem prefetch_state_bounded:
  assumes "dget state ''images'' PNone = PDict images" "distinct (map fst images)" "\<forall>e \<in> set images. \<exists>t. pulled_at e = Inr t"
  shows "\<exists>state' kept. trim encoded state images = Inr state' \<and> dget state' ''images'' PNone = PDict kept \<and> set kept \<subseteq> set images
    \<and> (encoded state' \<le> STATE_LIMIT \<or> kept = [])
    \<and> (\<forall>d \<in> set images - set kept. \<forall>k \<in> set kept. \<forall>t u. pulled_at d = Inr t \<and> pulled_at k = Inr u \<longrightarrow> t \<le> u)"
proof -
  have "\<exists>state'. trim encoded state images = Inr state'" using assms(3)
  proof (induction encoded state images rule: trim.induct)
    case (1 encoded state images)
    show ?case
    proof (cases "STATE_LIMIT < encoded state \<and> images \<noteq> []")
      case True
      have "\<exists>ts. rmap (\<lambda>e. rbind (pulled_at e) (\<lambda>t. Inr (t, fst e))) images = Inr ts"
        using rmap_total [of images "\<lambda>e. rbind (pulled_at e) (\<lambda>t. Inr (t, fst e))" "\<lambda>e. (projr (pulled_at e), fst e)"] 1(2)
        by fastforce
      then obtain ts where ts: "rmap (\<lambda>e. rbind (pulled_at e) (\<lambda>t. Inr (t, fst e))) images = Inr ts" by blast
      then have "ts \<noteq> []" using True rmap_Inr_length [OF ts] by auto
      then obtain name where o: "oldest images = Inr name" using ts by (cases ts) (auto simp: oldest_def)
      then show ?thesis using 1(1) [OF True o] 1(2) True by (auto simp: trim.simps [of _ state] set_delete)
    next
      case False
      then show ?thesis by (auto simp: trim.simps)
    qed
  qed
  then show ?thesis using trim_keeps [OF _ assms(1,2)] by blast
qed

definition wit_images :: pydict where
  "wit_images = [(''a'', PDict [(''pulled_at'', PInt 5)]), (''b'', PDict [(''pulled_at'', PInt 9)])]"

theorem prefetch_state_bounded_witness:
  "\<exists>state' kept. trim (\<lambda>d. 4000 + 60 * length (images_of d)) [(''images'', PDict wit_images)] wit_images = Inr state'
    \<and> dget state' ''images'' PNone = PDict kept \<and> set kept \<subseteq> set wit_images"
proof -
  have 1: "dget [(''images'', PDict wit_images)] ''images'' PNone = PDict wit_images" by (simp add: dget_def)
  have 2: "distinct (map fst wit_images)" by (simp add: wit_images_def)
  have 3: "\<forall>e \<in> set wit_images. \<exists>t. pulled_at e = Inr t"
    by (simp add: wit_images_def pulled_at_def dget_def py_or_def)
  show ?thesis using prefetch_state_bounded [OF 1 2 3, of "\<lambda>d. 4000 + 60 * length (images_of d)"] by blast
qed

lemma record_calls: "prefetch_record env reference fs w = (w', r) \<Longrightarrow> ch_calls w' = ch_calls w"
  by (auto simp: prefetch_record_def prefetch_save_def Let_def bnd_def lift_def split: sum.splits if_splits)

lemma failed_warm_result: "failed_warm env reference result error tell w = (w', Inr r) \<Longrightarrow> r = result @ [(''error'', PStr error)]"
  by (auto simp: failed_warm_def bnd_Inr)

lemma repo_digests_eq:
  "repo_digests env reference w = (w\<lparr>ch_calls := ch_calls w @ [digests_args reference]\<rparr>,
     Inr (parsed_digests env (ce_docker env (ch_calls w) (digests_args reference))))"
  by (simp add: repo_digests_def cache_docker_def bnd_def)

text \<open>A docker that listed the digest at some point of a run.\<close>

definition listed :: "CacheEnv \<Rightarrow> string \<Rightarrow> string \<Rightarrow> string list list \<Rightarrow> bool" where
  "listed env reference digest calls \<longleftrightarrow> (\<exists>before after. calls = before @ digests_args reference # after
     \<and> has_digest digest (parsed_digests env (ce_docker env before (digests_args reference))))"

lemma warm_pull_ok:
  assumes "warm_pull env request reference nbytes result w = (w', Inr r)" "truthy (dget r ''ok'' PNone)"
    and "dget result ''ok'' PNone = PNone" "pf_digest request \<noteq> []"
  shows "listed env reference (pf_digest request) (ch_calls w')"
proof -
  obtain code out where d: "ce_docker env (ch_calls w) [''docker'', ''pull'', reference] = (code, out)" by fastforce
  let ?w1 = "w\<lparr>ch_calls := ch_calls w @ [[''docker'', ''pull'', reference]]\<rparr>"
  let ?w2 = "?w1\<lparr>ch_calls := ch_calls ?w1 @ [digests_args reference]\<rparr>"
  let ?ds = "parsed_digests env (ce_docker env (ch_calls ?w1) (digests_args reference))"
  have no: "dget (result @ kvs) ''ok'' PNone = PNone" if "map_of kvs ''ok'' = None" for kvs
    using assms(3) that by (auto simp: dget_def map_add_def split: option.splits)
  have 0: "code = 0"
  proof (rule ccontr)
    assume "code \<noteq> 0"
    then have "\<exists>a b c. r = result @ [(''pull_seconds'', a), (''lock_degraded'', b), (''error'', c)]"
      using assms(1) d by (auto simp: warm_pull_def cache_docker_def Let_def bnd_def dest!: failed_warm_result)
    then show False using assms(2) no by fastforce
  qed
  have has: "has_digest (pf_digest request) ?ds"
  proof (rule ccontr)
    assume "\<not> has_digest (pf_digest request) ?ds"
    then have "\<exists>a b c e. r = result @ [(''pull_seconds'', a), (''lock_degraded'', b), (''repo_digests'', c), (''error'', e)]"
      using assms(1,4) d 0
      by (auto simp: warm_pull_def cache_docker_def Let_def bnd_def repo_digests_eq dest!: failed_warm_result)
    then show False using assms(2) no by fastforce
  qed
  have "ch_calls w' = ch_calls ?w2"
    using assms(1) d 0 has unfolding warm_pull_def
    by (auto simp: cache_docker_def Let_def repo_digests_eq elim!: bnd_cases dest!: record_calls split: if_splits)
  with has show ?thesis unfolding listed_def
    by (intro exI [of _ "ch_calls ?w1"] exI [of _ "[]"]) simp
qed

text \<open>A warm image carries the digest that was asked for: when a prefetch answers that the image is there,
  docker listed, for the very reference, a repository digest ending in the requested one; the pull alone
  is not trusted.\<close>

theorem warm_carries_digest:
  assumes "warm env request w = (w', Inr result)" "truthy (dget result ''ok'' PNone)" "pf_digest request \<noteq> []"
  shows "listed env (PrefetchRequest_reference request) (pf_digest request) (ch_calls w')"
proof -
  let ?ref = "PrefetchRequest_reference request"
  let ?start = "[(''image'', PStr (pf_image request)), (''digest'', PStr (pf_digest request)), (''reference'', PStr ?ref)]"
  let ?w1 = "w\<lparr>ch_calls := ch_calls w @ [digests_args ?ref]\<rparr>"
  let ?ds = "parsed_digests env (ce_docker env (ch_calls w) (digests_args ?ref))"
  have ok: "REFERENCE ?ref" "well_formed_digest (pf_digest request)"
    using assms by (auto simp: warm_def Let_def dget_def split: if_splits)
  show ?thesis
  proof (cases "has_digest (pf_digest request) ?ds")
    case True
    have "ch_calls w' = ch_calls ?w1"
      using assms(1,3) ok True unfolding warm_def
      by (auto simp: Let_def repo_digests_eq elim!: bnd_cases dest!: record_calls split: if_splits)
    with True show ?thesis unfolding listed_def by (intro exI [of _ "ch_calls w"] exI [of _ "[]"]) simp
  next
    case False
    obtain w2 nbytes res where p: "warm_pull env request ?ref nbytes res w2 = (w', Inr result)" "dget res ''ok'' PNone = PNone"
      using assms(1,2) ok False unfolding warm_def
      by (auto simp: Let_def repo_digests_eq dget_def elim!: bnd_cases dest!: failed_warm_result split: if_splits)
    then show ?thesis using assms(2,3) by (intro warm_pull_ok)
  qed
qed
definition wit_digest :: string where
  "wit_digest = ''sha256:'' @ replicate 64 CHR ''a''"

definition wit_request :: PrefetchRequest where
  "wit_request = \<lparr>pf_image = ''img:1'', pf_digest = wit_digest\<rparr>"

definition wit_cache_env :: CacheEnv where
  "wit_cache_env = \<lparr>ce_docker = (\<lambda>calls args. (0, ''x'')), ce_loads = (\<lambda>_. Some (PList [PStr (''img@'' @ wit_digest)])),
     ce_encoded = length, ce_started = 0, ce_now = 1, ce_free = 0, ce_lock = Locked, ce_seconds = 0, ce_writable = True,
     ce_has_events = True\<rparr>"

definition wit_cache_host :: CacheHost where
  "wit_cache_host = \<lparr>ch_calls = [], ch_file = None, ch_events = []\<rparr>"

lemma wit_warm_runs:
  "(case snd (warm wit_cache_env wit_request wit_cache_host) of Inr result \<Rightarrow> truthy (dget result ''ok'' PNone) | Inl e \<Rightarrow> False)"
  by code_simp

theorem warm_carries_digest_witness:
  "listed wit_cache_env (PrefetchRequest_reference wit_request) wit_digest (ch_calls (fst (warm wit_cache_env wit_request wit_cache_host)))"
proof -
  obtain w' r where w: "warm wit_cache_env wit_request wit_cache_host = (w', r)" by fastforce
  then obtain result where r: "r = Inr result" "truthy (dget result ''ok'' PNone)" using wit_warm_runs by (cases r) auto
  have d: "pf_digest wit_request = wit_digest" "wit_digest \<noteq> []" by (simp_all add: wit_request_def wit_digest_def)
  from warm_carries_digest [OF w [unfolded r(1)] r(2)] show ?thesis using d w by simp
qed

end
