(* ===== verification/Agent_Control.thy ===== *)
theory Agent_Control
  imports Agent_Client Agent_Monitor Agent_Grants Agent_Store Agent_Cache Rig_Challenge
begin

text \<open>
  The agent's side of the control socket: the operator's decisions on claims (\<^verbatim>\<open>agent/control/claims.py\<close>), the
  handlers of the pool's commands (\<^verbatim>\<open>agent/control/handlers.py\<close>), the socket's tasks (\<^verbatim>\<open>agent/control/socket.py\<close>) and the
  pool of measurements (\<^verbatim>\<open>agent/hardware/pool.py\<close>). A task of the event loop runs between two of its awaits without
  interruption; each operation here is one such run. What a measurement, a thread or docker answers is an
  argument of the step that asks, as is the clock; a late thread goes on, and its end is a step of its own.
\<close>

section \<open>The pool of measurements\<close>

definition IN_FLIGHT :: nat where "IN_FLIGHT = 3"

record MetricsPool =
  mp_slots :: nat
  mp_in_flight :: nat
  mp_rejected :: nat
  mp_timed_out :: nat

datatype pool_event = PoolRun | PoolDone bool

text \<open>A call takes a slot or is rejected; it ends with an answer or, when the flag is set, by its timeout. Only a
  call in flight can end.\<close>

inductive pool_step :: "MetricsPool \<Rightarrow> pool_event \<Rightarrow> MetricsPool \<Rightarrow> bool" where
  pool_reject: "mp_slots p = 0 \<Longrightarrow> pool_step p PoolRun (p\<lparr>mp_rejected := mp_rejected p + 1\<rparr>)"
| pool_enter: "0 < mp_slots p \<Longrightarrow> pool_step p PoolRun (p\<lparr>mp_slots := mp_slots p - 1, mp_in_flight := mp_in_flight p + 1\<rparr>)"
| pool_leave: "0 < mp_in_flight p \<Longrightarrow> pool_step p (PoolDone late)
    (p\<lparr>mp_slots := mp_slots p + 1, mp_in_flight := mp_in_flight p - 1,
       mp_timed_out := mp_timed_out p + (if late then 1 else 0)\<rparr>)"

inductive_cases pool_stepE: "pool_step p e p'"

definition MetricsPool_init :: MetricsPool where
  "MetricsPool_init = \<lparr>mp_slots = IN_FLIGHT, mp_in_flight = 0, mp_rejected = 0, mp_timed_out = 0\<rparr>"

section \<open>Claims\<close>

definition base58_char :: "char \<Rightarrow> bool" where
  "base58_char c = (is_alnum c \<and> c \<notin> set ''0OIl'')"

text \<open>The pattern \<^verbatim>\<open>HOTKEY\<close>; its end also matches before a final line feed.\<close>

definition well_formed_hotkey :: "string \<Rightarrow> bool" where
  "well_formed_hotkey hotkey =
     (let s = (if hotkey \<noteq> [] \<and> last hotkey = CHR 0x0A then butlast hotkey else hotkey) in
      list_all base58_char s \<and> 46 \<le> length s \<and> length s \<le> 50)"

text \<open>An entry of the folder of decisions: a text, a file that is not UTF-8, a file that cannot be read, a directory
  (which cannot be unlinked) or another kind of entry.\<close>

datatype folder_entry = TextFile string | NotText | Unreadable | Directory | OtherEntry

record AgentRuntime = CacheHost +
  ar_rig_id :: string
  ar_draining :: bool
  ar_jobs :: JobBook
  ar_pending :: "(string \<times> string) list"
  ar_announced :: "string set"
  ar_approvals :: "(string \<times> folder_entry) list option"
  ar_decided :: "(string \<times> string \<times> bool) list"
  ar_challenge :: "bool \<times> nat"
  ar_queue :: OutboundQueue
  ar_last_pong :: rat

definition rt_event :: "string \<Rightarrow> pydict \<Rightarrow> ('z AgentRuntime_scheme, unit) act" where
  "rt_event kind kvs = modify (\<lambda>w. w\<lparr>ch_events := ch_events w @ [(kind, kvs)]\<rparr>)"

definition decision_text :: "bool \<Rightarrow> string" where
  "decision_text approved = (if approved then ''approve'' else ''deny'')"

definition record_decision :: "string \<Rightarrow> bool \<Rightarrow> ('z AgentRuntime_scheme, unit) act" where
  "record_decision hotkey approved =
     (if \<not> well_formed_hotkey hotkey then raise (ValueErr ''that does not look like an ss58 hotkey'')
      else modify (\<lambda>w. w\<lparr>ar_approvals := Some (AList.update hotkey (TextFile (decision_text approved))
             (case ar_approvals w of None \<Rightarrow> [] | Some fs \<Rightarrow> fs))\<rparr>))"

definition claim_prompt :: "string \<Rightarrow> string \<Rightarrow> ('z AgentRuntime_scheme, unit) act" where
  "claim_prompt hotkey expires_at =
     bnd (modify (\<lambda>w. w\<lparr>ar_pending := AList.update hotkey expires_at (ar_pending w)\<rparr>)) (\<lambda>_.
       rt_event ''claim.prompt'' [(''hotkey'', PStr hotkey), (''expires_at'', PStr expires_at)])"

definition claim_send :: "ServerClient \<Rightarrow> string \<Rightarrow> bool \<Rightarrow> ('z AgentRuntime_scheme, bool) act" where
  "claim_send c hotkey approved =
     bnd (gets ar_rig_id) (\<lambda>rig_id.
     if rig_id = [] then ret False
     else bnd (modify (\<lambda>w. w\<lparr>ar_decided := ar_decided w @ [(rig_id, hotkey, approved)]\<rparr>)) (\<lambda>_.
       (case decide_claim c rig_id hotkey approved of
          Inl e \<Rightarrow>
            (let text = client_error_text e; waiting = contains_str ''no claim'' text in
             bnd (gets ar_announced) (\<lambda>announced.
               if \<not> waiting \<or> hotkey \<notin> announced
               then bnd (rt_event ''claim.decide.error'' [(''hotkey'', PStr hotkey), (''error'', PStr (take 200 text))]) (\<lambda>_.
                    bnd (modify (\<lambda>w. w\<lparr>ar_announced := insert hotkey (ar_announced w)\<rparr>)) (\<lambda>_. ret False))
               else ret False))
        | Inr _ \<Rightarrow>
            bnd (rt_event ''claim.decide'' [(''hotkey'', PStr hotkey), (''approved'', PBool approved)]) (\<lambda>_.
            bnd (modify (\<lambda>w. w\<lparr>ar_pending := AList.delete hotkey (ar_pending w), ar_announced := ar_announced w - {hotkey}\<rparr>)) (\<lambda>_.
              ret True)))))"

definition unlink_entry :: "string \<Rightarrow> ('z AgentRuntime_scheme, unit) act" where
  "unlink_entry name = modify (\<lambda>w. w\<lparr>ar_approvals := map_option (AList.delete name) (ar_approvals w)\<rparr>)"

definition drain_entry :: "ServerClient \<Rightarrow> string \<times> folder_entry \<Rightarrow> ('z AgentRuntime_scheme, unit) act" where
  "drain_entry c e =
     (let name = fst e; send = (\<lambda>text. (let decision = lower (strip text) in
            bnd (claim_send c name (decision = ''approve'')) (\<lambda>sent.
              if sent \<or> decision \<notin> {''approve'', ''deny''} then unlink_entry name else ret ())))
      in if snd e = Directory then raise OsError
         else if snd e = OtherEntry \<or> \<not> well_formed_hotkey name then unlink_entry name
         else (case snd e of TextFile text \<Rightarrow> send text | NotText \<Rightarrow> raise (Raised ValueError) | _ \<Rightarrow> ret ()))"

definition claim_drain :: "ServerClient \<Rightarrow> ('z AgentRuntime_scheme, unit) act" where
  "claim_drain c =
     bnd (gets ar_approvals) (\<lambda>folder.
       case folder of
         None \<Rightarrow> ret ()
       | Some fs \<Rightarrow> bnd (each (drain_entry c) (sort_key fst fs)) (\<lambda>_. ret ()))"

text \<open>One round of \<^verbatim>\<open>watch\<close>: an operating system error is noted, any other exception ends the task.\<close>

definition watch_round :: "ServerClient \<Rightarrow> string \<Rightarrow> ('z AgentRuntime_scheme, unit) act" where
  "watch_round c text =
     attempt (claim_drain c) (\<lambda>e. if e = OsError then rt_event ''claim.watch.error'' [(''error'', PStr (take 200 text))] else raise e)"

section \<open>Commands\<close>

definition LOG_BYTES :: nat where "LOG_BYTES = 256 * 1024"

record ControlEnv =
  ct_now :: rat
  ct_spec :: "exc + pydict"
  ct_utilisation :: "exc + (string + pydict)"
  ct_library :: "ChallengeLibrary option"
  ct_challenge_late :: bool
  ct_elapsed :: rat
  ct_sha256 :: "string \<Rightarrow> nat list"
  ct_hardware :: Hardware
  ct_attestation_late :: bool
  ct_logs :: "string list \<Rightarrow> exc + (int \<times> string) option"
  ct_decode :: "string \<Rightarrow> string"
  ct_cache :: CacheEnv
  ct_prefetch_late :: bool
  ct_exc_text :: "exc \<Rightarrow> string"

type_synonym ('z) handler = "('z AgentRuntime_scheme, bool \<times> pydict) act"

definition err_only :: "string \<Rightarrow> bool \<times> pydict" where
  "err_only text = (False, [(''error'', PStr text)])"

definition handle_spec :: "ControlEnv \<Rightarrow> Command \<Rightarrow> 'z handler" where
  "handle_spec env command = (case ct_spec env of Inl e \<Rightarrow> raise e | Inr view \<Rightarrow> ret (True, view))"

definition handle_utilisation :: "ControlEnv \<Rightarrow> Command \<Rightarrow> 'z handler" where
  "handle_utilisation env command =
     (case ct_utilisation env of Inl e \<Rightarrow> raise e | Inr (Inl text) \<Rightarrow> ret (err_only text) | Inr (Inr view) \<Rightarrow> ret (True, view))"

definition handle_challenge :: "ControlEnv \<Rightarrow> Command \<Rightarrow> 'z handler" where
  "handle_challenge env command =
     (let request = ChallengeRequest_from_payload (cmd_payload command) in
      if ct_library env = None then ret (err_only MISSING)
      else bnd (gets ar_challenge) (\<lambda>lock.
        if ct_challenge_late env \<and> \<not> fst lock
        then bnd (modify (\<lambda>w. w\<lparr>ar_challenge := (True, snd lock)\<rparr>)) (\<lambda>_.
             bnd (rt_event ''challenge.timeout'' [(''seed'', PInt (cr_seed request)), (''n'', PInt (cr_n request))]) (\<lambda>_.
               ret (err_only ''challenge did not finish in time'')))
        else (let (lock', answer) = agent_challenge_run (ct_library env) (ct_elapsed env) request lock in
             bnd (modify (\<lambda>w. w\<lparr>ar_challenge := lock'\<rparr>)) (\<lambda>_.
             bnd (rt_event ''challenge.run'' [(''seed'', PInt (cr_seed request)), (''n'', PInt (cr_n request)), (''rounds'', PInt (cr_rounds request)),
                    (''ok'', PBool (ca_error answer = [])), (''elapsed_ms'', PFloat (py_round_to 3 (ca_elapsed_ms answer))),
                    (''error'', PStr (ca_error answer))]) (\<lambda>_.
               ret (ca_error answer = [], ChallengeAnswer_payload answer))))))"

definition challenge_thread_ends :: "('z AgentRuntime_scheme, unit) act" where
  "challenge_thread_ends = modify (\<lambda>w. w\<lparr>ar_challenge := (False, snd (ar_challenge w) + 1)\<rparr>)"

definition handle_attestation :: "ControlEnv \<Rightarrow> Command \<Rightarrow> 'z handler" where
  "handle_attestation env command =
     (if ct_attestation_late env then ret (err_only ''attestation did not finish in time'')
      else (case attestation_build (ct_sha256 env) (ct_hardware env) (AttestationRequest_from_payload (cmd_payload command)) [] (ct_now env) of
              None \<Rightarrow> ret (err_only ''nonce must be 32 bytes as 64 lowercase hex characters'')
            | Some evidence \<Rightarrow> ret (True, Attestation_payload evidence)))"

definition handle_job_placed :: "ControlEnv \<Rightarrow> Command \<Rightarrow> 'z handler" where
  "handle_job_placed env command =
     (let job = JobRecord_from_payload (cmd_payload command);
          detail = (case dget (cmd_payload command) ''detail'' PNone of PDict d \<Rightarrow> d | _ \<Rightarrow> [])
      in if jr_job_id job = [] then ret (err_only ''job_id required'')
         else bnd (modify (\<lambda>w. w\<lparr>ar_jobs := fst (jobs_record (ct_now env) job ''coordinator'' detail (ar_jobs w))\<rparr>)) (\<lambda>_.
              bnd (rt_event ''job.placed'' [(''job'', PStr (jr_job_id job)), (''job_kind'', PStr (jr_kind job)), (''pid'', PInt (jr_pid job)),
                     (''container'', PStr (jr_container job))]) (\<lambda>_.
              bnd (gets (\<lambda>w. length (ar_jobs w))) (\<lambda>n.
                ret (True, [(''recorded'', PStr (jr_job_id job)), (''jobs'', PInt (int n))])))))"

definition docker_logs :: "ControlEnv \<Rightarrow> string \<Rightarrow> int \<Rightarrow> ('z AgentRuntime_scheme, int \<times> string) act" where
  "docker_logs env name tail =
     (case ct_logs env [''docker'', ''logs'', ''--tail'', show_int tail, name] of
        Inl e \<Rightarrow> raise e
      | Inr None \<Rightarrow> ret (124, ''timed out'')
      | Inr (Some (code, out)) \<Rightarrow> ret (code, ct_decode env (last_bytes LOG_BYTES out)))"

definition handle_log_stream :: "ControlEnv \<Rightarrow> Command \<Rightarrow> 'z handler" where
  "handle_log_stream env command =
     (let request = LogStreamRequest_from_payload (cmd_payload command) in
      if \<not> valid_name (ls_container request) then ret (err_only ''container name required'')
      else bnd (docker_logs env (ls_container request) (ls_tail request)) (\<lambda>(code, out).
        (let lines = splitlines out in
         ret (code = 0, [(''container'', PStr (ls_container request)),
           (''lines'', PList (map PStr (drop (length lines - nat (ls_tail request)) lines))), (''code'', PInt code),
           (''tail'', PInt (ls_tail request))]))))"

text \<open>A late prefetch goes on in its thread; what it does is done, its answer is lost.\<close>

definition handle_prefetch :: "ControlEnv \<Rightarrow> Command \<Rightarrow> 'z handler" where
  "handle_prefetch env command =
     (let request = PrefetchRequest_from_payload (cmd_payload command) in
      if pf_image request = [] then ret (err_only ''image required'')
      else if ct_prefetch_late env
      then (\<lambda>w. (fst (warm (ct_cache env) request w),
             Inr (False, [(''error'', PStr ''prefetch did not finish in time''), (''image'', PStr (pf_image request))])))
      else bnd (warm (ct_cache env) request) (\<lambda>outcome. ret (truthy (dget outcome ''ok'' PNone), outcome)))"

definition handle_drain :: "ControlEnv \<Rightarrow> Command \<Rightarrow> 'z handler" where
  "handle_drain env command =
     (let request = DrainRequest_from_payload (cmd_payload command) in
      bnd (modify (\<lambda>w. w\<lparr>ar_draining := dr_drain request\<rparr>)) (\<lambda>_.
      bnd (rt_event ''drain'' [(''draining'', PBool (dr_drain request)), (''reason'', PStr (dr_reason request))]) (\<lambda>_.
      bnd (gets (\<lambda>w. (ar_draining w, length (ar_jobs w)))) (\<lambda>(draining, n).
        ret (True, [(''draining'', PBool draining), (''jobs_running'', PInt (int n))])))))"

definition handle_claim_prompt :: "ControlEnv \<Rightarrow> Command \<Rightarrow> 'z handler" where
  "handle_claim_prompt env command =
     (let request = ClaimPrompt_from_payload (cmd_payload command) in
      if cp_hotkey request = [] then ret (err_only ''hotkey required'')
      else bnd (claim_prompt (cp_hotkey request) (cp_expires_at request)) (\<lambda>_.
        ret (True, [(''prompted'', PStr (cp_hotkey request)), (''expires_at'', PStr (cp_expires_at request))])))"

fun HANDLERS :: "CommandKind \<Rightarrow> ControlEnv \<Rightarrow> Command \<Rightarrow> 'z handler" where
  "HANDLERS SPEC = handle_spec"
| "HANDLERS UTILISATION = handle_utilisation"
| "HANDLERS CHALLENGE = handle_challenge"
| "HANDLERS ATTESTATION = handle_attestation"
| "HANDLERS JOB_PLACED = handle_job_placed"
| "HANDLERS LOG_STREAM = handle_log_stream"
| "HANDLERS PREFETCH = handle_prefetch"
| "HANDLERS DRAIN = handle_drain"
| "HANDLERS CLAIM_PROMPT = handle_claim_prompt"

definition handle_command :: "ControlEnv \<Rightarrow> Command \<Rightarrow> 'z handler" where
  "handle_command env command =
     (case List.find (\<lambda>k. command_kind_value k = cmd_kind command) command_kinds of
        None \<Rightarrow> ret (False, [(''error'', PStr ''unknown command''), (''kind'', PStr (cmd_kind command))])
      | Some k \<Rightarrow> attempt (HANDLERS k env command) (\<lambda>e.
          bnd (rt_event ''command.error'' [(''id'', PInt (cmd_id command)), (''command'', PStr (cmd_kind command)),
                 (''error'', PStr (take 300 (ct_exc_text env e)))]) (\<lambda>_.
            ret (False, [(''error'', PStr (take 500 (ct_exc_text env e))), (''kind'', PStr (cmd_kind command))]))))"

section \<open>The socket\<close>

definition socket_send :: "rat \<Rightarrow> pydict \<Rightarrow> bool \<Rightarrow> ('z AgentRuntime_scheme, unit) act" where
  "socket_send now message front = modify (\<lambda>w. w\<lparr>ar_queue := queue_put now message front (ar_queue w)\<rparr>)"

definition send_event :: "rat \<Rightarrow> string \<Rightarrow> pydict \<Rightarrow> ('z AgentRuntime_scheme, unit) act" where
  "send_event now kind detail = socket_send now (Event_payload now \<lparr>ev_kind = kind, ev_detail = detail\<rparr>) False"

definition send_result :: "rat \<Rightarrow> int \<Rightarrow> bool \<Rightarrow> pydict \<Rightarrow> ('z AgentRuntime_scheme, unit) act" where
  "send_result now command_id ok result =
     socket_send now (Result_payload now \<lparr>res_id = command_id, res_ok = ok, res_result = result\<rparr>) False"

definition socket_execute :: "ControlEnv \<Rightarrow> Command \<Rightarrow> ('z AgentRuntime_scheme, unit) act" where
  "socket_execute env command =
     bnd (handle_command env command) (\<lambda>(ok, result).
     bnd (rt_event ''command'' [(''id'', PInt (cmd_id command)), (''command'', PStr (cmd_kind command)), (''ok'', PBool ok)]) (\<lambda>_.
       send_result (ct_now env) (cmd_id command) ok result))"

definition socket_message :: "(string \<Rightarrow> pyval option) \<Rightarrow> ControlEnv \<Rightarrow> string \<Rightarrow> ('z AgentRuntime_scheme, unit) act" where
  "socket_message loads env raw =
     (case loads raw of
        None \<Rightarrow> rt_event ''socket.bad_message'' [(''length'', PInt (int (length raw)))]
      | Some (PDict message) \<Rightarrow>
          (let kind = dget message ''type'' PNone in
           if kind = PStr (server_message_value COMMAND) then socket_execute env (Command_from_payload message)
           else if kind = PStr (server_message_value PONG) then modify (\<lambda>w. w\<lparr>ar_last_pong := ct_now env\<rparr>)
           else if kind = PStr (server_message_value ERROR)
           then rt_event ''socket.server_error'' [(''detail'', PStr (take 300 (py_str (dget message ''detail'' (PStr [])))))]
           else ret ())
      | Some _ \<Rightarrow> ret ())"

text \<open>One message of the writer: sent, or put back in front and the connection given up. \<open>None\<close>: the queue is empty and
  the task waits.\<close>

definition socket_write :: "rat \<Rightarrow> (pydict \<Rightarrow> bool) \<Rightarrow> OutboundQueue \<Rightarrow> (OutboundQueue \<times> pydict \<times> bool) option" where
  "socket_write now wire q =
     (case queue_get q of
        None \<Rightarrow> None
      | Some (q1, message) \<Rightarrow>
          (let stamped = queue_stamp now message q1 in
           if wire stamped then Some (q1, stamped, True) else Some (requeue stamped q1, stamped, False)))"

definition PONG_TIMEOUT_SECONDS :: rat where "PONG_TIMEOUT_SECONDS = 40"

definition ping_interval :: "int \<Rightarrow> int" where
  "ping_interval every = max 1 (min (if every = 0 then 20 else every) 20)"

definition socket_ping :: "rat \<Rightarrow> ('z AgentRuntime_scheme, unit) act" where
  "socket_ping now = socket_send now (ping now) True"

definition pong_overdue :: "rat \<Rightarrow> rat \<Rightarrow> rat \<Rightarrow> bool" where
  "pong_overdue now last_pong connected_at = (PONG_TIMEOUT_SECONDS < now - max last_pong connected_at)"

definition state_payload :: "ControlEnv \<Rightarrow> string \<Rightarrow> pydict list \<Rightarrow> ('z AgentRuntime_scheme, pydict) act" where
  "state_payload env version containers =
     bnd (case ct_utilisation env of Inl e \<Rightarrow> raise e | Inr (Inl text) \<Rightarrow> ret [(''error'', PStr text)] | Inr (Inr view) \<Rightarrow> ret view) (\<lambda>utilisation.
       gets (\<lambda>w. State_payload (ct_now env)
         \<lparr>st_utilisation = utilisation, st_containers = map PDict containers, st_queue_depth = int (length (q_items (ar_queue w))),
          st_agent_version = version, st_draining = ar_draining w, st_jobs = jobs_ids (ar_jobs w)\<rparr>))"

fun py_type_name :: "pyval \<Rightarrow> string" where
  "py_type_name PNone = ''NoneType''"
| "py_type_name (PBool b) = ''bool''"
| "py_type_name (PInt i) = ''int''"
| "py_type_name (PFloat r) = ''float''"
| "py_type_name (PStr s) = ''str''"
| "py_type_name (PList xs) = ''list''"
| "py_type_name (PDict d) = ''dict''"

text \<open>The greeting of a session.\<close>

definition socket_greeting :: "(string \<Rightarrow> pyval option) \<Rightarrow> rat \<Rightarrow> string \<Rightarrow> ('z AgentRuntime_scheme, int) act" where
  "socket_greeting loads now raw =
     (case loads raw of
        None \<Rightarrow> raise (Raised ValueError)
      | Some (PDict greeting) \<Rightarrow>
          if dget greeting ''type'' PNone \<noteq> PStr (server_message_value WELCOME) then raise (RuntimeErr ''unexpected greeting type dict'')
          else (let welcome = Welcome_from_payload greeting in
            bnd (modify (\<lambda>w. w\<lparr>ar_rig_id := (if wel_rig_id welcome \<noteq> [] then wel_rig_id welcome else ar_rig_id w), ar_last_pong := now\<rparr>)) (\<lambda>_.
            bnd (gets ar_rig_id) (\<lambda>rig_id.
            bnd (rt_event ''socket.connected'' [(''rig_id'', PStr rig_id), (''ping'', PInt (wel_ping_seconds welcome))]) (\<lambda>_.
              ret (wel_ping_seconds welcome)))))
      | Some v \<Rightarrow> raise (RuntimeErr (''unexpected greeting type '' @ py_type_name v)))"

section \<open>Reconnecting\<close>

definition RECONNECT_MIN_SECONDS :: rat where "RECONNECT_MIN_SECONDS = 1"
definition RECONNECT_MAX_SECONDS :: rat where "RECONNECT_MAX_SECONDS = 60"
definition CLOSE_BAD_HELLO :: int where "CLOSE_BAD_HELLO = 4400"
definition CLOSE_BAD_SIGNATURE :: int where "CLOSE_BAD_SIGNATURE = 4401"
definition CLOSE_UNKNOWN_RIG :: int where "CLOSE_UNKNOWN_RIG = 4404"

text \<open>The code of a received close frame, else the exception's own code.\<close>

definition close_code :: "int option \<Rightarrow> int option \<Rightarrow> int" where
  "close_code received code = (case received of Some n \<Rightarrow> n | None \<Rightarrow> (case code of Some n \<Rightarrow> n | None \<Rightarrow> 0))"

datatype session_end = SessionClosed | SessionFailed int

record Reconnect =
  rc_backoff :: rat
  rc_need_register :: bool
  rc_last_close_code :: int

text \<open>One turn of \<^verbatim>\<open>run\<close> after its session ended: the pause before the next one.\<close>

fun reconnect_turn :: "session_end \<Rightarrow> Reconnect \<Rightarrow> rat \<times> Reconnect" where
  "reconnect_turn SessionClosed s = (RECONNECT_MIN_SECONDS, s\<lparr>rc_backoff := RECONNECT_MIN_SECONDS, rc_need_register := True\<rparr>)"
| "reconnect_turn (SessionFailed code) s =
     (let backoff = (if code = CLOSE_UNKNOWN_RIG then RECONNECT_MIN_SECONDS
                     else if code \<in> {CLOSE_BAD_HELLO, CLOSE_BAD_SIGNATURE} then max (rc_backoff s) 5 else rc_backoff s)
      in (backoff, s\<lparr>rc_backoff := min (backoff * 2) RECONNECT_MAX_SECONDS, rc_need_register := True, rc_last_close_code := code\<rparr>))"


section \<open>What a round of decisions does\<close>

text \<open>For one entry of the folder: what is posted to the pool, and whether the entry is removed.\<close>

definition decision_of :: "string \<Rightarrow> string" where
  "decision_of text = lower (strip text)"

definition accepted :: "ServerClient \<Rightarrow> string \<Rightarrow> string \<Rightarrow> bool \<Rightarrow> bool" where
  "accepted c rig_id hotkey approved = (rig_id \<noteq> [] \<and> (\<exists>d. decide_claim c rig_id hotkey approved = Inr d))"

definition posted :: "string \<Rightarrow> string \<times> folder_entry \<Rightarrow> (string \<times> string \<times> bool) list" where
  "posted rig_id e =
     (case snd e of
        TextFile text \<Rightarrow> if rig_id \<noteq> [] \<and> well_formed_hotkey (fst e) then [(rig_id, fst e, decision_of text = ''approve'')] else []
      | _ \<Rightarrow> [])"

definition entry_removed :: "ServerClient \<Rightarrow> string \<Rightarrow> string \<times> folder_entry \<Rightarrow> bool" where
  "entry_removed c rig_id e \<longleftrightarrow>
     snd e = OtherEntry \<or> \<not> well_formed_hotkey (fst e) \<or>
     (\<exists>text. snd e = TextFile text \<and>
        (accepted c rig_id (fst e) (decision_of text = ''approve'') \<or> decision_of text \<notin> {''approve'', ''deny''}))"

definition plain_entry :: "string \<times> folder_entry \<Rightarrow> bool" where
  "plain_entry e = (snd e \<noteq> Directory \<and> \<not> (snd e = NotText \<and> well_formed_hotkey (fst e)))"

lemma claim_send_spec:
  "\<exists>w'. claim_send c hotkey approved w = (w', Inr (accepted c (ar_rig_id w) hotkey approved)) \<and> ar_rig_id w' = ar_rig_id w
    \<and> ar_approvals w' = ar_approvals w
    \<and> ar_decided w' = ar_decided w @ (if ar_rig_id w = [] then [] else [(ar_rig_id w, hotkey, approved)])"
  by (cases "decide_claim c (ar_rig_id w) hotkey approved")
    (auto simp: claim_send_def accepted_def bnd_def rt_event_def Let_def)

lemma drain_entry_spec:
  assumes "plain_entry e"
  shows "\<exists>w'. drain_entry c e w = (w', Inr ()) \<and> ar_rig_id w' = ar_rig_id w \<and> ar_decided w' = ar_decided w @ posted (ar_rig_id w) e
    \<and> ar_approvals w' = (if entry_removed c (ar_rig_id w) e then map_option (AList.delete (fst e)) (ar_approvals w) else ar_approvals w)"
proof (cases "snd e = OtherEntry \<or> \<not> well_formed_hotkey (fst e)")
  case True
  then have "entry_removed c (ar_rig_id w) e" "posted (ar_rig_id w) e = []"
    by (auto simp: entry_removed_def posted_def split: folder_entry.splits)
  then show ?thesis using True assms by (auto simp: drain_entry_def unlink_entry_def plain_entry_def Let_def)
next
  case False
  show ?thesis
  proof (cases "\<exists>body. snd e = TextFile body")
    case True
    then obtain body where t: "snd e = TextFile body" by blast
    obtain w1 where w1: "claim_send c (fst e) (decision_of body = ''approve'') w = (w1, Inr (accepted c (ar_rig_id w) (fst e) (decision_of body = ''approve'')))"
      "ar_rig_id w1 = ar_rig_id w" "ar_approvals w1 = ar_approvals w"
      "ar_decided w1 = ar_decided w @ (if ar_rig_id w = [] then [] else [(ar_rig_id w, fst e, decision_of body = ''approve'')])"
      using claim_send_spec by blast
    then show ?thesis using False t
      by (auto simp: drain_entry_def Let_def bnd_def unlink_entry_def entry_removed_def posted_def decision_of_def)
  next
    case nt: False
    then have "\<not> entry_removed c (ar_rig_id w) e" "posted (ar_rig_id w) e = []" "snd e = Unreadable"
      using False assms by (auto simp: entry_removed_def posted_def plain_entry_def split: folder_entry.splits) (cases "snd e"; auto)
    then show ?thesis using False by (auto simp: drain_entry_def Let_def)
  qed
qed

lemma drain_entries_spec:
  assumes "list_all plain_entry es"
  shows "\<exists>w'. each (drain_entry c) es w = (w', Inr (map (\<lambda>_. ()) es)) \<and> ar_rig_id w' = ar_rig_id w
    \<and> ar_decided w' = ar_decided w @ concat (map (posted (ar_rig_id w)) es)
    \<and> ar_approvals w' = map_option (filter (\<lambda>x. \<not> (\<exists>e \<in> set es. fst e = fst x \<and> entry_removed c (ar_rig_id w) e))) (ar_approvals w)"
  using assms
proof (induction es arbitrary: w)
  case Nil
  show ?case by (cases "ar_approvals w") simp_all
next
  case (Cons e es)
  obtain w1 where w1: "drain_entry c e w = (w1, Inr ())" "ar_rig_id w1 = ar_rig_id w" "ar_decided w1 = ar_decided w @ posted (ar_rig_id w) e"
    "ar_approvals w1 = (if entry_removed c (ar_rig_id w) e then map_option (AList.delete (fst e)) (ar_approvals w) else ar_approvals w)"
    using drain_entry_spec [of e c w] Cons.prems by auto
  obtain w2 where w2: "each (drain_entry c) es w1 = (w2, Inr (map (\<lambda>_. ()) es))" "ar_rig_id w2 = ar_rig_id w1"
    "ar_decided w2 = ar_decided w1 @ concat (map (posted (ar_rig_id w1)) es)"
    "ar_approvals w2 = map_option (filter (\<lambda>x. \<not> (\<exists>e \<in> set es. fst e = fst x \<and> entry_removed c (ar_rig_id w1) e))) (ar_approvals w1)"
    using Cons.IH [of w1] Cons.prems by auto
  have "ar_approvals w2 = map_option (filter (\<lambda>x. \<not> (\<exists>e' \<in> set (e # es). fst e' = fst x \<and> entry_removed c (ar_rig_id w) e'))) (ar_approvals w)"
    unfolding w2(4) w1(4) w1(2)
    by (cases "ar_approvals w") (auto simp: AList.delete_eq case_prod_beta intro!: filter_cong)
  then show ?case using w1 w2 by (auto simp: bnd_def)
qed

lemma claim_drain_spec:
  assumes "ar_approvals w = Some fs" "list_all plain_entry fs" "distinct (map fst fs)"
  shows "\<exists>w'. claim_drain c w = (w', Inr ()) \<and> ar_rig_id w' = ar_rig_id w
    \<and> ar_decided w' = ar_decided w @ concat (map (posted (ar_rig_id w)) (sort_key fst fs))
    \<and> ar_approvals w' = Some (filter (\<lambda>e. \<not> entry_removed c (ar_rig_id w) e) fs)"
proof -
  have "list_all plain_entry (sort_key fst fs)" using assms(2) by (simp add: list_all_iff)
  from drain_entries_spec [OF this, of c w] obtain w' where w': "each (drain_entry c) (sort_key fst fs) w = (w', Inr (map (\<lambda>_. ()) (sort_key fst fs)))"
    "ar_rig_id w' = ar_rig_id w" "ar_decided w' = ar_decided w @ concat (map (posted (ar_rig_id w)) (sort_key fst fs))"
    "ar_approvals w' = Some (filter (\<lambda>x. \<not> (\<exists>e \<in> set fs. fst e = fst x \<and> entry_removed c (ar_rig_id w) e)) fs)"
    using assms(1) by auto
  have "filter (\<lambda>x. \<not> (\<exists>e \<in> set fs. fst e = fst x \<and> entry_removed c (ar_rig_id w) e)) fs = filter (\<lambda>e. \<not> entry_removed c (ar_rig_id w) e) fs"
  proof (rule filter_cong [OF refl])
    fix x assume "x \<in> set fs"
    then have "e = x" if "e \<in> set fs" "fst e = fst x" for e
      using that assms(3) by (metis eq_key_imp_eq_value prod.collapse)
    then show "(\<not> (\<exists>e \<in> set fs. fst e = fst x \<and> entry_removed c (ar_rig_id w) e)) = (\<not> entry_removed c (ar_rig_id w) x)"
      using \<open>x \<in> set fs\<close> by blast
  qed
  then show ?thesis using w' assms(1) by (simp add: claim_drain_def bnd_def)
qed


interpretation decided: trace ar_decided .

lemma decided_each: "(\<And>x. x \<in> set xs \<Longrightarrow> decided.logs P (f x)) \<Longrightarrow> decided.logs P (each f xs)"
  by (induction xs) (auto intro!: decided.logs_rules)

definition operator_said :: "(string \<times> folder_entry) list \<Rightarrow> string \<times> string \<times> bool \<Rightarrow> bool" where
  "operator_said fs d \<longleftrightarrow> (case d of (rig_id, hotkey, approved) \<Rightarrow>
     well_formed_hotkey hotkey \<and> (\<exists>body. (hotkey, TextFile body) \<in> set fs \<and> approved = (decision_of body = ''approve'')))"

lemma claim_send_logs:
  assumes "\<And>rig_id. P (rig_id, hotkey, approved)"
  shows "decided.logs P (claim_send c hotkey approved)"
proof -
  have "\<exists>cs. ar_decided (fst (claim_send c hotkey approved w)) = ar_decided w @ cs \<and> list_all P cs" for w :: "'a AgentRuntime_scheme"
  proof -
    obtain w' where "claim_send c hotkey approved w = (w', Inr (accepted c (ar_rig_id w) hotkey approved))"
      "ar_decided w' = ar_decided w @ (if ar_rig_id w = [] then [] else [(ar_rig_id w, hotkey, approved)])"
      using claim_send_spec by blast
    then show ?thesis using assms by auto
  qed
  then show ?thesis unfolding decided.logs_def by blast
qed

lemma unlink_logs: "decided.logs P (unlink_entry name)"
  unfolding unlink_entry_def by (rule decided.logs_modify) simp

lemma drain_entry_logs: "e \<in> set fs \<Longrightarrow> decided.logs (operator_said fs) (drain_entry c e)"
  unfolding drain_entry_def Let_def
  by (cases e; cases "snd e")
    (auto intro!: decided.logs_rules claim_send_logs unlink_logs simp: operator_said_def decision_of_def)

lemma drain_posts:
  assumes "claim_drain c w = (w', r)" "ar_approvals w = Some fs"
  shows "\<exists>posts. ar_decided w' = ar_decided w @ posts \<and> list_all (operator_said fs) posts"
proof -
  have "decided.logs (operator_said fs) (bnd (each (drain_entry c) (sort_key fst fs)) (\<lambda>_. ret ()))"
    by (intro decided.logs_rules decided_each drain_entry_logs) simp
  moreover have "bnd (each (drain_entry c) (sort_key fst fs)) (\<lambda>_. ret ()) w = (w', r)"
    using assms by (simp add: claim_drain_def bnd_def)
  ultimately show ?thesis by (rule decided.logsD)
qed

section \<open>What a command leaves\<close>

interpretation queue: frame ar_queue .

lemma queue_keeps_event: "queue.leaves (rt_event kind kvs)"
  unfolding rt_event_def by (rule queue.leaves_modify) simp

lemma queue_keeps_docker: "queue.leaves (cache_docker env args)"
  by (simp add: queue.leaves_def cache_docker_def)

lemma queue_keeps_save: "queue.leaves (prefetch_save env state)"
  unfolding prefetch_save_def Let_def by (intro queue.leaves_rules queue.leaves_modify) simp

lemma queue_keeps_record: "queue.leaves (prefetch_record env reference fs)" "queue.leaves (note_error env reference error)"
  unfolding prefetch_record_def note_error_def Let_def by (intro queue.leaves_rules queue_keeps_save)+

lemma queue_keeps_failed: "queue.leaves (failed_warm env reference result error tell)"
  unfolding failed_warm_def by (intro queue.leaves_rules queue_keeps_record queue.leaves_modify) simp

lemma queue_keeps_digests: "queue.leaves (repo_digests env reference)" "queue.leaves (image_size env reference)"
  unfolding repo_digests_def image_size_def by (intro queue.leaves_rules queue_keeps_docker)+

lemma queue_keeps_warm_pull: "queue.leaves (warm_pull env request reference nbytes result)"
  unfolding warm_pull_def Let_def
  by (auto intro!: queue.leaves_rules queue_keeps_docker queue_keeps_failed queue_keeps_digests queue_keeps_record queue.leaves_modify
      simp: case_prod_beta)

lemma queue_keeps_warm: "queue.leaves (warm env request)"
  unfolding warm_def Let_def
  by (auto intro!: queue.leaves_rules queue_keeps_failed queue_keeps_digests queue_keeps_record queue_keeps_warm_pull)

lemma queue_keeps_challenge: "queue.leaves (handle_challenge env command)"
  unfolding handle_challenge_def Let_def
  by (auto intro!: queue.leaves_rules queue_keeps_event queue.leaves_modify simp: case_prod_beta)

lemma queue_keeps_logs: "queue.leaves (docker_logs env name tail)"
  unfolding docker_logs_def by (auto intro!: queue.leaves_rules split: sum.split option.split)

lemma queue_keeps_handler: "queue.leaves (HANDLERS k env command)"
proof (cases k)
  case PREFETCH
  have "queue.leaves (\<lambda>w. (fst (warm env' request w), r))" for env' request and r :: "exc + bool \<times> pydict"
    using queue_keeps_warm unfolding queue.leaves_def by simp
  then show ?thesis
    by (auto intro!: queue.leaves_rules queue_keeps_warm simp: PREFETCH handle_prefetch_def Let_def)
qed (auto intro!: queue.leaves_rules queue_keeps_event queue_keeps_challenge queue_keeps_logs queue.leaves_modify
    simp: handle_spec_def handle_utilisation_def handle_attestation_def handle_job_placed_def handle_log_stream_def handle_drain_def
      handle_claim_prompt_def claim_prompt_def Let_def case_prod_beta split: sum.split option.split)

lemma handle_command_total: "\<exists>w' ok result. handle_command env command w = (w', Inr (ok, result)) \<and> ar_queue w' = ar_queue w"
proof -
  have q: "queue.leaves (handle_command env command)"
    unfolding handle_command_def by (auto intro!: queue.leaves_rules queue_keeps_handler queue_keeps_event split: option.split)
  have "\<exists>w' r. handle_command env command w = (w', Inr r)"
    by (auto simp: handle_command_def attempt_def bnd_def rt_event_def split: option.split prod.split sum.split)
  then show ?thesis using queue.leavesD [OF q] by (metis surj_pair)
qed


section \<open>What the writer leaves\<close>

text \<open>A message without the two fields the writer stamps on it.\<close>

definition unstamped :: "pydict \<Rightarrow> pydict" where
  "unstamped m = filter (\<lambda>e. fst e \<notin> {''queue_depth'', ''forwarded_at''}) m"

lemma unstamped_update: "k \<in> {''queue_depth'', ''forwarded_at''} \<Longrightarrow> unstamped (AList.update k v m) = unstamped m"
  by (induction m) (auto simp: unstamped_def)

lemma unstamped_stamp: "unstamped (queue_stamp now m q) = unstamped m"
  by (simp add: queue_stamp_def unstamped_update)

text \<open>The writer over a sequence of attempts, across connections: the queue and what was sent. Each attempt has its time and
  says whether the send went through.\<close>

fun writer_run :: "(rat \<times> bool) list \<Rightarrow> OutboundQueue \<times> pydict list \<Rightarrow> OutboundQueue \<times> pydict list" where
  "writer_run [] s = s"
| "writer_run ((now, up) # attempts) (q, sent) =
     (case socket_write now (\<lambda>_. up) q of
        None \<Rightarrow> writer_run attempts (q, sent)
      | Some (q', m, ok) \<Rightarrow> writer_run attempts (q', if ok then sent @ [m] else sent))"

lemma socket_write_cases:
  assumes "socket_write now wire q = Some (q', m, ok)"
  obtains m0 rest where "q_items q = m0 # rest" "unstamped m = unstamped m0" "q_items q' = (if ok then rest else m # rest)"
  using assms unstamped_stamp
  by (auto simp: socket_write_def queue_get_def requeue_def Let_def split: list.splits if_splits)

lemma socket_write_None: "socket_write now wire q = None \<longleftrightarrow> q_items q = []"
  by (auto simp: socket_write_def queue_get_def Let_def split: list.splits)

lemma socket_write_ok: "socket_write now (\<lambda>_. up) q = Some (q', m, ok) \<Longrightarrow> ok = up"
  by (auto simp: socket_write_def Let_def split: option.splits if_splits)

lemma writer_run_order:
  "writer_run attempts (q, sent) = (q', sent') \<Longrightarrow>
   map unstamped (sent' @ q_items q') = map unstamped (sent @ q_items q)
   \<and> length (q_items q') = length (q_items q) - length (filter snd attempts)"
proof (induction attempts arbitrary: q sent)
  case (Cons a attempts)
  obtain now up where a: "a = (now, up)" by fastforce
  show ?case
  proof (cases "socket_write now (\<lambda>_. up) q")
    case None
    then have "writer_run attempts (q, sent) = (q', sent')" using Cons.prems by (simp add: a)
    moreover have "q_items q = []" using None by (simp add: socket_write_None)
    ultimately show ?thesis using Cons.IH by fastforce
  next
    case (Some r)
    obtain q1 m ok where r: "r = (q1, m, ok)" by (cases r) auto
    have w: "socket_write now (\<lambda>_. up) q = Some (q1, m, ok)" using Some r by simp
    from w obtain m0 rest where c: "q_items q = m0 # rest" "unstamped m = unstamped m0" "q_items q1 = (if ok then rest else m # rest)"
      by (rule socket_write_cases)
    have "writer_run attempts (q1, if ok then sent @ [m] else sent) = (q', sent')" using Cons.prems w by (simp add: a)
    from Cons.IH [OF this] c socket_write_ok [OF w] show ?thesis by (auto simp: a)
  qed
qed simp

lemma decision_of_text: "decision_of ''approve'' = ''approve''" "decision_of ''deny'' = ''deny''"
  by code_simp+

lemma set_update_distinct:
  "distinct (map fst fs) \<Longrightarrow> set (AList.update k v fs) = insert (k, v) {e \<in> set fs. fst e \<noteq> k}"
proof (induction fs)
  case (Cons e fs)
  show ?case
  proof (cases "fst e = k")
    case True
    then have "{x \<in> set (e # fs). fst x \<noteq> k} = set fs" using Cons.prems by (auto simp: rev_image_eqI)
    then show ?thesis using True by (cases e) simp
  next
    case False
    then show ?thesis using Cons by (cases e) auto
  qed
qed simp

section \<open>Bounds\<close>

text \<open>The pool of measurements never has more than its three calls in flight, and rejects one only when all are.\<close>

inductive pool_reach :: "MetricsPool \<Rightarrow> bool" where
  "pool_reach MetricsPool_init"
| "pool_reach p \<Longrightarrow> pool_step p e p' \<Longrightarrow> pool_reach p'"

lemma pool_slots: "pool_reach p \<Longrightarrow> mp_slots p + mp_in_flight p = IN_FLIGHT"
  by (induction rule: pool_reach.induct) (auto simp: MetricsPool_init_def elim!: pool_stepE)

lemma pool_rejects_full: "pool_reach p \<Longrightarrow> pool_step p PoolRun p' \<Longrightarrow> mp_rejected p < mp_rejected p' \<Longrightarrow> mp_in_flight p = IN_FLIGHT"
  using pool_slots by (fastforce elim!: pool_stepE)

interpretation reconnect: machine "\<lambda>s e. snd (reconnect_turn e s)" "\<lambda>s. RECONNECT_MIN_SECONDS \<le> rc_backoff s \<and> rc_backoff s \<le> RECONNECT_MAX_SECONDS"
proof
  fix s :: Reconnect and e
  assume "RECONNECT_MIN_SECONDS \<le> rc_backoff s \<and> rc_backoff s \<le> RECONNECT_MAX_SECONDS"
  then show "RECONNECT_MIN_SECONDS \<le> rc_backoff (snd (reconnect_turn e s)) \<and> rc_backoff (snd (reconnect_turn e s)) \<le> RECONNECT_MAX_SECONDS"
    by (cases e) (auto simp: RECONNECT_MIN_SECONDS_def RECONNECT_MAX_SECONDS_def Let_def min_def max_def)
qed

lemma reconnect_pause:
  assumes "RECONNECT_MIN_SECONDS \<le> rc_backoff s \<and> rc_backoff s \<le> RECONNECT_MAX_SECONDS"
  shows "RECONNECT_MIN_SECONDS \<le> fst (reconnect_turn e (run_events (\<lambda>s e. snd (reconnect_turn e s)) s es))
    \<and> fst (reconnect_turn e (run_events (\<lambda>s e. snd (reconnect_turn e s)) s es)) \<le> RECONNECT_MAX_SECONDS"
  using reconnect.run_inv [OF assms, of es]
  by (cases e) (auto simp: RECONNECT_MIN_SECONDS_def RECONNECT_MAX_SECONDS_def Let_def max_def)

section \<open>Properties\<close>


definition demo_queue :: OutboundQueue where
  "demo_queue = \<lparr>q_max_depth = 1, q_items = [ping 0], q_dropped = 0\<rparr>"

definition demo_hotkey :: string where "demo_hotkey = replicate 48 (CHR ''5'')"

definition demo_agent :: AgentRuntime where
  "demo_agent = \<lparr>ch_calls = [], ch_file = None, ch_events = [], ar_rig_id = ''r1'', ar_draining = False, ar_jobs = [], ar_pending = [],
     ar_announced = {}, ar_approvals = Some [], ar_decided = [], ar_challenge = (False, 0), ar_queue = demo_queue, ar_last_pong = 0\<rparr>"

definition demo_unknown :: Command where
  "demo_unknown = \<lparr>cmd_id = 7, cmd_kind = ''Reboot'', cmd_payload = [], cmd_expires_at = []\<rparr>"

definition demo_control_env :: ControlEnv where
  "demo_control_env = \<lparr>ct_now = 5, ct_spec = Inl OsError, ct_utilisation = Inl OsError, ct_library = None, ct_challenge_late = False,
     ct_elapsed = 0, ct_sha256 = (\<lambda>_. []), ct_hardware = demo_hw, ct_attestation_late = False, ct_logs = (\<lambda>_. Inl OsError),
     ct_decode = (\<lambda>s. s), ct_cache = wit_cache_env, ct_prefetch_late = False, ct_exc_text = (\<lambda>_. ''e'')\<rparr>"

definition demo_spec_command :: Command where
  "demo_spec_command = \<lparr>cmd_id = 7, cmd_kind = ''SpecRequest'', cmd_payload = [], cmd_expires_at = []\<rparr>"



definition demo_client :: ServerClient where
  "demo_client = \<lparr>sc_key = \<lparr>ak_private = [], ak_public = [], ak_sign = (\<lambda>_. [])\<rparr>, sc_now = 1,
     sc_http = (\<lambda>_ _ _ _. Inr (200, [])), sc_dumps = (\<lambda>_. ''{}''), sc_loads = (\<lambda>_. None), sc_fault = []\<rparr>"


text \<open>C38: A decision file that is read before it is written counts as a denial. The file is created and filled in two
  steps; a round that reads it empty, or with only a part of \<^verbatim>\<open>approve\<close>, posts a denial of the claim and removes
  the file, although the operator approved; and one file that is not UTF-8 ends the task that watches the
  folder.\<close>

theorem unfinished_decision_denies:
  assumes "well_formed_hotkey hotkey" "ar_rig_id w \<noteq> []" "strict_prefix part ''approve''"
  shows "(ar_approvals w = Some [(hotkey, TextFile part)] \<longrightarrow>
      (\<exists>w'. watch_round c note w = (w', Inr ()) \<and> ar_decided w' = ar_decided w @ [(ar_rig_id w, hotkey, False)] \<and> ar_approvals w' = Some []))
    \<and> (ar_approvals w = Some [(hotkey, NotText)] \<longrightarrow> (\<exists>w'. watch_round c note w = (w', Inl (Raised ValueError))))"
proof -
  obtain rest where "''approve'' = part @ rest" "rest \<noteq> []" using assms(3) by (auto elim: strict_prefixE')
  then have "part = take (length part) ''approve''" "length part < length (''approve'')"
    by (metis append_eq_conv_conj, metis length_append length_greater_0_conv less_add_same_cancel1)
  moreover have "\<forall>n < length (''approve''). decision_of (take n ''approve'') \<noteq> ''approve'' \<and> decision_of (take n ''approve'') \<noteq> ''deny''"
    by code_simp
  ultimately have n: "decision_of part \<noteq> ''approve''" "decision_of part \<noteq> ''deny''" by metis+
  have "\<exists>w'. watch_round c note w = (w', Inr ()) \<and> ar_decided w' = ar_decided w @ [(ar_rig_id w, hotkey, False)] \<and> ar_approvals w' = Some []"
    if a: "ar_approvals w = Some [(hotkey, TextFile part)]"
  proof -
    obtain w' where "claim_drain c w = (w', Inr ())" "ar_decided w' = ar_decided w @ posted (ar_rig_id w) (hotkey, TextFile part)"
      "ar_approvals w' = Some (filter (\<lambda>e. \<not> entry_removed c (ar_rig_id w) e) [(hotkey, TextFile part)])"
      using claim_drain_spec [OF a, of c] by (auto simp: plain_entry_def)
    then show ?thesis using n assms(1,2) by (auto simp: watch_round_def attempt_def posted_def entry_removed_def)
  qed
  moreover have "watch_round c note w = (w, Inl (Raised ValueError))" if "ar_approvals w = Some [(hotkey, NotText)]"
    using that assms(1) by (simp add: watch_round_def attempt_def claim_drain_def bnd_def drain_entry_def Let_def)
  ultimately show ?thesis by blast
qed


theorem unfinished_decision_denies_witness:
  "\<exists>w'. watch_round demo_client [] (demo_agent\<lparr>ar_approvals := Some [(demo_hotkey, TextFile ''appr'')]\<rparr>) = (w', Inr ())
    \<and> ar_decided w' = [(''r1'', demo_hotkey, False)]"
proof -
  have "well_formed_hotkey demo_hotkey" "strict_prefix ''appr'' ''approve''" by code_simp+
  moreover have "ar_rig_id (demo_agent\<lparr>ar_approvals := Some [(demo_hotkey, TextFile ''appr'')]\<rparr>) = ''r1''"
    "ar_decided (demo_agent\<lparr>ar_approvals := Some [(demo_hotkey, TextFile ''appr'')]\<rparr>) = []" by (simp_all add: demo_agent_def)
  ultimately show ?thesis
    using unfinished_decision_denies [of demo_hotkey "demo_agent\<lparr>ar_approvals := Some [(demo_hotkey, TextFile ''appr'')]\<rparr>" "''appr''" demo_client "[]"]
    by auto
qed

end
