(* ===== verification/Agent_Process.thy ===== *)
theory Agent_Process
  imports Agent_Control
begin

text \<open>
  The agent's process (\<^verbatim>\<open>agent/main.py\<close>): its start, its registration with the pool, the rounds that refresh the set of
  validators and sweep the grants, and the exit code. The specification of the machine is an argument, an
  exception or the object \<^verbatim>\<open>spec.build\<close> returns.
\<close>

record AgentProcess = AgentRuntime +
  ap_validators :: ValidatorSet
  ap_grants :: Grants
  ap_saved :: "pyval option"
  ap_writable :: bool

record AgentConfig =
  ag_external_port :: int
  ag_ssh_port :: int
  ag_label :: string
  ag_version :: string
  ag_key_hex :: string
  ag_refresh_seconds :: rat

definition RETRY_VALIDATORS_SECONDS :: rat where "RETRY_VALIDATORS_SECONDS = 30"

definition saved_rig_id :: "pyval option \<Rightarrow> string" where
  "saved_rig_id file = (case file of Some (PDict d) \<Rightarrow> py_str (dget d ''rig_id'' (PStr [])) | _ \<Rightarrow> [])"

definition required :: "string \<Rightarrow> pyval \<Rightarrow> pyval pyres" where
  "required k v = (case v of PDict d \<Rightarrow> (case map_of d k of None \<Rightarrow> Inl KeyError | Some x \<Rightarrow> Inr x) | _ \<Rightarrow> Inl TypeError)"

definition register_card :: "pyval \<Rightarrow> pyval pyres" where
  "register_card gpu =
     rbind (rmap (\<lambda>k. rbind (required k gpu) (\<lambda>v. Inr (k, v))) [''uuid'', ''model'', ''memory_mb'', ''index'']) (\<lambda>kvs. Inr (PDict kvs))"

definition view_cards :: "pydict \<Rightarrow> pyval list pyres" where
  "view_cards view = rbind (required ''gpus'' (PDict view)) (\<lambda>v. case v of PList xs \<Rightarrow> Inr xs | _ \<Rightarrow> Inl TypeError)"

definition register_payload :: "AgentConfig \<Rightarrow> pydict \<Rightarrow> pydict pyres" where
  "register_payload cfg view =
     rbind (view_cards view) (\<lambda>cards.
     rbind (rmap register_card cards) (\<lambda>gpus. Inr
       [(''gpus'', PList gpus), (''host'', PDict (filter (\<lambda>e. fst e \<noteq> ''gpus'') view)), (''address'', dget view ''address'' (PStr [])),
        (''api_port'', PInt (ag_external_port cfg)), (''ssh_port'', PInt (ag_ssh_port cfg)), (''agent_version'', PStr (ag_version cfg)),
        (''label'', PStr (str_or (ag_label cfg) (py_str (dget view ''hostname'' (PStr [])))))]))"

definition raise_client :: "client_error \<Rightarrow> ('s, 'a) act" where
  "raise_client e = (case e of ServerError status detail \<Rightarrow> raise (ServerErr status detail) | ClientFault t \<Rightarrow> raise (RuntimeErr t))"

definition save_view :: "pydict \<Rightarrow> ('z AgentProcess_scheme, unit) act" where
  "save_view view =
     bnd (gets ap_writable) (\<lambda>writable.
       if writable then modify (\<lambda>w. w\<lparr>ap_saved := Some (PDict view)\<rparr>) else rt_event ''state.save_error'' [])"

text \<open>\<^verbatim>\<open>register\<close>: its answer, and the code the operator is shown when the rig is not claimed yet.\<close>

definition agent_register ::
  "AgentConfig \<Rightarrow> ServerClient \<Rightarrow> exc + pydict \<Rightarrow> ('z AgentProcess_scheme, pydict \<times> string option) act" where
  "agent_register cfg c spec =
     (case spec of
        Inl e \<Rightarrow> raise e
      | Inr view \<Rightarrow>
          bnd (lift (register_payload cfg view)) (\<lambda>payload.
            (case client_register c payload of
               Inl e \<Rightarrow> raise_client e
             | Inr answer \<Rightarrow>
                 bnd (modify (\<lambda>w. w\<lparr>ar_rig_id := py_str (py_or (dget answer ''rig_id'' (PStr [])) (PStr (ar_rig_id w)))\<rparr>)) (\<lambda>_.
                 bnd (save_view answer) (\<lambda>_.
                 bnd (gets ar_rig_id) (\<lambda>rig_id.
                 bnd (lift (view_cards view)) (\<lambda>cards.
                 bnd (rt_event ''register'' [(''rig_id'', PStr rig_id), (''state'', dget answer ''state'' PNone), (''tier'', dget answer ''tier'' PNone),
                        (''gpus'', PInt (int (length cards))), (''nvml_error'', dget view ''nvml_error'' (PStr []))]) (\<lambda>_.
                   (let claim = (case dget answer ''claim'' PNone of PDict d \<Rightarrow> d | _ \<Rightarrow> []); code = str_or_empty claim ''code'' in
                    ret (answer, if code \<noteq> [] \<and> \<not> truthy (dget answer ''hotkey'' PNone) then Some code else None))))))))))"

definition revoke_on_start :: "('z AgentProcess_scheme, unit) act" where
  "revoke_on_start = (\<lambda>w.
     (case grants_revoke_all (ap_grants w) of
        Inl _ \<Rightarrow> (w\<lparr>ap_grants := (ap_grants w)\<lparr>g_open := []\<rparr>\<rparr>, Inl OsError)
      | Inr (g, _) \<Rightarrow> (w\<lparr>ap_grants := g\<rparr>, Inr ())))"

text \<open>The start of \<^verbatim>\<open>run\<close>: the exit code when registration is refused for good, \<open>None\<close> when the tasks are started.\<close>

definition start_registration ::
  "AgentConfig \<Rightarrow> ServerClient \<Rightarrow> exc + pydict \<Rightarrow> (exc \<Rightarrow> string) \<Rightarrow> ('z AgentProcess_scheme, int option) act" where
  "start_registration cfg c spec exc_text =
     attempt (bnd (agent_register cfg c spec) (\<lambda>_. ret None)) (\<lambda>e.
       case e of
         ServerErr status detail \<Rightarrow>
           bnd (rt_event ''register.refused'' [(''status'', PInt status), (''detail'', PStr (take 300 detail))]) (\<lambda>_.
             ret (if status \<in> {409, 426} then Some 2 else None))
       | _ \<Rightarrow> bnd (rt_event ''register.error'' [(''error'', PStr (take 300 (exc_text e)))]) (\<lambda>_. ret None))"

definition agent_start ::
  "AgentConfig \<Rightarrow> ServerClient \<Rightarrow> exc + pydict \<Rightarrow> (exc \<Rightarrow> string) \<Rightarrow> ('z AgentProcess_scheme, int option) act" where
  "agent_start cfg c spec exc_text =
     bnd (gets ar_rig_id) (\<lambda>rig_id.
     bnd (rt_event ''agent.start'' [(''version'', PStr (ag_version cfg)), (''rig_id'', PStr rig_id), (''key'', PStr (take 16 (ag_key_hex cfg)))]) (\<lambda>_.
     bnd revoke_on_start (\<lambda>_. start_registration cfg c spec exc_text)))"

text \<open>One round of \<^verbatim>\<open>refresh_validators\<close>: the pause before the next.\<close>

definition refresh_round :: "AgentConfig \<Rightarrow> ServerClient \<Rightarrow> rat \<Rightarrow> ('z AgentProcess_scheme, rat) act" where
  "refresh_round cfg c now =
     (case client_validators c of
        Inl e \<Rightarrow>
          bnd (rt_event ''validators.error'' [(''error'', PStr (take 200 (client_error_text e)))]) (\<lambda>_.
            gets (\<lambda>w. if vs_hotkeys (ap_validators w) = {} then RETRY_VALIDATORS_SECONDS else ag_refresh_seconds cfg))
      | Inr found \<Rightarrow>
          if found = [] then ret RETRY_VALIDATORS_SECONDS
          else bnd (\<lambda>w. (case vs_update found now (ap_writable w) (ap_validators w) of (v, changed) \<Rightarrow> (w\<lparr>ap_validators := v\<rparr>, Inr changed))) (\<lambda>changed.
               bnd (if changed then rt_event ''validators.updated'' [(''count'', PInt (int (length found)))] else ret ()) (\<lambda>_.
                 ret (ag_refresh_seconds cfg))))"

definition sweep_round :: "rat \<Rightarrow> ('z AgentProcess_scheme, unit) act" where
  "sweep_round now =
     bnd (gets (\<lambda>w. grants_sweep now (ap_grants w))) (\<lambda>r.
       case r of
         Inl _ \<Rightarrow> rt_event ''session.sweep_error'' []
       | Inr (g, _) \<Rightarrow> modify (\<lambda>w. w\<lparr>ap_grants := g\<rparr>))"

text \<open>The tasks that had ended when \<^verbatim>\<open>run\<close> woke up, and its exit code.\<close>

datatype task_end = TaskStopped | TaskCancelled | TaskFailed string string

fun task_note :: "task_end \<Rightarrow> (string \<times> pydict) list" where
  "task_note (TaskFailed name error) = [(''agent.task_failed'', [(''task'', PStr name), (''error'', PStr (take 300 error))])]"
| "task_note _ = []"

definition agent_exit_code :: "task_end list \<Rightarrow> int" where
  "agent_exit_code done = (if list_ex (\<lambda>t. task_note t \<noteq> []) done then 1 else 0)"

section \<open>Facts\<close>

lemma keys_revoke_all_read:
  assumes "keys_revoke_all f = Inr (g, n)"
  shows "keys_read g = filter (\<lambda>l. \<not> contains_str MARKER l) (keys_read f)"
proof -
  let ?kept = "filter (\<lambda>l. \<not> contains_str MARKER l) (keys_read f)"
  have one: "list_all one_line ?kept" using keys_read_one_line [of f] by (auto simp: list_all_iff)
  show ?thesis
  proof (cases "length (keys_read f) - length ?kept = 0")
    case True
    then have "length ?kept = length (keys_read f)" using length_filter_le [of "\<lambda>l. \<not> contains_str MARKER l" "keys_read f"] by linarith
    then have "?kept = keys_read f" by (metis filter_id_conv length_filter_less less_irrefl)
    then show ?thesis using assms True by (simp add: keys_revoke_all_def Let_def)
  next
    case False
    then show ?thesis using assms keys_read_write [OF one] by (auto simp: keys_revoke_all_def Let_def split: if_splits)
  qed
qed

interpretation grants: frame ap_grants .

lemma grants_keeps_event: "grants.leaves (rt_event kind kvs)"
  unfolding rt_event_def by (rule grants.leaves_modify) simp

lemma grants_keeps_register: "grants.leaves (agent_register cfg c spec)"
  unfolding agent_register_def save_view_def raise_client_def Let_def
  by (auto intro!: grants.leaves_rules grants_keeps_event grants.leaves_modify split: sum.split client_error.split)

lemma after_last_None: "\<not> contains_str m l \<Longrightarrow> after_last m l = None"
  by (induction l) auto

lemma no_active_sessions: "list_all (\<lambda>l. \<not> contains_str MARKER l) (keys_read f) \<Longrightarrow> active_sessions f = []"
  unfolding active_sessions_def by (induction "keys_read f") (auto simp: list_all_iff after_last_None map_filter_def filter_empty_conv)

lemma revoke_all_Inr:
  assumes "grants_revoke_all g = Inr (g', n)"
  shows "g_open g' = [] \<and> keys_read (g_keys g') = filter (\<lambda>l. \<not> contains_str MARKER l) (keys_read (g_keys g))"
  using assms keys_revoke_all_read by (auto simp: grants_revoke_all_def Let_def split: sum.splits if_splits)

lemma register_refused:
  assumes "agent_register cfg c spec w = (w', Inl (ServerErr status detail))" "\<And>s d. spec \<noteq> Inl (ServerErr s d)"
  shows "\<exists>view payload. spec = Inr view \<and> register_payload cfg view = Inr payload \<and> client_register c payload = Inl (ServerError status detail)"
  using assms
  by (auto simp: agent_register_def bnd_def lift_def save_view_def rt_event_def raise_client_def Let_def
      split: sum.splits client_error.splits if_splits)

section \<open>Properties\<close>

text \<open>C23: No session outlives the agent's process. When the agent has started, no session is open and no line of the key
  file carries a session's mark, whatever an earlier process left there and whether the pool accepts the
  registration or not; the operator's own lines are kept; and only a refusal with status 409 or 426 ends
  the start with exit code 2.\<close>

theorem start_ends_sessions:
  assumes "agent_start cfg c spec exc_text w = (w', Inr code)" "\<And>s d. spec \<noteq> Inl (ServerErr s d)"
  shows "g_open (ap_grants w') = [] \<and> active_sessions (g_keys (ap_grants w')) = []
    \<and> keys_read (g_keys (ap_grants w')) = filter (\<lambda>l. \<not> contains_str MARKER l) (keys_read (g_keys (ap_grants w)))
    \<and> (code \<noteq> None \<longrightarrow> code = Some 2 \<and> (\<exists>view payload status detail. spec = Inr view \<and> register_payload cfg view = Inr payload
         \<and> client_register c payload = Inl (ServerError status detail) \<and> status \<in> {409, 426}))"
proof -
  define w1 where "w1 = w\<lparr>ch_events := ch_events w @ [(''agent.start'', [(''version'', PStr (ag_version cfg)), (''rig_id'', PStr (ar_rig_id w)),
     (''key'', PStr (take 16 (ag_key_hex cfg)))])]\<rparr>"
  have w1: "ap_grants w1 = ap_grants w" by (simp add: w1_def)
  have run: "bnd revoke_on_start (\<lambda>_. start_registration cfg c spec exc_text) w1 = (w', Inr code)"
    using assms(1) unfolding agent_start_def by (simp add: bnd_def [of "gets _"] bnd_def [of "modify _"] rt_event_def w1_def)
  obtain g n where g: "grants_revoke_all (ap_grants w) = Inr (g, n)" "revoke_on_start w1 = (w1\<lparr>ap_grants := g\<rparr>, Inr ())"
    using run w1 by (auto simp: bnd_def revoke_on_start_def split: sum.splits)
  obtain w2 r where r: "agent_register cfg c spec (w1\<lparr>ap_grants := g\<rparr>) = (w2, r)" by fastforce
  have w2: "ap_grants w2 = g" using grants.leavesD [OF grants_keeps_register r] by simp
  have e: "ap_grants w' = g" "code \<noteq> None \<Longrightarrow> code = Some 2 \<and> (\<exists>status detail. r = Inl (ServerErr status detail) \<and> status \<in> {409, 426})"
    using run g(2) r w2 by (cases r; auto simp: start_registration_def bnd_def attempt_def rt_event_def split: exc.splits if_splits)+
  have "\<exists>view payload status detail. spec = Inr view \<and> register_payload cfg view = Inr payload
         \<and> client_register c payload = Inl (ServerError status detail) \<and> status \<in> {409, 426}" if some: "code \<noteq> None"
  proof -
    obtain status detail where st: "r = Inl (ServerErr status detail)" "status \<in> {409, 426}" using e(2) [OF some] by blast
    from register_refused [OF r [unfolded st(1)] assms(2)] st(2) show ?thesis by blast
  qed
  then show ?thesis
    using revoke_all_Inr [OF g(1)] no_active_sessions [of "g_keys g"] e by (simp add: list_all_iff)
qed


definition demo_process :: AgentProcess where
  "demo_process = AgentRuntime.extend (AgentRuntime.truncate demo_agent)
     \<lparr>ap_validators = \<lparr>vs_hotkeys = {}, vs_updated_at = 0, vs_source = [], vs_file = None, vs_path = False\<rparr>,
      ap_grants = \<lparr>g_open = [], g_nonces = \<lparr>nb_ttl = 60, nb_seen = []\<rparr>,
        g_keys = \<lparr>kf_text = Some (''ssh-rsa BBBB me'' @ newline @ ''ssh-ed25519 AAAA mt-session:0123456789abcdef'' @ newline), kf_writable = True\<rparr>,
        g_events = [], g_ttl = 60\<rparr>, ap_saved = None, ap_writable = True\<rparr>"

definition demo_agent_config :: AgentConfig where
  "demo_agent_config = \<lparr>ag_external_port = 8080, ag_ssh_port = 2222, ag_label = [], ag_version = ''0.2.0'', ag_key_hex = ''ab'', ag_refresh_seconds = 600\<rparr>"

lemma demo_start:
  "(case snd (agent_start demo_agent_config demo_client (Inl OsError) (\<lambda>_. ''e'') demo_process) of Inr code \<Rightarrow> True | Inl e \<Rightarrow> False)"
  by code_simp

theorem start_ends_sessions_witness:
  "keys_read (g_keys (ap_grants (fst (agent_start demo_agent_config demo_client (Inl OsError) (\<lambda>_. ''e'') demo_process)))) = [''ssh-rsa BBBB me'']"
proof -
  obtain w' r where s: "agent_start demo_agent_config demo_client (Inl OsError) (\<lambda>_. ''e'') demo_process = (w', r)" by fastforce
  then obtain code where r: "r = Inr code" using demo_start by (cases r) auto
  have "filter (\<lambda>l. \<not> contains_str MARKER l) (keys_read (g_keys (ap_grants demo_process))) = [''ssh-rsa BBBB me'']" by code_simp
  then show ?thesis using start_ends_sessions [OF s [unfolded r]] s by simp
qed

end
