(* ===== verification/Agent_Updater.thy ===== *)
theory Agent_Updater
  imports Agent_Auth Act_Trace
begin

text \<open>
  The agent's updater (\<^verbatim>\<open>agent/updater/watchtower.py\<close>): which release is accepted, the pull and the check of
  the image, the environment file, and the helper container that restarts the agent. Docker is outside
  the repository: a \<open>docker\<close> is the exit code and output it gives to a command line after those it has run.
  The mounts and host name the agent reads, the clock, JSON and the pool's answer are arguments.
\<close>

section \<open>Releases\<close>

definition verify_release :: "keypair_verify \<Rightarrow> string set \<Rightarrow> rat \<Rightarrow> pyval \<Rightarrow> Release option \<times> string" where
  "verify_release kp_verify validators now payload =
     (case (case payload of PDict d \<Rightarrow> dget d ''release'' PNone | _ \<Rightarrow> PNone) of
        PDict raw \<Rightarrow>
          (let r = Release_from_payload raw in
           if \<not> well_formed_digest (rel_digest r) then (None, ''digest is not sha256:<64 hex>'')
           else if rel_validator r = [] \<or> rel_validator r \<notin> validators then (None, ''release signer is not an active validator'')
           else if RELEASE_SKEW_SECONDS < \<bar>now - of_int (rel_timestamp r)\<bar>
           then (None, ''release timestamp outside the skew window'')
           else if \<not> verify_hotkey kp_verify (rel_validator r) (Release_message r) (rel_signature r)
           then (None, ''release signature does not verify'')
           else (Some r, []))
      | _ \<Rightarrow> (None, ''no release published''))"

section \<open>The environment file\<close>

definition ENV_KEY :: string where "ENV_KEY = ''AGENT_IMAGE_SHA256=''"

definition env_lines :: "string option \<Rightarrow> string list" where
  "env_lines file = (case file of None \<Rightarrow> [] | Some text \<Rightarrow> splitlines text)"

definition rewritten_env :: "string option \<Rightarrow> string \<Rightarrow> string" where
  "rewritten_env file digest =
     concat (map (\<lambda>l. l @ newline) (filter (\<lambda>l. \<not> startswith l ENV_KEY) (env_lines file) @ [ENV_KEY @ digest]))"

section \<open>State\<close>

type_synonym docker = "string list list \<Rightarrow> string list \<Rightarrow> int \<times> string"

record UpdateHost =
  uh_calls :: "string list list"
  uh_env :: "string option"
  uh_events :: "(string \<times> pydict) list"
  uh_failures :: nat
  uh_last_check :: rat
  uh_last_error :: string
  uh_running_digest :: string

text \<open>What the updater depends on: \<open>ue_env_writable\<close> says whether the environment file can be replaced.\<close>

record UpdateEnv =
  ue_docker :: docker
  ue_loads :: "string \<Rightarrow> pyval option"
  ue_verify :: keypair_verify
  ue_validators :: "string set"
  ue_now :: rat
  ue_mountinfo :: "string option"
  ue_hostname :: string
  ue_repository :: string
  ue_image_digest :: string
  ue_compose_file :: string
  ue_compose_mounted :: bool
  ue_env_file :: string
  ue_env_writable :: bool

definition docker_call :: "UpdateEnv \<Rightarrow> string list \<Rightarrow> ('z UpdateHost_scheme, int \<times> string) act" where
  "docker_call env args = (\<lambda>w. (w\<lparr>uh_calls := uh_calls w @ [args]\<rparr>, Inr (ue_docker env (uh_calls w) args)))"

definition upd_log :: "string \<Rightarrow> pydict \<Rightarrow> ('z UpdateHost_scheme, unit) act" where
  "upd_log kind fs = modify (\<lambda>w. w\<lparr>uh_events := uh_events w @ [(kind, fs)]\<rparr>)"

section \<open>The agent's own container\<close>

definition MOUNT_MARK :: string where "MOUNT_MARK = ''/docker/containers/''"

fun container_in :: "string \<Rightarrow> string option" where
  "container_in [] = None"
| "container_in (c # cs) =
     (let rest = drop (length MOUNT_MARK) (c # cs); cid = take 64 rest in
      if startswith (c # cs) MOUNT_MARK \<and> length cid = 64 \<and> list_all is_lower_hex cid \<and> take 1 (drop 64 rest) = ''/''
      then Some cid else container_in cs)"

definition hex_hostname :: "string \<Rightarrow> bool" where
  "hex_hostname name =
     (let n = (if name \<noteq> [] \<and> last name = CHR 0x0A then butlast name else name)
      in 12 \<le> length n \<and> length n \<le> 64 \<and> list_all is_lower_hex n)"

definition own_container_id :: "UpdateEnv \<Rightarrow> string" where
  "own_container_id env =
     (case (case ue_mountinfo env of None \<Rightarrow> [] | Some text \<Rightarrow> List.map_filter container_in (splitlines text)) of
        cid # _ \<Rightarrow> cid
      | [] \<Rightarrow> if hex_hostname (ue_hostname env) then ue_hostname env else [])"

section \<open>Images\<close>

definition image_reference :: "UpdateEnv \<Rightarrow> string \<Rightarrow> string" where
  "image_reference env digest = ue_repository env @ ''@'' @ digest"

definition inspect_digests :: "string \<Rightarrow> string list" where
  "inspect_digests img = [''image'', ''inspect'', ''--format'', ''{{json .RepoDigests}}'', img]"

text \<open>\<^verbatim>\<open>json.loads(out.strip().splitlines()[-1])\<close>, \<open>None\<close> when it raises.\<close>

definition last_line_json :: "UpdateEnv \<Rightarrow> string \<Rightarrow> pyval option" where
  "last_line_json env out =
     (let ls = splitlines (strip out) in if ls = [] then None else ue_loads env (last ls))"

definition after_at :: "string \<Rightarrow> string" where
  "after_at s = drop 1 (dropWhile (\<lambda>c. c \<noteq> CHR ''@'') s)"

definition first_digest :: "pyval option \<Rightarrow> string option" where
  "first_digest parsed =
     (case parsed of
        Some (PList es) \<Rightarrow> map_option after_at (List.find (\<lambda>s. CHR ''@'' \<in> set s) (map py_str es))
      | _ \<Rightarrow> None)"

definition running_image_digest :: "UpdateEnv \<Rightarrow> ('z UpdateHost_scheme, string) act" where
  "running_image_digest env =
     (let cid = own_container_id env in
      if cid = [] then ret (ue_image_digest env)
      else bnd (docker_call env [''inspect'', ''--format'', ''{{.Image}}'', cid]) (\<lambda>(code, out).
        (let img = (if code = 0 then strip out else []) in
         if img = [] then ret (ue_image_digest env)
         else bnd (docker_call env (inspect_digests img)) (\<lambda>(code, out).
           ret (case (if code = 0 then first_digest (last_line_json env out) else None) of
             Some d \<Rightarrow> d | None \<Rightarrow> ue_image_digest env)))))"

definition pull_and_verify :: "UpdateEnv \<Rightarrow> string \<Rightarrow> ('z UpdateHost_scheme, string) act" where
  "pull_and_verify env digest =
     (let reference = image_reference env digest in
      bnd (docker_call env [''pull'', reference]) (\<lambda>(code, out).
        if code \<noteq> 0 then ret (''pull failed ('' @ show_int code @ ''): '' @ last_chars 300 (strip out))
        else bnd (docker_call env (inspect_digests reference)) (\<lambda>(code, out).
          if code \<noteq> 0 then ret (''inspect failed ('' @ show_int code @ ''): '' @ last_chars 300 (strip out))
          else (case last_line_json env out of
              None \<Rightarrow> ret ''inspect returned no digests''
            | Some (PList es) \<Rightarrow>
                ret (if list_ex (\<lambda>e. suffix (''@'' @ digest) (py_str e)) es then []
                     else ''pulled image does not carry the authorised digest'')
            | Some v \<Rightarrow> bnd (lift (py_iter v)) (\<lambda>_. ret ''pulled image does not carry the authorised digest'')))))"

section \<open>The restart\<close>

definition compose_project :: "UpdateEnv \<Rightarrow> ('z UpdateHost_scheme, string) act" where
  "compose_project env =
     (let cid = own_container_id env in
      if cid = [] then ret []
      else bnd (docker_call env [''inspect'', ''--format'',
                 ''{{index .Config.Labels '' @ [CHR 0x22] @ ''com.docker.compose.project'' @ [CHR 0x22] @ ''}}'', cid])
             (\<lambda>(code, out). ret (if code = 0 then strip out else [])))"

definition helper_args :: "UpdateEnv \<Rightarrow> string \<Rightarrow> string \<Rightarrow> string \<Rightarrow> string list" where
  "helper_args env digest helper project =
     [''run'', ''-d'', ''--name'', helper, ''--entrypoint'', ''docker'', ''-v'', ''/var/run/docker.sock:/var/run/docker.sock''] @
     (if own_container_id env \<noteq> [] then [''--volumes-from'', own_container_id env] else []) @
     [image_reference env digest, ''compose'', ''-f'', ue_compose_file env, ''--env-file'', ue_env_file env] @
     (if project \<noteq> [] then [''-p'', project] else []) @
     [''up'', ''-d'', ''--no-deps'', ''--timeout'', ''10'', ''agent'']"

definition helper_exit :: "string \<Rightarrow> string" where
  "helper_exit out = (let ls = splitlines (strip out) in if ls = [] then [] else last ls)"

definition restart :: "UpdateEnv \<Rightarrow> string \<Rightarrow> ('z UpdateHost_scheme, string) act" where
  "restart env digest =
     (if ue_compose_file env = [] \<or> \<not> ue_compose_mounted env
      then ret (''compose file '' @ repr_str (ue_compose_file env) @ '' is not mounted'')
      else if \<not> ue_env_writable env then ret (''could not write '' @ ue_env_file env @ '': OSError'')
      else bnd (modify (\<lambda>w. w\<lparr>uh_env := Some (rewritten_env (uh_env w) digest)\<rparr>)) (\<lambda>_.
           bnd (compose_project env) (\<lambda>project.
             (let helper = ''rig-agent-update-'' @ show_int (py_trunc (ue_now env)) in
              bnd (docker_call env (helper_args env digest helper project)) (\<lambda>(code, out).
                if code \<noteq> 0
                then ret (''could not start the update helper ('' @ show_int code @ ''): '' @ last_chars 300 (strip out))
                else bnd (upd_log ''update.helper'' [(''helper'', PStr helper), (''digest'', PStr digest)]) (\<lambda>_.
                     bnd (docker_call env [''wait'', helper]) (\<lambda>(code, out).
                     bnd (docker_call env [''logs'', ''--tail'', ''40'', helper]) (\<lambda>(_, logs).
                     bnd (docker_call env [''rm'', ''-f'', helper]) (\<lambda>_.
                       ret (if code \<noteq> 0 \<or> helper_exit out \<noteq> ''0''
                            then ''update helper exited '' @ str_or (helper_exit out) (show_int code) @ '': '' @ last_chars 400 (strip logs)
                            else []))))))))))"

section \<open>A check\<close>

text \<open>\<open>answer\<close> is what the pool's client returned or raised.\<close>

definition check_once :: "UpdateEnv \<Rightarrow> exc + pyval \<Rightarrow> ('z UpdateHost_scheme, pydict) act" where
  "check_once env answer =
     bnd (modify (\<lambda>w. w\<lparr>uh_last_check := ue_now env\<rparr>)) (\<lambda>_.
       case answer of
         Inl e \<Rightarrow> raise e
       | Inr payload \<Rightarrow>
           (case verify_release (ue_verify env) (ue_validators env) (ue_now env) payload of
              (None, problem) \<Rightarrow> ret [(''applied'', PBool False), (''reason'', PStr problem)]
            | (Some release, _) \<Rightarrow>
                bnd (running_image_digest env) (\<lambda>running_now.
                bnd (modify (\<lambda>w. w\<lparr>uh_running_digest := running_now\<rparr>)) (\<lambda>_.
                  if running_now = rel_digest release
                  then ret [(''applied'', PBool False), (''reason'', PStr ''already running the authorised image''), (''digest'', PStr running_now)]
                  else bnd (upd_log ''update.available''
                              [(''digest'', PStr (rel_digest release)), (''running'', PStr running_now), (''validator'', PStr (rel_validator release))]) (\<lambda>_.
                       bnd (pull_and_verify env (rel_digest release)) (\<lambda>problem.
                         if problem \<noteq> [] then raise (RuntimeErr problem)
                         else bnd (restart env (rel_digest release)) (\<lambda>problem.
                           if problem \<noteq> [] then raise (RuntimeErr problem)
                           else bnd (upd_log ''update.applied'' [(''digest'', PStr (rel_digest release))]) (\<lambda>_.
                             ret [(''applied'', PBool True), (''digest'', PStr (rel_digest release))]))))))))"

definition MAX_BACKOFF :: rat where "MAX_BACKOFF = 3600"

text \<open>One round of the loop: the check, the count of failures and the time to sleep. \<open>shown\<close> is the text of
  an exception.\<close>

definition updater_round ::
  "UpdateEnv \<Rightarrow> int \<Rightarrow> (exc \<Rightarrow> string) \<Rightarrow> exc + pyval \<Rightarrow> 'z UpdateHost_scheme \<Rightarrow> 'z UpdateHost_scheme \<times> rat" where
  "updater_round env update_seconds shown answer w =
     (let delay = of_int update_seconds in
      case check_once env answer w of
        (w1, Inr outcome) \<Rightarrow>
          (w1\<lparr>uh_failures := 0, uh_last_error := []\<rparr>,
           if truthy (dget outcome ''applied'' PNone) then max delay 120 else delay)
      | (w1, Inl e) \<Rightarrow>
          (let failures = uh_failures w1 + 1; text = take 300 (shown e) in
           (w1\<lparr>uh_failures := failures, uh_last_error := text,
               uh_events := uh_events w1 @ [(''update.error'', [(''error'', PStr text), (''failures'', PInt (int failures))])]\<rparr>,
            min (delay * 2 ^ min failures 6) MAX_BACKOFF)))"

section \<open>Facts\<close>

interpretation calls: trace uh_calls .

lemma docker_call_eq [simp]:
  "docker_call env args w = (w\<lparr>uh_calls := uh_calls w @ [args]\<rparr>, Inr (ue_docker env (uh_calls w) args))"
  by (simp add: docker_call_def)

lemma logs_docker: "P args \<Longrightarrow> calls.logs P (docker_call env args)"
  by (simp add: calls.logs_def)

lemma logs_upd: "calls.logs P (upd_log kind fs)"
  unfolding upd_log_def by (rule calls.logs_modify) simp

lemma verify_release_Some:
  assumes "verify_release kp_verify validators now payload = (Some r, problem)"
  shows "well_formed_digest (rel_digest r) \<and> rel_validator r \<in> validators \<and> \<bar>now - of_int (rel_timestamp r)\<bar> \<le> RELEASE_SKEW_SECONDS
    \<and> verify_hotkey kp_verify (rel_validator r) (Release_message r) (rel_signature r)"
  using assms by (auto simp: verify_release_def Let_def split: pyval.splits if_splits)

text \<open>The command lines of a check for the release with a digest.\<close>

definition update_call :: "UpdateEnv \<Rightarrow> string \<Rightarrow> string list \<Rightarrow> bool" where
  "update_call env digest c \<longleftrightarrow>
     (hd c = ''pull'' \<longrightarrow> c = [''pull'', image_reference env digest])
     \<and> (hd c = ''run'' \<longrightarrow> (\<exists>helper project. c = helper_args env digest helper project))"

lemma update_call_simps:
  "update_call env d [''pull'', image_reference env d]" "update_call env d (inspect_digests i)"
  "update_call env d (helper_args env d helper project)"
  "hd c \<noteq> ''pull'' \<Longrightarrow> hd c \<noteq> ''run'' \<Longrightarrow> update_call env d c"
  by (auto simp: update_call_def inspect_digests_def helper_args_def)

lemma logs_running: "calls.logs (update_call env d) (running_image_digest env)"
  unfolding running_image_digest_def Let_def
  by (auto intro!: calls.logs_rules logs_docker update_call_simps(2) update_call_simps(4))

lemma logs_pull: "calls.logs (update_call env d) (pull_and_verify env d)"
  unfolding pull_and_verify_def Let_def
  by (auto intro!: calls.logs_rules logs_docker update_call_simps(1,2) split: option.splits pyval.splits)

lemma logs_restart: "calls.logs (update_call env d) (restart env d)"
proof -
  have "calls.logs (update_call env d) (compose_project env)" unfolding compose_project_def Let_def
    by (auto intro!: calls.logs_rules logs_docker update_call_simps(4))
  then show ?thesis unfolding restart_def Let_def
    by (auto intro!: calls.logs_rules calls.logs_modify logs_docker logs_upd update_call_simps(3) update_call_simps(4))
qed

lemma running_env: "running_image_digest env w = (w1, r) \<Longrightarrow> uh_env w1 = uh_env w"
  by (auto simp: running_image_digest_def Let_def bnd_def split: if_splits prod.splits)

lemma restart_env: "restart env d w = (w1, r) \<Longrightarrow> uh_env w1 = uh_env w \<or> uh_env w1 = Some (rewritten_env (uh_env w) d)"
  by (auto simp: restart_def compose_project_def upd_log_def Let_def bnd_def split: if_splits prod.splits)

text \<open>What a pull that raised no problem has seen.\<close>

definition carries :: "UpdateEnv \<Rightarrow> string \<Rightarrow> bool" where
  "carries env digest \<longleftrightarrow> (\<exists>before out es e. ue_docker env before (inspect_digests (image_reference env digest)) = (0, out)
     \<and> last_line_json env out = Some (PList es) \<and> e \<in> set es \<and> suffix (''@'' @ digest) (py_str e))"

lemma pull_env:
  assumes "pull_and_verify env d w = (w1, r)"
  shows "uh_env w1 = uh_env w \<and> (r = Inr [] \<longrightarrow> carries env d)"
  using assms unfolding carries_def
  by (auto simp: pull_and_verify_def Let_def bnd_def lift_def list_ex_iff
      split: if_splits prod.splits option.splits pyval.splits sum.splits)

lemma check_unauthorised:
  assumes "check_once env answer w = (w', r)"
    and "\<And>payload rel p. answer = Inr payload \<Longrightarrow>
      verify_release (ue_verify env) (ue_validators env) (ue_now env) payload \<noteq> (Some rel, p)"
  shows "uh_calls w' = uh_calls w \<and> uh_env w' = uh_env w"
  using assms by (cases answer) (auto simp: check_once_def bnd_def split: prod.splits option.splits)

lemma check_authorised:
  assumes "check_once env (Inr payload) w = (w', r)"
    and v: "verify_release (ue_verify env) (ue_validators env) (ue_now env) payload = (Some rel, p)"
  shows "(\<exists>cs. uh_calls w' = uh_calls w @ cs \<and> list_all (update_call env (rel_digest rel)) cs)
    \<and> (uh_env w' \<noteq> uh_env w \<longrightarrow> uh_env w' = Some (rewritten_env (uh_env w) (rel_digest rel)) \<and> carries env (rel_digest rel))"
proof
  have "calls.logs (update_call env (rel_digest rel)) (check_once env (Inr payload))"
    unfolding check_once_def using v
    by (auto intro!: calls.logs_rules calls.logs_modify logs_running logs_pull logs_restart logs_upd)
  then show "\<exists>cs. uh_calls w' = uh_calls w @ cs \<and> list_all (update_call env (rel_digest rel)) cs"
    using assms(1) by (rule calls.logsD)
  show "uh_env w' \<noteq> uh_env w \<longrightarrow> uh_env w' = Some (rewritten_env (uh_env w) (rel_digest rel)) \<and> carries env (rel_digest rel)"
    using assms(1) v unfolding check_once_def
    by (auto simp: upd_log_def elim!: bnd_cases dest!: running_env pull_env restart_env split: if_splits)
qed

section \<open>Properties\<close>

text \<open>C12: The agent updates only to a release an active validator signed. Whenever a check of the updater
  changes the environment file, pulls an image or starts a container, the pool's answer holds a release
  with a well-formed digest, a signer in the agent's validator set, a timestamp within the skew window and
  a signature that verifies; every image pulled or started is that digest of the configured repository;
  and the file changes only after docker listed that digest for the pulled image.\<close>

theorem update_only_authorised:
  assumes "check_once env answer w = (w', r)"
    and "uh_env w' \<noteq> uh_env w \<or> (\<exists>c \<in> set (drop (length (uh_calls w)) (uh_calls w')). hd c \<in> {''pull'', ''run''})"
  shows "\<exists>payload rel. answer = Inr payload
    \<and> verify_release (ue_verify env) (ue_validators env) (ue_now env) payload = (Some rel, [])
    \<and> well_formed_digest (rel_digest rel) \<and> rel_validator rel \<in> ue_validators env
    \<and> \<bar>ue_now env - of_int (rel_timestamp rel)\<bar> \<le> 600
    \<and> verify_hotkey (ue_verify env) (rel_validator rel) (Release_message rel) (rel_signature rel)
    \<and> (\<forall>c \<in> set (drop (length (uh_calls w)) (uh_calls w')).
         (hd c = ''pull'' \<longrightarrow> c = [''pull'', image_reference env (rel_digest rel)])
         \<and> (hd c = ''run'' \<longrightarrow> (\<exists>helper project. c = helper_args env (rel_digest rel) helper project)))
    \<and> (uh_env w' \<noteq> uh_env w \<longrightarrow> uh_env w' = Some (rewritten_env (uh_env w) (rel_digest rel)) \<and> carries env (rel_digest rel))"
proof -
  have "\<exists>payload rel p. answer = Inr payload \<and> verify_release (ue_verify env) (ue_validators env) (ue_now env) payload = (Some rel, p)"
    using check_unauthorised [OF assms(1)] assms(2) by fastforce
  then obtain payload rel p where a: "answer = Inr payload"
    and v: "verify_release (ue_verify env) (ue_validators env) (ue_now env) payload = (Some rel, p)" by blast
  then have p: "p = []" by (auto simp: verify_release_def Let_def split: pyval.splits if_splits)
  from check_authorised [OF assms(1) [unfolded a] v] verify_release_Some [OF v]
  show ?thesis using a v unfolding p RELEASE_SKEW_SECONDS_def
    by (intro exI [of _ payload] exI [of _ rel]) (auto simp: update_call_def list_all_iff)
qed

definition demo_digest :: string where "demo_digest = ''sha256:'' @ replicate 64 (CHR ''0'')"

definition demo_update_env :: UpdateEnv where
  "demo_update_env = \<lparr>ue_docker = (\<lambda>before args. (0, if hd args = ''wait'' then ''0'' else ''[]'')),
     ue_loads = (\<lambda>_. Some (PList [PStr (''repo@'' @ demo_digest)])), ue_verify = (\<lambda>_ _ _. Some True), ue_validators = {''5V''},
     ue_now = 1000, ue_mountinfo = None, ue_hostname = ''rig'', ue_repository = ''repo'', ue_image_digest = [],
     ue_compose_file = ''/c.yml'', ue_compose_mounted = True, ue_env_file = ''/.env'', ue_env_writable = True\<rparr>"

definition demo_release :: pyval where
  "demo_release = PDict [(''release'', PDict [(''digest'', PStr demo_digest), (''timestamp'', PInt 900), (''validator'', PStr ''5V''),
     (''signature'', PStr ''0x00'')])]"

definition demo_update_host :: UpdateHost where
  "demo_update_host = \<lparr>uh_calls = [], uh_env = None, uh_events = [], uh_failures = 0, uh_last_check = 0, uh_last_error = [],
     uh_running_digest = []\<rparr>"

lemma demo_update: "uh_env (fst (check_once demo_update_env (Inr demo_release) demo_update_host)) \<noteq> None"
  by code_simp

theorem update_only_authorised_witness:
  "carries demo_update_env demo_digest \<and> well_formed_digest demo_digest
    \<and> verify_hotkey (ue_verify demo_update_env) ''5V'' (Release_message
        \<lparr>rel_digest = demo_digest, rel_timestamp = 900, rel_signature = ''0x00'', rel_validator = ''5V''\<rparr>) ''0x00''"
proof -
  obtain w' r where c: "check_once demo_update_env (Inr demo_release) demo_update_host = (w', r)" by fastforce
  then have "uh_env w' \<noteq> uh_env demo_update_host" using demo_update by (simp add: demo_update_host_def)
  moreover have "verify_release (ue_verify demo_update_env) (ue_validators demo_update_env) (ue_now demo_update_env) demo_release =
      (Some \<lparr>rel_digest = demo_digest, rel_timestamp = 900, rel_signature = ''0x00'', rel_validator = ''5V''\<rparr>, [])"
    by code_simp
  ultimately show ?thesis using update_only_authorised [OF c] by auto
qed
end
