(* ===== verification/Agent_Nvml.thy ===== *)
theory Agent_Nvml
  imports Rig_System
begin

text \<open>
  The agent's reading of its cards (\<^verbatim>\<open>agent/hardware/nvml.py\<close>). The module \<^verbatim>\<open>pynvml\<close> is a parameter: whether it can be imported, and what each of
  its functions returns or raises. An exception is the error of NVML with its code, or another exception by the
  name of its type.
\<close>

datatype py_fail = NoModule | NvFail int | OtherFail string

record PyNvml =
  pn_import :: bool
  pn_error_names :: "(string \<times> int) list"
  pn_init :: "py_fail option"
  pn_driver :: "py_fail + string"
  pn_cuda_v2 :: "py_fail + int"
  pn_cuda :: "py_fail + int"
  pn_count :: "py_fail + int"
  pn_handle :: "int \<Rightarrow> py_fail + int"
  pn_memory :: "int \<Rightarrow> py_fail + int \<times> int"
  pn_uuid :: "int \<Rightarrow> py_fail + string"
  pn_name :: "int \<Rightarrow> py_fail + string"
  pn_serial :: "int \<Rightarrow> py_fail + string"
  pn_bus :: "int \<Rightarrow> py_fail + string"
  pn_mig :: "int \<Rightarrow> py_fail + int \<times> int"
  pn_virt :: "int \<Rightarrow> py_fail + int"
  pn_rates :: "int \<Rightarrow> py_fail + int"
  pn_power :: "int \<Rightarrow> py_fail + int"
  pn_temperature :: "int \<Rightarrow> py_fail + int"
  pn_compute :: "(int \<Rightarrow> py_fail + (int \<times> int option) list) option"
  pn_graphics :: "(int \<Rightarrow> py_fail + (int \<times> int option) list) option"

definition LIBRARY_MISSING :: string where "LIBRARY_MISSING = ''NVML_ERROR_LIBRARY_NOT_FOUND''"
definition MIB_BYTES :: int where "MIB_BYTES = 1024 * 1024"

definition VIRTUALIZATION :: "(int \<times> string) list" where
  "VIRTUALIZATION = [(0, ''none''), (1, ''passthrough''), (2, ''vgpu''), (3, ''host_vgpu''), (4, ''host_vsga'')]"

definition nvml_error_name :: "PyNvml \<Rightarrow> py_fail \<Rightarrow> string" where
  "nvml_error_name p e =
     (case e of
        NoModule \<Rightarrow> LIBRARY_MISSING
      | OtherFail t \<Rightarrow> ''NVML_ERROR_'' @ upper t
      | NvFail v \<Rightarrow>
          if \<not> pn_import p then LIBRARY_MISSING
          else (case List.find (\<lambda>(name, code). startswith name ''NVML_ERROR_'' \<and> code = v) (pn_error_names p) of
                  Some (name, _) \<Rightarrow> name | None \<Rightarrow> ''NVML_ERROR_'' @ show_int v))"

text \<open>Entering the session.\<close>

definition nvml_open :: "PyNvml \<Rightarrow> py_fail option" where
  "nvml_open p = (if \<not> pn_import p then Some NoModule else pn_init p)"

definition nv_cuda_text :: "int \<Rightarrow> string" where
  "nv_cuda_text raw = show_int (raw div 1000) @ ''.'' @ show_int ((raw mod 1000) div 10)"

definition nv_optional :: "py_fail + 'a \<Rightarrow> 'a option" where
  "nv_optional r = (case r of Inl _ \<Rightarrow> None | Inr x \<Rightarrow> Some x)"

definition nv_driver :: "PyNvml \<Rightarrow> string \<times> string" where
  "nv_driver p =
     (case nv_optional (pn_driver p) of None \<Rightarrow> [] | Some d \<Rightarrow> d,
      case nv_optional (pn_cuda_v2 p) of
        Some v \<Rightarrow> nv_cuda_text v | None \<Rightarrow> (case nv_optional (pn_cuda p) of Some v \<Rightarrow> nv_cuda_text v | None \<Rightarrow> []))"

definition nv_mig_mode :: "PyNvml \<Rightarrow> int \<Rightarrow> string" where
  "nv_mig_mode p h = (case nv_optional (pn_mig p h) of None \<Rightarrow> [] | Some (current, _) \<Rightarrow> if current = 1 then ''enabled'' else ''disabled'')"

definition nv_virtualization :: "PyNvml \<Rightarrow> int \<Rightarrow> string" where
  "nv_virtualization p h = (case nv_optional (pn_virt p h) of None \<Rightarrow> [] | Some m \<Rightarrow> dget VIRTUALIZATION m (''mode_'' @ show_int m))"

definition nv_card :: "PyNvml \<Rightarrow> string \<times> string \<Rightarrow> int \<Rightarrow> py_fail + pydict" where
  "nv_card p versions index =
     rbind (pn_handle p index) (\<lambda>h. rbind (pn_memory p h) (\<lambda>memory. rbind (pn_uuid p h) (\<lambda>uuid. rbind (pn_name p h) (\<lambda>model.
       Inr [(''uuid'', PStr uuid), (''model'', PStr model), (''memory_mb'', PInt (fst memory div MIB_BYTES)), (''index'', PInt index),
            (''serial'', PStr (case nv_optional (pn_serial p h) of None \<Rightarrow> [] | Some t \<Rightarrow> t)),
            (''pci_bus_id'', PStr (case nv_optional (pn_bus p h) of None \<Rightarrow> [] | Some t \<Rightarrow> t)),
            (''mig_mode'', PStr (nv_mig_mode p h)), (''virtualization'', PStr (nv_virtualization p h)),
            (''driver'', PStr (fst versions)), (''cuda'', PStr (snd versions))]))))"

text \<open>A loop that appends what it reads and ends at the first exception; what was appended before stays.\<close>

fun collect :: "(int \<Rightarrow> py_fail + 'a) \<Rightarrow> int list \<Rightarrow> 'a list \<times> py_fail option" where
  "collect f [] = ([], None)"
| "collect f (i # is) = (case f i of Inl e \<Rightarrow> ([], Some e) | Inr x \<Rightarrow> (case collect f is of (xs, e) \<Rightarrow> (x # xs, e)))"

definition each_card :: "PyNvml \<Rightarrow> (int \<Rightarrow> py_fail + 'a) \<Rightarrow> 'a list \<times> py_fail option" where
  "each_card p f = (case pn_count p of Inl e \<Rightarrow> ([], Some e) | Inr n \<Rightarrow> collect f (map int [0..<nat n]))"

definition error_of :: "PyNvml \<Rightarrow> py_fail option \<Rightarrow> string" where
  "error_of p e = (case e of None \<Rightarrow> [] | Some e \<Rightarrow> nvml_error_name p e)"

definition inventory :: "PyNvml \<Rightarrow> pydict list \<times> (string \<times> string) \<times> string" where
  "inventory p =
     (case nvml_open p of
        Some e \<Rightarrow> ([], ([], []), nvml_error_name p e)
      | None \<Rightarrow> (case each_card p (nv_card p (nv_driver p)) of (cards, e) \<Rightarrow> (cards, nv_driver p, error_of p e)))"

text \<open>The processes of a card: one entry a process, of the first list that names it.\<close>

definition add_process :: "string \<Rightarrow> pydict list \<Rightarrow> int \<times> int option \<Rightarrow> pydict list" where
  "add_process kind seen process =
     (case process of (pid, used) \<Rightarrow>
        (let seen = (if list_ex (\<lambda>e. dget e ''pid'' PNone = PInt pid) seen then seen
                     else seen @ [[(''pid'', PInt pid), (''memory_mb'', PInt 0), (''kind'', PStr kind)]])
         in case used of
              Some n \<Rightarrow> if 0 < n then map (\<lambda>e. if dget e ''pid'' PNone = PInt pid then AList.update ''memory_mb'' (PInt (n div MIB_BYTES)) e else e) seen else seen
            | None \<Rightarrow> seen))"

definition kind_processes :: "(int \<Rightarrow> py_fail + (int \<times> int option) list) option \<Rightarrow> int \<Rightarrow> (int \<times> int option) list" where
  "kind_processes call h = (case call of None \<Rightarrow> [] | Some f \<Rightarrow> (case nv_optional (f h) of None \<Rightarrow> [] | Some ps \<Rightarrow> ps))"

definition nv_processes :: "PyNvml \<Rightarrow> int \<Rightarrow> pydict list" where
  "nv_processes p h =
     foldl (add_process ''graphics'') (foldl (add_process ''compute'') [] (kind_processes (pn_compute p) h)) (kind_processes (pn_graphics p) h)"

definition card_utilisation :: "PyNvml \<Rightarrow> int \<Rightarrow> py_fail + pydict" where
  "card_utilisation p index =
     rbind (pn_handle p index) (\<lambda>h. rbind (pn_memory p h) (\<lambda>memory. rbind (pn_uuid p h) (\<lambda>uuid.
       (let bytes = fst memory div MIB_BYTES; used = snd memory div MIB_BYTES in
        Inr [(''uuid'', PStr uuid), (''index'', PInt index),
             (''gpu_percent'', PInt (case nv_optional (pn_rates p h) of None \<Rightarrow> 0 | Some g \<Rightarrow> g)),
             (''memory_percent'', PFloat (if bytes \<noteq> 0 then py_round_to 1 (100 * of_int used / of_int bytes) else 0)),
             (''memory_used_mb'', PInt used), (''memory_total_mb'', PInt bytes),
             (''power_w'', case nv_optional (pn_power p h) of None \<Rightarrow> PNone | Some mw \<Rightarrow> PFloat (py_round_to 1 (of_int mw / 1000))),
             (''temperature_c'', case nv_optional (pn_temperature p h) of None \<Rightarrow> PNone | Some t \<Rightarrow> PInt t),
             (''processes'', PList (map PDict (nv_processes p h)))]))))"

text \<open>The load of the host: \<open>psutil\<close> gives the share of the processor and the bytes used and there are, if it gives anything.\<close>

record HostLoad =
  hl_psutil :: "(rat \<times> int \<times> int) option"
  hl_load :: "rat list"

definition host_load :: "System \<Rightarrow> HostLoad \<Rightarrow> pydict" where
  "host_load sy l =
     (case hl_psutil l of
        None \<Rightarrow> [(''cpu_percent'', PNone), (''ram_used_mb'', PNone), (''ram_total_mb'', PNone)]
      | Some (cpu, used, bytes) \<Rightarrow> [(''cpu_percent'', PFloat cpu), (''ram_used_mb'', PInt (used div MIB_BYTES)), (''ram_total_mb'', PInt (bytes div MIB_BYTES))]) @
     (case sy_usage sy ''/'' of
        Inl _ \<Rightarrow> [(''disk_used_gb'', PNone), (''disk_total_gb'', PNone)]
      | Inr (bytes, used, _) \<Rightarrow> [(''disk_used_gb'', PFloat (py_round_to 1 (of_int used / 10 ^ 9))), (''disk_total_gb'', PFloat (py_round_to 1 (of_int bytes / 10 ^ 9)))]) @
     [(''load'', PList (map (\<lambda>v. PFloat (py_round_to 2 v)) (hl_load l)))]"

definition utilisation :: "PyNvml \<Rightarrow> System \<Rightarrow> HostLoad \<Rightarrow> pydict" where
  "utilisation p sy l =
     (case (case nvml_open p of Some e \<Rightarrow> ([], Some e) | None \<Rightarrow> each_card p (card_utilisation p)) of (cards, e) \<Rightarrow>
        [(''gpus'', PList (map PDict cards)), (''nvml_error'', PStr (error_of p e)), (''at'', PFloat (py_round_to 3 (sy_now sy))),
         (''hostname'', PStr (sy_hostname sy))] @ host_load sy l)"

definition card_process_list :: "PyNvml \<Rightarrow> int \<Rightarrow> py_fail + pydict list" where
  "card_process_list p index =
     rbind (pn_handle p index) (\<lambda>h. rbind (pn_uuid p h) (\<lambda>uuid.
       Inr (map (\<lambda>process. (''gpu_uuid'', PStr uuid) # (''index'', PInt index) # process) (nv_processes p h))))"

definition nvml_processes :: "PyNvml \<Rightarrow> pydict list \<times> string" where
  "nvml_processes p =
     (case (case nvml_open p of Some e \<Rightarrow> ([], Some e) | None \<Rightarrow> each_card p (card_process_list p)) of (found, e) \<Rightarrow> (concat found, error_of p e))"

section \<open>Facts\<close>

lemma collect_prefix:
  assumes "collect f is = (xs, e)"
  shows "length xs \<le> length is \<and> map f (take (length xs) is) = map Inr xs \<and>
    (case e of None \<Rightarrow> length xs = length is | Some b \<Rightarrow> length xs < length is \<and> f (is ! length xs) = Inl b)"
  using assms
proof (induction "is" arbitrary: xs e)
  case (Cons i "is")
  show ?case
  proof (cases "f i")
    case (Inl b)
    then show ?thesis using Cons.prems by auto
  next
    case (Inr x)
    obtain ys e' where c: "collect f is = (ys, e')" by fastforce
    then show ?thesis using Cons.IH [OF c] Cons.prems Inr by (auto split: option.splits)
  qed
qed simp

lemma error_name_ne: "nvml_error_name p e \<noteq> []"
  by (auto simp: nvml_error_name_def LIBRARY_MISSING_def startswith_def split: py_fail.splits option.splits dest!: find_Some_iff [THEN iffD1])

lemma each_card_prefix:
  assumes "pn_count p = Inr n" "each_card p f = (xs, e)"
  shows "length xs \<le> nat n \<and> (\<forall>k < length xs. f (int k) = Inr (xs ! k)) \<and>
    (case e of None \<Rightarrow> length xs = nat n | Some b \<Rightarrow> length xs < nat n \<and> f (int (length xs)) = Inl b)"
proof -
  have c: "collect f (map int [0..<nat n]) = (xs, e)" using assms by (simp add: each_card_def)
  note pre = collect_prefix [OF c]
  have "f (int k) = Inr (xs ! k)" if k: "k < length xs" for k
  proof -
    have l: "length xs \<le> nat n" and m: "map f (take (length xs) (map int [0..<nat n])) = map Inr xs" using pre by simp_all
    have "map f (take (length xs) (map int [0..<nat n])) ! k = f (int k)" using k l by simp
    then show ?thesis using k by (simp add: m)
  qed
  then show ?thesis using pre by (auto split: option.splits)
qed

text \<open>The inventory of the agent is exact: on a rig whose NVML opens, the cards it reports are the cards 0 to \<open>k - 1\<close> as read one by one, the error is
  empty exactly when \<open>k\<close> is the number of cards there are, and otherwise the error is the name of the failure of card \<open>k\<close>. A card that cannot be
  read takes the cards after it out of the report, never a card before it.\<close>

theorem inventory_exact:
  assumes "nvml_open p = None" "pn_count p = Inr n" "inventory p = (cards, versions, error)"
  shows "\<exists>k \<le> nat n. length cards = k \<and> (\<forall>i < k. nv_card p versions (int i) = Inr (cards ! i)) \<and> (error = [] \<longleftrightarrow> k = nat n)
    \<and> (k < nat n \<longrightarrow> (\<exists>e. nv_card p versions (int k) = Inl e \<and> error = nvml_error_name p e))"
proof -
  obtain xs e where c: "each_card p (nv_card p (nv_driver p)) = (xs, e)" by fastforce
  have eq: "cards = xs" "versions = nv_driver p" "error = error_of p e" using assms(1,3) c by (simp_all add: inventory_def)
  show ?thesis using each_card_prefix [OF assms(2) c] error_name_ne [of p]
    unfolding eq by (intro exI [of _ "length xs"]) (auto simp: error_of_def split: option.splits)
qed

definition wit_pynvml :: PyNvml where
  "wit_pynvml = \<lparr>pn_import = True, pn_error_names = [(''NVML_ERROR_GPU_IS_LOST'', 15)], pn_init = None, pn_driver = Inr ''560.35'', pn_cuda_v2 = Inr 12060,
     pn_cuda = Inl (NvFail 13), pn_count = Inr 3, pn_handle = \<lambda>i. if i = 1 then Inl (NvFail 15) else Inr i, pn_memory = \<lambda>_. Inr (2 ^ 34, 0),
     pn_uuid = \<lambda>h. Inr (''GPU-'' @ show_int h), pn_name = \<lambda>_. Inr ''NVIDIA'', pn_serial = \<lambda>_. Inl (NvFail 3), pn_bus = \<lambda>_. Inl (NvFail 3),
     pn_mig = \<lambda>_. Inl (NvFail 3), pn_virt = \<lambda>_. Inr 0, pn_rates = \<lambda>_. Inl (NvFail 3), pn_power = \<lambda>_. Inl (NvFail 3), pn_temperature = \<lambda>_. Inl (NvFail 3),
     pn_compute = None, pn_graphics = None\<rparr>"

theorem inventory_exact_witness:
  "\<exists>cards versions. inventory wit_pynvml = (cards, versions, ''NVML_ERROR_GPU_IS_LOST'') \<and> length cards = 1 \<and> nv_card wit_pynvml versions 1 = Inl (NvFail 15)"
proof -
  have o: "nvml_open wit_pynvml = None" "pn_count wit_pynvml = Inr 3" by (simp_all add: nvml_open_def wit_pynvml_def)
  obtain cards versions error where i: "inventory wit_pynvml = (cards, versions, error)" by (cases "inventory wit_pynvml") auto
  obtain k where k: "k \<le> 3" "length cards = k" "\<forall>i < k. nv_card wit_pynvml versions (int i) = Inr (cards ! i)"
    "k < 3 \<longrightarrow> (\<exists>e. nv_card wit_pynvml versions (int k) = Inl e \<and> error = nvml_error_name wit_pynvml e)"
    using inventory_exact [OF o i] by auto
  have c0: "\<exists>c. nv_card wit_pynvml versions 0 = Inr c" and c1: "nv_card wit_pynvml versions 1 = Inl (NvFail 15)"
    by (simp_all add: nv_card_def wit_pynvml_def)
  have "k \<noteq> 0" using k(4) c0 by (cases k) auto
  moreover have "\<not> 1 < k" using k(3) c1 by (auto dest: spec [of _ 1])
  ultimately have "k = 1" by simp
  then have "error = nvml_error_name wit_pynvml (NvFail 15)" using k(4) c1 by simp
  also have "\<dots> = ''NVML_ERROR_GPU_IS_LOST''" by (simp add: nvml_error_name_def wit_pynvml_def startswith_def)
  finally show ?thesis using i k(2) \<open>k = 1\<close> c1 by simp
qed

end
