(* ===== verification/Agent_Hardware.thy ===== *)
theory Agent_Hardware
  imports Agent_Nvml Verify_Scrape
begin

text \<open>
  What the agent reads of its own machine: \<^verbatim>\<open>agent/hardware/host.py\<close> and \<^verbatim>\<open>agent/hardware/spec.py\<close>, with the two caches the second one keeps (the
  answer of \<^verbatim>\<open>docker info\<close> and the result of the storage quota probe). The machine is the record \<open>System\<close>, the cards are \<open>Agent_Nvml\<close>; \<open>psutil\<close> and the
  socket that finds the default address are parameters. The clock readings of one call are one reading.
\<close>

section \<open>The host\<close>

definition HW_DMI_FIELDS :: "string list" where
  "HW_DMI_FIELDS = [''sys_vendor'', ''product_name'', ''product_version'', ''board_vendor'', ''board_name'', ''bios_version'']"

definition HW_NESTED_MARKERS :: "string list" where
  "HW_NESTED_MARKERS = [''/docker/'', ''/lxc/'', ''/containerd/'', ''/kubepods'', ''/podman/'', ''/machine.slice/libpod'']"

definition read_text :: "System \<Rightarrow> string \<Rightarrow> nat \<Rightarrow> string" where
  "read_text sy path limit = strip (read_file sy path limit)"

definition lslash :: "string \<Rightarrow> string" where
  "lslash p = dropWhile (\<lambda>c. c = CHR ''/'') p"

definition host_path :: "System \<Rightarrow> string \<Rightarrow> string" where
  "host_path sy relative =
     (let candidate = HOST_ROOT @ ''/'' @ lslash relative in if sy_exists sy candidate then candidate else ''/'' @ lslash relative)"

definition init_root_is_host :: "System \<Rightarrow> bool" where
  "init_root_is_host sy = (case (sy_stat sy HOST_ROOT, sy_stat sy ''/'') of (Some a, Some b) \<Rightarrow> a \<noteq> b | _ \<Rightarrow> False)"

definition init_cgroup :: "System \<Rightarrow> string" where
  "init_cgroup sy = read_text sy ''/proc/1/cgroup'' 4096"

definition cgroup_is_nested :: "string \<Rightarrow> bool" where
  "cgroup_is_nested cgroup = list_ex (\<lambda>m. contains_str m cgroup) HW_NESTED_MARKERS"

definition detect_virt_container :: "System \<Rightarrow> string" where
  "detect_virt_container sy =
     (case sy_which sy ''systemd-detect-virt'' of
        None \<Rightarrow> ''unknown''
      | Some binary \<Rightarrow> (case sy_run sy [binary, ''--container''] of NotRan _ \<Rightarrow> ''unknown'' | Ran _ out _ \<Rightarrow> str_or (strip out) ''none''))"

definition hw_dmi :: "System \<Rightarrow> pydict" where
  "hw_dmi sy = map (\<lambda>name. (name, PStr (read_text sy (host_path sy ''/sys/class/dmi/id'' @ ''/'' @ name) 256))) HW_DMI_FIELDS"

definition kernel_release :: "System \<Rightarrow> string" where
  "kernel_release sy = str_or (read_text sy (host_path sy ''/proc/sys/kernel/osrelease'') 128) (sy_release sy)"

definition kernel_version_tuple :: "System \<Rightarrow> string \<Rightarrow> int \<times> int" where
  "kernel_version_tuple sy release = version_pair (str_or release (kernel_release sy))"

definition hw_os_release :: "System \<Rightarrow> (string \<times> string) list" where
  "hw_os_release sy = key_values (\<lambda>_. False) (read_text sy (host_path sy ''/etc/os-release'') 8192)"

definition machine_id :: "System \<Rightarrow> string" where
  "machine_id sy = read_text sy (host_path sy ''/etc/machine-id'') 64"

definition host_summary :: "System \<Rightarrow> pydict" where
  "host_summary sy =
     (let release = kernel_release sy; kver = kernel_version_tuple sy release in
      [(''init_root_is_host'', PBool (init_root_is_host sy)), (''init_cgroup'', PStr (take 512 (init_cgroup sy))),
       (''cgroup_nested'', PBool (cgroup_is_nested (init_cgroup sy))), (''virt_container'', PStr (detect_virt_container sy)),
       (''dmi'', PDict (hw_dmi sy)), (''kernel'', PStr release), (''kernel_tuple'', PList [PInt (fst kver), PInt (snd kver)]),
       (''arch'', PStr (sy_machine sy)), (''os'', PStr (dget (hw_os_release sy) ''PRETTY_NAME'' [])), (''machine_id'', PStr (machine_id sy))])"

section \<open>The specification\<close>

definition PRIVATE :: "(string \<times> nat) list" where
  "PRIVATE = [(''10.0.0.0'', 8), (''172.16.0.0'', 12), (''192.168.0.0'', 16), (''100.64.0.0'', 10), (''127.0.0.0'', 8), (''169.254.0.0'', 16), (''0.0.0.0'', 8)]"

definition SYSBOX_LOG :: string where "SYSBOX_LOG = ''/var/log/sysbox-mgr.log''"
definition QUOTA_IMAGE :: string where "QUOTA_IMAGE = ''alpine''"
definition QUOTA_TTL_OK :: rat where "QUOTA_TTL_OK = 3600"
definition QUOTA_TTL_FAILED :: rat where "QUOTA_TTL_FAILED = 600"
definition DOCKER_INFO_TTL :: rat where "DOCKER_INFO_TTL = 60"

record HwCache =
  qc_value :: "bool option"
  qc_at :: rat
  qc_detail :: string
  ic_value :: pydict
  ic_at :: rat

definition hw_cache_init :: HwCache where
  "hw_cache_init = \<lparr>qc_value = None, qc_at = 0, qc_detail = [], ic_value = [], ic_at = 0\<rparr>"

definition spec_run :: "System \<Rightarrow> string list \<Rightarrow> int \<times> string" where
  "spec_run sy args = (case sy_run sy args of NotRan e \<Rightarrow> (-1, e) | Ran code out err \<Rightarrow> (code, out @ err))"

definition docker_info :: "System \<Rightarrow> rat \<Rightarrow> HwCache \<Rightarrow> HwCache \<times> pydict" where
  "docker_info sy now st =
     (if ic_value st \<noteq> [] \<and> now - ic_at st < DOCKER_INFO_TTL then (st, ic_value st)
      else if sy_which sy ''docker'' = None then (st, [])
      else (case spec_run sy [''docker'', ''info'', ''--format'', ''{{json .}}''] of (code, out) \<Rightarrow>
        if code \<noteq> 0 \<or> splitlines (strip out) = [] then (st, [])
        else (case sy_loads sy (last (splitlines (strip out))) of
                Some (PDict parsed) \<Rightarrow> (st\<lparr>ic_value := parsed, ic_at := now\<rparr>, parsed)
              | _ \<Rightarrow> (st, []))))"

definition model_of_line :: "string \<Rightarrow> string option" where
  "model_of_line line =
     (if startswith (lower line) ''model name'' then map_option (\<lambda>kv. strip (snd kv)) (cut_at (CHR '':'') line) else None)"

definition first_model :: "string \<Rightarrow> string option" where
  "first_model text = (case List.map_filter model_of_line (splitlines text) of [] \<Rightarrow> None | m # _ \<Rightarrow> Some m)"

definition cpu_model :: "System \<Rightarrow> string" where
  "cpu_model sy =
     (case first_model (read_text sy (host_path sy ''/proc/cpuinfo'') 65536) of
        Some m \<Rightarrow> m
      | None \<Rightarrow>
          (case (case sy_which sy ''lscpu'' of None \<Rightarrow> None
                 | Some binary \<Rightarrow> (case spec_run sy [binary] of (code, out) \<Rightarrow> if code = 0 then first_model out else None)) of
             Some m \<Rightarrow> m | None \<Rightarrow> sy_processor sy))"

record HwEnv =
  he_psutil_cpus :: "int option option"
  he_psutil_ram :: "int option"
  he_socket :: "string option"
  he_version :: string

definition cpu_cores :: "HwEnv \<Rightarrow> System \<Rightarrow> int" where
  "cpu_cores env sy =
     (case he_psutil_cpus env of
        Some n \<Rightarrow> (case n of Some k \<Rightarrow> k | None \<Rightarrow> 0) | None \<Rightarrow> (case sy_cpu_count sy of Some k \<Rightarrow> k | None \<Rightarrow> 0))"

definition ram_mb :: "HwEnv \<Rightarrow> System \<Rightarrow> int" where
  "ram_mb env sy =
     (case concat (map (digit_runs []) (filter (\<lambda>l. startswith l ''MemTotal:'') (splitlines (read_text sy (host_path sy ''/proc/meminfo'') 4096)))) of
        d # _ \<Rightarrow> int (digits_val d) div 1024
      | [] \<Rightarrow> (case he_psutil_ram env of Some b \<Rightarrow> b div MIB_BYTES | None \<Rightarrow> 0))"

definition parent_dir :: "string \<Rightarrow> string" where
  "parent_dir p = (let d = rev (tl (dropWhile (\<lambda>c. c \<noteq> CHR ''/'') (rev p))) in if d = [] then ''/'' else d)"

definition queue_flag :: "System \<Rightarrow> string \<Rightarrow> bool option" where
  "queue_flag sy dir =
     (let text = read_text sy (dir @ ''/queue/rotational'') 8 in if text = ''1'' then Some True else if text = ''0'' then Some False else None)"

text \<open>The depth of the source counts up to four; here the levels that are left count down, so the first call has five.\<close>

fun rotational_flag :: "System \<Rightarrow> nat \<Rightarrow> string \<Rightarrow> bool option" where
  "rotational_flag sy 0 node = None"
| "rotational_flag sy (Suc depth) node =
     (let resolved = sy_realpath sy node; slaves = resolved @ ''/slaves'';
          children = (if sy_isdir sy slaves then (case sy_listdir sy slaves of None \<Rightarrow> [] | Some cs \<Rightarrow> cs) else []);
          known = List.map_filter (\<lambda>child. rotational_flag sy depth (slaves @ ''/'' @ child)) children
      in if known \<noteq> [] then Some (list_ex id known)
         else (case queue_flag sy resolved of Some b \<Rightarrow> Some b | None \<Rightarrow> queue_flag sy (parent_dir resolved)))"

definition rotational :: "System \<Rightarrow> string \<Rightarrow> bool option" where
  "rotational sy path =
     (case sy_stat sy path of
        None \<Rightarrow> None
      | Some (dev, _) \<Rightarrow>
          (case sy_device sy dev of (major, minor) \<Rightarrow>
             (let node = ''/sys/dev/block/'' @ show_int major @ '':'' @ show_int minor in
              if sy_exists sy node then rotational_flag sy 5 node else None)))"

definition disk_root :: "System \<Rightarrow> pydict \<Rightarrow> string" where
  "disk_root sy info =
     (let root = py_str (py_or (dget info ''DockerRootDir'' (PStr [])) (PStr ''/var/lib/docker'')); candidate = host_path sy root
      in if sy_exists sy candidate then candidate else ''/'')"

definition disk :: "System \<Rightarrow> pydict \<Rightarrow> rat \<times> bool" where
  "disk sy info =
     (let root = disk_root sy info;
          used = (\<lambda>root bytes. (py_round_to 1 (of_int bytes / 10 ^ 9), rotational sy root = Some False))
      in case sy_usage sy root of
           Inr (bytes, _, _) \<Rightarrow> used root bytes
         | Inl _ \<Rightarrow> (case sy_usage sy ''/'' of Inr (bytes, _, _) \<Rightarrow> used ''/'' bytes | Inl _ \<Rightarrow> (0, False)))"

definition default_address :: "HwEnv \<Rightarrow> string" where
  "default_address env = (case he_socket env of None \<Rightarrow> [] | Some a \<Rightarrow> a)"

definition hw_is_public :: "string \<Rightarrow> bool" where
  "hw_is_public address = (case ipv4 address of None \<Rightarrow> False | Some ip \<Rightarrow> \<not> list_ex (in_network ip) PRIVATE)"

definition last_answer :: "string \<Rightarrow> bool option" where
  "last_answer text = (case idmap_all lower text of [] \<Rightarrow> None | bs \<Rightarrow> Some (last bs))"

fun first_answer :: "System \<Rightarrow> string list list \<Rightarrow> bool option" where
  "first_answer sy [] = None"
| "first_answer sy (args # rest) =
     (case spec_run sy args of (code, out) \<Rightarrow>
        (case (if code = 0 then last_answer out else None) of Some b \<Rightarrow> Some b | None \<Rightarrow> first_answer sy rest))"

definition idmapped_mounts :: "System \<Rightarrow> bool option \<times> string" where
  "idmapped_mounts sy =
     (case (case sy_which sy ''journalctl'' of None \<Rightarrow> None
            | Some binary \<Rightarrow> first_answer sy [[binary, ''-u'', ''sysbox-mgr'', ''-b'', ''--no-pager'', ''-o'', ''cat''],
                 [binary, ''-D'', host_path sy ''/var/log/journal'', ''-u'', ''sysbox-mgr'', ''-b'', ''--no-pager'', ''-o'', ''cat'']]) of
        Some b \<Rightarrow> (Some b, ''journal'')
      | None \<Rightarrow> (case last_answer (read_text sy (host_path sy SYSBOX_LOG) (1024 * 1024)) of
                  Some b \<Rightarrow> (Some b, ''sysbox-mgr.log'') | None \<Rightarrow> (None, ''unknown'')))"

definition has_sysbox :: "pydict \<Rightarrow> bool" where
  "has_sysbox info = (case py_or (dget info ''Runtimes'' PNone) (PDict []) of PDict d \<Rightarrow> dhas d ''sysbox-runc'' | _ \<Rightarrow> False)"

definition isolation :: "System \<Rightarrow> pydict \<Rightarrow> pydict" where
  "isolation sy info =
     (let sysbox = has_sysbox info;
          (idmapped, source) = (case idmapped_mounts sy of
             (Some b, source) \<Rightarrow> (b, source) | (None, _) \<Rightarrow> (sysbox \<and> at_least (kernel_version_tuple sy []) (5, 19), ''kernel-version''))
      in [(''sysbox'', PBool sysbox), (''idmapped'', PBool idmapped), (''idmapped_source'', PStr source)])"

definition QUOTA_PROBE_ARGS :: "string list" where
  "QUOTA_PROBE_ARGS = [''docker'', ''run'', ''--rm'', ''--storage-opt'', ''size=1g'', QUOTA_IMAGE, ''true'']"

text \<open>The answer, and whether a container was started for it.\<close>

definition storage_quota :: "System \<Rightarrow> rat \<Rightarrow> HwCache \<Rightarrow> HwCache \<times> bool \<times> bool" where
  "storage_quota sy now st =
     (let age = now - qc_at st in
      if qc_value st = Some True \<and> age < QUOTA_TTL_OK then (st, True, False)
      else if qc_value st = Some False \<and> age < QUOTA_TTL_FAILED then (st, False, False)
      else if sy_which sy ''docker'' = None then (st\<lparr>qc_value := Some False, qc_at := now, qc_detail := ''docker cli missing''\<rparr>, False, False)
      else (case spec_run sy QUOTA_PROBE_ARGS of (code, out) \<Rightarrow>
              (st\<lparr>qc_value := Some (code = 0), qc_at := now, qc_detail := last_chars 300 (strip out)\<rparr>, code = 0, True)))"

definition hw_hostname_of :: "System \<Rightarrow> string" where
  "hw_hostname_of sy = str_or (read_text sy (host_path sy ''/etc/hostname'') 256) (sy_hostname sy)"

definition SPEC_CARD_KEYS :: "string list" where
  "SPEC_CARD_KEYS = [''uuid'', ''model'', ''memory_mb'', ''index'', ''serial'', ''pci_bus_id'', ''mig_mode'', ''virtualization'']"

definition spec_build ::
  "HwEnv \<Rightarrow> PyNvml \<Rightarrow> System \<Rightarrow> string \<Rightarrow> string \<Rightarrow> rat \<Rightarrow> HwCache \<Rightarrow> HwCache \<times> pydict" where
  "spec_build env p sy public_address port_range now st =
     (let (st1, info) = docker_info sy now st; release = hw_os_release sy; (cards, versions, error) = inventory p;
          (disk_gb, ssd) = disk sy info; address = str_or public_address (default_address env);
          (st2, quota, _) = storage_quota sy now st1
      in (st2,
          [(''gpus'', PList (map (\<lambda>c. PDict (map (\<lambda>k. (k, dget c k PNone)) SPEC_CARD_KEYS)) cards)),
           (''cpu_model'', PStr (cpu_model sy)), (''cpu_cores'', PInt (cpu_cores env sy)), (''ram_mb'', PInt (ram_mb env sy)),
           (''disk_gb'', PFloat disk_gb), (''disk_ssd'', PBool ssd),
           (''os'', PStr (str_or (lower (dget release ''ID'' [])) (lower (sy_system sy)))), (''os_version'', PStr (dget release ''VERSION_ID'' [])),
           (''kernel'', PStr (kernel_release sy)), (''arch'', PStr (sy_machine sy)), (''driver'', PStr (fst versions)), (''cuda'', PStr (snd versions)),
           (''isolation'', PDict (isolation sy info)), (''storage_quota'', PBool quota), (''hostname'', PStr (hw_hostname_of sy)),
           (''port_range'', PStr port_range), (''address'', PStr address), (''public_ipv4'', PBool (hw_is_public address)),
           (''docker'', PStr (py_str (py_or (dget info ''ServerVersion'' (PStr [])) (PStr [])))),
           (''storage_driver'', PStr (py_str (py_or (dget info ''Driver'' (PStr [])) (PStr [])))),
           (''nvml_error'', PStr error), (''agent_version'', PStr (he_version env)), (''host'', PDict (host_summary sy))]))"

section \<open>Facts\<close>

text \<open>The probe over time: the machine may change between calls. The times at which a container was started.\<close>

fun quota_probes :: "(rat \<Rightarrow> System) \<Rightarrow> HwCache \<Rightarrow> rat list \<Rightarrow> rat list" where
  "quota_probes sys st [] = []"
| "quota_probes sys st (t # ts) =
     (case storage_quota (sys t) t st of (st', _, started) \<Rightarrow> (if started then [t] else []) @ quota_probes sys st' ts)"

lemma storage_quota_stale:
  assumes "storage_quota sy t st = (st', answer, started)"
  shows "st' = st \<and> \<not> started \<or> (qc_value st = None \<or> qc_at st + 600 \<le> t) \<and> qc_value st' \<noteq> None \<and> qc_at st' = t"
proof (cases "qc_value st")
  case None
  then show ?thesis using assms by (auto simp: storage_quota_def Let_def split: if_splits prod.splits)
next
  case (Some b)
  then show ?thesis using assms
    by (cases b) (auto simp: storage_quota_def Let_def QUOTA_TTL_OK_def QUOTA_TTL_FAILED_def split: if_splits prod.splits)
qed

lemma quota_probes_after:
  assumes "qc_value st \<noteq> None"
  shows "sorted_wrt (\<lambda>a b. a + 600 \<le> b) (quota_probes sys st ts) \<and> (\<forall>t \<in> set (quota_probes sys st ts). qc_at st + 600 \<le> t)"
  using assms
proof (induction ts arbitrary: st)
  case (Cons t ts)
  obtain st' answer started where q: "storage_quota (sys t) t st = (st', answer, started)" by (cases "storage_quota (sys t) t st") auto
  show ?case
  proof (cases "st' = st \<and> \<not> started")
    case True
    then show ?thesis using Cons q by simp
  next
    case False
    then have s: "qc_at st + 600 \<le> t" "qc_value st' \<noteq> None" "qc_at st' = t" using storage_quota_stale [OF q] Cons.prems by auto
    then have "sorted_wrt (\<lambda>a b. a + 600 \<le> b) (quota_probes sys st' ts)" "\<forall>u \<in> set (quota_probes sys st' ts). t + 600 \<le> u"
      using Cons.IH [OF s(2)] s(3) by auto
    moreover from this(2) have "\<forall>u \<in> set (quota_probes sys st' ts). qc_at st + 600 \<le> u" using s(1) by fastforce
    ultimately show ?thesis using s(1) q by simp
  qed
qed simp

text \<open>The storage quota probe starts containers at most every ten minutes: whatever the times of the calls and however the machine changes between
  them, any two probes that start a container are at least 600 seconds apart, in the order they are made.\<close>

theorem quota_probes_spaced: "sorted_wrt (\<lambda>a b. a + 600 \<le> b) (quota_probes sys st ts)"
proof (induction ts arbitrary: st)
  case (Cons t ts)
  obtain st' answer started where q: "storage_quota (sys t) t st = (st', answer, started)" by (cases "storage_quota (sys t) t st") auto
  show ?case
  proof (cases "st' = st \<and> \<not> started")
    case False
    then have s: "qc_value st' \<noteq> None" "qc_at st' = t" using storage_quota_stale [OF q] by auto
    then show ?thesis using quota_probes_after [OF s(1), of sys ts] q by simp
  qed (use Cons q in simp)
qed simp

lemma hw_public_public: "hw_is_public address \<Longrightarrow> is_public address"
  by (auto simp: hw_is_public_def is_public_def PRIVATE_def PRIVATE_NETWORKS_def split: option.splits)

end
