(* ===== verification/Agent_Views.thy ===== *)
theory Agent_Views
  imports Agent_Routes Agent_Monitor Rig_Challenge Agent_Hardware
begin

text \<open>
  What the agent shows of itself: the handlers of \<^verbatim>\<open>agent/api/routes.py\<close> that only read (\<^verbatim>\<open>/version\<close>, \<^verbatim>\<open>/ping\<close>, the two utilisations and the logs of
  a container), the loading of the challenge library (\<^verbatim>\<open>agent/hardware/challenge.py\<close>), and the readers behind the attestation
  (\<^verbatim>\<open>agent/hardware/attestation.py\<close>). The followed logs share a counter of open streams across requests: a handler runs without interruption
  between two awaits, so a request for a stream is two steps, before and after docker is started. The answer of docker, of a measurement and of the
  quote service is an argument, as is \<open>ip_loopback\<close>, the answer of \<^verbatim>\<open>ipaddress\<close>.
\<close>

section \<open>The challenge library\<close>

text \<open>\<open>cdll\<close> is the binding of the file at a path, \<open>None\<close> when it cannot be loaded or an entry point is missing.\<close>

type_synonym lib_cache = "(string \<times> ChallengeLibrary) list"

definition lib_load :: "(string \<Rightarrow> bool) \<Rightarrow> (string \<Rightarrow> ChallengeLibrary option) \<Rightarrow> string \<Rightarrow> lib_cache \<Rightarrow> lib_cache \<times> ChallengeLibrary option" where
  "lib_load is_file cdll path loaded =
     (case map_of loaded path of
        Some library \<Rightarrow> (loaded, Some library)
      | None \<Rightarrow>
          if \<not> is_file path then (loaded, None)
          else (case cdll path of None \<Rightarrow> (loaded, None) | Some library \<Rightarrow> (AList.update path library loaded, Some library)))"

definition lib_installed :: "(string \<Rightarrow> bool) \<Rightarrow> (string \<Rightarrow> ChallengeLibrary option) \<Rightarrow> string \<Rightarrow> lib_cache \<Rightarrow> lib_cache \<times> bool" where
  "lib_installed is_file cdll path loaded = (case lib_load is_file cdll path loaded of (loaded', library) \<Rightarrow> (loaded', library \<noteq> None))"

definition lib_describe :: "(string \<Rightarrow> bool) \<Rightarrow> (string \<Rightarrow> ChallengeLibrary option) \<Rightarrow> string \<Rightarrow> lib_cache \<Rightarrow> lib_cache \<times> pydict" where
  "lib_describe is_file cdll path loaded =
     (case lib_load is_file cdll path loaded of
        (loaded', None) \<Rightarrow> (loaded', [(''installed'', PBool False), (''path'', PStr path)])
      | (loaded', Some library) \<Rightarrow>
          (loaded', [(''installed'', PBool True), (''path'', PStr path), (''build'', PStr (cl_build library)), (''version'', PInt (cl_version library))]))"

section \<open>Views that only read\<close>

definition LOOPBACK :: "string list" where "LOOPBACK = [''127.0.0.1'', ''::1'', ''localhost'', ''::ffff:127.0.0.1'']"

definition is_loopback :: "(string \<Rightarrow> bool option) \<Rightarrow> string \<Rightarrow> bool" where
  "is_loopback ip_loopback peer = (peer \<noteq> [] \<and> (peer \<in> set LOOPBACK \<or> ip_loopback peer = Some True))"

record AgentView =
  av_runtime :: Runtime
  av_version :: string
  av_rig_id :: string
  av_image :: string
  av_draining :: bool
  av_library :: bool

definition version_view :: "AgentView \<Rightarrow> pydict" where
  "version_view v =
     [(''version'', PStr (av_version v)), (''protocol'', PInt PROTOCOL), (''rig_id'', PStr (av_rig_id v)), (''image'', PStr (av_image v)),
      (''draining'', PBool (av_draining v)), (''challenge_library'', PBool (av_library v))]"

definition get_version :: "keypair_verify \<Rightarrow> (string \<Rightarrow> bool option) \<Rightarrow> string \<Rightarrow> HttpRequest \<Rightarrow> rat \<Rightarrow> AgentView \<Rightarrow> http_error + pydict" where
  "get_version kp_verify ip_loopback peer rq now v =
     (if is_loopback ip_loopback peer then Inr (version_view v)
      else (case require_validator kp_verify rq now (av_runtime v) of Inl e \<Rightarrow> Inl e | Inr _ \<Rightarrow> Inr (version_view v)))"

definition post_ping :: "keypair_verify \<Rightarrow> HttpRequest \<Rightarrow> rat \<Rightarrow> AgentView \<Rightarrow> http_error + pydict" where
  "post_ping kp_verify rq now v =
     (case require_validator kp_verify rq now (av_runtime v) of
        Inl e \<Rightarrow> Inl e
      | Inr _ \<Rightarrow> Inr [(''ok'', PBool True), (''rig_id'', PStr (av_rig_id v)), (''version'', PStr (av_version v)),
                     (''draining'', PBool (av_draining v)), (''at'', PFloat (py_round_to 3 now))])"

text \<open>The outcome of a measurement in the pool.\<close>

datatype 'a measurement = Measured 'a | TooBusy | TooLate

definition of_pool :: "string \<Rightarrow> string \<Rightarrow> 'a measurement \<Rightarrow> http_error + 'a" where
  "of_pool stage seconds m =
     (case m of
        Measured x \<Rightarrow> Inr x
      | TooBusy \<Rightarrow> Inl (503, stage @ '': too many measurements in flight'')
      | TooLate \<Rightarrow> Inl (504, stage @ '': no answer within '' @ seconds @ ''s''))"

definition post_utilisation :: "keypair_verify \<Rightarrow> pydict measurement \<Rightarrow> HttpRequest \<Rightarrow> rat \<Rightarrow> AgentView \<Rightarrow> http_error + pydict" where
  "post_utilisation kp_verify m rq now v =
     (case require_validator kp_verify rq now (av_runtime v) of Inl e \<Rightarrow> Inl e | Inr _ \<Rightarrow> of_pool ''utilisation'' ''8'' m)"

definition stats_answer :: "pydict \<Rightarrow> http_error + pydict" where
  "stats_answer view =
     (case map_of view ''error'' of
        None \<Rightarrow> Inr view
      | Some e \<Rightarrow> Inl (if dget view ''code'' PNone \<noteq> PInt 124 then 404 else 504, py_str e))"

definition container_utilisation :: "keypair_verify \<Rightarrow> pydict measurement \<Rightarrow> string \<Rightarrow> HttpRequest \<Rightarrow> rat \<Rightarrow> AgentView \<Rightarrow> http_error + pydict" where
  "container_utilisation kp_verify m name rq now v =
     (case require_validator kp_verify rq now (av_runtime v) of
        Inl e \<Rightarrow> Inl e
      | Inr _ \<Rightarrow>
          if \<not> valid_name name then Inl (422, ''invalid container name'')
          else (case of_pool ''container_stats'' ''12'' m of Inl e \<Rightarrow> Inl e | Inr view \<Rightarrow> stats_answer view))"

section \<open>The logs of a container\<close>

definition LOG_STREAMS :: int where "LOG_STREAMS = 10"
definition TAIL_MAX :: int where "TAIL_MAX = 500"
definition STREAM_SECONDS :: rat where "STREAM_SECONDS = 300"

definition logs_args :: "string \<Rightarrow> int \<Rightarrow> bool \<Rightarrow> string list" where
  "logs_args name tail follow = [''docker'', ''logs'', ''--tail'', show_int tail] @ (if follow then [''--follow''] else []) @ [name]"

text \<open>What the handler checks before it starts docker: the query, the signature and the name.\<close>

definition logs_check :: "keypair_verify \<Rightarrow> string \<Rightarrow> int \<Rightarrow> HttpRequest \<Rightarrow> rat \<Rightarrow> AgentView \<Rightarrow> http_error option" where
  "logs_check kp_verify name tail rq now v =
     (case require_validator kp_verify rq now (av_runtime v) of
        Inl e \<Rightarrow> Some e
      | Inr _ \<Rightarrow>
          if \<not> (1 \<le> tail \<and> tail \<le> TAIL_MAX) then Some (422, ''Unprocessable Entity'')
          else if \<not> valid_name name then Some (422, ''invalid container name'') else None)"

text \<open>Without following: docker's exit code and output, \<open>None\<close> when it takes longer than the limit.\<close>

definition container_logs ::
  "keypair_verify \<Rightarrow> (string list \<Rightarrow> (int \<times> string) option) \<Rightarrow> string \<Rightarrow> int \<Rightarrow> HttpRequest \<Rightarrow> rat \<Rightarrow> AgentView \<Rightarrow> http_error + string" where
  "container_logs kp_verify docker name tail rq now v =
     (case logs_check kp_verify name tail rq now v of
        Some e \<Rightarrow> Inl e
      | None \<Rightarrow>
          (case docker (logs_args name tail False) of
             None \<Rightarrow> Inl (504, ''docker logs timed out'')
           | Some (code, out) \<Rightarrow> if code \<noteq> 0 then Inl (404, str_or (last_chars 300 (strip out)) ''container not found'') else Inr out))"

text \<open>Followed: the lines a stream sends, from the clock at each turn of its loop and what the read of that turn gives (\<open>None\<close>: nothing
  before the deadline; the empty line: the end of the output).\<close>

fun stream_body :: "rat \<Rightarrow> (rat \<times> string option) list \<Rightarrow> string list" where
  "stream_body deadline [] = []"
| "stream_body deadline ((now, got) # turns) =
     (if deadline - now \<le> 0 then []
      else (case got of None \<Rightarrow> [] | Some line \<Rightarrow> if line = [] then [] else line # stream_body deadline turns))"

text \<open>The counter of open streams over the requests of the agent. A request that passed \<open>logs_check\<close> looks at the counter, then waits for docker to
  start and counts itself only afterwards; the end of a stream gives its place back and kills its process. A number
  stands for one request, and an event that does not apply to it changes nothing.\<close>

record LogStreams =
  ls_active :: int
  ls_starting :: "nat list"
  ls_running :: "nat list"

datatype stream_event = LogsAsked nat | LogsStarted nat | LogsFailed nat | LogsEnded nat

definition log_streams_init :: LogStreams where "log_streams_init = \<lparr>ls_active = 0, ls_starting = [], ls_running = []\<rparr>"

fun log_step :: "LogStreams \<Rightarrow> stream_event \<Rightarrow> LogStreams" where
  "log_step s (LogsAsked r) =
     (if LOG_STREAMS \<le> ls_active s \<or> r \<in> set (ls_starting s) \<union> set (ls_running s) then s else s\<lparr>ls_starting := r # ls_starting s\<rparr>)"
| "log_step s (LogsStarted r) =
     (if r \<in> set (ls_starting s)
      then s\<lparr>ls_active := ls_active s + 1, ls_starting := remove1 r (ls_starting s), ls_running := r # ls_running s\<rparr> else s)"
| "log_step s (LogsFailed r) = s\<lparr>ls_starting := remove1 r (ls_starting s)\<rparr>"
| "log_step s (LogsEnded r) =
     (if r \<in> set (ls_running s) then s\<lparr>ls_active := ls_active s - 1, ls_running := remove1 r (ls_running s)\<rparr> else s)"

section \<open>The readers behind the attestation\<close>

definition BOOT_ID :: string where "BOOT_ID = ''/proc/sys/kernel/random/boot_id''"
definition QUOTE_PATHS :: "string list" where "QUOTE_PATHS = [''/GetQuote'', ''/prpc/Tappd.TdxQuote?json'']"

definition boot_id :: "System \<Rightarrow> string" where
  "boot_id sy = read_text sy BOOT_ID 64"

definition attest_hostname :: "System \<Rightarrow> string" where
  "attest_hostname sy = str_or (read_text sy (host_path sy ''/etc/hostname'') 256) (sy_hostname sy)"

text \<open>\<open>post\<close>: the status and the text the service behind the socket answers, \<open>None\<close> for an exception. An answer that is no JSON raises too, and the
  loop over the paths takes every exception for an empty quote.\<close>

type_synonym quote_post = "string \<Rightarrow> pydict \<Rightarrow> (int \<times> string) option"

definition quote_request :: "(string \<Rightarrow> pyval option) \<Rightarrow> quote_post \<Rightarrow> string \<Rightarrow> pydict \<Rightarrow> string option" where
  "quote_request loads post path body =
     (case post path body of
        None \<Rightarrow> None
      | Some (status, raw) \<Rightarrow>
          if status \<noteq> 200 then Some []
          else (case loads raw of
                  None \<Rightarrow> None
                | Some (PDict d) \<Rightarrow> Some (case dget d ''quote'' (PStr []) of PStr q \<Rightarrow> q | _ \<Rightarrow> [])
                | Some _ \<Rightarrow> Some []))"

fun first_quote :: "(string \<Rightarrow> pyval option) \<Rightarrow> quote_post \<Rightarrow> pydict \<Rightarrow> string list \<Rightarrow> string" where
  "first_quote loads post body [] = []"
| "first_quote loads post body (path # paths) =
     (let quote = (case quote_request loads post path body of None \<Rightarrow> [] | Some q \<Rightarrow> q)
      in if quote \<noteq> [] then quote else first_quote loads post body paths)"

definition tdx_quote :: "(string \<Rightarrow> pyval option) \<Rightarrow> quote_post \<Rightarrow> bool \<Rightarrow> nat list \<Rightarrow> string" where
  "tdx_quote loads post socket_exists data =
     (if \<not> socket_exists then []
      else first_quote loads post [(''report_data'', PStr (tohex data)), (''hash_algorithm'', PStr ''raw'')] QUOTE_PATHS)"

text \<open>What \<^verbatim>\<open>build\<close> reads of the machine; the evidence of the vendor's library is a parameter.\<close>

definition read_hardware ::
  "PyNvml \<Rightarrow> System \<Rightarrow> string \<Rightarrow> string option \<Rightarrow> quote_post \<Rightarrow> bool \<Rightarrow> (string \<Rightarrow> pydict) \<Rightarrow> Hardware" where
  "read_hardware p sy version key_file post socket_exists gpu_evidence =
     (case inventory p of (cards, (driver, cuda), _) \<Rightarrow>
       \<lparr>hw_version = version, hw_hostname = attest_hostname sy, hw_gpus = cards, hw_driver = driver, hw_cuda = cuda,
        hw_machine_id = machine_id sy, hw_boot_id = boot_id sy, hw_host_key_file = key_file,
        hw_tdx_quote = tdx_quote (sy_loads sy) post socket_exists, hw_gpu_evidence = gpu_evidence\<rparr>)"

section \<open>Facts\<close>

text \<open>A loaded library stays: later loads of the path give it, whatever happened to the file.\<close>

lemma lib_load_sticky:
  assumes "lib_load is_file cdll path loaded = (loaded', Some library)"
  shows "lib_load is_file' cdll' path loaded' = (loaded', Some library)"
  using assms by (auto simp: lib_load_def AList.update_conv' split: option.splits if_splits)

lemma first_quote_answered:
  "first_quote loads post body paths = q \<Longrightarrow> q \<noteq> [] \<Longrightarrow>
   \<exists>path \<in> set paths. \<exists>raw d. post path body = Some (200, raw) \<and> loads raw = Some (PDict d) \<and> map_of d ''quote'' = Some (PStr q)"
proof (induction paths)
  case (Cons path paths)
  show ?case
  proof (cases "quote_request loads post path body = Some q")
    case True
    then show ?thesis using Cons.prems(2)
      by (auto simp: quote_request_def dget_def split: option.splits if_splits pyval.splits)
  next
    case False
    then have "first_quote loads post body paths = q" using Cons.prems by (auto simp: Let_def split: option.splits if_splits)
    then show ?thesis using Cons.IH Cons.prems(2) by auto
  qed
qed simp

text \<open>The counter counts: it is the number of streams that run.\<close>

definition log_inv :: "LogStreams \<Rightarrow> bool" where
  "log_inv s \<longleftrightarrow> ls_active s = int (length (ls_running s)) \<and> distinct (ls_starting s @ ls_running s)"

lemma remove1_len: "r \<in> set rs \<Longrightarrow> int (length rs - Suc 0) = int (length rs) - 1"
  by (cases rs) auto

interpretation log_streams: machine log_step log_inv
proof
  fix s e assume "log_inv s"
  then show "log_inv (log_step s e)"
    by (cases e) (auto simp: log_inv_def length_remove1 remove1_len)
qed

lemma log_inv_init: "log_inv log_streams_init"
  by (simp add: log_inv_def log_streams_init_def)

text \<open>Requests that do not overlap while docker starts.\<close>

fun serial_events :: "stream_event list \<Rightarrow> bool" where
  "serial_events (LogsAsked r # LogsStarted r' # es) = (r = r' \<and> serial_events es)"
| "serial_events (LogsAsked r # LogsFailed r' # es) = (r = r' \<and> serial_events es)"
| "serial_events (LogsEnded r # es) = serial_events es"
| "serial_events [] = True"
| "serial_events _ = False"

lemma serial_bounded:
  "serial_events es \<Longrightarrow> ls_starting s = [] \<Longrightarrow> ls_active s \<le> LOG_STREAMS \<Longrightarrow> ls_active (run_events log_step s es) \<le> LOG_STREAMS"
  by (induction es arbitrary: s rule: serial_events.induct) (auto simp: run_events_def)

lemma asked_all:
  "ls_active s < LOG_STREAMS \<Longrightarrow> distinct rs \<Longrightarrow> set rs \<inter> (set (ls_starting s) \<union> set (ls_running s)) = {} \<Longrightarrow>
   run_events log_step s (map LogsAsked rs) = s\<lparr>ls_starting := rev rs @ ls_starting s\<rparr>"
  by (induction rs arbitrary: s) (auto simp: run_events_def)

lemma started_all:
  "distinct rs \<Longrightarrow> ls_starting s = rs \<Longrightarrow>
   run_events log_step s (map LogsStarted rs) = s\<lparr>ls_active := ls_active s + int (length rs), ls_starting := [], ls_running := rev rs @ ls_running s\<rparr>"
  by (induction rs arbitrary: s) (auto simp: run_events_def)

section \<open>Properties\<close>

text \<open>C39: The limit on log streams holds only for requests that do not overlap: when each request waits for docker to start before the next one
  comes, at most ten streams run; but a request counts itself only after docker has started, so any number of
  requests that come meanwhile pass the check, and any number of streams can run at once.\<close>

theorem log_streams_exceed_limit:
  "\<not> (\<exists>es. serial_events es \<and> LOG_STREAMS < ls_active (run_events log_step log_streams_init es))
   \<and> (\<exists>es. length (ls_running (run_events log_step log_streams_init es)) = n)"
proof
  show "\<not> (\<exists>es. serial_events es \<and> LOG_STREAMS < ls_active (run_events log_step log_streams_init es))"
    using serial_bounded [of _ log_streams_init] by (force simp: log_streams_init_def LOG_STREAMS_def)
  let ?rs = "[0..<n]"
  have "length (ls_running (run_events log_step log_streams_init (map LogsAsked ?rs @ map LogsStarted (rev ?rs)))) = n"
    using asked_all [of log_streams_init ?rs] started_all [of "rev ?rs"]
    by (simp add: run_events_append log_streams_init_def LOG_STREAMS_def)
  then show "\<exists>es. length (ls_running (run_events log_step log_streams_init es)) = n" by blast
qed



end
