(* ===== verification/Validator_Process.thy ===== *)
theory Validator_Process
  imports Scoring_Weights Act_Trace
begin

text \<open>
  The validator's process (\<^verbatim>\<open>validator/main.py\<close>) and its calls of the pool (\<^verbatim>\<open>validator/pool.py\<close>): registration, the scores
  it collects, the weights it sets, and the release it signs. The pool is a parameter: its answer to a
  request after the requests it has seen. The state holds the identity with its last timestamp, the
  requests sent and the extrinsics handed to the chain; the chain's answers are arguments, and the clock
  readings of one operation are one reading.
\<close>

section \<open>The pool client\<close>

type_synonym pool_request = "string \<times> string \<times> pydict option"

datatype pool_http = PoolRaised string | PoolAnswer int string

record ValidatorState =
  va_identity :: Identity
  va_sent :: "pool_request list"
  va_active :: bool
  va_last_weights :: rat
  va_extrinsics :: "(rat \<times> Extrinsic) list"

record PoolEnv =
  pe_now :: rat
  pe_http :: "pool_request list \<Rightarrow> string \<Rightarrow> string \<Rightarrow> (string \<times> string) list \<Rightarrow> string option \<Rightarrow> (string \<times> string) list \<Rightarrow> pool_http"
  pe_dumps :: "pydict \<Rightarrow> string"
  pe_loads :: "string \<Rightarrow> pyval option"

definition V_VALIDATORS :: string where "V_VALIDATORS = ''/v1/compute/validators''"
definition V_POOL :: string where "V_POOL = ''/v1/pool''"

definition pool_headers :: "PoolEnv \<Rightarrow> string \<Rightarrow> string \<Rightarrow> pydict option \<Rightarrow> bool \<Rightarrow> Identity \<Rightarrow> Identity \<times> (string \<times> string) list" where
  "pool_headers env mthd path body signed i =
     (let base = [(''accept'', ''application/json'')] @ (if body = None then [] else [(''content-type'', ''application/json'')]) in
      if signed
      then (case Identity_headers (pe_now env) mthd path (case body of None \<Rightarrow> [] | Some b \<Rightarrow> pe_dumps env b) i of (i', hs) \<Rightarrow> (i', base @ hs))
      else (i, base))"

text \<open>What an answer means: the JSON in it, or the \<^verbatim>\<open>ServerError\<close> it stands for.\<close>

definition pool_answer :: "PoolEnv \<Rightarrow> string \<Rightarrow> string \<Rightarrow> pool_http \<Rightarrow> exc + pyval" where
  "pool_answer env mthd path answer =
     (case answer of
        PoolRaised text \<Rightarrow> Inl (ServerErr 0 (mthd @ '' '' @ path @ '': '' @ text))
      | PoolAnswer status text \<Rightarrow>
          if 400 \<le> status
          then Inl (ServerErr status (case pe_loads env text of
                 Some (PDict d) \<Rightarrow> py_str (dget d ''detail'' (PStr (take 500 text))) | _ \<Rightarrow> take 500 text))
          else if text = [] then Inr (PDict [])
          else (case pe_loads env text of None \<Rightarrow> Inl (ServerErr status ''response is not JSON'') | Some v \<Rightarrow> Inr v))"

definition pool_call ::
  "PoolEnv \<Rightarrow> string \<Rightarrow> string \<Rightarrow> pydict option \<Rightarrow> (string \<times> string) list \<Rightarrow> bool \<Rightarrow> ('z ValidatorState_scheme, pyval) act" where
  "pool_call env mthd path body params signed = (\<lambda>w.
     (case pool_headers env mthd path body signed (va_identity w) of (i, headers) \<Rightarrow>
        (w\<lparr>va_identity := i, va_sent := va_sent w @ [(mthd, path, body)]\<rparr>,
         pool_answer env mthd path (pe_http env (va_sent w) mthd path params (map_option (pe_dumps env) body) headers))))"

text \<open>\<^verbatim>\<open>dict(value)\<close>: an object or an empty sequence; a sequence of pairs is not among the answers of the pool.\<close>

fun pool_dict :: "pyval \<Rightarrow> pydict pyres" where
  "pool_dict (PDict d) = Inr d"
| "pool_dict (PList []) = Inr []"
| "pool_dict (PStr []) = Inr []"
| "pool_dict _ = Inl TypeError"

definition pool_get :: "PoolEnv \<Rightarrow> string \<Rightarrow> (string \<times> string) list \<Rightarrow> ('z ValidatorState_scheme, pydict) act" where
  "pool_get env path params = bnd (pool_call env ''GET'' path None params True) (\<lambda>v. lift (pool_dict v))"

definition pool_post :: "PoolEnv \<Rightarrow> string \<Rightarrow> pydict \<Rightarrow> ('z ValidatorState_scheme, pydict) act" where
  "pool_post env path body = bnd (pool_call env ''POST'' path (Some body) [] True) (\<lambda>v. lift (pool_dict v))"

definition pool_register :: "PoolEnv \<Rightarrow> string \<Rightarrow> ('z ValidatorState_scheme, pydict) act" where
  "pool_register env label = pool_post env (V_VALIDATORS @ ''/register'') [(''label'', PStr label)]"

definition pool_me :: "PoolEnv \<Rightarrow> ('z ValidatorState_scheme, pydict) act" where
  "pool_me env = pool_get env (V_VALIDATORS @ ''/me'') []"

definition pool_hardware :: "PoolEnv \<Rightarrow> ('z ValidatorState_scheme, pydict) act" where
  "pool_hardware env = pool_get env (V_VALIDATORS @ ''/hardware'') []"

definition pool_rigs :: "PoolEnv \<Rightarrow> bool \<Rightarrow> ('z ValidatorState_scheme, pydict) act" where
  "pool_rigs env due = pool_get env (V_VALIDATORS @ ''/rigs'') (if due then [(''due'', ''true'')] else [])"

definition pool_rig :: "PoolEnv \<Rightarrow> string \<Rightarrow> ('z ValidatorState_scheme, pydict) act" where
  "pool_rig env rig_id = pool_get env (V_VALIDATORS @ ''/rigs/'' @ rig_id) []"

definition pool_command :: "PoolEnv \<Rightarrow> string \<Rightarrow> string \<Rightarrow> pydict \<Rightarrow> ('z ValidatorState_scheme, pydict) act" where
  "pool_command env rig_id kind payload =
     pool_post env (V_VALIDATORS @ ''/rigs/'' @ rig_id @ ''/commands'') [(''kind'', PStr kind), (''payload'', PDict payload)]"

definition pool_command_result :: "PoolEnv \<Rightarrow> int \<Rightarrow> ('z ValidatorState_scheme, pydict) act" where
  "pool_command_result env command_id = pool_get env (V_VALIDATORS @ ''/commands/'' @ show_int command_id) []"

definition pool_verification :: "PoolEnv \<Rightarrow> string \<Rightarrow> pydict \<Rightarrow> ('z ValidatorState_scheme, pydict) act" where
  "pool_verification env rig_id payload = pool_post env (V_VALIDATORS @ ''/rigs/'' @ rig_id @ ''/verifications'') payload"

definition pool_place_job :: "PoolEnv \<Rightarrow> string \<Rightarrow> pydict \<Rightarrow> ('z ValidatorState_scheme, pydict) act" where
  "pool_place_job env rig_id payload = pool_post env (V_VALIDATORS @ ''/rigs/'' @ rig_id @ ''/jobs'') payload"

definition pool_finish_job :: "PoolEnv \<Rightarrow> string \<Rightarrow> string \<Rightarrow> rat \<Rightarrow> ('z ValidatorState_scheme, pydict) act" where
  "pool_finish_job env job_id state revenue_tao =
     pool_post env (V_VALIDATORS @ ''/jobs/'' @ job_id @ ''/finish'') [(''state'', PStr state), (''revenue_tao'', PFloat (max 0 revenue_tao))]"

definition pool_scores :: "PoolEnv \<Rightarrow> ('z ValidatorState_scheme, pydict) act" where
  "pool_scores env = pool_get env (V_VALIDATORS @ ''/scores'') []"

definition pool_release :: "PoolEnv \<Rightarrow> string \<Rightarrow> int \<Rightarrow> string \<Rightarrow> ('z ValidatorState_scheme, pydict) act" where
  "pool_release env digest timestamp signature =
     pool_post env (V_VALIDATORS @ ''/release'') [(''digest'', PStr digest), (''timestamp'', PInt timestamp), (''signature'', PStr signature)]"

text \<open>What iterating over a value gives.\<close>

fun iter_items :: "pyval \<Rightarrow> pyval list pyres" where
  "iter_items (PList xs) = Inr xs"
| "iter_items (PStr s) = Inr (map (\<lambda>c. PStr [c]) s)"
| "iter_items (PDict d) = Inr (map (\<lambda>e. PStr (fst e)) d)"
| "iter_items _ = Inl TypeError"

definition pool_validators :: "PoolEnv \<Rightarrow> ('z ValidatorState_scheme, string list) act" where
  "pool_validators env =
     bnd (pool_call env ''GET'' (V_POOL @ ''/validators'') None [] False) (\<lambda>v.
       lift (rbind (attr_get v ''validators'' PNone) (\<lambda>x. rbind (iter_items (py_or x (PList []))) (\<lambda>xs. Inr (map py_str xs)))))"

definition pool_agent_release :: "PoolEnv \<Rightarrow> ('z ValidatorState_scheme, pydict) act" where
  "pool_agent_release env = bnd (pool_call env ''GET'' (V_POOL @ ''/agent-release'') None [] False) (\<lambda>v. lift (pool_dict v))"

section \<open>The process\<close>

record ValidatorSettings =
  vcfg_label :: string
  vcfg_min_driver :: string
  vcfg_cutoff_passed :: bool
  vcfg_reserve_uid :: "int option"
  vcfg_held_share :: rat
  vcfg_weights_seconds :: rat
  vcfg_set_weights :: bool
  vcfg_netuid :: int
  vcfg_mechanism_id :: "int option"

record ChainEnv =
  chain_uid_of :: "string \<Rightarrow> int option"
  chain_version :: int
  chain_receipt :: "Extrinsic \<Rightarrow> string"
  chain_fails :: bool

record ScoreEnv =
  se_parse_iso :: "string \<Rightarrow> rat option"
  se_demand :: "DemandWeights option"
  se_ledger :: "ledger option"

definition ensure_registered :: "PoolEnv \<Rightarrow> ValidatorSettings \<Rightarrow> ('z ValidatorState_scheme, bool) act" where
  "ensure_registered env cfg =
     bnd (attempt (pool_me env) (\<lambda>e.
            case e of
              ServerErr status detail \<Rightarrow>
                if status \<in> {401, 403, 404}
                then bnd (gets (\<lambda>w. id_hotkey (va_identity w))) (\<lambda>hotkey. pool_register env (str_or (vcfg_label cfg) (take 12 hotkey)))
                else raise e
            | _ \<Rightarrow> raise e)) (\<lambda>me.
       (let active = (py_str (dget me ''state'' (PStr [])) = ''active'') in
        bnd (modify (\<lambda>w. w\<lparr>va_active := active\<rparr>)) (\<lambda>_. ret active)))"

text \<open>A round of \<^verbatim>\<open>wait_active\<close>: whether the wait is over.\<close>

definition wait_active_round :: "PoolEnv \<Rightarrow> ValidatorSettings \<Rightarrow> ('z ValidatorState_scheme, bool) act" where
  "wait_active_round env cfg =
     attempt (ensure_registered env cfg) (\<lambda>e. case e of ServerErr status detail \<Rightarrow> ret False | _ \<Rightarrow> raise e)"

definition active_hotkeys :: "pydict list \<Rightarrow> string list" where
  "active_hotkeys rigs =
     remdups (map (\<lambda>rig. py_str (dget rig ''hotkey'' (PStr [])))
       (filter (\<lambda>rig. truthy (dget rig ''online'' PNone) \<and> truthy (dget rig ''hotkey'' PNone)) rigs))"

definition scores_by_hotkey ::
  "PoolEnv \<Rightarrow> ValidatorSettings \<Rightarrow> ScoreEnv \<Rightarrow> ('z ValidatorState_scheme, (string \<times> rat) list \<times> string \<times> string list) act" where
  "scores_by_hotkey env cfg senv =
     bnd (pool_rigs env False) (\<lambda>roster.
     bnd (lift (iter_items (py_or (dget roster ''rigs'' PNone) (PList [])))) (\<lambda>items.
     (let rigs = dicts_of items in
      bnd (attempt (bnd (pool_scores env) (\<lambda>s. ret (Some s))) (\<lambda>e. case e of ServerErr status detail \<Rightarrow> ret None | _ \<Rightarrow> raise e)) (\<lambda>server_scores.
      bnd (lift (compute_scores (se_parse_iso senv) server_scores rigs (se_demand senv) (se_ledger senv)
                  (vcfg_min_driver cfg) (vcfg_cutoff_passed cfg) (pe_now env))) (\<lambda>(scores, origin).
        ret (scores, origin, active_hotkeys rigs))))))"

definition chain_submit ::
  "PoolEnv \<Rightarrow> ValidatorSettings \<Rightarrow> ChainEnv \<Rightarrow> (string \<times> rat) list \<Rightarrow> string list \<Rightarrow> bool \<Rightarrow> ('z ValidatorState_scheme, pydict) act" where
  "chain_submit env cfg cenv scores active dry_run =
     (case submit (chain_uid_of cenv) (chain_version cenv) (chain_receipt cenv) (vcfg_netuid cfg) (vcfg_mechanism_id cfg) scores active
             (vcfg_reserve_uid cfg) (vcfg_held_share cfg) dry_run of (outcome, call) \<Rightarrow>
        if chain_fails cenv then raise (RuntimeErr [])
        else bnd (modify (\<lambda>w. w\<lparr>va_extrinsics := va_extrinsics w @ (case call of None \<Rightarrow> [] | Some x \<Rightarrow> [(pe_now env, x)])\<rparr>)) (\<lambda>_. ret outcome))"

definition set_weights_once ::
  "PoolEnv \<Rightarrow> ValidatorSettings \<Rightarrow> ScoreEnv \<Rightarrow> ChainEnv \<Rightarrow> bool \<Rightarrow> ('z ValidatorState_scheme, pydict) act" where
  "set_weights_once env cfg senv cenv dry_run =
     bnd (scores_by_hotkey env cfg senv) (\<lambda>(scores, origin, active).
       if scores = []
       then ret [(''submitted'', PBool False), (''dry_run'', PBool dry_run), (''origin'', PStr origin), (''reason'', PStr ''no scores yet'')]
       else bnd (chain_submit env cfg cenv scores active dry_run) (\<lambda>outcome.
         (let outcome1 = AList.update ''origin'' (PStr origin) outcome in
          ret (if vcfg_reserve_uid cfg = None \<and> 0 < vcfg_held_share cfg
               then AList.update ''note'' (PStr ''held share not routed: CV_RESERVE_UID is unset, shares renormalised over miners'') outcome1
               else outcome1))))"

text \<open>A turn of \<^verbatim>\<open>weights_loop\<close>, with the time at its end. Every exception is logged.\<close>

definition weights_turn ::
  "PoolEnv \<Rightarrow> ValidatorSettings \<Rightarrow> ScoreEnv \<Rightarrow> ChainEnv \<Rightarrow> rat \<Rightarrow> ('z ValidatorState_scheme, unit) act" where
  "weights_turn env cfg senv cenv later =
     bnd (gets va_last_weights) (\<lambda>last.
       if vcfg_weights_seconds cfg \<le> pe_now env - last
       then bnd (attempt (bnd (set_weights_once env cfg senv cenv False) (\<lambda>_. ret ())) (\<lambda>e. ret ())) (\<lambda>_.
            modify (\<lambda>w. w\<lparr>va_last_weights := later\<rparr>))
       else ret ())"

fun weights_loop ::
  "ValidatorSettings \<Rightarrow> (PoolEnv \<times> ScoreEnv \<times> ChainEnv \<times> rat) list \<Rightarrow> 'z ValidatorState_scheme \<Rightarrow> 'z ValidatorState_scheme" where
  "weights_loop cfg [] w = w"
| "weights_loop cfg ((env, senv, cenv, later) # turns) w =
     (if vcfg_set_weights cfg then weights_loop cfg turns (fst (weights_turn env cfg senv cenv later w)) else w)"

definition sign_release :: "PoolEnv \<Rightarrow> string \<Rightarrow> ('z ValidatorState_scheme, pydict) act" where
  "sign_release env digest =
     bnd (gets va_identity) (\<lambda>i.
       (let timestamp = py_trunc (pe_now env) in
        pool_release env digest timestamp (Identity_sign i (release_message digest timestamp))))"

section \<open>Facts\<close>

interpretation chain: frame "\<lambda>w. (va_extrinsics w, va_last_weights w)" .

lemma chain_keeps_call: "chain.leaves (pool_call env mthd path body params signed)"
  by (simp add: chain.leaves_def pool_call_def case_prod_beta)

lemma chain_keeps_get: "chain.leaves (pool_get env path params)"
  unfolding pool_get_def by (intro chain.leaves_rules chain_keeps_call)

lemma chain_keeps_scores: "chain.leaves (scores_by_hotkey env cfg senv)"
  unfolding scores_by_hotkey_def pool_rigs_def pool_scores_def Let_def
  by (auto intro!: chain.leaves_rules chain_keeps_get simp: case_prod_beta split: exc.split)

text \<open>A round hands at most one extrinsic to the chain, never in a dry run.\<close>

lemma set_weights_extrinsics:
  assumes "set_weights_once env cfg senv cenv dry_run w = (w', r)"
  shows "va_last_weights w' = va_last_weights w
    \<and> (\<exists>xs. va_extrinsics w' = va_extrinsics w @ xs \<and> length xs \<le> 1 \<and> (\<forall>x \<in> set xs. fst x = pe_now env) \<and> (dry_run \<longrightarrow> xs = []))"
proof -
  obtain w1 r1 where s: "scores_by_hotkey env cfg senv w = (w1, r1)" by fastforce
  with chain.leavesD [OF chain_keeps_scores this] have k: "va_extrinsics w1 = va_extrinsics w" "va_last_weights w1 = va_last_weights w" by auto
  show ?thesis
  proof (cases r1)
    case (Inl e)
    then show ?thesis using assms s k by (simp add: set_weights_once_def bnd_def)
  next
    case (Inr v)
    obtain scores origin active where v: "v = (scores, origin, active)" by (cases v) auto
    obtain outcome call where c: "submit (chain_uid_of cenv) (chain_version cenv) (chain_receipt cenv) (vcfg_netuid cfg) (vcfg_mechanism_id cfg) scores active
             (vcfg_reserve_uid cfg) (vcfg_held_share cfg) dry_run = (outcome, call)" by fastforce
    have d: "dry_run \<Longrightarrow> call = None" using c by (auto simp: submit_def Let_def split: prod.splits if_splits)
    show ?thesis using assms s k Inr v c d
      by (auto simp: set_weights_once_def bnd_def chain_submit_def Let_def split: if_splits option.splits)
  qed
qed

lemma weights_turn_extrinsics:
  assumes "weights_turn env cfg senv cenv later w = (w', r)"
  shows "(w' = w \<and> pe_now env - va_last_weights w < vcfg_weights_seconds cfg)
    \<or> (vcfg_weights_seconds cfg \<le> pe_now env - va_last_weights w \<and> va_last_weights w' = later
       \<and> (\<exists>xs. va_extrinsics w' = va_extrinsics w @ xs \<and> length xs \<le> 1 \<and> (\<forall>x \<in> set xs. fst x = pe_now env)))"
proof (cases "vcfg_weights_seconds cfg \<le> pe_now env - va_last_weights w")
  case True
  obtain w1 r1 where s: "set_weights_once env cfg senv cenv False w = (w1, r1)" by fastforce
  show ?thesis using assms True s set_weights_extrinsics [OF s]
    by (cases r1) (auto simp: weights_turn_def bnd_def attempt_def)
next
  case False
  then show ?thesis using assms by (auto simp: weights_turn_def bnd_def)
qed

text \<open>The times in a list, each at least \<open>gap\<close> after the one before.\<close>

fun spaced :: "rat \<Rightarrow> rat list \<Rightarrow> bool" where
  "spaced gap (a # b # ts) = (a + gap \<le> b \<and> spaced gap (b # ts))"
| "spaced gap ts = True"

lemma spaced_snoc: "spaced gap (ts @ [t]) \<longleftrightarrow> spaced gap ts \<and> (ts \<noteq> [] \<longrightarrow> last ts + gap \<le> t)"
  by (induction gap ts rule: spaced.induct) auto

lemma weights_loop_spaced:
  assumes "\<forall>(env, senv, cenv, later) \<in> set turns. pe_now env \<le> later"
    and "spaced (vcfg_weights_seconds cfg) (map fst (va_extrinsics w))"
    and "va_extrinsics w \<noteq> [] \<longrightarrow> fst (last (va_extrinsics w)) \<le> va_last_weights w"
    and "0 \<le> vcfg_weights_seconds cfg"
  shows "spaced (vcfg_weights_seconds cfg) (map fst (va_extrinsics (weights_loop cfg turns w)))"
  using assms(1-3)
proof (induction turns arbitrary: w)
  case (Cons t turns)
  obtain env senv cenv later where t: "t = (env, senv, cenv, later)" by (cases t) auto
  obtain w1 r where w1: "weights_turn env cfg senv cenv later w = (w1, r)" by fastforce
  have le: "pe_now env \<le> later" using Cons.prems(1) t by auto
  have "spaced (vcfg_weights_seconds cfg) (map fst (va_extrinsics w1)) \<and> (va_extrinsics w1 \<noteq> [] \<longrightarrow> fst (last (va_extrinsics w1)) \<le> va_last_weights w1)"
    using weights_turn_extrinsics [OF w1]
  proof (elim disjE conjE exE)
    assume "w1 = w"
    then show ?thesis using Cons.prems by simp
  next
    fix xs
    assume due: "vcfg_weights_seconds cfg \<le> pe_now env - va_last_weights w" and l: "va_last_weights w1 = later"
      and xs: "va_extrinsics w1 = va_extrinsics w @ xs" "length xs \<le> 1" "\<forall>x \<in> set xs. fst x = pe_now env"
    then consider "xs = []" | x where "xs = [(pe_now env, x)]" by (cases xs) auto
    then show ?thesis
    proof cases
      case 1
      then show ?thesis using Cons.prems(2,3) xs(1) due l le assms(4) by force
    next
      case 2
      then show ?thesis using Cons.prems(2,3) xs(1) due l le by (auto simp: spaced_snoc last_map)
    qed
  qed
  then show ?case using Cons w1 t by auto
qed simp


section \<open>Properties\<close>


definition demo_pool_view :: pyval where
  "demo_pool_view = PDict [(''rigs'', PList [PDict [(''hotkey'', PStr ''5A''), (''online'', PBool True)]]), (''epoch'', PInt 3),
     (''weights'', PDict [(''5A'', PFloat 1)])]"

definition demo_pool :: "rat \<Rightarrow> PoolEnv" where
  "demo_pool now = \<lparr>pe_now = now, pe_http = (\<lambda>_ _ _ _ _ _. PoolAnswer 200 ''x''), pe_dumps = (\<lambda>_. ''{}''), pe_loads = (\<lambda>_. Some demo_pool_view)\<rparr>"

definition demo_settings :: ValidatorSettings where
  "demo_settings = \<lparr>vcfg_label = [], vcfg_min_driver = [], vcfg_cutoff_passed = False, vcfg_reserve_uid = None, vcfg_held_share = 0,
     vcfg_weights_seconds = 100, vcfg_set_weights = True, vcfg_netuid = 7, vcfg_mechanism_id = None\<rparr>"

definition demo_turn :: "rat \<Rightarrow> PoolEnv \<times> ScoreEnv \<times> ChainEnv \<times> rat" where
  "demo_turn now = (demo_pool now, \<lparr>se_parse_iso = (\<lambda>_. None), se_demand = None, se_ledger = None\<rparr>,
     \<lparr>chain_uid_of = (\<lambda>_. Some 4), chain_version = 1, chain_receipt = (\<lambda>_. ''h''), chain_fails = False\<rparr>, now)"

definition demo_state :: ValidatorState where
  "demo_state = \<lparr>va_identity = \<lparr>id_hotkey = ''5V'', id_sign = (\<lambda>m. [7]), id_last_stamp = 0\<rparr>, va_sent = [], va_active = True,
     va_last_weights = 0, va_extrinsics = []\<rparr>"

lemma demo_weights: "map fst (va_extrinsics (weights_loop demo_settings [demo_turn 500, demo_turn 530, demo_turn 640] demo_state)) = [500, 640]"
  by code_simp


end
