(* ===== verification/Configs.thy ===== *)
theory Configs
  imports Protocol_Messages Agent_Auth
begin

text \<open>
  The settings of the two processes: \<^verbatim>\<open>validator/config.py\<close> and \<^verbatim>\<open>agent/config.py\<close>. The environment is the argument \<open>env\<close>. A float may be
  infinite or not a number here, since the text of a variable can say so; \<open>parse_iso\<close> stands for \<^verbatim>\<open>datetime.fromisoformat\<close>, with a time without
  a zone taken as UTC.
\<close>

type_synonym environ = "string \<Rightarrow> string option"

section \<open>Floats as Python has them\<close>

datatype pyfloat = Fin rat | Infinite bool | NaN

fun float_less :: "pyfloat \<Rightarrow> pyfloat \<Rightarrow> bool" where
  "float_less (Fin a) (Fin b) = (a < b)"
| "float_less (Fin a) (Infinite neg) = (\<not> neg)"
| "float_less (Infinite neg) (Fin b) = neg"
| "float_less (Infinite a) (Infinite b) = (a \<and> \<not> b)"
| "float_less _ _ = False"

text \<open>\<^verbatim>\<open>max(a, b)\<close> and \<^verbatim>\<open>min(a, b)\<close> keep the first argument unless the second one is strictly beyond it.\<close>

definition float_max :: "pyfloat \<Rightarrow> pyfloat \<Rightarrow> pyfloat" where
  "float_max a b = (if float_less a b then b else a)"

definition float_min :: "pyfloat \<Rightarrow> pyfloat \<Rightarrow> pyfloat" where
  "float_min a b = (if float_less b a then b else a)"

definition float_text :: "string \<Rightarrow> pyfloat pyres" where
  "float_text s =
     (case float_of_str s of
        Inr q \<Rightarrow> Inr (Fin q)
      | Inl NonFinite \<Rightarrow> (case split_sign (strip s) of (sg, body) \<Rightarrow> if lower body = ''nan'' then Inr NaN else Inr (Infinite (sg < 0)))
      | Inl e \<Rightarrow> Inl e)"

section \<open>The validator\<close>

definition TRUE_VALUES :: "string list" where "TRUE_VALUES = [''1'', ''true'', ''yes'', ''on'']"
definition DEFAULT_SERVER_URL :: string where "DEFAULT_SERVER_URL = ''https://api.microtensor.cloud''"
definition DEFAULT_CHAIN_ENDPOINT :: string where "DEFAULT_CHAIN_ENDPOINT = ''wss://entrypoint-finney.opentensor.ai:443''"
definition DEFAULT_STATE_DIR :: string where "DEFAULT_STATE_DIR = ''/var/lib/compute-validator''"
definition DEFAULT_CHALLENGE_LIBRARY :: string where "DEFAULT_CHALLENGE_LIBRARY = ''/usr/lib/libmtverify.so''"
definition DEFAULT_AGENT_LIBRARY :: string where "DEFAULT_AGENT_LIBRARY = ''/usr/lib/libmtchallenge.so''"
definition MASTER_SECRET_ENV :: string where "MASTER_SECRET_ENV = ''CV_VOLUME_MASTER_SECRET''"

definition cv_text :: "environ \<Rightarrow> string \<Rightarrow> string \<Rightarrow> string" where
  "cv_text env name dflt = strip (case env name of None \<Rightarrow> dflt | Some v \<Rightarrow> v)"

definition cv_int :: "environ \<Rightarrow> string \<Rightarrow> int \<Rightarrow> int" where
  "cv_int env name dflt = (case env name of None \<Rightarrow> dflt | Some v \<Rightarrow> (case int_of_str v of Inr n \<Rightarrow> n | Inl _ \<Rightarrow> dflt))"

definition cv_float :: "environ \<Rightarrow> string \<Rightarrow> rat \<Rightarrow> pyfloat" where
  "cv_float env name dflt = (case env name of None \<Rightarrow> Fin dflt | Some v \<Rightarrow> (case float_text v of Inr x \<Rightarrow> x | Inl _ \<Rightarrow> Fin dflt))"

definition cv_bool :: "environ \<Rightarrow> string \<Rightarrow> bool \<Rightarrow> bool" where
  "cv_bool env name dflt = (case env name of None \<Rightarrow> dflt | Some raw \<Rightarrow> lower (strip raw) \<in> set TRUE_VALUES)"

definition cv_optional_int :: "environ \<Rightarrow> string \<Rightarrow> int option" where
  "cv_optional_int env name =
     (let raw = cv_text env name [] in if raw = [] then None else (case int_of_str raw of Inr n \<Rightarrow> Some n | Inl _ \<Rightarrow> None))"

definition cv_list :: "environ \<Rightarrow> string \<Rightarrow> string list" where
  "cv_list env name = filter (\<lambda>i. i \<noteq> []) (map strip (split_on (CHR '','') (case env name of None \<Rightarrow> [] | Some v \<Rightarrow> v)))"

record CvSettings =
  cv_server_url :: string
  cv_label :: string
  cv_hotkey_seed :: string
  cv_hotkey_mnemonic :: string
  cv_wallet_hotkey_file :: string
  cv_network :: string
  cv_netuid :: int
  cv_chain_endpoint :: string
  cv_set_weights :: bool
  cv_weights_seconds :: int
  cv_max_inflight :: int
  cv_per_miner :: int
  cv_ssh_timeout :: int
  cv_check_timeout :: int
  cv_state_dir :: string
  cv_express_seconds :: int
  cv_deep_seconds :: int
  cv_challenge_library :: string
  cv_agent_library :: string
  cv_allow_reference :: bool
  cv_challenge_max_ms :: pyfloat
  cv_reserve_uid :: "int option"
  cv_held_share :: pyfloat
  cv_min_driver_version :: string
  cv_driver_cutoff :: string
  cv_mechanism_id :: "int option"
  cv_volume_secret_set :: bool
  cv_image_allowlist :: "string list"
  cv_signature_window :: int

definition validator_settings :: "environ \<Rightarrow> CvSettings" where
  "validator_settings env =
     \<lparr>cv_server_url = cv_text env ''CV_SERVER_URL'' DEFAULT_SERVER_URL, cv_label = cv_text env ''CV_LABEL'' [],
      cv_hotkey_seed = cv_text env ''CV_HOTKEY_SEED'' [], cv_hotkey_mnemonic = cv_text env ''CV_HOTKEY_MNEMONIC'' [],
      cv_wallet_hotkey_file = cv_text env ''CV_WALLET_HOTKEY_FILE'' [], cv_network = cv_text env ''CV_NETWORK'' ''finney'',
      cv_netuid = cv_int env ''CV_NETUID'' 92, cv_chain_endpoint = cv_text env ''CV_CHAIN_ENDPOINT'' DEFAULT_CHAIN_ENDPOINT,
      cv_set_weights = cv_bool env ''CV_SET_WEIGHTS'' False, cv_weights_seconds = cv_int env ''CV_WEIGHTS_SECONDS'' 3600,
      cv_max_inflight = max 1 (cv_int env ''CV_MAX_INFLIGHT'' 4), cv_per_miner = max 1 (cv_int env ''CV_PER_MINER'' 2),
      cv_ssh_timeout = cv_int env ''CV_SSH_TIMEOUT'' 60, cv_check_timeout = cv_int env ''CV_CHECK_TIMEOUT'' 300,
      cv_state_dir = cv_text env ''CV_STATE_DIR'' DEFAULT_STATE_DIR, cv_express_seconds = max 5 (cv_int env ''CV_EXPRESS_SECONDS'' 30),
      cv_deep_seconds = max 0 (cv_int env ''CV_DEEP_SECONDS'' 0),
      cv_challenge_library = cv_text env ''CV_CHALLENGE_LIBRARY'' DEFAULT_CHALLENGE_LIBRARY,
      cv_agent_library = cv_text env ''CV_AGENT_LIBRARY'' DEFAULT_AGENT_LIBRARY,
      cv_allow_reference = cv_bool env ''CV_ALLOW_REFERENCE_CHALLENGE'' False,
      cv_challenge_max_ms = cv_float env ''CV_CHALLENGE_MAX_MS'' 15000, cv_reserve_uid = cv_optional_int env ''CV_RESERVE_UID'',
      cv_held_share = float_min (float_max (cv_float env ''CV_HELD_SHARE'' (4 / 10)) (Fin 0)) (Fin 1),
      cv_min_driver_version = cv_text env ''CV_MIN_DRIVER_VERSION'' [], cv_driver_cutoff = cv_text env ''CV_DRIVER_CUTOFF'' [],
      cv_mechanism_id = cv_optional_int env ''CV_MECHANISM_ID'', cv_volume_secret_set = (cv_text env MASTER_SECRET_ENV [] \<noteq> []),
      cv_image_allowlist = cv_list env ''CV_IMAGE_ALLOWLIST'', cv_signature_window = 120\<rparr>"

definition driver_cutoff_at :: "(string \<Rightarrow> rat option) \<Rightarrow> CvSettings \<Rightarrow> rat option" where
  "driver_cutoff_at parse_iso s = (if cv_driver_cutoff s = [] then None else parse_iso (cv_driver_cutoff s))"

definition driver_cutoff_passed :: "(string \<Rightarrow> rat option) \<Rightarrow> CvSettings \<Rightarrow> rat \<Rightarrow> bool" where
  "driver_cutoff_passed parse_iso s now = (case driver_cutoff_at parse_iso s of None \<Rightarrow> False | Some cutoff \<Rightarrow> cutoff \<le> now)"

definition cv_path :: "CvSettings \<Rightarrow> string \<Rightarrow> string" where
  "cv_path s name = cv_state_dir s @ ''/'' @ name"

section \<open>The agent\<close>

definition SOCKET_PATH :: string where "SOCKET_PATH = ''/v1/compute/agents/socket''"
definition STATE_SECONDS :: int where "STATE_SECONDS = 30"
definition DEFAULT_SERVER :: string where "DEFAULT_SERVER = ''https://api.microtensor.cloud''"
definition DEFAULT_IMAGE :: string where "DEFAULT_IMAGE = ''ghcr.io/microtensor-io/rig-agent''"

definition rig_int :: "environ \<Rightarrow> string \<Rightarrow> int \<Rightarrow> int" where
  "rig_int env name dflt =
     (case env name of
        None \<Rightarrow> dflt | Some v \<Rightarrow> if v = [] then dflt else (case int_of_str v of Inr n \<Rightarrow> n | Inl _ \<Rightarrow> dflt))"

definition rig_text :: "environ \<Rightarrow> string \<Rightarrow> string \<Rightarrow> string" where
  "rig_text env name dflt =
     (let v = strip (case env name of None \<Rightarrow> [] | Some v \<Rightarrow> v) in if v = [] then dflt else v)"

record RigSettings =
  rg_server_url :: string
  rg_state_dir :: string
  rg_log_dir :: string
  rg_internal_port :: int
  rg_external_port :: int
  rg_ssh_port :: int
  rg_ssh_user :: string
  rg_ssh_home :: string
  rg_ssh_host_key :: string
  rg_public_address :: string
  rg_label :: string
  rg_port_range :: string
  rg_python_path :: string
  rg_root_dir :: string
  rg_image_repository :: string
  rg_image_digest :: string
  rg_compose_file :: string
  rg_env_file :: string
  rg_update_seconds :: int
  rg_refresh_seconds :: int
  rg_challenge_library :: string
  rg_dstack_socket :: string
  rg_nonce_ttl :: rat
  rg_ping_seconds :: int
  rg_state_seconds :: int
  rg_signature_window :: rat
  rg_release_skew :: rat
  rg_grant_sweep :: int

definition rig_settings :: "environ \<Rightarrow> RigSettings" where
  "rig_settings env =
     \<lparr>rg_server_url = rig_text env ''RIG_SERVER_URL'' DEFAULT_SERVER, rg_state_dir = rig_text env ''RIG_STATE_DIR'' ''/var/lib/rig-agent'',
      rg_log_dir = rig_text env ''RIG_LOG_DIR'' ''/var/lib/rig-agent-logs'', rg_internal_port = rig_int env ''RIG_INTERNAL_PORT'' 8800,
      rg_external_port = rig_int env ''RIG_EXTERNAL_PORT'' 8800, rg_ssh_port = rig_int env ''RIG_SSH_PORT'' 2200,
      rg_ssh_user = rig_text env ''RIG_SSH_USER'' ''rig'', rg_ssh_home = rig_text env ''RIG_SSH_HOME'' ''/home/rig'',
      rg_ssh_host_key = rig_text env ''RIG_SSH_HOST_KEY'' ''/etc/ssh/ssh_host_ed25519_key.pub'',
      rg_public_address = rig_text env ''RIG_PUBLIC_ADDRESS'' [], rg_label = rig_text env ''RIG_LABEL'' [],
      rg_port_range = rig_text env ''RIG_PORT_RANGE'' ''40000-40100'', rg_python_path = rig_text env ''RIG_PYTHON'' ''/usr/bin/python3'',
      rg_root_dir = rig_text env ''RIG_ROOT_DIR'' ''/opt/mt-agent'', rg_image_repository = rig_text env ''AGENT_IMAGE'' DEFAULT_IMAGE,
      rg_image_digest = rig_text env ''AGENT_IMAGE_SHA256'' [], rg_compose_file = rig_text env ''RIG_COMPOSE_FILE'' ''/opt/rig-agent/docker-compose.yml'',
      rg_env_file = rig_text env ''RIG_ENV_FILE'' ''/opt/rig-agent/.env'', rg_update_seconds = rig_int env ''RIG_UPDATE_SECONDS'' 300,
      rg_refresh_seconds = rig_int env ''RIG_VALIDATORS_REFRESH_SECONDS'' 300,
      rg_challenge_library = rig_text env ''RIG_CHALLENGE_LIBRARY'' ''/usr/lib/libmtchallenge.so'',
      rg_dstack_socket = rig_text env ''RIG_DSTACK_SOCKET'' ''/var/run/dstack.sock'',
      rg_nonce_ttl = NONCE_TTL_SECONDS, rg_ping_seconds = PING_SECONDS, rg_state_seconds = STATE_SECONDS,
      rg_signature_window = SIGNATURE_WINDOW_SECONDS, rg_release_skew = RELEASE_SKEW_SECONDS, rg_grant_sweep = 60\<rparr>"

definition rg_key_path :: "RigSettings \<Rightarrow> string" where "rg_key_path s = rg_state_dir s @ ''/agent.key''"
definition rg_rig_path :: "RigSettings \<Rightarrow> string" where "rg_rig_path s = rg_state_dir s @ ''/rig.json''"
definition rg_validators_path :: "RigSettings \<Rightarrow> string" where "rg_validators_path s = rg_state_dir s @ ''/validators.json''"
definition rg_prefetch_path :: "RigSettings \<Rightarrow> string" where "rg_prefetch_path s = rg_state_dir s @ ''/prefetch.json''"
definition rg_approvals_dir :: "RigSettings \<Rightarrow> string" where "rg_approvals_dir s = rg_state_dir s @ ''/approvals''"
definition rg_events_path :: "RigSettings \<Rightarrow> string" where "rg_events_path s = rg_log_dir s @ ''/events.jsonl''"
definition rg_authorized_keys :: "RigSettings \<Rightarrow> string" where "rg_authorized_keys s = rg_ssh_home s @ ''/.ssh/authorized_keys''"

definition rg_base_url :: "RigSettings \<Rightarrow> string" where
  "rg_base_url s = rstrip_char (CHR ''/'') (rg_server_url s)"

text \<open>\<^verbatim>\<open>text.split("://", 1)[1]\<close> when the mark occurs.\<close>

fun after_scheme :: "string \<Rightarrow> string option" where
  "after_scheme [] = None"
| "after_scheme (c # cs) = (if prefix ''://'' (c # cs) then Some (drop 3 (c # cs)) else after_scheme cs)"

definition socket_url :: "RigSettings \<Rightarrow> string" where
  "socket_url s =
     (let base = rg_base_url s; scheme = (if startswith base ''https'' then ''wss'' else ''ws'');
          host = (case after_scheme base of None \<Rightarrow> base | Some h \<Rightarrow> h)
      in scheme @ ''://'' @ host @ SOCKET_PATH)"

section \<open>Facts\<close>

lemma held_share_clamped: "float_min (float_max x (Fin 0)) (Fin 1) = NaN \<longleftrightarrow> x = NaN"
  "x \<noteq> NaN \<Longrightarrow> \<exists>q. float_min (float_max x (Fin 0)) (Fin 1) = Fin q \<and> 0 \<le> q \<and> q \<le> 1"
  by (cases x; auto simp: float_min_def float_max_def)+

text \<open>Whatever the environment says, the settings of the validator keep the bounds its loops and the scoring rely on: at least one session in flight and
  one per miner, at least five seconds between express rounds, no negative interval, and a held share between zero and one. The one exception is a held share given as
  \<^verbatim>\<open>nan\<close>: the clamp compares it with both bounds, neither comparison holds, and it is kept.\<close>

theorem settings_bounded:
  "let s = validator_settings env in 1 \<le> cv_max_inflight s \<and> 1 \<le> cv_per_miner s \<and> 5 \<le> cv_express_seconds s \<and> 0 \<le> cv_deep_seconds s
    \<and> (if cv_float env ''CV_HELD_SHARE'' (4 / 10) = NaN then cv_held_share s = NaN else (\<exists>q. cv_held_share s = Fin q \<and> 0 \<le> q \<and> q \<le> 1))"
  using held_share_clamped [of "cv_float env ''CV_HELD_SHARE'' (4 / 10)"] by (simp add: validator_settings_def Let_def held_share_clamped(1))

lemma nan_share_kept: "cv_held_share (validator_settings (\<lambda>n. if n = ''CV_HELD_SHARE'' then Some ''nan'' else None)) = NaN"
proof -
  have "float_text ''nan'' = Inr NaN" by code_simp
  then show ?thesis by (simp add: validator_settings_def cv_float_def float_min_def float_max_def)
qed

lemma rig_text_default: "rig_text env name dflt = dflt \<or> rig_text env name dflt \<noteq> []"
  by (simp add: rig_text_def Let_def)

text \<open>The default settings reach the server over TLS on both channels.\<close>

lemma default_socket_url: "socket_url (rig_settings (\<lambda>_. None)) = ''wss://api.microtensor.cloud'' @ SOCKET_PATH"
proof -
  have "rg_base_url (rig_settings (\<lambda>_. None)) = ''https://api.microtensor.cloud''"
    by (simp add: rg_base_url_def rig_settings_def rig_text_def strip_def lstrip_def rstrip_def DEFAULT_SERVER_def rstrip_char_def)
  moreover have "after_scheme ''https://api.microtensor.cloud'' = Some ''api.microtensor.cloud''" by code_simp
  ultimately show ?thesis by (simp add: socket_url_def Let_def startswith_def)
qed

end
