(* ===== verification/Commands.thy ===== *)
theory Commands
  imports Agent_Process Agent_Hardware Validator_Process
begin

text \<open>
  The commands of the two programs (\<^verbatim>\<open>agent/main.py\<close>, \<^verbatim>\<open>validator/main.py\<close>) after their arguments are parsed: what each does, what it
  prints and the code it exits with; the whole run of the agent around its tasks; the loop of the monitor that reads the kernel log; and the
  registration of a rig with what its own readers found. A file is its JSON, or \<open>None\<close> when it cannot be read or is no JSON. The tasks of
  a run are given by how they ended.
\<close>

section \<open>The agent\<close>

definition log_all :: "(string \<times> pydict) list \<Rightarrow> ('z AgentRuntime_scheme, unit) act" where
  "log_all es = modify (\<lambda>w. w\<lparr>ch_events := ch_events w @ es\<rparr>)"

definition agent_stop :: "int \<Rightarrow> ('z AgentRuntime_scheme, unit) act" where
  "agent_stop code =
     bnd (gets ar_queue) (\<lambda>q.
       rt_event ''agent.stop'' [(''code'', PInt code), (''queue'', PDict (map (\<lambda>(k, n). (k, PInt n)) (queue_snapshot q)))])"

definition agent_run ::
  "AgentConfig \<Rightarrow> ServerClient \<Rightarrow> exc + pydict \<Rightarrow> (exc \<Rightarrow> string) \<Rightarrow> task_end list \<Rightarrow> ('z AgentProcess_scheme, int) act" where
  "agent_run cfg c spec exc_text ended =
     bnd (agent_start cfg c spec exc_text) (\<lambda>refused.
       case refused of
         Some code \<Rightarrow> ret code
       | None \<Rightarrow>
           (let code = agent_exit_code ended in
            bnd (log_all (concat (map task_note ended))) (\<lambda>_. bnd (agent_stop code) (\<lambda>_. ret code))))"

text \<open>The thread of the monitor that reads the kernel log: how each attempt ended, the events it writes and the seconds it waits. \<open>KernelDenied\<close> carries the
  error of the fallback, if it has one.\<close>

datatype kernel_attempt = KernelEnded | KernelDenied "string option" | KernelBroken string

fun kernel_attempt_events :: "kernel_attempt \<Rightarrow> (string \<times> pydict) list \<times> nat" where
  "kernel_attempt_events KernelEnded = ([(''monitor.kmsg.start'', [])], 0)"
| "kernel_attempt_events (KernelDenied fallback) =
     ([(''monitor.kmsg.start'', []), (''monitor.kmsg.fallback'', [(''source'', PStr ''dmesg --follow'')])] @
      (case fallback of
         None \<Rightarrow> []
       | Some e \<Rightarrow> [(''monitor.error'', [(''error'', PStr (''cannot read /dev/kmsg or run dmesg ('' @ e @ ''); SYSLOG capability missing''))])]),
      if fallback = None then 0 else 60)"
| "kernel_attempt_events (KernelBroken e) = ([(''monitor.kmsg.start'', []), (''monitor.error'', [(''error'', PStr (take 200 e))])], 10)"

definition watch_kernel :: "kernel_attempt list \<Rightarrow> (string \<times> pydict) list \<times> nat" where
  "watch_kernel attempts =
     (concat (map (fst \<circ> kernel_attempt_events) attempts), sum_list (map (snd \<circ> kernel_attempt_events) attempts))"

definition or_dash :: "pydict \<Rightarrow> string \<Rightarrow> string" where
  "or_dash d k = py_str (py_or (dget d k (PStr [])) (PStr ''-''))"

definition status_digits :: "int \<Rightarrow> string" where
  "status_digits n = zfill 2 (show_int n)"

definition clock_text :: "rat \<Rightarrow> string" where
  "clock_text t =
     (let s = \<lfloor>t\<rfloor> mod 86400 in status_digits (s div 3600) @ '':'' @ status_digits (s mod 3600 div 60) @ '':'' @ status_digits (s mod 60))"

definition status_record :: "(pyval \<Rightarrow> string) \<Rightarrow> pydict \<Rightarrow> string pyres" where
  "status_record dumps r =
     rbind (py_float (py_or (dget r ''ts'' (PInt 0)) (PInt 0))) (\<lambda>ts. Inr (''  '' @ clock_text ts @ '' '' @ py_str (dget r ''kind'' (PStr [])) @ '' '' @
       take 120 (dumps (PDict (filter (\<lambda>e. fst e \<notin> {''ts'', ''kind''}) r)))))"

text \<open>\<open>live\<close>: what the agent's own \<^verbatim>\<open>/version\<close> answered, or the text of the exception.\<close>

definition status_lines ::
  "(pyval \<Rightarrow> string) \<Rightarrow> string \<Rightarrow> string \<Rightarrow> pyval option \<Rightarrow> string + pydict \<Rightarrow> pydict list \<Rightarrow> string list pyres" where
  "status_lines dumps version key_hex file live records =
     rbind (case file of None \<Rightarrow> Inr [] | Some (PDict d) \<Rightarrow> Inr d | Some _ \<Rightarrow> Inl AttributeError) (\<lambda>saved.
       (let claim = (case dget saved ''claim'' PNone of PDict d \<Rightarrow> d | _ \<Rightarrow> []) in
        rbind (rmap (status_record dumps) records) (\<lambda>tail. Inr (
          [''agent version   '' @ version, ''agent key       '' @ key_hex, ''rig id          '' @ or_dash saved ''rig_id'',
           ''rig state       '' @ or_dash saved ''state'', ''hotkey          '' @ or_dash saved ''hotkey'', ''tier            '' @ or_dash saved ''tier''] @
          (if claim = [] then [] else [''claim           '' @ py_str (dget claim ''state'' (PStr [])) @ '' code '' @ or_dash claim ''code'']) @
          [case live of
             Inl e \<Rightarrow> ''api             down ('' @ e @ '')''
           | Inr d \<Rightarrow> ''api             up, draining='' @ py_str (dget d ''draining'' PNone) @ '', image='' @
                       py_str (py_or (dget d ''image'' PNone) (PStr ''-''))] @ tail))))"

datatype agent_command = AgentVersion | AgentKeys | AgentStatus | AgentApprove string bool | AgentRun | AgentMonitor | AgentHelp

text \<open>The program: the exit code and what it prints. The runs of the agent and of the monitor and the lines of the status are arguments.\<close>

definition agent_main ::
  "string \<Rightarrow> string \<Rightarrow> string list pyres \<Rightarrow> ('z AgentProcess_scheme, int) act \<Rightarrow> ('z AgentProcess_scheme, int) act \<Rightarrow> agent_command
    \<Rightarrow> ('z AgentProcess_scheme, int \<times> string list) act" where
  "agent_main version key_hex status agent monitor cmd =
     (case cmd of
        AgentVersion \<Rightarrow> ret (0, [version])
      | AgentKeys \<Rightarrow> ret (0, [key_hex])
      | AgentStatus \<Rightarrow> bnd (lift status) (\<lambda>ls. ret (0, ls))
      | AgentApprove hotkey deny \<Rightarrow>
          attempt (bnd (record_decision hotkey (\<not> deny)) (\<lambda>_.
              ret (0, [(if deny then ''denial'' else ''approval'') @ '' recorded for '' @ hotkey @ ''; the agent will send it''])))
            (\<lambda>e. case e of ValueErr t \<Rightarrow> ret (2, [t]) | _ \<Rightarrow> raise e)
      | AgentRun \<Rightarrow> bnd agent (\<lambda>code. ret (code, []))
      | AgentMonitor \<Rightarrow> bnd monitor (\<lambda>code. ret (code, []))
      | AgentHelp \<Rightarrow> ret (1, []))"

section \<open>The validator\<close>

datatype validator_command = ValVersion | ValHotkey | ValRegister | ValShow string | ValSignRelease string | ValWeights bool | ValRun | ValHelp

definition weights_code :: "bool \<Rightarrow> pydict \<Rightarrow> int" where
  "weights_code dry_run outcome = (if truthy (dget outcome ''submitted'' PNone) \<or> dry_run then 0 else 1)"

definition validator_action ::
  "PoolEnv \<Rightarrow> ValidatorSettings \<Rightarrow> ScoreEnv \<Rightarrow> ChainEnv \<Rightarrow> (pyval \<Rightarrow> string) \<Rightarrow> ('z ValidatorState_scheme, int) act \<Rightarrow> validator_command
    \<Rightarrow> ('z ValidatorState_scheme, int \<times> string) act" where
  "validator_action env cfg senv cenv dumps endless cmd =
     (case cmd of
        ValHotkey \<Rightarrow> bnd (gets (\<lambda>w. id_hotkey (va_identity w))) (\<lambda>h. ret (0, h))
      | ValRegister \<Rightarrow> bnd (ensure_registered env cfg) (\<lambda>active. ret (0, if active then ''active'' else ''registered, awaiting operator activation''))
      | ValShow what \<Rightarrow> bnd (if what = ''scores'' then pool_scores env else pool_rigs env (what = ''due'')) (\<lambda>d. ret (0, dumps (PDict d)))
      | ValSignRelease digest \<Rightarrow> bnd (sign_release env digest) (\<lambda>d. ret (0, dumps (PDict d)))
      | ValWeights dry_run \<Rightarrow> bnd (set_weights_once env cfg senv cenv dry_run) (\<lambda>d. ret (weights_code dry_run d, dumps (PDict d)))
      | ValRun \<Rightarrow> bnd endless (\<lambda>code. ret (code, []))
      | _ \<Rightarrow> ret (1, []))"

text \<open>\<open>identity\<close>: the error of the key pair, if it cannot be loaded; every command but the two that need none loads it first. \<open>endless\<close> is the
  run of the three schedules.\<close>

definition validator_main ::
  "PoolEnv \<Rightarrow> ValidatorSettings \<Rightarrow> ScoreEnv \<Rightarrow> ChainEnv \<Rightarrow> (pyval \<Rightarrow> string) \<Rightarrow> ('z ValidatorState_scheme, int) act \<Rightarrow> string \<Rightarrow> string option
    \<Rightarrow> validator_command \<Rightarrow> ('z ValidatorState_scheme, int \<times> string) act" where
  "validator_main env cfg senv cenv dumps endless version identity cmd =
     (if cmd = ValVersion then ret (0, version)
      else if cmd = ValHelp then ret (1, [])
      else (case identity of
              Some t \<Rightarrow> ret (2, ''identity: '' @ t)
            | None \<Rightarrow> attempt (validator_action env cfg senv cenv dumps endless cmd)
                (\<lambda>e. case e of ServerErr status detail \<Rightarrow> ret (3, ''server: '' @ show_int status @ '': '' @ detail) | _ \<Rightarrow> raise e)))"

section \<open>Facts\<close>

lemma submit_reports:
  assumes "submit uid_of version receipt netuid mech scores active reserve held dry_run = (outcome, call)"
  shows "map_of outcome ''submitted'' = Some (PBool (call \<noteq> None))"
  using assms by (auto simp: submit_def Let_def case_prod_beta update_conv' split: if_splits)

lemma set_weights_reports:
  assumes "set_weights_once env cfg senv cenv dry_run w = (w', Inr outcome)"
  shows "truthy (dget outcome ''submitted'' PNone) \<longleftrightarrow> va_extrinsics w' \<noteq> va_extrinsics w"
proof -
  obtain w1 r1 where s: "scores_by_hotkey env cfg senv w = (w1, r1)" by fastforce
  with chain.leavesD [OF chain_keeps_scores this] have k: "va_extrinsics w1 = va_extrinsics w" by auto
  obtain scores origin active where r1: "r1 = Inr (scores, origin, active)"
    using assms s by (cases r1) (auto simp: set_weights_once_def bnd_def)
  obtain oc call where c: "submit (chain_uid_of cenv) (chain_version cenv) (chain_receipt cenv) (vcfg_netuid cfg) (vcfg_mechanism_id cfg) scores active
       (vcfg_reserve_uid cfg) (vcfg_held_share cfg) dry_run = (oc, call)" by fastforce
  show ?thesis
    using assms s k r1 c submit_reports [OF c]
    by (auto simp: set_weights_once_def bnd_def chain_submit_def Let_def dget_def update_conv' split: if_splits option.splits)
qed

lemma set_weights_dry: "set_weights_once env cfg senv cenv True w = (w', r) \<Longrightarrow> va_extrinsics w' = va_extrinsics w"
  using set_weights_extrinsics by fastforce

section \<open>Properties\<close>

text \<open>C28: The exit code of the command that sets weights is honest: when it ends with the code 0 and was no dry run, an extrinsic was handed to the chain;
  when it ends with the code 1, none was; and a dry run hands over none whatever it ends with.\<close>

theorem weights_command_honest:
  assumes "validator_main env cfg senv cenv dumps endless version None (ValWeights dry_run) w = (w', Inr (code, out))"
  shows "code \<in> {0, 1, 3} \<and> (code = 0 \<longrightarrow> dry_run \<or> va_extrinsics w' \<noteq> va_extrinsics w) \<and> (code = 1 \<longrightarrow> va_extrinsics w' = va_extrinsics w)
    \<and> (dry_run \<longrightarrow> va_extrinsics w' = va_extrinsics w)"
proof -
  obtain w1 r where s: "set_weights_once env cfg senv cenv dry_run w = (w1, r)" by fastforce
  show ?thesis
  proof (cases r)
    case (Inl e)
    then show ?thesis using assms s set_weights_dry [of env cfg senv cenv w w1]
      by (auto simp: validator_main_def validator_action_def attempt_def bnd_def split: exc.splits)
  next
    case (Inr outcome)
    then have "w' = w1" "code = weights_code dry_run outcome"
      using assms s by (auto simp: validator_main_def validator_action_def attempt_def bnd_def)
    then show ?thesis using s Inr set_weights_reports [of env cfg senv cenv dry_run w w1 outcome] set_weights_dry [of env cfg senv cenv w w1]
      by (auto simp: weights_code_def)
  qed
qed

definition demo_command :: "bool \<Rightarrow> ValidatorState \<times> (exc + int \<times> string)" where
  "demo_command dry_run =
     (case demo_turn 500 of (env, senv, cenv, _) \<Rightarrow> validator_main env demo_settings senv cenv (\<lambda>_. []) (ret 0) [] None (ValWeights dry_run) demo_state)"

theorem weights_command_honest_witness:
  "\<exists>w'. demo_command False = (w', Inr (0, [])) \<and> va_extrinsics w' \<noteq> va_extrinsics demo_state"
proof -
  obtain env senv cenv l where t: "demo_turn 500 = (env, senv, cenv, l)" by (cases "demo_turn 500") auto
  have "snd (demo_command False) = Inr (0, [])" by code_simp
  then have d: "demo_command False = (fst (demo_command False), Inr (0, []))" by (metis prod.collapse)
  then have "validator_main env demo_settings senv cenv (\<lambda>_. []) (ret 0) [] None (ValWeights False) demo_state = (fst (demo_command False), Inr (0, []))"
    by (simp add: demo_command_def t)
  then show ?thesis using weights_command_honest d by blast
qed

text \<open>A rig registers with what it found: the object its own readers build always makes a registration, which never fails for a missing field, with one entry
  a card of the inventory, in order, carrying the card's identifier, model, memory and index, and with everything else they read as the host.\<close>

theorem registration_sends_inventory:
  assumes "spec_build env p sy public_address port_range now st = (st', view)" "inventory p = (cards, versions, error)"
  shows "\<exists>payload. register_payload cfg view = Inr payload
    \<and> dget payload ''gpus'' PNone = PList (map (\<lambda>c. PDict (map (\<lambda>k. (k, dget c k PNone)) [''uuid'', ''model'', ''memory_mb'', ''index''])) cards)
    \<and> dget payload ''host'' PNone = PDict (tl view)
    \<and> (ag_label cfg = [] \<longrightarrow> dget payload ''label'' PNone = PStr (hw_hostname_of sy))"
proof -
  let ?full = "\<lambda>c. PDict (map (\<lambda>k. (k, dget c k PNone)) SPEC_CARD_KEYS)"
  let ?short = "\<lambda>c. PDict (map (\<lambda>k. (k, dget c k PNone)) [''uuid'', ''model'', ''memory_mb'', ''index''])"
  obtain rest where v: "view = (''gpus'', PList (map ?full cards)) # rest" "\<forall>e \<in> set rest. fst e \<noteq> ''gpus''"
    "map_of rest ''hostname'' = Some (PStr (hw_hostname_of sy))"
    using assms by (auto simp: spec_build_def Let_def case_prod_beta)
  have r: "rmap register_card (map ?full cards) = Inr (map ?short cards)"
    by (induction cards) (simp_all add: register_card_def required_def SPEC_CARD_KEYS_def)
  have f: "filter (\<lambda>e. fst e \<noteq> ''gpus'') rest = rest" using v(2) by (auto intro: filter_True)
  have "\<exists>more. register_payload cfg view = Inr ([(''gpus'', PList (map ?short cards)), (''host'', PDict rest)] @ more)
      \<and> map_of more ''label'' = Some (PStr (str_or (ag_label cfg) (hw_hostname_of sy)))"
    unfolding v(1) using r by (simp add: register_payload_def view_cards_def required_def f dget_def [of _ "''hostname''"] v(3))
  then show ?thesis unfolding v(1) by (auto simp: dget_def [of _ "''gpus''"] dget_def [of _ "''host''"] dget_def [of _ "''label''"] str_or_def)
qed

definition demo_register_config :: AgentConfig where
  "demo_register_config = \<lparr>ag_external_port = 8800, ag_ssh_port = 2200, ag_label = [], ag_version = ''0.2.0'', ag_key_hex = ''00'', ag_refresh_seconds = 300\<rparr>"

definition demo_view :: pydict where
  "demo_view = snd (spec_build \<lparr>he_psutil_cpus = None, he_psutil_ram = None, he_socket = None, he_version = ''0.2.0''\<rparr> wit_pynvml bare_system [] ''40000-40100'' 5 hw_cache_init)"

theorem registration_sends_inventory_witness:
  "\<exists>payload. register_payload demo_register_config demo_view = Inr payload \<and> dget payload ''host'' PNone = PDict (tl demo_view)"
proof -
  obtain cards versions error where i: "inventory wit_pynvml = (cards, versions, error)" by (cases "inventory wit_pynvml") auto
  obtain st' where s: "spec_build \<lparr>he_psutil_cpus = None, he_psutil_ram = None, he_socket = None, he_version = ''0.2.0''\<rparr> wit_pynvml bare_system [] ''40000-40100'' 5 hw_cache_init = (st', demo_view)"
    unfolding demo_view_def by (metis prod.collapse)
  show ?thesis using registration_sends_inventory [OF s i, of demo_register_config] by blast
qed

end
