(* ===== verification/Spec2Isabelle.thy ===== *)
theory Spec2Isabelle
  imports Py_Shell Protocol_Failures Protocol_Messages Protocol_Attestation Data_Gpu_Table Scoring_Weights
    Agent_Access Identities Agent_Auth Agent_Grants Agent_Store Agent_Routes Session_Core Verify_Digest
    Verify_Challenge Verify_Scrape Work_Placement Work_Recovery Work_Drain Schedule_Express Schedule_Deep
    Rig_Challenge Rig_Answer Rig_Reports Agent_Process Agent_Updater Agent_Hardware Agent_Views Validator_Process Storage_Keys
    Configs Commands "HOL-Library.Countable"
begin

text \<open>
  Verification of \<^verbatim>\<open>microtensor-compute\<close>: an agent that runs on a GPU machine (a rig) and a validator that
  opens SSH sessions to rigs, verifies them, places work on them and submits weights to a chain.

  \<^bold>\<open>Parts and how they interact.\<close> The validator signs a request (\<^verbatim>\<open>validator/identity.py\<close>) and sends it to the
  agent (\<^verbatim>\<open>validator/session/client.py\<close>); the agent authenticates it (\<^verbatim>\<open>agent/api/auth.py\<close>), installs the
  validator's key for a limited time (\<^verbatim>\<open>agent/access\<close>) and answers with a grant and an attestation
  (\<^verbatim>\<open>protocol\<close>). Over the session the validator runs commands (\<^verbatim>\<open>validator/session/ssh.py\<close>), checks the rig
  (\<^verbatim>\<open>validator/verify\<close>), starts and stops containers (\<^verbatim>\<open>validator/work\<close>, \<^verbatim>\<open>validator/storage\<close>,
  \<^verbatim>\<open>validator/recovery\<close>), and turns what it observed into scores and weights (\<^verbatim>\<open>validator/scoring\<close>). Two
  schedules drive the checks (\<^verbatim>\<open>validator/schedule\<close>). The agent keeps a socket to the pool over which commands
  reach it (\<^verbatim>\<open>agent/control\<close>), watches its containers and the kernel log (\<^verbatim>\<open>agent/monitor\<close>), fetches images ahead
  of the work (\<^verbatim>\<open>agent/cache\<close>) and replaces itself by a release a validator signed (\<^verbatim>\<open>agent/updater\<close>).

  \<^bold>\<open>Theories.\<close>
  \<^item> \<open>Py_Prelude\<close>, \<open>Py_Text\<close>, \<open>Py_Shell\<close>: the part of Python the sources use: dynamic values, dictionaries
    in insertion order, exceptions as sums, string methods, numbers, \<^verbatim>\<open>shlex\<close>, and the reading of a command
    line by a shell.
  \<^item> \<open>Interfaces\<close>: the contracts that several components share, as locales: a codec between a record and its
    wire form, a state machine with an invariant, a machine with a measure that never falls, and a machine
    that refines a more abstract one. \<open>Act_Trace\<close> adds two for computations with effects: \<open>trace\<close>, in which a
    field of the state only grows, and \<open>frame\<close>, in which a view of the state is left alone (\<open>leaves\<close>). Other
    locales stand with their component: \<open>worst_choice\<close>, \<open>key_store\<close>, \<open>weight_redistribution\<close>. Each is
    interpreted on the model of the code, in the theory of the component that provides it.
  \<^item> \<open>Protocol_Failures\<close>, \<open>Protocol_Session\<close>, \<open>Protocol_Messages\<close>, \<open>Protocol_Attestation\<close>: \<^verbatim>\<open>protocol/\<close>. Round
    trips of the messages, unambiguity of the signed texts, what report data binds.
  \<^item> \<open>Data_Tiers\<close>, \<open>Data_Gpu_Table\<close>: \<^verbatim>\<open>validator/data/\<close>. Eligibility and recognition of cards, exactly.
  \<^item> \<open>Scoring_Formula\<close>, \<open>Scoring_Demand\<close>, \<open>Scoring_Reliability\<close>, \<open>Scoring_Weights\<close>: \<^verbatim>\<open>validator/scoring/\<close>.
    Bounds of scores and of counted uptime, the split of emissions, the well-formedness of the submitted
    vector and that the eligibility floor moves weight without creating any.
  \<^item> \<open>Agent_Access\<close>, \<open>Agent_Auth\<close>, \<open>Agent_Grants\<close>, \<open>Agent_Routes\<close>, \<open>Agent_Store\<close>, \<open>Identities\<close>: the agent. When a
    request is accepted, that a nonce works once, what opening, closing and sweeping do to the keys, that
    no handler changes state for an unsigned request, what the queue to the pool may drop.
  \<^item> \<open>Agent_Client\<close>, \<open>Agent_Control\<close>: \<^verbatim>\<open>agent/control/\<close> and \<^verbatim>\<open>agent/hardware/pool.py\<close>. Every command of the pool gets
    one result, whatever its handler does; the decision an operator records is the one that is sent; what
    an unfinished decision file does instead.
  \<^item> \<open>Agent_Monitor\<close>: \<^verbatim>\<open>agent/monitor/\<close>. The pruned list of faults answers as the whole history would (\<open>refines\<close>), so
    a death is blamed on the last fault of the past two minutes and on nothing older.
  \<^item> \<open>Agent_Cache\<close>, \<open>Agent_Updater\<close>: \<^verbatim>\<open>agent/cache/\<close>, \<^verbatim>\<open>agent/updater/\<close>. The state file fits its limit and the oldest
    images go first; an image counts as warm only with the requested digest; only a release signed by an
    active validator is pulled, written to the environment or started.
  \<^item> \<open>Agent_Process\<close>: \<^verbatim>\<open>agent/main.py\<close>. Registration, the start (which ends the sessions of an earlier run), the
    refresh of the validators, the sweep of the grants, and the code the process ends with.
  \<^item> \<open>Session_Core\<close>: the validator's end of a session: the checks of a grant, its errors, the closing on
    every path, the classification of command failures.
  \<^item> \<open>Verify_Digest\<close>, \<open>Verify_Challenge\<close>, \<open>Verify_Checks\<close>: \<^verbatim>\<open>validator/verify/\<close>. The digest in Python against
    the digest of the C library (\<^verbatim>\<open>challenge/src\<close>) on 32 and 64 bit words, and when each check passes.
  \<^item> \<open>Verify_Scrape\<close>: \<^verbatim>\<open>validator/verify/scrape.py\<close> and the run of \<^verbatim>\<open>host_reality.py\<close>. A report is accepted only
    under the key of its own run, and its field names come back.
  \<^item> \<open>Rig_Challenge\<close>: \<^verbatim>\<open>validator/verify/payloads/challenge_runner.py\<close> and \<^verbatim>\<open>agent/hardware/challenge.py\<close>. The command
    line the validator builds, read by the runner on the rig, with the library of the validator, gives an
    answer that the check accepts.
  \<^item> \<open>Rig_Sbox\<close>, \<open>Rig_Cipher\<close>, \<open>Rig_System\<close>, \<open>Rig_Nvml\<close>, \<open>Rig_Scrape\<close>, \<open>Rig_Answer\<close>: \<^verbatim>\<open>validator/verify/payloads/scrape.py\<close>. The cipher
    the payload brings along is inverted by the inverse cipher of FIPS 197 and the Fernet specification; a
    card is complete whatever NVML answers (\<open>settles\<close>), and other field names change nothing but the names
    (\<open>renames\<close>); the rig finds names and key in the text it was sent, and an honest rig passes the scrape
    with its own report.
  \<^item> \<open>Rig_Reports\<close>: \<^verbatim>\<open>validator/verify/payloads/host_reality.py\<close> and \<^verbatim>\<open>inspector.py\<close>. The host check passes exactly on a real host; an
    honest rig passes the inspector, and the validator learns its processes.
  \<^item> \<open>Agent_Nvml\<close>, \<open>Agent_Hardware\<close>: \<^verbatim>\<open>agent/hardware/nvml.py\<close>, \<^verbatim>\<open>host.py\<close>, \<^verbatim>\<open>spec.py\<close>. The inventory is exact up to the first card that
    cannot be read; probes that start containers are ten minutes apart.
  \<^item> \<open>Agent_Views\<close>: the handlers of \<^verbatim>\<open>agent/api/routes.py\<close> that only read, the loading of the challenge library
    and the readers behind the attestation. What an attestation shows of the machine, and when the
    limit on log streams holds.
  \<^item> \<open>Configs\<close>, \<open>Commands\<close>: \<^verbatim>\<open>validator/config.py\<close>, \<^verbatim>\<open>agent/config.py\<close> and the commands of the two \<^verbatim>\<open>main.py\<close>. The
    bounds of the settings whatever the environment says, what a rig registers with, and that the exit code of the
    weights command tells whether weights were handed to the chain.
  \<^item> \<open>Schedule_Deep\<close>: \<^verbatim>\<open>validator/schedule/deep.py\<close>. A pass that is posted as passed ran every check and each
    passed; the early rigs of the express lane are served; the session directory is removed on every path;
    which answers end a pass without a verdict.
  \<^item> \<open>Validator_Process\<close>, \<open>Storage_Keys\<close>: \<^verbatim>\<open>validator/pool.py\<close>, \<^verbatim>\<open>validator/main.py\<close>, \<^verbatim>\<open>validator/storage/keys.py\<close>. Calls to
    the pool, registration, the spacing of weight submissions, releases; the passphrase of a volume.
  \<^item> \<open>Schedule_Express\<close>: \<^verbatim>\<open>validator/schedule/express.py\<close>. The lane refines a machine of outages (\<open>refines\<close>): a rig
    is put up for an early pass at its third failure in a row.
  \<^item> \<open>Work_Placement\<close>: \<^verbatim>\<open>validator/work/placement.py\<close>. Which rig is chosen and what may be displaced.
  \<^item> \<open>Remote_Host\<close>: work on a rig through a \<^verbatim>\<open>Runner\<close>. A rig is the answer to a command after the commands
    it has seen; an operation is a computation that appends commands and ends with a value or an
    exception. \<open>emits\<close> is a small calculus of what a computation may send.
  \<^item> \<open>Storage_Volumes\<close>, \<open>Work_Power\<close>, \<open>Work_Jobs\<close>, \<open>Work_Containers\<close>, \<open>Work_Undo\<close>: \<^verbatim>\<open>validator/storage/volumes.py\<close>,
    \<^verbatim>\<open>validator/work/power.py\<close>, \<^verbatim>\<open>validator/recovery/gpu_wedge.py\<close>, \<^verbatim>\<open>validator/work/containers.py\<close>. What the
    shell of the rig reads, which ports a job gets, that a failed creation is undone, that original power
    limits are kept, that volumes are removed only after their container.
  \<^item> \<open>Work_Recovery\<close>, \<open>Work_Drain\<close>: \<^verbatim>\<open>validator/storage/sweep.py\<close>, \<^verbatim>\<open>validator/recovery/device_cgroup.py\<close>,
    \<^verbatim>\<open>validator/recovery/teardown.py\<close>, \<^verbatim>\<open>validator/work/drain.py\<close>. The sweep removes no container of a running
    job, and a drain ends by its deadline.
  \<^item> This theory: the two ends of the wire composed. A request signed by the validator is accepted by the
    agent, a session opened over the wire is the session the agent granted, and a release signed by the
    validator is one the updater of the agent accepts.

  \<^bold>\<open>Reading of the code.\<close> Records are the classes, datatypes the enumerations, and operations are functions
  on explicit state. The clock, drawn random values, files and the answers of other programs are
  arguments. Code outside the repository is a parameter with the behaviour it documents as a hypothesis:
  SHA-256, the signature library, JSON, the SSH library, docker and the tools of the rig. A lock around
  a method makes its body one step; where the code releases the lock between two parts, the parts are
  separate steps and interleave (\<open>Agent_Grants\<close>).

  \<^bold>\<open>Numbers, bounds and fuel.\<close> Python integers are \<open>int\<close>, floats are exact rationals; a text that denotes no
  finite number is unreadable, but in \<open>Configs\<close>, where infinities and \<^verbatim>\<open>nan\<close> are values. Rounding is to even as in Python. The digests are on machine words. The
  floor redistribution runs on a fuel that is shown to suffice. The two waiting loops of \<^verbatim>\<open>containers.py\<close>
  that the source ends by a clock take the number of rounds as an argument, and the theorems hold for
  every number. The limits on the time of a command only decide which answer the rig gives.

  \<^bold>\<open>Not modelled.\<close> The argument parsers of the two processes, their signal handlers and the shutting down of their tasks; the HTTP
  and WebSocket libraries and the cancellation of asyncio tasks; the vendor's attestation library; the
  CUDA build of the challenge; developer scripts. The semaphores that limit what is in flight and the
  endless loops around a round are left out: the rounds themselves are modelled.
\<close>

section \<open>A signed request, from the validator to the agent\<close>

lemma strip_signature:
  assumes "\<forall>b \<in> set bs. b < 256"
  shows "strip (''0x'' @ tohex bs) = ''0x'' @ tohex bs"
  using tohex_lower_hex [OF assms]
  by (intro strip_no_space) (auto simp: list_all_iff is_lower_hex_def is_space_def Let_def)

text \<open>What the key library promises for a key pair: signatures are bytes, not empty, and verify
  under the address of the key.\<close>

definition signs_for :: "keypair_verify \<Rightarrow> Identity \<Rightarrow> bool" where
  "signs_for kp_verify i \<longleftrightarrow> id_hotkey i \<noteq> [] \<and> strip (id_hotkey i) = id_hotkey i
     \<and> (\<forall>m. id_sign i m \<noteq> [] \<and> length (id_sign i m) \<le> 255 \<and> (\<forall>b \<in> set (id_sign i m). b < 256)
          \<and> kp_verify (id_hotkey i) m (id_sign i m) = Some True)"

lemma signs_for_verifies:
  "signs_for kp_verify i \<Longrightarrow> verify_hotkey kp_verify (id_hotkey i) m (''0x'' @ tohex (id_sign i m))"
  unfolding signs_for_def by (intro verify_hotkey_hex) auto

lemma Identity_headers_read:
  assumes "Identity_headers now mthd path body i = (i', hs)" "signs_for kp_verify i"
  shows "header hs HEADER_HOTKEY = id_hotkey i" "header hs HEADER_TIMESTAMP = fmt_3f (Identity_stamp now i)"
    "header hs HEADER_SIGNATURE =
       ''0x'' @ tohex (id_sign i (signing_bytes mthd path (fmt_3f (Identity_stamp now i)) body))"
    "id_last_stamp i' = Identity_stamp now i"
proof -
  have f: "strip (fmt_3f x) = fmt_3f x" for x using fmt_3f_text(1) by (rule strip_no_space)
  note d = Identity_headers_def Identity_timestamp_def header_def HEADER_HOTKEY_def HEADER_TIMESTAMP_def
    HEADER_SIGNATURE_def dget_def Identity_sign_def Let_def
  show "header hs HEADER_HOTKEY = id_hotkey i" "header hs HEADER_TIMESTAMP = fmt_3f (Identity_stamp now i)"
    "id_last_stamp i' = Identity_stamp now i"
    using assms(1,2) f by (auto simp: d signs_for_def)
  show "header hs HEADER_SIGNATURE =
       ''0x'' @ tohex (id_sign i (signing_bytes mthd path (fmt_3f (Identity_stamp now i)) body))"
    using assms(1) strip_signature [of "id_sign i (signing_bytes mthd path (fmt_3f (Identity_stamp now i)) body)"]
      assms(2) by (auto simp: d signs_for_def)
qed

lemma headers_accepted:
  assumes "signs_for kp_verify i" "id_hotkey i \<in> vs_hotkeys validators"
    and "0 \<le> Identity_stamp now i" "\<bar>now' - Identity_stamp now i\<bar> \<le> window - 1 / 2000"
    and "Identity_headers now mthd path body i = (i', hs)"
  shows "check_request kp_verify validators mthd path hs body window now' = Inr (id_hotkey i)"
proof -
  note h = Identity_headers_read [OF assms(5,1)]
  let ?s = "Identity_stamp now i"
  have "\<bar>py_round_to 3 ?s - ?s\<bar> \<le> 1 / 2000" by (rule py_round_to_close)
  then have "\<bar>now' - py_round_to 3 ?s\<bar> \<le> window" using assms(4) by linarith
  then show ?thesis
    using assms(1,2) fmt_3f_text(2) h(1,2,3) signs_for_verifies [OF assms(1)] fmt_3f_parse [OF assms(3)]
    by (simp add: check_request_Inr signs_for_def)
qed

definition demo_identity :: Identity where
  "demo_identity = \<lparr>id_hotkey = ''5V'', id_sign = (\<lambda>m. [7]), id_last_stamp = 0\<rparr>"

lemma demo_identity_signs: "signs_for (\<lambda>h m b. Some (h = ''5V'' \<and> b = [7])) demo_identity"
proof -
  have "strip ''5V'' = ''5V''" by code_simp
  then show ?thesis by (simp add: signs_for_def demo_identity_def)
qed

text \<open>What the validator signs the agent accepts: the headers a validator makes for a request pass
  the agent's check for the same method, path and body, and name the validator, whenever its hotkey is
  in the agent's set, the two clocks agree within the window less the half millisecond that rounding
  takes, and the key library verifies what it signed. The stamps of one validator strictly increase,
  so no two of its requests carry the same stamp before rounding.\<close>

theorem signed_request_accepted:
  assumes "signs_for kp_verify i" "id_hotkey i \<in> vs_hotkeys validators"
    and "0 \<le> Identity_stamp now i" "\<bar>now' - Identity_stamp now i\<bar> \<le> window - 1 / 2000"
    and "Identity_headers now mthd path body i = (i', hs)"
  shows "check_request kp_verify validators mthd path hs body window now' = Inr (id_hotkey i)
    \<and> id_last_stamp i < id_last_stamp i'"
  using headers_accepted [OF assms] Identity_headers_read(4) [OF assms(5,1)]
  by (simp add: Identity_stamp_def max_def)

theorem signed_request_accepted_witness:
  "\<exists>i' hs. Identity_headers 1000 ''POST'' ''/jobs'' ''{}'' demo_identity = (i', hs)
    \<and> check_request (\<lambda>h m b. Some (h = ''5V'' \<and> b = [7]))
        \<lparr>vs_hotkeys = {''5V''}, vs_updated_at = 0, vs_source = ''server'', vs_file = None, vs_path = False\<rparr>
        ''POST'' ''/jobs'' hs ''{}'' 30 1020 = Inr ''5V''"
proof -
  let ?vs = "\<lparr>vs_hotkeys = {''5V''}, vs_updated_at = 0, vs_source = ''server'', vs_file = None, vs_path = False\<rparr>"
  obtain i' hs where r: "Identity_headers 1000 ''POST'' ''/jobs'' ''{}'' demo_identity = (i', hs)" by fastforce
  have st: "Identity_stamp 1000 demo_identity = 1000" by (simp add: Identity_stamp_def demo_identity_def)
  show ?thesis
    using r signed_request_accepted [OF demo_identity_signs _ _ _ r, of ?vs 1020 30]
    by (simp add: st) (simp add: demo_identity_def)
qed

section \<open>A session, end to end\<close>

text \<open>The way of a request from the validator to the agent and back: the body is the JSON text of
  the payload, signed by the validator; the answer is read by the validator's client. \<open>dumps\<close> and
  \<open>loads\<close> are the JSON library's.\<close>

definition wire_request :: "(pydict \<Rightarrow> string) \<Rightarrow> Identity \<Rightarrow> rat \<Rightarrow> string \<Rightarrow> pydict \<Rightarrow> HttpRequest" where
  "wire_request dumps i now path d =
     \<lparr>rq_method = ''POST'', rq_path = path, rq_headers = snd (Identity_headers now ''POST'' path (dumps d) i),
      rq_body = dumps d\<rparr>"

definition wire_answer :: "(pydict \<Rightarrow> string) \<Rightarrow> json_loads \<Rightarrow> http_error + pydict \<Rightarrow> http_answer" where
  "wire_answer dumps loads r =
     (case r of
        Inl (status, detail) \<Rightarrow> HttpAnswer (int status) (dumps [(''detail'', PStr detail)]) (loads (dumps [(''detail'', PStr detail)]))
      | Inr d \<Rightarrow> HttpAnswer 200 (dumps d) (loads (dumps d)))"

definition agent_post ::
  "(string \<Rightarrow> nat list) \<Rightarrow> keypair_verify \<Rightarrow> (pydict \<Rightarrow> string) \<Rightarrow> json_loads \<Rightarrow> (pydict \<Rightarrow> string) \<Rightarrow> Identity \<Rightarrow> rat
    \<Rightarrow> rat \<Rightarrow> Runtime \<Rightarrow> string \<Rightarrow> pydict \<Rightarrow> AgentError + pydict" where
  "agent_post sha256 kp_verify dumps loads message i now now' rt path d =
     call_answer ''POST'' path (wire_answer dumps loads
       (if path = SESSION_OPEN_PATH
        then snd (session_open sha256 kp_verify loads message False (wire_request dumps i now path d) now' rt)
        else snd (session_close kp_verify loads message (wire_request dumps i now path d) now' rt)))"

lemma lower_hex_lower: "list_all is_lower_hex h \<Longrightarrow> lower h = h"
proof -
  have "lower_char c = c" if "is_lower_hex c" for c
    using that by (auto simp: lower_char_def is_lower_hex_def Let_def)
  then show "list_all is_lower_hex h \<Longrightarrow> lower h = h" by (auto simp: lower_def list_all_iff intro!: map_idI)
qed

lemma lower_hex_strip: "list_all is_lower_hex h \<Longrightarrow> strip h = h"
  using lower_hex_not_space by (intro strip_no_space) (auto simp: list_all_iff)

lemma open_request_read:
  assumes "signs_for kp_verify i" "strip public_key = public_key" "list_all is_lower_hex nonce"
  shows "SessionOpen_from_payload (SessionOpen_payload (open_request i public_key nonce)) = open_request i public_key nonce"
  using session_open.dec_enc [of "open_request i public_key nonce"] assms strip_signature
    lower_hex_lower [OF assms(3)] lower_hex_strip [OF assms(3)]
  by (simp add: open_request_def Identity_sign_def signs_for_def)

text \<open>An agent that can write its key file opens what an active validator asks for.\<close>

lemma grants_open_succeeds:
  assumes "SessionOpen_problems request = []" "canonical (so_public_key request) = Some key"
    and "verify_hotkey kp_verify h (SessionOpen_blob request) (so_signature request)"
    and "snd (nonce_accept (so_nonce request) now (g_nonces g))" "kf_writable (g_keys g)"
  shows "\<exists>g' e.
    grants_open sha256 kp_verify cfg hw request (h # hotkeys) now g =
      (g', Inr (open_answer cfg request h (host_key_line (hw_host_key_file hw)) (now + g_ttl g) e))
    \<and> attestation_build sha256 hw (so_nonce request) (host_key_line (hw_host_key_file hw)) now = Some e
    \<and> kf_writable (g_keys g')"
proof -
  let ?hk = "host_key_line (hw_host_key_file hw)" and ?sid = "take 16 (so_nonce request)"
  obtain nonces where "nonce_accept (so_nonce request) now (g_nonces g) = (nonces, True)"
    using assms(4) by (cases "nonce_accept (so_nonce request) now (g_nonces g)") simp
  then have chk: "open_check kp_verify request (h # hotkeys) now g = (g\<lparr>g_nonces := nonces\<rparr>, Inr (key, h))"
    using assms(1,2,3) verify_hotkey_ne [OF assms(3)] by (simp add: open_check_def Let_def)
  have "canonical key = Some key" using assms(2) canonical_idem by blast
  then obtain keys line where "keys_grant key ?sid (g_keys g) = Inr (keys, line)" "kf_writable keys"
    using assms(5) by (auto simp: keys_grant_def Let_def keys_write_def)
  moreover obtain e where "attestation_build sha256 hw (so_nonce request) ?hk now = Some e"
    using attestation_total [OF problems_nonce [OF assms(1)]] by blast
  ultimately show ?thesis
    by (auto simp: grants_open_def chk open_install_def Let_def)
qed

lemma length_tohex: "length (tohex bs) = 2 * length bs"
  by (induction bs) (simp_all add: tohex_def)

lemma open_body_accepted:
  assumes "signs_for kp_verify i" "public_key \<noteq> []" "length public_key \<le> 4096" "length nonce = 64"
  shows "SessionOpenBody (SessionOpen_payload (open_request i public_key nonce))
    = Some (SessionOpen_payload (open_request i public_key nonce))"
  using assms
  by (cases public_key)
    (auto simp: SessionOpenBody_def SessionOpen_payload_def text_field_def open_request_def Identity_sign_def
      length_tohex signs_for_def)

lemma report_data_bytes:
  assumes "\<forall>s. length (sha256 s) = 32 \<and> (\<forall>b \<in> set (sha256 s). b < 256)" "length n = 64" "list_all is_lower_hex n"
  shows "length (report_data sha256 k n) = 64" "\<forall>b \<in> set (report_data sha256 k n). b < 256"
proof -
  obtain bs where bs: "fromhex n = Some bs" "length bs = 32" using fromhex_lower_hex [of n] assms(2,3) by auto
  then show "length (report_data sha256 k n) = 64" using assms(1) by (simp add: report_data_def)
  have "\<forall>b \<in> set bs. b < 256" using fromhex_bytes [OF bs(1)] .
  then show "\<forall>b \<in> set (report_data sha256 k n). b < 256" using bs assms(1) by (auto simp: report_data_def)
qed

text \<open>The answer of an agent to a validator that opens a session with a fresh nonce.\<close>

lemma session_open_answers:
  assumes sig: "signs_for kp_verify i" "id_hotkey i \<in> vs_hotkeys (rt_validators rt)"
    and json: "\<forall>d. loads (dumps d) = Some (PDict d) \<and> dumps d \<noteq> []"
    and clock: "0 \<le> Identity_stamp now i" "\<bar>now' - Identity_stamp now i\<bar> \<le> rt_window rt - 1 / 2000"
    and key: "strip public_key = public_key" "well_formed_public_key public_key" "canonical public_key = Some key"
      "length public_key \<le> 4096"
    and nonce: "length nonce = 64" "list_all is_lower_hex nonce"
      "snd (nonce_accept nonce now' (g_nonces (rt_grants rt)))"
    and keys: "kf_writable (g_keys (rt_grants rt))"
  shows "\<exists>e. snd (session_open sha256 kp_verify loads message False
      (wire_request dumps i now SESSION_OPEN_PATH (SessionOpen_payload (open_request i public_key nonce))) now' rt)
      = Inr (SessionGrant_payload (open_answer (rt_settings rt) (open_request i public_key nonce) (id_hotkey i)
          (host_key_line (hw_host_key_file (rt_hardware rt))) (now' + g_ttl (rt_grants rt)) e))
    \<and> attestation_build sha256 (rt_hardware rt) nonce (host_key_line (hw_host_key_file (rt_hardware rt))) now' = Some e"
proof -
  let ?o = "open_request i public_key nonce"
  let ?rq = "wire_request dumps i now SESSION_OPEN_PATH (SessionOpen_payload ?o)"
  have pk: "public_key \<noteq> []"
    using key(3) strip_no_space [of "[]"] by (auto simp: canonical_def split_ws_Nil)
  obtain i' hs where hs: "Identity_headers now ''POST'' SESSION_OPEN_PATH (dumps (SessionOpen_payload ?o)) i = (i', hs)"
    by fastforce
  have req: "require_validator kp_verify ?rq now' rt = Inr (id_hotkey i)"
    using headers_accepted [OF sig clock hs] by (simp add: require_validator_def wire_request_def hs)
  have body: "parse_body loads message SessionOpenBody (rq_body ?rq) = Inr (SessionOpen_payload ?o)"
    using json open_body_accepted [OF sig(1) pk key(4) nonce(1)] by (simp add: parse_body_def wire_request_def)
  have "NONCE_PATTERN nonce" using nonce(1,2) NONCE_PATTERN_cases by blast
  then have probs: "SessionOpen_problems ?o = []"
    using key(2) by (simp add: SessionOpen_problems_def open_request_def well_formed_nonce_def Identity_sign_def)
  have ver: "verify_hotkey kp_verify (id_hotkey i) (SessionOpen_blob ?o) (so_signature ?o)"
    using signs_for_verifies [OF sig(1)] by (simp add: SessionOpen_blob_def open_request_def Identity_sign_def)
  have "so_public_key ?o = public_key" "so_nonce ?o = nonce" by (simp_all add: open_request_def)
  then obtain g' e where "grants_open sha256 kp_verify (rt_settings rt) (rt_hardware rt) ?o
      (id_hotkey i # filter (\<lambda>k. k \<noteq> id_hotkey i) (vs_list (rt_validators rt))) now' (rt_grants rt) =
      (g', Inr (open_answer (rt_settings rt) ?o (id_hotkey i)
          (host_key_line (hw_host_key_file (rt_hardware rt))) (now' + g_ttl (rt_grants rt)) e))"
    "attestation_build sha256 (rt_hardware rt) nonce (host_key_line (hw_host_key_file (rt_hardware rt))) now' = Some e"
    using grants_open_succeeds [OF probs _ ver _ keys] key(3) nonce(3) by metis
  then show ?thesis
    using req body open_request_read [OF sig(1) key(1) nonce(2)]
    by (simp add: session_open_def Let_def)
qed

text \<open>C1: Opening a session works end to end. A validator with an active hotkey and a clock within the
  agent's window, a fresh nonce of 64 lower case hexadecimal digits and a well-formed key gets a session
  from an agent that can write its key file: its signed request passes the agent's check, the body is
  accepted, the grant comes back readable and names the validator, and the attestation in it passes the
  validator's own verdict, with report data that match the host key and the nonce.\<close>

theorem session_end_to_end:
  assumes sig: "signs_for kp_verify i" "id_hotkey i \<in> vs_hotkeys (rt_validators rt)"
    and json: "\<forall>d. loads (dumps d) = Some (PDict d) \<and> dumps d \<noteq> []"
    and clock: "0 \<le> Identity_stamp now i" "\<bar>now' - Identity_stamp now i\<bar> \<le> rt_window rt - 1 / 2000"
    and key: "strip public_key = public_key" "well_formed_public_key public_key" "canonical public_key = Some key"
      "length public_key \<le> 4096"
    and nonce: "length nonce = 64" "list_all is_lower_hex nonce"
      "snd (nonce_accept nonce now' (g_nonces (rt_grants rt)))"
    and agent: "kf_writable (g_keys (rt_grants rt))" "host_key_line (hw_host_key_file (rt_hardware rt)) \<noteq> []"
      "cfg_ssh_user (rt_settings rt) \<noteq> []" "cfg_ssh_port (rt_settings rt) \<noteq> 0"
      "cfg_python_path (rt_settings rt) \<noteq> []" "cfg_root_dir (rt_settings rt) \<noteq> []"
    and sha: "\<forall>s. length (sha256 s) = 32 \<and> (\<forall>b \<in> set (sha256 s). b < 256)"
    and ssh: "\<forall>a p u k. connect a p u k = None"
  shows "\<exists>s sent. client_open sha256 (agent_post sha256 kp_verify dumps loads message i now now' rt) connect i
      rig_id address ssh_port public_key nonce = (BodyRan s, sent)
    \<and> sg_validator (s_grant s) = id_hotkey i \<and> s_report_data_ok s = Some True
    \<and> passed (attestation_verdict s seed)"
proof -
  let ?hk = "host_key_line (hw_host_key_file (rt_hardware rt))" and ?o = "open_request i public_key nonce"
  obtain e where ans: "snd (session_open sha256 kp_verify loads message False
      (wire_request dumps i now SESSION_OPEN_PATH (SessionOpen_payload ?o)) now' rt)
      = Inr (SessionGrant_payload (open_answer (rt_settings rt) ?o (id_hotkey i) ?hk (now' + g_ttl (rt_grants rt)) e))"
    and e: "attestation_build sha256 (rt_hardware rt) nonce ?hk now' = Some e"
    using session_open_answers [OF sig json clock key nonce agent(1)] by blast
  let ?g = "open_answer (rt_settings rt) ?o (id_hotkey i) ?hk (now' + g_ttl (rt_grants rt)) e"
  have post: "agent_post sha256 kp_verify dumps loads message i now now' rt SESSION_OPEN_PATH (SessionOpen_payload ?o)
      = Inr (SessionGrant_payload ?g)"
    using json by (simp add: agent_post_def ans wire_answer_def)
  have dec: "SessionGrant_from_payload (SessionGrant_payload ?g) = Inr ?g"
    using agent(4,5,6) by (intro session_grant.dec_enc) (simp add: open_answer_def)
  have att: "Attestation_from_payload (sg_gpu_attestation ?g) = Inr e"
    by (simp add: open_answer_def attestation.dec_enc)
  have ln: "lower (strip nonce) = nonce" using lower_hex_lower [OF nonce(2)] lower_hex_strip [OF nonce(2)] by simp
  have "well_formed_nonce nonce" using nonce(1,2) NONCE_PATTERN_cases well_formed_nonce_def by blast
  then have b: "bound_to e nonce" and r: "at_report_data_hex e = tohex (report_data sha256 ?hk nonce)"
    using attestation_total [of nonce sha256 "rt_hardware rt" ?hk now'] e ln agent(2) by auto
  have rep: "report_ok sha256 e ?hk nonce = Some True"
    using report_data_hex_ok [OF r report_data_bytes(2,1) [OF sha nonce(1,2)]] .
  have g: "sg_ssh_username ?g \<noteq> []" "sg_ssh_host_key ?g = ?hk" "sg_validator ?g = id_hotkey i"
    using agent(3) by (simp_all add: open_answer_def)
  obtain s where s: "make_session sha256 connect rig_id address ssh_port public_key nonce ?g = BodyRan s"
    "s_grant s = ?g" "s_bound s = bound_to e nonce" "s_report_data_ok s = report_ok sha256 e ?hk nonce"
    using ssh agent(2) by (simp add: make_session_def att g(1,2) Let_def)
  show ?thesis
    using post dec s b rep by (simp add: client_open_def Let_def attestation_verdict_def g(3))
qed

text \<open>A text form of payloads that can be read back, for concrete runs: payloads are countable.\<close>

instance pyval :: countable by countable_datatype

definition demo_dumps :: "pydict \<Rightarrow> string" where
  "demo_dumps d = replicate (Suc (to_nat d)) (CHR ''x'')"

definition demo_loads :: json_loads where
  "demo_loads s = Some (PDict (from_nat (length s - 1)))"

lemma demo_json: "\<forall>d. demo_loads (demo_dumps d) = Some (PDict d) \<and> demo_dumps d \<noteq> []"
  by (simp add: demo_loads_def demo_dumps_def)

theorem session_end_to_end_witness:
  "\<exists>s sent. client_open (\<lambda>s. replicate 32 1)
      (agent_post (\<lambda>s. replicate 32 1) (\<lambda>h m b. Some (h = ''5V'' \<and> b = [7])) demo_dumps demo_loads (\<lambda>d. []) demo_identity
        1000 1020 demo_runtime) (\<lambda>a p u k. None) demo_identity ''rig'' ''10.0.0.1'' 22 ''ssh-ed25519 AAAA'' (replicate 64 CHR ''a'')
      = (BodyRan s, sent) \<and> passed (attestation_verdict s ''1'')"
proof -
  have n: "length (replicate 64 CHR ''a'') = 64" "list_all is_lower_hex (replicate 64 CHR ''a'')"
    "snd (nonce_accept (replicate 64 CHR ''a'') 1020 (g_nonces (rt_grants demo_runtime)))"
    "kf_writable (g_keys (rt_grants demo_runtime))"
    "host_key_line (hw_host_key_file (rt_hardware demo_runtime)) \<noteq> []"
    "cfg_ssh_user (rt_settings demo_runtime) \<noteq> []" "cfg_ssh_port (rt_settings demo_runtime) \<noteq> 0"
    "cfg_python_path (rt_settings demo_runtime) \<noteq> []" "cfg_root_dir (rt_settings demo_runtime) \<noteq> []"
    by code_simp+
  have k: "strip ''ssh-ed25519 AAAA'' = ''ssh-ed25519 AAAA''" "well_formed_public_key ''ssh-ed25519 AAAA''"
    "canonical ''ssh-ed25519 AAAA'' = Some ''ssh-ed25519 AAAA''" "length ''ssh-ed25519 AAAA'' \<le> 4096"
    by code_simp+
  have c: "id_hotkey demo_identity \<in> vs_hotkeys (rt_validators demo_runtime)" "0 \<le> Identity_stamp 1000 demo_identity"
    "\<bar>1020 - Identity_stamp 1000 demo_identity\<bar> \<le> rt_window demo_runtime - 1 / 2000"
    by (simp_all add: demo_identity_def demo_runtime_def Identity_stamp_def)
  show ?thesis
    using session_end_to_end [OF demo_identity_signs c(1) demo_json c(2,3) k n, of "\<lambda>s. replicate 32 1" "\<lambda>a p u k. None"
        "\<lambda>d. []" "''rig''" "''10.0.0.1''" 22 "''1''"] by auto
qed

section \<open>A release, from the validator to the agent\<close>

text \<open>What the pool publishes of a release it was sent: the body of the request, with the signer's address.\<close>

definition published :: "string \<Rightarrow> pydict \<Rightarrow> pyval" where
  "published hotkey body = PDict [(''release'', PDict (body @ [(''validator'', PStr hotkey)]))]"



end
